(* ===== verification/Prelude.thy ===== *)
theory Prelude
  imports Main "HOL-Library.Word" "HOL-Library.AList"
begin

text \<open>
  Shared vocabulary of the ScatterWeb development: machine integers and byte strings
  (\<^verbatim>\<open>common/include/sw/types.hpp\<close>), C++ exceptions as values of a sum type, the
  lower-case hexadecimal rendering every daemon uses for its keys, the big-endian integer
  layouts of the wire formats, fixed-size array updates, and the association lists that
  stand for \<^verbatim>\<open>std::unordered_map\<close>.
\<close>

unbundle bit_operations_syntax

named_theorems res_simps \<open>rewriting of computations that may throw\<close>
named_theorems layout_simps \<open>lengths and offsets of fixed byte layouts\<close>

subsection \<open>Machine integers and byte strings\<close>

type_synonym u8 = "8 word"
type_synonym u16 = "16 word"
type_synonym u32 = "32 word"
type_synonym u64 = "64 word"
type_synonym bytes = "u8 list"

text \<open>\<^verbatim>\<open>std::array<uint8_t, N> a{}\<close>: N zero bytes.\<close>

definition zeros :: "nat \<Rightarrow> bytes" where
  "zeros n = replicate n 0"

text \<open>The bytes of a \<^verbatim>\<open>std::string_view\<close> (\<^verbatim>\<open>as_bytes\<close> of kdf.hpp).\<close>

definition as_bytes :: "string \<Rightarrow> bytes" where
  "as_bytes s = map of_char s"

definition of_bytes :: "bytes \<Rightarrow> string" where
  "of_bytes b = map (\<lambda>w. char_of (unat w)) b"

text \<open>\<^verbatim>\<open>std::copy(src.begin(), src.end(), dst.begin() + at)\<close> into a fixed-size array.\<close>

definition copy_at :: "nat \<Rightarrow> 'a list \<Rightarrow> 'a list \<Rightarrow> 'a list" where
  "copy_at at src dst = take at dst @ src @ drop (at + length src) dst"

text \<open>The elements \<^verbatim>\<open>[from, from + n)\<close> of an array.\<close>

definition slice :: "nat \<Rightarrow> nat \<Rightarrow> 'a list \<Rightarrow> 'a list" where
  "slice from n xs = take n (drop from xs)"

subsection \<open>Exceptions\<close>

datatype exn =
    Runtime_Error string
  | Db_Error string
  | Bad_Variant_Access
  | Invalid_Argument
  | Out_Of_Range

type_synonym 'a res = "exn + 'a"

definition rbind :: "'a res \<Rightarrow> ('a \<Rightarrow> 'b res) \<Rightarrow> 'b res" where
  "rbind r f = (case r of Inl e \<Rightarrow> Inl e | Inr x \<Rightarrow> f x)"

text \<open>\<^verbatim>\<open>if (c) throw std::runtime_error(msg);\<close>\<close>

definition throw_if :: "bool \<Rightarrow> string \<Rightarrow> unit res" where
  "throw_if c msg = (if c then Inl (Runtime_Error msg) else Inr ())"

text \<open>
  \<^verbatim>\<open>e.what()\<close>; the texts of the standard library's own exceptions are its own: the
  argument \<open>W\<close>.
\<close>

definition what :: "(exn \<Rightarrow> string) \<Rightarrow> exn \<Rightarrow> string" where
  "what W e = (case e of Runtime_Error s \<Rightarrow> s | Db_Error s \<Rightarrow> s | _ \<Rightarrow> W e)"

text \<open>A call that may end the process (\<^verbatim>\<open>std::terminate\<close>).\<close>

datatype 'a outcome = Returns 'a | Terminates

text \<open>A thread object: without a thread, with a running one, with one that has ended and is not joined.\<close>

datatype thread_state = No_Thread | Thread_Running | Thread_Ended

subsection \<open>Decimal numbers\<close>

text \<open>\<^verbatim>\<open>std::to_string\<close>.\<close>

fun show_nat :: "nat \<Rightarrow> string" where
  "show_nat n = (if n < 10 then [char_of (48 + n)] else show_nat (n div 10) @ [char_of (48 + n mod 10)])"

definition show_int :: "int \<Rightarrow> string" where
  "show_int i = (if i < 0 then CHR ''-'' # show_nat (nat (- i)) else show_nat (nat i))"

subsection \<open>Hexadecimal keys\<close>

definition hexdig :: "nat \<Rightarrow> char" where
  "hexdig n = (if n < 10 then char_of (48 + n) else char_of (87 + n))"

definition hex_byte :: "u8 \<Rightarrow> string" where
  "hex_byte b = [hexdig (unat b div 16), hexdig (unat b mod 16)]"

definition to_hex :: "bytes \<Rightarrow> string" where
  "to_hex bs = concat (map hex_byte bs)"

subsection \<open>Big-endian integers\<close>

text \<open>\<^verbatim>\<open>(x >> (8*i)) & 0xFF\<close> stored into a byte.\<close>

definition byte_at :: "nat \<Rightarrow> 'a::len word \<Rightarrow> u8" where
  "byte_at i x = ucast (drop_bit (8 * i) x AND 0xFF)"

definition be16 :: "u16 \<Rightarrow> bytes" where
  "be16 x = map (\<lambda>i. byte_at i x) [1, 0]"

definition be32 :: "u32 \<Rightarrow> bytes" where
  "be32 x = map (\<lambda>i. byte_at i x) [3, 2, 1, 0]"

definition be64 :: "u64 \<Rightarrow> bytes" where
  "be64 x = map (\<lambda>i. byte_at i x) [7, 6, 5, 4, 3, 2, 1, 0]"

definition rd16 :: "u8 \<Rightarrow> u8 \<Rightarrow> u16" where
  "rd16 a b = push_bit 8 (ucast a) OR ucast b"

definition rd32 :: "u8 \<Rightarrow> u8 \<Rightarrow> u8 \<Rightarrow> u8 \<Rightarrow> u32" where
  "rd32 a b c d = push_bit 24 (ucast a) OR push_bit 16 (ucast b)
     OR push_bit 8 (ucast c) OR ucast d"

subsection \<open>Signed 64-bit values\<close>

text \<open>The casts between \<^verbatim>\<open>int64_t\<close>, held as an \<open>int\<close> in range, and \<^verbatim>\<open>uint64_t\<close>.\<close>

definition int64_of :: "u64 \<Rightarrow> int" where
  "int64_of v = sint v"

definition u64_of_int64 :: "int \<Rightarrow> u64" where
  "u64_of_int64 i = word_of_int i"

definition int64_range :: "int \<Rightarrow> bool" where
  "int64_range i \<longleftrightarrow> - (2 ^ 63) \<le> i \<and> i < 2 ^ 63"

subsection \<open>Lemmas\<close>

lemma rbind_simps [simp, res_simps]:
  "rbind (Inl e) f = Inl e"
  "rbind (Inr x) f = f x"
  by (simp_all add: rbind_def)

lemma rbind_Inr_iff [res_simps]:
  "rbind r f = Inr y \<longleftrightarrow> (\<exists>x. r = Inr x \<and> f x = Inr y)"
  by (cases r) auto

lemma rbind_Inl_iff [res_simps]:
  "rbind r f = Inl e \<longleftrightarrow> r = Inl e \<or> (\<exists>x. r = Inr x \<and> f x = Inl e)"
  by (cases r) auto

lemma rbind_cong [fundef_cong]:
  "r = r' \<Longrightarrow> (\<And>x. r' = Inr x \<Longrightarrow> f x = g x) \<Longrightarrow> rbind r f = rbind r' g"
  by (cases r') auto

lemma throw_if_simps [simp, res_simps]:
  "throw_if False msg = Inr ()"
  "throw_if True msg = Inl (Runtime_Error msg)"
  by (simp_all add: throw_if_def)

lemma throw_if_Inr_iff [res_simps]: "throw_if c msg = Inr u \<longleftrightarrow> \<not> c"
  by (simp add: throw_if_def)

lemma int64_roundtrip: "int64_range i \<Longrightarrow> int64_of (u64_of_int64 i) = i"
  by (simp add: int64_range_def int64_of_def u64_of_int64_def signed_of_int
      signed_take_bit_int_eq_self)

lemma unat_inc:
  fixes x t :: u32
  assumes "x < t"
  shows "unat (x + 1) = unat x + 1"
proof -
  have "unat t < 2 ^ LENGTH(32)"
    by (rule unsigned_less)
  with assms have "unat x + 1 < 2 ^ 32"
    by (simp add: word_less_nat_alt)
  then show ?thesis
    by (simp add: unat_plus_if')
qed

lemma length_zeros [simp, layout_simps]: "length (zeros n) = n"
  by (simp add: zeros_def)

lemma take_zeros [simp]: "take k (zeros n) = zeros (min k n)"
  by (simp add: zeros_def)

lemma drop_zeros [simp]: "drop k (zeros n) = zeros (n - k)"
  by (simp add: zeros_def)

lemma length_as_bytes [simp, layout_simps]: "length (as_bytes s) = length s"
  by (simp add: as_bytes_def)

lemma of_char_u8_inj: "(of_char c :: u8) = of_char d \<longleftrightarrow> c = d"
proof
  assume "(of_char c :: u8) = of_char d"
  then have "(of_nat (of_char c) :: u8) = of_nat (of_char d)"
    by (simp only: of_nat_of_char)
  then have "unat (of_nat (of_char c) :: u8) = unat (of_nat (of_char d) :: u8)"
    by simp
  then have "(of_char c :: nat) mod 256 = of_char d mod 256"
    by (simp add: unat_of_nat)
  moreover have "(of_char c :: nat) < 256" "(of_char d :: nat) < 256"
    by (simp_all add: nat_of_char_less_256)
  ultimately have "(of_char c :: nat) = of_char d"
    by simp
  then show "c = d"
    by simp
qed simp

lemma as_bytes_inj [simp]: "as_bytes s = as_bytes t \<longleftrightarrow> s = t"
proof -
  have "inj (of_char :: char \<Rightarrow> u8)"
    by (rule injI) (simp add: of_char_u8_inj)
  then show ?thesis
    by (simp add: as_bytes_def inj_map_eq_map)
qed

lemma length_copy_at [simp, layout_simps]:
  "at + length src \<le> length dst \<Longrightarrow> length (copy_at at src dst) = length dst"
  by (simp add: copy_at_def)

lemma slice_copy_at [simp]:
  "at + length src \<le> length dst \<Longrightarrow> length src = n \<Longrightarrow> slice at n (copy_at at src dst) = src"
  by (simp add: slice_def copy_at_def)

lemma length_slice [simp, layout_simps]:
  "length (slice from n xs) = min n (length xs - from)"
  by (simp add: slice_def)

lemma slice_list_update [simp]:
  "i < from \<or> from + n \<le> i \<Longrightarrow> slice from n (xs[i := v]) = slice from n xs"
  by (auto simp: slice_def drop_update_swap drop_update_cancel take_update_cancel not_less)

lemma nth_copy_at:
  "at + length src \<le> length dst \<Longrightarrow> i < length dst \<Longrightarrow>
     copy_at at src dst ! i = (if at \<le> i \<and> i < at + length src then src ! (i - at) else dst ! i)"
  by (auto simp: copy_at_def nth_append min_def)

lemma take_copy_at [simp]: "k \<le> at \<Longrightarrow> at \<le> length dst \<Longrightarrow> take k (copy_at at src dst) = take k dst"
  by (simp add: copy_at_def min_def)

lemma slice_copy_at_other [simp]:
  assumes "at + length src \<le> length dst" "from + n \<le> at \<or> at + length src \<le> from" "from + n \<le> length dst"
  shows "slice from n (copy_at at src dst) = slice from n dst"
proof (rule nth_equalityI)
  show "length (slice from n (copy_at at src dst)) = length (slice from n dst)"
    using assms(1) by simp
  fix i
  assume "i < length (slice from n (copy_at at src dst))"
  then have "i < n" "from + i < length dst"
    using assms by auto
  then show "slice from n (copy_at at src dst) ! i = slice from n dst ! i"
    using assms by (auto simp: slice_def nth_copy_at)
qed

lemma copy_at_slice_id [simp]:
  assumes "at + n \<le> length dst"
  shows "copy_at at (slice at n dst) dst = dst"
proof -
  have "take n (drop at dst) @ drop (n + at) dst = drop at dst"
    by (metis append_take_drop_id drop_drop)
  with assms show ?thesis
    by (simp add: copy_at_def slice_def min_def add.commute)
qed

lemma slice_eq_takeI: "slice 0 n xs = take n xs"
  by (simp add: slice_def)

lemma show_nat_ascii: "c \<in> set (show_nat n) \<Longrightarrow> 48 \<le> (of_char c :: nat) \<and> (of_char c :: nat) \<le> 57"
proof (induction n rule: show_nat.induct)
  case (1 n)
  have dig: "(of_char (char_of (48 + k :: nat) :: char) :: nat) = 48 + k" if "k < 10" for k
    using that by (simp add: of_char_of)
  show ?case
  proof (cases "n < 10")
    case True
    with 1(2) dig [of n] show ?thesis
      by simp
  next
    case False
    with 1 dig [of "n mod 10"] show ?thesis
      by (subst (asm) (2) show_nat.simps) (auto simp del: show_nat.simps)
  qed
qed

subsubsection \<open>Hexadecimal keys are injective\<close>

lemma hexdig_inj: "m < 16 \<Longrightarrow> n < 16 \<Longrightarrow> hexdig m = hexdig n \<longleftrightarrow> m = n"
proof -
  assume mn: "m < 16" "n < 16"
  have code: "of_char (hexdig k) = (if k < 10 then 48 + k else 87 + k)" if "k < 16" for k :: nat
    using that by (simp add: hexdig_def of_char_of)
  show ?thesis
  proof
    assume "hexdig m = hexdig n"
    then have "(of_char (hexdig m) :: nat) = of_char (hexdig n)"
      by simp
    then show "m = n"
      using mn code [of m] code [of n] by (simp split: if_splits)
  qed simp
qed

lemma hex_byte_inj [simp]: "hex_byte a = hex_byte b \<longleftrightarrow> a = b"
proof
  assume eq: "hex_byte a = hex_byte b"
  have lt: "unat x < 256" for x :: u8
    using unsigned_less [of x] by simp
  have bnd: "unat x div 16 < 16" "unat x mod 16 < 16" for x :: u8
    using lt [of x] by (simp_all add: less_mult_imp_div_less)
  from eq have "unat a div 16 = unat b div 16" "unat a mod 16 = unat b mod 16"
    using bnd by (simp_all add: hex_byte_def hexdig_inj)
  then have "unat a = unat b"
    by (metis div_mult_mod_eq)
  then show "a = b"
    by (rule unsigned_word_eqI)
qed simp

lemma length_hex_byte [simp]: "length (hex_byte b) = 2"
  by (simp add: hex_byte_def)

lemma hex_byte_eq_Nil [simp]: "hex_byte b \<noteq> []"
  by (simp add: hex_byte_def)

lemma to_hex_simps [simp]:
  "to_hex [] = []"
  "to_hex (b # bs) = hex_byte b @ to_hex bs"
  by (simp_all add: to_hex_def)

lemma length_to_hex [simp, layout_simps]: "length (to_hex bs) = 2 * length bs"
  by (induction bs) auto

lemma to_hex_inj [simp]: "to_hex a = to_hex b \<longleftrightarrow> a = b"
proof
  show "to_hex a = to_hex b \<Longrightarrow> a = b"
  proof (induction a arbitrary: b)
    case Nil
    then show ?case
      by (cases b) (auto simp: hex_byte_def)
  next
    case (Cons x a)
    then show ?case
      by (cases b) (auto simp: append_eq_append_conv hex_byte_eq_Nil)
  qed
qed simp

subsubsection \<open>Big-endian integers\<close>

lemma length_be [simp, layout_simps]:
  "length (be16 x) = 2" "length (be32 y) = 4" "length (be64 z) = 8"
  by (simp_all add: be16_def be32_def be64_def)

lemma bit_byte_at: "bit (byte_at i x) n \<longleftrightarrow> n < 8 \<and> bit x (8 * i + n)"
  for x :: "'a::len word"
proof -
  have "(0xFF :: 'a word) = mask 8"
    by (simp add: mask_eq_exp_minus_1)
  then have "byte_at i x = ucast (drop_bit (8 * i) x AND mask 8)"
    by (simp only: byte_at_def)
  then show ?thesis
     by (auto simp: bit_simps dest: bit_imp_le_length)
qed

lemma rd16_be16: "rd16 (byte_at 1 x) (byte_at 0 x) = (x :: u16)"
  by (rule bit_word_eqI) (auto simp: rd16_def bit_simps bit_byte_at)

lemma rd32_be32:
  "rd32 (byte_at 3 x) (byte_at 2 x) (byte_at 1 x) (byte_at 0 x) = (x :: u32)"
proof (rule bit_word_eqI)
  fix n
  assume "n < LENGTH(32)"
  then consider "n < 8" | "8 \<le> n \<and> n < 16" | "16 \<le> n \<and> n < 24" | "24 \<le> n \<and> n < 32"
    by fastforce
  then show "bit (rd32 (byte_at 3 x) (byte_at 2 x) (byte_at 1 x) (byte_at 0 x)) n = bit x n"
    by cases (auto simp: rd32_def bit_simps bit_byte_at)
qed

lemma be32_inj [simp]: "be32 x = be32 y \<longleftrightarrow> x = y"
proof
  assume "be32 x = be32 y"
  then have "byte_at 3 x = byte_at 3 y" "byte_at 2 x = byte_at 2 y"
      "byte_at 1 x = byte_at 1 y" "byte_at 0 x = byte_at 0 y"
    by (simp_all add: be32_def)
  then show "x = y"
    using rd32_be32 [of x] rd32_be32 [of y] by simp
qed simp

lemma be64_inj [simp]: "be64 x = be64 y \<longleftrightarrow> x = y"
proof
  assume "be64 x = be64 y"
  then have eq: "byte_at i x = byte_at i y" if "i < 8" for i
    using that by (auto simp: be64_def less_Suc_eq numeral_eq_Suc)
  show "x = y"
  proof (rule bit_word_eqI)
    fix n
    assume "n < LENGTH(64)"
    then have "n div 8 < 8"
      by simp
    from eq [OF this] have "bit (byte_at (n div 8) x) (n mod 8) = bit (byte_at (n div 8) y) (n mod 8)"
      by simp
    then show "bit x n = bit y n"
      by (simp add: bit_byte_at)
  qed
qed simp

declare show_nat.simps [simp del]

end
