(* ===== verification/Crypto.thy ===== *)
theory Crypto
  imports Prelude
begin

text \<open>
  The wrappers of \<^verbatim>\<open>common/src/crypto\<close> over OpenSSL, libsodium and liboqs. The three
  libraries are not part of the repository: they are the fields of the record
  \<open>crypto_lib\<close>, an argument of every definition that uses them. Randomness drawn inside a
  library call (nonces, KEM and signature coins, key seeds) is an explicit argument. What the
  program relies on is stated by the predicates \<open>hash_ok\<close>, \<open>aead_ok\<close>, \<open>kem_ok\<close> and
  \<open>sig_ok\<close>: documented output lengths and the correctness of decryption, decapsulation and
  signature verification. Failure to allocate memory is outside the model.
\<close>

subsection \<open>The libraries as parameters\<close>

record crypto_lib =
  evp_sha3_256 :: "bytes \<Rightarrow> bytes"
  evp_shake256 :: "bytes \<Rightarrow> nat \<Rightarrow> bytes"
  hmac_sha3 :: "bytes \<Rightarrow> bytes \<Rightarrow> bytes"
  pwhash :: "string \<Rightarrow> bytes \<Rightarrow> bytes option"
  aes_available :: bool
  aead_encrypt :: "bytes \<Rightarrow> bytes \<Rightarrow> bytes \<Rightarrow> bytes \<Rightarrow> (bytes \<times> bytes) option"
  aead_decrypt :: "bytes \<Rightarrow> bytes \<Rightarrow> bytes \<Rightarrow> bytes \<Rightarrow> bytes \<Rightarrow> bytes option"
  kem_keypair :: "bytes \<Rightarrow> (bytes \<times> bytes) option"
  kem_encaps :: "bytes \<Rightarrow> bytes \<Rightarrow> (bytes \<times> bytes) option"
  kem_decaps :: "bytes \<Rightarrow> bytes \<Rightarrow> bytes option"
  sig_keypair :: "bytes \<Rightarrow> (bytes \<times> bytes) option"
  sig_sign :: "bytes \<Rightarrow> bytes \<Rightarrow> bytes \<Rightarrow> bytes option"
  sig_verify :: "bytes \<Rightarrow> bytes \<Rightarrow> bytes \<Rightarrow> bool"

subsection \<open>Sizes\<close>

definition AES256GCM_KEY_BYTES :: nat where "AES256GCM_KEY_BYTES = 32"
definition AES256GCM_NONCE_BYTES :: nat where "AES256GCM_NONCE_BYTES = 12"
definition AES256GCM_TAG_BYTES :: nat where "AES256GCM_TAG_BYTES = 16"
definition MLKEM768_PUBKEY_BYTES :: nat where "MLKEM768_PUBKEY_BYTES = 1184"
definition MLKEM768_PRIVKEY_BYTES :: nat where "MLKEM768_PRIVKEY_BYTES = 2400"
definition MLKEM768_CT_BYTES :: nat where "MLKEM768_CT_BYTES = 1088"
definition MLKEM768_SS_BYTES :: nat where "MLKEM768_SS_BYTES = 32"
definition MLDSA65_PUBKEY_BYTES :: nat where "MLDSA65_PUBKEY_BYTES = 1952"
definition MLDSA65_PRIVKEY_BYTES :: nat where "MLDSA65_PRIVKEY_BYTES = 4032"
definition MLDSA65_SIG_BYTES :: nat where "MLDSA65_SIG_BYTES = 3309"

lemmas size_defs [layout_simps] =
  AES256GCM_KEY_BYTES_def AES256GCM_NONCE_BYTES_def AES256GCM_TAG_BYTES_def
  MLKEM768_PUBKEY_BYTES_def MLKEM768_PRIVKEY_BYTES_def MLKEM768_CT_BYTES_def
  MLKEM768_SS_BYTES_def MLDSA65_PUBKEY_BYTES_def MLDSA65_PRIVKEY_BYTES_def
  MLDSA65_SIG_BYTES_def

subsection \<open>kdf.cpp\<close>

definition sha3_256 :: "crypto_lib \<Rightarrow> bytes \<Rightarrow> bytes" where
  "sha3_256 K d = evp_sha3_256 K d"

text \<open>The multi-part digests feed the parts to the context one after the other.\<close>

definition sha3_256_parts :: "crypto_lib \<Rightarrow> bytes list \<Rightarrow> bytes" where
  "sha3_256_parts K ps = evp_sha3_256 K (concat ps)"

definition shake256 :: "crypto_lib \<Rightarrow> bytes \<Rightarrow> nat \<Rightarrow> bytes" where
  "shake256 K d n = evp_shake256 K d n"

definition shake256_parts :: "crypto_lib \<Rightarrow> bytes list \<Rightarrow> nat \<Rightarrow> bytes" where
  "shake256_parts K ps n = evp_shake256 K (concat ps) n"

definition shake256_32 :: "crypto_lib \<Rightarrow> bytes \<Rightarrow> bytes" where
  "shake256_32 K d = shake256 K d 32"

definition shake256_32_parts :: "crypto_lib \<Rightarrow> bytes list \<Rightarrow> bytes" where
  "shake256_32_parts K ps = shake256_parts K ps 32"

definition hmac_sha3_256 :: "crypto_lib \<Rightarrow> bytes \<Rightarrow> bytes \<Rightarrow> bytes" where
  "hmac_sha3_256 K key d = hmac_sha3 K key d"

definition argon2id :: "crypto_lib \<Rightarrow> string \<Rightarrow> bytes \<Rightarrow> bytes res" where
  "argon2id K passphrase salt =
     (if length salt \<noteq> 16 then Inl (Runtime_Error ''Argon2id salt must be 16 bytes'')
      else case pwhash K passphrase salt of
             None \<Rightarrow> Inl (Runtime_Error ''Argon2id failed (out of memory?)'')
           | Some out \<Rightarrow> Inr out)"

subsection \<open>aes\_gcm.cpp\<close>

record aes_encrypted =
  ciphertext :: bytes
  tag :: bytes
  nonce :: bytes

text \<open>The nonce is the randomness \<^verbatim>\<open>aes_random_nonce\<close> drew.\<close>

definition aes_encrypt ::
  "crypto_lib \<Rightarrow> bytes \<Rightarrow> bytes \<Rightarrow> bytes \<Rightarrow> bytes \<Rightarrow> aes_encrypted res" where
  "aes_encrypt K rnd_nonce key plaintext ad =
     (if \<not> aes_available K
      then Inl (Runtime_Error ''AES-256-GCM not available (no hardware AES-NI)'')
      else case aead_encrypt K key rnd_nonce ad plaintext of
             None \<Rightarrow> Inl (Runtime_Error ''AES-256-GCM encrypt failed'')
           | Some (c, t) \<Rightarrow> Inr \<lparr>ciphertext = c, tag = t, nonce = rnd_nonce\<rparr>)"

definition aes_decrypt ::
  "crypto_lib \<Rightarrow> bytes \<Rightarrow> bytes \<Rightarrow> bytes \<Rightarrow> bytes \<Rightarrow> bytes \<Rightarrow> bytes res" where
  "aes_decrypt K key n c t ad =
     (if \<not> aes_available K
      then Inl (Runtime_Error ''AES-256-GCM not available (no hardware AES-NI)'')
      else case aead_decrypt K key n ad c t of
             None \<Rightarrow> Inl (Runtime_Error ''AES-256-GCM authentication failed'')
           | Some p \<Rightarrow> Inr p)"

subsection \<open>mlkem.cpp and mldsa.cpp\<close>

record key_pair =
  kp_pub :: bytes
  kp_priv :: bytes

definition mlkem_keygen :: "crypto_lib \<Rightarrow> bytes \<Rightarrow> key_pair res" where
  "mlkem_keygen K seed = (case kem_keypair K seed of
     None \<Rightarrow> Inl (Runtime_Error ''ML-KEM-768 keygen failed'')
   | Some (pub, priv) \<Rightarrow> Inr \<lparr>kp_pub = pub, kp_priv = priv\<rparr>)"

definition mlkem_encapsulate :: "crypto_lib \<Rightarrow> bytes \<Rightarrow> bytes \<Rightarrow> (bytes \<times> bytes) res" where
  "mlkem_encapsulate K seed pub = (case kem_encaps K seed pub of
     None \<Rightarrow> Inl (Runtime_Error ''ML-KEM-768 encapsulate failed'')
   | Some ct_ss \<Rightarrow> Inr ct_ss)"

definition mlkem_decapsulate :: "crypto_lib \<Rightarrow> bytes \<Rightarrow> bytes \<Rightarrow> bytes res" where
  "mlkem_decapsulate K priv ct = (case kem_decaps K priv ct of
     None \<Rightarrow> Inl (Runtime_Error ''ML-KEM-768 decapsulate failed'')
   | Some ss \<Rightarrow> Inr ss)"

definition mldsa_keygen :: "crypto_lib \<Rightarrow> bytes \<Rightarrow> key_pair res" where
  "mldsa_keygen K seed = (case sig_keypair K seed of
     None \<Rightarrow> Inl (Runtime_Error ''ML-DSA-65 keygen failed'')
   | Some (pub, priv) \<Rightarrow> Inr \<lparr>kp_pub = pub, kp_priv = priv\<rparr>)"

definition mldsa_sign :: "crypto_lib \<Rightarrow> bytes \<Rightarrow> bytes \<Rightarrow> bytes \<Rightarrow> bytes res" where
  "mldsa_sign K seed priv msg = (case sig_sign K seed priv msg of
     None \<Rightarrow> Inl (Runtime_Error ''ML-DSA-65 sign failed'')
   | Some s \<Rightarrow>
       if length s \<noteq> MLDSA65_SIG_BYTES
       then Inl (Runtime_Error ''ML-DSA-65 unexpected signature length'')
       else Inr s)"

definition mldsa_verify :: "crypto_lib \<Rightarrow> bytes \<Rightarrow> bytes \<Rightarrow> bytes \<Rightarrow> bool" where
  "mldsa_verify K pub msg s = sig_verify K pub msg s"

subsection \<open>What the libraries document\<close>

definition hash_ok :: "crypto_lib \<Rightarrow> bool" where
  "hash_ok K \<longleftrightarrow> (\<forall>d. length (evp_sha3_256 K d) = 32) \<and> (\<forall>d n. length (evp_shake256 K d n) = n)"

definition aead_ok :: "crypto_lib \<Rightarrow> bool" where
  "aead_ok K \<longleftrightarrow> aes_available K \<and>
     (\<forall>k n ad p. length k = 32 \<and> length n = 12 \<longrightarrow>
        (\<exists>c t. aead_encrypt K k n ad p = Some (c, t) \<and> length c = length p \<and> length t = 16 \<and>
               aead_decrypt K k n ad c t = Some p))"

definition kem_ok :: "crypto_lib \<Rightarrow> bool" where
  "kem_ok K \<longleftrightarrow>
     (\<forall>seed. \<exists>pub priv. kem_keypair K seed = Some (pub, priv) \<and>
        length pub = MLKEM768_PUBKEY_BYTES \<and> length priv = MLKEM768_PRIVKEY_BYTES \<and>
        (\<forall>s. \<exists>ct ss. kem_encaps K s pub = Some (ct, ss) \<and> length ct = MLKEM768_CT_BYTES \<and>
               length ss = MLKEM768_SS_BYTES \<and> kem_decaps K priv ct = Some ss))"

text \<open>A key pair the signature scheme generated, for which signing and verifying agree.\<close>

definition sig_pair :: "crypto_lib \<Rightarrow> bytes \<Rightarrow> bytes \<Rightarrow> bool" where
  "sig_pair K pub priv \<longleftrightarrow> length pub = MLDSA65_PUBKEY_BYTES \<and>
     (\<forall>s msg. \<exists>sg. sig_sign K s priv msg = Some sg \<and> length sg = MLDSA65_SIG_BYTES \<and>
        sig_verify K pub msg sg)"

definition kem_pair :: "crypto_lib \<Rightarrow> bytes \<Rightarrow> bytes \<Rightarrow> bool" where
  "kem_pair K pub priv \<longleftrightarrow>
     (\<forall>s. \<exists>ct ss. kem_encaps K s pub = Some (ct, ss) \<and> length ct = MLKEM768_CT_BYTES \<and>
        length ss = MLKEM768_SS_BYTES \<and> kem_decaps K priv ct = Some ss)"

subsection \<open>Consequences for the wrappers\<close>

lemma shake256_32_parts_length [simp]: "hash_ok K \<Longrightarrow> length (shake256_32_parts K ps) = 32"
  by (simp add: hash_ok_def shake256_32_parts_def shake256_parts_def)

lemma aes_roundtrip:
  assumes "aead_ok K" "length key = 32" "length n = 12"
  obtains e where "aes_encrypt K n key p ad = Inr e" "nonce e = n" "length (tag e) = 16"
    "length (ciphertext e) = length p"
    "aes_decrypt K key (nonce e) (ciphertext e) (tag e) ad = Inr p"
proof -
  from assms obtain c t where
    "aead_encrypt K key n ad p = Some (c, t)" "length c = length p" "length t = 16"
    "aead_decrypt K key n ad c t = Some p" "aes_available K"
    unfolding aead_ok_def by blast
  then show ?thesis
    by (intro that [of "\<lparr>ciphertext = c, tag = t, nonce = n\<rparr>"])
       (simp_all add: aes_encrypt_def aes_decrypt_def)
qed

lemma kem_ok_keygen:
  assumes "kem_ok K"
  obtains kp where "mlkem_keygen K seed = Inr kp" "kem_pair K (kp_pub kp) (kp_priv kp)"
    "length (kp_pub kp) = MLKEM768_PUBKEY_BYTES" "length (kp_priv kp) = MLKEM768_PRIVKEY_BYTES"
proof -
  from assms obtain pub priv where
    "kem_keypair K seed = Some (pub, priv)" "kem_pair K pub priv"
    "length pub = MLKEM768_PUBKEY_BYTES" "length priv = MLKEM768_PRIVKEY_BYTES"
    unfolding kem_ok_def kem_pair_def by metis
  then show ?thesis
    by (intro that [of "\<lparr>kp_pub = pub, kp_priv = priv\<rparr>"]) (simp_all add: mlkem_keygen_def)
qed

lemma kem_pair_roundtrip:
  assumes "kem_pair K pub priv"
  obtains ct ss where "mlkem_encapsulate K seed pub = Inr (ct, ss)"
    "mlkem_decapsulate K priv ct = Inr ss" "length ct = MLKEM768_CT_BYTES"
    "length ss = MLKEM768_SS_BYTES"
proof -
  from assms obtain ct ss where
    "kem_encaps K seed pub = Some (ct, ss)" "kem_decaps K priv ct = Some ss"
    "length ct = MLKEM768_CT_BYTES" "length ss = MLKEM768_SS_BYTES"
    unfolding kem_pair_def by blast
  then show ?thesis
    by (intro that [of ct ss]) (simp_all add: mlkem_encapsulate_def mlkem_decapsulate_def)
qed

lemma sig_pair_sign:
  assumes "sig_pair K pub priv"
  obtains sg where "mldsa_sign K seed priv msg = Inr sg" "mldsa_verify K pub msg sg"
    "length sg = MLDSA65_SIG_BYTES"
proof -
  from assms obtain sg where
    "sig_sign K seed priv msg = Some sg" "length sg = MLDSA65_SIG_BYTES" "sig_verify K pub msg sg"
    unfolding sig_pair_def by blast
  then show ?thesis
    by (intro that [of sg]) (simp_all add: mldsa_sign_def mldsa_verify_def)
qed

subsection \<open>An instance\<close>

text \<open>
  A concrete library that satisfies every predicate above: digests are folded sums of their
  input, the cipher sends the plaintext with a tag computed from key, nonce, associated data
  and plaintext, public keys are the padded private keys.
\<close>

definition fold_bytes :: "nat \<Rightarrow> bytes \<Rightarrow> bytes" where
  "fold_bytes n d = replicate n (fold (\<lambda>b h. 31 * h + b) d 7)"

definition pad_to :: "nat \<Rightarrow> bytes \<Rightarrow> bytes" where
  "pad_to n b = take n (b @ zeros n)"

definition demo_tag :: "bytes \<Rightarrow> bytes \<Rightarrow> bytes \<Rightarrow> bytes \<Rightarrow> bytes" where
  "demo_tag k n ad p = fold_bytes 16 (k @ n @ ad @ p)"

definition demo_crypto :: crypto_lib where
  "demo_crypto = \<lparr>
     evp_sha3_256 = fold_bytes 32,
     evp_shake256 = (\<lambda>d n. fold_bytes n d),
     hmac_sha3 = (\<lambda>k d. fold_bytes 32 (k @ d)),
     pwhash = (\<lambda>pw salt. Some (fold_bytes 32 (as_bytes pw @ salt))),
     aes_available = True,
     aead_encrypt = (\<lambda>k n ad p. Some (p, demo_tag k n ad p)),
     aead_decrypt = (\<lambda>k n ad c t. if t = demo_tag k n ad c then Some c else None),
     kem_keypair = (\<lambda>seed. Some (pad_to MLKEM768_PUBKEY_BYTES seed, pad_to MLKEM768_PRIVKEY_BYTES seed)),
     kem_encaps = (\<lambda>s pub. Some (pad_to MLKEM768_CT_BYTES s, fold_bytes 32 (pad_to MLKEM768_CT_BYTES s))),
     kem_decaps = (\<lambda>priv ct. Some (fold_bytes 32 ct)),
     sig_keypair = (\<lambda>seed. Some (pad_to MLDSA65_PUBKEY_BYTES seed, pad_to MLDSA65_PRIVKEY_BYTES seed)),
     sig_sign = (\<lambda>s priv msg. Some (fold_bytes MLDSA65_SIG_BYTES (take 32 priv @ msg))),
     sig_verify = (\<lambda>pub msg sg. sg = fold_bytes MLDSA65_SIG_BYTES (take 32 pub @ msg))\<rparr>"

lemma length_fold_bytes [simp]: "length (fold_bytes n d) = n"
  by (simp add: fold_bytes_def)

lemma length_pad_to [simp]: "length (pad_to n b) = n"
  by (simp add: pad_to_def)

lemma demo_hash_ok [simp]: "hash_ok demo_crypto"
  by (simp add: hash_ok_def demo_crypto_def)

lemma demo_aead_ok [simp]: "aead_ok demo_crypto"
  by (simp add: aead_ok_def demo_crypto_def demo_tag_def)

lemma demo_kem_ok [simp]: "kem_ok demo_crypto"
  by (simp add: kem_ok_def demo_crypto_def size_defs)

lemma demo_kem_pair [simp]: "kem_pair demo_crypto pub priv"
  by (simp add: kem_pair_def demo_crypto_def size_defs)

lemma demo_sig_pair [simp]:
  "sig_pair demo_crypto (zeros MLDSA65_PUBKEY_BYTES) (zeros MLDSA65_PRIVKEY_BYTES)"
  by (simp add: sig_pair_def demo_crypto_def size_defs)

end
