(* ===== verification/Cell.thy ===== *)
theory Cell
  imports Crypto
begin

text \<open>
  The fixed-size cell of the AnonRouter (\<^verbatim>\<open>anonrouter/src/cell.hpp\<close>, \<^verbatim>\<open>cell.cpp\<close>): 45
  bytes of header, 496 bytes of ciphertext and a 16-byte tag. A cell is a byte list of length
  \<open>CELL_SIZE\<close>; header fields are read and written at the offsets of the source.
\<close>

subsection \<open>Layout\<close>

definition CELL_SIZE :: nat where "CELL_SIZE = 557"
definition CELL_HEADER_SIZE :: nat where "CELL_HEADER_SIZE = 45"
definition CELL_PLAINTEXT_SIZE :: nat where "CELL_PLAINTEXT_SIZE = 496"
definition CELL_TAG_SIZE :: nat where "CELL_TAG_SIZE = 16"

lemmas cell_sizes [layout_simps] =
  CELL_SIZE_def CELL_HEADER_SIZE_def CELL_PLAINTEXT_SIZE_def CELL_TAG_SIZE_def

text \<open>
  \<^verbatim>\<open>CellType\<close> is an enumeration over a byte, cast from the wire without a check: \<open>CT_Other\<close>
  holds the bytes that are no enumerator.
\<close>

datatype cell_type =
    CT_DATA | CT_RECRUIT_IN | CT_RECRUIT_OUT | CT_RECRUIT_RV | CT_RECRUIT_OK
  | CT_RECRUIT_FULL | CT_RECRUIT_CHOKED | CT_DATA_ACK | CT_KEEPALIVE
  | CT_CHAN_OPEN | CT_CHAN_ACCEPT | CT_Other u8

fun cell_type_byte :: "cell_type \<Rightarrow> u8" where
  "cell_type_byte CT_DATA = 0x01"
| "cell_type_byte CT_RECRUIT_IN = 0x10"
| "cell_type_byte CT_RECRUIT_OUT = 0x11"
| "cell_type_byte CT_RECRUIT_RV = 0x12"
| "cell_type_byte CT_RECRUIT_OK = 0x13"
| "cell_type_byte CT_RECRUIT_FULL = 0x14"
| "cell_type_byte CT_RECRUIT_CHOKED = 0x15"
| "cell_type_byte CT_DATA_ACK = 0x20"
| "cell_type_byte CT_KEEPALIVE = 0x30"
| "cell_type_byte CT_CHAN_OPEN = 0x40"
| "cell_type_byte CT_CHAN_ACCEPT = 0x41"
| "cell_type_byte (CT_Other b) = b"

definition cell_type_of :: "u8 \<Rightarrow> cell_type" where
  "cell_type_of b =
     (if b = 0x01 then CT_DATA else if b = 0x10 then CT_RECRUIT_IN
      else if b = 0x11 then CT_RECRUIT_OUT else if b = 0x12 then CT_RECRUIT_RV
      else if b = 0x13 then CT_RECRUIT_OK else if b = 0x14 then CT_RECRUIT_FULL
      else if b = 0x15 then CT_RECRUIT_CHOKED else if b = 0x20 then CT_DATA_ACK
      else if b = 0x30 then CT_KEEPALIVE else if b = 0x40 then CT_CHAN_OPEN
      else if b = 0x41 then CT_CHAN_ACCEPT else CT_Other b)"

record cell_header =
  version :: u8
  ch_type :: cell_type
  session_tok :: bytes
  path_index :: u8
  seq_num :: u32
  send_ts_ms :: u32
  garlic_len :: u16

text \<open>\<^verbatim>\<open>CellHeader hdr;\<close> with its default member initialisers.\<close>

definition default_header :: cell_header where
  "default_header = \<lparr>version = 1, ch_type = CT_DATA, session_tok = zeros 32, path_index = 0,
     seq_num = 0, send_ts_ms = 0, garlic_len = 0\<rparr>"

subsection \<open>Operations\<close>

definition cell_nonce :: "bytes \<Rightarrow> u32 \<Rightarrow> bytes" where
  "cell_nonce tok seq =
     (copy_at 0 (take 8 tok) (zeros 12))
       [8 := byte_at 3 seq, 9 := byte_at 2 seq, 10 := byte_at 1 seq, 11 := byte_at 0 seq]"

definition cell_write_header :: "bytes \<Rightarrow> cell_header \<Rightarrow> bytes" where
  "cell_write_header cell h =
     (copy_at 2 (session_tok h) (cell[0 := version h, 1 := cell_type_byte (ch_type h)]))
       [34 := path_index h,
        35 := byte_at 3 (seq_num h), 36 := byte_at 2 (seq_num h),
        37 := byte_at 1 (seq_num h), 38 := byte_at 0 (seq_num h),
        39 := byte_at 3 (send_ts_ms h), 40 := byte_at 2 (send_ts_ms h),
        41 := byte_at 1 (send_ts_ms h), 42 := byte_at 0 (send_ts_ms h),
        43 := byte_at 1 (garlic_len h), 44 := byte_at 0 (garlic_len h)]"

definition cell_read_header :: "bytes \<Rightarrow> cell_header" where
  "cell_read_header cell = \<lparr>
     version = cell ! 0,
     ch_type = cell_type_of (cell ! 1),
     session_tok = slice 2 32 cell,
     path_index = cell ! 34,
     seq_num = rd32 (cell ! 35) (cell ! 36) (cell ! 37) (cell ! 38),
     send_ts_ms = rd32 (cell ! 39) (cell ! 40) (cell ! 41) (cell ! 42),
     garlic_len = rd16 (cell ! 43) (cell ! 44)\<rparr>"

text \<open>
  \<open>rnd\<close> is the nonce drawn by the first, discarded \<^verbatim>\<open>aes_encrypt\<close>; the cell carries the
  second encryption, under the nonce derived from the header.
\<close>

definition cell_build ::
  "crypto_lib \<Rightarrow> bytes \<Rightarrow> cell_header \<Rightarrow> bytes \<Rightarrow> bytes \<Rightarrow> bytes res" where
  "cell_build K rnd hdr key garlic_data =
     (if length garlic_data > CELL_PLAINTEXT_SIZE
      then Inl (Runtime_Error ''garlic_data exceeds cell payload capacity'')
      else
        let cell = cell_write_header (zeros CELL_SIZE) hdr;
            plaintext = copy_at 0 garlic_data (zeros CELL_PLAINTEXT_SIZE);
            nonce = cell_nonce (session_tok hdr) (seq_num hdr);
            ad = take CELL_HEADER_SIZE cell
        in rbind (aes_encrypt K rnd key plaintext ad) (\<lambda>_.
             case aead_encrypt K key nonce ad plaintext of
               None \<Rightarrow> Inl (Runtime_Error ''cell_build: AES-GCM encrypt failed'')
             | Some (ct, tg) \<Rightarrow>
                 Inr (copy_at (CELL_HEADER_SIZE + CELL_PLAINTEXT_SIZE) tg
                       (copy_at CELL_HEADER_SIZE ct cell))))"

record decoded_cell =
  header :: cell_header
  garlic_data :: bytes

definition cell_decode :: "crypto_lib \<Rightarrow> bytes \<Rightarrow> bytes \<Rightarrow> decoded_cell res" where
  "cell_decode K cell key =
     (let hdr = cell_read_header cell;
          nonce = cell_nonce (session_tok hdr) (seq_num hdr);
          ad = take CELL_HEADER_SIZE cell;
          ct = slice CELL_HEADER_SIZE CELL_PLAINTEXT_SIZE cell;
          tg = slice (CELL_HEADER_SIZE + CELL_PLAINTEXT_SIZE) CELL_TAG_SIZE cell
      in case aead_decrypt K key nonce ad ct tg of
           None \<Rightarrow> Inl (Runtime_Error ''cell_decode: AES-GCM authentication failed'')
         | Some plaintext \<Rightarrow>
             if unat (garlic_len hdr) > CELL_PLAINTEXT_SIZE
             then Inl (Runtime_Error ''cell_decode: garlic_len out of bounds'')
             else Inr \<lparr>header = hdr, garlic_data = take (unat (garlic_len hdr)) plaintext\<rparr>)"

definition cell_session_tok :: "bytes \<Rightarrow> bytes" where
  "cell_session_tok cell = slice 2 32 cell"

definition cell_set_session_tok :: "bytes \<Rightarrow> bytes \<Rightarrow> bytes" where
  "cell_set_session_tok cell new_tok = copy_at 2 new_tok cell"

subsection \<open>Fields of a buffer\<close>

text \<open>
  The interface relays and endpoints share: a field that can be read from and written into a
  buffer, where the last write wins.
\<close>

locale buffer_field =
  fixes wf_buf :: "'b \<Rightarrow> bool" and wf_val :: "'v \<Rightarrow> bool"
    and get :: "'b \<Rightarrow> 'v" and put :: "'b \<Rightarrow> 'v \<Rightarrow> 'b"
  assumes wf_put: "wf_buf b \<Longrightarrow> wf_val v \<Longrightarrow> wf_buf (put b v)"
    and get_put: "wf_buf b \<Longrightarrow> wf_val v \<Longrightarrow> get (put b v) = v"
begin

lemma put_inject: "wf_buf b \<Longrightarrow> wf_val v \<Longrightarrow> wf_val w \<Longrightarrow> put b v = put b w \<longleftrightarrow> v = w"
  by (metis get_put)

lemma get_after_writes:
  assumes "wf_buf b" "list_all wf_val vs" "vs \<noteq> []"
  shows "wf_buf (foldl put b vs) \<and> get (foldl put b vs) = last vs"
  using assms
proof (induction vs arbitrary: b)
  case (Cons x xs)
  then show ?case by (cases xs) (simp_all add: wf_put get_put)
qed simp

end

definition wf_cell :: "bytes \<Rightarrow> bool" where
  "wf_cell c \<longleftrightarrow> length c = CELL_SIZE"

definition wf_header :: "cell_header \<Rightarrow> bool" where
  "wf_header h \<longleftrightarrow> length (session_tok h) = 32 \<and> cell_type_of (cell_type_byte (ch_type h)) = ch_type h"

lemma length_write_header [simp]:
  "length (session_tok h) = 32 \<Longrightarrow> length c = CELL_SIZE \<Longrightarrow> length (cell_write_header c h) = CELL_SIZE"
  by (simp add: cell_write_header_def cell_sizes)

lemma read_write_header:
  assumes "length c = CELL_SIZE" "wf_header h"
  shows "cell_read_header (cell_write_header c h) = h"
  using assms
  by (simp add: cell_read_header_def cell_write_header_def wf_header_def cell_sizes nth_copy_at
      rd32_be32 [unfolded One_nat_def] rd16_be16 [unfolded One_nat_def])

lemma cell_session_tok_header: "cell_session_tok c = session_tok (cell_read_header c)"
  by (simp add: cell_session_tok_def cell_read_header_def)

interpretation cell_hdr: buffer_field wf_cell wf_header cell_read_header cell_write_header
  by unfold_locales (auto simp: wf_cell_def read_write_header wf_header_def)

interpretation cell_tok: buffer_field wf_cell "\<lambda>t. length t = 32" cell_session_tok cell_set_session_tok
  by unfold_locales (auto simp: wf_cell_def cell_sizes cell_session_tok_def cell_set_session_tok_def)

subsection \<open>Nonces\<close>

lemma cell_nonce_append:
  assumes "length tok = 32"
  shows "cell_nonce tok seq = take 8 tok @ be32 seq"
proof -
  from assms obtain t0 t1 t2 t3 t4 t5 t6 t7 where "take 8 tok = [t0, t1, t2, t3, t4, t5, t6, t7]"
    by (auto simp: numeral_eq_Suc length_Suc_conv)
  then show ?thesis
    by (simp add: cell_nonce_def copy_at_def be32_def zeros_def numeral_eq_Suc)
qed

lemma length_cell_nonce [simp]: "length tok = 32 \<Longrightarrow> length (cell_nonce tok seq) = 12"
  by (simp add: cell_nonce_append)

text \<open>
  The AES-GCM nonce of a cell is fresh exactly as long as the pair of the first eight token
  bytes and the sequence number is.
\<close>

theorem cell_nonce_eq_iff:
  assumes "length tok = 32" "length tok' = 32"
  shows "cell_nonce tok seq = cell_nonce tok' seq' \<longleftrightarrow> take 8 tok = take 8 tok' \<and> seq = seq'"
  using assms by (simp add: cell_nonce_append)

theorem cell_nonce_eq_iff_witness:
  "cell_nonce (zeros 32) 5 = cell_nonce (zeros 31 @ [1]) 5 \<and> cell_nonce (zeros 32) 5 \<noteq> cell_nonce (zeros 32) 6"
  using cell_nonce_eq_iff [of "zeros 32" "zeros 31 @ [1]" 5 5]
    cell_nonce_eq_iff [of "zeros 32" "zeros 32" 5 6]
  by simp

subsection \<open>Building and decoding\<close>

lemma read_header_copy_at:
  assumes "length c = CELL_SIZE" "CELL_HEADER_SIZE \<le> at" "at + length x \<le> CELL_SIZE"
  shows "cell_read_header (copy_at at x c) = cell_read_header c"
  using assms by (simp add: cell_read_header_def nth_copy_at cell_sizes)

text \<open>
  The ciphertext and the tag a cell carries are what AES-GCM makes of \<open>plaintext\<close> under \<open>key\<close> and the nonce \<open>iv\<close>, with the
  header as associated data.
\<close>

definition cell_sealed :: "crypto_lib \<Rightarrow> bytes \<Rightarrow> bytes \<Rightarrow> bytes \<Rightarrow> bytes \<Rightarrow> bool" where
  "cell_sealed K key iv plaintext cell \<longleftrightarrow>
     aead_encrypt K key iv (take CELL_HEADER_SIZE cell) plaintext =
       Some (slice CELL_HEADER_SIZE CELL_PLAINTEXT_SIZE cell, slice (CELL_HEADER_SIZE + CELL_PLAINTEXT_SIZE) CELL_TAG_SIZE cell)"

lemma cell_build_ok:
  assumes "aead_ok K" "length key = 32" "length rnd = 12" "wf_header hdr"
    "length g \<le> CELL_PLAINTEXT_SIZE"
  obtains c ct tg where
    "cell_build K rnd hdr key g = Inr c" "length c = CELL_SIZE"
    "cell_read_header c = hdr"
    "take CELL_HEADER_SIZE c = take CELL_HEADER_SIZE (cell_write_header (zeros CELL_SIZE) hdr)"
    "slice CELL_HEADER_SIZE CELL_PLAINTEXT_SIZE c = ct"
    "slice (CELL_HEADER_SIZE + CELL_PLAINTEXT_SIZE) CELL_TAG_SIZE c = tg"
    "aead_decrypt K key (cell_nonce (session_tok hdr) (seq_num hdr)) (take CELL_HEADER_SIZE c) ct tg
       = Some (g @ zeros (CELL_PLAINTEXT_SIZE - length g))"
    "cell_sealed K key (cell_nonce (session_tok hdr) (seq_num hdr)) (g @ zeros (CELL_PLAINTEXT_SIZE - length g)) c"
proof -
  let ?h = "cell_write_header (zeros CELL_SIZE) hdr"
  let ?p = "copy_at 0 g (zeros CELL_PLAINTEXT_SIZE)"
  let ?n = "cell_nonce (session_tok hdr) (seq_num hdr)"
  let ?ad = "take CELL_HEADER_SIZE ?h"
  have tok: "length (session_tok hdr) = 32"
    using assms(4) by (simp add: wf_header_def)
  have h: "length ?h = CELL_SIZE"
    using tok by simp
  have p: "length ?p = CELL_PLAINTEXT_SIZE" "?p = g @ zeros (CELL_PLAINTEXT_SIZE - length g)"
    using assms(5) by (simp, simp add: copy_at_def)
  have "length ?n = 12"
    using tok by simp
  with assms(1,2) obtain ct tg where enc:
      "aead_encrypt K key ?n ?ad ?p = Some (ct, tg)" "length ct = length ?p" "length tg = 16"
      "aead_decrypt K key ?n ?ad ct tg = Some ?p"
    unfolding aead_ok_def by blast
  obtain e where e: "aes_encrypt K rnd key ?p ?ad = Inr e"
    using aes_roundtrip [OF assms(1,2,3)] by metis
  let ?c = "copy_at (CELL_HEADER_SIZE + CELL_PLAINTEXT_SIZE) tg (copy_at CELL_HEADER_SIZE ct ?h)"
  have len: "length ct = 496" "length tg = 16" "length ?h = 557"
    using enc p h by (simp_all add: cell_sizes)
  have "cell_build K rnd hdr key g = Inr ?c"
    using assms(5) e enc by (simp add: cell_build_def Let_def)
  moreover have "length ?c = CELL_SIZE"
    using len by (simp add: cell_sizes)
  moreover have "cell_read_header ?c = hdr"
    using len assms(4) by (simp add: read_header_copy_at read_write_header cell_sizes)
  moreover have "take CELL_HEADER_SIZE ?c = ?ad"
    using len by (simp add: cell_sizes)
  moreover have "slice CELL_HEADER_SIZE CELL_PLAINTEXT_SIZE ?c = ct"
    using len by (simp add: cell_sizes)
  moreover have "slice (CELL_HEADER_SIZE + CELL_PLAINTEXT_SIZE) CELL_TAG_SIZE ?c = tg"
    using len by (simp add: cell_sizes)
  moreover from calculation have "cell_sealed K key ?n ?p ?c"
    using enc(1) by (simp add: cell_sealed_def)
  ultimately show ?thesis
    using that enc(4) p(2) by metis
qed

lemma cell_build_seals:
  assumes "aead_ok K" "length key = 32" "length rnd = 12" "wf_header hdr"
    "length g \<le> CELL_PLAINTEXT_SIZE" "cell_build K rnd hdr key g = Inr c"
  shows "cell_sealed K key (cell_nonce (session_tok hdr) (seq_num hdr)) (g @ zeros (CELL_PLAINTEXT_SIZE - length g)) c"
  using cell_build_ok [OF assms(1-5)] assms(6) by (metis Inr_inject)

lemma cell_decode_built:
  assumes "aead_ok K" "length key = 32" "length rnd = 12" "wf_header hdr"
    "length g \<le> CELL_PLAINTEXT_SIZE"
  shows "\<exists>c. cell_build K rnd hdr key g = Inr c \<and> length c = 557 \<and> cell_read_header c = hdr \<and>
    cell_decode K c key =
      (if unat (garlic_len hdr) > CELL_PLAINTEXT_SIZE
       then Inl (Runtime_Error ''cell_decode: garlic_len out of bounds'')
       else Inr \<lparr>header = hdr,
                 garlic_data = take (unat (garlic_len hdr)) (g @ zeros (CELL_PLAINTEXT_SIZE - length g))\<rparr>)"
proof -
  from cell_build_ok [OF assms] obtain c ct tg where
    "cell_build K rnd hdr key g = Inr c" "length c = CELL_SIZE" "cell_read_header c = hdr"
    "slice CELL_HEADER_SIZE CELL_PLAINTEXT_SIZE c = ct"
    "slice (CELL_HEADER_SIZE + CELL_PLAINTEXT_SIZE) CELL_TAG_SIZE c = tg"
    "aead_decrypt K key (cell_nonce (session_tok hdr) (seq_num hdr)) (take CELL_HEADER_SIZE c) ct tg
       = Some (g @ zeros (CELL_PLAINTEXT_SIZE - length g))"
    by metis
  then show ?thesis
    by (intro exI [of _ c]) (simp add: cell_decode_def Let_def CELL_SIZE_def)
qed

text \<open>
  C30. Every payload of at most 496 bytes under every well-formed header builds into a cell of
  557 bytes that carries the header in clear, and decoding the cell with the same key gives the
  header back with the first \<open>garlic_len\<close> bytes of the zero-padded payload: the payload itself
  when \<open>garlic_len\<close> is its length, an error when \<open>garlic_len\<close> exceeds the payload area.
\<close>

theorem cell_build_decode:
  assumes "aead_ok K" "length key = 32" "length rnd = 12" "wf_header hdr"
    "length g \<le> CELL_PLAINTEXT_SIZE"
  shows "\<exists>c. cell_build K rnd hdr key g = Inr c \<and> length c = 557 \<and> cell_read_header c = hdr \<and>
    cell_decode K c key =
      (if unat (garlic_len hdr) > CELL_PLAINTEXT_SIZE
       then Inl (Runtime_Error ''cell_decode: garlic_len out of bounds'')
       else Inr \<lparr>header = hdr,
                 garlic_data = take (unat (garlic_len hdr)) (g @ zeros (CELL_PLAINTEXT_SIZE - length g))\<rparr>)"
  using assms by (rule cell_decode_built)

definition demo_header :: cell_header where
  "demo_header = default_header\<lparr>seq_num := 7, garlic_len := 3\<rparr>"

theorem cell_build_decode_witness:
  "\<exists>c. cell_build demo_crypto (zeros 12) demo_header (zeros 32) [1, 2, 3] = Inr c \<and>
     cell_decode demo_crypto c (zeros 32) = Inr \<lparr>header = demo_header, garlic_data = [1, 2, 3]\<rparr>"
proof -
  have "wf_header demo_header" "unat (garlic_len demo_header) = 3"
    by (simp_all add: wf_header_def demo_header_def default_header_def cell_type_of_def)
  then show ?thesis
    using cell_build_decode [of demo_crypto "zeros 32" "zeros 12" demo_header "[1, 2, 3]"]
    by (auto simp: cell_sizes)
qed

text \<open>
  A payload that does not fit is refused before anything is encrypted.
\<close>

theorem cell_build_too_long:
  assumes "length g > 496"
  shows "cell_build K rnd hdr key g = Inl (Runtime_Error ''garlic_data exceeds cell payload capacity'')"
  using assms by (simp add: cell_build_def cell_sizes)

theorem cell_build_too_long_witness:
  "cell_build demo_crypto (zeros 12) demo_header (zeros 32) (zeros 497) =
     Inl (Runtime_Error ''garlic_data exceeds cell payload capacity'')"
  by (rule cell_build_too_long) simp

text \<open>
  Replacing the session token of a cell, as a relay does, changes that header field and
  nothing else of the cell; the recipient then decrypts under another nonce and other
  associated data than the sender used, unless the token is the old one.
\<close>

theorem cell_retoken:
  assumes "length c = CELL_SIZE" "length tok = 32"
  shows "cell_read_header (cell_set_session_tok c tok) = (cell_read_header c)\<lparr>session_tok := tok\<rparr> \<and>
    drop CELL_HEADER_SIZE (cell_set_session_tok c tok) = drop CELL_HEADER_SIZE c \<and>
    (take CELL_HEADER_SIZE (cell_set_session_tok c tok) = take CELL_HEADER_SIZE c
       \<longleftrightarrow> tok = cell_session_tok c)"
proof (intro conjI)
  let ?c = "cell_set_session_tok c tok"
  show "cell_read_header ?c = (cell_read_header c)\<lparr>session_tok := tok\<rparr>"
    using assms by (simp add: cell_read_header_def cell_set_session_tok_def nth_copy_at cell_sizes)
  show "drop CELL_HEADER_SIZE ?c = drop CELL_HEADER_SIZE c"
    using assms by (simp add: cell_set_session_tok_def copy_at_def cell_sizes)
  have get: "slice 2 32 (take 45 x) = slice 2 32 x" for x :: bytes
    by (simp add: slice_def drop_take)
  have same: "?c = c" if "tok = cell_session_tok c"
    using assms that by (simp add: cell_set_session_tok_def cell_session_tok_def cell_sizes)
  have "slice 2 32 ?c = tok"
    using assms by (simp add: cell_set_session_tok_def cell_sizes)
  then show "take CELL_HEADER_SIZE ?c = take CELL_HEADER_SIZE c \<longleftrightarrow> tok = cell_session_tok c"
    using same get [of ?c] get [of c] by (auto simp: cell_session_tok_def cell_sizes)
qed

theorem cell_retoken_witness:
  "cell_read_header (cell_set_session_tok (zeros 557) (replicate 32 9)) =
     (cell_read_header (zeros 557))\<lparr>session_tok := replicate 32 9\<rparr>"
  using cell_retoken [of "zeros 557" "replicate 32 9"] by (simp add: cell_sizes)

end
