(* ===== verification/Tables.thy ===== *)
theory Tables
  imports Prelude
begin

text \<open>
  The keyed tables of the AnonRouter. A \<^verbatim>\<open>std::unordered_map\<close> is an association list with
  distinct keys whose order is the order an iteration visits the entries in; the locales state
  the contract guard table, tunnel table, channel table and DHT store share: what a lookup
  returns after an insertion or a removal, whether or not the table may refuse an insertion.
\<close>

datatype ('e, 'k) table_op = Put 'e | Remove 'k

text \<open>A sequence of operations, and the same sequence on a plain map.\<close>

primrec run_ops ::
  "('s \<Rightarrow> 'e \<Rightarrow> 's \<times> bool) \<Rightarrow> ('s \<Rightarrow> 'k \<Rightarrow> 's) \<Rightarrow> 's \<Rightarrow> ('e, 'k) table_op list \<Rightarrow> 's" where
  "run_ops put remove s [] = s"
| "run_ops put remove s (p # ps) =
     run_ops put remove (case p of Put e \<Rightarrow> fst (put s e) | Remove k \<Rightarrow> remove s k) ps"

primrec spec_ops ::
  "('e \<Rightarrow> 'k) \<Rightarrow> ('e \<Rightarrow> 'v) \<Rightarrow> ('k \<Rightarrow> 'v option) \<Rightarrow> ('e, 'k) table_op list \<Rightarrow> ('k \<Rightarrow> 'v option)" where
  "spec_ops key_of val_of m [] = m"
| "spec_ops key_of val_of m (p # ps) = spec_ops key_of val_of
     (case p of Put e \<Rightarrow> m(key_of e \<mapsto> val_of e) | Remove k \<Rightarrow> m(k := None)) ps"

definition touches :: "('e \<Rightarrow> 'k) \<Rightarrow> 'k \<Rightarrow> ('e, 'k) table_op \<Rightarrow> bool" where
  "touches key_of k p \<longleftrightarrow> (case p of Put e \<Rightarrow> key_of e = k | Remove k' \<Rightarrow> k' = k)"

locale token_store =
  fixes key_of :: "'e \<Rightarrow> 'k" and val_of :: "'e \<Rightarrow> 'v"
    and put :: "'s \<Rightarrow> 'e \<Rightarrow> 's \<times> bool"
    and lookup :: "'s \<Rightarrow> 'k \<Rightarrow> 'v option"
    and remove :: "'s \<Rightarrow> 'k \<Rightarrow> 's"
  assumes put_ok: "put s e = (s', True) \<Longrightarrow>
      lookup s' k = (if k = key_of e then Some (val_of e) else lookup s k)"
    and put_refused: "put s e = (s', False) \<Longrightarrow> s' = s"
    and lookup_remove: "lookup (remove s k) k' = (if k' = k then None else lookup s k')"
begin

lemma lookup_put_other:
  assumes "k \<noteq> key_of e"
  shows "lookup (fst (put s e)) k = lookup s k"
proof (cases "put s e")
  case (Pair s' b)
  with assms show ?thesis
    by (cases b) (auto simp: put_ok dest: put_refused)
qed

lemma remove_remove: "lookup (remove (remove s k) k) = lookup (remove s k)"
  by (rule ext) (simp add: lookup_remove)

text \<open>Operations on other keys are invisible.\<close>

lemma lookup_frame:
  assumes "list_all (\<lambda>p. \<not> touches key_of k p) ps"
  shows "lookup (run_ops put remove s ps) k = lookup s k"
  using assms
proof (induction ps arbitrary: s)
  case (Cons p ps)
  then show ?case
    by (cases p) (auto simp: touches_def lookup_put_other lookup_remove)
qed simp

text \<open>An accepted insertion is found until its key is touched again.\<close>

lemma lookup_after_put:
  assumes "put s e = (s', True)" "list_all (\<lambda>p. \<not> touches key_of (key_of e) p) ps"
  shows "lookup (run_ops put remove s' ps) (key_of e) = Some (val_of e)"
  using assms by (simp add: lookup_frame put_ok)

end

locale total_store = token_store +
  assumes put_accepts: "snd (put s e)"
begin

lemma lookup_put: "lookup (fst (put s e)) = (lookup s)(key_of e \<mapsto> val_of e)"
proof (rule ext)
  fix k
  show "lookup (fst (put s e)) k = ((lookup s)(key_of e \<mapsto> val_of e)) k"
    using put_accepts [of s e] put_ok [of s e "fst (put s e)" k]
    by (cases "put s e") (simp split: if_splits)
qed

text \<open>Every sequence of operations acts on the table as it does on a finite map.\<close>

lemma run_refines: "lookup (run_ops put remove s ps) = spec_ops key_of val_of (lookup s) ps"
proof (induction ps arbitrary: s)
  case (Cons p ps)
  have rem: "lookup (remove s k) = (lookup s)(k := None)" for k
    by (rule ext) (simp add: lookup_remove)
  show ?case
    by (cases p) (simp_all only: Cons.IH lookup_put rem run_ops.simps spec_ops.simps table_op.case)
qed simp

end

subsection \<open>Association lists\<close>

lemmas table_simps = update_conv' delete_conv' map_of_filter_in

lemma length_update:
  "length (AList.update k v xs) = (if k \<in> fst ` set xs then length xs else Suc (length xs))"
  by (induction xs) auto

lemma set_delete_subset: "set (AList.delete k xs) \<subseteq> set xs"
  by (auto simp: AList.delete_eq)

lemma set_update_subset: "set (AList.update k v xs) \<subseteq> insert (k, v) (set xs)"
  by (induction xs) auto

lemma map_of_filter_snd:
  assumes "distinct (map fst xs)"
  shows "map_of (filter (\<lambda>(k, v). P v) xs) k =
    (case map_of xs k of None \<Rightarrow> None | Some v \<Rightarrow> if P v then Some v else None)"
  using assms
proof (induction xs)
  case (Cons x xs)
  have none: "map_of (filter (\<lambda>(k, v). P v) xs) k = None" if "k \<notin> fst ` set xs" for k
    using that by (auto simp: map_of_eq_None_iff)
  from Cons show ?case
    by (cases x) (auto simp: none split: option.split dest: map_of_SomeD intro!: rev_image_eqI)
qed simp

lemma distinct_filter_fst: "distinct (map fst xs) \<Longrightarrow> distinct (map fst (filter P xs))"
  by (induction xs) auto

end
