(* ===== verification/Guard.thy ===== *)
theory Guard
  imports Tables
begin

text \<open>
  The guard routing table of a relay (\<^verbatim>\<open>anonrouter/src/guard.hpp\<close>, \<^verbatim>\<open>guard.cpp\<close>): entries
  keyed by the hexadecimal session token, at most \<open>gt_max_slots\<close> of them, evicted once their
  time to live has passed. Byte counts and times are \<open>int\<close>: the 64-bit signed values of the
  source do not overflow in the lifetime of a node.
\<close>

datatype guard_type = INBOUND_PUBLIC | INBOUND_PRIVATE | OUTBOUND | RENDEZVOUS | GT_Other u8

fun guard_type_code :: "guard_type \<Rightarrow> u8" where
  "guard_type_code INBOUND_PUBLIC = 0"
| "guard_type_code INBOUND_PRIVATE = 1"
| "guard_type_code OUTBOUND = 2"
| "guard_type_code RENDEZVOUS = 3"
| "guard_type_code (GT_Other b) = b"

definition guard_type_of :: "u8 \<Rightarrow> guard_type" where
  "guard_type_of b = (if b = 0 then INBOUND_PUBLIC else if b = 1 then INBOUND_PRIVATE
     else if b = 2 then OUTBOUND else if b = 3 then RENDEZVOUS else GT_Other b)"

record guard_entry =
  ge_session_tok :: bytes
  ge_forward_addr :: string
  ge_recruiter_node_id :: string
  ge_type :: guard_type
  ge_bytes_fwd :: int
  ge_created_at_s :: int
  ge_ttl_s :: int

definition default_guard_entry :: guard_entry where
  "default_guard_entry = \<lparr>ge_session_tok = zeros 32, ge_forward_addr = [],
     ge_recruiter_node_id = [], ge_type = INBOUND_PRIVATE, ge_bytes_fwd = 0,
     ge_created_at_s = 0, ge_ttl_s = 1800\<rparr>"

record guard_table =
  gt_max_slots :: nat
  gt_table :: "(string \<times> guard_entry) list"

definition guard_new :: "nat \<Rightarrow> guard_table" where
  "guard_new n = \<lparr>gt_max_slots = n, gt_table = []\<rparr>"

definition guard_add :: "guard_table \<Rightarrow> guard_entry \<Rightarrow> guard_table \<times> bool" where
  "guard_add g e =
     (if length (gt_table g) \<ge> gt_max_slots g then (g, False)
      else (g\<lparr>gt_table := AList.update (to_hex (ge_session_tok e)) e (gt_table g)\<rparr>, True))"

definition guard_remove :: "guard_table \<Rightarrow> bytes \<Rightarrow> guard_table" where
  "guard_remove g tok = g\<lparr>gt_table := AList.delete (to_hex tok) (gt_table g)\<rparr>"

definition guard_lookup :: "guard_table \<Rightarrow> bytes \<Rightarrow> guard_entry option" where
  "guard_lookup g tok = map_of (gt_table g) (to_hex tok)"

definition guard_add_forwarded :: "guard_table \<Rightarrow> bytes \<Rightarrow> int \<Rightarrow> guard_table" where
  "guard_add_forwarded g tok n =
     (case map_of (gt_table g) (to_hex tok) of
        None \<Rightarrow> g
      | Some e \<Rightarrow> g\<lparr>gt_table :=
          AList.update (to_hex tok) (e\<lparr>ge_bytes_fwd := ge_bytes_fwd e + n\<rparr>) (gt_table g)\<rparr>)"

definition guard_expired :: "int \<Rightarrow> guard_entry \<Rightarrow> bool" where
  "guard_expired now e \<longleftrightarrow> ge_ttl_s e \<ge> 0 \<and> now - ge_created_at_s e > ge_ttl_s e"

text \<open>The loop of \<^verbatim>\<open>evict_expired\<close>: erase or advance, counting what was erased.\<close>

fun evict_loop ::
  "int \<Rightarrow> (string \<times> guard_entry) list \<Rightarrow> nat \<Rightarrow> (string \<times> guard_entry) list \<times> nat" where
  "evict_loop now [] removed = ([], removed)"
| "evict_loop now ((k, e) # t) removed =
     (if guard_expired now e then evict_loop now t (removed + 1)
      else case evict_loop now t removed of (t', r) \<Rightarrow> ((k, e) # t', r))"

definition guard_evict_expired :: "guard_table \<Rightarrow> int \<Rightarrow> guard_table \<times> nat" where
  "guard_evict_expired g now =
     (case evict_loop now (gt_table g) 0 of (t, n) \<Rightarrow> (g\<lparr>gt_table := t\<rparr>, n))"

definition guard_size :: "guard_table \<Rightarrow> nat" where
  "guard_size g = length (gt_table g)"

definition guard_snapshot :: "guard_table \<Rightarrow> guard_entry list" where
  "guard_snapshot g = map snd (gt_table g)"

subsection \<open>Invariant\<close>

definition guard_inv :: "guard_table \<Rightarrow> bool" where
  "guard_inv g \<longleftrightarrow> distinct (map fst (gt_table g)) \<and> length (gt_table g) \<le> gt_max_slots g \<and>
     (\<forall>(k, e)\<in>set (gt_table g). k = to_hex (ge_session_tok e))"

lemma guard_inv_new [intro, simp]: "guard_inv (guard_new n)"
  by (simp add: guard_inv_def guard_new_def)

lemma guard_inv_add [intro]: "guard_inv g \<Longrightarrow> guard_inv (fst (guard_add g e))"
  using set_update_subset [of "to_hex (ge_session_tok e)" e "gt_table g"]
  by (auto simp: guard_inv_def guard_add_def length_update intro!: distinct_update)

lemma guard_inv_remove [intro]: "guard_inv g \<Longrightarrow> guard_inv (guard_remove g tok)"
  using length_delete_le [of "to_hex tok" "gt_table g"] set_delete_subset [of "to_hex tok" "gt_table g"]
  by (auto simp: guard_inv_def guard_remove_def distinct_delete)

lemma guard_inv_add_forwarded [intro]: "guard_inv g \<Longrightarrow> guard_inv (guard_add_forwarded g tok n)"
proof (cases "map_of (gt_table g) (to_hex tok)")
  case (Some e)
  assume inv: "guard_inv g"
  from Some have mem: "(to_hex tok, e) \<in> set (gt_table g)"
    by (rule map_of_SomeD)
  with inv have "ge_session_tok e = tok" "to_hex tok \<in> fst ` set (gt_table g)"
    by (force simp: guard_inv_def)+
  with inv Some show ?thesis
    using set_update_subset [of "to_hex tok" "e\<lparr>ge_bytes_fwd := ge_bytes_fwd e + n\<rparr>" "gt_table g"]
    by (auto simp: guard_inv_def guard_add_forwarded_def length_update intro!: distinct_update)
qed (simp add: guard_add_forwarded_def)

lemma evict_loop_filter:
  "evict_loop now t r =
     (filter (\<lambda>(k, e). \<not> guard_expired now e) t, r + length (filter (\<lambda>(k, e). guard_expired now e) t))"
  by (induction now t r rule: evict_loop.induct) (auto split: prod.splits)

lemma guard_inv_evict [intro]: "guard_inv g \<Longrightarrow> guard_inv (fst (guard_evict_expired g now))"
proof -
  assume inv: "guard_inv g"
  have "length (filter P (gt_table g)) \<le> gt_max_slots g" for P
    using inv length_filter_le [of P "gt_table g"] unfolding guard_inv_def by linarith
  with inv show ?thesis
    by (auto simp: guard_inv_def guard_evict_expired_def evict_loop_filter distinct_filter_fst
        split: prod.splits)
qed

interpretation guard_store: token_store ge_session_tok "\<lambda>e. e" guard_add guard_lookup guard_remove
  by unfold_locales
     (auto simp: guard_add_def guard_lookup_def guard_remove_def table_simps split: if_splits)

subsection \<open>Properties\<close>

datatype guard_op = G_Add guard_entry | G_Remove bytes | G_Forwarded bytes int | G_Evict int

primrec guard_step :: "guard_table \<Rightarrow> guard_op \<Rightarrow> guard_table" where
  "guard_step g (G_Add e) = fst (guard_add g e)"
| "guard_step g (G_Remove tok) = guard_remove g tok"
| "guard_step g (G_Forwarded tok n) = guard_add_forwarded g tok n"
| "guard_step g (G_Evict now) = fst (guard_evict_expired g now)"

lemma guard_step_inv: "guard_inv g \<Longrightarrow> guard_inv (guard_step g p)"
  by (cases p) auto

lemma guard_step_slots [simp]: "gt_max_slots (guard_step g p) = gt_max_slots g"
  by (cases p) (auto simp: guard_add_def guard_remove_def guard_add_forwarded_def
      guard_evict_expired_def split: option.split prod.split)

text \<open>
  Whatever sequence of registrations, removals, accounting updates and evictions a relay
  performs, its guard table holds at most \<open>max_slots\<close> entries, one per token, each filed under
  its own token.
\<close>

theorem guard_table_capacity:
  "guard_size (foldl guard_step (guard_new n) ps) \<le> n \<and> guard_inv (foldl guard_step (guard_new n) ps)"
proof -
  have "guard_inv (foldl guard_step g ps) \<and> gt_max_slots (foldl guard_step g ps) = gt_max_slots g"
    if "guard_inv g" for g
    using that by (induction ps arbitrary: g) (simp_all add: guard_step_inv)
  from this [of "guard_new n"] show ?thesis
    by (auto simp: guard_size_def guard_inv_def guard_new_def)
qed

text \<open>
  An eviction pass removes exactly the entries whose time to live has passed (never those
  with a negative time to live), leaves every other entry as it was, and returns how many it
  removed.
\<close>

theorem guard_evict_exact:
  assumes "guard_inv g"
  shows "guard_lookup (fst (guard_evict_expired g now)) tok =
      (case guard_lookup g tok of None \<Rightarrow> None
       | Some e \<Rightarrow> if ge_ttl_s e \<ge> 0 \<and> now - ge_created_at_s e > ge_ttl_s e then None else Some e) \<and>
    snd (guard_evict_expired g now) = guard_size g - guard_size (fst (guard_evict_expired g now))"
proof
  have "distinct (map fst (gt_table g))"
    using assms by (simp add: guard_inv_def)
  then show "guard_lookup (fst (guard_evict_expired g now)) tok =
      (case guard_lookup g tok of None \<Rightarrow> None
       | Some e \<Rightarrow> if ge_ttl_s e \<ge> 0 \<and> now - ge_created_at_s e > ge_ttl_s e then None else Some e)"
    by (auto simp: guard_evict_expired_def guard_lookup_def evict_loop_filter map_of_filter_snd
        guard_expired_def split: option.split)
  have "length (filter (\<lambda>(k, e). guard_expired now e) t) =
      length t - length (filter (\<lambda>(k, e). \<not> guard_expired now e) t)" for t :: "(string \<times> guard_entry) list"
    by (induction t) (auto simp: Suc_diff_le)
  then show "snd (guard_evict_expired g now) = guard_size g - guard_size (fst (guard_evict_expired g now))"
    by (simp add: guard_evict_expired_def guard_size_def evict_loop_filter)
qed

definition demo_guard :: guard_table where
  "demo_guard = foldl guard_step (guard_new 2)
     [G_Add (default_guard_entry\<lparr>ge_session_tok := replicate 32 1\<rparr>),
      G_Add (default_guard_entry\<lparr>ge_session_tok := replicate 32 2, ge_ttl_s := - 1\<rparr>)]"

theorem guard_evict_exact_witness:
  "guard_lookup (fst (guard_evict_expired demo_guard 1801)) (replicate 32 1) = None \<and>
   guard_lookup (fst (guard_evict_expired demo_guard 1801)) (replicate 32 2) \<noteq> None"
proof -
  have inv: "guard_inv demo_guard"
    by (auto simp: demo_guard_def)
  have look: "guard_lookup demo_guard (replicate 32 1) =
        Some (default_guard_entry\<lparr>ge_session_tok := replicate 32 1\<rparr>)"
      "guard_lookup demo_guard (replicate 32 2) =
        Some (default_guard_entry\<lparr>ge_session_tok := replicate 32 2, ge_ttl_s := - 1\<rparr>)"
    by (simp_all add: demo_guard_def guard_lookup_def guard_add_def guard_new_def table_simps
        default_guard_entry_def)
  show ?thesis
    using guard_evict_exact [OF inv, of 1801 "replicate 32 1"]
      guard_evict_exact [OF inv, of 1801 "replicate 32 2"] look
    by (simp add: default_guard_entry_def)
qed

text \<open>
  A full guard table refuses a registration and stays as it is, also for a token it
  already holds; otherwise the registered entry is the one found, until an operation on the
  same token.
\<close>

theorem guard_add_lookup:
  "guard_add g e = (if guard_size g \<ge> gt_max_slots g then (g, False) else (fst (guard_add g e), True)) \<and>
   (snd (guard_add g e) \<longrightarrow> list_all (\<lambda>p. \<not> touches ge_session_tok (ge_session_tok e) p) ps \<longrightarrow>
      guard_lookup (run_ops guard_add guard_remove (fst (guard_add g e)) ps) (ge_session_tok e) = Some e)"
proof
  show "guard_add g e = (if guard_size g \<ge> gt_max_slots g then (g, False) else (fst (guard_add g e), True))"
    by (simp add: guard_add_def guard_size_def)
  show "snd (guard_add g e) \<longrightarrow> list_all (\<lambda>p. \<not> touches ge_session_tok (ge_session_tok e) p) ps \<longrightarrow>
      guard_lookup (run_ops guard_add guard_remove (fst (guard_add g e)) ps) (ge_session_tok e) = Some e"
    using guard_store.lookup_after_put [of g e "fst (guard_add g e)" ps]
    by (cases "guard_add g e") auto
qed

theorem guard_add_lookup_witness:
  "guard_lookup (run_ops guard_add guard_remove (fst (guard_add (guard_new 1) default_guard_entry))
      [Remove (replicate 32 9)]) (zeros 32) = Some default_guard_entry"
  using conjunct2 [OF guard_add_lookup [of "guard_new 1" default_guard_entry "[Remove (replicate 32 9)]"]]
  by (simp add: guard_add_def guard_new_def touches_def default_guard_entry_def zeros_def)

end
