(* ===== verification/Tft.thy ===== *)
theory Tft
  imports Tables "HOL-Library.Product_Lexorder" "HOL-Library.List_Lexorder" "HOL-Library.Char_ord"
begin

text \<open>
  The tit-for-tat engine (\<^verbatim>\<open>anonrouter/src/tft.hpp\<close>, \<^verbatim>\<open>tft.cpp\<close>): a credit ledger per peer, a
  round that unchokes the peers with the lowest credits, an optimistic slot, and the decay of
  credits. The ledger lists its entries in the iteration order of the \<^verbatim>\<open>unordered_map\<close>;
  \<^verbatim>\<open>std::sort\<close> on pairs is \<open>sort\<close> for the lexicographic order of number and string. Credits
  are \<open>int\<close> (the source's 64-bit sums do not overflow for real byte counts); the product with
  the decay factor is rounded as IEEE double arithmetic rounds it.
\<close>

record tft_config =
  unchoke_slots :: nat
  max_debt_bytes :: int
  new_peer_balance :: int
  opt_unchoke_interval :: int
  decay_mantissa :: nat
  credit_prune_min_bytes :: int

text \<open>The double nearest to 0.99 is \<open>8917127262193582 / 2 ^ 53\<close>.\<close>

definition default_tft_config :: tft_config where
  "default_tft_config = \<lparr>unchoke_slots = 19, max_debt_bytes = 52428800,
     new_peer_balance = - 10485760, opt_unchoke_interval = 3,
     decay_mantissa = 8917127262193582, credit_prune_min_bytes = 1024\<rparr>"

record tft_engine =
  tft_cfg :: tft_config
  ledger :: "(string \<times> int) list"
  unchoked :: "string list"
  opt_unchoked :: string
  round_number :: int
  opt_rounds_left :: int

definition tft_new :: "tft_config \<Rightarrow> tft_engine" where
  "tft_new cfg = \<lparr>tft_cfg = cfg, ledger = [], unchoked = [], opt_unchoked = [],
     round_number = 0, opt_rounds_left = 0\<rparr>"

definition known_balance :: "tft_engine \<Rightarrow> string \<Rightarrow> int" where
  "known_balance t p = (case map_of (ledger t) p of None \<Rightarrow> new_peer_balance (tft_cfg t) | Some c \<Rightarrow> c)"

definition record_forwarded_for :: "tft_engine \<Rightarrow> string \<Rightarrow> int \<Rightarrow> tft_engine" where
  "record_forwarded_for t p n = t\<lparr>ledger := AList.update p (known_balance t p + n) (ledger t)\<rparr>"

definition record_used_from :: "tft_engine \<Rightarrow> string \<Rightarrow> int \<Rightarrow> tft_engine" where
  "record_used_from t p n = t\<lparr>ledger := AList.update p (known_balance t p - n) (ledger t)\<rparr>"

definition is_unchoked :: "tft_engine \<Rightarrow> string \<Rightarrow> bool" where
  "is_unchoked t p \<longleftrightarrow> p \<in> set (unchoked t) \<or> p = opt_unchoked t"

definition is_choked_permanent :: "tft_engine \<Rightarrow> string \<Rightarrow> bool" where
  "is_choked_permanent t p \<longleftrightarrow>
     (case map_of (ledger t) p of None \<Rightarrow> False | Some c \<Rightarrow> c > max_debt_bytes (tft_cfg t))"

text \<open>The first peer in iteration order that is neither unchoked nor in the slot already.\<close>

definition pick_opt_unchoke :: "tft_engine \<Rightarrow> string" where
  "pick_opt_unchoke t =
     (case find (\<lambda>(p, _). p \<notin> set (unchoked t) \<and> p \<noteq> opt_unchoked t) (ledger t) of
        None \<Rightarrow> [] | Some (p, _) \<Rightarrow> p)"

definition candidates :: "tft_engine \<Rightarrow> (int \<times> string) list" where
  "candidates t =
     sort (map (\<lambda>(p, c). (c, p)) (filter (\<lambda>(p, c). c \<le> max_debt_bytes (tft_cfg t)) (ledger t)))"

definition run_round :: "tft_engine \<Rightarrow> tft_engine" where
  "run_round t =
     (let cs = candidates t;
          slots = min (unchoke_slots (tft_cfg t)) (length cs);
          t1 = t\<lparr>round_number := round_number t + 1,
                 unchoked := fold List.insert (map snd (take slots cs)) [],
                 opt_rounds_left := opt_rounds_left t - 1\<rparr>
      in if opt_rounds_left t1 \<le> 0
         then t1\<lparr>opt_unchoked := pick_opt_unchoke t1,
                 opt_rounds_left := opt_unchoke_interval (tft_cfg t)\<rparr>
         else t1)"

subsection \<open>Decay\<close>

text \<open>Bits of a magnitude beyond the 53 of a double's significand.\<close>

fun excess_bits :: "nat \<Rightarrow> nat" where
  "excess_bits n = (if n < 2 ^ 53 then 0 else Suc (excess_bits (n div 2)))"

text \<open>Round to the nearest multiple of \<open>2 ^ s\<close>, ties to even.\<close>

definition round_even :: "nat \<Rightarrow> nat \<Rightarrow> nat" where
  "round_even n s =
     (let q = n div 2 ^ s; r = n mod 2 ^ s
      in (if 2 * r > 2 ^ s \<or> (2 * r = 2 ^ s \<and> odd q) then q + 1 else q) * 2 ^ s)"

definition to_double :: "nat \<Rightarrow> nat" where
  "to_double n = round_even n (excess_bits n)"

text \<open>
  \<^verbatim>\<open>static_cast<int64_t>(c * factor)\<close>: the magnitude as a double, times the factor
  \<open>m / 2 ^ 53\<close>, rounded, truncated towards zero.
\<close>

definition decay_credit :: "nat \<Rightarrow> int \<Rightarrow> int" where
  "decay_credit m c = sgn c * int (to_double (to_double (nat \<bar>c\<bar>) * m) div 2 ^ 53)"

definition decay_credits :: "tft_engine \<Rightarrow> tft_engine" where
  "decay_credits t = t\<lparr>ledger :=
     filter (\<lambda>(p, c). \<not> \<bar>c\<bar> < credit_prune_min_bytes (tft_cfg t))
       (map (\<lambda>(p, c). (p, decay_credit (decay_mantissa (tft_cfg t)) c)) (ledger t))\<rparr>"

record tft_state =
  unchoked_peers :: "string list"
  opt_unchoked_peer :: string
  unchoked_count :: nat
  known_peers_count :: nat
  ts_round_number :: int
  top_peers :: "(string \<times> int) list"

definition tft_state_of :: "tft_engine \<Rightarrow> tft_state" where
  "tft_state_of t = \<lparr>unchoked_peers = unchoked t, opt_unchoked_peer = opt_unchoked t,
     unchoked_count = length (unchoked t), known_peers_count = length (ledger t),
     ts_round_number = round_number t,
     top_peers = map (\<lambda>(c, p). (p, c)) (take 5 (sort (map (\<lambda>(p, c). (c, p)) (ledger t))))\<rparr>"

definition credits :: "tft_engine \<Rightarrow> string \<Rightarrow> int" where
  "credits t p = (case map_of (ledger t) p of None \<Rightarrow> 0 | Some c \<Rightarrow> c)"

subsection \<open>Invariant and the ledger\<close>

definition tft_inv :: "tft_engine \<Rightarrow> bool" where
  "tft_inv t \<longleftrightarrow> distinct (map fst (ledger t)) \<and> distinct (unchoked t)"

lemma distinct_fold_insert: "distinct ys \<Longrightarrow> distinct (fold List.insert xs ys)"
  by (induction xs arbitrary: ys) simp_all

lemma set_fold_insert: "set (fold List.insert xs ys) = set xs \<union> set ys"
  by (induction xs arbitrary: ys) auto

lemma tft_inv_ops [intro]:
  "tft_inv (tft_new cfg)"
  "tft_inv t \<Longrightarrow> tft_inv (record_forwarded_for t p n)"
  "tft_inv t \<Longrightarrow> tft_inv (record_used_from t p n)"
  "tft_inv t \<Longrightarrow> tft_inv (run_round t)"
  "tft_inv t \<Longrightarrow> tft_inv (decay_credits t)"
  by (auto simp: tft_inv_def tft_new_def record_forwarded_for_def record_used_from_def
      run_round_def decay_credits_def Let_def distinct_update distinct_fold_insert
      intro!: distinct_filter_fst)
     (simp add: case_prod_beta comp_def)

text \<open>
  The ledger accounts exactly: forwarding \<open>n\<close> bytes for a peer raises its credits by \<open>n\<close>
  and using \<open>n\<close> bytes of it lowers them by \<open>n\<close>, starting from the new-peer balance, and no
  other peer's credits change.
\<close>

theorem ledger_accounting:
  "credits (record_forwarded_for t p n) q = (if q = p then known_balance t p + n else credits t q) \<and>
   credits (record_used_from t p n) q = (if q = p then known_balance t p - n else credits t q) \<and>
   known_balance (record_used_from (record_forwarded_for t p n) p n) p = known_balance t p"
  by (simp add: credits_def known_balance_def record_forwarded_for_def record_used_from_def table_simps)

subsection \<open>A round\<close>

lemma set_candidates:
  "set (candidates t) = {(c, p). (p, c) \<in> set (ledger t) \<and> c \<le> max_debt_bytes (tft_cfg t)}"
  by (auto simp: candidates_def)

lemma sorted_candidates: "sorted (candidates t)"
  by (simp add: candidates_def)

lemma distinct_candidates:
  assumes "tft_inv t"
  shows "distinct (map snd (candidates t))"
proof -
  have "distinct (map snd (sort xs)) = distinct (map snd xs)" for xs :: "(int \<times> string) list"
    by (simp add: distinct_map)
  moreover have "distinct (map fst (filter (\<lambda>(p, c). c \<le> max_debt_bytes (tft_cfg t)) (ledger t)))"
    using assms by (intro distinct_filter_fst) (simp add: tft_inv_def)
  ultimately show ?thesis
    by (simp add: candidates_def case_prod_beta comp_def)
qed

lemma unchoked_run_round:
  "set (unchoked (run_round t)) =
     set (map snd (take (unchoke_slots (tft_cfg t)) (candidates t)))"
  by (simp add: run_round_def Let_def set_fold_insert min_def)

lemma sorted_take_drop: "sorted xs \<Longrightarrow> x \<in> set (take n xs) \<Longrightarrow> y \<in> set (drop n xs) \<Longrightarrow> x \<le> y"
  by (metis append_take_drop_id sorted_append)

text \<open>
  A round unchokes as many peers as there are slots and eligible peers; each of them is
  known and within the debt ceiling, and every eligible peer left choked has at least the
  credits (ties broken by identifier) of every unchoked one.
\<close>

theorem run_round_selects_lowest:
  assumes "tft_inv t"
  defines "S \<equiv> set (unchoked (run_round t))"
    and "E \<equiv> {p. \<exists>c. map_of (ledger t) p = Some c \<and> c \<le> max_debt_bytes (tft_cfg t)}"
  shows "S \<subseteq> E \<and> card S = min (unchoke_slots (tft_cfg t)) (card E) \<and>
    (\<forall>p\<in>S. \<forall>q\<in>E - S. (credits t p, p) < (credits t q, q))"
proof (intro conjI ballI)
  let ?cs = "candidates t" and ?n = "unchoke_slots (tft_cfg t)"
  have dist: "distinct (map fst (ledger t))"
    using assms(1) by (simp add: tft_inv_def)
  have E: "E = snd ` set ?cs"
    using dist by (force simp: E_def set_candidates)
  have S: "S = snd ` set (take ?n ?cs)"
    by (simp add: S_def unchoked_run_round)
  show "S \<subseteq> E"
    unfolding S E by (rule image_mono) (rule set_take_subset)
  have dsnd: "distinct (map snd ?cs)"
    by (rule distinct_candidates) (rule assms(1))
  have "card E = length ?cs"
    using distinct_card [OF dsnd] by (simp add: E)
  moreover have "card S = length (take ?n ?cs)"
    using distinct_card [OF distinct_take [OF dsnd, of ?n]] by (simp add: S take_map)
  ultimately show "card S = min ?n (card E)"
    by simp
  fix p q
  assume p: "p \<in> S" and q: "q \<in> E - S"
  have key: "x = credits t y" if "(x, y) \<in> set ?cs" for x y
    using that dist map_of_is_SomeI [of "ledger t" y x] by (auto simp: set_candidates credits_def)
  from p obtain c where "(c, p) \<in> set (take ?n ?cs)"
    by (auto simp: S)
  then have p': "(credits t p, p) \<in> set (take ?n ?cs)"
    using key [of c p] in_set_takeD by fastforce
  from q obtain d where "(d, q) \<in> set ?cs" "(d, q) \<notin> set (take ?n ?cs)"
    by (force simp: E S)
  moreover have "set ?cs = set (take ?n ?cs) \<union> set (drop ?n ?cs)"
    by (metis append_take_drop_id set_append)
  ultimately have q': "(credits t q, q) \<in> set (drop ?n ?cs)"
    using key [of d q] by auto
  have "(credits t p, p) \<le> (credits t q, q)"
    by (rule sorted_take_drop [OF sorted_candidates p' q'])
  moreover have "p \<noteq> q"
    using p q by blast
  ultimately show "(credits t p, p) < (credits t q, q)"
    by (auto simp: order.strict_iff_order)
qed

definition demo_tft :: tft_engine where
  "demo_tft = (tft_new (default_tft_config\<lparr>unchoke_slots := 1\<rparr>))
     \<lparr>ledger := [(''a'', 500), (''b'', - 500)]\<rparr>"

theorem run_round_selects_lowest_witness:
  "set (unchoked (run_round demo_tft)) \<subseteq> {''a'', ''b''} \<and> card (set (unchoked (run_round demo_tft))) = 1"
proof -
  have inv: "tft_inv demo_tft"
    by (simp add: tft_inv_def demo_tft_def tft_new_def)
  have "{p. \<exists>c. map_of (ledger demo_tft) p = Some c \<and> c \<le> max_debt_bytes (tft_cfg demo_tft)} = {''a'', ''b''}"
    by (auto simp: demo_tft_def tft_new_def default_tft_config_def)
  then show ?thesis
    using run_round_selects_lowest [OF inv]
    by (simp add: demo_tft_def tft_new_def default_tft_config_def)
qed

subsection \<open>The optimistic slot\<close>

lemma find_NoneD: "find P xs = None \<Longrightarrow> x \<in> set xs \<Longrightarrow> \<not> P x"
  by (auto simp: find_None_iff)

lemma find_SomeD: "find P xs = Some x \<Longrightarrow> P x \<and> x \<in> set xs"
  by (auto simp: find_Some_iff)

text \<open>
  When the optimistic slot rotates it goes to a known peer outside the unchoked set that
  did not hold it before, and it is left empty only when there is no such peer. Between
  rotations it does not move. The choice ignores the debt ceiling.
\<close>

theorem opt_unchoke_rotation:
  assumes "[] \<notin> fst ` set (ledger t)"
  shows "if opt_rounds_left t > 1 then opt_unchoked (run_round t) = opt_unchoked t
    else opt_rounds_left (run_round t) = opt_unchoke_interval (tft_cfg t) \<and>
      (if opt_unchoked (run_round t) = []
       then \<forall>p\<in>fst ` set (ledger t). p \<in> set (unchoked (run_round t)) \<or> p = opt_unchoked t
       else opt_unchoked (run_round t) \<in> fst ` set (ledger t) - set (unchoked (run_round t)) - {opt_unchoked t})"
proof (cases "opt_rounds_left t > 1")
  case False
  define t1 where "t1 = (run_round t)\<lparr>opt_unchoked := opt_unchoked t\<rparr>"
  have opt: "opt_unchoked (run_round t) = pick_opt_unchoke t1" "unchoked (run_round t) = unchoked t1"
      "ledger t1 = ledger t" "opt_unchoked t1 = opt_unchoked t"
      "opt_rounds_left (run_round t) = opt_unchoke_interval (tft_cfg t)"
    using False by (simp_all add: run_round_def Let_def t1_def pick_opt_unchoke_def)
  show ?thesis
  proof (cases "find (\<lambda>(p, _). p \<notin> set (unchoked t1) \<and> p \<noteq> opt_unchoked t) (ledger t)")
    case None
    then have "\<forall>p\<in>fst ` set (ledger t). p \<in> set (unchoked t1) \<or> p = opt_unchoked t"
      by (fastforce dest: find_NoneD)
    with False opt None show ?thesis
      by (simp add: pick_opt_unchoke_def)
  next
    case (Some pc)
    obtain p c where pc: "pc = (p, c)"
      by (cases pc)
    have "p \<in> fst ` set (ledger t)" "p \<notin> set (unchoked t1)" "p \<noteq> opt_unchoked t"
      using find_SomeD [OF Some] pc by (auto intro: rev_image_eqI)
    moreover from this assms have "p \<noteq> []"
      by blast
    ultimately show ?thesis
      using False opt Some pc by (simp add: pick_opt_unchoke_def)
  qed
qed (simp add: run_round_def Let_def)

theorem opt_unchoke_rotation_witness: "opt_unchoked (run_round demo_tft) = ''a''"
proof -
  have "unchoked (run_round demo_tft) = [''b'']"
    by (simp add: run_round_def candidates_def demo_tft_def tft_new_def default_tft_config_def Let_def)
  moreover have "fst ` set (ledger demo_tft) = {''a'', ''b''}" "opt_unchoked demo_tft = []"
      "opt_rounds_left demo_tft = 0"
    by (simp_all add: demo_tft_def tft_new_def)
  ultimately show ?thesis
    using opt_unchoke_rotation [of demo_tft] by (auto split: if_splits)
qed

subsection \<open>Decay of credits\<close>

lemma excess_bits_le: "n < 2 ^ (53 + s) \<Longrightarrow> excess_bits n \<le> s"
proof (induction s arbitrary: n)
  case (Suc s)
  have "n div 2 < 2 ^ (53 + s)"
    using Suc.prems by (simp add: power_add)
  from Suc.IH [OF this] show ?case
    by (subst excess_bits.simps) (simp del: excess_bits.simps)
qed simp

text \<open>Rounding never crosses a multiple of the rounding unit.\<close>

lemma round_even_le: "n \<le> j * 2 ^ s \<Longrightarrow> round_even n s \<le> j * 2 ^ s"
proof -
  assume le: "n \<le> j * 2 ^ s"
  let ?q = "n div 2 ^ s" and ?r = "n mod 2 ^ s"
  have n: "n = ?q * 2 ^ s + ?r"
    by (rule div_mult_mod_eq [symmetric])
  have q: "?q * 2 ^ s \<le> j * 2 ^ s"
    using le n by (metis le_add1 le_trans)
  have up: "(?q + 1) * 2 ^ s \<le> j * 2 ^ s" if "?r > 0"
  proof -
    have "?q * 2 ^ s < j * 2 ^ s"
      using le n that by linarith
    then have "?q + 1 \<le> j"
      by (simp only: mult_less_cancel2) simp
    then show ?thesis
      by (rule mult_le_mono1)
  qed
  show ?thesis
  proof (cases "2 * ?r > 2 ^ s \<or> (2 * ?r = 2 ^ s \<and> odd ?q)")
    case True
    then have "?r > 0"
      by (metis gr0I mult_0_right not_less0 power_not_zero zero_neq_numeral)
    then show ?thesis
      using up True by (simp add: round_even_def Let_def)
  next
    case False
    then show ?thesis
      using q by (auto simp: round_even_def Let_def)
  qed
qed

lemma to_double_small: "n < 2 ^ 53 \<Longrightarrow> to_double n = n"
  by (simp add: to_double_def round_even_def)

lemma to_double_scaled:
  assumes "k < 2 ^ 53" "m \<le> 2 ^ 53"
  shows "to_double (k * m) div 2 ^ 53 \<le> k"
proof -
  have le: "k * m \<le> k * 2 ^ 53"
    using assms(2) by (rule mult_le_mono2)
  moreover have "k * 2 ^ 53 < 2 ^ (53 + 53)"
    using assms(1) by (simp add: power_add)
  ultimately have "excess_bits (k * m) \<le> 53"
    by (intro excess_bits_le) linarith
  then obtain d where d: "53 = d + excess_bits (k * m)"
    by (metis le_add_diff_inverse2)
  then have "(2::nat) ^ 53 = 2 ^ d * 2 ^ excess_bits (k * m)"
    by (metis power_add)
  with le have "to_double (k * m) \<le> k * 2 ^ 53"
    unfolding to_double_def by (metis round_even_le mult.assoc)
  then show ?thesis
    by (simp add: less_eq_div_iff_mult_less_eq div_le_mono [of _ "k * 2 ^ 53" "2 ^ 53", simplified])
qed

lemma decay_credit_bound:
  assumes "\<bar>c\<bar> < 2 ^ 53" "m \<le> 2 ^ 53"
  shows "\<bar>decay_credit m c\<bar> \<le> \<bar>c\<bar>"
proof -
  have k: "nat \<bar>c\<bar> < 2 ^ 53"
    using assms(1) by (simp add: nat_less_iff)
  have "int (to_double (to_double (nat \<bar>c\<bar>) * m) div 2 ^ 53) \<le> \<bar>c\<bar>"
    using to_double_scaled [OF k assms(2)] to_double_small [OF k]
    by (metis abs_ge_zero int_nat_eq of_nat_le_iff)
  then show ?thesis
    by (simp add: decay_credit_def abs_mult abs_sgn_eq)
qed

text \<open>
  Decay replaces the credits of every peer by the rounded product, forgets the peers whose
  product is below the pruning threshold, and never moves credits away from zero. A forgotten
  peer is a new peer again.
\<close>

theorem decay_credits_spec:
  assumes "tft_inv t" "decay_mantissa (tft_cfg t) \<le> 2 ^ 53" "\<bar>credits t p\<bar> < 2 ^ 53"
    "credit_prune_min_bytes (tft_cfg t) > 0"
  defines "c \<equiv> decay_credit (decay_mantissa (tft_cfg t)) (credits t p)"
  shows "credits (decay_credits t) p = (if \<bar>c\<bar> < credit_prune_min_bytes (tft_cfg t) then 0 else c) \<and>
    \<bar>credits (decay_credits t) p\<bar> \<le> \<bar>credits t p\<bar> \<and>
    (\<bar>c\<bar> < credit_prune_min_bytes (tft_cfg t) \<longrightarrow>
      known_balance (decay_credits t) p = new_peer_balance (tft_cfg t))"
proof -
  let ?m = "decay_mantissa (tft_cfg t)" and ?min = "credit_prune_min_bytes (tft_cfg t)"
  let ?l = "map (\<lambda>(p, c). (p, decay_credit ?m c)) (ledger t)"
  have "distinct (map fst ?l)"
    using assms(1) by (simp add: tft_inv_def case_prod_beta comp_def)
  then have "map_of (ledger (decay_credits t)) p =
      (case map_of ?l p of None \<Rightarrow> None | Some v \<Rightarrow> if \<not> \<bar>v\<bar> < ?min then Some v else None)"
    by (simp add: decay_credits_def map_of_filter_snd del: map_of_map)
  moreover have "map_of ?l p = map_option (decay_credit ?m) (map_of (ledger t) p)"
    by (simp add: map_of_map)
  ultimately have look: "map_of (ledger (decay_credits t)) p = (case map_of (ledger t) p of None \<Rightarrow> None
      | Some a \<Rightarrow> if \<bar>decay_credit ?m a\<bar> < ?min then None else Some (decay_credit ?m a))"
    by (simp split: option.split)
  have cfg: "tft_cfg (decay_credits t) = tft_cfg t"
    by (simp add: decay_credits_def)
  have cr: "credits (decay_credits t) p = (if \<bar>c\<bar> < ?min then 0 else c)"
    using assms(4) by (cases "map_of (ledger t) p")
      (auto simp: credits_def c_def look decay_credit_def)
  moreover have "\<bar>credits (decay_credits t) p\<bar> \<le> \<bar>credits t p\<bar>"
    using decay_credit_bound [OF assms(3,2)] by (simp add: cr c_def)
  moreover have "known_balance (decay_credits t) p = new_peer_balance (tft_cfg t)"
    if "\<bar>c\<bar> < ?min"
    using that by (cases "map_of (ledger t) p")
      (auto simp: known_balance_def c_def look credits_def cfg)
  ultimately show ?thesis
    by blast
qed

theorem decay_credits_spec_witness:
  "credits (decay_credits demo_tft) ''a'' = 0 \<and> \<bar>credits (decay_credits demo_tft) ''b''\<bar> \<le> 500"
proof -
  have pre: "tft_inv demo_tft" "decay_mantissa (tft_cfg demo_tft) \<le> 2 ^ 53"
      "credit_prune_min_bytes (tft_cfg demo_tft) = 1024"
      "credits demo_tft ''a'' = 500" "credits demo_tft ''b'' = - 500"
    by (simp_all add: tft_inv_def demo_tft_def tft_new_def default_tft_config_def credits_def)
  have "\<bar>decay_credit (decay_mantissa (tft_cfg demo_tft)) 500\<bar> \<le> 500"
    by (rule order_trans [OF decay_credit_bound [OF _ pre(2)]]) simp_all
  then have "credits (decay_credits demo_tft) ''a'' = 0"
    using decay_credits_spec [OF pre(1,2), of "''a''"] pre(3,4) by simp
  moreover have "\<bar>credits (decay_credits demo_tft) ''b''\<bar> \<le> 500"
    using conjunct1 [OF conjunct2 [OF decay_credits_spec [OF pre(1,2), of "''b''"]]] pre(3,5) by simp
  ultimately show ?thesis
    by (rule conjI)
qed

end
