(* ===== verification/Cbor.thy ===== *)
theory Cbor
  imports Prelude
begin

text \<open>
  The interface to libcbor. The data model (what an item is) is the datatype \<open>cbor\<close>; the
  library functions the program calls are the fields of the record \<open>cbor_lib\<close>, an argument of
  every definition that parses or prints CBOR. \<open>cbor_ok\<close> states what libcbor documents and
  the program relies on; \<^verbatim>\<open>Cbor_Wire.thy\<close> gives the RFC 8949 wire format as an instance that
  satisfies it.
\<close>

subsection \<open>Items and the library\<close>

datatype int_width = CBOR_INT_8 | CBOR_INT_16 | CBOR_INT_32 | CBOR_INT_64

text \<open>\<open>COther\<close> stands for the items the program never builds: tags, floats, undefined.\<close>

datatype cbor =
    CUint int_width u64
  | CNegint int_width u64
  | CBytes bytes
  | CText string
  | CArray "cbor list"
  | CMap "(cbor \<times> cbor) list"
  | CBool bool
  | CNull
  | COther

text \<open>
  \<open>cbor_map_add cap ps p\<close> is \<^verbatim>\<open>cbor_map_add\<close> on a definite map allocated for \<open>cap\<close> pairs that
  holds \<open>ps\<close>; \<open>cbor_array_push\<close> likewise. \<open>cbor_load\<close> is \<open>None\<close> where the library returns no
  item or an error code. The last four fields are the accessors on items of another type, which
  the program calls unguarded in places.
\<close>

record cbor_lib =
  cbor_map_add :: "nat \<Rightarrow> (cbor \<times> cbor) list \<Rightarrow> cbor \<times> cbor \<Rightarrow> (cbor \<times> cbor) list"
  cbor_array_push :: "nat \<Rightarrow> cbor list \<Rightarrow> cbor \<Rightarrow> cbor list"
  cbor_serialize :: "cbor \<Rightarrow> bytes option"
  cbor_load :: "bytes \<Rightarrow> cbor option"
  get_uint64 :: "cbor \<Rightarrow> u64"
  int_other :: "cbor \<Rightarrow> u64"
  text_of :: "cbor \<Rightarrow> string"
  bytes_of :: "cbor \<Rightarrow> bytes"

definition width_bits :: "int_width \<Rightarrow> nat" where
  "width_bits w = (case w of CBOR_INT_8 \<Rightarrow> 8 | CBOR_INT_16 \<Rightarrow> 16 | CBOR_INT_32 \<Rightarrow> 32 | CBOR_INT_64 \<Rightarrow> 64)"

text \<open>
  Items the program builds: ASCII text, integers that fit their width, and nesting no deeper
  than \<open>d\<close> (libcbor's parser keeps a stack of bounded size).
\<close>

fun plain :: "cbor \<Rightarrow> nat \<Rightarrow> bool" where
  "plain (CUint w v) d \<longleftrightarrow> unat v < 2 ^ width_bits w"
| "plain (CNegint w v) d \<longleftrightarrow> unat v < 2 ^ width_bits w"
| "plain (CBytes b) d \<longleftrightarrow> length b < 2 ^ 64"
| "plain (CText s) d \<longleftrightarrow> length s < 2 ^ 64 \<and> (\<forall>c\<in>set s. (of_char c :: nat) < 128)"
| "plain (CArray xs) d \<longleftrightarrow> 0 < d \<and> length xs < 2 ^ 64 \<and> (\<forall>x\<in>set xs. plain x (d - 1))"
| "plain (CMap ps) d \<longleftrightarrow> 0 < d \<and> length ps < 2 ^ 64 \<and>
     (\<forall>(k, v)\<in>set ps. plain k (d - 1) \<and> plain v (d - 1))"
| "plain (CBool b) d \<longleftrightarrow> True"
| "plain CNull d \<longleftrightarrow> True"
| "plain COther d \<longleftrightarrow> False"

text \<open>
  libcbor's documentation: a definite map or array accepts an element while it has room and
  refuses it, unchanged, once it is full; what was serialised parses back to the same item, and
  a proper prefix of it does not parse; the accessors return the content of an item of their
  type.
\<close>

definition cbor_room :: "cbor_lib \<Rightarrow> bool" where
  "cbor_room C \<longleftrightarrow>
     (\<forall>cap ps p. cbor_map_add C cap ps p = (if length ps < cap then ps @ [p] else ps)) \<and>
     (\<forall>cap xs x. cbor_array_push C cap xs x = (if length xs < cap then xs @ [x] else xs))"

definition cbor_trip :: "cbor_lib \<Rightarrow> cbor \<Rightarrow> bool" where
  "cbor_trip C x \<longleftrightarrow> (\<exists>bs. cbor_serialize C x = Some bs \<and> cbor_load C bs = Some x \<and>
     (\<forall>cs ds. bs = cs @ ds \<longrightarrow> ds \<noteq> [] \<longrightarrow> cbor_load C cs = None))"

definition cbor_access :: "cbor_lib \<Rightarrow> bool" where
  "cbor_access C \<longleftrightarrow>
     (\<forall>v. get_uint64 C (CUint CBOR_INT_64 v) = v) \<and>
     (\<forall>s. text_of C (CText s) = s) \<and>
     (\<forall>b. bytes_of C (CBytes b) = b)"

definition cbor_ok :: "cbor_lib \<Rightarrow> bool" where
  "cbor_ok C \<longleftrightarrow> cbor_room C \<and> (\<forall>x. plain x 64 \<longrightarrow> cbor_trip C x) \<and> cbor_access C"

subsection \<open>Idioms of the program\<close>

text \<open>
  \<^verbatim>\<open>m = cbor_new_definite_map(cap); cbor_map_add(m, ..); ...\<close>, and the same for arrays.
\<close>

definition definite_map :: "cbor_lib \<Rightarrow> nat \<Rightarrow> (cbor \<times> cbor) list \<Rightarrow> cbor" where
  "definite_map C cap adds = CMap (foldl (cbor_map_add C cap) [] adds)"

definition definite_array :: "cbor_lib \<Rightarrow> nat \<Rightarrow> cbor list \<Rightarrow> cbor" where
  "definite_array C cap pushes = CArray (foldl (cbor_array_push C cap) [] pushes)"

text \<open>\<^verbatim>\<open>cbor_serialize_alloc\<close>, with the empty byte string when it fails.\<close>

definition serialize_or_empty :: "cbor_lib \<Rightarrow> cbor \<Rightarrow> bytes" where
  "serialize_or_empty C m = (case cbor_serialize C m of None \<Rightarrow> [] | Some buf \<Rightarrow> buf)"

text \<open>A C string ends at its first NUL: what \<^verbatim>\<open>cbor_build_string(s.c_str())\<close> keeps of \<open>s\<close>.\<close>

definition c_str :: "string \<Rightarrow> string" where
  "c_str s = takeWhile (\<lambda>c. c \<noteq> CHR 0x00) s"

definition build_string :: "string \<Rightarrow> cbor" where
  "build_string s = CText (c_str s)"

text \<open>Pairs whose keys are C string literals (the \<^verbatim>\<open>map_add_*\<close> and \<^verbatim>\<open>add_*\<close> helpers).\<close>

definition str_fields :: "(string \<times> cbor) list \<Rightarrow> (cbor \<times> cbor) list" where
  "str_fields kvs = map (\<lambda>(k, v). (build_string k, v)) kvs"

definition build_uint64 :: "u64 \<Rightarrow> cbor" where
  "build_uint64 v = CUint CBOR_INT_64 v"

definition isa_string :: "cbor \<Rightarrow> bool" where
  "isa_string x \<longleftrightarrow> (case x of CText _ \<Rightarrow> True | _ \<Rightarrow> False)"

definition isa_bytestring :: "cbor \<Rightarrow> bool" where
  "isa_bytestring x \<longleftrightarrow> (case x of CBytes _ \<Rightarrow> True | _ \<Rightarrow> False)"

definition isa_uint :: "cbor \<Rightarrow> bool" where
  "isa_uint x \<longleftrightarrow> (case x of CUint _ _ \<Rightarrow> True | _ \<Rightarrow> False)"

text \<open>\<^verbatim>\<open>cbor_is_bool(v) && cbor_get_bool(v)\<close>.\<close>

definition true_item :: "cbor \<Rightarrow> bool" where
  "true_item x \<longleftrightarrow> x = CBool True"

text \<open>
  The helper \<^verbatim>\<open>safe_get_uint\<close> / \<^verbatim>\<open>safe_cbor_uint\<close>: the getter that matches the item's width,
  zero-extended.
\<close>

definition safe_get_uint :: "cbor_lib \<Rightarrow> cbor \<Rightarrow> u64" where
  "safe_get_uint C x = (case x of CUint w v \<Rightarrow> v | CNegint w v \<Rightarrow> v | _ \<Rightarrow> int_other C x)"

text \<open>Linear search for a text key, the first match: \<^verbatim>\<open>find_key\<close> and the \<^verbatim>\<open>get_*\<close> lambdas.\<close>

fun find_key :: "(cbor \<times> cbor) list \<Rightarrow> string \<Rightarrow> cbor option" where
  "find_key [] key = None"
| "find_key ((k, v) # ps) key =
     (case k of CText s \<Rightarrow> (if s = key then Some v else find_key ps key)
              | _ \<Rightarrow> find_key ps key)"

subsection \<open>Consequences of the documented behaviour\<close>

lemma foldl_room:
  assumes add: "\<And>xs x. add xs x = (if length xs < cap then xs @ [x] else xs)"
  shows "foldl add ys xs = ys @ take (cap - length ys) xs"
proof (induction xs arbitrary: ys)
  case Nil
  then show ?case by simp
next
  case (Cons x xs)
  show ?case
  proof (cases "length ys < cap")
    case True
    then have "cap - length ys = Suc (cap - Suc (length ys))"
      by simp
    with True Cons.IH show ?thesis
      by (simp add: add)
  next
    case False
    with Cons.IH show ?thesis
      by (simp add: add)
  qed
qed

text \<open>A definite map keeps exactly the first \<open>cap\<close> pairs added to it.\<close>

lemma definite_map_take:
  assumes "cbor_ok C"
  shows "definite_map C cap adds = CMap (take cap adds)"
proof -
  from assms have "cbor_map_add C cap xs x = (if length xs < cap then xs @ [x] else xs)" for xs x
    by (cases x) (simp add: cbor_ok_def cbor_room_def)
  then show ?thesis
    using foldl_room [of "cbor_map_add C cap" cap "[]" adds] by (simp add: definite_map_def)
qed

lemma definite_array_take:
  assumes "cbor_ok C"
  shows "definite_array C cap xs = CArray (take cap xs)"
proof -
  from assms have "cbor_array_push C cap ys x = (if length ys < cap then ys @ [x] else ys)" for ys x
    by (simp add: cbor_ok_def cbor_room_def)
  then show ?thesis
    using foldl_room [of "cbor_array_push C cap" cap "[]" xs] by (simp add: definite_array_def)
qed

lemma cbor_ok_trip:
  assumes "cbor_ok C" "plain x 64"
  obtains bs where "cbor_serialize C x = Some bs" "cbor_load C bs = Some x"
    "\<forall>n<length bs. cbor_load C (take n bs) = None"
proof -
  from assms have "cbor_trip C x"
    by (simp add: cbor_ok_def)
  then obtain bs where bs: "cbor_serialize C x = Some bs" "cbor_load C bs = Some x"
      "\<forall>cs ds. bs = cs @ ds \<longrightarrow> ds \<noteq> [] \<longrightarrow> cbor_load C cs = None"
    unfolding cbor_trip_def by (elim exE conjE)
  have "cbor_load C (take n bs) = None" if "n < length bs" for n
    using bs(3) [rule_format, of "take n bs" "drop n bs"] that by simp
  then show ?thesis
    using that bs(1,2) by blast
qed

text \<open>Two items have different prints, so no item prints as the empty string.\<close>

lemma cbor_load_Nil:
  assumes "cbor_ok C"
  shows "cbor_load C [] = None"
proof -
  have "cbor_load C [] = None \<or> cbor_load C [] = Some x" if "plain x 64" for x
  proof -
    from assms that obtain bs where bs: "cbor_load C bs = Some x"
        "\<forall>n<length bs. cbor_load C (take n bs) = None"
      by (metis cbor_ok_trip)
    then show ?thesis
      by (cases bs) auto
  qed
  from this [of CNull] this [of "CBool True"] show ?thesis
    by auto
qed

lemma cbor_ok_print:
  assumes "cbor_ok C" "plain x 64"
  obtains bs where "cbor_serialize C x = Some bs" "cbor_load C bs = Some x" "bs \<noteq> []"
    "\<forall>n<length bs. cbor_load C (take n bs) = None"
  using assms cbor_load_Nil [OF assms(1)] by (metis cbor_ok_trip option.distinct(1))

lemma cbor_ok_access [simp]:
  assumes "cbor_ok C"
  shows "get_uint64 C (build_uint64 v) = v" "text_of C (CText s) = s" "bytes_of C (CBytes b) = b"
  using assms by (simp_all add: cbor_ok_def cbor_access_def build_uint64_def)

lemma isa_simps [simp]:
  "isa_string (CText s)" "isa_bytestring (CBytes b)" "isa_uint (CUint w v)"
  "isa_uint (build_uint64 v)" "isa_string (build_string s)"
  by (simp_all add: isa_string_def isa_bytestring_def isa_uint_def build_uint64_def build_string_def)

lemma safe_get_uint_build [simp]: "safe_get_uint C (build_uint64 v) = v"
  by (simp add: safe_get_uint_def build_uint64_def)

definition no_nul :: "string \<Rightarrow> bool" where
  "no_nul s \<longleftrightarrow> CHR 0x00 \<notin> set s"

definition ascii :: "string \<Rightarrow> bool" where
  "ascii s \<longleftrightarrow> (\<forall>c\<in>set s. (of_char c :: nat) < 128)"

lemma c_str_id [simp]: "no_nul s \<Longrightarrow> c_str s = s"
  by (auto simp: c_str_def no_nul_def takeWhile_eq_all_conv)

lemma no_nul_c_str [simp]: "no_nul (c_str s)"
  by (auto simp: no_nul_def c_str_def dest: set_takeWhileD)

lemma ascii_c_str: "ascii s \<Longrightarrow> ascii (c_str s)"
  by (auto simp: ascii_def c_str_def dest: set_takeWhileD)

lemma length_c_str_le: "length (c_str s) \<le> length s"
  by (simp add: c_str_def length_takeWhile_le)

lemma plain_build [simp]:
  "plain (build_uint64 v) d"
  "plain (build_string s) d \<longleftrightarrow> length (c_str s) < 2 ^ 64 \<and> ascii (c_str s)"
  using unsigned_less [of v]
  by (simp_all add: build_uint64_def width_bits_def build_string_def ascii_def)

lemma text_of_build_string [simp]: "cbor_ok C \<Longrightarrow> text_of C (build_string s) = c_str s"
  by (simp add: build_string_def)

text \<open>Printing a map whose items are plain and parsing it back.\<close>

lemma map_print_load:
  assumes "cbor_ok C" "\<forall>(k, v)\<in>set ps. plain k 63 \<and> plain v 63" "length ps < 2 ^ 64"
  shows "cbor_load C (serialize_or_empty C (CMap ps)) = Some (CMap ps)"
proof -
  have "plain (CMap ps) 64"
    using assms(2,3) by simp
  with assms(1) obtain bs where "cbor_serialize C (CMap ps) = Some bs" "cbor_load C bs = Some (CMap ps)"
    by (metis cbor_ok_print)
  then show ?thesis
    by (simp add: serialize_or_empty_def)
qed

lemma serialize_definite_map:
  assumes "cbor_ok C" "\<forall>(k, v)\<in>set ps. plain k 63 \<and> plain v 63" "length ps < 2 ^ 64" "length ps \<le> cap"
  shows "cbor_load C (serialize_or_empty C (definite_map C cap ps)) = Some (CMap ps)"
  using assms by (simp add: definite_map_take map_print_load)

text \<open>Keys the encoder keeps as they are.\<close>

definition key_lit :: "string \<Rightarrow> bool" where
  "key_lit k \<longleftrightarrow> list_all (\<lambda>c. 0 < (of_char c :: nat) \<and> (of_char c :: nat) < 128) k \<and> length k < 100"

lemma key_litD: "key_lit k \<Longrightarrow> no_nul k \<and> ascii k \<and> length k < 2 ^ 64"
  by (auto simp: key_lit_def no_nul_def ascii_def list_all_iff)

lemma find_key_fields: "list_all (\<lambda>(k, v). key_lit k) kvs \<Longrightarrow> find_key (str_fields kvs) key = map_of kvs key"
  by (induction kvs) (auto simp: str_fields_def build_string_def dest: key_litD)

lemma load_fields:
  assumes "cbor_ok C" "list_all (\<lambda>(k, v). key_lit k) kvs" "list_all (\<lambda>(k, v). plain v 63) kvs"
    "length kvs \<le> cap" "length kvs < 2 ^ 64"
  shows "cbor_load C (serialize_or_empty C (definite_map C cap (str_fields kvs))) = Some (CMap (str_fields kvs))"
proof (rule serialize_definite_map [OF assms(1)])
  show "\<forall>(k, v)\<in>set (str_fields kvs). plain k 63 \<and> plain v 63"
    using assms(2,3) by (fastforce simp: str_fields_def list_all_iff dest: key_litD)
qed (use assms(4,5) in \<open>simp_all add: str_fields_def\<close>)

subsection \<open>Sizes\<close>

text \<open>
  The encoding is compact: a head has at most nine bytes, and nothing else is added to the
  content of an item (RFC 8949, the format libcbor documents).
\<close>

fun cbor_size :: "cbor \<Rightarrow> nat" where
  "cbor_size (CBytes b) = 9 + length b"
| "cbor_size (CText s) = 9 + length s"
| "cbor_size (CArray xs) = 9 + sum_list (map cbor_size xs)"
| "cbor_size (CMap ps) = 9 + sum_list (map (\<lambda>(k, v). cbor_size k + cbor_size v) ps)"
| "cbor_size _ = 9"

definition cbor_compact :: "cbor_lib \<Rightarrow> bool" where
  "cbor_compact C \<longleftrightarrow> (\<forall>x bs. cbor_serialize C x = Some bs \<longrightarrow> length bs \<le> cbor_size x)"

lemma length_serialize_le: "cbor_compact C \<Longrightarrow> length (serialize_or_empty C x) \<le> cbor_size x"
  by (auto simp: serialize_or_empty_def cbor_compact_def split: option.split)

end
