(* ===== verification/Cbor_Wire.thy ===== *)
theory Cbor_Wire
  imports Cbor
begin

text \<open>
  The RFC 8949 wire format of the items of \<open>Cbor\<close>: an instance of the record \<open>cbor_lib\<close>
  with integers printed at their width and lengths in the shortest head. It satisfies
  \<open>cbor_ok\<close>, so the hypothesis the properties put on libcbor can hold.
\<close>

fun be_nat :: "nat \<Rightarrow> nat \<Rightarrow> bytes" where
  "be_nat 0 n = []"
| "be_nat (Suc k) n = be_nat k (n div 256) @ [of_nat (n mod 256)]"

definition nat_of_be :: "bytes \<Rightarrow> nat" where
  "nat_of_be bs = foldl (\<lambda>a b. 256 * a + unat b) 0 bs"

definition head :: "nat \<Rightarrow> nat \<Rightarrow> bytes" where
  "head m n =
     (if n < 24 then [of_nat (32 * m + n)]
      else if n < 256 then of_nat (32 * m + 24) # be_nat 1 n
      else if n < 65536 then of_nat (32 * m + 25) # be_nat 2 n
      else if n < 4294967296 then of_nat (32 * m + 26) # be_nat 4 n
      else of_nat (32 * m + 27) # be_nat 8 n)"

definition int_head :: "nat \<Rightarrow> int_width \<Rightarrow> nat \<Rightarrow> bytes" where
  "int_head m w n = (case w of
     CBOR_INT_8 \<Rightarrow> if n < 24 then [of_nat (32 * m + n)] else of_nat (32 * m + 24) # be_nat 1 n
   | CBOR_INT_16 \<Rightarrow> of_nat (32 * m + 25) # be_nat 2 n
   | CBOR_INT_32 \<Rightarrow> of_nat (32 * m + 26) # be_nat 4 n
   | CBOR_INT_64 \<Rightarrow> of_nat (32 * m + 27) # be_nat 8 n)"

fun enc :: "cbor \<Rightarrow> bytes" where
  "enc (CUint w v) = int_head 0 w (unat v)"
| "enc (CNegint w v) = int_head 1 w (unat v)"
| "enc (CBytes b) = head 2 (length b) @ b"
| "enc (CText s) = head 3 (length s) @ as_bytes s"
| "enc (CArray xs) = head 4 (length xs) @ concat (map enc xs)"
| "enc (CMap ps) = head 5 (length ps) @ concat (map (\<lambda>(k, v). enc k @ enc v) ps)"
| "enc (CBool b) = [if b then 0xF5 else 0xF4]"
| "enc CNull = [0xF6]"
| "enc COther = [0xF7]"

text \<open>The initial byte: major type, additional information, value, remaining input.\<close>

fun rd_head :: "bytes \<Rightarrow> (nat \<times> nat \<times> nat \<times> bytes) option" where
  "rd_head [] = None"
| "rd_head (b # r) =
     (let m = unat b div 32; a = unat b mod 32 in
      if a < 24 then Some (m, a, a, r)
      else if a \<le> 27 then
        (let k = 2 ^ (a - 24) in
         if length r < k then None else Some (m, a, nat_of_be (take k r), drop k r))
      else None)"

definition width_class :: "nat \<Rightarrow> int_width" where
  "width_class a = (if a \<le> 24 then CBOR_INT_8 else if a = 25 then CBOR_INT_16
     else if a = 26 then CBOR_INT_32 else CBOR_INT_64)"

fun pair_up :: "'a list \<Rightarrow> ('a \<times> 'a) list" where
  "pair_up (x # y # zs) = (x, y) # pair_up zs"
| "pair_up zs = []"

fun dec :: "nat \<Rightarrow> bytes \<Rightarrow> (cbor \<times> bytes) option"
and decs :: "nat \<Rightarrow> nat \<Rightarrow> bytes \<Rightarrow> (cbor list \<times> bytes) option" where
  "dec 0 bs = None"
| "dec (Suc f) bs = (case rd_head bs of
     None \<Rightarrow> None
   | Some (m, a, v, r) \<Rightarrow>
       if m = 0 then Some (CUint (width_class a) (of_nat v), r)
       else if m = 1 then Some (CNegint (width_class a) (of_nat v), r)
       else if m = 2 then (if length r < v then None else Some (CBytes (take v r), drop v r))
       else if m = 3 then (if length r < v then None else Some (CText (of_bytes (take v r)), drop v r))
       else if m = 4 then map_option (\<lambda>(xs, r'). (CArray xs, r')) (decs f v r)
       else if m = 5 then map_option (\<lambda>(xs, r'). (CMap (pair_up xs), r')) (decs f (2 * v) r)
       else if m = 7 then
         (if a = 20 then Some (CBool False, r) else if a = 21 then Some (CBool True, r)
          else if a = 22 then Some (CNull, r) else if a = 23 then Some (COther, r) else None)
       else None)"
| "decs 0 n bs = None"
| "decs (Suc f) n bs =
     (if n = 0 then Some ([], bs)
      else case dec f bs of None \<Rightarrow> None
        | Some (x, r) \<Rightarrow> map_option (\<lambda>(xs, r'). (x # xs, r')) (decs f (n - 1) r))"

definition wire_load :: "bytes \<Rightarrow> cbor option" where
  "wire_load bs = map_option fst (dec (2 * length bs + 2) bs)"

definition wire_cbor :: cbor_lib where
  "wire_cbor = \<lparr>
     cbor_map_add = (\<lambda>cap ps p. if length ps < cap then ps @ [p] else ps),
     cbor_array_push = (\<lambda>cap xs x. if length xs < cap then xs @ [x] else xs),
     cbor_serialize = (\<lambda>x. Some (enc x)),
     cbor_load = wire_load,
     get_uint64 = (\<lambda>x. case x of CUint w v \<Rightarrow> v | _ \<Rightarrow> 0),
     int_other = (\<lambda>x. 0),
     text_of = (\<lambda>x. case x of CText s \<Rightarrow> s | _ \<Rightarrow> []),
     bytes_of = (\<lambda>x. case x of CBytes b \<Rightarrow> b | _ \<Rightarrow> [])\<rparr>"

subsection \<open>Heads\<close>

lemma length_be_nat [simp]: "length (be_nat k n) = k"
  by (induction k n rule: be_nat.induct) auto

lemma nat_of_be_be_nat [simp]: "nat_of_be (be_nat k n) = n mod 256 ^ k"
proof (induction k n rule: be_nat.induct)
  case (1 n)
  then show ?case by (simp add: nat_of_be_def)
next
  case (2 k n)
  have "unat (of_nat (n mod 256) :: u8) = n mod 256"
    by (simp add: unat_of_nat)
  with 2 show ?case
    by (simp add: nat_of_be_def mod_mult2_eq)
qed

lemma unat_of_nat_u8: "n < 256 \<Longrightarrow> unat (of_nat n :: u8) = n"
  by (simp add: unat_of_nat)

declare be_nat.simps [simp del]

lemma rd_head_short:
  assumes "m < 8" "n < 24"
  shows "rd_head (of_nat (32 * m + n) # r) = Some (m, n, n, r)"
proof -
  from assms have "unat (of_nat (32 * m + n) :: u8) = 32 * m + n"
    by (intro unat_of_nat_u8) auto
  with assms show ?thesis
    by (simp add: Let_def del: of_nat_add of_nat_mult)
qed

lemma rd_head_long:
  assumes "m < 8" "a \<in> {24, 25, 26, 27}" "k = 2 ^ (a - 24)" "n < 256 ^ k"
  shows "rd_head (of_nat (32 * m + a) # be_nat k n @ r) = Some (m, a, n, r)"
proof -
  from assms have "unat (of_nat (32 * m + a) :: u8) = 32 * m + a"
    by (intro unat_of_nat_u8) auto
  with assms show ?thesis
    by (auto simp: Let_def simp del: of_nat_add of_nat_mult)
qed

lemma rd_head_head:
  assumes "m < 8" "n < 2 ^ 64"
  shows "\<exists>a. rd_head (head m n @ r) = Some (m, a, n, r)"
proof -
  have "\<exists>a. rd_head (of_nat (32 * m + a') # be_nat k n @ r) = Some (m, a, n, r)"
    if "a' \<in> {24, 25, 26, 27}" "k = 2 ^ (a' - 24)" "n < 256 ^ k" for a' k
    using rd_head_long [OF assms(1) that] by blast
  from this [of 24 1] this [of 25 2] this [of 26 4] this [of 27 8] show ?thesis
    using assms rd_head_short [of m n r]
    by (auto simp: head_def simp del: of_nat_add of_nat_mult rd_head.simps)
qed

lemma rd_head_int_head:
  assumes "m < 8" "n < 2 ^ width_bits w"
  shows "\<exists>a. rd_head (int_head m w n @ r) = Some (m, a, n, r) \<and> width_class a = w"
proof -
  have long: "rd_head (of_nat (32 * m + a) # be_nat k n @ r) = Some (m, a, n, r)"
    if "a \<in> {24, 25, 26, 27}" "k = 2 ^ (a - 24)" "n < 256 ^ k" for a k
    by (rule rd_head_long [OF assms(1) that])
  show ?thesis
    using assms rd_head_short [of m n r] long [of 24 1] long [of 25 2] long [of 26 4] long [of 27 8]
    by (cases w)
       (auto simp: int_head_def width_bits_def width_class_def simp del: of_nat_add of_nat_mult rd_head.simps)
qed

lemma head_neq_Nil [simp]: "head m n \<noteq> []" "int_head m w n \<noteq> []"
  by (auto simp: head_def int_head_def split: int_width.splits)

lemma length_enc_pos: "0 < length (enc x)"
  by (cases x) auto

subsection \<open>What is printed parses back\<close>

lemma of_bytes_as_bytes [simp]: "of_bytes (as_bytes s) = s"
proof -
  have "char_of (unat (of_char c :: u8)) = c" for c
  proof -
    have "unat (of_nat (of_char c) :: u8) = of_char c"
      by (rule unat_of_nat_u8) (simp add: nat_of_char_less_256)
    then show ?thesis
      by (simp add: of_nat_of_char)
  qed
  then show ?thesis
    by (simp add: of_bytes_def as_bytes_def map_idI)
qed

lemma decs_concat:
  assumes "\<And>x f r. x \<in> set xs \<Longrightarrow> 2 * length (enc x) \<le> f \<Longrightarrow> dec f (enc x @ r) = Some (x, r)"
    and "2 * length (concat (map enc xs)) + 1 \<le> f"
  shows "decs f (length xs) (concat (map enc xs) @ r) = Some (xs, r)"
  using assms
proof (induction xs arbitrary: f)
  case Nil
  then show ?case by (cases f) auto
next
  case (Cons x xs)
  from Cons.prems(2) obtain f' where f: "f = Suc f'"
    by (cases f) auto
  have "2 * length (enc x) \<le> f'" "2 * length (concat (map enc xs)) + 1 \<le> f'"
    using Cons.prems(2) f length_enc_pos [of x] by (simp_all del: length_greater_0_conv)
  then have "dec f' (enc x @ concat (map enc xs) @ r) = Some (x, concat (map enc xs) @ r)"
    and "decs f' (length xs) (concat (map enc xs) @ r) = Some (xs, r)"
    using Cons.prems(1) Cons.IH by auto
  then show ?case
    by (simp add: f)
qed

definition flat_pairs :: "('a \<times> 'a) list \<Rightarrow> 'a list" where
  "flat_pairs ps = concat (map (\<lambda>(k, v). [k, v]) ps)"

lemma flat_pairs_simps [simp]:
  "flat_pairs [] = []" "flat_pairs ((k, v) # ps) = k # v # flat_pairs ps"
  by (simp_all add: flat_pairs_def)

lemma pair_up_flat [simp]: "pair_up (flat_pairs ps) = ps"
  by (induction ps) auto

lemma length_flat_pairs [simp]: "length (flat_pairs ps) = 2 * length ps"
  by (induction ps) auto

lemma concat_enc_flat: "concat (map enc (flat_pairs ps)) = concat (map (\<lambda>(k, v). enc k @ enc v) ps)"
  by (induction ps) auto

lemma set_flat_pairs: "x \<in> set (flat_pairs ps) \<longleftrightarrow> (\<exists>k v. (k, v) \<in> set ps \<and> (x = k \<or> x = v))"
  by (force simp: flat_pairs_def)

lemma dec_enc:
  "plain x d \<Longrightarrow> 2 * length (enc x) \<le> f \<Longrightarrow> dec f (enc x @ r) = Some (x, r)"
proof (induction x arbitrary: d f r)
  case (CUint w v)
  then obtain f' where f: "f = Suc f'"
    using length_enc_pos [of "CUint w v"] by (cases f) (simp_all del: length_greater_0_conv)
  from CUint.prems rd_head_int_head [of 0 "unat v" w r] show ?case
    by (auto simp: f)
next
  case (CNegint w v)
  then obtain f' where f: "f = Suc f'"
    using length_enc_pos [of "CNegint w v"] by (cases f) (simp_all del: length_greater_0_conv)
  from CNegint.prems rd_head_int_head [of 1 "unat v" w r] show ?case
    by (auto simp: f)
next
  case (CBytes b)
  then obtain f' where f: "f = Suc f'"
    using length_enc_pos [of "CBytes b"] by (cases f) (simp_all del: length_greater_0_conv)
  from CBytes.prems rd_head_head [of 2 "length b" "b @ r"] show ?case
    by (auto simp: f)
next
  case (CText s)
  then obtain f' where f: "f = Suc f'"
    using length_enc_pos [of "CText s"] by (cases f) (simp_all del: length_greater_0_conv)
  from CText.prems rd_head_head [of 3 "length s" "as_bytes s @ r"] show ?case
    by (auto simp: f)
next
  case (CArray xs)
  obtain h where h: "head 4 (length xs) = h" "0 < length h"
    by simp
  from CArray.prems(2) h obtain f' where f: "f = Suc f'" "2 * length (concat (map enc xs)) + 1 \<le> f'"
    by (cases f) (simp_all del: length_greater_0_conv)
  have "decs f' (length xs) (concat (map enc xs) @ r) = Some (xs, r)"
    using CArray.IH CArray.prems(1) f(2) by (intro decs_concat) auto
  with CArray.prems rd_head_head [of 4 "length xs" "concat (map enc xs) @ r"] show ?case
    by (auto simp: f(1))
next
  case (CMap ps)
  let ?xs = "flat_pairs ps"
  obtain h where h: "head 5 (length ps) = h" "0 < length h"
    by simp
  from CMap.prems(2) h obtain f' where f: "f = Suc f'" "2 * length (concat (map enc ?xs)) + 1 \<le> f'"
    by (cases f) (simp_all add: concat_enc_flat del: length_greater_0_conv)
  have "dec g (enc x @ r') = Some (x, r')"
    if "x \<in> set ?xs" "2 * length (enc x) \<le> g" for x g r'
  proof -
    from that(1) obtain k v where kv: "(k, v) \<in> set ps" "x = k \<or> x = v"
      by (auto simp: set_flat_pairs)
    with CMap.prems(1) have "plain x (d - 1)"
      by auto
    with kv(2) that(2) CMap.IH(1) [OF kv(1), of k "d - 1" g r'] CMap.IH(2) [OF kv(1), of v "d - 1" g r']
    show ?thesis
      by (auto simp: prod_set_simps)
  qed
  then have "decs f' (length ?xs) (concat (map enc ?xs) @ r) = Some (?xs, r)"
    using f(2) by (rule decs_concat)
  with CMap.prems rd_head_head [of 5 "length ps" "concat (map enc ?xs) @ r"] show ?case
    by (auto simp: f(1) concat_enc_flat)
qed (case_tac [!] f, auto)

subsection \<open>A proper prefix does not parse\<close>

lemma rd_head_append: "rd_head bs = Some (m, a, v, r) \<Longrightarrow> rd_head (bs @ ds) = Some (m, a, v, r @ ds)"
  by (cases bs) (auto simp: Let_def split: if_splits)

lemma dec_append:
  "dec f bs = Some (x, r) \<Longrightarrow> f \<le> g \<Longrightarrow> dec g (bs @ ds) = Some (x, r @ ds)"
  "decs f n bs = Some (xs, r') \<Longrightarrow> f \<le> g \<Longrightarrow> decs g n (bs @ ds) = Some (xs, r' @ ds)"
proof (induction f bs and f n bs arbitrary: x r g and xs r' g rule: dec_decs.induct)
  case (2 f bs)
  from 2(4) obtain g' where g: "g = Suc g'" "f \<le> g'"
    by (cases g) auto
  from 2(3) obtain m a v q where h: "rd_head bs = Some (m, a, v, q)"
    by (auto split: option.splits)
  note hd = rd_head_append [OF h, of ds]
  show ?case
    using 2(3) h hd 2(1) [OF h refl refl refl] 2(2) [OF h refl refl refl] g(2)
    by (auto simp: g(1) split: if_splits)
next
  case (4 f n bs)
  from 4(4) obtain g' where g: "g = Suc g'" "f \<le> g'"
    by (cases g) auto
  show ?case
  proof (cases "n = 0")
    case True
    with 4(3) g show ?thesis by simp
  next
    case False
    with 4(3) obtain y q ys where y: "dec f bs = Some (y, q)" "decs f (n - 1) q = Some (ys, r')" "xs = y # ys"
      by (auto split: option.splits)
    from 4(1) [OF False y(1) g(2)] 4(2) [OF False y(1) refl y(2) g(2)] False y(3) show ?thesis
      by (simp add: g(1))
  qed
qed auto

lemma wire_load_enc: "plain x d \<Longrightarrow> wire_load (enc x) = Some x"
  using dec_enc [of x d "2 * length (enc x) + 2" "[]"] by (simp add: wire_load_def)

lemma wire_load_prefix:
  assumes "plain x d" "enc x = cs @ ds" "ds \<noteq> []"
  shows "wire_load cs = None"
proof (cases "dec (2 * length cs + 2) cs")
  case None
  then show ?thesis by (simp add: wire_load_def)
next
  case (Some p)
  obtain y r where p: "p = (y, r)"
    by (cases p)
  let ?g = "2 * length (enc x) + 2"
  have "dec ?g (cs @ ds) = Some (y, r @ ds)"
    by (rule dec_append(1) [OF Some [unfolded p]]) (simp add: assms(2))
  moreover have "dec ?g (enc x) = Some (x, [])"
    using dec_enc [OF assms(1), of ?g "[]"] by simp
  ultimately show ?thesis
    using assms(2,3) by simp
qed

lemma wire_cbor_ok [simp]: "cbor_ok wire_cbor"
proof -
  have "cbor_trip wire_cbor x" if "plain x 64" for x
    unfolding cbor_trip_def
  proof (intro exI conjI allI impI)
    show "cbor_serialize wire_cbor x = Some (enc x)" "cbor_load wire_cbor (enc x) = Some x"
      using wire_load_enc [OF that] by (simp_all add: wire_cbor_def)
    show "cbor_load wire_cbor cs = None" if "enc x = cs @ ds" "ds \<noteq> []" for cs ds
      using wire_load_prefix [OF \<open>plain x 64\<close> that] by (simp add: wire_cbor_def)
  qed
  moreover have "cbor_room wire_cbor" "cbor_access wire_cbor"
    by (simp_all add: cbor_room_def cbor_access_def wire_cbor_def)
  ultimately show ?thesis
    unfolding cbor_ok_def by blast
qed

subsection \<open>The format is compact\<close>

lemma length_head_le: "length (head m n) \<le> 9"
  by (simp add: head_def)

lemma length_enc_le: "length (enc x) \<le> cbor_size x"
proof (induction x rule: cbor_size.induct)
  case (3 xs)
  then have "length (concat (map enc xs)) \<le> sum_list (map cbor_size xs)"
    by (induction xs) (auto simp: add_mono)
  then show ?case
    using length_head_le [of 4 "length xs"] by (simp only: enc.simps cbor_size.simps length_append)
next
  case (4 ps)
  have "length (concat (map (\<lambda>(k, v). enc k @ enc v) qs)) \<le> sum_list (map (\<lambda>(k, v). cbor_size k + cbor_size v) qs)"
    if "set qs \<subseteq> set ps" for qs
    using that
  proof (induction qs)
    case (Cons q qs)
    obtain k v where q: "q = (k, v)"
      by (cases q)
    have "length (enc k) \<le> cbor_size k" "length (enc v) \<le> cbor_size v"
      using 4 [of "(k, v)" k v] Cons.prems q by auto
    with Cons q show ?case
      by simp
  qed simp
  from this [OF subset_refl] show ?case
    using length_head_le [of 5 "length ps"] by (simp only: enc.simps cbor_size.simps length_append)
qed (use length_head_le in \<open>auto simp: int_head_def split: int_width.split intro: add_mono\<close>)

lemma wire_cbor_compact [simp]: "cbor_compact wire_cbor"
  by (simp add: cbor_compact_def wire_cbor_def length_enc_le)

end
