(* ===== verification/Tunnel.thy ===== *)
theory Tunnel
  imports Cell Guard Tft Cbor_Wire
begin

text \<open>
  Tunnels (\<^verbatim>\<open>anonrouter/src/tunnel.hpp\<close>, \<^verbatim>\<open>tunnel.cpp\<close>): the recruitment payloads a node sends
  to a prospective guard, the guard's answers, and the table of tunnels a node keeps. What a
  handler sends through the transport is returned as a list of datagrams (\<^verbatim>\<open>Transport::send\<close>).
\<close>

type_synonym datagram = "string \<times> bytes"

subsection \<open>Recruitment payloads\<close>

definition build_recruit_in_payload ::
  "cbor_lib \<Rightarrow> bytes \<Rightarrow> string \<Rightarrow> guard_type \<Rightarrow> u32 \<Rightarrow> bytes" where
  "build_recruit_in_payload C tok deliver_to gt ttl = serialize_or_empty C
     (definite_map C 4
        [(build_string ''session_token'', CBytes tok),
         (build_string ''deliver_to'', build_string deliver_to),
         (build_string ''guard_type'', build_uint64 (ucast (guard_type_code gt))),
         (build_string ''ttl'', build_uint64 (ucast ttl))])"

definition build_recruit_out_payload :: "cbor_lib \<Rightarrow> bytes \<Rightarrow> string \<Rightarrow> u32 \<Rightarrow> bytes" where
  "build_recruit_out_payload C tok forward_to ttl = serialize_or_empty C
     (definite_map C 3
        [(build_string ''session_token'', CBytes tok),
         (build_string ''forward_to'', build_string forward_to),
         (build_string ''ttl'', build_uint64 (ucast ttl))])"

record recruit_result =
  rr_ok :: bool
  rr_session_tok_hex :: string
  rr_reason :: string
  rr_retry_after :: int

definition default_recruit_result :: recruit_result where
  "default_recruit_result = \<lparr>rr_ok = False, rr_session_tok_hex = [], rr_reason = [], rr_retry_after = 0\<rparr>"

text \<open>One pair of the answer; the key is read with the string accessor whatever its type is.\<close>

definition recruit_response_field :: "cbor_lib \<Rightarrow> recruit_result \<Rightarrow> cbor \<times> cbor \<Rightarrow> recruit_result" where
  "recruit_response_field C r kv =
     (let k = text_of C (fst kv); v = snd kv in
      if k = ''ok'' then r\<lparr>rr_ok := true_item v\<rparr>
      else if k = ''reason'' \<and> isa_string v then r\<lparr>rr_reason := text_of C v\<rparr>
      else if k = ''retry_after'' then r\<lparr>rr_retry_after := int64_of (safe_get_uint C v)\<rparr>
      else if k = ''session_token'' \<and> isa_bytestring v \<and> length (bytes_of C v) = 32
      then r\<lparr>rr_session_tok_hex := to_hex (bytes_of C v)\<rparr>
      else r)"

definition parse_recruit_response :: "cbor_lib \<Rightarrow> bytes \<Rightarrow> recruit_result" where
  "parse_recruit_response C payload =
     (case cbor_load C payload of
        Some (CMap ps) \<Rightarrow> foldl (recruit_response_field C) default_recruit_result ps
      | _ \<Rightarrow> default_recruit_result)"

definition build_response :: "cbor_lib \<Rightarrow> bytes \<Rightarrow> bool \<Rightarrow> string option \<Rightarrow> int \<Rightarrow> bytes" where
  "build_response C tok ok reason retry_after = serialize_or_empty C
     (definite_map C (if ok then 2 else 4)
        ([(build_string ''ok'', CBool ok), (build_string ''session_token'', CBytes tok)] @
         (case reason of
            Some rs \<Rightarrow> if \<not> ok then
                [(build_string ''reason'', build_string rs),
                 (build_string ''retry_after'', build_uint64 (u64_of_int64 retry_after))]
              else []
          | None \<Rightarrow> [])))"

definition build_recruit_ok :: "cbor_lib \<Rightarrow> bytes \<Rightarrow> bytes" where
  "build_recruit_ok C tok = build_response C tok True None 0"

definition build_recruit_full :: "cbor_lib \<Rightarrow> bytes \<Rightarrow> bytes" where
  "build_recruit_full C tok = build_response C tok False (Some ''guard_capacity_full'') 0"

definition build_recruit_choked :: "cbor_lib \<Rightarrow> bytes \<Rightarrow> int \<Rightarrow> bytes" where
  "build_recruit_choked C tok retry_after =
     build_response C tok False (Some ''bandwidth_credit_insufficient'') retry_after"

subsection \<open>The tunnel table\<close>

datatype tunnel_type = TT_INBOUND_PUBLIC | TT_INBOUND_PRIVATE | TT_OUTBOUND

record tunnel_info =
  ti_session_tok :: bytes
  ti_guard_endpoint :: string
  ti_guard_node_id :: string
  ti_link_key :: bytes
  ti_type :: tunnel_type
  ti_created_at_s :: int
  ti_forward_to :: string

type_synonym tunnels = "(string \<times> tunnel_info) list"

definition tunnel_add_inbound :: "tunnels \<Rightarrow> tunnel_info \<Rightarrow> tunnels" where
  "tunnel_add_inbound ts info = AList.update (to_hex (ti_session_tok info)) info ts"

definition tunnel_add_outbound :: "tunnels \<Rightarrow> tunnel_info \<Rightarrow> tunnels" where
  "tunnel_add_outbound ts info = AList.update (to_hex (ti_session_tok info)) info ts"

definition tunnel_remove :: "tunnels \<Rightarrow> bytes \<Rightarrow> tunnels" where
  "tunnel_remove ts tok = AList.delete (to_hex tok) ts"

definition tunnel_lookup :: "tunnels \<Rightarrow> bytes \<Rightarrow> tunnel_info option" where
  "tunnel_lookup ts tok = map_of ts (to_hex tok)"

definition forward_via_outbound ::
  "tunnels \<Rightarrow> tft_engine \<Rightarrow> bytes \<Rightarrow> bytes \<Rightarrow> tft_engine \<times> datagram list" where
  "forward_via_outbound ts t out_tok cell =
     (case tunnel_lookup ts out_tok of
        None \<Rightarrow> (t, [])
      | Some info \<Rightarrow>
          (record_used_from t (ti_guard_node_id info) (int CELL_SIZE), [(ti_guard_endpoint info, cell)]))"

definition on_inbound_cell :: "bytes \<Rightarrow> (bytes \<Rightarrow> bytes \<Rightarrow> 'a) \<Rightarrow> 'a" where
  "on_inbound_cell cell cb = cb (cell_session_tok cell) cell"

interpretation tunnel_store: total_store ti_session_tok "\<lambda>i. i"
  "\<lambda>ts i. (tunnel_add_outbound ts i, True)" tunnel_lookup tunnel_remove
  by unfold_locales
     (auto simp: tunnel_add_outbound_def tunnel_lookup_def tunnel_remove_def table_simps)

subsection \<open>Properties\<close>

text \<open>
  A recruiter that parses the guard's answer reads what the guard decided: acceptance, or
  the reason of the refusal with the retry time, and the hexadecimal session token.
\<close>

theorem recruit_response_roundtrip:
  assumes "cbor_ok C" "length tok = 32" "int64_range retry"
  shows "parse_recruit_response C (build_recruit_ok C tok) =
      \<lparr>rr_ok = True, rr_session_tok_hex = to_hex tok, rr_reason = [], rr_retry_after = 0\<rparr> \<and>
    parse_recruit_response C (build_recruit_full C tok) =
      \<lparr>rr_ok = False, rr_session_tok_hex = to_hex tok, rr_reason = ''guard_capacity_full'', rr_retry_after = 0\<rparr> \<and>
    parse_recruit_response C (build_recruit_choked C tok retry) =
      \<lparr>rr_ok = False, rr_session_tok_hex = to_hex tok, rr_reason = ''bandwidth_credit_insufficient'',
       rr_retry_after = retry\<rparr>"
proof -
  have zero: "int64_of (u64_of_int64 0) = 0"
    by (rule int64_roundtrip) (simp add: int64_range_def)
  note defs = parse_recruit_response_def build_response_def recruit_response_field_def
    default_recruit_result_def serialize_definite_map no_nul_def ascii_def true_item_def Let_def
  have "parse_recruit_response C (build_recruit_ok C tok) =
      \<lparr>rr_ok = True, rr_session_tok_hex = to_hex tok, rr_reason = [], rr_retry_after = 0\<rparr>"
    using assms by (simp add: defs build_recruit_ok_def)
  moreover have "parse_recruit_response C (build_recruit_full C tok) =
      \<lparr>rr_ok = False, rr_session_tok_hex = to_hex tok, rr_reason = ''guard_capacity_full'', rr_retry_after = 0\<rparr>"
    using assms zero by (simp add: defs build_recruit_full_def)
  moreover have "parse_recruit_response C (build_recruit_choked C tok retry) =
      \<lparr>rr_ok = False, rr_session_tok_hex = to_hex tok, rr_reason = ''bandwidth_credit_insufficient'',
       rr_retry_after = retry\<rparr>"
    using assms int64_roundtrip [OF assms(3)] by (simp add: defs build_recruit_choked_def)
  ultimately show ?thesis
    by blast
qed

theorem recruit_response_roundtrip_witness:
  "rr_retry_after (parse_recruit_response wire_cbor (build_recruit_choked wire_cbor (zeros 32) 1700000000)) = 1700000000"
  using recruit_response_roundtrip [of wire_cbor "zeros 32" 1700000000]
  by (simp add: int64_range_def)

end
