(* ===== verification/Garlic.thy ===== *)
theory Garlic
  imports Cbor Cbor_Wire
begin

text \<open>
  Garlic blobs (\<^verbatim>\<open>anonrouter/src/garlic.hpp\<close>, \<^verbatim>\<open>garlic.cpp\<close>): the CBOR array of cloves a cell
  carries, its encoder and its decoder.
\<close>

datatype clove_type = CLV_DATA | CLV_ACK | CLV_HEARTBEAT | CLV_CTRL | CLV_Other u8

fun clove_type_byte :: "clove_type \<Rightarrow> u8" where
  "clove_type_byte CLV_DATA = 0x01"
| "clove_type_byte CLV_ACK = 0x02"
| "clove_type_byte CLV_HEARTBEAT = 0x03"
| "clove_type_byte CLV_CTRL = 0x04"
| "clove_type_byte (CLV_Other b) = b"

definition clove_type_of :: "u8 \<Rightarrow> clove_type" where
  "clove_type_of b = (if b = 0x01 then CLV_DATA else if b = 0x02 then CLV_ACK
     else if b = 0x03 then CLV_HEARTBEAT else if b = 0x04 then CLV_CTRL else CLV_Other b)"

record frag_info =
  clove_id :: u32
  frag_idx :: u16
  frag_total :: u16

record clove =
  clv_type :: clove_type
  clv_channel_id :: bytes
  clv_frag :: "frag_info option"
  clv_payload :: bytes

definition default_clove :: clove where
  "default_clove = \<lparr>clv_type = CLV_DATA, clv_channel_id = zeros 16, clv_frag = None, clv_payload = []\<rparr>"

definition encode_clove :: "cbor_lib \<Rightarrow> clove \<Rightarrow> cbor" where
  "encode_clove C c = definite_array C 5
     [build_uint64 (ucast (clove_type_byte (clv_type c))),
      CBytes (clv_channel_id c),
      CBool (clv_frag c \<noteq> None),
      (case clv_frag c of
         Some fi \<Rightarrow> definite_array C 3
           [build_uint64 (ucast (clove_id fi)), build_uint64 (ucast (frag_idx fi)),
            build_uint64 (ucast (frag_total fi))]
       | None \<Rightarrow> CNull),
      CBytes (clv_payload c)]"

definition garlic_encode :: "cbor_lib \<Rightarrow> clove list \<Rightarrow> bytes" where
  "garlic_encode C cloves =
     (let root = definite_array C (length cloves) (map (encode_clove C) cloves)
      in case cbor_serialize C root of None \<Rightarrow> [] | Some buf \<Rightarrow> buf)"

text \<open>One iteration of the decoder's loop; \<open>None\<close> is its \<^verbatim>\<open>continue\<close>.\<close>

definition decode_clove :: "cbor_lib \<Rightarrow> cbor \<Rightarrow> clove option" where
  "decode_clove C cv =
     (case cv of
        CArray f \<Rightarrow>
          (if length f < 5 then None
           else
             let c0 = default_clove\<lparr>clv_type := clove_type_of (ucast (safe_get_uint C (f ! 0)))\<rparr>;
                 c1 = (case f ! 1 of
                         CBytes b \<Rightarrow> if length b = 16 then c0\<lparr>clv_channel_id := b\<rparr> else c0
                       | _ \<Rightarrow> c0);
                 c2 = (if true_item (f ! 2)
                       then case f ! 3 of
                              CArray ff \<Rightarrow>
                                if length ff = 3
                                then c1\<lparr>clv_frag := Some \<lparr>
                                  clove_id = ucast (safe_get_uint C (ff ! 0)),
                                  frag_idx = ucast (safe_get_uint C (ff ! 1)),
                                  frag_total = ucast (safe_get_uint C (ff ! 2))\<rparr>\<rparr>
                                else c1
                            | _ \<Rightarrow> c1
                       else c1)
             in Some (case f ! 4 of CBytes h \<Rightarrow> c2\<lparr>clv_payload := h\<rparr> | _ \<Rightarrow> c2))
      | _ \<Rightarrow> None)"

definition garlic_decode :: "cbor_lib \<Rightarrow> bytes \<Rightarrow> clove list" where
  "garlic_decode C blob =
     (case cbor_load C blob of
        Some (CArray items) \<Rightarrow> List.map_filter (decode_clove C) items
      | _ \<Rightarrow> [])"

subsection \<open>Round trip\<close>

definition wf_clove :: "clove \<Rightarrow> bool" where
  "wf_clove c \<longleftrightarrow> clove_type_of (clove_type_byte (clv_type c)) = clv_type c \<and>
     length (clv_channel_id c) = 16 \<and> length (clv_payload c) < 2 ^ 64"

lemma ucast_back [simp]: "ucast (ucast (x :: u8) :: u64) = x" "ucast (ucast (y :: u16) :: u64) = y"
  "ucast (ucast (z :: u32) :: u64) = z"
  by (rule bit_word_eqI; auto simp: bit_simps)+

lemma decode_encode_clove:
  assumes "cbor_ok C" "wf_clove c"
  shows "decode_clove C (encode_clove C c) = Some c"
  using assms
  by (cases "clv_frag c")
     (simp_all add: decode_clove_def encode_clove_def definite_array_take wf_clove_def true_item_def
        default_clove_def Let_def)

lemma plain_encode_clove:
  assumes "cbor_ok C" "wf_clove c"
  shows "plain (encode_clove C c) 63"
  using assms
  by (cases "clv_frag c") (simp_all add: encode_clove_def definite_array_take wf_clove_def)

lemma map_filter_Some: "(\<And>x. x \<in> set xs \<Longrightarrow> f (g x) = Some x) \<Longrightarrow> List.map_filter f (map g xs) = xs"
  by (induction xs) (simp_all add: List.map_filter_simps)

lemma garlic_root:
  assumes "cbor_ok C" "list_all wf_clove cs" "length cs < 2 ^ 64"
  obtains "garlic_encode C cs \<noteq> []"
    "cbor_load C (garlic_encode C cs) = Some (CArray (map (encode_clove C) cs))"
    "\<forall>n<length (garlic_encode C cs). cbor_load C (take n (garlic_encode C cs)) = None"
proof -
  let ?root = "CArray (map (encode_clove C) cs)"
  have root: "definite_array C (length cs) (map (encode_clove C) cs) = ?root"
    using assms(1) by (simp add: definite_array_take)
  have "plain ?root 64"
    using assms by (auto simp: list_all_iff plain_encode_clove)
  with assms(1) obtain bs where "cbor_serialize C ?root = Some bs" "cbor_load C bs = Some ?root"
      "bs \<noteq> []" "\<forall>n<length bs. cbor_load C (take n bs) = None"
    by (rule cbor_ok_print)
  then show ?thesis
    using that root by (simp add: garlic_encode_def)
qed

text \<open>
  Encoding a list of cloves and decoding the blob gives the same cloves, in order, with
  their fragment information; a truncated blob decodes to no clove at all.
\<close>

theorem garlic_roundtrip:
  assumes "cbor_ok C" "list_all wf_clove cs" "length cs < 2 ^ 64"
  shows "garlic_encode C cs \<noteq> [] \<and> garlic_decode C (garlic_encode C cs) = cs \<and>
    (\<forall>n < length (garlic_encode C cs). garlic_decode C (take n (garlic_encode C cs)) = [])"
proof -
  obtain "garlic_encode C cs \<noteq> []"
    "cbor_load C (garlic_encode C cs) = Some (CArray (map (encode_clove C) cs))"
    "\<forall>n<length (garlic_encode C cs). cbor_load C (take n (garlic_encode C cs)) = None"
    by (rule garlic_root [OF assms])
  moreover have "List.map_filter (decode_clove C) (map (encode_clove C) cs) = cs"
    using assms(1,2) by (intro map_filter_Some decode_encode_clove) (auto simp: list_all_iff)
  ultimately show ?thesis
    by (simp add: garlic_decode_def)
qed

definition demo_clove :: clove where
  "demo_clove = default_clove\<lparr>clv_frag := Some \<lparr>clove_id = 7, frag_idx = 1, frag_total = 2\<rparr>,
     clv_payload := [1, 2, 3]\<rparr>"

theorem garlic_roundtrip_witness:
  "garlic_decode wire_cbor (garlic_encode wire_cbor [demo_clove]) = [demo_clove]"
  using garlic_roundtrip [of wire_cbor "[demo_clove]"]
  by (simp add: wf_clove_def demo_clove_def default_clove_def clove_type_of_def)

end
