(* ===== verification/Channel.thy ===== *)
theory Channel
  imports Tunnel Garlic
begin

text \<open>
  Channels (\<^verbatim>\<open>anonrouter/src/channel.hpp\<close>, \<^verbatim>\<open>channel.cpp\<close>): the table of channels a node
  holds, its state changes, sending a payload as an encrypted clove in a cell, and delivering
  the cells that arrive. Callbacks and datagrams are returned as values; randomness the code
  draws (channel identifiers, keys, nonces) is an argument. A handler that can throw after it
  changed the state returns the state beside its result.
\<close>

datatype anon_level = AL_DIRECT | AL_RENDEZVOUS | AL_ANONYMOUS | AL_Other u8

definition anon_level_of :: "u8 \<Rightarrow> anon_level" where
  "anon_level_of b = (if b = 0 then AL_DIRECT else if b = 1 then AL_RENDEZVOUS
     else if b = 2 then AL_ANONYMOUS else AL_Other b)"

fun anon_level_byte :: "anon_level \<Rightarrow> u8" where
  "anon_level_byte AL_DIRECT = 0"
| "anon_level_byte AL_RENDEZVOUS = 1"
| "anon_level_byte AL_ANONYMOUS = 2"
| "anon_level_byte (AL_Other b) = b"

datatype channel_mode = CM_DATAGRAM | CM_MESSAGE | CM_STREAM | CM_Other u8

definition channel_mode_of :: "u8 \<Rightarrow> channel_mode" where
  "channel_mode_of b = (if b = 0 then CM_DATAGRAM else if b = 1 then CM_MESSAGE
     else if b = 2 then CM_STREAM else CM_Other b)"

fun channel_mode_byte :: "channel_mode \<Rightarrow> u8" where
  "channel_mode_byte CM_DATAGRAM = 0"
| "channel_mode_byte CM_MESSAGE = 1"
| "channel_mode_byte CM_STREAM = 2"
| "channel_mode_byte (CM_Other b) = b"

datatype channel_state = CS_OPENING | CS_OPEN | CS_UPGRADING | CS_CLOSED

fun channel_state_byte :: "channel_state \<Rightarrow> u8" where
  "channel_state_byte CS_OPENING = 0"
| "channel_state_byte CS_OPEN = 1"
| "channel_state_byte CS_UPGRADING = 2"
| "channel_state_byte CS_CLOSED = 3"

record guard_ref =
  gr_node_id :: string
  gr_session_tok :: bytes

record channel_info =
  ci_channel_id :: bytes
  ci_remote_pubkey_hex :: string
  ci_anon_level :: anon_level
  ci_mode :: channel_mode
  ci_state :: channel_state
  ci_channel_key :: bytes
  ci_send_seq :: u32
  ci_recv_seq :: u32
  ci_rtt_ms :: int
  ci_peer_addr :: string
  ci_my_inbound_guard :: "guard_ref option"
  ci_remote_inbound_guard :: "guard_ref option"

definition default_channel_info :: channel_info where
  "default_channel_info = \<lparr>ci_channel_id = zeros 16, ci_remote_pubkey_hex = [],
     ci_anon_level = AL_ANONYMOUS, ci_mode = CM_MESSAGE, ci_state = CS_OPENING,
     ci_channel_key = zeros 32, ci_send_seq = 0, ci_recv_seq = 0, ci_rtt_ms = 0,
     ci_peer_addr = [], ci_my_inbound_guard = None, ci_remote_inbound_guard = None\<rparr>"

type_synonym channels = "(string \<times> channel_info) list"

text \<open>What the state callback receives.\<close>

type_synonym state_event = "bytes \<times> channel_state"

text \<open>\<^verbatim>\<open>channels_[chan_key(cid)] = ci\<close>.\<close>

definition chan_put :: "channels \<Rightarrow> channel_info \<Rightarrow> channels" where
  "chan_put chs ci = AList.update (to_hex (ci_channel_id ci)) ci chs"

definition chan_get :: "channels \<Rightarrow> bytes \<Rightarrow> channel_info option" where
  "chan_get chs cid = map_of chs (to_hex cid)"

text \<open>Assignment through the iterator \<^verbatim>\<open>find\<close> returned.\<close>

definition chan_upd :: "channels \<Rightarrow> bytes \<Rightarrow> (channel_info \<Rightarrow> channel_info) \<Rightarrow> channels" where
  "chan_upd chs cid f =
     (case map_of chs (to_hex cid) of None \<Rightarrow> chs | Some ci \<Rightarrow> AList.update (to_hex cid) (f ci) chs)"

definition chan_set_state :: "channels \<Rightarrow> bytes \<Rightarrow> channel_state \<Rightarrow> channels \<times> state_event list" where
  "chan_set_state chs cid s = (chan_upd chs cid (\<lambda>ci. ci\<lparr>ci_state := s\<rparr>), [(cid, s)])"

definition chan_open ::
  "channels \<Rightarrow> bytes \<Rightarrow> bytes \<Rightarrow> string \<Rightarrow> anon_level \<Rightarrow> channel_mode \<Rightarrow> string \<Rightarrow> channels \<times> bytes" where
  "chan_open chs rnd_id rnd_key remote_pubkey_hex al mode peer_addr =
     (chan_put chs (default_channel_info\<lparr>ci_channel_id := rnd_id,
        ci_remote_pubkey_hex := remote_pubkey_hex, ci_anon_level := al, ci_mode := mode,
        ci_state := CS_OPENING, ci_peer_addr := peer_addr, ci_channel_key := rnd_key\<rparr>), rnd_id)"

definition chan_register_incoming ::
  "channels \<Rightarrow> bytes \<Rightarrow> string \<Rightarrow> anon_level \<Rightarrow> channel_mode \<Rightarrow> channels \<times> state_event list" where
  "chan_register_incoming chs cid peer_addr al mode =
     (chan_put chs (default_channel_info\<lparr>ci_channel_id := cid, ci_peer_addr := peer_addr,
        ci_anon_level := al, ci_mode := mode, ci_state := CS_OPENING\<rparr>), [(cid, CS_OPENING)])"

text \<open>The accepted channel's fresh key, when there is such a channel.\<close>

definition chan_accept :: "channels \<Rightarrow> bytes \<Rightarrow> bytes \<Rightarrow> channels \<times> bytes option" where
  "chan_accept chs cid rnd_key =
     (case chan_get chs cid of
        None \<Rightarrow> (chs, None)
      | Some _ \<Rightarrow> (chan_upd chs cid (\<lambda>ci. ci\<lparr>ci_channel_key := rnd_key, ci_state := CS_OPEN\<rparr>), Some rnd_key))"

definition chan_close :: "channels \<Rightarrow> bytes \<Rightarrow> channels \<times> state_event list" where
  "chan_close chs cid = (AList.delete (to_hex cid) chs, [(cid, CS_CLOSED)])"

definition chan_reject :: "channels \<Rightarrow> bytes \<Rightarrow> channels \<times> state_event list" where
  "chan_reject chs cid = chan_close chs cid"

definition chan_upgrade :: "channels \<Rightarrow> bytes \<Rightarrow> channel_mode \<Rightarrow> bytes \<Rightarrow> channels \<times> bool" where
  "chan_upgrade chs cid new_mode csk =
     (case chan_get chs cid of
        None \<Rightarrow> (chs, False)
      | Some _ \<Rightarrow> (chan_upd chs cid
          (\<lambda>ci. ci\<lparr>ci_mode := new_mode, ci_channel_key := csk, ci_state := CS_OPEN\<rparr>), True))"

definition chan_list :: "channels \<Rightarrow> channel_info list" where
  "chan_list chs = map snd chs"

text \<open>The token a cell of this channel carries.\<close>

definition chan_token :: "channel_info \<Rightarrow> bytes" where
  "chan_token ci =
     (case ci_my_inbound_guard ci of
        Some g \<Rightarrow> gr_session_tok g
      | None \<Rightarrow> if ci_anon_level ci = AL_DIRECT then copy_at 0 (ci_channel_id ci) (zeros 32)
                else zeros 32)"

text \<open>The payload, sealed under the channel key, as the only clove of a garlic blob.\<close>

definition chan_garlic ::
  "crypto_lib \<Rightarrow> cbor_lib \<Rightarrow> bytes \<Rightarrow> bytes \<Rightarrow> bytes \<Rightarrow> bytes \<Rightarrow> bytes res" where
  "chan_garlic K C n1 key cid payload =
     rbind (aes_encrypt K n1 key payload []) (\<lambda>ae.
       let blob = nonce ae @ tag ae @ ciphertext ae
       in Inr (garlic_encode C
            [default_clove\<lparr>clv_type := CLV_DATA, clv_channel_id := cid, clv_payload := blob\<rparr>]))"

text \<open>
  \<open>n1\<close> is the nonce of the payload's encryption, \<open>n2\<close> the one \<^verbatim>\<open>cell_build\<close> draws and
  discards. The channel is looked up again under the lock after the payload was encrypted.
\<close>

definition chan_send ::
  "crypto_lib \<Rightarrow> cbor_lib \<Rightarrow> tunnels \<Rightarrow> bytes \<Rightarrow> bytes \<Rightarrow> channels \<Rightarrow> tft_engine \<Rightarrow> bytes \<Rightarrow> bytes \<Rightarrow>
     channels \<times> tft_engine \<times> datagram list \<times> bool res" where
  "chan_send K C ts n1 n2 chs t cid payload =
     (case chan_get chs cid of
        None \<Rightarrow> (chs, t, [], Inr False)
      | Some ci \<Rightarrow>
          if ci_state ci \<noteq> CS_OPEN then (chs, t, [], Inr False)
          else case chan_garlic K C n1 (ci_channel_key ci) cid payload of
            Inl e \<Rightarrow> (chs, t, [], Inl e)
          | Inr garlic \<Rightarrow>
              if garlic = [] then (chs, t, [], Inr False)
              else case chan_get chs cid of
                   None \<Rightarrow> (chs, t, [], Inr False)
                 | Some ci' \<Rightarrow>
                     let len = min (length garlic) CELL_PLAINTEXT_SIZE;
                         hdr = default_header\<lparr>ch_type := CT_DATA, garlic_len := of_nat len,
                                 session_tok := chan_token ci', seq_num := ci_send_seq ci'\<rparr>;
                         chs' = chan_upd chs cid (\<lambda>c. c\<lparr>ci_send_seq := ci_send_seq c + 1\<rparr>)
                     in case cell_build K n2 hdr (ci_channel_key ci) (take (unat (garlic_len hdr)) garlic) of
                          Inl e \<Rightarrow> (chs', t, [], Inl e)
                        | Inr cell \<Rightarrow>
                            if ci_anon_level ci = AL_DIRECT \<and> ci_peer_addr ci \<noteq> []
                            then (chs', t, [(ci_peer_addr ci, cell)], Inr True)
                            else case ci_remote_inbound_guard ci of
                              None \<Rightarrow> (chs', t, [], Inr True)
                            | Some g \<Rightarrow>
                                (case forward_via_outbound ts t (gr_session_tok g) cell of
                                   (t', out) \<Rightarrow> (chs', t', out, Inr True)))"

text \<open>Does this channel claim a cell with session token \<open>tok\<close>?\<close>

definition chan_matches :: "bytes \<Rightarrow> channel_info \<Rightarrow> bool" where
  "chan_matches tok ci \<longleftrightarrow>
     (case ci_my_inbound_guard ci of Some g \<Rightarrow> gr_session_tok g = tok | None \<Rightarrow> False) \<or>
     (ci_anon_level ci = AL_DIRECT \<and> ci_state ci = CS_OPEN \<and> ci_channel_id ci = take 16 tok)"

text \<open>One clove of a matched cell: the frames delivered to the callback.\<close>

definition deliver_clove :: "crypto_lib \<Rightarrow> channel_info \<Rightarrow> clove \<Rightarrow> (bytes \<times> bytes) list" where
  "deliver_clove K ci clv =
     (if clv_type clv = CLV_DATA \<and> length (clv_payload clv) > 28
      then let p = clv_payload clv
           in case aes_decrypt K (ci_channel_key ci) (take 12 p) (drop 28 p) (slice 12 16 p) [] of
                Inl _ \<Rightarrow> []
              | Inr msg \<Rightarrow> [(ci_channel_id ci, msg)]
      else [])"

definition chan_on_cell ::
  "crypto_lib \<Rightarrow> cbor_lib \<Rightarrow> channels \<Rightarrow> bytes \<Rightarrow> (bytes \<times> bytes) list res" where
  "chan_on_cell K C chs cell =
     (let tok = cell_session_tok cell
      in case find (\<lambda>(k, ci). chan_matches tok ci) chs of
           None \<Rightarrow> Inr []
         | Some (k, ci) \<Rightarrow>
             rbind (cell_decode K cell (ci_channel_key ci)) (\<lambda>dc.
               Inr (concat (map (deliver_clove K ci) (garlic_decode C (garlic_data dc))))))"

definition chan_open_field :: "cbor_lib \<Rightarrow> channel_info \<Rightarrow> cbor \<times> cbor \<Rightarrow> channel_info" where
  "chan_open_field C ci kv =
     (let k = text_of C (fst kv); v = snd kv in
      if k = ''channel_id'' \<and> isa_bytestring v \<and> length (bytes_of C v) = 16
      then ci\<lparr>ci_channel_id := bytes_of C v\<rparr>
      else if k = ''remote_pubkey'' \<and> isa_string v then ci\<lparr>ci_remote_pubkey_hex := text_of C v\<rparr>
      else if k = ''anon_level'' then ci\<lparr>ci_anon_level := anon_level_of (ucast (safe_get_uint C v))\<rparr>
      else if k = ''mode'' then ci\<lparr>ci_mode := channel_mode_of (ucast (safe_get_uint C v))\<rparr>
      else ci)"

definition on_chan_open :: "cbor_lib \<Rightarrow> channels \<Rightarrow> bytes \<Rightarrow> channels" where
  "on_chan_open C chs payload =
     (case cbor_load C payload of
        Some (CMap ps) \<Rightarrow>
          chan_put chs (foldl (chan_open_field C) (default_channel_info\<lparr>ci_state := CS_OPENING\<rparr>) ps)
      | _ \<Rightarrow> chs)"

definition chan_accept_field :: "cbor_lib \<Rightarrow> bytes \<times> bytes \<Rightarrow> cbor \<times> cbor \<Rightarrow> bytes \<times> bytes" where
  "chan_accept_field C idk kv =
     (let k = text_of C (fst kv); v = snd kv in
      if k = ''channel_id'' \<and> isa_bytestring v \<and> length (bytes_of C v) = 16
      then (bytes_of C v, snd idk)
      else if k = ''channel_key'' \<and> isa_bytestring v \<and> length (bytes_of C v) = 32
      then (fst idk, bytes_of C v)
      else idk)"

definition on_chan_accept :: "cbor_lib \<Rightarrow> channels \<Rightarrow> bytes \<Rightarrow> channels" where
  "on_chan_accept C chs payload =
     (case cbor_load C payload of
        Some (CMap ps) \<Rightarrow>
          (case foldl (chan_accept_field C) (zeros 16, zeros 32) ps of
             (cid, key) \<Rightarrow> chan_upd chs cid (\<lambda>ci. ci\<lparr>ci_channel_key := key, ci_state := CS_OPEN\<rparr>))
      | _ \<Rightarrow> chs)"

interpretation chan_store: total_store ci_channel_id "\<lambda>ci. ci" "\<lambda>chs ci. (chan_put chs ci, True)"
  chan_get "\<lambda>chs cid. fst (chan_close chs cid)"
  by unfold_locales (auto simp: chan_put_def chan_get_def chan_close_def table_simps)

subsection \<open>Sending and delivering\<close>

lemma find_unique:
  assumes "x \<in> set xs" "P x" "\<And>y. y \<in> set xs \<Longrightarrow> P y \<Longrightarrow> f y = f x"
  obtains y where "find P xs = Some y" "f y = f x"
proof (cases "find P xs")
  case None
  with assms(1,2) show ?thesis
    by (auto simp: find_None_iff)
next
  case (Some y)
  then have "y \<in> set xs" "P y"
    by (auto simp: find_Some_iff)
  with Some assms(3) that show ?thesis
    by blast
qed

definition data_clove :: "bytes \<Rightarrow> bytes \<Rightarrow> clove" where
  "data_clove cid blob = default_clove\<lparr>clv_type := CLV_DATA, clv_channel_id := cid, clv_payload := blob\<rparr>"

lemma wf_data_clove: "length cid = 16 \<Longrightarrow> length blob < 2 ^ 64 \<Longrightarrow> list_all wf_clove [data_clove cid blob]"
  by (simp add: wf_clove_def data_clove_def default_clove_def clove_type_of_def)

lemma deliver_sealed:
  assumes "aes_decrypt K (ci_channel_key ci) n c g [] = Inr p" "length n = 12" "length g = 16"
    "length c = length p"
  shows "deliver_clove K ci (data_clove cid (n @ g @ c)) = (if p = [] then [] else [(ci_channel_id ci, p)])"
  using assms by (auto simp: deliver_clove_def data_clove_def slice_def Let_def)

text \<open>An open direct channel seen from one end.\<close>

definition direct_end :: "channels \<Rightarrow> bytes \<Rightarrow> bytes \<Rightarrow> channel_info \<Rightarrow> bool" where
  "direct_end chs cid key ci \<longleftrightarrow> chan_get chs cid = Some ci \<and> ci_channel_id ci = cid \<and>
     ci_state ci = CS_OPEN \<and> ci_anon_level ci = AL_DIRECT \<and> ci_channel_key ci = key \<and>
     ci_my_inbound_guard ci = None \<and> ci_peer_addr ci \<noteq> [] \<and> length cid = 16 \<and> length key = 32 \<and>
     (\<forall>(k, c)\<in>set chs. chan_matches (cid @ zeros 16) c \<longrightarrow> c = ci)"

lemma chan_token_direct:
  assumes "direct_end chs cid key ci"
  shows "chan_token ci = cid @ zeros 16"
  using assms by (simp add: direct_end_def chan_token_def copy_at_def)

lemma direct_end_find:
  assumes "direct_end chs cid key ci"
  obtains k where "find (\<lambda>(k, c). chan_matches (cid @ zeros 16) c) chs = Some (k, ci)"
proof -
  have mem: "(to_hex cid, ci) \<in> set chs"
    using assms by (auto simp: direct_end_def chan_get_def dest: map_of_SomeD)
  let ?P = "\<lambda>(k, c). chan_matches (cid @ zeros 16) c"
  have match: "?P (to_hex cid, ci)"
    using assms by (simp add: direct_end_def chan_matches_def)
  have "\<forall>(k, c)\<in>set chs. chan_matches (cid @ zeros 16) c \<longrightarrow> c = ci"
    using assms by (simp add: direct_end_def)
  then have uniq: "snd y = snd (to_hex cid, ci)" if "y \<in> set chs" "?P y" for y
    using that by (cases y) auto
  obtain y where "find ?P chs = Some y" "snd y = snd (to_hex cid, ci)"
    by (rule find_unique [of _ chs ?P snd, OF mem match uniq])
  then show ?thesis
    using that by (cases y) simp
qed

text \<open>The header a direct channel's next cell carries.\<close>

definition direct_header :: "bytes \<Rightarrow> u32 \<Rightarrow> nat \<Rightarrow> cell_header" where
  "direct_header cid seq len = default_header\<lparr>ch_type := CT_DATA, garlic_len := of_nat len,
     session_tok := cid @ zeros 16, seq_num := seq\<rparr>"

lemma wf_direct_header: "length cid = 16 \<Longrightarrow> wf_header (direct_header cid seq len)"
  by (simp add: wf_header_def direct_header_def default_header_def cell_type_of_def)

lemma chan_garlic_ok:
  assumes "aead_ok K" "cbor_ok C" "length key = 32" "length n1 = 12" "length cid = 16"
    "length payload < 2 ^ 63"
  obtains g where "chan_garlic K C n1 key cid payload = Inr g" "g \<noteq> []"
    "\<forall>ci. ci_channel_key ci = key \<longrightarrow>
       concat (map (deliver_clove K ci) (garlic_decode C g)) =
         (if payload = [] then [] else [(ci_channel_id ci, payload)])"
    "\<forall>n<length g. garlic_decode C (take n g) = []"
proof -
  obtain ae where ae: "aes_encrypt K n1 key payload [] = Inr ae" "nonce ae = n1"
      "length (tag ae) = 16" "length (ciphertext ae) = length payload"
      "aes_decrypt K key (nonce ae) (ciphertext ae) (tag ae) [] = Inr payload"
    by (rule aes_roundtrip [OF assms(1,3,4)])
  let ?blob = "nonce ae @ tag ae @ ciphertext ae"
  let ?g = "garlic_encode C [data_clove cid ?blob]"
  have wf: "list_all wf_clove [data_clove cid ?blob]"
    using assms ae by (intro wf_data_clove) simp_all
  obtain "?g \<noteq> []" "cbor_load C ?g = Some (CArray (map (encode_clove C) [data_clove cid ?blob]))"
      "\<forall>n<length ?g. cbor_load C (take n ?g) = None"
    by (rule garlic_root [OF assms(2) wf]) simp
  moreover have "decode_clove C (encode_clove C (data_clove cid ?blob)) = Some (data_clove cid ?blob)"
    using wf by (intro decode_encode_clove [OF assms(2)]) simp
  moreover have "chan_garlic K C n1 key cid payload = Inr ?g"
    by (simp add: chan_garlic_def ae data_clove_def)
  moreover have "deliver_clove K ci (data_clove cid ?blob) = (if payload = [] then [] else [(ci_channel_id ci, payload)])"
    if "ci_channel_key ci = key" for ci
    using ae that assms(4) by (intro deliver_sealed) simp_all
  ultimately show ?thesis
    by (intro that [of ?g]) (simp_all add: garlic_decode_def List.map_filter_simps)
qed

lemma chan_send_direct:
  assumes "aead_ok K" "cbor_ok C" "length n1 = 12" "length n2 = 12" "length payload < 2 ^ 63"
    "direct_end chs cid key ci"
  obtains g cell where
    "chan_garlic K C n1 key cid payload = Inr g"
    "chan_send K C ts n1 n2 chs t cid payload =
       (chan_upd chs cid (\<lambda>c. c\<lparr>ci_send_seq := ci_send_seq c + 1\<rparr>), t, [(ci_peer_addr ci, cell)], Inr True)"
    "length cell = CELL_SIZE"
    "cell_read_header cell = direct_header cid (ci_send_seq ci) (min (length g) 496)"
    "cell_decode K cell key = Inr \<lparr>header = direct_header cid (ci_send_seq ci) (min (length g) 496),
       garlic_data = take 496 g\<rparr>"
    "cell_sealed K key (cell_nonce (cid @ zeros 16) (ci_send_seq ci)) (take 496 g @ zeros (496 - length g)) cell"
proof -
  have ci: "chan_get chs cid = Some ci" "ci_state ci = CS_OPEN" "ci_channel_key ci = key"
      "ci_anon_level ci = AL_DIRECT" "ci_peer_addr ci \<noteq> []" "length cid = 16" "length key = 32"
    using assms(6) by (simp_all add: direct_end_def)
  obtain g where g: "chan_garlic K C n1 key cid payload = Inr g" "g \<noteq> []"
    by (rule chan_garlic_ok [OF assms(1,2) ci(7) assms(3) ci(6) assms(5)])
  define len where "len = min (length g) 496"
  have len: "len \<le> 496" "unat (of_nat len :: u16) = len"
    by (simp_all add: len_def unat_of_nat)
  let ?hdr = "direct_header cid (ci_send_seq ci) len"
  have hdr: "garlic_len ?hdr = of_nat len"
    by (simp add: direct_header_def)
  have fit: "length (take len g) \<le> CELL_PLAINTEXT_SIZE"
    using len by (simp add: CELL_PLAINTEXT_SIZE_def)
  obtain cell where cell: "cell_build K n2 ?hdr key (take len g) = Inr cell" "length cell = 557"
      "cell_read_header cell = ?hdr"
      "cell_decode K cell key = Inr \<lparr>header = ?hdr, garlic_data = take 496 g\<rparr>"
    using cell_decode_built [OF assms(1) ci(7) assms(4) wf_direct_header [OF ci(6)] fit, of "ci_send_seq ci" len]
      len hdr by (auto simp: CELL_PLAINTEXT_SIZE_def len_def min_def)
  have "chan_send K C ts n1 n2 chs t cid payload =
       (chan_upd chs cid (\<lambda>c. c\<lparr>ci_send_seq := ci_send_seq c + 1\<rparr>), t, [(ci_peer_addr ci, cell)], Inr True)"
    using ci g cell len chan_token_direct [OF assms(6)]
    by (simp add: chan_send_def Let_def direct_header_def len_def CELL_PLAINTEXT_SIZE_def)
  moreover have "cell_sealed K key (cell_nonce (cid @ zeros 16) (ci_send_seq ci)) (take 496 g @ zeros (496 - length g)) cell"
    using cell_build_seals [OF assms(1) ci(7) assms(4) wf_direct_header [OF ci(6)] fit cell(1)]
    by (simp add: direct_header_def CELL_PLAINTEXT_SIZE_def len_def min_def split: if_splits)
  ultimately show ?thesis
    using g cell by (intro that [of g cell]) (simp_all add: len_def CELL_SIZE_def)
qed

text \<open>What the other end makes of such a cell.\<close>

lemma chan_on_cell_direct:
  assumes "aead_ok K" "cbor_ok C" "length n1 = 12" "length payload < 2 ^ 63" "direct_end chs cid key ci"
    "chan_garlic K C n1 key cid payload = Inr g"
    "cell_read_header cell = direct_header cid seq (min (length g) 496)"
    "cell_decode K cell key = Inr \<lparr>header = direct_header cid seq (min (length g) 496), garlic_data = take 496 g\<rparr>"
  shows "chan_on_cell K C chs cell = Inr (if payload \<noteq> [] \<and> length g \<le> 496 then [(cid, payload)] else [])"
proof -
  have key: "length key = 32" "length cid = 16" "ci_channel_key ci = key" "ci_channel_id ci = cid"
    using assms(5) by (simp_all add: direct_end_def)
  obtain g' where g': "chan_garlic K C n1 key cid payload = Inr g'"
      "\<forall>ci. ci_channel_key ci = key \<longrightarrow> concat (map (deliver_clove K ci) (garlic_decode C g')) =
         (if payload = [] then [] else [(ci_channel_id ci, payload)])"
      "\<forall>n<length g'. garlic_decode C (take n g') = []"
    by (rule chan_garlic_ok [OF assms(1,2) key(1) assms(3) key(2) assms(4)])
  have tok: "cell_session_tok cell = cid @ zeros 16"
    using assms(7) by (simp add: cell_session_tok_header direct_header_def)
  obtain k where "find (\<lambda>(k, c). chan_matches (cid @ zeros 16) c) chs = Some (k, ci)"
    by (rule direct_end_find [OF assms(5)])
  then show ?thesis
    using assms(6,8) g' key tok by (cases "length g \<le> 496") (simp_all add: chan_on_cell_def)
qed

text \<open>
  C14. On an open direct channel whose two ends hold the same key, \<open>send\<close> reports success, uses
  up one sequence number and emits one cell to the peer's address; the peer delivers exactly the
  payload, once, on that channel, provided that the payload is not empty and its garlic blob
  fits a cell. In the other cases \<open>send\<close> reports success as well and the peer delivers nothing.
\<close>

theorem direct_channel_delivery:
  assumes "aead_ok K" "cbor_ok C" "length n1 = 12" "length n2 = 12" "length payload < 2 ^ 63"
    "direct_end chsA cid key ca" "direct_end chsB cid key cb"
  shows "\<exists>g cell chs'. chan_garlic K C n1 key cid payload = Inr g \<and>
    chan_send K C ts n1 n2 chsA t cid payload = (chs', t, [(ci_peer_addr ca, cell)], Inr True) \<and>
    chan_get chs' cid = Some (ca\<lparr>ci_send_seq := ci_send_seq ca + 1\<rparr>) \<and>
    chan_on_cell K C chsB cell =
      Inr (if payload \<noteq> [] \<and> length g \<le> 496 then [(cid, payload)] else [])"
proof -
  have get: "chan_get chsA cid = Some ca"
    using assms(6) by (simp_all add: direct_end_def)
  obtain g cell where send: "chan_garlic K C n1 key cid payload = Inr g"
      "chan_send K C ts n1 n2 chsA t cid payload =
         (chan_upd chsA cid (\<lambda>c. c\<lparr>ci_send_seq := ci_send_seq c + 1\<rparr>), t, [(ci_peer_addr ca, cell)], Inr True)"
      "cell_read_header cell = direct_header cid (ci_send_seq ca) (min (length g) 496)"
      "cell_decode K cell key = Inr \<lparr>header = direct_header cid (ci_send_seq ca) (min (length g) 496),
         garlic_data = take 496 g\<rparr>"
    using chan_send_direct [OF assms(1-6), of ts t] by blast
  then have "chan_on_cell K C chsB cell =
      Inr (if payload \<noteq> [] \<and> length g \<le> 496 then [(cid, payload)] else [])"
    by (intro chan_on_cell_direct [OF assms(1-3,5,7)])
  moreover have "chan_get (chan_upd chsA cid (\<lambda>c. c\<lparr>ci_send_seq := ci_send_seq c + 1\<rparr>)) cid
      = Some (ca\<lparr>ci_send_seq := ci_send_seq ca + 1\<rparr>)"
    using get by (simp add: chan_get_def chan_upd_def table_simps)
  ultimately show ?thesis
    using send(1,2) by blast
qed

definition demo_chan :: channel_info where
  "demo_chan = default_channel_info\<lparr>ci_state := CS_OPEN, ci_anon_level := AL_DIRECT,
     ci_peer_addr := ''10.0.0.2:9000''\<rparr>"

definition demo_chans :: channels where
  "demo_chans = [(to_hex (zeros 16), demo_chan)]"

lemma demo_direct_end [simp]: "direct_end demo_chans (zeros 16) (zeros 32) demo_chan"
  by (simp add: direct_end_def demo_chans_def demo_chan_def default_channel_info_def chan_get_def)

theorem direct_channel_delivery_witness:
  "\<exists>g cell chs'. chan_garlic demo_crypto wire_cbor (zeros 12) (zeros 32) (zeros 16) [1, 2] = Inr g \<and>
    chan_send demo_crypto wire_cbor [] (zeros 12) (zeros 12) demo_chans (tft_new default_tft_config) (zeros 16) [1, 2]
      = (chs', tft_new default_tft_config, [(ci_peer_addr demo_chan, cell)], Inr True) \<and>
    chan_get chs' (zeros 16) = Some (demo_chan\<lparr>ci_send_seq := ci_send_seq demo_chan + 1\<rparr>) \<and>
    chan_on_cell demo_crypto wire_cbor demo_chans cell =
      Inr (if [1, 2] \<noteq> ([] :: bytes) \<and> length g \<le> 496 then [(zeros 16, [1, 2])] else [])"
  by (rule direct_channel_delivery [of _ _ _ _ _ _ _ "zeros 32" _ _ demo_chan]) simp_all

text \<open>
  C28. The two directions of a direct channel share key, session token and sequence numbers:
  when both ends stand at the same sequence number, their next two cells are sealed under one
  key with one AES-GCM nonce. The ciphertext and tag each cell carries are the encryption of its own
  padded garlic blob under the channel key and the nonce made of the first 8 bytes of the channel
  identifier and the sequence number.
\<close>

theorem direct_channel_nonce_reuse:
  assumes "aead_ok K" "cbor_ok C" "length n1 = 12" "length n2 = 12" "length n3 = 12" "length n4 = 12"
    "length p < 2 ^ 63" "length q < 2 ^ 63"
    "direct_end chsA cid key ca" "direct_end chsB cid key cb" "ci_send_seq ca = ci_send_seq cb"
  shows "\<exists>chsA' x g chsB' y g'. chan_send K C ts n1 n2 chsA t cid p = (chsA', t, [(ci_peer_addr ca, x)], Inr True) \<and>
    chan_send K C ts' n3 n4 chsB t' cid q = (chsB', t', [(ci_peer_addr cb, y)], Inr True) \<and>
    chan_garlic K C n1 key cid p = Inr g \<and> chan_garlic K C n3 key cid q = Inr g' \<and>
    cell_sealed K key (take 8 cid @ be32 (ci_send_seq ca)) (take 496 g @ zeros (496 - length g)) x \<and>
    cell_sealed K key (take 8 cid @ be32 (ci_send_seq ca)) (take 496 g' @ zeros (496 - length g')) y"
proof -
  have "length cid = 16"
    using assms(9) by (simp add: direct_end_def)
  then have nonce: "cell_nonce (cid @ zeros 16) seq = take 8 cid @ be32 seq" for seq
    by (simp add: cell_nonce_append)
  obtain x g where x: "chan_garlic K C n1 key cid p = Inr g" "chan_send K C ts n1 n2 chsA t cid p =
         (chan_upd chsA cid (\<lambda>c. c\<lparr>ci_send_seq := ci_send_seq c + 1\<rparr>), t, [(ci_peer_addr ca, x)], Inr True)"
      "cell_sealed K key (take 8 cid @ be32 (ci_send_seq ca)) (take 496 g @ zeros (496 - length g)) x"
    by (rule chan_send_direct [OF assms(1,2,3,4,7,9), of ts t, unfolded nonce]) blast
  obtain y g' where y: "chan_garlic K C n3 key cid q = Inr g'" "chan_send K C ts' n3 n4 chsB t' cid q =
         (chan_upd chsB cid (\<lambda>c. c\<lparr>ci_send_seq := ci_send_seq c + 1\<rparr>), t', [(ci_peer_addr cb, y)], Inr True)"
      "cell_sealed K key (take 8 cid @ be32 (ci_send_seq cb)) (take 496 g' @ zeros (496 - length g')) y"
    by (rule chan_send_direct [OF assms(1,2,5,6,8,10), of ts' t', unfolded nonce]) blast
  show ?thesis
    using x y assms(11) by (intro exI conjI) (rule x y | simp)+
qed

theorem direct_channel_nonce_reuse_witness:
  "\<exists>A x g B y g'. chan_send demo_crypto wire_cbor [] (zeros 12) (zeros 12) demo_chans
        (tft_new default_tft_config) (zeros 16) [1] =
        (A, tft_new default_tft_config, [(ci_peer_addr demo_chan, x)], Inr True) \<and>
    chan_send demo_crypto wire_cbor [] (zeros 12) (zeros 12) demo_chans
        (tft_new default_tft_config) (zeros 16) [2] =
        (B, tft_new default_tft_config, [(ci_peer_addr demo_chan, y)], Inr True) \<and>
    cell_sealed demo_crypto (zeros 32) (take 8 (zeros 16) @ be32 (ci_send_seq demo_chan)) (take 496 g @ zeros (496 - length g)) x \<and>
    cell_sealed demo_crypto (zeros 32) (take 8 (zeros 16) @ be32 (ci_send_seq demo_chan)) (take 496 g' @ zeros (496 - length g')) y"
proof -
  have "\<exists>A x g B y g'. chan_send demo_crypto wire_cbor [] (zeros 12) (zeros 12) demo_chans
        (tft_new default_tft_config) (zeros 16) [1] =
        (A, tft_new default_tft_config, [(ci_peer_addr demo_chan, x)], Inr True) \<and>
    chan_send demo_crypto wire_cbor [] (zeros 12) (zeros 12) demo_chans
        (tft_new default_tft_config) (zeros 16) [2] =
        (B, tft_new default_tft_config, [(ci_peer_addr demo_chan, y)], Inr True) \<and>
    chan_garlic demo_crypto wire_cbor (zeros 12) (zeros 32) (zeros 16) [1] = Inr g \<and>
    chan_garlic demo_crypto wire_cbor (zeros 12) (zeros 32) (zeros 16) [2] = Inr g' \<and>
    cell_sealed demo_crypto (zeros 32) (take 8 (zeros 16) @ be32 (ci_send_seq demo_chan)) (take 496 g @ zeros (496 - length g)) x \<and>
    cell_sealed demo_crypto (zeros 32) (take 8 (zeros 16) @ be32 (ci_send_seq demo_chan)) (take 496 g' @ zeros (496 - length g')) y"
    by (rule direct_channel_nonce_reuse [where cb = demo_chan]) simp_all
  then show ?thesis
    by blast
qed

subsection \<open>How much fits\<close>

lemma length_head:
  "length (head m n) = (if n < 24 then 1 else if n < 256 then 2 else if n < 65536 then 3
     else if n < 4294967296 then 5 else 9)"
  by (simp add: head_def)

lemma wire_garlic_length:
  assumes "length cid = 16"
  shows "length (garlic_encode wire_cbor [data_clove cid blob]) =
    30 + length (head 2 (length blob)) + length blob"
proof -
  have "garlic_encode wire_cbor [data_clove cid blob] =
      enc (CArray [CArray [build_uint64 1, CBytes cid, CBool False, CNull, CBytes blob]])"
    by (simp add: garlic_encode_def encode_clove_def data_clove_def default_clove_def
        definite_array_take) (simp add: wire_cbor_def)
  then show ?thesis
    using assms by (simp add: build_uint64_def int_head_def length_head)
qed

text \<open>
  With CBOR as RFC 8949 prints it, a payload fits a cell exactly when it has at most 435
  bytes. Together with the delivery property: longer payloads are lost although \<open>send\<close> reports
  success.
\<close>

theorem direct_channel_capacity:
  assumes "aead_ok K" "length key = 32" "length n1 = 12" "length cid = 16"
    "chan_garlic K wire_cbor n1 key cid payload = Inr g"
  shows "length g \<le> 496 \<longleftrightarrow> length payload \<le> 435"
proof -
  obtain ae where ae: "aes_encrypt K n1 key payload [] = Inr ae" "nonce ae = n1"
      "length (tag ae) = 16" "length (ciphertext ae) = length payload"
      "aes_decrypt K key (nonce ae) (ciphertext ae) (tag ae) [] = Inr payload"
    by (rule aes_roundtrip [OF assms(1-3)])
  let ?n = "28 + length payload"
  from assms(5) ae have "g = garlic_encode wire_cbor [data_clove cid (n1 @ tag ae @ ciphertext ae)]"
    by (simp add: chan_garlic_def data_clove_def)
  then have "length g = 30 + length (head 2 ?n) + ?n"
    using ae assms(3,4) by (simp add: wire_garlic_length)
  then show ?thesis
    by (auto simp: length_head)
qed

theorem direct_channel_capacity_witness:
  "\<exists>g. chan_garlic demo_crypto wire_cbor (zeros 12) (zeros 32) (zeros 16) (zeros 436) = Inr g \<and> length g > 496"
proof -
  obtain g where g: "chan_garlic demo_crypto wire_cbor (zeros 12) (zeros 32) (zeros 16) (zeros 436) = Inr g"
    by (simp add: chan_garlic_def aes_encrypt_def demo_crypto_def)
  with direct_channel_capacity [OF _ _ _ _ g] show ?thesis
    by simp
qed

subsection \<open>The life of a channel\<close>

text \<open>The calls that change the channel table, as the router and its clients make them.\<close>

datatype chan_op =
    Op_Open bytes bytes string anon_level channel_mode string
  | Op_Register bytes string anon_level channel_mode
  | Op_Accept bytes bytes
  | Op_Close bytes
  | Op_Upgrade bytes channel_mode bytes
  | Op_Chan_Open bytes
  | Op_Chan_Accept bytes
  | Op_Sent bytes

fun chan_step :: "cbor_lib \<Rightarrow> channels \<Rightarrow> chan_op \<Rightarrow> channels" where
  "chan_step C chs (Op_Open i k r al m a) = fst (chan_open chs i k r al m a)"
| "chan_step C chs (Op_Register i a al m) = fst (chan_register_incoming chs i a al m)"
| "chan_step C chs (Op_Accept i k) = fst (chan_accept chs i k)"
| "chan_step C chs (Op_Close i) = fst (chan_close chs i)"
| "chan_step C chs (Op_Upgrade i m k) = fst (chan_upgrade chs i m k)"
| "chan_step C chs (Op_Chan_Open p) = on_chan_open C chs p"
| "chan_step C chs (Op_Chan_Accept p) = on_chan_accept C chs p"
| "chan_step C chs (Op_Sent i) = chan_upd chs i (\<lambda>c. c\<lparr>ci_send_seq := ci_send_seq c + 1\<rparr>)"

text \<open>The calls that agree on a key for the channel \<open>cid\<close>.\<close>

fun agrees :: "cbor_lib \<Rightarrow> bytes \<Rightarrow> chan_op \<Rightarrow> bool" where
  "agrees C cid (Op_Accept i k) \<longleftrightarrow> i = cid"
| "agrees C cid (Op_Upgrade i m k) \<longleftrightarrow> i = cid"
| "agrees C cid (Op_Chan_Accept p) \<longleftrightarrow>
     (case cbor_load C p of
        Some (CMap ps) \<Rightarrow> fst (foldl (chan_accept_field C) (zeros 16, zeros 32) ps) = cid
      | _ \<Rightarrow> False)"
| "agrees C cid _ \<longleftrightarrow> False"

lemma chan_get_put: "chan_get (chan_put chs ci) cid = (if cid = ci_channel_id ci then Some ci else chan_get chs cid)"
  by (auto simp: chan_get_def chan_put_def table_simps)

lemma chan_get_upd:
  "chan_get (chan_upd chs i f) cid = (if cid = i then map_option f (chan_get chs cid) else chan_get chs cid)"
  by (auto simp: chan_get_def chan_upd_def table_simps split: option.split)

lemma chan_get_close: "chan_get (fst (chan_close chs i)) cid = (if cid = i then None else chan_get chs cid)"
  by (auto simp: chan_get_def chan_close_def table_simps)

lemma open_field_state: "ci_state (foldl (chan_open_field C) ci ps) = ci_state ci"
  by (induction ps arbitrary: ci) (simp_all add: chan_open_field_def Let_def)

definition is_open :: "channels \<Rightarrow> bytes \<Rightarrow> bool" where
  "is_open chs cid \<longleftrightarrow> (case chan_get chs cid of Some ci \<Rightarrow> ci_state ci = CS_OPEN | None \<Rightarrow> False)"

lemma is_open_step: "is_open (chan_step C chs p) cid \<Longrightarrow> is_open chs cid \<or> agrees C cid p"
proof (cases p)
  case (Op_Chan_Open q)
  assume "is_open (chan_step C chs p) cid"
  then show ?thesis
    unfolding Op_Chan_Open
    by (auto simp: on_chan_open_def is_open_def chan_get_put open_field_state
        split: option.splits cbor.splits if_splits)
next
  case (Op_Chan_Accept q)
  assume "is_open (chan_step C chs p) cid"
  then show ?thesis
    unfolding Op_Chan_Accept
    by (auto simp: on_chan_accept_def is_open_def chan_get_upd split: option.splits cbor.splits prod.splits if_splits)
qed (auto simp: is_open_def chan_open_def chan_register_incoming_def chan_accept_def chan_upgrade_def
      chan_get_put chan_get_upd chan_get_close default_channel_info_def split: option.splits if_splits)

text \<open>
  C29. A channel is open only if a key was agreed for it: in every history of the channel table
  that ends with an open channel, some call accepted or upgraded that channel. A payload can be
  sent on no other channel.
\<close>

theorem open_only_after_agreement:
  "(is_open (foldl (chan_step C) [] ps) cid \<longrightarrow> (\<exists>p\<in>set ps. agrees C cid p)) \<and>
   (\<not> is_open chs cid \<longrightarrow> chan_send K C ts n1 n2 chs t cid payload = (chs, t, [], Inr False))"
proof
  show "is_open (foldl (chan_step C) [] ps) cid \<longrightarrow> (\<exists>p\<in>set ps. agrees C cid p)"
  proof (induction ps rule: rev_induct)
    case Nil
    then show ?case
      by (simp add: is_open_def chan_get_def)
  next
    case (snoc p ps)
    then show ?case
      using is_open_step [of C "foldl (chan_step C) [] ps" p cid] by auto
  qed
  show "\<not> is_open chs cid \<longrightarrow> chan_send K C ts n1 n2 chs t cid payload = (chs, t, [], Inr False)"
    by (auto simp: is_open_def chan_send_def split: option.splits)
qed

theorem open_only_after_agreement_witness:
  "\<exists>p\<in>set [Op_Register (zeros 16) ''h'' AL_DIRECT CM_MESSAGE, Op_Accept (zeros 16) (zeros 32)].
     agrees wire_cbor (zeros 16) p"
  using conjunct1 [OF open_only_after_agreement [of wire_cbor
      "[Op_Register (zeros 16) ''h'' AL_DIRECT CM_MESSAGE, Op_Accept (zeros 16) (zeros 32)]" "zeros 16"]]
  by (simp add: is_open_def chan_register_incoming_def chan_accept_def chan_get_put chan_get_upd
      default_channel_info_def)

end
