(* ===== verification/Dht.thy ===== *)
theory Dht
  imports Tables
begin

text \<open>
  The DHT client of the AnonRouter (\<^verbatim>\<open>anonrouter/src/dht.hpp\<close>, \<^verbatim>\<open>dht.cpp\<close>): records held in
  memory under the hexadecimal form of their 32-byte key.
\<close>

type_synonym dht_store = "(string \<times> bytes) list"

definition dht_publish :: "dht_store \<Rightarrow> bytes \<Rightarrow> bytes \<Rightarrow> dht_store" where
  "dht_publish s key v = AList.update (to_hex key) v s"

definition dht_lookup_sync :: "dht_store \<Rightarrow> bytes \<Rightarrow> bytes option" where
  "dht_lookup_sync s key = map_of s (to_hex key)"

text \<open>The callback variant calls back once, synchronously.\<close>

definition dht_lookup :: "dht_store \<Rightarrow> bytes \<Rightarrow> (bytes option \<Rightarrow> 'a) \<Rightarrow> 'a" where
  "dht_lookup s key cb = cb (dht_lookup_sync s key)"

definition dht_remove :: "dht_store \<Rightarrow> bytes \<Rightarrow> dht_store" where
  "dht_remove s key = AList.delete (to_hex key) s"

interpretation dht: total_store fst snd "\<lambda>s (k, v). (dht_publish s k v, True)" dht_lookup_sync dht_remove
  by unfold_locales
     (auto simp: dht_publish_def dht_lookup_sync_def dht_remove_def table_simps split: prod.splits)

text \<open>
  The record store behaves as a map from 32-byte keys to values under every sequence of
  publications and removals: a publication overwrites, a removal forgets, other keys are not
  affected.
\<close>

theorem dht_is_a_map:
  "dht_lookup_sync (run_ops (\<lambda>s (k, v). (dht_publish s k v, True)) dht_remove [] ps) =
     spec_ops fst snd (\<lambda>_. None) ps"
proof -
  have "dht_lookup_sync [] = (\<lambda>_. None)"
    by (rule ext) (simp add: dht_lookup_sync_def)
  then show ?thesis
    using dht.run_refines [of "[]" ps] by simp
qed

end
