(* ===== verification/Ipc_Codec.thy ===== *)
theory Ipc_Codec
  imports Tables Cbor_Wire "HOL-Library.List_Lexorder" "HOL-Library.Char_ord"
begin

text \<open>
  The IPC message codec (\<^verbatim>\<open>common/include/sw/ipc/codec.hpp\<close>, \<^verbatim>\<open>common/src/ipc/codec.cpp\<close>):
  dynamic values, their translation to and from CBOR items, and the three envelopes (request,
  response, push). A \<^verbatim>\<open>std::map<std::string, CborValue>\<close> is an association list in the order
  of its keys; signed integers are \<open>int\<close> in the 64-bit range.
\<close>

subsection \<open>Values\<close>

datatype cval =
    VNull
  | VBool bool
  | VUint u64
  | VInt int
  | VString string
  | VBytes bytes
  | VArray "cval list"
  | VMap "(string \<times> cval) list"

type_synonym cmap = "(string \<times> cval) list"

text \<open>\<^verbatim>\<open>m[k] = v\<close> on a \<^verbatim>\<open>std::map\<close>: keys stay sorted.\<close>

fun map_put :: "string \<Rightarrow> 'v \<Rightarrow> (string \<times> 'v) list \<Rightarrow> (string \<times> 'v) list" where
  "map_put k v [] = [(k, v)]"
| "map_put k v ((k', v') # m) =
     (if k < k' then (k, v) # (k', v') # m
      else if k = k' then (k, v) # m
      else (k', v') # map_put k v m)"

text \<open>The braced initialiser of a map: the first entry of a key wins.\<close>

definition cmap_of :: "(string \<times> 'v) list \<Rightarrow> (string \<times> 'v) list" where
  "cmap_of kvs = foldr (\<lambda>(k, v) m. map_put k v m) kvs []"

fun as_uint :: "cval \<Rightarrow> u64 res" where
  "as_uint (VUint u) = Inr u"
| "as_uint _ = Inl Bad_Variant_Access"

fun as_string :: "cval \<Rightarrow> string res" where
  "as_string (VString s) = Inr s"
| "as_string _ = Inl Bad_Variant_Access"

fun as_bool :: "cval \<Rightarrow> bool res" where
  "as_bool (VBool b) = Inr b"
| "as_bool _ = Inl Bad_Variant_Access"

fun as_map :: "cval \<Rightarrow> cmap res" where
  "as_map (VMap m) = Inr m"
| "as_map _ = Inl Bad_Variant_Access"

subsection \<open>Items and values\<close>

fun item_to_value :: "cbor \<Rightarrow> cval res"
and items_to_values :: "cbor list \<Rightarrow> cval list res"
and pairs_to_map :: "(cbor \<times> cbor) list \<Rightarrow> cmap \<Rightarrow> cmap res" where
  "item_to_value (CUint w v) = Inr (VUint v)"
| "item_to_value (CNegint w v) = Inr (VInt (- 1 - int64_of v))"
| "item_to_value (CBytes b) = Inr (VBytes b)"
| "item_to_value (CText s) = Inr (VString s)"
| "item_to_value (CArray xs) = rbind (items_to_values xs) (\<lambda>vs. Inr (VArray vs))"
| "item_to_value (CMap ps) = rbind (pairs_to_map ps []) (\<lambda>m. Inr (VMap m))"
| "item_to_value (CBool b) = Inr (VBool b)"
| "item_to_value CNull = Inr VNull"
| "item_to_value COther = Inl (Runtime_Error ''Unsupported CBOR type'')"
| "items_to_values [] = Inr []"
| "items_to_values (x # xs) =
     rbind (item_to_value x) (\<lambda>v. rbind (items_to_values xs) (\<lambda>vs. Inr (v # vs)))"
| "pairs_to_map [] m = Inr m"
| "pairs_to_map ((k, x) # ps) m =
     (case k of
        CText key \<Rightarrow> rbind (item_to_value x) (\<lambda>v. pairs_to_map ps (map_put key v m))
      | _ \<Rightarrow> Inl (Runtime_Error ''CBOR map key must be text string''))"

fun value_to_item :: "cbor_lib \<Rightarrow> cval \<Rightarrow> cbor" where
  "value_to_item C VNull = CNull"
| "value_to_item C (VBool b) = CBool b"
| "value_to_item C (VUint u) = build_uint64 u"
| "value_to_item C (VInt i) =
     (if i \<ge> 0 then build_uint64 (u64_of_int64 i) else CNegint CBOR_INT_64 (u64_of_int64 (- 1 - i)))"
| "value_to_item C (VString s) = build_string s"
| "value_to_item C (VBytes b) = CBytes b"
| "value_to_item C (VArray xs) = definite_array C (length xs) (map (value_to_item C) xs)"
| "value_to_item C (VMap m) =
     definite_map C (length m) (map (\<lambda>(k, v). (build_string k, value_to_item C v)) m)"

definition map_to_item :: "cbor_lib \<Rightarrow> cmap \<Rightarrow> cbor" where
  "map_to_item C m = definite_map C (length m) (map (\<lambda>(k, v). (build_string k, value_to_item C v)) m)"

definition parse_top_map :: "cbor_lib \<Rightarrow> bytes \<Rightarrow> cmap res" where
  "parse_top_map C data =
     (case cbor_load C data of
        None \<Rightarrow> Inl (Runtime_Error ''CBOR parse error'')
      | Some (CMap ps) \<Rightarrow> rbind (item_to_value (CMap ps)) as_map
      | Some _ \<Rightarrow> Inl (Runtime_Error ''Expected top-level CBOR map''))"

definition require_string :: "cmap \<Rightarrow> string \<Rightarrow> string res" where
  "require_string m key =
     (case map_of m key of
        Some (VString s) \<Rightarrow> Inr s
      | _ \<Rightarrow> Inl (Runtime_Error (''Missing/invalid field: '' @ key)))"

definition require_uint :: "cmap \<Rightarrow> string \<Rightarrow> u64 res" where
  "require_uint m key =
     (case map_of m key of
        Some (VUint u) \<Rightarrow> Inr u
      | _ \<Rightarrow> Inl (Runtime_Error (''Missing/invalid field: '' @ key)))"

subsection \<open>Envelopes\<close>

record request =
  rq_id :: u64
  rq_caller :: string
  rq_method :: string
  rq_params :: cmap

record response =
  rs_id :: u64
  rs_ok :: bool
  rs_result :: cmap
  rs_code :: int
  rs_message :: string

record push_msg =
  pu_event :: string
  pu_payload :: cmap

definition encode_request :: "cbor_lib \<Rightarrow> request \<Rightarrow> bytes" where
  "encode_request C req =
     (let m = map_put ''params'' (VMap (rq_params req))
                (map_put ''method'' (VString (rq_method req))
                  (map_put ''caller'' (VString (rq_caller req))
                    (map_put ''id'' (VUint (rq_id req)) [])))
      in serialize_or_empty C (map_to_item C m))"

text \<open>The error code is a 32-bit \<^verbatim>\<open>int\<close>, cast to \<^verbatim>\<open>uint64_t\<close>.\<close>

definition encode_response :: "cbor_lib \<Rightarrow> response \<Rightarrow> bytes" where
  "encode_response C resp =
     (let m = map_put ''ok'' (VBool (rs_ok resp)) (map_put ''id'' (VUint (rs_id resp)) []);
          m' = (if rs_ok resp then map_put ''result'' (VMap (rs_result resp)) m
                else map_put ''error''
                  (VMap (map_put ''message'' (VString (rs_message resp))
                          (map_put ''code'' (VUint (u64_of_int64 (rs_code resp))) []))) m)
      in serialize_or_empty C (map_to_item C m'))"

definition encode_push :: "cbor_lib \<Rightarrow> push_msg \<Rightarrow> bytes" where
  "encode_push C p =
     serialize_or_empty C (map_to_item C
       (map_put ''payload'' (VMap (pu_payload p)) (map_put ''event'' (VString (pu_event p)) [])))"

datatype msg_type = MT_Request | MT_Response | MT_Push | MT_Unknown

definition detect :: "cbor_lib \<Rightarrow> bytes \<Rightarrow> msg_type" where
  "detect C data =
     (case parse_top_map C data of
        Inr m \<Rightarrow> (if map_of m ''method'' \<noteq> None then MT_Request
                  else if map_of m ''ok'' \<noteq> None then MT_Response
                  else if map_of m ''event'' \<noteq> None then MT_Push else MT_Unknown)
      | Inl _ \<Rightarrow> MT_Unknown)"

definition map_or_empty :: "cmap \<Rightarrow> string \<Rightarrow> cmap" where
  "map_or_empty m key = (case map_of m key of Some (VMap p) \<Rightarrow> p | _ \<Rightarrow> [])"

definition decode_request :: "cbor_lib \<Rightarrow> bytes \<Rightarrow> request res" where
  "decode_request C data =
     rbind (parse_top_map C data) (\<lambda>m.
     rbind (require_uint m ''id'') (\<lambda>i.
     rbind (require_string m ''caller'') (\<lambda>c.
     rbind (require_string m ''method'') (\<lambda>meth.
       Inr \<lparr>rq_id = i, rq_caller = c, rq_method = meth, rq_params = map_or_empty m ''params''\<rparr>))))"

text \<open>\<^verbatim>\<open>static_cast<int>\<close> of a 64-bit value.\<close>

definition int32_of :: "u64 \<Rightarrow> int" where
  "int32_of v = sint (ucast v :: u32)"

definition error_code :: "cmap \<Rightarrow> int" where
  "error_code em =
     (case map_of em ''code'' of
        Some (VUint u) \<Rightarrow> int32_of u
      | Some (VInt i) \<Rightarrow> int32_of (u64_of_int64 i)
      | _ \<Rightarrow> 0)"

definition error_message :: "cmap \<Rightarrow> string" where
  "error_message em = (case map_of em ''message'' of Some (VString s) \<Rightarrow> s | _ \<Rightarrow> [])"

definition decode_response :: "cbor_lib \<Rightarrow> bytes \<Rightarrow> response res" where
  "decode_response C data =
     rbind (parse_top_map C data) (\<lambda>m.
     rbind (require_uint m ''id'') (\<lambda>i.
       case map_of m ''ok'' of
         Some (VBool ok) \<Rightarrow>
           (if ok then Inr \<lparr>rs_id = i, rs_ok = True, rs_result = map_or_empty m ''result'',
                            rs_code = 0, rs_message = []\<rparr>
            else case map_of m ''error'' of
              Some (VMap em) \<Rightarrow> Inr \<lparr>rs_id = i, rs_ok = False, rs_result = [],
                                     rs_code = error_code em, rs_message = error_message em\<rparr>
            | _ \<Rightarrow> Inr \<lparr>rs_id = i, rs_ok = False, rs_result = [], rs_code = 0, rs_message = []\<rparr>)
       | _ \<Rightarrow> Inl (Runtime_Error ''Response missing 'ok' bool'')))"

definition decode_push :: "cbor_lib \<Rightarrow> bytes \<Rightarrow> push_msg res" where
  "decode_push C data =
     rbind (parse_top_map C data) (\<lambda>m.
     rbind (require_string m ''event'') (\<lambda>e.
       Inr \<lparr>pu_event = e, pu_payload = map_or_empty m ''payload''\<rparr>))"

subsection \<open>Maps\<close>

lemma map_of_map_put [simp]: "map_of (map_put k v m) = (map_of m)(k \<mapsto> v)"
  by (induction k v m rule: map_put.induct) (auto simp: fun_eq_iff)

lemma set_map_put: "set (map_put k v m) \<subseteq> insert (k, v) (set m)"
  by (induction k v m rule: map_put.induct) auto

lemma keys_map_put: "fst ` set (map_put k v m) = insert k (fst ` set m)"
  by (induction k v m rule: map_put.induct) auto

lemma sorted_map_put: "sorted_wrt (<) (map fst m) \<Longrightarrow> sorted_wrt (<) (map fst (map_put k v m))"
proof (induction k v m rule: map_put.induct)
  case (2 k v k' v' m)
  show ?case
  proof (cases "k' < k")
    case True
    have "\<forall>x\<in>fst ` set (map_put k v m). k' < x"
      using 2(2) True by (auto simp: keys_map_put)
    with True 2 show ?thesis
      by (auto simp: not_less_iff_gr_or_eq)
  next
    case False
    with 2(2) show ?thesis
      by (auto simp: neq_iff)
  qed
qed simp

lemma length_map_put: "length (map_put k v m) \<le> Suc (length m)"
  by (induction k v m rule: map_put.induct) auto

text \<open>Inserting above all keys appends.\<close>

lemma map_put_append: "\<forall>x\<in>fst ` set m. x < k \<Longrightarrow> map_put k v m = m @ [(k, v)]"
  by (induction m) auto

subsection \<open>Values that survive the wire\<close>

text \<open>
  Values within the limits of the library: bounded sizes and nesting, ASCII text, map keys
  sorted and free of NUL, integers in range.
\<close>

fun wf_val :: "nat \<Rightarrow> cval \<Rightarrow> bool" where
  "wf_val d (VInt i) \<longleftrightarrow> int64_range i"
| "wf_val d (VString s) \<longleftrightarrow> ascii s \<and> length s < 2 ^ 64"
| "wf_val d (VBytes b) \<longleftrightarrow> length b < 2 ^ 64"
| "wf_val d (VArray xs) \<longleftrightarrow> 0 < d \<and> length xs < 2 ^ 64 \<and> (\<forall>x\<in>set xs. wf_val (d - 1) x)"
| "wf_val d (VMap m) \<longleftrightarrow> 0 < d \<and> length m < 2 ^ 64 \<and> sorted_wrt (<) (map fst m) \<and>
     (\<forall>(k, v)\<in>set m. no_nul k \<and> ascii k \<and> length k < 2 ^ 64 \<and> wf_val (d - 1) v)"
| "wf_val d _ \<longleftrightarrow> True"

text \<open>
  What the reader obtains: text up to its first NUL, and a non-negative signed integer as an
  unsigned one.
\<close>

fun norm_val :: "cval \<Rightarrow> cval" where
  "norm_val (VInt i) = (if i \<ge> 0 then VUint (u64_of_int64 i) else VInt i)"
| "norm_val (VString s) = VString (c_str s)"
| "norm_val (VArray xs) = VArray (map norm_val xs)"
| "norm_val (VMap m) = VMap (map (\<lambda>(k, v). (k, norm_val v)) m)"
| "norm_val v = v"

definition norm_map :: "cmap \<Rightarrow> cmap" where
  "norm_map m = map (\<lambda>(k, v). (k, norm_val v)) m"

lemma items_to_values_map:
  "(\<And>x. x \<in> set xs \<Longrightarrow> item_to_value (f x) = Inr (g x)) \<Longrightarrow> items_to_values (map f xs) = Inr (map g xs)"
  by (induction xs) simp_all

lemma pairs_to_map_sorted:
  assumes "\<And>k v. (k, v) \<in> set m \<Longrightarrow> item_to_value (f v) = Inr (g v)"
    "sorted_wrt (<) (map fst m)" "\<forall>x\<in>fst ` set acc. \<forall>y\<in>fst ` set m. x < y"
  shows "pairs_to_map (map (\<lambda>(k, v). (CText k, f v)) m) acc = Inr (acc @ map (\<lambda>(k, v). (k, g v)) m)"
  using assms
proof (induction m arbitrary: acc)
  case (Cons p m)
  obtain k v where p: "p = (k, v)"
    by (cases p)
  have "map_put k (g v) acc = acc @ [(k, g v)]"
    using Cons.prems(3) p by (intro map_put_append) auto
  moreover have "pairs_to_map (map (\<lambda>(k, v). (CText k, f v)) m) (acc @ [(k, g v)]) =
      Inr ((acc @ [(k, g v)]) @ map (\<lambda>(k, v). (k, g v)) m)"
    using Cons.prems p by (intro Cons.IH) auto
  ultimately show ?case
    using Cons.prems(1) [of k v] p by simp
qed simp

lemma int64_neg: "int64_range i \<Longrightarrow> i < 0 \<Longrightarrow> int64_of (u64_of_int64 (- 1 - i)) = - 1 - i"
  by (rule int64_roundtrip) (simp add: int64_range_def)

lemma build_string_nul_free: "no_nul k \<Longrightarrow> build_string k = CText k"
  by (simp add: build_string_def)

lemma pairs_nul_free:
  assumes "\<forall>(k, v)\<in>set m. no_nul k"
  shows "map (\<lambda>(k, v). (build_string k, f v)) m = map (\<lambda>(k, v). (CText k, f v)) m"
  using assms by (auto simp: build_string_nul_free)

text \<open>Reading back what was written.\<close>

lemma item_value_roundtrip:
  assumes "cbor_ok C"
  shows "wf_val d v \<Longrightarrow> item_to_value (value_to_item C v) = Inr (norm_val v)"
proof (induction d v rule: wf_val.induct)
  case (1 d i)
  then show ?case
    by (auto simp: build_uint64_def int64_neg)
next
  case (2 d s)
  then show ?case
    by (simp add: build_string_def)
next
  case (4 d xs)
  then show ?case
    using assms by (simp add: definite_array_take items_to_values_map)
next
  case (5 d m)
  have keys: "\<forall>(k, v)\<in>set m. no_nul k"
    using 5(2) by auto
  have sorted: "sorted_wrt (<) (map fst m)"
    using 5(2) by simp
  have ih: "item_to_value (value_to_item C v) = Inr (norm_val v)" if "(k, v) \<in> set m" for k v
    using 5 that by auto
  show ?case
    using assms pairs_to_map_sorted [OF ih sorted, where acc = "[]"] by (simp add: definite_map_take pairs_nul_free [OF keys])
qed (simp_all add: build_uint64_def)

lemma plain_value_to_item:
  assumes "cbor_ok C"
  shows "wf_val d v \<Longrightarrow> plain (value_to_item C v) d"
proof (induction d v rule: wf_val.induct)
  case (1 d i)
  have "unat (x :: u64) < 2 ^ LENGTH(64)" for x
    by (rule unsigned_less)
  then show ?case
    by (simp add: width_bits_def)
next
  case (2 d s)
  then show ?case
    using length_c_str_le [of s] by (simp add: ascii_c_str)
next
  case (4 d xs)
  then show ?case
    using assms by (simp add: definite_array_take)
next
  case (5 d m)
  have "plain (value_to_item C v) (d - 1)" if "(k, v) \<in> set m" for k v
    using 5 that by auto
  with 5(2) show ?case
    using assms by (auto simp: definite_map_take)
qed simp_all

subsection \<open>Envelopes survive the wire\<close>

lemma parse_serialized:
  assumes "cbor_ok C" "wf_val 64 (VMap m)"
  shows "parse_top_map C (serialize_or_empty C (map_to_item C m)) = Inr (norm_map m)"
    "serialize_or_empty C (map_to_item C m) \<noteq> []"
proof -
  have item: "map_to_item C m = value_to_item C (VMap m)"
    by (simp add: map_to_item_def)
  obtain ps where ps: "value_to_item C (VMap m) = CMap ps"
    using assms(1) by (simp add: definite_map_take)
  have "plain (CMap ps) 64"
    using plain_value_to_item [OF assms] ps by simp
  with assms(1) obtain bs where bs: "cbor_serialize C (CMap ps) = Some bs" "cbor_load C bs = Some (CMap ps)"
      "bs \<noteq> []"
    by (metis cbor_ok_print)
  have "item_to_value (CMap ps) = Inr (VMap (norm_map m))"
    using item_value_roundtrip [OF assms] by (simp only: ps norm_map_def norm_val.simps)
  with bs item ps show "parse_top_map C (serialize_or_empty C (map_to_item C m)) = Inr (norm_map m)"
      "serialize_or_empty C (map_to_item C m) \<noteq> []"
    by (simp_all add: parse_top_map_def serialize_or_empty_def del: item_to_value.simps value_to_item.simps)
qed

lemma map_of_norm_map [simp]: "map_of (norm_map m) k = map_option norm_val (map_of m k)"
  by (simp add: norm_map_def map_of_map)

lemma wf_map_put:
  assumes "wf_val d (VMap m)" "wf_val (d - 1) v" "no_nul k" "ascii k" "length k < 2 ^ 64" "length m < 100"
  shows "wf_val d (VMap (map_put k v m))"
  using assms set_map_put [of k v m] length_map_put [of k v m] by (auto simp: sorted_map_put)

lemma wf_map_Nil [simp]: "wf_val d (VMap []) \<longleftrightarrow> 0 < d"
  by simp

definition wf_text :: "string \<Rightarrow> bool" where
  "wf_text s \<longleftrightarrow> ascii s \<and> length s < 2 ^ 64"

definition wf_request :: "request \<Rightarrow> bool" where
  "wf_request r \<longleftrightarrow> wf_text (rq_caller r) \<and> wf_text (rq_method r) \<and> wf_val 62 (VMap (rq_params r))"

definition norm_request :: "request \<Rightarrow> request" where
  "norm_request r = r\<lparr>rq_caller := c_str (rq_caller r), rq_method := c_str (rq_method r),
     rq_params := norm_map (rq_params r)\<rparr>"

definition wf_response :: "response \<Rightarrow> bool" where
  "wf_response r \<longleftrightarrow> wf_text (rs_message r) \<and> wf_val 62 (VMap (rs_result r)) \<and>
     - (2 ^ 31) \<le> rs_code r \<and> rs_code r < 2 ^ 31"

text \<open>A success carries no error, a failure no result.\<close>

definition norm_response :: "response \<Rightarrow> response" where
  "norm_response r = (if rs_ok r
     then r\<lparr>rs_result := norm_map (rs_result r), rs_code := 0, rs_message := []\<rparr>
     else r\<lparr>rs_result := [], rs_message := c_str (rs_message r)\<rparr>)"

definition wf_push :: "push_msg \<Rightarrow> bool" where
  "wf_push p \<longleftrightarrow> wf_text (pu_event p) \<and> wf_val 62 (VMap (pu_payload p))"

definition norm_push :: "push_msg \<Rightarrow> push_msg" where
  "norm_push p = p\<lparr>pu_event := c_str (pu_event p), pu_payload := norm_map (pu_payload p)\<rparr>"

text \<open>A codec: what is encoded is recognised as its kind and decodes to its normal form.\<close>

locale message_codec =
  fixes wf :: "'m \<Rightarrow> bool" and nf :: "'m \<Rightarrow> 'm" and encode :: "'m \<Rightarrow> bytes"
    and decode :: "bytes \<Rightarrow> 'm res" and kind_of :: "bytes \<Rightarrow> msg_type" and kind :: msg_type
  assumes decode_encode: "wf m \<Longrightarrow> decode (encode m) = Inr (nf m)"
    and kind_encode: "wf m \<Longrightarrow> kind_of (encode m) = kind"
    and encode_nonempty: "wf m \<Longrightarrow> encode m \<noteq> []"
begin

lemma encode_inject_nf: "wf m \<Longrightarrow> wf m' \<Longrightarrow> encode m = encode m' \<Longrightarrow> nf m = nf m'"
  by (metis Inr_inject decode_encode)

lemma decode_all: "list_all wf ms \<Longrightarrow> map (decode \<circ> encode) ms = map (Inr \<circ> nf) ms"
  by (induction ms) (simp_all add: decode_encode)

end

lemma wf_val_mono: "wf_val d v \<Longrightarrow> d \<le> e \<Longrightarrow> wf_val e v"
proof (induction d v arbitrary: e rule: wf_val.induct)
  case (5 d m)
  have "wf_val (e - 1) v" if "(k, v) \<in> set m" for k v
    using 5(1) [of "(k, v)" k v "e - 1"] 5(2,3) that by auto
  with 5(2,3) show ?case
    by auto
qed (auto simp: diff_le_mono)

lemmas key_simps = no_nul_def ascii_def

lemma request_codec:
  assumes C: "cbor_ok C" and wf: "wf_request r"
  shows "decode_request C (encode_request C r) = Inr (norm_request r)"
    "detect C (encode_request C r) = MT_Request" "encode_request C r \<noteq> []"
proof -
  let ?m = "map_put ''params'' (VMap (rq_params r)) (map_put ''method'' (VString (rq_method r))
    (map_put ''caller'' (VString (rq_caller r)) (map_put ''id'' (VUint (rq_id r)) [])))"
  have "wf_val 63 (VMap (rq_params r))"
    using wf by (auto simp: wf_request_def intro: wf_val_mono)
  then have "wf_val 64 (VMap ?m)"
    using wf length_map_put [of "''method''"] 
    by (intro wf_map_put) (auto simp: wf_request_def wf_text_def key_simps simp del: wf_val.simps(5))
  note parsed = parse_serialized [OF C this]
  show "decode_request C (encode_request C r) = Inr (norm_request r)"
    using parsed(1) by (simp add: encode_request_def decode_request_def require_uint_def
        require_string_def map_or_empty_def norm_request_def norm_map_def)
  show "detect C (encode_request C r) = MT_Request"
    using parsed(1) by (simp add: encode_request_def detect_def)
  show "encode_request C r \<noteq> []"
    using parsed(2) by (simp add: encode_request_def)
qed

lemma int32_roundtrip:
  assumes "- (2 ^ 31) \<le> c" "c < 2 ^ 31"
  shows "int32_of (u64_of_int64 c) = c"
proof -
  have "(ucast (word_of_int c :: u64) :: u32) = word_of_int c"
    by (rule bit_word_eqI) (simp add: bit_simps)
  then show ?thesis
    using assms by (simp add: int32_of_def u64_of_int64_def signed_of_int signed_take_bit_int_eq_self)
qed

lemma response_codec:
  assumes C: "cbor_ok C" and wf: "wf_response r"
  shows "decode_response C (encode_response C r) = Inr (norm_response r)"
    "detect C (encode_response C r) = MT_Response" "encode_response C r \<noteq> []"
proof -
  let ?m = "map_put ''ok'' (VBool (rs_ok r)) (map_put ''id'' (VUint (rs_id r)) [])"
  let ?e = "map_put ''message'' (VString (rs_message r)) (map_put ''code'' (VUint (u64_of_int64 (rs_code r))) [])"
  let ?m' = "if rs_ok r then map_put ''result'' (VMap (rs_result r)) ?m else map_put ''error'' (VMap ?e) ?m"
  have base: "wf_val 64 (VMap ?m)"
    by (intro wf_map_put) (auto simp: key_simps simp del: wf_val.simps(5))
  have "wf_val 63 (VMap (rs_result r))"
    using wf by (auto simp: wf_response_def intro: wf_val_mono)
  moreover have "wf_val 63 (VMap ?e)"
    using wf by (intro wf_map_put) (auto simp: wf_response_def wf_text_def key_simps simp del: wf_val.simps(5))
  moreover have "length ?m < 100"
    using length_map_put [of "''ok''" "VBool (rs_ok r)" "map_put ''id'' (VUint (rs_id r)) []"] by simp
  ultimately have "wf_val 64 (VMap ?m')"
    using base by (cases "rs_ok r") (simp_all add: key_simps)
  note parsed = parse_serialized [OF C this]
  have code: "int32_of (u64_of_int64 (rs_code r)) = rs_code r"
    using wf by (intro int32_roundtrip) (simp_all add: wf_response_def)
  show "decode_response C (encode_response C r) = Inr (norm_response r)"
    using parsed(1) code by (cases "rs_ok r")
      (simp_all add: encode_response_def decode_response_def require_uint_def map_or_empty_def
        norm_response_def norm_map_def error_code_def error_message_def map_of_map)
  show "detect C (encode_response C r) = MT_Response"
    using parsed(1) by (cases "rs_ok r") (simp_all add: encode_response_def detect_def)
  show "encode_response C r \<noteq> []"
    using parsed(2) by (simp add: encode_response_def Let_def del: map_put.simps)
qed

lemma push_codec:
  assumes C: "cbor_ok C" and wf: "wf_push p"
  shows "decode_push C (encode_push C p) = Inr (norm_push p)"
    "detect C (encode_push C p) = MT_Push" "encode_push C p \<noteq> []"
proof -
  let ?m = "map_put ''payload'' (VMap (pu_payload p)) (map_put ''event'' (VString (pu_event p)) [])"
  have "wf_val 63 (VMap (pu_payload p))"
    using wf by (auto simp: wf_push_def intro: wf_val_mono)
  then have "wf_val 64 (VMap ?m)"
    using wf by (intro wf_map_put) (auto simp: wf_push_def wf_text_def key_simps simp del: wf_val.simps(5))
  note parsed = parse_serialized [OF C this]
  show "decode_push C (encode_push C p) = Inr (norm_push p)"
    using parsed(1) by (simp add: encode_push_def decode_push_def require_string_def map_or_empty_def
        norm_push_def norm_map_def)
  show "detect C (encode_push C p) = MT_Push" "encode_push C p \<noteq> []"
    using parsed by (simp_all add: encode_push_def detect_def)
qed

text \<open>The three envelopes of a library that meets its documentation.\<close>

interpretation wire_request: message_codec wf_request norm_request "encode_request wire_cbor"
  "decode_request wire_cbor" "detect wire_cbor" MT_Request
  by unfold_locales (simp_all add: request_codec)

interpretation wire_response: message_codec wf_response norm_response "encode_response wire_cbor"
  "decode_response wire_cbor" "detect wire_cbor" MT_Response
  by unfold_locales (simp_all add: response_codec)

interpretation wire_push: message_codec wf_push norm_push "encode_push wire_cbor"
  "decode_push wire_cbor" "detect wire_cbor" MT_Push
  by unfold_locales (simp_all add: push_codec)

text \<open>
  Every request, response and push event within the limits of the library is recognised as
  what it is and decodes to what was encoded: identifier, verdict, error code (negative ones
  too) and nested parameters are kept, text is cut at a NUL character, a non-negative signed
  number comes back unsigned, and a failure carries no result, a success no error.
\<close>

theorem envelope_roundtrip:
  assumes "cbor_ok C" "wf_request rq" "wf_response rs" "wf_push pu"
  shows "decode_request C (encode_request C rq) = Inr (norm_request rq) \<and>
    detect C (encode_request C rq) = MT_Request \<and>
    decode_response C (encode_response C rs) = Inr (norm_response rs) \<and>
    detect C (encode_response C rs) = MT_Response \<and>
    decode_push C (encode_push C pu) = Inr (norm_push pu) \<and>
    detect C (encode_push C pu) = MT_Push"
  using assms by (simp add: request_codec response_codec push_codec)

definition demo_request :: request where
  "demo_request = \<lparr>rq_id = 7, rq_caller = ''client'', rq_method = ''tft.status'',
     rq_params = [(''depth'', VInt 3)]\<rparr>"

theorem envelope_roundtrip_witness:
  "decode_request wire_cbor (encode_request wire_cbor demo_request) =
     Inr (demo_request\<lparr>rq_params := [(''depth'', VUint 3)]\<rparr>) \<and>
   decode_response wire_cbor (encode_response wire_cbor \<lparr>rs_id = 7, rs_ok = False, rs_result = [],
       rs_code = - 1, rs_message = ''no''\<rparr>) =
     Inr \<lparr>rs_id = 7, rs_ok = False, rs_result = [], rs_code = - 1, rs_message = ''no''\<rparr>"
  using envelope_roundtrip [of wire_cbor demo_request
      "\<lparr>rs_id = 7, rs_ok = False, rs_result = [], rs_code = - 1, rs_message = ''no''\<rparr>"
      "\<lparr>pu_event = ''e'', pu_payload = []\<rparr>"]
  by (simp add: wf_request_def wf_response_def wf_push_def wf_text_def key_simps demo_request_def
      norm_request_def norm_response_def norm_map_def int64_range_def c_str_def u64_of_int64_def)

end
