(* ===== verification/Ipc.thy ===== *)
theory Ipc
  imports Ipc_Codec
begin

text \<open>
  IPC transport: length-prefixed frames (\<^verbatim>\<open>common/src/ipc/codec.cpp\<close>), the connection loop of
  the server (\<^verbatim>\<open>server.cpp\<close>) and the calls of the client (\<^verbatim>\<open>client.cpp\<close>). A socket is the byte
  stream still to be read together with a schedule, the sizes in which the kernel hands the
  bytes out; nothing depends on the schedule. A write does not fail here; failing calls, several clients
  and the threads of both sides are in \<^verbatim>\<open>Ipc_Server\<close> and \<^verbatim>\<open>Ipc_Client\<close>.
\<close>

subsection \<open>Frames\<close>

definition frame :: "bytes \<Rightarrow> bytes" where
  "frame payload = be32 (of_nat (length payload)) @ payload"

text \<open>
  \<^verbatim>\<open>read_exact\<close>: \<open>n\<close> bytes are still wanted; each \<^verbatim>\<open>read\<close> returns at least one byte, at most
  what the schedule says, and nothing at the end of the stream.
\<close>

function read_exact :: "nat list \<Rightarrow> nat \<Rightarrow> bytes \<Rightarrow> bytes \<Rightarrow> (bytes \<times> bytes \<times> nat list) option" where
  "read_exact sched n acc st =
     (if n = 0 then Some (acc, st, sched)
      else if st = [] then None
      else let offer = (case sched of [] \<Rightarrow> n | s # _ \<Rightarrow> max 1 s);
               k = min offer (min n (length st))
           in read_exact (tl sched) (n - k) (acc @ take k st) (drop k st))"
  by auto
termination
  by (relation "measure (\<lambda>(sched, n, acc, st). n)") (auto simp: Let_def split: list.split)

declare read_exact.simps [simp del]

text \<open>The frame read, or the empty string at the end of the stream, and what is left of the stream.\<close>

definition read_frame :: "nat list \<Rightarrow> bytes \<Rightarrow> bytes res \<times> bytes \<times> nat list" where
  "read_frame sched st =
     (case read_exact sched 4 [] st of
        None \<Rightarrow> (Inr [], [], [])
      | Some (hdr, st', sched') \<Rightarrow>
          let len = unat (rd32 (hdr ! 0) (hdr ! 1) (hdr ! 2) (hdr ! 3))
          in if len = 0 \<or> len > 64 * 1024 * 1024
             then (Inl (Runtime_Error (''read_frame: invalid length '' @ show_nat len)), st', sched')
             else case read_exact sched' len [] st' of
                    None \<Rightarrow> (Inr [], [], [])
                  | Some (payload, st'', sched'') \<Rightarrow> (Inr payload, st'', sched''))"

text \<open>
  \<^verbatim>\<open>write_frame\<close>: the results of the calls of \<^verbatim>\<open>write\<close>, where the calls past the end of the list take everything; the
  bytes that reach the socket, and the exception of a negative result. A result of 0 is tried again.
\<close>

fun write_loop :: "int list \<Rightarrow> bytes \<Rightarrow> bytes \<times> unit res" where
  "write_loop ws [] = ([], Inr ())"
| "write_loop [] framed = (framed, Inr ())"
| "write_loop (w # ws) framed =
     (if w < 0 then ([], Inl (Runtime_Error ''write_frame: write failed''))
      else case write_loop ws (drop (nat w) framed) of (out, r) \<Rightarrow> (take (nat w) framed @ out, r))"

definition write_frame :: "int list \<Rightarrow> bytes \<Rightarrow> bytes \<times> unit res" where
  "write_frame ws payload = write_loop ws (frame payload)"

lemma write_frame_at_once [simp]: "write_frame [] payload = (frame payload, Inr ())"
  by (cases "frame payload") (simp_all add: write_frame_def)

lemma write_loop_spec:
  "write_loop ws d = (d, Inr ()) \<or> (\<exists>n<length d. write_loop ws d = (take n d, Inl (Runtime_Error ''write_frame: write failed'')))"
proof (induction ws d rule: write_loop.induct)
  case (3 w ws x xs)
  show ?case
  proof (cases "w < 0")
    case False
    let ?d = "x # xs"
    from 3 False consider "write_loop ws (drop (nat w) ?d) = (drop (nat w) ?d, Inr ())"
      | n where "n < length (drop (nat w) ?d)"
          "write_loop ws (drop (nat w) ?d) = (take n (drop (nat w) ?d), Inl (Runtime_Error ''write_frame: write failed''))"
      by blast
    then show ?thesis
    proof cases
      case 1
      then show ?thesis
        using False by (simp del: take_Cons drop_Cons add: append_take_drop_id)
    next
      case 2
      then have "nat w + n < length ?d" "take (nat w) ?d @ take n (drop (nat w) ?d) = take (nat w + n) ?d"
        by (simp_all only: length_drop take_add)
      then show ?thesis
        using False 2 by (intro disjI2 exI [of _ "nat w + n"]) simp
    qed
  qed auto
qed simp_all

lemma read_exact_spec:
  "(length st < n \<longrightarrow> read_exact sched n acc st = None) \<and>
   (n \<le> length st \<longrightarrow> (\<exists>s. read_exact sched n acc st = Some (acc @ take n st, drop n st, s)))"
proof (induction sched n acc st rule: read_exact.induct)
  case (1 sched n acc st)
  show ?case
  proof (cases "n = 0 \<or> st = []")
    case True
    then show ?thesis
      by (auto simp: read_exact.simps [of sched n])
  next
    case False
    define offer where "offer = (case sched of [] \<Rightarrow> n | s # _ \<Rightarrow> max 1 s)"
    define k where "k = min offer (min n (length st))"
    have k: "k \<le> n" "k \<le> length st"
      by (simp_all add: k_def)
    have step: "read_exact sched n acc st = read_exact (tl sched) (n - k) (acc @ take k st) (drop k st)"
      using False by (simp add: read_exact.simps [of sched n] offer_def k_def Let_def)
    have app: "take k st @ take (n - k) (drop k st) = take n st"
      using k by (simp add: take_add [symmetric])
    have IH: "(length (drop k st) < n - k \<longrightarrow>
          read_exact (tl sched) (n - k) (acc @ take k st) (drop k st) = None) \<and>
        (n - k \<le> length (drop k st) \<longrightarrow> (\<exists>s. read_exact (tl sched) (n - k) (acc @ take k st) (drop k st) =
          Some ((acc @ take k st) @ take (n - k) (drop k st), drop (n - k) (drop k st), s)))"
      using False by (intro 1) (simp_all add: offer_def k_def)
    show ?thesis
      unfolding step using IH k by (auto simp: app)
  qed
qed

lemma read_exact_ok:
  assumes "n \<le> length st"
  obtains s where "read_exact sched n acc st = Some (acc @ take n st, drop n st, s)"
  using assms read_exact_spec by blast

lemma read_exact_eof: "length st < n \<Longrightarrow> read_exact sched n acc st = None"
  using read_exact_spec by blast

lemma read_frame_spec:
  assumes "p \<noteq> []" "length p \<le> 64 * 1024 * 1024"
  obtains s where "read_frame sched (frame p @ rest) = (Inr p, rest, s)"
proof -
  let ?h = "be32 (of_nat (length p) :: u32)"
  obtain s where s: "read_exact sched 4 [] (frame p @ rest) = Some (?h, p @ rest, s)"
    by (rule read_exact_ok [of 4 "frame p @ rest" sched "[]"]) (simp_all add: frame_def)
  obtain s' where s': "read_exact s (length p) [] (p @ rest) = Some (p, rest, s')"
    by (rule read_exact_ok [of "length p" "p @ rest" s "[]"]) simp_all
  have hd: "rd32 (?h ! 0) (?h ! 1) (?h ! 2) (?h ! 3) = of_nat (length p)"
    by (simp add: be32_def rd32_be32 [unfolded One_nat_def])
  have len: "unat (of_nat (length p) :: u32) = length p"
    using assms(2) by (simp add: unat_of_nat)
  show ?thesis
    using assms s s' by (intro that [of s']) (simp add: read_frame_def hd len Let_def del: One_nat_def)
qed

text \<open>A frame read leaves a shorter stream.\<close>

lemma read_exact_shorter: "read_exact sched n acc st = Some (b, st', s) \<Longrightarrow> length st' = length st - n \<and> n \<le> length st"
  using read_exact_spec [of st n sched acc] by (cases "n \<le> length st") auto

lemma read_frame_shorter: "read_frame sched st = (Inr p, st', s) \<Longrightarrow> p \<noteq> [] \<Longrightarrow> length st' < length st"
  by (auto simp: read_frame_def Let_def split: option.splits prod.splits if_splits dest!: read_exact_shorter)

lemma read_frame_cut:
  assumes "p \<noteq> []" "length p \<le> 64 * 1024 * 1024" "n < length (frame p)"
  shows "fst (read_frame sched (take n (frame p))) = Inr []"
proof (cases "n < 4")
  case True
  then show ?thesis
    by (simp add: read_frame_def read_exact_eof)
next
  case False
  let ?st = "take n (frame p)" and ?h = "be32 (of_nat (length p) :: u32)"
  have st: "?st = ?h @ take (n - 4) p"
    using False by (simp add: frame_def)
  obtain s where s: "read_exact sched 4 [] ?st = Some (?h, take (n - 4) p, s)"
    by (rule read_exact_ok [of 4 ?st sched "[]"]) (use False assms(3) in \<open>simp_all add: st\<close>)
  have hd: "rd32 (?h ! 0) (?h ! 1) (?h ! 2) (?h ! 3) = of_nat (length p)"
    by (simp add: be32_def rd32_be32 [unfolded One_nat_def])
  have "unat (of_nat (length p) :: u32) = length p"
    using assms(2) by (simp add: unat_of_nat)
  moreover have "read_exact s (length p) [] (take (n - 4) p) = None"
    using assms(3) False by (intro read_exact_eof) (simp add: frame_def)
  ultimately show ?thesis
    using assms s by (simp add: read_frame_def hd Let_def del: One_nat_def)
qed

text \<open>
  C31. A frame of 1 byte to 64 MiB is read back whole, whatever follows it and however the kernel
  fragments the writes and the reads, and the reader stops exactly at its end; when a write fails, and
  wherever else a stream ends inside a frame, it reads as the end of the connection.
\<close>

theorem frame_roundtrip:
  assumes "p \<noteq> []" "length p \<le> 64 * 1024 * 1024"
  shows "(case write_frame ws p of
      (out, Inr _) \<Rightarrow> out = frame p \<and> (\<exists>s. read_frame sched (out @ rest) = (Inr p, rest, s))
    | (out, Inl e) \<Rightarrow> (\<exists>w\<in>set ws. w < 0) \<and> fst (read_frame sched out) = Inr []) \<and>
    (\<forall>n < length (frame p). fst (read_frame sched (take n (frame p))) = Inr [])"
proof
  have neg: "snd (write_loop ws d) = Inl e \<Longrightarrow> \<exists>w\<in>set ws. w < 0" for d e
    by (induction ws d rule: write_loop.induct) (auto split: if_splits prod.splits)
  have ok: "\<exists>s. read_frame sched (frame p @ rest) = (Inr p, rest, s)"
    by (rule read_frame_spec [OF assms]) blast
  from write_loop_spec [of ws "frame p"]
  show "case write_frame ws p of
      (out, Inr _) \<Rightarrow> out = frame p \<and> (\<exists>s. read_frame sched (out @ rest) = (Inr p, rest, s))
    | (out, Inl e) \<Rightarrow> (\<exists>w\<in>set ws. w < 0) \<and> fst (read_frame sched out) = Inr []"
    using ok neg [of "frame p"] read_frame_cut [OF assms] by (auto simp: write_frame_def)
  show "\<forall>n < length (frame p). fst (read_frame sched (take n (frame p))) = Inr []"
    using read_frame_cut [OF assms] by blast
qed

theorem frame_roundtrip_witness:
  "\<exists>s. read_frame [1, 2, 1] (fst (write_frame [3, 0, 1] [7, 8]) @ [9]) = (Inr [7, 8], [9], s)"
  using frame_roundtrip [of "[7, 8]" "[3, 0, 1]" "[1, 2, 1]" "[9]"] by (simp add: write_frame_def frame_def be32_def)

subsection \<open>The server\<close>

text \<open>
  The handler of a daemon, run on the daemon's state. A request that cannot be decoded is
  answered with the response's identifier still uninitialised: \<open>junk\<close>.
\<close>

type_synonym 's handler = "'s \<Rightarrow> string \<Rightarrow> cmap \<Rightarrow> string \<Rightarrow> 's \<times> cmap res"

definition serve_one ::
  "cbor_lib \<Rightarrow> (exn \<Rightarrow> string) \<Rightarrow> u64 \<Rightarrow> 's handler \<Rightarrow> 's \<Rightarrow> bytes \<Rightarrow> 's \<times> response" where
  "serve_one C W junk h s payload =
     (case decode_request C payload of
        Inl e \<Rightarrow> (s, \<lparr>rs_id = junk, rs_ok = False, rs_result = [], rs_code = 500, rs_message = what W e\<rparr>)
      | Inr req \<Rightarrow>
          (case h s (rq_method req) (rq_params req) (rq_caller req) of
             (s', Inl e) \<Rightarrow> (s', \<lparr>rs_id = rq_id req, rs_ok = False, rs_result = [], rs_code = 500,
                                rs_message = what W e\<rparr>)
           | (s', Inr m) \<Rightarrow> (s', \<lparr>rs_id = rq_id req, rs_ok = True, rs_result = m, rs_code = 0,
                                rs_message = []\<rparr>)))"

text \<open>
  How a connection ends: the peer closed it, or \<^verbatim>\<open>read_frame\<close> threw outside every handler, which
  terminates the process (\<^verbatim>\<open>std::terminate\<close> in the connection's thread).
\<close>

datatype conn_end = Conn_Closed | Process_Terminated exn

function conn_loop ::
  "cbor_lib \<Rightarrow> (exn \<Rightarrow> string) \<Rightarrow> u64 \<Rightarrow> 's handler \<Rightarrow> nat list \<Rightarrow> 's \<Rightarrow> bytes \<Rightarrow> bytes list \<Rightarrow>
     's \<times> bytes list \<times> conn_end" where
  "conn_loop C W junk h sched s st out =
     (case read_frame sched st of
        (Inl e, _, _) \<Rightarrow> (s, out, Process_Terminated e)
      | (Inr payload, st', sched') \<Rightarrow>
          if payload = [] then (s, out, Conn_Closed)
          else case serve_one C W junk h s payload of
                 (s', resp) \<Rightarrow>
                   conn_loop C W junk h sched' s' st' (out @ [fst (write_frame [] (encode_response C resp))]))"
  by auto
termination
  by (relation "measure (\<lambda>(C, W, junk, h, sched, s, st, out). length st)")
     (auto dest!: read_frame_shorter [OF sym])

declare conn_loop.simps [simp del]

text \<open>Requests handled one after the other.\<close>

primrec serve_all ::
  "cbor_lib \<Rightarrow> (exn \<Rightarrow> string) \<Rightarrow> u64 \<Rightarrow> 's handler \<Rightarrow> 's \<Rightarrow> bytes list \<Rightarrow> 's \<times> bytes list" where
  "serve_all C W junk h s [] = (s, [])"
| "serve_all C W junk h s (p # ps) =
     (case serve_one C W junk h s p of
        (s', resp) \<Rightarrow> (case serve_all C W junk h s' ps of
          (s'', out) \<Rightarrow> (s'', fst (write_frame [] (encode_response C resp)) # out)))"

definition wf_payload :: "bytes \<Rightarrow> bool" where
  "wf_payload p \<longleftrightarrow> p \<noteq> [] \<and> length p \<le> 64 * 1024 * 1024"

lemma conn_loop_frames:
  assumes "list_all wf_payload ps"
  shows "\<exists>sched'. conn_loop C W junk h sched s (concat (map frame ps) @ rest) out =
    conn_loop C W junk h sched' (fst (serve_all C W junk h s ps)) rest (out @ snd (serve_all C W junk h s ps))"
  using assms
proof (induction ps arbitrary: s out sched)
  case Nil
  then show ?case by auto
next
  case (Cons p ps)
  from Cons.prems obtain sc where
    "read_frame sched (frame p @ (concat (map frame ps) @ rest)) = (Inr p, concat (map frame ps) @ rest, sc)"
    using read_frame_spec [of p sched "concat (map frame ps) @ rest"] by (auto simp: wf_payload_def)
  moreover obtain s' resp where "serve_one C W junk h s p = (s', resp)"
    by (cases "serve_one C W junk h s p")
  ultimately have "conn_loop C W junk h sched s (concat (map frame (p # ps)) @ rest) out =
      conn_loop C W junk h sc s' (concat (map frame ps) @ rest) (out @ [frame (encode_response C resp)])"
    using Cons.prems by (subst conn_loop.simps) (simp add: wf_payload_def)
  with Cons.IH [of sc s' "out @ [frame (encode_response C resp)]"] Cons.prems
    \<open>serve_one C W junk h s p = (s', resp)\<close>
  show ?case
    by (auto split: prod.split)
qed

text \<open>
  A connection on which a client sends any number of frames and then closes is served
  completely: one response per request, in order, the handler run on the state the previous
  request left, and the connection closed; a frame whose length field is zero or above 64 MiB
  ends the whole process after the requests before it.
\<close>

theorem server_serves_in_order:
  assumes "list_all wf_payload ps"
  shows "conn_loop C W junk h sched s (concat (map frame ps)) [] =
      (fst (serve_all C W junk h s ps), snd (serve_all C W junk h s ps), Conn_Closed) \<and>
    (len = 0 \<or> unat len > 64 * 1024 * 1024 \<longrightarrow>
      conn_loop C W junk h sched s (concat (map frame ps) @ be32 len @ rest) [] =
        (fst (serve_all C W junk h s ps), snd (serve_all C W junk h s ps),
         Process_Terminated (Runtime_Error (''read_frame: invalid length '' @ show_nat (unat len)))))"
proof (intro conjI impI)
  show "conn_loop C W junk h sched s (concat (map frame ps)) [] =
      (fst (serve_all C W junk h s ps), snd (serve_all C W junk h s ps), Conn_Closed)"
    using conn_loop_frames [OF assms, of C W junk h sched s "[]" "[]"]
    by (auto simp: conn_loop.simps [where st = "[]"] read_frame_def read_exact_eof)
  assume bad: "len = 0 \<or> unat len > 64 * 1024 * 1024"
  have stop: "conn_loop C W junk h sc s0 (be32 len @ rest) o0 = (s0, o0,
      Process_Terminated (Runtime_Error (''read_frame: invalid length '' @ show_nat (unat len))))" for sc s0 o0
  proof -
    obtain sc' where sc': "read_exact sc 4 [] (be32 len @ rest) = Some (be32 len, rest, sc')"
      by (rule read_exact_ok [of 4 "be32 len @ rest" sc "[]"]) simp_all
    have "rd32 (be32 len ! 0) (be32 len ! 1) (be32 len ! 2) (be32 len ! 3) = len"
      by (simp add: be32_def rd32_be32 [unfolded One_nat_def])
    with sc' bad have "read_frame sc (be32 len @ rest) =
        (Inl (Runtime_Error (''read_frame: invalid length '' @ show_nat (unat len))), rest, sc')"
      by (auto simp: read_frame_def Let_def simp del: One_nat_def)
    then show ?thesis
      by (subst conn_loop.simps) simp
  qed
  show "conn_loop C W junk h sched s (concat (map frame ps) @ be32 len @ rest) [] =
        (fst (serve_all C W junk h s ps), snd (serve_all C W junk h s ps),
         Process_Terminated (Runtime_Error (''read_frame: invalid length '' @ show_nat (unat len))))"
    using conn_loop_frames [OF assms, of C W junk h sched s "be32 len @ rest" "[]"]
    unfolding stop by simp
qed

theorem server_serves_in_order_witness:
  "conn_loop wire_cbor (\<lambda>_. []) 0 (\<lambda>s m p c. (Suc s, Inr [])) [] 0 (concat (map frame [[1], [2]]) @ be32 0) [] =
     (fst (serve_all wire_cbor (\<lambda>_. []) 0 (\<lambda>s m p c. (Suc s, Inr [])) 0 [[1], [2]]),
      snd (serve_all wire_cbor (\<lambda>_. []) 0 (\<lambda>s m p c. (Suc s, Inr [])) 0 [[1], [2]]),
      Process_Terminated (Runtime_Error (''read_frame: invalid length '' @ show_nat 0)))"
  using server_serves_in_order [of "[[1], [2]]" wire_cbor "\<lambda>_. []" 0 "\<lambda>s m p c. (Suc s, Inr [])" "[]" 0 0 "[]"]
  by (simp add: wf_payload_def)

subsection \<open>The client\<close>

text \<open>
  The client's counter and the identifiers of the calls that wait for their response
  (\<^verbatim>\<open>pending_\<close>, one promise each).
\<close>

record ipc_client =
  next_id :: u64
  pending :: "u64 list"

definition client_new :: ipc_client where
  "client_new = \<lparr>next_id = 1, pending = []\<rparr>"

text \<open>The first half of \<^verbatim>\<open>call\<close>: register the promise and write the request.\<close>

definition call_begin ::
  "cbor_lib \<Rightarrow> ipc_client \<Rightarrow> string \<Rightarrow> cmap \<Rightarrow> string \<Rightarrow> ipc_client \<times> u64 \<times> bytes" where
  "call_begin C c method params caller =
     (let i = next_id c
      in (c\<lparr>next_id := i + 1, pending := List.insert i (pending c)\<rparr>, i,
          fst (write_frame [] (encode_request C
            \<lparr>rq_id = i, rq_caller = caller, rq_method = method, rq_params = params\<rparr>))))"

text \<open>The second half: the response arrived, or the wait timed out.\<close>

definition call_end :: "response \<Rightarrow> cmap res" where
  "call_end resp =
     (if rs_ok resp then Inr (rs_result resp)
      else Inl (Runtime_Error (''IPC error '' @ show_int (rs_code resp) @ '': '' @ rs_message resp)))"

definition call_timeout :: "ipc_client \<Rightarrow> u64 \<Rightarrow> string \<Rightarrow> ipc_client \<times> cmap res" where
  "call_timeout c i method =
     (c\<lparr>pending := removeAll i (pending c)\<rparr>, Inl (Runtime_Error (''IPC call timed out: '' @ method)))"

datatype client_event = Completed u64 response | Pushed push_msg | Ignored

text \<open>
  One round of \<^verbatim>\<open>recv_loop\<close> on a payload. The response is decoded outside every handler, so the
  sum's left side is the end of the process.
\<close>

definition client_recv :: "cbor_lib \<Rightarrow> ipc_client \<Rightarrow> bytes \<Rightarrow> (ipc_client \<times> client_event) res" where
  "client_recv C c payload =
     (case detect C payload of
        MT_Response \<Rightarrow>
          rbind (decode_response C payload) (\<lambda>resp.
            if rs_id resp \<in> set (pending c)
            then Inr (c\<lparr>pending := removeAll (rs_id resp) (pending c)\<rparr>, Completed (rs_id resp) resp)
            else Inr (c, Ignored))
      | MT_Push \<Rightarrow>
          (case decode_push C payload of Inr p \<Rightarrow> Inr (c, Pushed p) | Inl _ \<Rightarrow> Inr (c, Ignored))
      | _ \<Rightarrow> Inr (c, Ignored))"

text \<open>
  C15. A remote call is a local call of the handler: the request the client writes reaches the
  handler with method, caller and parameters in normal form, and the frame the server writes
  back completes exactly the call it belongs to, with the handler's result in normal form or
  with an error that quotes the handler's exception.
\<close>

theorem rpc_end_to_end:
  assumes "cbor_ok C"
    and "call_begin C c method params caller = (c', i, req)"
    and "wf_request \<lparr>rq_id = i, rq_caller = caller, rq_method = method, rq_params = params\<rparr>"
    and "length (encode_request C \<lparr>rq_id = i, rq_caller = caller, rq_method = method, rq_params = params\<rparr>) \<le> 64 * 1024 * 1024"
    and "h s (c_str method) (norm_map params) (c_str caller) = (s', r)"
    and "case r of Inr m \<Rightarrow> wf_val 62 (VMap m) | Inl e \<Rightarrow> wf_text (what W e)"
  shows "\<exists>resp. conn_loop C W junk h sched s req [] = (s', [frame (encode_response C resp)], Conn_Closed) \<and>
    client_recv C c' (encode_response C resp) =
      Inr (c'\<lparr>pending := removeAll i (pending c')\<rparr>, Completed i (norm_response resp)) \<and>
    call_end (norm_response resp) =
      (case r of Inr m \<Rightarrow> Inr (norm_map m)
       | Inl e \<Rightarrow> Inl (Runtime_Error (''IPC error 500: '' @ c_str (what W e))))"
proof -
  let ?rq = "\<lparr>rq_id = i, rq_caller = caller, rq_method = method, rq_params = params\<rparr>"
  let ?p = "encode_request C ?rq"
  define resp where "resp = (case r of
      Inr m \<Rightarrow> \<lparr>rs_id = i, rs_ok = True, rs_result = m, rs_code = 0, rs_message = []\<rparr>
    | Inl e \<Rightarrow> \<lparr>rs_id = i, rs_ok = False, rs_result = [], rs_code = 500, rs_message = what W e\<rparr>)"
  have c: "i \<in> set (pending c')" "req = frame ?p"
    using assms(2) by (auto simp: call_begin_def Let_def)
  have dec: "decode_request C ?p = Inr (norm_request ?rq)" and ne: "?p \<noteq> []"
    using request_codec [OF assms(1,3)] by simp_all
  have one: "serve_one C W junk h s ?p = (s', resp)"
    using assms(5) by (cases r) (simp_all add: serve_one_def dec norm_request_def resp_def)
  have loop: "conn_loop C W junk h sched s req [] = (s', [frame (encode_response C resp)], Conn_Closed)"
    using conn_loop_frames [of "[?p]" C W junk h sched s "[]" "[]"] ne assms(4) one
    by (auto simp: wf_payload_def c conn_loop.simps [where st = "[]"] read_frame_def read_exact_eof)
  have wf: "wf_response resp"
    using assms(6) by (cases r) (simp_all add: resp_def wf_response_def wf_text_def ascii_def)
  have nid: "rs_id (norm_response resp) = i"
    by (cases r) (simp_all add: resp_def norm_response_def)
  have recv: "client_recv C c' (encode_response C resp) =
      Inr (c'\<lparr>pending := removeAll i (pending c')\<rparr>, Completed i (norm_response resp))"
    using response_codec [OF assms(1) wf] c(1) nid by (simp add: client_recv_def)
  have code: "show_int 500 = ''500''"
    by code_simp
  have "call_end (norm_response resp) =
      (case r of Inr m \<Rightarrow> Inr (norm_map m)
       | Inl e \<Rightarrow> Inl (Runtime_Error (''IPC error 500: '' @ c_str (what W e))))"
    by (cases r) (simp_all add: call_end_def resp_def norm_response_def code)
  with loop recv show ?thesis
    by blast
qed

theorem rpc_end_to_end_witness:
  "\<exists>resp. conn_loop wire_cbor (\<lambda>_. []) 0 (\<lambda>s m p c. (Suc s, Inl (Runtime_Error m))) [] (0 :: nat)
      (snd (snd (call_begin wire_cbor client_new ''ping'' [] ''cli''))) [] =
      (1, [frame (encode_response wire_cbor resp)], Conn_Closed) \<and>
    call_end (norm_response resp) = Inl (Runtime_Error ''IPC error 500: ping'')"
proof -
  have ck: "ascii ''cli''" "ascii ''ping''" "c_str ''ping'' = ''ping''"
    by (simp_all add: key_simps c_str_def)
  have wf: "wf_request \<lparr>rq_id = 1, rq_caller = ''cli'', rq_method = ''ping'', rq_params = []\<rparr>"
    using ck by (simp add: wf_request_def wf_text_def)
  have len: "length (encode_request wire_cbor \<lparr>rq_id = 1, rq_caller = ''cli'', rq_method = ''ping'', rq_params = []\<rparr>)
      \<le> 64 * 1024 * 1024"
    by (simp add: encode_request_def map_to_item_def serialize_or_empty_def definite_map_take Let_def)
       (simp add: wire_cbor_def build_string_def build_uint64_def c_str_def head_def int_head_def)
  show ?thesis
    using rpc_end_to_end [OF wire_cbor_ok _ wf len, of client_new "client_new\<lparr>next_id := 2, pending := [1]\<rparr>"
        "frame (encode_request wire_cbor \<lparr>rq_id = 1, rq_caller = ''cli'', rq_method = ''ping'', rq_params = []\<rparr>)"
        "\<lambda>s m p c. (Suc s, Inl (Runtime_Error m))" 0 1 "Inl (Runtime_Error ''ping'')" "\<lambda>_. []" 0 "[]"] ck
    by (auto simp: call_begin_def client_new_def Let_def what_def wf_text_def norm_map_def)
qed

end
