(* ===== verification/Std_String.thy ===== *)
theory Std_String
  imports Prelude
begin

text \<open>
  The string-to-number conversions of the standard library the program uses (\<^verbatim>\<open>std::stoi\<close> and
  its relatives, defined through \<^verbatim>\<open>strtol\<close>): leading white space, an optional sign, an optional
  \<^verbatim>\<open>0x\<close> in base 16, then as many digits as there are. Trailing characters are ignored, no digit
  at all is \<open>Invalid_Argument\<close>, a value outside the type's range \<open>Out_Of_Range\<close>.
\<close>

definition is_space :: "char \<Rightarrow> bool" where
  "is_space c \<longleftrightarrow> (let n = (of_char c :: nat) in n = 32 \<or> (9 \<le> n \<and> n \<le> 13))"

definition digit_val :: "char \<Rightarrow> nat option" where
  "digit_val c = (let n = (of_char c :: nat) in
     if 48 \<le> n \<and> n \<le> 57 then Some (n - 48)
     else if 97 \<le> n \<and> n \<le> 122 then Some (n - 87)
     else if 65 \<le> n \<and> n \<le> 90 then Some (n - 55)
     else None)"

definition is_digit :: "nat \<Rightarrow> char \<Rightarrow> bool" where
  "is_digit b c \<longleftrightarrow> (case digit_val c of Some d \<Rightarrow> d < b | None \<Rightarrow> False)"

definition digits_value :: "nat \<Rightarrow> string \<Rightarrow> nat" where
  "digits_value b ds = foldl (\<lambda>a c. a * b + the (digit_val c)) 0 ds"

text \<open>Sign and remaining characters.\<close>

fun strip_sign :: "string \<Rightarrow> bool \<times> string" where
  "strip_sign [] = (False, [])"
| "strip_sign (c # s) = (if c = CHR ''-'' then (True, s) else if c = CHR ''+'' then (False, s) else (False, c # s))"

fun strip_0x :: "string \<Rightarrow> string" where
  "strip_0x (a # x # d # s) =
     (if a = CHR ''0'' \<and> (x = CHR ''x'' \<or> x = CHR ''X'') \<and> is_digit 16 d then d # s else a # x # d # s)"
| "strip_0x s = s"

definition parse_integer :: "nat \<Rightarrow> int \<Rightarrow> int \<Rightarrow> string \<Rightarrow> int res" where
  "parse_integer b lo hi s =
     (case strip_sign (dropWhile is_space s) of
        (neg, s1) \<Rightarrow>
          let ds = takeWhile (is_digit b) (if b = 16 then strip_0x s1 else s1);
              v = (if neg then - int (digits_value b ds) else int (digits_value b ds))
          in if ds = [] then Inl Invalid_Argument
             else if v < lo \<or> hi < v then Inl Out_Of_Range
             else Inr v)"

definition stoi16 :: "string \<Rightarrow> int res" where
  "stoi16 s = parse_integer 16 (- (2 ^ 31)) (2 ^ 31 - 1) s"

text \<open>\<^verbatim>\<open>std::stoi\<close>, \<^verbatim>\<open>std::stoll\<close> and \<^verbatim>\<open>std::stoul\<close> in base 10; the last one accepts a sign and wraps.\<close>

definition stoi :: "string \<Rightarrow> int res" where
  "stoi s = parse_integer 10 (- (2 ^ 31)) (2 ^ 31 - 1) s"

definition stoll :: "string \<Rightarrow> int res" where
  "stoll s = parse_integer 10 (- (2 ^ 63)) (2 ^ 63 - 1) s"

definition stoul :: "string \<Rightarrow> u64 res" where
  "stoul s = rbind (parse_integer 10 (- (2 ^ 64 - 1)) (2 ^ 64 - 1) s) (\<lambda>v. Inr (word_of_int v))"

text \<open>
  \<^verbatim>\<open>id[i] = static_cast<uint8_t>(std::stoi(h.substr(i * 2, 2), nullptr, 16))\<close> for
  \<open>i = 0, ..., n - 1\<close>.
\<close>

primrec hex_bytes :: "nat \<Rightarrow> string \<Rightarrow> bytes res" where
  "hex_bytes 0 h = Inr []"
| "hex_bytes (Suc n) h =
     rbind (stoi16 (take 2 h)) (\<lambda>v. rbind (hex_bytes n (drop 2 h)) (\<lambda>bs. Inr (word_of_int v # bs)))"

subsection \<open>Printing and parsing hexadecimal bytes\<close>

lemma of_char_hexdig: "n < 16 \<Longrightarrow> (of_char (hexdig n) :: nat) = (if n < 10 then 48 + n else 87 + n)"
  by (simp add: hexdig_def of_char_of)

lemma digit_val_hexdig: "n < 16 \<Longrightarrow> digit_val (hexdig n) = Some n"
  by (simp add: digit_val_def of_char_hexdig Let_def)

lemma hexdig_plain:
  assumes "n < 16"
  shows "\<not> is_space (hexdig n)" "hexdig n \<noteq> CHR ''-''" "hexdig n \<noteq> CHR ''+''" "is_digit 16 (hexdig n)"
proof -
  have code: "(of_char (hexdig n) :: nat) = (if n < 10 then 48 + n else 87 + n)"
    by (rule of_char_hexdig [OF assms])
  then show "\<not> is_space (hexdig n)"
    by (simp add: is_space_def Let_def)
  have "(of_char (hexdig n) :: nat) \<noteq> of_char (CHR ''-'')" "(of_char (hexdig n) :: nat) \<noteq> of_char (CHR ''+'')"
    using code by simp_all
  then show "hexdig n \<noteq> CHR ''-''" "hexdig n \<noteq> CHR ''+''"
    by auto
  show "is_digit 16 (hexdig n)"
    using assms by (simp add: is_digit_def digit_val_hexdig)
qed

lemma stoi16_hex_byte: "stoi16 (hex_byte b) = Inr (int (unat b))"
proof -
  have "unat b < 2 ^ LENGTH(8)"
    by (rule unsigned_less)
  then have lt: "unat b < 256"
    by simp
  let ?h = "unat b div 16" and ?l = "unat b mod 16"
  have d: "?h < 16" "?l < 16"
    using lt by (simp_all add: less_mult_imp_div_less)
  have v: "?h * 16 + ?l = unat b"
    by simp
  have "parse_integer 16 lo hi (hex_byte b) = (if int (unat b) < lo \<or> hi < int (unat b) then Inl Out_Of_Range else Inr (int (unat b)))" for lo hi
    using hexdig_plain [OF d(1)] hexdig_plain [OF d(2)] digit_val_hexdig [OF d(1)] digit_val_hexdig [OF d(2)] v
    by (simp add: parse_integer_def hex_byte_def digits_value_def Let_def)
  moreover have "\<not> (int (unat b) < - (2 ^ 31) \<or> 2 ^ 31 - 1 < int (unat b))"
  proof -
    have "\<not> (int n < - (2 ^ 31) \<or> 2 ^ 31 - 1 < int n)" if "n < 256" for n
      using that by simp
    then show ?thesis
      using lt by blast
  qed
  ultimately show ?thesis
    unfolding stoi16_def by (simp only: if_False)
qed

lemma hex_bytes_to_hex: "hex_bytes (length bs) (to_hex bs @ rest) = Inr bs"
proof (induction bs)
  case (Cons b bs)
  have "take 2 (to_hex (b # bs) @ rest) = hex_byte b" "drop 2 (to_hex (b # bs) @ rest) = to_hex bs @ rest"
    by simp_all
  with Cons show ?case
    by (simp add: stoi16_hex_byte)
qed simp

subsection \<open>Printing and parsing decimal numbers\<close>

lemma digit_val_decimal: "(n :: nat) < 10 \<Longrightarrow> digit_val (char_of (48 + n)) = Some n"
  by (simp add: digit_val_def of_char_of Let_def)

lemma is_digit_decimal: "(n :: nat) < 10 \<Longrightarrow> is_digit 10 (char_of (48 + n))"
  by (simp add: is_digit_def digit_val_decimal)

lemma show_nat_nonempty [simp]: "show_nat n \<noteq> []"
  by (subst show_nat.simps) simp

lemma show_nat_digits: "c \<in> set (show_nat n) \<Longrightarrow> is_digit 10 c"
proof (induction n rule: show_nat.induct)
  case (1 n)
  then show ?case
    by (subst (asm) (2) show_nat.simps) (auto simp: is_digit_decimal split: if_splits)
qed

lemma digits_value_snoc: "digits_value b (ds @ [c]) = digits_value b ds * b + the (digit_val c)"
  by (simp add: digits_value_def)

lemma digits_value_show_nat: "digits_value 10 (show_nat n) = n"
proof (induction n rule: show_nat.induct)
  case (1 n)
  show ?case
  proof (cases "n < 10")
    case True
    then have "show_nat n = [char_of (48 + n)]"
      by (subst show_nat.simps) simp
    then show ?thesis
      using True by (simp add: digits_value_def digit_val_decimal)
  next
    case False
    then have "show_nat n = show_nat (n div 10) @ [char_of (48 + n mod 10)]"
      by (subst show_nat.simps) simp
    then show ?thesis
      using 1 [OF False] by (simp only: digits_value_snoc) (simp add: digit_val_decimal)
  qed
qed

lemma parse_integer_show_nat:
  assumes "rest = [] \<or> \<not> is_digit 10 (hd rest)"
  shows "parse_integer 10 lo hi (show_nat n @ rest) =
    (if int n < lo \<or> hi < int n then Inl Out_Of_Range else Inr (int n))"
proof -
  obtain c ds where c: "show_nat n = c # ds"
    by (cases "show_nat n") (use show_nat_nonempty in blast)+
  then have "48 \<le> (of_char c :: nat)" "(of_char c :: nat) \<le> 57"
    using show_nat_ascii [of c n] by (simp_all)
  then have "\<not> is_space c" "(of_char c :: nat) \<noteq> of_char (CHR ''-'')" "(of_char c :: nat) \<noteq> of_char (CHR ''+'')"
    by (auto simp: is_space_def Let_def)
  then have "\<not> is_space c" "c \<noteq> CHR ''-''" "c \<noteq> CHR ''+''"
    by auto
  then have "strip_sign (dropWhile is_space (show_nat n @ rest)) = (False, show_nat n @ rest)"
    by (simp add: c)
  moreover have "takeWhile (is_digit 10) (show_nat n @ rest) = show_nat n"
    using assms show_nat_digits by (subst takeWhile_append2) (auto simp: takeWhile_eq_Nil_iff)
  ultimately show ?thesis
    by (simp add: parse_integer_def digits_value_show_nat Let_def)
qed

lemma stoi_show_nat:
  assumes "n < 2 ^ 31" "rest = [] \<or> \<not> is_digit 10 (hd rest)"
  shows "stoi (show_nat n @ rest) = Inr (int n)"
proof -
  have "\<not> (int n < - (2 ^ 31) \<or> 2 ^ 31 - 1 < int n)"
    using assms(1) by simp
  then show ?thesis
    unfolding stoi_def parse_integer_show_nat [OF assms(2)] by (simp only: if_False)
qed

end
