(* ===== verification/Router.thy ===== *)
theory Router
  imports Channel Dht Ipc Std_String
begin

text \<open>
  The AnonRouter daemon (\<^verbatim>\<open>anonrouter/src/router.cpp\<close>, \<^verbatim>\<open>ipc_handler.cpp\<close>): its state is the
  guard table, the tit-for-tat engine, the tunnels, the DHT records and the channels; its
  inputs are datagrams, IPC requests and the ticks of the periodic loops. A handler returns the
  new state, what it sends (datagrams) and pushes (IPC events), and a result that may be an
  exception. Console output is not modelled.
\<close>

record router =
  rt_guards :: guard_table
  rt_tft :: tft_engine
  rt_tunnels :: tunnels
  rt_dht :: dht_store
  rt_chans :: channels

datatype effect = Datagram string bytes | Push_Event string cmap

text \<open>Randomness of one request: channel identifier and key, nonces of the encryptions.\<close>

record rnd =
  r_id :: bytes
  r_key :: bytes
  r_n1 :: "nat \<Rightarrow> bytes"
  r_n2 :: "nat \<Rightarrow> bytes"
  r_hs :: bytes

definition chan_id_from_hex :: "string \<Rightarrow> bytes res" where
  "chan_id_from_hex h = (if length h < 32 then Inr (zeros 16) else hex_bytes 16 h)"

definition handshake_key :: bytes where
  "handshake_key = zeros 32"

definition send_datagrams :: "datagram list \<Rightarrow> effect list" where
  "send_datagrams ds = map (\<lambda>(a, b). Datagram a b) ds"

subsection \<open>Push events\<close>

definition mode_name :: "channel_mode \<Rightarrow> string" where
  "mode_name mo = (if mo = CM_STREAM then ''stream'' else if mo = CM_DATAGRAM then ''datagram'' else ''message'')"

definition push_channel_incoming :: "channel_info \<Rightarrow> effect" where
  "push_channel_incoming ci = Push_Event ''channel.incoming'' (cmap_of
     [(''channel_id'', VString (to_hex (ci_channel_id ci))),
      (''remote_pubkey'', VString (ci_remote_pubkey_hex ci)),
      (''anon_level'', VUint (ucast (anon_level_byte (ci_anon_level ci)))),
      (''mode'', VString (mode_name (ci_mode ci))),
      (''peer_addr'', VString (ci_peer_addr ci))])"

definition push_frame_recv :: "bytes \<Rightarrow> bytes \<Rightarrow> effect" where
  "push_frame_recv cid fr = Push_Event ''frame.recv'' (cmap_of
     [(''channel_id'', VString (to_hex cid)), (''payload'', VBytes fr)])"

text \<open>The state callback the constructor installs.\<close>

definition state_cb :: "channels \<Rightarrow> state_event list \<Rightarrow> effect list" where
  "state_cb chs evs = concat (map (\<lambda>(cid, s).
     if s = CS_OPENING
     then (case chan_get chs cid of Some ci \<Rightarrow> [push_channel_incoming ci] | None \<Rightarrow> [])
     else []) evs)"

subsection \<open>Handshake cells\<close>

definition handshake_cell ::
  "crypto_lib \<Rightarrow> cbor_lib \<Rightarrow> bytes \<Rightarrow> cell_type \<Rightarrow> cbor \<Rightarrow> string \<Rightarrow> datagram list res" where
  "handshake_cell K C hs ct item peer_addr =
     (case cbor_serialize C item of
        None \<Rightarrow> Inr []
      | Some buf \<Rightarrow>
          if length buf > CELL_PLAINTEXT_SIZE then Inr []
          else rbind (cell_build K hs
                   (default_header\<lparr>ch_type := ct, garlic_len := of_nat (length buf)\<rparr>) handshake_key buf)
                 (\<lambda>cell. Inr [(peer_addr, cell)]))"

definition send_chan_open ::
  "crypto_lib \<Rightarrow> cbor_lib \<Rightarrow> bytes \<Rightarrow> bytes \<Rightarrow> anon_level \<Rightarrow> channel_mode \<Rightarrow> string \<Rightarrow> datagram list res" where
  "send_chan_open K C hs cid al mo peer_addr =
     handshake_cell K C hs CT_CHAN_OPEN
       (definite_map C 3
          [(build_string ''channel_id'', CBytes cid),
           (build_string ''anon_level'', build_uint64 (ucast (anon_level_byte al))),
           (build_string ''mode'', build_uint64 (ucast (channel_mode_byte mo)))]) peer_addr"

definition send_chan_accept ::
  "crypto_lib \<Rightarrow> cbor_lib \<Rightarrow> bytes \<Rightarrow> bytes \<Rightarrow> bytes \<Rightarrow> string \<Rightarrow> datagram list res" where
  "send_chan_accept K C hs cid key peer_addr =
     handshake_cell K C hs CT_CHAN_ACCEPT
       (definite_map C 2
          [(build_string ''channel_id'', CBytes cid), (build_string ''channel_key'', CBytes key)]) peer_addr"

text \<open>Fields of a received CHAN\_OPEN: identifier, level, mode.\<close>

definition chan_open_cell_field ::
  "cbor_lib \<Rightarrow> bytes \<times> anon_level \<times> channel_mode \<Rightarrow> cbor \<times> cbor \<Rightarrow> bytes \<times> anon_level \<times> channel_mode" where
  "chan_open_cell_field C r kv =
     (let k = text_of C (fst kv); v = snd kv in
      case r of (cid, al, mo) \<Rightarrow>
      if k = ''channel_id'' \<and> isa_bytestring v \<and> length (bytes_of C v) = 16 then (bytes_of C v, al, mo)
      else if k = ''anon_level'' \<and> isa_uint v then (cid, anon_level_of (ucast (safe_get_uint C v)), mo)
      else if k = ''mode'' \<and> isa_uint v then (cid, al, channel_mode_of (ucast (safe_get_uint C v)))
      else r)"

definition on_chan_open_cell ::
  "crypto_lib \<Rightarrow> cbor_lib \<Rightarrow> router \<Rightarrow> string \<Rightarrow> bytes \<Rightarrow> router \<times> effect list" where
  "on_chan_open_cell K C r peer_addr cell =
     (case cell_decode K cell handshake_key of
        Inl _ \<Rightarrow> (r, [])
      | Inr dc \<Rightarrow>
          (case cbor_load C (take (unat (garlic_len (header dc))) (garlic_data dc)) of
             Some (CMap ps) \<Rightarrow>
               (case foldl (chan_open_cell_field C) (zeros 16, AL_DIRECT, CM_MESSAGE) ps of
                  (cid, al, mo) \<Rightarrow>
                    (case chan_register_incoming (rt_chans r) cid peer_addr al mo of
                       (chs, evs) \<Rightarrow> (r\<lparr>rt_chans := chs\<rparr>, state_cb chs evs)))
           | _ \<Rightarrow> (r, [])))"

text \<open>Does a received CHAN\_ACCEPT carry a key (\<^verbatim>\<open>got_key\<close>)?\<close>

definition has_channel_key :: "cbor_lib \<Rightarrow> (cbor \<times> cbor) list \<Rightarrow> bool" where
  "has_channel_key C ps \<longleftrightarrow> list_ex (\<lambda>(k, v). text_of C k = ''channel_key'' \<and> isa_bytestring v \<and>
     length (bytes_of C v) = 32) ps"

definition on_chan_accept_cell :: "crypto_lib \<Rightarrow> cbor_lib \<Rightarrow> router \<Rightarrow> bytes \<Rightarrow> router" where
  "on_chan_accept_cell K C r cell =
     (case cell_decode K cell handshake_key of
        Inl _ \<Rightarrow> r
      | Inr dc \<Rightarrow>
          let payload = take (unat (garlic_len (header dc))) (garlic_data dc)
          in case cbor_load C payload of
               Some (CMap ps) \<Rightarrow>
                 if has_channel_key C ps then r\<lparr>rt_chans := on_chan_accept C (rt_chans r) payload\<rparr> else r
             | _ \<Rightarrow> r)"

subsection \<open>Datagrams\<close>

definition relay_cell :: "router \<Rightarrow> bytes \<Rightarrow> router \<times> effect list" where
  "relay_cell r cell =
     (let tok = cell_session_tok cell
      in case guard_lookup (rt_guards r) tok of
           None \<Rightarrow> (r, [])
         | Some e \<Rightarrow>
             (r\<lparr>rt_guards := guard_add_forwarded (rt_guards r) tok (int CELL_SIZE),
                rt_tft := (if ge_recruiter_node_id e \<noteq> []
                           then record_forwarded_for (rt_tft r) (ge_recruiter_node_id e) (int CELL_SIZE)
                           else rt_tft r)\<rparr>,
              [Datagram (ge_forward_addr e) cell]))"

text \<open>\<open>Inl\<close> is an exception that leaves the handler, in the receiving thread of the transport.\<close>

definition on_datagram ::
  "crypto_lib \<Rightarrow> cbor_lib \<Rightarrow> router \<Rightarrow> string \<Rightarrow> bytes \<Rightarrow> router \<times> effect list \<times> unit res" where
  "on_datagram K C r peer_addr data =
     (if length data \<noteq> CELL_SIZE then (r, [], Inr ())
      else
        let cell = data; ct = cell_type_of (cell ! 1) in
        if ct = CT_CHAN_OPEN
        then (case on_chan_open_cell K C r peer_addr cell of (r', es) \<Rightarrow> (r', es, Inr ()))
        else if ct = CT_CHAN_ACCEPT then (on_chan_accept_cell K C r cell, [], Inr ())
        else case guard_lookup (rt_guards r) (cell_session_tok cell) of
               Some _ \<Rightarrow> (case relay_cell r cell of (r', es) \<Rightarrow> (r', es, Inr ()))
             | None \<Rightarrow>
                 on_inbound_cell cell (\<lambda>_ c.
                   case chan_on_cell K C (rt_chans r) c of
                     Inl e \<Rightarrow> (r, [], Inl e)
                   | Inr frs \<Rightarrow> (r, map (\<lambda>(cid, fr). push_frame_recv cid fr) frs, Inr ())))"

subsection \<open>IPC requests\<close>

definition get_string :: "cmap \<Rightarrow> string \<Rightarrow> string res" where
  "get_string p key =
     (case map_of p key of
        None \<Rightarrow> Inl (Runtime_Error (''missing param: '' @ key))
      | Some (VString s) \<Rightarrow> Inr s
      | Some _ \<Rightarrow> Inl (Runtime_Error (''param not string: '' @ key)))"

definition get_bytes :: "cmap \<Rightarrow> string \<Rightarrow> bytes res" where
  "get_bytes p key =
     (case map_of p key of
        None \<Rightarrow> Inl (Runtime_Error (''missing param: '' @ key))
      | Some (VBytes b) \<Rightarrow> Inr b
      | Some _ \<Rightarrow> Inl (Runtime_Error (''param not bytes: '' @ key)))"

definition get_uint :: "cmap \<Rightarrow> string \<Rightarrow> u64 \<Rightarrow> u64" where
  "get_uint p key def = (case map_of p key of Some (VUint u) \<Rightarrow> u | _ \<Rightarrow> def)"

definition string_or :: "cmap \<Rightarrow> string \<Rightarrow> string \<Rightarrow> string" where
  "string_or p key def = (case map_of p key of Some (VString s) \<Rightarrow> s | _ \<Rightarrow> def)"

definition from_hex :: "string \<Rightarrow> bytes res" where
  "from_hex h = (if length h \<noteq> 32 then Inl (Runtime_Error ''channel_id hex must be 32 chars'')
     else hex_bytes 16 h)"

definition clamp_anon :: "u64 \<Rightarrow> anon_level" where
  "clamp_anon raw = anon_level_of (if raw > 2 then 2 else ucast raw)"

definition parse_mode :: "string \<Rightarrow> channel_mode" where
  "parse_mode s = (if s = ''stream'' then CM_STREAM else if s = ''datagram'' then CM_DATAGRAM else CM_MESSAGE)"

definition channel_open :: "router \<Rightarrow> rnd \<Rightarrow> cmap \<Rightarrow> router \<times> cmap res" where
  "channel_open r rn p =
     (case get_string p ''remote_pubkey'' of
        Inl e \<Rightarrow> (r, Inl e)
      | Inr pk \<Rightarrow>
          (case chan_open (rt_chans r) (r_id rn) (r_key rn) pk (clamp_anon (get_uint p ''anon_level'' 2))
                  (parse_mode (string_or p ''mode'' ''message'')) (string_or p ''peer_addr'' []) of
             (chs, cid) \<Rightarrow>
               (r\<lparr>rt_chans := chs\<rparr>,
                Inr (cmap_of [(''channel_id'', VString (to_hex cid)), (''ok'', VBool True)]))))"

text \<open>A request that first reads the channel identifier.\<close>

definition with_channel_id :: "router \<Rightarrow> cmap \<Rightarrow> (bytes \<Rightarrow> router \<times> 'e list \<times> cmap res) \<Rightarrow> router \<times> 'e list \<times> cmap res" where
  "with_channel_id r p f =
     (case rbind (get_string p ''channel_id'') from_hex of
        Inl e \<Rightarrow> (r, [], Inl e)
      | Inr cid \<Rightarrow> f cid)"

definition id_ok :: "bytes \<Rightarrow> string \<Rightarrow> bool \<Rightarrow> cmap" where
  "id_ok cid key b = cmap_of [(''channel_id'', VString (to_hex cid)), (key, VBool b)]"

definition channel_accept :: "router \<Rightarrow> rnd \<Rightarrow> cmap \<Rightarrow> router \<times> effect list \<times> cmap res" where
  "channel_accept r rn p = with_channel_id r p (\<lambda>cid.
     case chan_accept (rt_chans r) cid (r_key rn) of
       (chs, k) \<Rightarrow> (r\<lparr>rt_chans := chs\<rparr>, [], Inr (id_ok cid ''ok'' (k \<noteq> None))))"

definition channel_reject :: "router \<Rightarrow> cmap \<Rightarrow> router \<times> effect list \<times> cmap res" where
  "channel_reject r p = with_channel_id r p (\<lambda>cid.
     case chan_reject (rt_chans r) cid of
       (chs, evs) \<Rightarrow> (r\<lparr>rt_chans := chs\<rparr>, state_cb chs evs, Inr (id_ok cid ''ok'' True)))"

definition channel_upgrade :: "router \<Rightarrow> cmap \<Rightarrow> router \<times> effect list \<times> cmap res" where
  "channel_upgrade r p = with_channel_id r p (\<lambda>cid.
     case rbind (get_string p ''mode'') (\<lambda>mode_s. rbind (get_bytes p ''csk'') (\<lambda>csk.
            if length csk \<noteq> 32 then Inl (Runtime_Error ''csk must be 32 bytes'') else Inr (mode_s, csk))) of
       Inl e \<Rightarrow> (r, [], Inl e)
     | Inr (mode_s, csk) \<Rightarrow>
         (case chan_upgrade (rt_chans r) cid (if mode_s = ''stream'' then CM_STREAM else CM_MESSAGE) csk of
            (chs, ok) \<Rightarrow> (r\<lparr>rt_chans := chs\<rparr>, [], Inr (id_ok cid ''ok'' ok))))"

definition channel_close :: "router \<Rightarrow> cmap \<Rightarrow> router \<times> effect list \<times> cmap res" where
  "channel_close r p = with_channel_id r p (\<lambda>cid.
     case chan_close (rt_chans r) cid of
       (chs, evs) \<Rightarrow> (r\<lparr>rt_chans := chs\<rparr>, state_cb chs evs, Inr (id_ok cid ''closed'' True)))"

fun state_name :: "channel_state \<Rightarrow> string" where
  "state_name CS_OPENING = ''opening''"
| "state_name CS_OPEN = ''open''"
| "state_name CS_UPGRADING = ''upgrading''"
| "state_name CS_CLOSED = ''closed''"

fun list_mode_name :: "channel_mode \<Rightarrow> string" where
  "list_mode_name CM_DATAGRAM = ''datagram''"
| "list_mode_name CM_MESSAGE = ''message''"
| "list_mode_name CM_STREAM = ''stream''"
| "list_mode_name (CM_Other b) = []"

definition channel_list :: "router \<Rightarrow> cmap" where
  "channel_list r = cmap_of [(''channels'', VArray (map (\<lambda>ci. VMap (cmap_of
     [(''channel_id'', VString (to_hex (ci_channel_id ci))),
      (''remote_pubkey'', VString (ci_remote_pubkey_hex ci)),
      (''state'', VString (state_name (ci_state ci))),
      (''mode'', VString (list_mode_name (ci_mode ci)))])) (chan_list (rt_chans r))))]"

text \<open>\<open>channels_.send\<close> on the router's state; \<open>i\<close> selects the nonces.\<close>

definition router_send ::
  "crypto_lib \<Rightarrow> cbor_lib \<Rightarrow> router \<Rightarrow> rnd \<Rightarrow> nat \<Rightarrow> bytes \<Rightarrow> bytes \<Rightarrow> router \<times> effect list \<times> bool res" where
  "router_send K C r rn i cid payload =
     (case chan_send K C (rt_tunnels r) (r_n1 rn i) (r_n2 rn i) (rt_chans r) (rt_tft r) cid payload of
        (chs, t, out, ok) \<Rightarrow> (r\<lparr>rt_chans := chs, rt_tft := t\<rparr>, send_datagrams out, ok))"

definition frame_send :: "crypto_lib \<Rightarrow> cbor_lib \<Rightarrow> router \<Rightarrow> rnd \<Rightarrow> cmap \<Rightarrow> router \<times> effect list \<times> cmap res" where
  "frame_send K C r rn p = with_channel_id r p (\<lambda>cid.
     case get_bytes p ''payload'' of
       Inl e \<Rightarrow> (r, [], Inl e)
     | Inr payload \<Rightarrow>
         (case router_send K C r rn 0 cid payload of
            (r', es, Inl e) \<Rightarrow> (r', es, Inl e)
          | (r', es, Inr ok) \<Rightarrow> (r', es, Inr (id_ok cid ''sent'' ok))))"

primrec send_batch_loop ::
  "crypto_lib \<Rightarrow> cbor_lib \<Rightarrow> rnd \<Rightarrow> bytes \<Rightarrow> router \<Rightarrow> nat \<Rightarrow> effect list \<Rightarrow> u32 \<Rightarrow> cval list \<Rightarrow>
     router \<times> effect list \<times> u32 res" where
  "send_batch_loop K C rn cid r i es sent [] = (r, es, Inr sent)"
| "send_batch_loop K C rn cid r i es sent (v # vs) =
     (case v of
        VBytes pl \<Rightarrow>
          (case router_send K C r rn i cid pl of
             (r', es', Inl e) \<Rightarrow> (r', es @ es', Inl e)
           | (r', es', Inr ok) \<Rightarrow>
               send_batch_loop K C rn cid r' (Suc i) (es @ es') (if ok then sent + 1 else sent) vs)
      | _ \<Rightarrow> send_batch_loop K C rn cid r i es sent vs)"

definition frame_send_batch ::
  "crypto_lib \<Rightarrow> cbor_lib \<Rightarrow> router \<Rightarrow> rnd \<Rightarrow> cmap \<Rightarrow> router \<times> effect list \<times> cmap res" where
  "frame_send_batch K C r rn p = with_channel_id r p (\<lambda>cid.
     case map_of p ''frames'' of
       Some (VArray arr) \<Rightarrow>
         (case send_batch_loop K C rn cid r 0 [] 0 arr of
            (r', es, Inl e) \<Rightarrow> (r', es, Inl e)
          | (r', es, Inr sent) \<Rightarrow> (r', es, Inr (cmap_of
              [(''channel_id'', VString (to_hex cid)), (''sent_count'', VUint (ucast sent))])))
     | _ \<Rightarrow> (r, [], Inl (Runtime_Error ''frames param must be an array'')))"

definition ipc_dht_lookup :: "router \<Rightarrow> cmap \<Rightarrow> cmap res" where
  "ipc_dht_lookup r p =
     rbind (get_bytes p ''dht_key'') (\<lambda>k.
       if length k \<noteq> 32 then Inl (Runtime_Error ''dht_key must be 32 bytes'')
       else case dht_lookup_sync (rt_dht r) k of
              None \<Rightarrow> Inr (cmap_of [(''found'', VBool False)])
            | Some v \<Rightarrow> Inr (cmap_of [(''found'', VBool True), (''value'', VBytes v)]))"

definition ipc_dht_publish :: "router \<Rightarrow> cmap \<Rightarrow> router \<times> cmap res" where
  "ipc_dht_publish r p =
     (case rbind (get_bytes p ''dht_key'') (\<lambda>k. rbind (get_bytes p ''value'') (\<lambda>v.
             if length k \<noteq> 32 then Inl (Runtime_Error ''dht_key must be 32 bytes'') else Inr (k, v))) of
        Inl e \<Rightarrow> (r, Inl e)
      | Inr (k, v) \<Rightarrow> (r\<lparr>rt_dht := dht_publish (rt_dht r) k v\<rparr>,
                       Inr (cmap_of [(''dht_key'', VString (to_hex k))])))"

definition tft_status :: "router \<Rightarrow> cmap" where
  "tft_status r =
     (let s = tft_state_of (rt_tft r)
      in cmap_of
        [(''known_peers'', VUint (of_nat (known_peers_count s))),
         (''unchoked_peer_count'', VUint (of_nat (unchoked_count s))),
         (''opt_unchoked_peer'', VString (opt_unchoked_peer s)),
         (''round_number'', VUint (u64_of_int64 (ts_round_number s))),
         (''top_peers'', VArray (map (\<lambda>(pid, cred). VMap (cmap_of
            [(''peer_id'', VString pid), (''credits'', VInt cred)])) (top_peers s)))])"

definition ipc_handle ::
  "crypto_lib \<Rightarrow> cbor_lib \<Rightarrow> router \<Rightarrow> rnd \<Rightarrow> string \<Rightarrow> cmap \<Rightarrow> router \<times> effect list \<times> cmap res" where
  "ipc_handle K C r rn method p =
     (if method = ''channel.open'' then (case channel_open r rn p of (r', res) \<Rightarrow> (r', [], res))
      else if method = ''channel.accept'' then channel_accept r rn p
      else if method = ''channel.reject'' then channel_reject r p
      else if method = ''channel.upgrade'' then channel_upgrade r p
      else if method = ''channel.close'' then channel_close r p
      else if method = ''channel.list'' then (r, [], Inr (channel_list r))
      else if method = ''frame.send'' then frame_send K C r rn p
      else if method = ''frame.send_batch'' then frame_send_batch K C r rn p
      else if method = ''dht.lookup'' then (r, [], ipc_dht_lookup r p)
      else if method = ''dht.publish'' then (case ipc_dht_publish r p of (r', res) \<Rightarrow> (r', [], res))
      else if method = ''tft.status'' then (r, [], Inr (tft_status r))
      else (r, [], Inl (Runtime_Error (''unknown method: '' @ method))))"

text \<open>The router intercepts \<^verbatim>\<open>channel.open\<close> and \<^verbatim>\<open>channel.accept\<close> to drive the handshake.\<close>

definition dispatch_open ::
  "crypto_lib \<Rightarrow> cbor_lib \<Rightarrow> router \<Rightarrow> rnd \<Rightarrow> cmap \<Rightarrow> router \<times> effect list \<times> cmap res" where
  "dispatch_open K C r rn p =
     (case ipc_handle K C r rn ''channel.open'' p of
        (r', es, Inl e) \<Rightarrow> (r', es, Inl e)
      | (r', es, Inr result) \<Rightarrow>
          (case (map_of p ''peer_addr'', map_of result ''channel_id'') of
             (Some (VString peer_addr), Some (VString hex)) \<Rightarrow>
               (case rbind (chan_id_from_hex hex) (\<lambda>cid.
                       send_chan_open K C (r_hs rn) cid (clamp_anon (get_uint p ''anon_level'' 0))
                         (parse_mode (string_or p ''mode'' ''message'')) peer_addr) of
                  Inl e \<Rightarrow> (r', es, Inl e)
                | Inr ds \<Rightarrow> (r', es @ send_datagrams ds, Inr result))
           | _ \<Rightarrow> (r', es, Inr result)))"

definition dispatch_accept ::
  "crypto_lib \<Rightarrow> cbor_lib \<Rightarrow> router \<Rightarrow> rnd \<Rightarrow> cmap \<Rightarrow> router \<times> effect list \<times> cmap res" where
  "dispatch_accept K C r rn p =
     (case map_of p ''channel_id'' of
        Some (VString h) \<Rightarrow>
          (case chan_id_from_hex h of
             Inl e \<Rightarrow> (r, [], Inl e)
           | Inr cid \<Rightarrow>
               (case chan_accept (rt_chans r) cid (r_key rn) of
                  (chs, k) \<Rightarrow>
                    let r' = r\<lparr>rt_chans := chs\<rparr>;
                        key = (case k of Some x \<Rightarrow> x | None \<Rightarrow> zeros 32);
                        sent = (case chan_get chs cid of
                                  Some ci \<Rightarrow> if ci_peer_addr ci \<noteq> []
                                              then send_chan_accept K C (r_hs rn) cid key (ci_peer_addr ci)
                                              else Inr []
                                | None \<Rightarrow> Inr [])
                    in case sent of
                         Inl e \<Rightarrow> (r', [], Inl e)
                       | Inr ds \<Rightarrow> (r', send_datagrams ds, Inr (id_ok cid ''ok'' (k \<noteq> None)))))
      | _ \<Rightarrow> ipc_handle K C r rn ''channel.accept'' p)"

definition dispatch_ipc ::
  "crypto_lib \<Rightarrow> cbor_lib \<Rightarrow> router \<Rightarrow> rnd \<Rightarrow> string \<Rightarrow> cmap \<Rightarrow> string \<Rightarrow> router \<times> effect list \<times> cmap res" where
  "dispatch_ipc K C r rn method p caller =
     (if method = ''channel.open'' then dispatch_open K C r rn p
      else if method = ''channel.accept'' then dispatch_accept K C r rn p
      else ipc_handle K C r rn method p)"

subsection \<open>Start-up and the periodic loops\<close>

text \<open>One bootstrap address; an exception of the handshake is caught and logged.\<close>

definition bootstrap_one :: "crypto_lib \<Rightarrow> cbor_lib \<Rightarrow> router \<Rightarrow> rnd \<Rightarrow> string \<Rightarrow> router \<times> effect list" where
  "bootstrap_one K C r rn addr =
     (case chan_open (rt_chans r) (r_id rn) (r_key rn) [] AL_DIRECT CM_MESSAGE addr of
        (chs, cid) \<Rightarrow>
          (r\<lparr>rt_chans := chs\<rparr>,
           case send_chan_open K C (r_hs rn) cid AL_DIRECT CM_MESSAGE addr of
             Inl _ \<Rightarrow> [] | Inr ds \<Rightarrow> send_datagrams ds))"

primrec initiate_bootstrap_connections ::
  "crypto_lib \<Rightarrow> cbor_lib \<Rightarrow> router \<Rightarrow> (string \<times> rnd) list \<Rightarrow> router \<times> effect list" where
  "initiate_bootstrap_connections K C r [] = (r, [])"
| "initiate_bootstrap_connections K C r (a # as) =
     (case bootstrap_one K C r (snd a) (fst a) of
        (r', es) \<Rightarrow> (case initiate_bootstrap_connections K C r' as of (r'', es') \<Rightarrow> (r'', es @ es')))"

text \<open>
  One round of \<^verbatim>\<open>tft_loop\<close>, with its counter; \<open>None\<close> is the division by zero of
  \<^verbatim>\<open>credit_decay_interval_s / round_seconds\<close> or of the remainder by its result.
\<close>

definition tft_tick :: "nat \<Rightarrow> nat \<Rightarrow> tft_engine \<times> nat \<Rightarrow> (tft_engine \<times> nat) option" where
  "tft_tick decay_interval_s round_seconds tc =
     (if round_seconds = 0 \<or> decay_interval_s div round_seconds = 0 then None
      else let t = run_round (fst tc); n = snd tc + 1
           in Some (if n mod (decay_interval_s div round_seconds) = 0 then decay_credits t else t, n))"

definition evict_tick :: "router \<Rightarrow> int \<Rightarrow> router" where
  "evict_tick r now = r\<lparr>rt_guards := fst (guard_evict_expired (rt_guards r) now)\<rparr>"

subsection \<open>Relaying\<close>

lemma cell_type_header: "cell_type_of (c ! 1) = ch_type (cell_read_header c)"
  by (simp add: cell_read_header_def)

text \<open>
  A cell whose token a guard entry holds is forwarded unchanged to that entry's address,
  the entry's byte count and the recruiter's credits grow by one cell, and nothing else of the
  router changes; a datagram of another size than a cell is ignored.
\<close>

theorem relay_forwards_unchanged:
  assumes "length cell = CELL_SIZE" "guard_lookup (rt_guards r) (cell_session_tok cell) = Some e"
    "ch_type (cell_read_header cell) \<noteq> CT_CHAN_OPEN" "ch_type (cell_read_header cell) \<noteq> CT_CHAN_ACCEPT"
  shows "\<exists>r'. on_datagram K C r peer cell = (r', [Datagram (ge_forward_addr e) cell], Inr ()) \<and>
    guard_lookup (rt_guards r') tok =
      (if tok = cell_session_tok cell then Some (e\<lparr>ge_bytes_fwd := ge_bytes_fwd e + 557\<rparr>)
       else guard_lookup (rt_guards r) tok) \<and>
    credits (rt_tft r') p = (if p = ge_recruiter_node_id e \<and> p \<noteq> [] then known_balance (rt_tft r) p + 557
                             else credits (rt_tft r) p) \<and>
    rt_chans r' = rt_chans r \<and> rt_tunnels r' = rt_tunnels r \<and> rt_dht r' = rt_dht r \<and>
    (length data \<noteq> CELL_SIZE \<longrightarrow> on_datagram K C r peer data = (r, [], Inr ()))"
proof -
  let ?r = "fst (relay_cell r cell)"
  have relay: "relay_cell r cell = (?r, [Datagram (ge_forward_addr e) cell])"
    using assms(2) by (simp add: relay_cell_def Let_def)
  then have "on_datagram K C r peer cell = (?r, [Datagram (ge_forward_addr e) cell], Inr ())"
    using assms by (cases "relay_cell r cell")
      (simp add: on_datagram_def Let_def cell_type_header [unfolded One_nat_def])
  moreover have "guard_lookup (rt_guards ?r) tok =
      (if tok = cell_session_tok cell then Some (e\<lparr>ge_bytes_fwd := ge_bytes_fwd e + 557\<rparr>)
       else guard_lookup (rt_guards r) tok)"
    using assms(2) by (simp add: relay_cell_def guard_add_forwarded_def guard_lookup_def table_simps
        CELL_SIZE_def Let_def)
  moreover have "credits (rt_tft ?r) p =
      (if p = ge_recruiter_node_id e \<and> p \<noteq> [] then known_balance (rt_tft r) p + 557 else credits (rt_tft r) p)"
    using assms(2) by (simp add: relay_cell_def credits_def record_forwarded_for_def table_simps
        CELL_SIZE_def Let_def)
  moreover have "rt_chans ?r = rt_chans r" "rt_tunnels ?r = rt_tunnels r" "rt_dht ?r = rt_dht r"
    using assms(2) by (simp_all add: relay_cell_def Let_def)
  moreover have "length data \<noteq> CELL_SIZE \<longrightarrow> on_datagram K C r peer data = (r, [], Inr ())"
    by (simp add: on_datagram_def)
  ultimately show ?thesis
    by blast
qed

definition demo_router :: router where
  "demo_router = \<lparr>rt_guards = fst (guard_add (guard_new 5)
       (default_guard_entry\<lparr>ge_forward_addr := ''10.0.0.3:9000'', ge_recruiter_node_id := ''peer''\<rparr>)),
     rt_tft = tft_new default_tft_config, rt_tunnels = [], rt_dht = [], rt_chans = []\<rparr>"

theorem relay_forwards_unchanged_witness:
  "\<exists>r'. on_datagram demo_crypto wire_cbor demo_router ''x'' (zeros 557) =
      (r', [Datagram ''10.0.0.3:9000'' (zeros 557)], Inr ()) \<and> credits (rt_tft r') ''peer'' = 557 - 10485760"
proof -
  let ?e = "default_guard_entry\<lparr>ge_forward_addr := ''10.0.0.3:9000'', ge_recruiter_node_id := ''peer''\<rparr>"
  have "cell_session_tok (zeros 557) = zeros 32"
    by (simp add: cell_session_tok_def slice_def)
  then have look: "guard_lookup (rt_guards demo_router) (cell_session_tok (zeros 557)) = Some ?e"
    by (simp add: demo_router_def guard_add_def guard_new_def guard_lookup_def default_guard_entry_def)
  have ty: "ch_type (cell_read_header (zeros 557)) = CT_Other 0"
    by (simp add: cell_read_header_def cell_type_of_def zeros_def)
  have "known_balance (rt_tft demo_router) ''peer'' = - 10485760"
    by (simp add: known_balance_def demo_router_def tft_new_def default_tft_config_def)
  then show ?thesis
    using relay_forwards_unchanged [OF _ look, of demo_crypto wire_cbor "''x''" "[]" "''peer''" "[]"] ty
    by (auto simp: CELL_SIZE_def)
qed

text \<open>
  A cell that carries the token of an open direct channel but does not authenticate makes
  the exception of \<^verbatim>\<open>cell_decode\<close> leave the datagram handler: nothing between the socket and the
  cipher catches it.
\<close>

theorem forged_cell_escapes:
  assumes "length cell = CELL_SIZE" "direct_end (rt_chans r) cid key ci"
    "session_tok (cell_read_header cell) = cid @ zeros 16"
    "ch_type (cell_read_header cell) = CT_DATA"
    "guard_lookup (rt_guards r) (cid @ zeros 16) = None"
    "aead_decrypt K key (cell_nonce (cid @ zeros 16) (seq_num (cell_read_header cell)))
       (take CELL_HEADER_SIZE cell) (slice CELL_HEADER_SIZE CELL_PLAINTEXT_SIZE cell)
       (slice (CELL_HEADER_SIZE + CELL_PLAINTEXT_SIZE) CELL_TAG_SIZE cell) = None"
  shows "on_datagram K C r peer cell =
    (r, [], Inl (Runtime_Error ''cell_decode: AES-GCM authentication failed''))"
proof -
  have tok: "cell_session_tok cell = cid @ zeros 16"
    using assms(3) by (simp add: cell_session_tok_header)
  obtain k where "find (\<lambda>(k, c). chan_matches (cid @ zeros 16) c) (rt_chans r) = Some (k, ci)"
    by (rule direct_end_find [OF assms(2)])
  moreover have "ci_channel_key ci = key"
    using assms(2) by (simp add: direct_end_def)
  moreover have "cell_decode K cell key = Inl (Runtime_Error ''cell_decode: AES-GCM authentication failed'')"
    using assms(3,6) by (simp add: cell_decode_def Let_def)
  ultimately have "chan_on_cell K C (rt_chans r) cell =
      Inl (Runtime_Error ''cell_decode: AES-GCM authentication failed'')"
    by (simp add: chan_on_cell_def tok Let_def)
  then show ?thesis
    using assms(1,4,5) tok
    by (simp add: on_datagram_def on_inbound_cell_def Let_def cell_type_header [unfolded One_nat_def])
qed

definition forged_cell :: bytes where
  "forged_cell = (zeros 557)[1 := 1, 556 := 1]"

theorem forged_cell_escapes_witness:
  "on_datagram demo_crypto wire_cbor (demo_router\<lparr>rt_chans := demo_chans, rt_guards := guard_new 0\<rparr>) ''x'' forged_cell =
    (demo_router\<lparr>rt_chans := demo_chans, rt_guards := guard_new 0\<rparr>, [],
     Inl (Runtime_Error ''cell_decode: AES-GCM authentication failed''))"
proof (rule forged_cell_escapes [of _ _ "zeros 16" "zeros 32" demo_chan])
  show "length forged_cell = CELL_SIZE"
    by (simp add: forged_cell_def CELL_SIZE_def)
  have z: "zeros 16 @ zeros 16 = zeros 32"
    by (simp add: zeros_def replicate_add [symmetric])
  show "session_tok (cell_read_header forged_cell) = zeros 16 @ zeros 16"
    by (simp add: z cell_read_header_def forged_cell_def) (simp add: slice_def)
  show "ch_type (cell_read_header forged_cell) = CT_DATA"
    by (simp add: cell_read_header_def forged_cell_def cell_type_of_def)
  have "slice 541 16 forged_cell ! 0 \<noteq> slice 541 16 forged_cell ! 15"
    by (simp add: slice_def forged_cell_def zeros_def)
  moreover have "demo_tag k n ad p ! 0 = demo_tag k n ad p ! 15" for k n ad p
    by (simp add: demo_tag_def fold_bytes_def)
  ultimately have "slice 541 16 forged_cell \<noteq> demo_tag k n ad p" for k n ad p
    by metis
  then show "aead_decrypt demo_crypto (zeros 32)
      (cell_nonce (zeros 16 @ zeros 16) (seq_num (cell_read_header forged_cell)))
      (take CELL_HEADER_SIZE forged_cell) (slice CELL_HEADER_SIZE CELL_PLAINTEXT_SIZE forged_cell)
      (slice (CELL_HEADER_SIZE + CELL_PLAINTEXT_SIZE) CELL_TAG_SIZE forged_cell) = None"
    by (simp add: demo_crypto_def cell_sizes)
qed (simp_all add: guard_lookup_def guard_new_def)

end
