(* ===== verification/Handshake.thy ===== *)
theory Handshake
  imports Router
begin

text \<open>
  Two routers and the datagrams between them: the exchange of CHAN\_OPEN and CHAN\_ACCEPT that
  opens a direct channel, and a frame sent over it.
\<close>

definition net_libs_ok :: "crypto_lib \<Rightarrow> cbor_lib \<Rightarrow> bool" where
  "net_libs_ok K C \<longleftrightarrow> aead_ok K \<and> cbor_ok C \<and> cbor_compact C"

subsection \<open>Handshake cells arrive\<close>

lemma length_handshake_key [simp]: "length handshake_key = 32"
  by (simp add: handshake_key_def)

lemma handshake_cell_arrives:
  assumes L: "net_libs_ok K C" and hs: "length hs = 12"
    and item: "plain (CMap ps) 64" "cbor_size (CMap ps) \<le> 496" and ct: "cell_type_of (cell_type_byte ct) = ct"
  obtains cell where "handshake_cell K C hs ct (CMap ps) addr = Inr [(addr, cell)]"
    "length cell = CELL_SIZE" "cell_type_of (cell ! 1) = ct"
    "\<exists>dc. cell_decode K cell handshake_key = Inr dc \<and>
       cbor_load C (take (unat (garlic_len (header dc))) (garlic_data dc)) = Some (CMap ps)"
proof -
  have K: "aead_ok K" and C: "cbor_ok C" "cbor_compact C"
    using L by (simp_all add: net_libs_ok_def)
  obtain bs where bs: "cbor_serialize C (CMap ps) = Some bs" "cbor_load C bs = Some (CMap ps)"
    using cbor_ok_print [OF C(1) item(1)] by metis
  have len: "length bs \<le> 496"
    using C(2) bs(1) item(2) unfolding cbor_compact_def by (meson order.trans)
  let ?h = "default_header\<lparr>ch_type := ct, garlic_len := of_nat (length bs)\<rparr>"
  have n: "unat (of_nat (length bs) :: u16) = length bs"
    using len by (simp add: unat_of_nat)
  have wf: "wf_header ?h"
    using ct by (simp add: wf_header_def default_header_def)
  have fit: "length bs \<le> CELL_PLAINTEXT_SIZE"
    using len by (simp add: CELL_PLAINTEXT_SIZE_def)
  obtain cell where cell: "cell_build K hs ?h handshake_key bs = Inr cell" "length cell = 557"
      "cell_read_header cell = ?h" "cell_decode K cell handshake_key = Inr \<lparr>header = ?h, garlic_data = bs\<rparr>"
    using cell_decode_built [OF K length_handshake_key hs wf fit] n fit by auto
  show ?thesis
  proof (rule that)
    show "handshake_cell K C hs ct (CMap ps) addr = Inr [(addr, cell)]"
      using bs(1) cell(1) fit by (simp add: handshake_cell_def)
    show "length cell = CELL_SIZE"
      using cell(2) by (simp add: CELL_SIZE_def)
    show "cell_type_of (cell ! 1) = ct"
      using cell(3) by (simp add: cell_type_header [unfolded One_nat_def])
    show "\<exists>dc. cell_decode K cell handshake_key = Inr dc \<and>
        cbor_load C (take (unat (garlic_len (header dc))) (garlic_data dc)) = Some (CMap ps)"
      using cell(4) n bs(2) by simp
  qed
qed

subsection \<open>A fresh channel identifier\<close>

definition fresh_in :: "channels \<Rightarrow> bytes \<Rightarrow> bool" where
  "fresh_in chs cid \<longleftrightarrow> (\<forall>(k, c)\<in>set chs. k \<noteq> to_hex cid \<and> \<not> chan_matches (cid @ zeros 16) c)"

lemma map_of_fresh: "fresh_in chs cid \<Longrightarrow> map_of chs (to_hex cid) = None"
  by (fastforce simp: fresh_in_def map_of_eq_None_iff)

lemma update_fresh: "fresh_in chs cid \<Longrightarrow> AList.update (to_hex cid) v chs = chs @ [(to_hex cid, v)]"
  by (induction chs) (auto simp: fresh_in_def)

lemma update_snoc:
  "fresh_in chs cid \<Longrightarrow> AList.update (to_hex cid) v (chs @ [(to_hex cid, w)]) = chs @ [(to_hex cid, v)]"
  by (induction chs) (auto simp: fresh_in_def)

lemma get_snoc [simp]: "fresh_in chs cid \<Longrightarrow> chan_get (chs @ [(to_hex cid, ci)]) cid = Some ci"
  by (simp add: chan_get_def map_of_fresh map_add_def)

lemma upd_snoc [simp]:
  "fresh_in chs cid \<Longrightarrow> chan_upd (chs @ [(to_hex cid, ci)]) cid f = chs @ [(to_hex cid, f ci)]"
  by (simp add: chan_upd_def map_of_fresh map_add_def update_snoc)

lemma put_fresh:
  "fresh_in chs (ci_channel_id ci) \<Longrightarrow> chan_put chs ci = chs @ [(to_hex (ci_channel_id ci), ci)]"
  by (simp add: chan_put_def update_fresh)

lemma direct_end_snoc:
  assumes "fresh_in chs cid" "ci_channel_id ci = cid" "ci_state ci = CS_OPEN" "ci_anon_level ci = AL_DIRECT"
    "ci_channel_key ci = key" "ci_my_inbound_guard ci = None" "ci_peer_addr ci \<noteq> []" "length cid = 16" "length key = 32"
  shows "direct_end (chs @ [(to_hex cid, ci)]) cid key ci"
  using assms by (auto simp: direct_end_def) (auto simp: fresh_in_def)

subsection \<open>The exchange\<close>

text \<open>A request to open a direct channel to \<open>addr\<close>.\<close>

definition open_direct :: "cmap \<Rightarrow> string \<Rightarrow> bool" where
  "open_direct p addr \<longleftrightarrow> (\<exists>pk. map_of p ''remote_pubkey'' = Some (VString pk)) \<and>
     map_of p ''peer_addr'' = Some (VString addr) \<and> map_of p ''anon_level'' = Some (VUint 0)"

definition opened :: "bytes \<Rightarrow> bytes \<Rightarrow> cmap \<Rightarrow> string \<Rightarrow> channel_info" where
  "opened cid key p addr = default_channel_info\<lparr>ci_channel_id := cid,
     ci_remote_pubkey_hex := string_or p ''remote_pubkey'' [], ci_anon_level := AL_DIRECT,
     ci_mode := parse_mode (string_or p ''mode'' ''message''), ci_state := CS_OPENING, ci_peer_addr := addr,
     ci_channel_key := key\<rparr>"

definition incoming :: "bytes \<Rightarrow> cmap \<Rightarrow> string \<Rightarrow> channel_info" where
  "incoming cid p addr = default_channel_info\<lparr>ci_channel_id := cid, ci_peer_addr := addr,
     ci_anon_level := AL_DIRECT, ci_mode := parse_mode (string_or p ''mode'' ''message''), ci_state := CS_OPENING\<rparr>"

lemma map_of_id_result: "map_of (cmap_of [(''channel_id'', VString h), (''ok'', VBool b)]) ''channel_id'' = Some (VString h)"
  by (simp add: cmap_of_def)

lemma chan_id_of_hex: "length cid = 16 \<Longrightarrow> chan_id_from_hex (to_hex cid) = Inr cid"
  using hex_bytes_to_hex [of cid "[]"] by (simp add: chan_id_from_hex_def)

lemma parse_mode_byte: "channel_mode_of (channel_mode_byte (parse_mode s)) = parse_mode s"
  by (simp add: parse_mode_def channel_mode_of_def)

definition open_fields :: "bytes \<Rightarrow> channel_mode \<Rightarrow> (cbor \<times> cbor) list" where
  "open_fields cid mo = [(build_string ''channel_id'', CBytes cid), (build_string ''anon_level'', build_uint64 0),
     (build_string ''mode'', build_uint64 (ucast (channel_mode_byte mo)))]"

lemma open_fields_small:
  assumes "length cid = 16"
  shows "plain (CMap (open_fields cid mo)) 64" "cbor_size (CMap (open_fields cid mo)) \<le> 496"
  using assms by (simp add: open_fields_def c_str_def ascii_def)
    (use assms in \<open>simp add: open_fields_def build_string_def c_str_def build_uint64_def\<close>)

lemma open_fields_read:
  assumes "cbor_ok C" "length cid = 16"
  shows "foldl (chan_open_cell_field C) (zeros 16, AL_DIRECT, CM_MESSAGE) (open_fields cid (parse_mode s)) =
    (cid, AL_DIRECT, parse_mode s)"
proof -
  have "c_str ''channel_id'' = ''channel_id''" "c_str ''anon_level'' = ''anon_level''" "c_str ''mode'' = ''mode''"
    by (simp_all add: c_str_def)
  then show ?thesis
    using assms by (simp add: open_fields_def chan_open_cell_field_def parse_mode_byte anon_level_of_def)
qed

text \<open>\<^verbatim>\<open>channel.open\<close> at \<open>ra\<close> and the arrival of its cell at \<open>rb\<close>.\<close>

lemma open_arrives:
  assumes L: "net_libs_ok K C" and hs: "length (r_hs rn) = 12" and cid: "length (r_id rn) = 16"
    and fresh: "fresh_in (rt_chans ra) (r_id rn)" "fresh_in (rt_chans rb) (r_id rn)" and p: "open_direct p addrB"
  obtains cell where
    "dispatch_ipc K C ra rn ''channel.open'' p caller =
       (ra\<lparr>rt_chans := rt_chans ra @ [(to_hex (r_id rn), opened (r_id rn) (r_key rn) p addrB)]\<rparr>,
        [Datagram addrB cell], Inr (cmap_of [(''channel_id'', VString (to_hex (r_id rn))), (''ok'', VBool True)]))"
    "on_datagram K C rb addrA cell =
       (rb\<lparr>rt_chans := rt_chans rb @ [(to_hex (r_id rn), incoming (r_id rn) p addrA)]\<rparr>,
        [push_channel_incoming (incoming (r_id rn) p addrA)], Inr ())"
    "length cell = CELL_SIZE"
proof -
  let ?id = "r_id rn" and ?mo = "parse_mode (string_or p ''mode'' ''message'')"
  have C: "cbor_ok C"
    using L by (simp add: net_libs_ok_def)
  obtain cell where cell: "handshake_cell K C (r_hs rn) CT_CHAN_OPEN (CMap (open_fields ?id ?mo)) addrB = Inr [(addrB, cell)]"
      "length cell = CELL_SIZE" "cell_type_of (cell ! 1) = CT_CHAN_OPEN"
      "\<exists>dc. cell_decode K cell handshake_key = Inr dc \<and>
         cbor_load C (take (unat (garlic_len (header dc))) (garlic_data dc)) = Some (CMap (open_fields ?id ?mo))"
    by (rule handshake_cell_arrives [OF L hs open_fields_small [OF cid], of CT_CHAN_OPEN])
       (simp_all add: cell_type_of_def)
  obtain pk where pk: "map_of p ''remote_pubkey'' = Some (VString pk)" "map_of p ''peer_addr'' = Some (VString addrB)"
      "map_of p ''anon_level'' = Some (VUint 0)"
    using p by (auto simp: open_direct_def)
  have al: "clamp_anon 0 = AL_DIRECT"
    by (simp add: clamp_anon_def anon_level_of_def)
  have send: "send_chan_open K C (r_hs rn) ?id AL_DIRECT ?mo addrB = Inr [(addrB, cell)]"
    using cell(1) by (simp add: send_chan_open_def definite_map_take [OF C] open_fields_def)
  have chan: "chan_open (rt_chans ra) ?id (r_key rn) pk AL_DIRECT ?mo addrB =
      (rt_chans ra @ [(to_hex ?id, opened ?id (r_key rn) p addrB)], ?id)"
    using fresh(1) pk(1) by (simp add: chan_open_def put_fresh opened_def string_or_def)
  have "dispatch_ipc K C ra rn ''channel.open'' p caller =
       (ra\<lparr>rt_chans := rt_chans ra @ [(to_hex ?id, opened ?id (r_key rn) p addrB)]\<rparr>,
        [Datagram addrB cell], Inr (cmap_of [(''channel_id'', VString (to_hex ?id)), (''ok'', VBool True)]))"
    using pk al send chan chan_id_of_hex [OF cid]
    by (simp add: dispatch_ipc_def dispatch_open_def ipc_handle_def channel_open_def get_string_def get_uint_def
        string_or_def map_of_id_result send_datagrams_def)
  moreover have "on_datagram K C rb addrA cell =
       (rb\<lparr>rt_chans := rt_chans rb @ [(to_hex ?id, incoming ?id p addrA)]\<rparr>,
        [push_channel_incoming (incoming ?id p addrA)], Inr ())"
    using cell fresh(2) open_fields_read [OF C cid]
    by (auto simp: on_datagram_def on_chan_open_cell_def chan_register_incoming_def put_fresh incoming_def state_cb_def)
  ultimately show ?thesis
    using cell(2) by (rule that)
qed

definition accept_fields :: "bytes \<Rightarrow> bytes \<Rightarrow> (cbor \<times> cbor) list" where
  "accept_fields cid key = [(build_string ''channel_id'', CBytes cid), (build_string ''channel_key'', CBytes key)]"

lemma accept_fields_small:
  assumes "length cid = 16" "length key = 32"
  shows "plain (CMap (accept_fields cid key)) 64" "cbor_size (CMap (accept_fields cid key)) \<le> 496"
  using assms by (simp add: accept_fields_def c_str_def ascii_def)
    (use assms in \<open>simp add: accept_fields_def build_string_def c_str_def\<close>)

lemma accept_fields_read:
  assumes "cbor_ok C" "length cid = 16" "length key = 32"
  shows "foldl (chan_accept_field C) (zeros 16, zeros 32) (accept_fields cid key) = (cid, key)"
    "has_channel_key C (accept_fields cid key)"
proof -
  have "c_str ''channel_id'' = ''channel_id''" "c_str ''channel_key'' = ''channel_key''"
    by (simp_all add: c_str_def)
  then show "foldl (chan_accept_field C) (zeros 16, zeros 32) (accept_fields cid key) = (cid, key)"
      "has_channel_key C (accept_fields cid key)"
    using assms by (simp_all add: accept_fields_def chan_accept_field_def has_channel_key_def)
qed

text \<open>\<^verbatim>\<open>channel.accept\<close> at \<open>rb\<close> and the arrival of its cell at \<open>ra\<close>.\<close>

lemma accept_arrives:
  assumes L: "net_libs_ok K C" and hs: "length (r_hs rn) = 12" and cid: "length cid = 16" and key: "length (r_key rn) = 32"
    and fresh: "fresh_in A cid" "fresh_in B cid"
    and ra: "rt_chans ra = A @ [(to_hex cid, ca)]" and rb: "rt_chans rb = B @ [(to_hex cid, cb)]"
    and p: "map_of p ''channel_id'' = Some (VString (to_hex cid))" and addr: "ci_peer_addr cb = addrA" "addrA \<noteq> []"
  obtains cell where
    "dispatch_ipc K C rb rn ''channel.accept'' p caller =
       (rb\<lparr>rt_chans := B @ [(to_hex cid, cb\<lparr>ci_channel_key := r_key rn, ci_state := CS_OPEN\<rparr>)]\<rparr>,
        [Datagram addrA cell], Inr (id_ok cid ''ok'' True))"
    "on_datagram K C ra addrB cell =
       (ra\<lparr>rt_chans := A @ [(to_hex cid, ca\<lparr>ci_channel_key := r_key rn, ci_state := CS_OPEN\<rparr>)]\<rparr>, [], Inr ())"
    "length cell = CELL_SIZE"
proof -
  have C: "cbor_ok C"
    using L by (simp add: net_libs_ok_def)
  obtain cell where cell: "handshake_cell K C (r_hs rn) CT_CHAN_ACCEPT (CMap (accept_fields cid (r_key rn))) addrA = Inr [(addrA, cell)]"
      "length cell = CELL_SIZE" "cell_type_of (cell ! 1) = CT_CHAN_ACCEPT"
      "\<exists>dc. cell_decode K cell handshake_key = Inr dc \<and>
         cbor_load C (take (unat (garlic_len (header dc))) (garlic_data dc)) = Some (CMap (accept_fields cid (r_key rn)))"
    by (rule handshake_cell_arrives [OF L hs accept_fields_small [OF cid key], of CT_CHAN_ACCEPT])
       (simp_all add: cell_type_of_def)
  have "send_chan_accept K C (r_hs rn) cid (r_key rn) addrA = Inr [(addrA, cell)]"
    using cell(1) by (simp add: send_chan_accept_def definite_map_take [OF C] accept_fields_def)
  then have "dispatch_ipc K C rb rn ''channel.accept'' p caller =
       (rb\<lparr>rt_chans := B @ [(to_hex cid, cb\<lparr>ci_channel_key := r_key rn, ci_state := CS_OPEN\<rparr>)]\<rparr>,
        [Datagram addrA cell], Inr (id_ok cid ''ok'' True))"
    using p addr rb fresh(2) chan_id_of_hex [OF cid]
    by (simp add: dispatch_ipc_def dispatch_accept_def chan_accept_def send_datagrams_def Let_def)
  moreover have "on_datagram K C ra addrB cell =
       (ra\<lparr>rt_chans := A @ [(to_hex cid, ca\<lparr>ci_channel_key := r_key rn, ci_state := CS_OPEN\<rparr>)]\<rparr>, [], Inr ())"
    using cell(2-4) ra fresh(1) accept_fields_read [OF C cid key]
    by (auto simp: on_datagram_def on_chan_accept_cell_def on_chan_accept_def Let_def)
  ultimately show ?thesis
    using cell(2) by (rule that)
qed

subsection \<open>A frame over the open channel\<close>

lemma garlic_fits:
  assumes L: "net_libs_ok K C" and "length key = 32" "length n1 = 12" "length cid = 16" "length payload \<le> 380"
    "chan_garlic K C n1 key cid payload = Inr g"
  shows "length g \<le> 496"
proof -
  have C: "cbor_ok C" "cbor_compact C" "aead_ok K"
    using L by (simp_all add: net_libs_ok_def)
  obtain ae where ae: "aes_encrypt K n1 key payload [] = Inr ae" "nonce ae = n1"
      "length (tag ae) = 16" "length (ciphertext ae) = length payload"
      "aes_decrypt K key (nonce ae) (ciphertext ae) (tag ae) [] = Inr payload"
    by (rule aes_roundtrip [OF C(3) assms(2,3)])
  let ?x = "CArray [CArray [build_uint64 1, CBytes cid, CBool False, CNull, CBytes (n1 @ tag ae @ ciphertext ae)]]"
  have "g = garlic_encode C [data_clove cid (n1 @ tag ae @ ciphertext ae)]"
    using assms(6) ae by (simp add: chan_garlic_def data_clove_def)
  then have "g = serialize_or_empty C ?x"
    by (simp add: garlic_encode_def encode_clove_def data_clove_def default_clove_def serialize_or_empty_def
        definite_array_take [OF C(1)])
  then have "length g \<le> cbor_size ?x"
    using length_serialize_le [OF C(2), of ?x] by (simp only:)
  also have "\<dots> \<le> 496"
    using ae assms(3-5) by (simp add: build_uint64_def)
  finally show ?thesis .
qed

lemma from_hex_to_hex: "length cid = 16 \<Longrightarrow> from_hex (to_hex cid) = Inr cid"
  using hex_bytes_to_hex [of cid "[]"] by (simp add: from_hex_def)

lemma frame_arrives:
  assumes L: "net_libs_ok K C" and ends: "direct_end (rt_chans ra) cid key ca" "direct_end (rt_chans rb) cid key cb"
    and ns: "length (r_n1 rn 0) = 12" "length (r_n2 rn 0) = 12"
    and p: "map_of p ''channel_id'' = Some (VString (to_hex cid))" "map_of p ''payload'' = Some (VBytes payload)"
    and payload: "payload \<noteq> []" "length payload \<le> 380"
    and guard: "guard_lookup (rt_guards rb) (cid @ zeros 16) = None"
  obtains ra' cell where
    "dispatch_ipc K C ra rn ''frame.send'' p caller = (ra', [Datagram (ci_peer_addr ca) cell], Inr (id_ok cid ''sent'' True))"
    "on_datagram K C rb addr cell = (rb, [push_frame_recv cid payload], Inr ())"
    "length cell = CELL_SIZE"
proof -
  have C: "cbor_ok C" "aead_ok K"
    using L by (simp_all add: net_libs_ok_def)
  have e: "length cid = 16" "length key = 32"
    using ends(1) by (simp_all add: direct_end_def)
  have len: "length payload < 2 ^ 63"
    using payload(2) by simp
  obtain g cell where send: "chan_garlic K C (r_n1 rn 0) key cid payload = Inr g"
      "chan_send K C (rt_tunnels ra) (r_n1 rn 0) (r_n2 rn 0) (rt_chans ra) (rt_tft ra) cid payload =
         (chan_upd (rt_chans ra) cid (\<lambda>c. c\<lparr>ci_send_seq := ci_send_seq c + 1\<rparr>), rt_tft ra,
          [(ci_peer_addr ca, cell)], Inr True)"
      "length cell = CELL_SIZE"
      "cell_read_header cell = direct_header cid (ci_send_seq ca) (min (length g) 496)"
      "cell_decode K cell key = Inr \<lparr>header = direct_header cid (ci_send_seq ca) (min (length g) 496),
         garlic_data = take 496 g\<rparr>"
    by (rule chan_send_direct [OF C(2,1) ns len ends(1)])
  have "length g \<le> 496"
    by (rule garlic_fits [OF L e(2) ns(1) e(1) payload(2) send(1)])
  then have deliver: "chan_on_cell K C (rt_chans rb) cell = Inr [(cid, payload)]"
    using chan_on_cell_direct [OF C(2,1) ns(1) len ends(2) send(1,4,5)] payload(1) by simp
  let ?ra = "ra\<lparr>rt_chans := chan_upd (rt_chans ra) cid (\<lambda>c. c\<lparr>ci_send_seq := ci_send_seq c + 1\<rparr>)\<rparr>"
  have "dispatch_ipc K C ra rn ''frame.send'' p caller = (?ra, [Datagram (ci_peer_addr ca) cell], Inr (id_ok cid ''sent'' True))"
    using p send(2) from_hex_to_hex [OF e(1)]
    by (simp add: dispatch_ipc_def ipc_handle_def frame_send_def with_channel_id_def get_string_def get_bytes_def
        router_send_def send_datagrams_def)
  moreover have "on_datagram K C rb addr cell = (rb, [push_frame_recv cid payload], Inr ())"
  proof -
    have "cell_type_of (cell ! 1) = CT_DATA" "cell_session_tok cell = cid @ zeros 16"
      using send(4) by (simp_all add: cell_type_header [unfolded One_nat_def] cell_session_tok_header direct_header_def)
    with send(3) guard deliver show ?thesis
      by (simp add: on_datagram_def on_inbound_cell_def Let_def)
  qed
  ultimately show ?thesis
    using send(3) by (rule that)
qed

end
