(* ===== verification/Router_Run.thy ===== *)
theory Router_Run
  imports Handshake
begin

text \<open>
  The life of a router: from the state its constructor leaves, any interleaving of datagrams,
  IPC requests, tit-for-tat rounds, decays and evictions. The locks of the components make each
  of these one step.
\<close>

definition router_new :: "nat \<Rightarrow> tft_config \<Rightarrow> router" where
  "router_new max_guard_slots cfg = \<lparr>rt_guards = guard_new max_guard_slots, rt_tft = tft_new cfg,
     rt_tunnels = [], rt_dht = [], rt_chans = []\<rparr>"

inductive router_step :: "crypto_lib \<Rightarrow> cbor_lib \<Rightarrow> router \<Rightarrow> effect list \<Rightarrow> router \<Rightarrow> bool" for K C where
  datagram: "on_datagram K C r a d = (r', es, res) \<Longrightarrow> router_step K C r es r'"
| request: "dispatch_ipc K C r rn method p caller = (r', es, res) \<Longrightarrow> router_step K C r es r'"
| bootstrap: "initiate_bootstrap_connections K C r as = (r', es) \<Longrightarrow> router_step K C r es r'"
| tft_round: "tft_tick di rs (rt_tft r, n) = Some (t, n') \<Longrightarrow> router_step K C r [] (r\<lparr>rt_tft := t\<rparr>)"
| eviction: "router_step K C r [] (evict_tick r now)"

inductive router_reach :: "crypto_lib \<Rightarrow> cbor_lib \<Rightarrow> router \<Rightarrow> router \<Rightarrow> bool" for K C where
  start: "router_reach K C r r"
| step: "router_reach K C r r1 \<Longrightarrow> router_step K C r1 es r2 \<Longrightarrow> router_reach K C r r2"

subsection \<open>Invariants\<close>

text \<open>Channels are filed under their identifiers; none has a guard.\<close>

definition chan_inv :: "channels \<Rightarrow> bool" where
  "chan_inv chs \<longleftrightarrow> distinct (map fst chs) \<and> (\<forall>(k, ci)\<in>set chs. k = to_hex (ci_channel_id ci) \<and>
     ci_my_inbound_guard ci = None \<and> ci_remote_inbound_guard ci = None)"

lemma chan_inv_put [intro]:
  "chan_inv chs \<Longrightarrow> ci_my_inbound_guard ci = None \<Longrightarrow> ci_remote_inbound_guard ci = None \<Longrightarrow> chan_inv (chan_put chs ci)"
  using set_update_subset [of "to_hex (ci_channel_id ci)" ci chs]
  by (auto simp: chan_inv_def chan_put_def distinct_update)

lemma chan_inv_upd [intro]:
  assumes "chan_inv chs" "\<And>ci. ci_channel_id (f ci) = ci_channel_id ci"
    "\<And>ci. ci_my_inbound_guard (f ci) = ci_my_inbound_guard ci"
    "\<And>ci. ci_remote_inbound_guard (f ci) = ci_remote_inbound_guard ci"
  shows "chan_inv (chan_upd chs cid f)"
proof (cases "map_of chs (to_hex cid)")
  case (Some ci)
  then have "ci_channel_id ci = cid" "ci_my_inbound_guard ci = None" "ci_remote_inbound_guard ci = None"
    using assms(1) by (auto simp: chan_inv_def dest!: map_of_SomeD)
  with assms Some have "chan_upd chs cid f = chan_put chs (f ci)"
    by (simp add: chan_upd_def chan_put_def)
  then show ?thesis
    using assms \<open>ci_my_inbound_guard ci = None\<close> \<open>ci_remote_inbound_guard ci = None\<close> by auto
qed (use assms(1) in \<open>simp add: chan_upd_def\<close>)

lemma chan_inv_close [intro]: "chan_inv chs \<Longrightarrow> chan_inv (fst (chan_close chs cid))"
  using set_delete_subset [of "to_hex cid" chs] by (auto simp: chan_inv_def chan_close_def distinct_delete)

lemma chan_get_guard:
  "chan_inv chs \<Longrightarrow> chan_get chs cid = Some ci \<Longrightarrow> ci_my_inbound_guard ci = None \<and> ci_remote_inbound_guard ci = None"
  by (auto simp: chan_inv_def chan_get_def dest!: map_of_SomeD)

text \<open>A router that relays for nobody and whom nobody relays for.\<close>

definition router_inv :: "router \<Rightarrow> bool" where
  "router_inv r \<longleftrightarrow> gt_table (rt_guards r) = [] \<and> rt_tunnels r = [] \<and> ledger (rt_tft r) = [] \<and> chan_inv (rt_chans r)"

lemma router_inv_new: "router_inv (router_new n cfg)"
  by (simp add: router_inv_def router_new_def guard_new_def tft_new_def chan_inv_def)

lemma chan_send_inv:
  assumes "chan_inv chs" "chan_send K C ts n1 n2 chs t cid payload = (chs', t', out, res)"
  shows "chan_inv chs' \<and> t' = t"
proof -
  have "chan_inv (chan_upd chs cid (\<lambda>c. c\<lparr>ci_send_seq := ci_send_seq c + 1\<rparr>))"
    using assms(1) by (rule chan_inv_upd) simp_all
  then show ?thesis
    using assms chan_get_guard [OF assms(1)]
    by (auto simp: chan_send_def Let_def split: option.splits sum.splits if_splits)
qed

lemma router_inv_chans [intro]: "router_inv r \<Longrightarrow> chan_inv chs \<Longrightarrow> router_inv (r\<lparr>rt_chans := chs\<rparr>)"
  by (simp add: router_inv_def)

lemma router_send_inv:
  assumes "router_inv r" "router_send K C r rn i cid payload = (r', es, res)"
  shows "router_inv r'"
proof -
  obtain chs t out ok where send: "chan_send K C (rt_tunnels r) (r_n1 rn i) (r_n2 rn i) (rt_chans r) (rt_tft r) cid payload
      = (chs, t, out, ok)"
    by (cases "chan_send K C (rt_tunnels r) (r_n1 rn i) (r_n2 rn i) (rt_chans r) (rt_tft r) cid payload")
  have "chan_inv (rt_chans r)"
    using assms(1) by (simp add: router_inv_def)
  from chan_send_inv [OF this send] show ?thesis
    using assms send by (auto simp: router_send_def router_inv_def)
qed

lemma send_batch_inv:
  "router_inv r \<Longrightarrow> send_batch_loop K C rn cid r i es0 sent vs = (r', es, res) \<Longrightarrow> router_inv r'"
proof (induction vs arbitrary: r i es0 sent)
  case (Cons v vs)
  show ?case
  proof (cases "\<exists>pl. v = VBytes pl")
    case True
    then obtain pl r1 es1 ok where v: "v = VBytes pl" "router_send K C r rn i cid pl = (r1, es1, ok)"
      by (metis prod_cases3)
    have "router_inv r1"
      by (rule router_send_inv [OF Cons.prems(1) v(2)])
    with v Cons show ?thesis
      by (cases ok) auto
  next
    case False
    with Cons show ?thesis
      by (cases v) auto
  qed
qed simp

lemma chan_inv_handshake:
  assumes "chan_inv chs"
  shows "chan_inv (fst (chan_open chs i k pk al mo a))" "chan_inv (fst (chan_register_incoming chs i a al mo))"
    "chan_inv (fst (chan_accept chs i k))" "chan_inv (fst (chan_upgrade chs i mo k))"
    "chan_inv (fst (chan_reject chs i))" "chan_inv (on_chan_accept C chs payload)"
proof -
  show "chan_inv (fst (chan_open chs i k pk al mo a))" "chan_inv (fst (chan_register_incoming chs i a al mo))"
    using assms by (auto simp: chan_open_def chan_register_incoming_def default_channel_info_def)
  show "chan_inv (fst (chan_accept chs i k))" "chan_inv (fst (chan_upgrade chs i mo k))"
    using assms by (auto simp: chan_accept_def chan_upgrade_def split: option.split)
  show "chan_inv (fst (chan_reject chs i))" "chan_inv (on_chan_accept C chs payload)"
    using assms by (auto simp: chan_reject_def on_chan_accept_def split: option.split cbor.split prod.split)
qed

lemma with_channel_id_inv:
  "router_inv r \<Longrightarrow> (\<And>c. router_inv (fst (f c))) \<Longrightarrow> router_inv (fst (with_channel_id r p f))"
  by (auto simp: with_channel_id_def split: sum.split)

lemma ipc_channel_inv:
  assumes "router_inv r"
  shows "router_inv (fst (channel_open r rn p))" "router_inv (fst (channel_accept r rn p))"
    "router_inv (fst (channel_reject r p))" "router_inv (fst (channel_upgrade r p))"
    "router_inv (fst (channel_close r p))" "router_inv (fst (ipc_dht_publish r p))"
proof -
  have ch: "chan_inv (rt_chans r)"
    using assms by (simp add: router_inv_def)
  note h = chan_inv_handshake [OF ch] chan_inv_close [OF ch]
  have chans: "router_inv (r\<lparr>rt_chans := fst x\<rparr>)" if "chan_inv (fst x)" for x :: "channels \<times> 'a"
    using assms that by auto
  show "router_inv (fst (channel_open r rn p))"
    using assms h by (auto simp: channel_open_def split_beta intro!: chans split: sum.split)
  show "router_inv (fst (channel_accept r rn p))" "router_inv (fst (channel_reject r p))"
      "router_inv (fst (channel_upgrade r p))" "router_inv (fst (channel_close r p))"
    using assms h
    by (auto simp: channel_accept_def channel_reject_def channel_upgrade_def channel_close_def split_beta
        intro!: with_channel_id_inv router_inv_chans split: sum.split)
  show "router_inv (fst (ipc_dht_publish r p))"
    using assms by (auto simp: ipc_dht_publish_def router_inv_def split: sum.split)
qed

lemma ipc_send_inv:
  assumes "router_inv r"
  shows "router_inv (fst (frame_send K C r rn p))" "router_inv (fst (frame_send_batch K C r rn p))"
proof -
  show "router_inv (fst (frame_send K C r rn p))"
    using assms router_send_inv [OF assms]
    by (auto simp: frame_send_def intro!: with_channel_id_inv split: sum.split prod.split)
  show "router_inv (fst (frame_send_batch K C r rn p))"
    using assms send_batch_inv [OF assms]
    by (auto simp: frame_send_batch_def intro!: with_channel_id_inv split: sum.split prod.split option.split cval.split)
qed

lemma ipc_handle_inv: "router_inv r \<Longrightarrow> router_inv (fst (ipc_handle K C r rn method p))"
  using ipc_channel_inv [of r] ipc_send_inv [of r] by (simp add: ipc_handle_def split_beta)

lemma dispatch_inv:
  assumes "router_inv r"
  shows "router_inv (fst (dispatch_ipc K C r rn method p caller))"
proof -
  have "chan_inv (rt_chans r)"
    using assms by (simp add: router_inv_def)
  then have acc: "router_inv (r\<lparr>rt_chans := fst (chan_accept (rt_chans r) c k)\<rparr>)" for c k
    using assms chan_inv_handshake(3) by blast
  have "router_inv (fst (dispatch_open K C r rn p))"
    using ipc_handle_inv [OF assms, of K C rn "''channel.open''" p]
    by (auto simp: dispatch_open_def split: prod.split sum.split option.split cval.split)
  moreover have "router_inv (fst (dispatch_accept K C r rn p))"
    using ipc_handle_inv [OF assms, of K C rn "''channel.accept''" p] assms acc
    by (auto simp: dispatch_accept_def split_beta Let_def split: option.split cval.split sum.split)
  ultimately show ?thesis
    using ipc_handle_inv [OF assms] by (simp add: dispatch_ipc_def)
qed

lemma bootstrap_inv: "router_inv r \<Longrightarrow> router_inv (fst (initiate_bootstrap_connections K C r as))"
proof (induction as arbitrary: r)
  case (Cons a as)
  have "chan_inv (rt_chans r)"
    using Cons.prems by (simp add: router_inv_def)
  then have "router_inv (fst (bootstrap_one K C r (snd a) (fst a)))"
    using Cons.prems chan_inv_handshake(1) by (auto simp: bootstrap_one_def split_beta)
  with Cons.IH show ?case
    by (simp add: split_beta)
qed simp

text \<open>Under the invariant a datagram is never forwarded.\<close>

lemma datagram_inv:
  assumes "router_inv r" "on_datagram K C r a d = (r', es, res)"
  shows "router_inv r' \<and> (\<forall>x b. Datagram x b \<notin> set es)"
proof -
  have ch: "chan_inv (rt_chans r)" and none: "guard_lookup (rt_guards r) tok = None" for tok
    using assms(1) by (simp_all add: router_inv_def guard_lookup_def)
  have "router_inv (fst (on_chan_open_cell K C r a d))" "Datagram x b \<notin> set (snd (on_chan_open_cell K C r a d))" for x b
    using assms(1) chan_inv_handshake(2) [OF ch]
    by (auto simp: on_chan_open_cell_def split_beta state_cb_def push_channel_incoming_def
        split: sum.split option.split cbor.split if_splits)
  moreover have "router_inv (on_chan_accept_cell K C r d)"
    using assms(1) chan_inv_handshake(6) [OF ch]
    by (auto simp: on_chan_accept_cell_def Let_def split: sum.split option.split cbor.split)
  ultimately show ?thesis
    using assms none
    by (auto simp: on_datagram_def on_inbound_cell_def push_frame_recv_def Let_def split_beta split: if_splits sum.splits)
qed

lemma tft_inv_empty: "ledger t = [] \<Longrightarrow> tft_tick di rs (t, n) = Some (t', n') \<Longrightarrow> ledger t' = []"
  by (auto simp: tft_tick_def run_round_def decay_credits_def Let_def split: if_splits)

lemma evict_empty: "gt_table g = [] \<Longrightarrow> gt_table (fst (guard_evict_expired g now)) = []"
  by (simp add: guard_evict_expired_def evict_loop_filter)

lemma step_inv: "router_step K C r es r' \<Longrightarrow> router_inv r \<Longrightarrow> router_inv r'"
proof (induction rule: router_step.induct)
  case (datagram r a d r' es res)
  then show ?case
    using datagram_inv by blast
next
  case (request r rn mth p caller r' es res)
  then show ?case
    using dispatch_inv [of r K C rn mth p caller] by simp
next
  case (bootstrap r as r' es)
  then show ?case
    using bootstrap_inv [of r K C as] by simp
next
  case (tft_round di rs r n t n')
  then show ?case
    using tft_inv_empty by (auto simp: router_inv_def)
next
  case (eviction r now)
  then show ?case
    by (simp add: router_inv_def evict_tick_def evict_empty)
qed

lemma reach_inv: "router_reach K C r r' \<Longrightarrow> router_inv r \<Longrightarrow> router_inv r'"
  by (induction rule: router_reach.induct) (auto intro: step_inv)

text \<open>
  C27. Nothing a router does after its construction registers a guard, a tunnel or a peer.
  In every reachable state the guard table, the tunnel table and the tit-for-tat ledger are
  empty, the channels are filed under their identifiers without guards, and no datagram that
  arrives makes the router send one: it never relays.
\<close>

theorem router_never_relays:
  assumes "router_reach K C (router_new n cfg) r"
  shows "gt_table (rt_guards r) = [] \<and> rt_tunnels r = [] \<and> ledger (rt_tft r) = [] \<and> chan_inv (rt_chans r) \<and>
    (\<forall>a d x b. Datagram x b \<notin> set (fst (snd (on_datagram K C r a d))))"
proof -
  have inv: "router_inv r"
    using reach_inv [OF assms router_inv_new] .
  have "Datagram x b \<notin> set (fst (snd (on_datagram K C r a d)))" for a d x b
    using datagram_inv [OF inv, of K C a d] by (cases "on_datagram K C r a d") auto
  with inv show ?thesis
    by (simp add: router_inv_def)
qed

theorem router_never_relays_witness:
  "\<exists>r. router_reach demo_crypto wire_cbor (router_new 5 default_tft_config) r \<and> gt_table (rt_guards r) = [] \<and>
     (\<forall>a d x b. Datagram x b \<notin> set (fst (snd (on_datagram demo_crypto wire_cbor r a d))))"
proof -
  let ?r = "router_new 5 default_tft_config"
  have "router_step demo_crypto wire_cbor ?r [] (evict_tick ?r 60)"
    by (rule router_step.eviction)
  then have "router_reach demo_crypto wire_cbor ?r (evict_tick ?r 60)"
    by (rule router_reach.step [OF router_reach.start])
  then show ?thesis
    using router_never_relays [of demo_crypto wire_cbor 5 default_tft_config "evict_tick ?r 60"] by blast
qed

end
