(* ===== verification/Sql.thy ===== *)
theory Sql
  imports Cbor
begin

text \<open>
  The tables of the daemons' SQLite databases. A table is the list of its rows in the order of
  their rowids (an insertion appends); a statement is a function on it. What the statements
  used by the program do is SQLite's documented behaviour: a primary key or NOT NULL violation
  is the result code 19, which \<^verbatim>\<open>Stmt::exec\<close> turns into an exception, \<^verbatim>\<open>OR REPLACE\<close> deletes the
  row with the same key, \<^verbatim>\<open>OR IGNORE\<close> skips the row. Text read from a row ends at its first NUL
  (\<^verbatim>\<open>Row::get_text\<close> builds a string from a C pointer). An empty blob is bound as NULL when the
  data pointer of an empty vector is null, which the flag \<open>en\<close> says. SQL leaves the order of a query without \<^verbatim>\<open>ORDER BY\<close> open; the
  model returns the rows in the order of their rowids, which is the order of a table scan.
\<close>

definition constraint_error :: exn where
  "constraint_error = Db_Error ''sqlite3_step failed: 19''"

definition null_blob :: "bool \<Rightarrow> bytes \<Rightarrow> bool" where
  "null_blob en b \<longleftrightarrow> en \<and> b = []"

definition sql_insert :: "('r \<Rightarrow> 'k) \<Rightarrow> 'r \<Rightarrow> 'r list \<Rightarrow> 'r list res" where
  "sql_insert key row t = (if key row \<in> key ` set t then Inl constraint_error else Inr (t @ [row]))"

definition sql_replace :: "('r \<Rightarrow> 'k) \<Rightarrow> 'r \<Rightarrow> 'r list \<Rightarrow> 'r list" where
  "sql_replace key row t = filter (\<lambda>r. key r \<noteq> key row) t @ [row]"

definition sql_insert_or_ignore :: "('r \<Rightarrow> 'k) \<Rightarrow> 'r \<Rightarrow> 'r list \<Rightarrow> 'r list" where
  "sql_insert_or_ignore key row t = (if key row \<in> key ` set t then t else t @ [row])"

definition sql_update :: "('r \<Rightarrow> bool) \<Rightarrow> ('r \<Rightarrow> 'r) \<Rightarrow> 'r list \<Rightarrow> 'r list" where
  "sql_update p f t = map (\<lambda>r. if p r then f r else r) t"

definition sql_delete :: "('r \<Rightarrow> bool) \<Rightarrow> 'r list \<Rightarrow> 'r list" where
  "sql_delete p t = filter (\<lambda>r. \<not> p r) t"

text \<open>Rows inserted one by one in a transaction that an exception rolls back.\<close>

primrec sql_insert_all :: "('r \<Rightarrow> 'k) \<Rightarrow> ('r \<Rightarrow> bool) \<Rightarrow> 'r list \<Rightarrow> 'r list \<Rightarrow> 'r list res" where
  "sql_insert_all key bad [] t = Inr t"
| "sql_insert_all key bad (r # rs) t =
     (if bad r then Inl constraint_error
      else rbind (sql_insert key r t) (\<lambda>t'. sql_insert_all key bad rs t'))"

subsection \<open>Primary keys\<close>

definition pk :: "('r \<Rightarrow> 'k) \<Rightarrow> 'r list \<Rightarrow> bool" where
  "pk key t \<longleftrightarrow> distinct (map key t)"

named_theorems pk_intros \<open>statements keep the primary key\<close>

lemma pk_Nil [simp]: "pk key []"
  by (simp add: pk_def)

lemma pk_insert [pk_intros]: "pk key t \<Longrightarrow> sql_insert key row t = Inr t' \<Longrightarrow> pk key t'"
  by (auto simp: pk_def sql_insert_def split: if_splits)

lemma pk_replace [pk_intros]: "pk key t \<Longrightarrow> pk key (sql_replace key row t)"
  by (auto simp: pk_def sql_replace_def distinct_map intro: inj_on_subset)

lemma pk_insert_or_ignore [pk_intros]: "pk key t \<Longrightarrow> pk key (sql_insert_or_ignore key row t)"
  by (auto simp: pk_def sql_insert_or_ignore_def)

lemma pk_update [pk_intros]: "pk key t \<Longrightarrow> (\<And>r. key (f r) = key r) \<Longrightarrow> pk key (sql_update p f t)"
proof -
  assume "pk key t" "\<And>r. key (f r) = key r"
  moreover have "map key (sql_update p f t) = map key t" if "\<And>r. key (f r) = key r"
    using that by (simp add: sql_update_def)
  ultimately show ?thesis
    by (simp add: pk_def)
qed

lemma pk_delete [pk_intros]: "pk key t \<Longrightarrow> pk key (sql_delete p t)"
  by (auto simp: pk_def sql_delete_def distinct_map intro: inj_on_subset)

lemma insert_all_Inr:
  "sql_insert_all key (\<lambda>_. False) rs t = (if distinct (map key rs) \<and> key ` set rs \<inter> key ` set t = {} then Inr (t @ rs)
     else Inl constraint_error)"
proof (induction rs arbitrary: t)
  case (Cons r rs)
  show ?case
    using Cons.IH [of "t @ [r]"] by (auto simp: sql_insert_def)
qed simp

lemma find_pk:
  assumes "pk key t" "r \<in> set t"
  shows "find (\<lambda>x. key x = key r) t = Some r"
  using assms by (induction t) (auto simp: pk_def image_iff)

lemma in_set_sql_update: "x \<in> set (sql_update p f t) \<Longrightarrow> \<exists>r\<in>set t. x = (if p r then f r else r)"
  by (auto simp: sql_update_def)

lemma find_append_new: "k \<notin> key ` set t \<Longrightarrow> key m = k \<Longrightarrow> find (\<lambda>x. key x = k) (t @ [m]) = Some m"
  by (induction t) auto

subsection \<open>Tables that refuse duplicates\<close>

text \<open>
  The contract of the message tables: an insertion reports whether the key was new, a key that
  is there keeps its row.
\<close>

locale dedup_table =
  fixes ins :: "'s \<Rightarrow> 'm \<Rightarrow> 's \<times> bool res" and rows :: "'s \<Rightarrow> 'm list" and key :: "'m \<Rightarrow> 'k"
  assumes ins_dup: "key m \<in> key ` set (rows s) \<Longrightarrow> ins s m = (s, Inr False)"
    and ins_new: "key m \<notin> key ` set (rows s) \<Longrightarrow> snd (ins s m) \<noteq> Inr False \<and>
      rows (fst (ins s m)) = (if snd (ins s m) = Inr True then rows s @ [m] else rows s)"
begin

lemma ins_pk: "pk key (rows s) \<Longrightarrow> pk key (rows (fst (ins s m)))"
  using ins_dup [of m s] ins_new [of m s] by (cases "key m \<in> key ` set (rows s)") (auto simp: pk_def)

lemma ins_True_iff: "snd (ins s m) = Inr True \<Longrightarrow> key m \<notin> key ` set (rows s) \<and> rows (fst (ins s m)) = rows s @ [m]"
  using ins_dup [of m s] ins_new [of m s] by (cases "key m \<in> key ` set (rows s)") auto

lemma ins_again:
  assumes "snd (ins s m) = Inr True" "key m' = key m"
  shows "ins (fst (ins s m)) m' = (fst (ins s m), Inr False)"
  using ins_True_iff [OF assms(1)] assms(2) by (intro ins_dup) simp

lemma row_stays:
  assumes "r \<in> set (rows s)"
  shows "r \<in> set (rows (fst (ins s m)))"
proof (cases "key m \<in> key ` set (rows s)")
  case True
  then show ?thesis
    using assms ins_dup by simp
next
  case False
  then show ?thesis
    using assms ins_new [of m s] by simp
qed

lemma rows_stay:
  "pk key (rows s) \<Longrightarrow> r \<in> set (rows s) \<Longrightarrow>
     find (\<lambda>x. key x = key r) (rows (foldl (\<lambda>s m. fst (ins s m)) s ms)) = Some r"
proof (induction ms arbitrary: s)
  case Nil
  then show ?case
    by (simp add: find_pk)
next
  case (Cons m ms)
  then show ?case
    using row_stays [of r s m] ins_pk [of s m] by simp
qed

text \<open>The first row inserted under a key is the one that is found, whatever follows.\<close>

lemma first_wins:
  assumes "pk key (rows s)" "snd (ins s m) = Inr True"
  shows "find (\<lambda>x. key x = key m) (rows (foldl (\<lambda>s m. fst (ins s m)) (fst (ins s m)) ms)) = Some m"
  using ins_True_iff [OF assms(2)] ins_pk [OF assms(1), of m] by (intro rows_stay) simp_all

end

end
