(* ===== verification/Inbox_Store.thy ===== *)
theory Inbox_Store
  imports Sql
begin

text \<open>
  The inbox's database (\<^verbatim>\<open>inbox/src/store.hpp\<close>, \<^verbatim>\<open>store.cpp\<close>): one list of rows per table.
\<close>

record stored_message =
  sm_message_id :: string
  sm_sender_id :: string
  sm_delivery_frame :: bytes
  sm_persistence :: string
  sm_delivered :: bool
  sm_replicated :: bool
  sm_received_at_ms :: int
  sm_expires_at :: int

record sibling =
  sb_device_id :: string
  sb_key_c_pubkey :: bytes
  sb_auth_cert :: bytes
  sb_channel_id :: string
  sb_last_seen_ms :: int

record known_outbox =
  ko_key_c_pubkey :: bytes
  ko_auth_cert :: bytes
  ko_expires_at :: int

record dht_credentials =
  cr_key_c_pubkey :: bytes
  cr_key_c_privkey :: bytes
  cr_auth_cert :: bytes
  cr_delegation_cert :: bytes

record inbox_store =
  is_messages :: "stored_message list"
  is_siblings :: "sibling list"
  is_replication :: "(string \<times> string) list"
  is_credentials :: "dht_credentials option"
  is_outboxes :: "known_outbox list"
  is_senders :: "string list"
  is_rate :: "(int \<times> int) list"
  is_config_days :: "string option"
  is_retention_days :: int

text \<open>An empty database and the initial member.\<close>

definition inbox_store_new :: inbox_store where
  "inbox_store_new = \<lparr>is_messages = [], is_siblings = [], is_replication = [], is_credentials = None,
     is_outboxes = [], is_senders = [], is_rate = [], is_config_days = None, is_retention_days = 7\<rparr>"

subsection \<open>stored\_messages\<close>

definition message_exists :: "inbox_store \<Rightarrow> string \<Rightarrow> bool" where
  "message_exists db i \<longleftrightarrow> i \<in> sm_message_id ` set (is_messages db)"

definition insert_message :: "bool \<Rightarrow> inbox_store \<Rightarrow> stored_message \<Rightarrow> inbox_store \<times> bool res" where
  "insert_message en db msg =
     (if message_exists db (sm_message_id msg) then (db, Inr False)
      else if null_blob en (sm_delivery_frame msg) then (db, Inl constraint_error)
      else case sql_insert sm_message_id msg (is_messages db) of
             Inl e \<Rightarrow> (db, Inl e)
           | Inr t \<Rightarrow> (db\<lparr>is_messages := t\<rparr>, Inr True))"

text \<open>A row as the queries return it.\<close>

definition row_message :: "stored_message \<Rightarrow> stored_message" where
  "row_message m = m\<lparr>sm_message_id := c_str (sm_message_id m), sm_sender_id := c_str (sm_sender_id m),
     sm_persistence := c_str (sm_persistence m)\<rparr>"

definition get_message :: "inbox_store \<Rightarrow> string \<Rightarrow> stored_message option" where
  "get_message db i = map_option row_message (find (\<lambda>m. sm_message_id m = i) (is_messages db))"

definition get_pending :: "inbox_store \<Rightarrow> bool \<Rightarrow> stored_message list" where
  "get_pending db undelivered_only =
     map row_message (filter (\<lambda>m. undelivered_only \<longrightarrow> \<not> sm_delivered m) (is_messages db))"

definition mark_delivered :: "inbox_store \<Rightarrow> string \<Rightarrow> int \<Rightarrow> inbox_store" where
  "mark_delivered db i expires = db\<lparr>is_messages :=
     sql_update (\<lambda>m. sm_message_id m = i) (\<lambda>m. m\<lparr>sm_delivered := True, sm_expires_at := expires\<rparr>) (is_messages db)\<rparr>"

definition delete_message :: "inbox_store \<Rightarrow> string \<Rightarrow> inbox_store" where
  "delete_message db i = db\<lparr>is_messages := sql_delete (\<lambda>m. sm_message_id m = i) (is_messages db)\<rparr>"

definition delete_expired :: "inbox_store \<Rightarrow> int \<Rightarrow> inbox_store" where
  "delete_expired db now = db\<lparr>is_messages :=
     sql_delete (\<lambda>m. sm_expires_at m > 0 \<and> sm_expires_at m < now) (is_messages db)\<rparr>"

subsection \<open>Siblings\<close>

definition upsert_sibling :: "bool \<Rightarrow> inbox_store \<Rightarrow> sibling \<Rightarrow> inbox_store res" where
  "upsert_sibling en db sib =
     (if null_blob en (sb_key_c_pubkey sib) \<or> null_blob en (sb_auth_cert sib) then Inl constraint_error
      else Inr (db\<lparr>is_siblings := sql_replace sb_device_id sib (is_siblings db)\<rparr>))"

definition remove_sibling :: "inbox_store \<Rightarrow> string \<Rightarrow> inbox_store" where
  "remove_sibling db d = db\<lparr>is_siblings := sql_delete (\<lambda>s. sb_device_id s = d) (is_siblings db)\<rparr>"

definition row_sibling :: "sibling \<Rightarrow> sibling" where
  "row_sibling s = s\<lparr>sb_device_id := c_str (sb_device_id s), sb_channel_id := c_str (sb_channel_id s)\<rparr>"

definition list_siblings :: "inbox_store \<Rightarrow> sibling list" where
  "list_siblings db = map row_sibling (is_siblings db)"

definition set_sibling_channel :: "inbox_store \<Rightarrow> string \<Rightarrow> string \<Rightarrow> inbox_store" where
  "set_sibling_channel db d c = db\<lparr>is_siblings :=
     sql_update (\<lambda>s. sb_device_id s = d) (\<lambda>s. s\<lparr>sb_channel_id := c\<rparr>) (is_siblings db)\<rparr>"

definition set_sibling_replicated :: "inbox_store \<Rightarrow> string \<Rightarrow> string \<Rightarrow> inbox_store" where
  "set_sibling_replicated db i d = db\<lparr>is_replication := sql_replace (\<lambda>r. r) (i, d) (is_replication db)\<rparr>"

subsection \<open>Credentials, outboxes, allowlist\<close>

definition get_dht_credentials :: "inbox_store \<Rightarrow> dht_credentials option" where
  "get_dht_credentials db = is_credentials db"

text \<open>The column \<^verbatim>\<open>delegation_cert\<close> has a default, which replaces a NULL.\<close>

definition set_dht_credentials :: "bool \<Rightarrow> inbox_store \<Rightarrow> dht_credentials \<Rightarrow> inbox_store res" where
  "set_dht_credentials en db c =
     (if null_blob en (cr_key_c_pubkey c) \<or> null_blob en (cr_key_c_privkey c) \<or> null_blob en (cr_auth_cert c)
      then Inl constraint_error
      else Inr (db\<lparr>is_credentials := Some c\<rparr>))"

definition replace_known_outboxes :: "bool \<Rightarrow> inbox_store \<Rightarrow> known_outbox list \<Rightarrow> inbox_store res" where
  "replace_known_outboxes en db obs =
     rbind (sql_insert_all ko_key_c_pubkey (\<lambda>ob. null_blob en (ko_key_c_pubkey ob) \<or> null_blob en (ko_auth_cert ob)) obs [])
       (\<lambda>t. Inr (db\<lparr>is_outboxes := t\<rparr>))"

definition list_known_outboxes :: "inbox_store \<Rightarrow> known_outbox list" where
  "list_known_outboxes db = is_outboxes db"

definition replace_allowed_senders :: "inbox_store \<Rightarrow> string list \<Rightarrow> inbox_store res" where
  "replace_allowed_senders db ids =
     rbind (sql_insert_all (\<lambda>s. s) (\<lambda>_. False) ids []) (\<lambda>t. Inr (db\<lparr>is_senders := t\<rparr>))"

definition is_allowed_sender :: "inbox_store \<Rightarrow> string \<Rightarrow> bool" where
  "is_allowed_sender db i \<longleftrightarrow> i \<in> set (is_senders db)"

subsection \<open>Rate limit and retention\<close>

text \<open>C++ integer division truncates; timestamps are not negative.\<close>

definition cr_guard_count_this_hour :: "inbox_store \<Rightarrow> nat \<Rightarrow> int" where
  "cr_guard_count_this_hour db now =
     (case map_of (is_rate db) (int (now div 3600)) of Some c \<Rightarrow> c | None \<Rightarrow> 0)"

definition cr_guard_record :: "inbox_store \<Rightarrow> nat \<Rightarrow> inbox_store" where
  "cr_guard_record db now =
     (let b = int (now div 3600); t = sql_delete (\<lambda>(h, _). h < b) (is_rate db)
      in db\<lparr>is_rate := (if b \<in> fst ` set t then sql_update (\<lambda>(h, _). h = b) (\<lambda>(h, c). (h, c + 1)) t
                        else t @ [(b, 1)])\<rparr>)"

definition set_retention_days :: "inbox_store \<Rightarrow> int \<Rightarrow> inbox_store" where
  "set_retention_days db days = db\<lparr>is_retention_days := days, is_config_days := Some (show_int days)\<rparr>"

definition get_retention_days :: "inbox_store \<Rightarrow> int" where
  "get_retention_days db = is_retention_days db"

subsection \<open>The message table refuses duplicates\<close>

interpretation inbox_msgs: dedup_table "insert_message en" is_messages sm_message_id
  by unfold_locales (auto simp: insert_message_def message_exists_def sql_insert_def)

end
