(* ===== verification/Daemon.thy ===== *)
theory Daemon
  imports Ipc_Codec Sql
begin

text \<open>
  What the inbox and the outbox share: a store, the calls a daemon makes to the router over its
  IPC client, the events it pushes to its own clients. The router's answer to the \<open>n\<close>-th call
  is the argument \<open>ans\<close>. A call from a push handler runs in the client's receive loop, the only
  thread that completes calls (\<^verbatim>\<open>Client::recv_loop\<close>): the request is written, no response can be
  read before the handler returns, and the call ends with the timeout exception.
\<close>

record 'st daemon =
  dm_store :: 'st
  dm_calls :: "(string \<times> cmap) list"
  dm_pushes :: "(string \<times> cmap) list"

type_synonym answers = "nat \<Rightarrow> string \<Rightarrow> cmap \<Rightarrow> cmap res"

definition ar_call :: "answers \<Rightarrow> 'st daemon \<Rightarrow> string \<Rightarrow> cmap \<Rightarrow> 'st daemon \<times> cmap res" where
  "ar_call ans s m p = (s\<lparr>dm_calls := dm_calls s @ [(m, p)]\<rparr>, ans (length (dm_calls s)) m p)"

definition recv_thread_ans :: answers where
  "recv_thread_ans n m p = Inl (Runtime_Error (''IPC call timed out: '' @ m))"

definition dm_push :: "'st daemon \<Rightarrow> string \<Rightarrow> (string \<times> cval) list \<Rightarrow> 'st daemon" where
  "dm_push s ev kvs = s\<lparr>dm_pushes := dm_pushes s @ [(ev, cmap_of kvs)]\<rparr>"

subsection \<open>Frames\<close>

definition frame_send_params :: "string \<Rightarrow> bytes \<Rightarrow> cmap" where
  "frame_send_params chan payload = cmap_of [(''channel_id'', VString chan), (''payload'', VBytes payload)]"

text \<open>\<^verbatim>\<open>try { ar_client_.call("frame.send", ...) } catch (...) {}\<close>.\<close>

definition send_quietly :: "answers \<Rightarrow> 'st daemon \<Rightarrow> string \<Rightarrow> bytes \<Rightarrow> 'st daemon" where
  "send_quietly ans s chan payload = fst (ar_call ans s ''frame.send'' (frame_send_params chan payload))"

text \<open>The text value of the first \<^verbatim>\<open>type\<close> key that has one, or the empty string.\<close>

fun frame_type_of :: "(cbor \<times> cbor) list \<Rightarrow> string" where
  "frame_type_of [] = []"
| "frame_type_of ((k, v) # ps) =
     (case (k, v) of (CText t, CText s) \<Rightarrow> (if t = ''type'' then s else frame_type_of ps)
                   | _ \<Rightarrow> frame_type_of ps)"

text \<open>The last text value, and the last byte string, under a key.\<close>

definition last_text :: "(cbor \<times> cbor) list \<Rightarrow> string \<Rightarrow> string" where
  "last_text ps key = foldl (\<lambda>acc kv. case kv of (CText k, CText s) \<Rightarrow> (if k = key then s else acc) | _ \<Rightarrow> acc) [] ps"

definition last_bytes :: "(cbor \<times> cbor) list \<Rightarrow> string \<Rightarrow> bytes" where
  "last_bytes ps key = foldl (\<lambda>acc kv. case kv of (CText k, CBytes b) \<Rightarrow> (if k = key then b else acc) | _ \<Rightarrow> acc) [] ps"

text \<open>\<^verbatim>\<open>cbor_map_size\<close> and \<^verbatim>\<open>cbor_map_handle\<close> of a frame that was recognised by its type.\<close>

definition map_items :: "cbor \<Rightarrow> (cbor \<times> cbor) list" where
  "map_items x = (case x of CMap ps \<Rightarrow> ps | _ \<Rightarrow> [])"

text \<open>The answer to a poll: the messages as identifier and frame.\<close>

definition poll_response :: "cbor_lib \<Rightarrow> (string \<times> bytes) list \<Rightarrow> cbor" where
  "poll_response C msgs = definite_map C 2 (str_fields
     [(''type'', build_string ''outbox_poll_response''),
      (''messages'', definite_array C (length msgs) (map (\<lambda>(mid, fr). definite_map C 2 (str_fields
         [(''message_id'', build_string mid), (''delivery_frame'', CBytes fr)])) msgs))])"

subsection \<open>Request parameters\<close>

definition req_string :: "cmap \<Rightarrow> string \<Rightarrow> string res" where
  "req_string p k = (case map_of p k of Some (VString s) \<Rightarrow> Inr s | _ \<Rightarrow> Inl (Runtime_Error (''missing param: '' @ k)))"

definition req_bytes :: "cmap \<Rightarrow> string \<Rightarrow> bytes res" where
  "req_bytes p k = (case map_of p k of Some (VBytes b) \<Rightarrow> Inr b | _ \<Rightarrow> Inl (Runtime_Error (''missing param: '' @ k)))"

definition opt_string :: "cmap \<Rightarrow> string \<Rightarrow> string" where
  "opt_string p k = (case map_of p k of Some (VString s) \<Rightarrow> s | _ \<Rightarrow> [])"

definition ok_result :: cmap where
  "ok_result = cmap_of [(''ok'', VBool True)]"

definition open_params :: "string \<Rightarrow> cmap" where
  "open_params key_hex = cmap_of [(''remote_pubkey'', VString key_hex), (''anon_level'', VUint 2), (''mode'', VString ''message'')]"

text \<open>The last part of both \<^verbatim>\<open>ensure_channel\<close>: open a new channel.\<close>

definition open_channel :: "answers \<Rightarrow> 'st daemon \<Rightarrow> string \<Rightarrow> 'st daemon \<times> string res" where
  "open_channel ans s key_hex =
     (case ar_call ans s ''channel.open'' (open_params key_hex) of
        (s', r) \<Rightarrow> (s', rbind r (\<lambda>m. case map_of m ''channel_id'' of
                         Some (VString c) \<Rightarrow> Inr c
                       | _ \<Rightarrow> Inl (Runtime_Error ''channel.open failed''))))"

subsection \<open>Lemmas\<close>

lemma ar_call_simps [simp]:
  "dm_store (fst (ar_call ans s m p)) = dm_store s"
  "dm_pushes (fst (ar_call ans s m p)) = dm_pushes s"
  "dm_calls (fst (ar_call ans s m p)) = dm_calls s @ [(m, p)]"
  "snd (ar_call ans s m p) = ans (length (dm_calls s)) m p"
  by (simp_all add: ar_call_def)

lemma send_quietly_simps [simp]:
  "dm_store (send_quietly ans s chan payload) = dm_store s"
  "dm_pushes (send_quietly ans s chan payload) = dm_pushes s"
  "dm_calls (send_quietly ans s chan payload) = dm_calls s @ [(''frame.send'', frame_send_params chan payload)]"
  by (simp_all add: send_quietly_def)

lemma dm_push_simps [simp]:
  "dm_store (dm_push s ev kvs) = dm_store s"
  "dm_calls (dm_push s ev kvs) = dm_calls s"
  "dm_pushes (dm_push s ev kvs) = dm_pushes s @ [(ev, cmap_of kvs)]"
  by (simp_all add: dm_push_def)

lemma hexdig_no_nul: "n < 16 \<Longrightarrow> hexdig n \<noteq> CHR 0x00"
proof
  assume "n < 16" "hexdig n = CHR 0x00"
  then have "(of_char (hexdig n) :: nat) = 0"
    by simp
  with \<open>n < 16\<close> show False
    by (simp add: hexdig_def of_char_of split: if_splits)
qed

lemma no_nul_to_hex [simp]: "no_nul (to_hex b)"
proof (induction b)
  case (Cons x b)
  have "unat x < 256"
    using unsigned_less [of x] by simp
  then have "unat x div 16 < 16" "unat x mod 16 < 16"
    by (simp_all add: less_mult_imp_div_less)
  with Cons show ?case
    using hexdig_no_nul [of "unat x div 16"] hexdig_no_nul [of "unat x mod 16"]
    by (auto simp: no_nul_def hex_byte_def)
qed (simp add: no_nul_def)

lemma hexdig_code: "n < 16 \<Longrightarrow> (of_char (hexdig n) :: nat) < 128"
  by (simp add: hexdig_def of_char_of)

lemma ascii_to_hex: "\<forall>c\<in>set (to_hex b). (of_char c :: nat) < 128"
proof (induction b)
  case (Cons x b)
  have "unat x < 256"
    using unsigned_less [of x] by simp
  then have "unat x div 16 < 16" "unat x mod 16 < 16"
    by (simp_all add: less_mult_imp_div_less)
  with Cons show ?case
    by (simp add: hex_byte_def hexdig_code)
qed simp

lemma plain_hex: "length b < 2 ^ 60 \<Longrightarrow> plain (build_string (to_hex b)) d"
  using ascii_to_hex [of b] by (simp add: build_string_def)

text \<open>A frame of plain fields is printed, and parsed back.\<close>

lemma print_fields:
  assumes "cbor_ok C" "list_all (\<lambda>(k, v). key_lit k) kvs" "list_all (\<lambda>(k, v). plain v 63) kvs"
    "length kvs \<le> cap" "length kvs < 2 ^ 64"
  obtains pl where "cbor_serialize C (definite_map C cap (str_fields kvs)) = Some pl" "cbor_load C pl = Some (CMap (str_fields kvs))"
proof -
  have "\<forall>(k, v)\<in>set (str_fields kvs). plain k 63 \<and> plain v 63"
    using assms(2,3) by (fastforce simp: str_fields_def list_all_iff dest: key_litD)
  then have "plain (CMap (str_fields kvs)) 64" "definite_map C cap (str_fields kvs) = CMap (str_fields kvs)"
    using assms(1,4,5) by (simp_all add: str_fields_def definite_map_take)
  then show ?thesis
    using cbor_ok_print [OF assms(1)] that by metis
qed

end
