(* ===== verification/Inbox.thy ===== *)
theory Inbox
  imports Inbox_Store Daemon
begin

text \<open>
  The inbox daemon (\<^verbatim>\<open>inbox/src/inbox.cpp\<close>, \<^verbatim>\<open>frame_parser.cpp\<close>, \<^verbatim>\<open>ipc_handler.cpp\<close>): frames from
  the network, requests from the client, start-up and maintenance. Clocks are arguments; \<open>en\<close>
  is the flag of the database layer, \<open>ans\<close> the router's answers.
\<close>

type_synonym inbox = "inbox_store daemon"

record inbox_config =
  ic_passthrough_timeout_s :: int
  ic_cr_guard_rate_limit_hour :: int

definition default_inbox_config :: inbox_config where
  "default_inbox_config = \<lparr>ic_passthrough_timeout_s = 60, ic_cr_guard_rate_limit_hour = 20\<rparr>"

subsection \<open>Frame header\<close>

record frame_header =
  fh_message_id :: string
  fh_sender_id :: string
  fh_persistence :: string

definition header_field :: "frame_header \<Rightarrow> cbor \<times> cbor \<Rightarrow> frame_header" where
  "header_field h kv =
     (case kv of
        (CText k, CBytes b) \<Rightarrow>
          if k = ''message_id'' \<and> length b = 16 then h\<lparr>fh_message_id := to_hex b\<rparr>
          else if k = ''sender_id'' \<and> length b = 32 then h\<lparr>fh_sender_id := to_hex b\<rparr>
          else h
      | (CText k, CText s) \<Rightarrow> if k = ''persistence'' then h\<lparr>fh_persistence := s\<rparr> else h
      | _ \<Rightarrow> h)"

definition parse_frame_header :: "cbor_lib \<Rightarrow> bytes \<Rightarrow> frame_header option" where
  "parse_frame_header C fr =
     (case cbor_load C fr of
        Some (CMap ps) \<Rightarrow>
          let h = foldl header_field \<lparr>fh_message_id = [], fh_sender_id = [], fh_persistence = []\<rparr> ps
          in if fh_message_id h \<noteq> [] \<and> fh_sender_id h \<noteq> [] then Some h else None
      | _ \<Rightarrow> None)"

subsection \<open>Channels and replication\<close>

text \<open>The open channel to a key in the answer to \<^verbatim>\<open>channel.list\<close>, if any.\<close>

definition open_entry :: "string \<Rightarrow> cval \<Rightarrow> cval option" where
  "open_entry key_hex cv =
     (case cv of
        VMap m \<Rightarrow>
          if map_of m ''remote_pubkey'' = Some (VString key_hex) \<and> map_of m ''state'' = Some (VString ''open'')
          then map_of m ''channel_id'' else None
      | _ \<Rightarrow> None)"

definition ensure_channel :: "answers \<Rightarrow> inbox \<Rightarrow> string \<Rightarrow> inbox \<times> string res" where
  "ensure_channel ans s key_hex =
     (case ar_call ans s ''channel.list'' [] of
        (s1, Inl e) \<Rightarrow> (s1, Inl e)
      | (s1, Inr result) \<Rightarrow>
          (case map_of result ''channels'' of
             Some (VArray arr) \<Rightarrow>
               (case List.map_filter (open_entry key_hex) arr of
                  ci # _ \<Rightarrow> (s1, as_string ci)
                | [] \<Rightarrow> open_channel ans s1 key_hex)
           | _ \<Rightarrow> open_channel ans s1 key_hex))"

text \<open>One sibling; every exception is caught and leaves the replication unrecorded.\<close>

definition replicate_one :: "cbor_lib \<Rightarrow> answers \<Rightarrow> string \<Rightarrow> bytes \<Rightarrow> inbox \<Rightarrow> sibling \<Rightarrow> inbox" where
  "replicate_one C ans message_id fr s sib =
     (case ensure_channel ans s (to_hex (sb_key_c_pubkey sib)) of
        (s1, Inl _) \<Rightarrow> s1
      | (s1, Inr chan) \<Rightarrow>
          (case cbor_serialize C (definite_map C 3 (str_fields
                  [(''type'', build_string ''inbox_replication_frame''),
                   (''message_id'', build_string message_id), (''delivery_frame'', CBytes fr)])) of
             None \<Rightarrow> s1
           | Some payload \<Rightarrow>
               (case ar_call ans s1 ''frame.send'' (frame_send_params chan payload) of
                  (s2, Inl _) \<Rightarrow> s2
                | (s2, Inr _) \<Rightarrow>
                    s2\<lparr>dm_store := set_sibling_replicated (dm_store s2) message_id (sb_device_id sib)\<rparr>)))"

definition replicate_to_siblings :: "cbor_lib \<Rightarrow> answers \<Rightarrow> inbox \<Rightarrow> string \<Rightarrow> inbox" where
  "replicate_to_siblings C ans s message_id =
     (case get_message (dm_store s) message_id of
        None \<Rightarrow> s
      | Some msg \<Rightarrow> foldl (replicate_one C ans message_id (sm_delivery_frame msg)) s (list_siblings (dm_store s)))"

subsection \<open>Frames from the network\<close>

definition send_ack :: "cbor_lib \<Rightarrow> answers \<Rightarrow> inbox \<Rightarrow> string \<Rightarrow> string \<Rightarrow> inbox" where
  "send_ack C ans s channel_id message_id =
     (case get_dht_credentials (dm_store s) of
        None \<Rightarrow> s
      | Some creds \<Rightarrow>
          (case cbor_serialize C (definite_map C 3 (str_fields
                  [(''type'', build_string ''delivery_ack''), (''message_id'', build_string message_id),
                   (''inbox_key_c_pubkey'', CBytes (cr_key_c_pubkey creds))])) of
             None \<Rightarrow> s
           | Some payload \<Rightarrow> send_quietly ans s channel_id payload))"

definition push_available :: "inbox \<Rightarrow> string \<Rightarrow> string \<Rightarrow> inbox" where
  "push_available s message_id sender_id = dm_push s ''inbox.message_available''
     [(''message_id'', VString message_id), (''sender_id'', VString sender_id)]"

definition handle_replication_frame ::
  "bool \<Rightarrow> cbor_lib \<Rightarrow> int \<Rightarrow> inbox \<Rightarrow> bytes \<Rightarrow> inbox \<times> unit res" where
  "handle_replication_frame en C now_ms s body =
     (case cbor_load C body of
        None \<Rightarrow> (s, Inr ())
      | Some root \<Rightarrow>
          let inner = last_bytes (map_items root) ''delivery_frame'';
              rep_id = last_text (map_items root) ''message_id''
          in if inner = [] \<or> message_exists (dm_store s) rep_id then (s, Inr ())
             else case parse_frame_header C inner of
                    None \<Rightarrow> (s, Inr ())
                  | Some hdr \<Rightarrow>
                      (case insert_message en (dm_store s)
                              \<lparr>sm_message_id = fh_message_id hdr, sm_sender_id = fh_sender_id hdr,
                               sm_delivery_frame = inner,
                               sm_persistence = (if fh_persistence hdr = [] then ''store'' else fh_persistence hdr),
                               sm_delivered = False, sm_replicated = True,
                               sm_received_at_ms = now_ms, sm_expires_at = 0\<rparr> of
                         (db, Inl e) \<Rightarrow> (s\<lparr>dm_store := db\<rparr>, Inl e)
                       | (db, Inr _) \<Rightarrow>
                           (push_available (s\<lparr>dm_store := db\<rparr>) (fh_message_id hdr) (fh_sender_id hdr), Inr ())))"

definition handle_outbox_poll :: "cbor_lib \<Rightarrow> answers \<Rightarrow> inbox \<Rightarrow> string \<Rightarrow> inbox" where
  "handle_outbox_poll C ans s channel_id =
     (case cbor_serialize C (poll_response C
              (map (\<lambda>m. (sm_message_id m, sm_delivery_frame m)) (get_pending (dm_store s) True))) of
        None \<Rightarrow> s
      | Some payload \<Rightarrow> send_quietly ans s channel_id payload)"

text \<open>A delivery frame: allowlist, duplicates, storage, acknowledgement, notice, replication.\<close>

definition deliver_frame ::
  "bool \<Rightarrow> cbor_lib \<Rightarrow> answers \<Rightarrow> inbox_config \<Rightarrow> int \<Rightarrow> int \<Rightarrow> inbox \<Rightarrow> string \<Rightarrow> bytes \<Rightarrow> inbox \<times> unit res" where
  "deliver_frame en C ans cfg now_s now_ms s channel_id body =
     (case parse_frame_header C body of
        None \<Rightarrow> (s, Inr ())
      | Some hdr \<Rightarrow>
          let persistence = (if fh_persistence hdr = [] then ''store'' else fh_persistence hdr) in
          if \<not> is_allowed_sender (dm_store s) (fh_sender_id hdr) then (s, Inr ())
          else if message_exists (dm_store s) (fh_message_id hdr)
          then (send_ack C ans s channel_id (fh_message_id hdr), Inr ())
          else
            (case insert_message en (dm_store s)
                    \<lparr>sm_message_id = fh_message_id hdr, sm_sender_id = fh_sender_id hdr,
                     sm_delivery_frame = body, sm_persistence = persistence,
                     sm_delivered = False, sm_replicated = False, sm_received_at_ms = now_ms,
                     sm_expires_at = (if persistence = ''pass_through'' then now_s + ic_passthrough_timeout_s cfg else 0)\<rparr> of
               (db, Inl e) \<Rightarrow> (s\<lparr>dm_store := db\<rparr>, Inl e)
             | (db, Inr False) \<Rightarrow> (s\<lparr>dm_store := db\<rparr>, Inr ())
             | (db, Inr True) \<Rightarrow>
                 let s1 = send_ack C ans (s\<lparr>dm_store := db\<rparr>) channel_id (fh_message_id hdr);
                     s2 = push_available s1 (fh_message_id hdr) (fh_sender_id hdr)
                 in (if persistence \<noteq> ''pass_through'' then replicate_to_siblings C ans s2 (fh_message_id hdr) else s2,
                     Inr ())))"

definition process_delivery_frame ::
  "bool \<Rightarrow> cbor_lib \<Rightarrow> answers \<Rightarrow> inbox_config \<Rightarrow> int \<Rightarrow> int \<Rightarrow> inbox \<Rightarrow> string \<Rightarrow> bytes \<Rightarrow> inbox \<times> unit res" where
  "process_delivery_frame en C ans cfg now_s now_ms s channel_id body =
     (case cbor_load C body of
        None \<Rightarrow> (s, Inr ())
      | Some root \<Rightarrow>
          let ty = frame_type_of (map_items root) in
          if ty = ''inbox_replication_frame'' then handle_replication_frame en C now_ms s body
          else if ty = ''outbox_poll'' then (handle_outbox_poll C ans s channel_id, Inr ())
          else if ty = ''inbox_replicate_ack'' \<or> ty = ''outbox_poll_ack'' \<or> ty = ''outbox_poll_response'' then (s, Inr ())
          else deliver_frame en C ans cfg now_s now_ms s channel_id body)"

text \<open>The push handler; the receive loop swallows an exception.\<close>

definition on_ar_push ::
  "bool \<Rightarrow> cbor_lib \<Rightarrow> inbox_config \<Rightarrow> int \<Rightarrow> int \<Rightarrow> inbox \<Rightarrow> string \<Rightarrow> cmap \<Rightarrow> inbox" where
  "on_ar_push en C cfg now_s now_ms s event payload =
     (if event \<noteq> ''frame.recv'' then s
      else case (map_of payload ''channel_id'', map_of payload ''payload'') of
             (Some (VString ci), Some (VBytes b)) \<Rightarrow>
               fst (process_delivery_frame en C recv_thread_ans cfg now_s now_ms s ci b)
           | _ \<Rightarrow> s)"

subsection \<open>Start-up and maintenance\<close>

text \<open>One known outbox; \<open>oob\<close> is what lies in memory behind a key shorter than eight bytes.\<close>

definition poll_one :: "cbor_lib \<Rightarrow> answers \<Rightarrow> int \<Rightarrow> bytes \<Rightarrow> dht_credentials \<Rightarrow> inbox \<Rightarrow> known_outbox \<Rightarrow> inbox" where
  "poll_one C ans now_s oob creds s ob =
     (if ko_expires_at ob > 0 \<and> ko_expires_at ob < now_s then s
      else case ensure_channel ans s (to_hex (ko_key_c_pubkey ob)) of
             (s1, Inl _) \<Rightarrow> s1
           | (s1, Inr chan) \<Rightarrow>
               (case cbor_serialize C (definite_map C 3 (str_fields
                       [(''type'', build_string ''outbox_poll''), (''inbox_key_c_pubkey'', CBytes (cr_key_c_pubkey creds)),
                        (''nonce'', CBytes (take 8 (cr_key_c_pubkey creds @ oob)))])) of
                  None \<Rightarrow> s1
                | Some payload \<Rightarrow> send_quietly ans s1 chan payload))"

definition poll_known_outboxes :: "cbor_lib \<Rightarrow> answers \<Rightarrow> int \<Rightarrow> bytes \<Rightarrow> inbox \<Rightarrow> inbox" where
  "poll_known_outboxes C ans now_s oob s =
     (case get_dht_credentials (dm_store s) of
        None \<Rightarrow> s
      | Some creds \<Rightarrow> foldl (poll_one C ans now_s oob creds) s (list_known_outboxes (dm_store s)))"

definition inbox_start :: "cbor_lib \<Rightarrow> answers \<Rightarrow> int \<Rightarrow> bytes \<Rightarrow> inbox \<Rightarrow> inbox" where
  "inbox_start C ans now_s oob s =
     (let s1 = poll_known_outboxes C ans now_s oob s
      in foldl (\<lambda>s m. push_available s (sm_message_id m) (sm_sender_id m)) s1 (get_pending (dm_store s1) True))"

definition inbox_maintenance :: "cbor_lib \<Rightarrow> answers \<Rightarrow> int \<Rightarrow> inbox \<Rightarrow> inbox" where
  "inbox_maintenance C ans now_s s =
     (let s1 = s\<lparr>dm_store := delete_expired (dm_store s) now_s\<rparr>
      in foldl (\<lambda>s m. if sm_replicated m then s else replicate_to_siblings C ans s (sm_message_id m)) s1
           (get_pending (dm_store s1) False))"

text \<open>\<^verbatim>\<open>guard_info\<close>: the router's channel list, or a notice that it is unavailable.\<close>

definition inbox_guard_info :: "answers \<Rightarrow> inbox \<Rightarrow> inbox \<times> cmap" where
  "inbox_guard_info ans s =
     (case ar_call ans s ''channel.list'' [] of
        (s1, Inr r) \<Rightarrow> (s1, r)
      | (s1, Inl _) \<Rightarrow> (s1, cmap_of [(''error'', VString ''anonrouter unavailable'')]))"

subsection \<open>Requests of the client\<close>

definition ipc_get_pending :: "inbox_store \<Rightarrow> cmap" where
  "ipc_get_pending db = cmap_of [(''message_ids'', VArray (map (\<lambda>m. VString (sm_message_id m)) (get_pending db True)))]"

definition ipc_get_message :: "inbox_store \<Rightarrow> cmap \<Rightarrow> cmap res" where
  "ipc_get_message db p =
     rbind (req_string p ''message_id'') (\<lambda>i.
       case get_message db i of
         None \<Rightarrow> Inl (Runtime_Error (''message not found: '' @ i))
       | Some m \<Rightarrow> Inr (cmap_of
           [(''message_id'', VString (sm_message_id m)), (''sender_id'', VString (sm_sender_id m)),
            (''delivery_frame'', VBytes (sm_delivery_frame m)), (''persistence'', VString (sm_persistence m))]))"

definition ack :: "int \<Rightarrow> inbox_store \<Rightarrow> cmap \<Rightarrow> inbox_store \<times> cmap res" where
  "ack now_s db p =
     (case req_string p ''message_id'' of
        Inl e \<Rightarrow> (db, Inl e)
      | Inr i \<Rightarrow>
          (case get_message db i of
             None \<Rightarrow> (db, Inl (Runtime_Error (''message not found: '' @ i)))
           | Some m \<Rightarrow>
               (if sm_persistence m = ''pass_through'' then delete_message db i
                else mark_delivered db i (now_s + get_retention_days db * 86400),
                Inr (cmap_of [(''message_id'', VString i), (''ok'', VBool True)]))))"

text \<open>A store operation that may throw, answered with \<^verbatim>\<open>ok\<close>.\<close>

definition stored :: "inbox_store \<Rightarrow> inbox_store res \<Rightarrow> inbox_store \<times> cmap res" where
  "stored db r = (case r of Inl e \<Rightarrow> (db, Inl e) | Inr db' \<Rightarrow> (db', Inr ok_result))"

definition update_dht_delegation :: "bool \<Rightarrow> inbox_store \<Rightarrow> cmap \<Rightarrow> inbox_store \<times> cmap res" where
  "update_dht_delegation en db p = stored db
     (rbind (req_bytes p ''key_c_pubkey'') (\<lambda>pub. rbind (req_bytes p ''key_c_privkey'') (\<lambda>priv.
      rbind (req_bytes p ''auth_cert'') (\<lambda>cert. rbind (req_bytes p ''delegation_cert'') (\<lambda>deleg.
        set_dht_credentials en db \<lparr>cr_key_c_pubkey = pub, cr_key_c_privkey = priv, cr_auth_cert = cert,
          cr_delegation_cert = deleg\<rparr>)))))"

definition outbox_entry :: "cval \<Rightarrow> known_outbox option" where
  "outbox_entry v =
     (case v of
        VMap m \<Rightarrow>
          (case (map_of m ''key_c_pubkey'', map_of m ''auth_cert'') of
             (Some (VBytes k), Some (VBytes a)) \<Rightarrow>
               Some \<lparr>ko_key_c_pubkey = k, ko_auth_cert = a,
                     ko_expires_at = (case map_of m ''expires_at'' of Some (VUint u) \<Rightarrow> int64_of u | _ \<Rightarrow> 0)\<rparr>
           | _ \<Rightarrow> None)
      | _ \<Rightarrow> None)"

definition update_contact_outboxes :: "bool \<Rightarrow> inbox_store \<Rightarrow> cmap \<Rightarrow> inbox_store \<times> cmap res" where
  "update_contact_outboxes en db p = stored db
     (case map_of p ''outboxes'' of
        Some (VArray arr) \<Rightarrow> replace_known_outboxes en db (List.map_filter outbox_entry arr)
      | _ \<Rightarrow> Inl (Runtime_Error ''outboxes must be an array''))"

definition update_sender_allowlist :: "inbox_store \<Rightarrow> cmap \<Rightarrow> inbox_store \<times> cmap res" where
  "update_sender_allowlist db p = stored db
     (case map_of p ''sender_ids'' of
        Some (VArray arr) \<Rightarrow>
          replace_allowed_senders db (List.map_filter (\<lambda>v. case v of VString s \<Rightarrow> Some s | _ \<Rightarrow> None) arr)
      | _ \<Rightarrow> Inl (Runtime_Error ''sender_ids must be an array''))"

definition add_sibling :: "bool \<Rightarrow> inbox_store \<Rightarrow> cmap \<Rightarrow> inbox_store \<times> cmap res" where
  "add_sibling en db p = stored db
     (rbind (req_bytes p ''key_c_pubkey'') (\<lambda>k. rbind (req_bytes p ''auth_cert'') (\<lambda>a.
        upsert_sibling en db \<lparr>sb_device_id = opt_string p ''device_id'', sb_key_c_pubkey = k, sb_auth_cert = a,
          sb_channel_id = [], sb_last_seen_ms = 0\<rparr>)))"

definition ipc_remove_sibling :: "inbox_store \<Rightarrow> cmap \<Rightarrow> inbox_store \<times> cmap res" where
  "ipc_remove_sibling db p = stored db
     (rbind (req_string p ''device_id'') (\<lambda>d. Inr (remove_sibling db d)))"

text \<open>\<^verbatim>\<open>static_cast<int>\<close> of a 64-bit value keeps its low 32 bits.\<close>

definition ipc_set_retention_days :: "inbox_store \<Rightarrow> cmap \<Rightarrow> inbox_store \<times> cmap res" where
  "ipc_set_retention_days db p = stored db
     (case map_of p ''days'' of
        Some (VUint u) \<Rightarrow>
          let days = sint (ucast u :: u32)
          in if days < 1 \<or> days > 365 then Inl (Runtime_Error ''days out of range'')
             else Inr (set_retention_days db days)
      | _ \<Rightarrow> Inl (Runtime_Error ''days must be uint''))"

definition status :: "inbox_store \<Rightarrow> cmap" where
  "status db = cmap_of
     [(''pending_count'', VUint (of_nat (length (get_pending db True)))),
      (''has_credentials'', VBool (get_dht_credentials db \<noteq> None)),
      (''renewal_needed'', VBool False)]"

text \<open>A request that only touches the store.\<close>

definition on_store :: "inbox \<Rightarrow> inbox_store \<times> cmap res \<Rightarrow> inbox \<times> cmap res" where
  "on_store s r = (s\<lparr>dm_store := fst r\<rparr>, snd r)"

definition inbox_handle :: "bool \<Rightarrow> answers \<Rightarrow> int \<Rightarrow> inbox \<Rightarrow> string \<Rightarrow> cmap \<Rightarrow> inbox \<times> cmap res" where
  "inbox_handle en ans now_s s m p =
     (let db = dm_store s in
      if m = ''inbox.get_pending'' then (s, Inr (ipc_get_pending db))
      else if m = ''inbox.get'' then (s, ipc_get_message db p)
      else if m = ''inbox.ack'' then on_store s (ack now_s db p)
      else if m = ''inbox.guard_info'' then (case inbox_guard_info ans s of (s', r) \<Rightarrow> (s', Inr r))
      else if m = ''inbox.update_dht_delegation'' then on_store s (update_dht_delegation en db p)
      else if m = ''inbox.update_contact_outboxes'' then on_store s (update_contact_outboxes en db p)
      else if m = ''inbox.update_sender_allowlist'' then on_store s (update_sender_allowlist db p)
      else if m = ''inbox.add_sibling'' then on_store s (add_sibling en db p)
      else if m = ''inbox.remove_sibling'' then on_store s (ipc_remove_sibling db p)
      else if m = ''inbox.set_retention_days'' then on_store s (ipc_set_retention_days db p)
      else if m = ''inbox.status'' then (s, Inr (status db))
      else (s, Inl (Runtime_Error (''unknown method: '' @ m))))"

end
