(* ===== verification/Outbox_Store.thy ===== *)
theory Outbox_Store
  imports Sql
begin

text \<open>
  The outbox's database (\<^verbatim>\<open>outbox/src/store.hpp\<close>, \<^verbatim>\<open>store.cpp\<close>): one list of rows per table.
  The tables \<^verbatim>\<open>broadcast_recipients\<close> and \<^verbatim>\<open>delivery_attempts\<close> are created and never used.
\<close>

datatype msg_status = MS_PENDING | MS_DELIVERED | MS_EXPIRED | MS_CANCELLED

record queued_message =
  qm_message_id :: string
  qm_recipient_key_b_kem_pubkey_hex :: string
  qm_delivery_frame :: bytes
  qm_priority :: int
  qm_enqueued_at_ms :: int
  qm_expires_at_ms :: int
  qm_status :: msg_status
  qm_attempt_count :: int
  qm_next_attempt_at :: int

definition default_queued_message :: queued_message where
  "default_queued_message = \<lparr>qm_message_id = [], qm_recipient_key_b_kem_pubkey_hex = [], qm_delivery_frame = [],
     qm_priority = 0, qm_enqueued_at_ms = 0, qm_expires_at_ms = 0, qm_status = MS_PENDING, qm_attempt_count = 0,
     qm_next_attempt_at = 0\<rparr>"

record recipient_inbox =
  ri_message_id :: string
  ri_key_c_pubkey :: bytes
  ri_auth_cert :: bytes

record sibling_outbox =
  so_device_id :: string
  so_key_c_pubkey :: bytes
  so_auth_cert :: bytes
  so_channel_id :: string
  so_last_seen_ms :: int

record inbox_hint =
  ih_recipient_key_b_kem_pubkey_hex :: string
  ih_inbox_key_c_pubkey :: bytes
  ih_guard_node_id :: string
  ih_guard_endpoint :: string
  ih_session_token_expires :: int

record auth_creds =
  ac_key_c_pubkey :: bytes
  ac_key_c_privkey :: bytes
  ac_auth_cert :: bytes

record outbox_store =
  os_messages :: "queued_message list"
  os_recipients :: "recipient_inbox list"
  os_siblings :: "sibling_outbox list"
  os_hints :: "inbox_hint list"
  os_config :: "(string \<times> bytes) list"

definition outbox_store_new :: outbox_store where
  "outbox_store_new = \<lparr>os_messages = [], os_recipients = [], os_siblings = [], os_hints = [], os_config = []\<rparr>"

subsection \<open>queued\_messages\<close>

definition message_exists :: "outbox_store \<Rightarrow> string \<Rightarrow> bool" where
  "message_exists db i \<longleftrightarrow> i \<in> qm_message_id ` set (os_messages db)"

definition insert_message :: "bool \<Rightarrow> outbox_store \<Rightarrow> queued_message \<Rightarrow> outbox_store \<times> bool res" where
  "insert_message en db msg =
     (if message_exists db (qm_message_id msg) then (db, Inr False)
      else if null_blob en (qm_delivery_frame msg) then (db, Inl constraint_error)
      else case sql_insert qm_message_id msg (os_messages db) of
             Inl e \<Rightarrow> (db, Inl e)
           | Inr t \<Rightarrow> (db\<lparr>os_messages := t\<rparr>, Inr True))"

definition row_to_msg :: "queued_message \<Rightarrow> queued_message" where
  "row_to_msg m = m\<lparr>qm_message_id := c_str (qm_message_id m),
     qm_recipient_key_b_kem_pubkey_hex := c_str (qm_recipient_key_b_kem_pubkey_hex m)\<rparr>"

definition get_message :: "outbox_store \<Rightarrow> string \<Rightarrow> queued_message option" where
  "get_message db i = map_option row_to_msg (find (\<lambda>m. qm_message_id m = i) (os_messages db))"

definition list_pending :: "outbox_store \<Rightarrow> queued_message list" where
  "list_pending db = map row_to_msg (filter (\<lambda>m. qm_status m = MS_PENDING) (os_messages db))"

definition is_due :: "int \<Rightarrow> queued_message \<Rightarrow> bool" where
  "is_due now m \<longleftrightarrow> qm_status m = MS_PENDING \<and> qm_next_attempt_at m > 0 \<and> qm_next_attempt_at m \<le> now"

definition list_due :: "outbox_store \<Rightarrow> int \<Rightarrow> queued_message list" where
  "list_due db now = map row_to_msg (filter (is_due now) (os_messages db))"

definition set_status :: "outbox_store \<Rightarrow> string \<Rightarrow> msg_status \<Rightarrow> outbox_store" where
  "set_status db i st = db\<lparr>os_messages :=
     sql_update (\<lambda>m. qm_message_id m = i) (\<lambda>m. m\<lparr>qm_status := st\<rparr>) (os_messages db)\<rparr>"

definition update_attempt :: "outbox_store \<Rightarrow> string \<Rightarrow> int \<Rightarrow> int \<Rightarrow> outbox_store" where
  "update_attempt db i count next_at = db\<lparr>os_messages :=
     sql_update (\<lambda>m. qm_message_id m = i) (\<lambda>m. m\<lparr>qm_attempt_count := count, qm_next_attempt_at := next_at\<rparr>)
       (os_messages db)\<rparr>"

definition delete_message :: "outbox_store \<Rightarrow> string \<Rightarrow> outbox_store" where
  "delete_message db i = db\<lparr>os_messages := sql_delete (\<lambda>m. qm_message_id m = i) (os_messages db)\<rparr>"

definition expire_messages :: "outbox_store \<Rightarrow> int \<Rightarrow> outbox_store" where
  "expire_messages db now = db\<lparr>os_messages :=
     sql_update (\<lambda>m. qm_status m = MS_PENDING \<and> qm_expires_at_ms m > 0 \<and> qm_expires_at_ms m < now)
       (\<lambda>m. m\<lparr>qm_status := MS_EXPIRED\<rparr>) (os_messages db)\<rparr>"

subsection \<open>recipient\_inboxes\<close>

definition ri_key :: "recipient_inbox \<Rightarrow> string \<times> bytes" where
  "ri_key r = (ri_message_id r, ri_key_c_pubkey r)"

text \<open>\<^verbatim>\<open>INSERT OR IGNORE\<close>: a row that violates a constraint is skipped without an error.\<close>

definition add_recipient_inbox :: "bool \<Rightarrow> outbox_store \<Rightarrow> recipient_inbox \<Rightarrow> outbox_store" where
  "add_recipient_inbox en db r =
     (if null_blob en (ri_key_c_pubkey r) \<or> null_blob en (ri_auth_cert r) then db
      else db\<lparr>os_recipients := sql_insert_or_ignore ri_key r (os_recipients db)\<rparr>)"

definition get_recipient_inboxes :: "outbox_store \<Rightarrow> string \<Rightarrow> recipient_inbox list" where
  "get_recipient_inboxes db i = map (\<lambda>r. r\<lparr>ri_message_id := c_str (ri_message_id r)\<rparr>)
     (filter (\<lambda>r. ri_message_id r = i) (os_recipients db))"

text \<open>A comparison with NULL selects no row.\<close>

definition is_valid_recipient_inbox :: "bool \<Rightarrow> outbox_store \<Rightarrow> string \<Rightarrow> bytes \<Rightarrow> bool" where
  "is_valid_recipient_inbox en db i k \<longleftrightarrow> \<not> null_blob en k \<and> (i, k) \<in> ri_key ` set (os_recipients db)"

subsection \<open>sibling\_outboxes\<close>

definition upsert_sibling :: "bool \<Rightarrow> outbox_store \<Rightarrow> sibling_outbox \<Rightarrow> outbox_store res" where
  "upsert_sibling en db sib =
     (if null_blob en (so_key_c_pubkey sib) \<or> null_blob en (so_auth_cert sib) then Inl constraint_error
      else Inr (db\<lparr>os_siblings := sql_replace so_device_id sib (os_siblings db)\<rparr>))"

definition remove_sibling :: "outbox_store \<Rightarrow> string \<Rightarrow> outbox_store" where
  "remove_sibling db d = db\<lparr>os_siblings := sql_delete (\<lambda>s. so_device_id s = d) (os_siblings db)\<rparr>"

definition list_siblings :: "outbox_store \<Rightarrow> sibling_outbox list" where
  "list_siblings db = map (\<lambda>s. s\<lparr>so_device_id := c_str (so_device_id s), so_channel_id := c_str (so_channel_id s)\<rparr>)
     (os_siblings db)"

definition set_sibling_channel :: "outbox_store \<Rightarrow> string \<Rightarrow> string \<Rightarrow> outbox_store" where
  "set_sibling_channel db d c = db\<lparr>os_siblings :=
     sql_update (\<lambda>s. so_device_id s = d) (\<lambda>s. s\<lparr>so_channel_id := c\<rparr>) (os_siblings db)\<rparr>"

subsection \<open>Hints\<close>

definition upsert_inbox_hint :: "bool \<Rightarrow> outbox_store \<Rightarrow> inbox_hint \<Rightarrow> outbox_store res" where
  "upsert_inbox_hint en db h =
     (if null_blob en (ih_inbox_key_c_pubkey h) then Inl constraint_error
      else Inr (db\<lparr>os_hints := sql_replace (\<lambda>h. (ih_recipient_key_b_kem_pubkey_hex h, ih_inbox_key_c_pubkey h)) h
                   (os_hints db)\<rparr>))"

definition get_hints :: "outbox_store \<Rightarrow> string \<Rightarrow> inbox_hint list" where
  "get_hints db key_b_hex = map (\<lambda>h. h\<lparr>ih_recipient_key_b_kem_pubkey_hex := c_str (ih_recipient_key_b_kem_pubkey_hex h),
       ih_guard_node_id := c_str (ih_guard_node_id h), ih_guard_endpoint := c_str (ih_guard_endpoint h)\<rparr>)
     (filter (\<lambda>h. ih_recipient_key_b_kem_pubkey_hex h = key_b_hex) (os_hints db))"

subsection \<open>Credentials\<close>

definition set_config :: "bool \<Rightarrow> outbox_store \<Rightarrow> string \<Rightarrow> bytes \<Rightarrow> outbox_store \<times> unit res" where
  "set_config en db k v =
     (if null_blob en v then (db, Inl constraint_error)
      else (db\<lparr>os_config := sql_replace fst (k, v) (os_config db)\<rparr>, Inr ()))"

text \<open>Three statements outside a transaction: an error leaves what was written before it.\<close>

definition set_auth_cert :: "bool \<Rightarrow> outbox_store \<Rightarrow> bytes \<Rightarrow> bytes \<Rightarrow> bytes \<Rightarrow> outbox_store \<times> unit res" where
  "set_auth_cert en db pub priv cert =
     (case set_config en db ''key_c_pubkey'' pub of
        (db1, Inl e) \<Rightarrow> (db1, Inl e)
      | (db1, Inr _) \<Rightarrow>
          (case set_config en db1 ''key_c_privkey'' priv of
             (db2, Inl e) \<Rightarrow> (db2, Inl e)
           | (db2, Inr _) \<Rightarrow> set_config en db2 ''auth_cert'' cert))"

definition get_auth_creds :: "outbox_store \<Rightarrow> auth_creds option" where
  "get_auth_creds db =
     (let fetch = (\<lambda>k. case map_of (os_config db) k of Some v \<Rightarrow> v | None \<Rightarrow> []);
          c = \<lparr>ac_key_c_pubkey = fetch ''key_c_pubkey'', ac_key_c_privkey = fetch ''key_c_privkey'',
               ac_auth_cert = fetch ''auth_cert''\<rparr>
      in if ac_key_c_pubkey c = [] \<or> ac_auth_cert c = [] then None else Some c)"

subsection \<open>The message table refuses duplicates\<close>

interpretation outbox_msgs: dedup_table "insert_message en" os_messages qm_message_id
  by unfold_locales (auto simp: insert_message_def message_exists_def sql_insert_def)

end
