(* ===== verification/Outbox.thy ===== *)
theory Outbox
  imports Outbox_Store Daemon
begin

text \<open>
  The outbox daemon (\<^verbatim>\<open>outbox/src/outbox.cpp\<close>, \<^verbatim>\<open>frame_parser.cpp\<close>, \<^verbatim>\<open>ipc_handler.cpp\<close>): requests
  from the client, attempts and retries, frames from the network. Clock readings are arguments;
  \<open>en\<close> is the flag of the database layer, \<open>ans\<close> the router's answers. Times are 64-bit, the
  sum with a requested lifetime wraps.
\<close>

type_synonym outbox = "outbox_store daemon"

record outbox_config =
  oc_default_ttl_days :: int
  oc_retry_window_s :: int
  oc_max_retries :: int

definition default_outbox_config :: outbox_config where
  "default_outbox_config = \<lparr>oc_default_ttl_days = 7, oc_retry_window_s = 600, oc_max_retries = 3\<rparr>"

subsection \<open>Frame header\<close>

record delivery_frame_header =
  dh_message_id :: string
  dh_recipient_key_b_kem_pubkey_hex :: string
  dh_sender_outbox_key_c_pubkey_hex :: string

definition delivery_field :: "delivery_frame_header \<Rightarrow> cbor \<times> cbor \<Rightarrow> delivery_frame_header" where
  "delivery_field h kv =
     (case kv of
        (CText k, CBytes b) \<Rightarrow>
          if k = ''message_id'' \<and> length b = 16 then h\<lparr>dh_message_id := to_hex b\<rparr>
          else if k = ''recipient_key_b_kem_pubkey'' then h\<lparr>dh_recipient_key_b_kem_pubkey_hex := to_hex b\<rparr>
          else if k = ''sender_outbox_key_c_pubkey'' then h\<lparr>dh_sender_outbox_key_c_pubkey_hex := to_hex b\<rparr>
          else h
      | _ \<Rightarrow> h)"

definition parse_delivery_frame :: "cbor_lib \<Rightarrow> bytes \<Rightarrow> delivery_frame_header option" where
  "parse_delivery_frame C fr =
     (case cbor_load C fr of
        Some (CMap ps) \<Rightarrow>
          let h = foldl delivery_field \<lparr>dh_message_id = [], dh_recipient_key_b_kem_pubkey_hex = [],
                    dh_sender_outbox_key_c_pubkey_hex = []\<rparr> ps
          in if dh_message_id h \<noteq> [] then Some h else None
      | _ \<Rightarrow> None)"

subsection \<open>Channels and attempts\<close>

text \<open>
  The entries of \<^verbatim>\<open>channel.list\<close> in turn: \<^verbatim>\<open>st->second.as_string()\<close> throws when the state of a
  channel to the key is not a string.
\<close>

primrec find_open :: "string \<Rightarrow> cval list \<Rightarrow> string option res" where
  "find_open key_hex [] = Inr None"
| "find_open key_hex (cv # cvs) =
     (case cv of
        VMap m \<Rightarrow>
          if map_of m ''remote_pubkey'' = Some (VString key_hex)
          then (case map_of m ''state'' of
                  None \<Rightarrow> find_open key_hex cvs
                | Some st \<Rightarrow> rbind (as_string st) (\<lambda>st.
                    if st = ''open''
                    then (case map_of m ''channel_id'' of
                            None \<Rightarrow> find_open key_hex cvs
                          | Some ci \<Rightarrow> rbind (as_string ci) (\<lambda>c. Inr (Some c)))
                    else find_open key_hex cvs))
          else find_open key_hex cvs
      | _ \<Rightarrow> find_open key_hex cvs)"

definition ensure_channel :: "answers \<Rightarrow> outbox \<Rightarrow> string \<Rightarrow> outbox \<times> string res" where
  "ensure_channel ans s key_hex =
     (case ar_call ans s ''channel.list'' [] of
        (s1, Inl e) \<Rightarrow> (s1, Inl e)
      | (s1, Inr result) \<Rightarrow>
          (case map_of result ''channels'' of
             Some (VArray arr) \<Rightarrow>
               (case find_open key_hex arr of
                  Inl e \<Rightarrow> (s1, Inl e)
                | Inr (Some c) \<Rightarrow> (s1, Inr c)
                | Inr None \<Rightarrow> open_channel ans s1 key_hex)
           | _ \<Rightarrow> open_channel ans s1 key_hex))"

text \<open>An attempt succeeds when nothing throws; the router's answer is not looked at.\<close>

definition attempt_delivery :: "answers \<Rightarrow> outbox \<Rightarrow> queued_message \<Rightarrow> recipient_inbox \<Rightarrow> outbox \<times> bool" where
  "attempt_delivery ans s msg ri =
     (case ensure_channel ans s (to_hex (ri_key_c_pubkey ri)) of
        (s1, Inl _) \<Rightarrow> (s1, False)
      | (s1, Inr chan) \<Rightarrow>
          (case ar_call ans s1 ''frame.send'' (frame_send_params chan (qm_delivery_frame msg)) of
             (s2, r) \<Rightarrow> (s2, \<not> isl r)))"

text \<open>The recipients in turn until an attempt succeeds.\<close>

primrec attempt_any :: "answers \<Rightarrow> queued_message \<Rightarrow> recipient_inbox list \<Rightarrow> outbox \<Rightarrow> outbox \<times> bool" where
  "attempt_any ans msg [] s = (s, False)"
| "attempt_any ans msg (ri # ris) s =
     (case attempt_delivery ans s msg ri of
        (s1, True) \<Rightarrow> (s1, True)
      | (s1, False) \<Rightarrow> attempt_any ans msg ris s1)"

definition startup_burst :: "answers \<Rightarrow> outbox \<Rightarrow> outbox" where
  "startup_burst ans s = foldl (\<lambda>s msg.
     fst (attempt_any ans msg (get_recipient_inboxes (dm_store s) (qm_message_id msg)) s)) s (list_pending (dm_store s))"

text \<open>\<^verbatim>\<open>int64_t(60) * (1 << std::min(count - 1, 4)) * 1000\<close>, for \<open>count \<ge> 1\<close>.\<close>

definition backoff_ms :: "int \<Rightarrow> int" where
  "backoff_ms count = 60 * 2 ^ nat (min (count - 1) 4) * 1000"

text \<open>One sibling; every exception is caught.\<close>

definition replicate_one ::
  "cbor_lib \<Rightarrow> answers \<Rightarrow> string \<Rightarrow> queued_message \<Rightarrow> recipient_inbox list \<Rightarrow> outbox \<Rightarrow> sibling_outbox \<Rightarrow> outbox" where
  "replicate_one C ans message_id msg inboxes s sib =
     (case ensure_channel ans s (to_hex (so_key_c_pubkey sib)) of
        (s1, Inl _) \<Rightarrow> s1
      | (s1, Inr chan) \<Rightarrow>
          (case cbor_serialize C (definite_map C 5 (str_fields
                  [(''type'', build_string ''outbox_replication_frame''), (''message_id'', build_string message_id),
                   (''delivery_frame'', CBytes (qm_delivery_frame msg)),
                   (''expires_at'', build_uint64 (u64_of_int64 (qm_expires_at_ms msg))),
                   (''recipient_inboxes'', definite_array C (length inboxes) (map (\<lambda>ri. definite_map C 2 (str_fields
                      [(''inbox_key_c_pubkey'', CBytes (ri_key_c_pubkey ri)), (''auth_cert'', CBytes (ri_auth_cert ri))]))
                      inboxes))])) of
             None \<Rightarrow> s1
           | Some payload \<Rightarrow> send_quietly ans s1 chan payload))"

definition replicate_to_siblings :: "cbor_lib \<Rightarrow> answers \<Rightarrow> outbox \<Rightarrow> string \<Rightarrow> outbox" where
  "replicate_to_siblings C ans s message_id =
     (case get_message (dm_store s) message_id of
        None \<Rightarrow> s
      | Some msg \<Rightarrow>
          foldl (replicate_one C ans message_id msg (get_recipient_inboxes (dm_store s) message_id)) s
            (list_siblings (dm_store s)))"

definition immediate_attempt :: "cbor_lib \<Rightarrow> answers \<Rightarrow> outbox_config \<Rightarrow> int \<Rightarrow> outbox \<Rightarrow> string \<Rightarrow> outbox" where
  "immediate_attempt C ans cfg t s message_id =
     (case get_message (dm_store s) message_id of
        None \<Rightarrow> s
      | Some msg \<Rightarrow>
          if qm_status msg \<noteq> MS_PENDING then s
          else
            (case attempt_any ans msg (get_recipient_inboxes (dm_store s) message_id) s of (s1, ok) \<Rightarrow>
               let count = qm_attempt_count msg + 1;
                   next_at = (if t - qm_enqueued_at_ms msg + backoff_ms count > oc_retry_window_s cfg * 1000
                                 \<or> count \<ge> oc_max_retries cfg then 0 else t + backoff_ms count);
                   s2 = (if ok then s1 else s1\<lparr>dm_store := update_attempt (dm_store s1) message_id count next_at\<rparr>)
               in replicate_to_siblings C ans s2 message_id))"

text \<open>
  One message of a pass of the retry loop; the clock is read once for the elapsed time and once
  for the next attempt.
\<close>

definition retry_one :: "answers \<Rightarrow> outbox_config \<Rightarrow> int \<times> int \<Rightarrow> outbox \<Rightarrow> queued_message \<Rightarrow> outbox" where
  "retry_one ans cfg clk s msg =
     (case attempt_any ans msg (get_recipient_inboxes (dm_store s) (qm_message_id msg)) s of (s1, ok) \<Rightarrow>
        let count = qm_attempt_count msg + 1;
            next_at = (if fst clk - qm_enqueued_at_ms msg > oc_retry_window_s cfg * 1000 \<or> count \<ge> oc_max_retries cfg
                       then 0 else snd clk + backoff_ms count)
        in if ok then s1 else s1\<lparr>dm_store := update_attempt (dm_store s1) (qm_message_id msg) count next_at\<rparr>)"

definition retry_pass :: "answers \<Rightarrow> outbox_config \<Rightarrow> int \<Rightarrow> (nat \<Rightarrow> int \<times> int) \<Rightarrow> outbox \<Rightarrow> outbox" where
  "retry_pass ans cfg now clk s =
     foldl (\<lambda>s (n, msg). retry_one ans cfg (clk n) s msg) s (enumerate 0 (list_due (dm_store s) now))"

definition outbox_maintenance :: "int \<Rightarrow> outbox \<Rightarrow> outbox" where
  "outbox_maintenance t s = s\<lparr>dm_store := expire_messages (dm_store s) t\<rparr>"

subsection \<open>Frames from the network\<close>

definition push_delivered :: "outbox \<Rightarrow> string \<Rightarrow> outbox" where
  "push_delivered s i = dm_push (s\<lparr>dm_store := set_status (dm_store s) i MS_DELIVERED\<rparr>) ''outbox.status_update''
     [(''message_id'', VString i), (''status'', VString ''delivered'')]"

definition handle_delivery_ack :: "bool \<Rightarrow> cbor_lib \<Rightarrow> outbox \<Rightarrow> bytes \<Rightarrow> outbox" where
  "handle_delivery_ack en C s body =
     (case cbor_load C body of
        None \<Rightarrow> s
      | Some root \<Rightarrow>
          let i = last_text (map_items root) ''message_id'';
              k = last_bytes (map_items root) ''inbox_key_c_pubkey''
          in if i = [] \<or> k = [] then s
             else if \<not> is_valid_recipient_inbox en (dm_store s) i k then s
             else push_delivered s i)"

definition poll_ack_ids :: "(cbor \<times> cbor) list \<Rightarrow> string list" where
  "poll_ack_ids ps = concat (map (\<lambda>kv. case kv of
       (CText k, CArray items) \<Rightarrow>
         if k = ''message_ids'' then List.map_filter (\<lambda>x. case x of CText mid \<Rightarrow> Some mid | _ \<Rightarrow> None) items else []
     | _ \<Rightarrow> []) ps)"

definition handle_poll_ack :: "cbor_lib \<Rightarrow> outbox \<Rightarrow> bytes \<Rightarrow> outbox" where
  "handle_poll_ack C s body =
     (case cbor_load C body of
        None \<Rightarrow> s
      | Some root \<Rightarrow> foldl push_delivered s (poll_ack_ids (map_items root)))"

definition handle_poll :: "bool \<Rightarrow> cbor_lib \<Rightarrow> answers \<Rightarrow> outbox \<Rightarrow> string \<Rightarrow> bytes \<Rightarrow> outbox" where
  "handle_poll en C ans s channel_id body =
     (case cbor_load C body of
        None \<Rightarrow> s
      | Some root \<Rightarrow>
          let k = last_bytes (map_items root) ''inbox_key_c_pubkey''
          in if k = [] then s
             else case cbor_serialize C (poll_response C (map (\<lambda>m. (qm_message_id m, qm_delivery_frame m))
                      (filter (\<lambda>m. is_valid_recipient_inbox en (dm_store s) (qm_message_id m) k)
                        (list_pending (dm_store s))))) of
                    None \<Rightarrow> s
                  | Some payload \<Rightarrow> send_quietly ans s channel_id payload)"

definition on_frame :: "bool \<Rightarrow> cbor_lib \<Rightarrow> answers \<Rightarrow> outbox \<Rightarrow> string \<Rightarrow> bytes \<Rightarrow> outbox" where
  "on_frame en C ans s channel_id body =
     (case cbor_load C body of
        None \<Rightarrow> s
      | Some root \<Rightarrow>
          let ty = frame_type_of (map_items root) in
          if ty = ''delivery_ack'' then handle_delivery_ack en C s body
          else if ty = ''outbox_poll'' then handle_poll en C ans s channel_id body
          else if ty = ''outbox_poll_ack'' then handle_poll_ack C s body
          else s)"

definition on_ar_push :: "bool \<Rightarrow> cbor_lib \<Rightarrow> outbox \<Rightarrow> string \<Rightarrow> cmap \<Rightarrow> outbox" where
  "on_ar_push en C s event payload =
     (if event \<noteq> ''frame.recv'' then s
      else case (map_of payload ''channel_id'', map_of payload ''payload'') of
             (Some (VString ci), Some (VBytes b)) \<Rightarrow> on_frame en C recv_thread_ans s ci b
           | _ \<Rightarrow> s)"

subsection \<open>Requests of the client\<close>

definition week_ms :: int where
  "week_ms = 7 * 86400 * 1000"

definition recipient_entry :: "string \<Rightarrow> cval \<Rightarrow> recipient_inbox option" where
  "recipient_entry i v =
     (case v of
        VMap m \<Rightarrow>
          (case (map_of m ''key_c_pubkey'', map_of m ''auth_cert'') of
             (Some (VBytes k), Some (VBytes a)) \<Rightarrow> Some \<lparr>ri_message_id = i, ri_key_c_pubkey = k, ri_auth_cert = a\<rparr>
           | _ \<Rightarrow> None)
      | _ \<Rightarrow> None)"

definition queued :: "string \<Rightarrow> string \<Rightarrow> bytes \<Rightarrow> int \<Rightarrow> int \<Rightarrow> queued_message" where
  "queued i kb fr t expires = default_queued_message\<lparr>qm_message_id := i, qm_recipient_key_b_kem_pubkey_hex := kb,
     qm_delivery_frame := fr, qm_enqueued_at_ms := t, qm_expires_at_ms := expires, qm_next_attempt_at := t\<rparr>"

definition enqueue ::
  "bool \<Rightarrow> cbor_lib \<Rightarrow> answers \<Rightarrow> outbox_config \<Rightarrow> int \<Rightarrow> int \<Rightarrow> outbox \<Rightarrow> cmap \<Rightarrow> outbox \<times> cmap res" where
  "enqueue en C ans cfg t t' s p =
     (case req_bytes p ''delivery_frame'' of
        Inl e \<Rightarrow> (s, Inl e)
      | Inr fr \<Rightarrow>
          (case parse_delivery_frame C fr of
             None \<Rightarrow> (s, Inl (Runtime_Error ''malformed delivery_frame''))
           | Some hdr \<Rightarrow>
               let i = dh_message_id hdr;
                   inboxes = (case map_of p ''recipient_inboxes'' of
                                Some (VArray arr) \<Rightarrow> List.map_filter (recipient_entry i) arr | _ \<Rightarrow> []);
                   ttl = (case map_of p ''ttl_ms'' of Some (VUint u) \<Rightarrow> int64_of u | _ \<Rightarrow> week_ms)
               in case insert_message en (dm_store s) (queued i (dh_recipient_key_b_kem_pubkey_hex hdr) fr t
                         (int64_of (u64_of_int64 (t + ttl)))) of
                    (db, Inl e) \<Rightarrow> (s\<lparr>dm_store := db\<rparr>, Inl e)
                  | (db, Inr False) \<Rightarrow> (s\<lparr>dm_store := db\<rparr>, Inl (Runtime_Error ''DUPLICATE_MESSAGE_ID''))
                  | (db, Inr True) \<Rightarrow>
                      (immediate_attempt C ans cfg t' (s\<lparr>dm_store := foldl (add_recipient_inbox en) db inboxes\<rparr>) i,
                       Inr (cmap_of [(''message_id'', VString i), (''ok'', VBool True)]))))"

text \<open>The recipients of a broadcast in turn; \<open>clk n\<close> is the clock of the attempt for the \<open>n\<close>-th.\<close>

primrec broadcast_loop ::
  "bool \<Rightarrow> cbor_lib \<Rightarrow> answers \<Rightarrow> outbox_config \<Rightarrow> int \<Rightarrow> (nat \<Rightarrow> int) \<Rightarrow> bytes \<Rightarrow> string \<Rightarrow> cval list
     \<Rightarrow> outbox \<Rightarrow> string list \<Rightarrow> outbox \<times> string list res" where
  "broadcast_loop en C ans cfg t clk fr base [] s ids = (s, Inr ids)"
| "broadcast_loop en C ans cfg t clk fr base (v # vs) s ids =
     (let skip = broadcast_loop en C ans cfg t clk fr base vs s ids in
      case v of
        VMap m \<Rightarrow>
          (case map_of m ''recipient_key_b_kem_pubkey_hex'' of
             Some (VString kb) \<Rightarrow>
               let per_id = base @ ''_'' @ take 8 kb in
               (case insert_message en (dm_store s) (queued per_id kb fr t (t + week_ms)) of
                  (db, Inl e) \<Rightarrow> (s\<lparr>dm_store := db\<rparr>, Inl e)
                | (db, Inr False) \<Rightarrow> broadcast_loop en C ans cfg t clk fr base vs (s\<lparr>dm_store := db\<rparr>) ids
                | (db, Inr True) \<Rightarrow>
                    let db' = (case recipient_entry per_id v of
                                 Some ri \<Rightarrow> add_recipient_inbox en db ri | None \<Rightarrow> db);
                        s' = immediate_attempt C ans cfg (clk (length vs)) (s\<lparr>dm_store := db'\<rparr>) per_id
                    in broadcast_loop en C ans cfg t clk fr base vs s' (ids @ [per_id]))
           | _ \<Rightarrow> skip)
      | _ \<Rightarrow> skip)"

definition enqueue_broadcast ::
  "bool \<Rightarrow> cbor_lib \<Rightarrow> answers \<Rightarrow> outbox_config \<Rightarrow> int \<Rightarrow> (nat \<Rightarrow> int) \<Rightarrow> outbox \<Rightarrow> cmap \<Rightarrow> outbox \<times> cmap res" where
  "enqueue_broadcast en C ans cfg t clk s p =
     (case req_bytes p ''delivery_frame'' of
        Inl e \<Rightarrow> (s, Inl e)
      | Inr fr \<Rightarrow>
          (case parse_delivery_frame C fr of
             None \<Rightarrow> (s, Inl (Runtime_Error ''malformed delivery_frame''))
           | Some hdr \<Rightarrow>
               (case map_of p ''recipients'' of
                  Some (VArray arr) \<Rightarrow>
                    (case broadcast_loop en C ans cfg t clk fr (dh_message_id hdr) arr s [] of (s', r) \<Rightarrow>
                       (s', rbind r (\<lambda>ids. Inr (cmap_of
                          [(''enqueued_ids'', VArray (map VString ids)), (''ok'', VBool True)]))))
                | _ \<Rightarrow> (s, Inl (Runtime_Error ''recipients must be an array'')))))"

definition status_name :: "msg_status \<Rightarrow> string" where
  "status_name st = (case st of MS_PENDING \<Rightarrow> ''pending'' | MS_DELIVERED \<Rightarrow> ''delivered''
     | MS_EXPIRED \<Rightarrow> ''expired'' | MS_CANCELLED \<Rightarrow> ''cancelled'')"

definition status :: "outbox_store \<Rightarrow> cmap \<Rightarrow> cmap res" where
  "status db p =
     rbind (req_string p ''message_id'') (\<lambda>i.
       case get_message db i of
         None \<Rightarrow> Inl (Runtime_Error ''MESSAGE_NOT_FOUND'')
       | Some msg \<Rightarrow> Inr (cmap_of
           [(''message_id'', VString i), (''status'', VString (status_name (qm_status msg))),
            (''attempt_count'', VUint (u64_of_int64 (qm_attempt_count msg)))]))"

definition broadcast_status :: "outbox_store \<Rightarrow> cmap \<Rightarrow> cmap res" where
  "broadcast_status db p =
     rbind (req_string p ''message_id'') (\<lambda>base.
       let hits = filter (\<lambda>m. take (length base) (qm_message_id m) = base) (list_pending db)
       in Inr (cmap_of
           [(''message_id'', VString base), (''total'', VUint (of_nat (length hits))),
            (''delivered'', VUint (of_nat (length (filter (\<lambda>m. qm_status m = MS_DELIVERED) hits))))]))"

definition cancel :: "outbox_store \<Rightarrow> cmap \<Rightarrow> outbox_store \<times> cmap res" where
  "cancel db p =
     (case req_string p ''message_id'' of
        Inl e \<Rightarrow> (db, Inl e)
      | Inr i \<Rightarrow>
          if \<not> message_exists db i then (db, Inl (Runtime_Error ''MESSAGE_NOT_FOUND''))
          else (set_status db i MS_CANCELLED, Inr (cmap_of [(''message_id'', VString i), (''ok'', VBool True)])))"

definition ipc_list_pending :: "outbox_store \<Rightarrow> cmap" where
  "ipc_list_pending db = cmap_of [(''messages'', VArray (map (\<lambda>m. VMap (cmap_of
     [(''message_id'', VString (qm_message_id m)), (''attempt_count'', VUint (u64_of_int64 (qm_attempt_count m))),
      (''expires_at_ms'', VUint (u64_of_int64 (qm_expires_at_ms m)))])) (list_pending db)))]"

definition stats :: "outbox_store \<Rightarrow> cmap" where
  "stats db = cmap_of [(''pending_count'', VUint (of_nat (length (list_pending db))))]"

definition stored :: "outbox_store \<Rightarrow> outbox_store res \<Rightarrow> outbox_store \<times> cmap res" where
  "stored db r = (case r of Inl e \<Rightarrow> (db, Inl e) | Inr db' \<Rightarrow> (db', Inr ok_result))"

definition add_sibling :: "bool \<Rightarrow> outbox_store \<Rightarrow> cmap \<Rightarrow> outbox_store \<times> cmap res" where
  "add_sibling en db p = stored db
     (rbind (req_bytes p ''key_c_pubkey'') (\<lambda>k. rbind (req_bytes p ''auth_cert'') (\<lambda>a.
        upsert_sibling en db \<lparr>so_device_id = opt_string p ''device_id'', so_key_c_pubkey = k, so_auth_cert = a,
          so_channel_id = [], so_last_seen_ms = 0\<rparr>)))"

definition ipc_remove_sibling :: "outbox_store \<Rightarrow> cmap \<Rightarrow> outbox_store \<times> cmap res" where
  "ipc_remove_sibling db p = stored db
     (rbind (req_string p ''device_id'') (\<lambda>d. Inr (remove_sibling db d)))"

definition update_auth_cert :: "bool \<Rightarrow> outbox_store \<Rightarrow> cmap \<Rightarrow> outbox_store \<times> cmap res" where
  "update_auth_cert en db p =
     (case (req_bytes p ''key_c_pubkey'', req_bytes p ''key_c_privkey'', req_bytes p ''auth_cert'') of
        (Inl e, _, _) \<Rightarrow> (db, Inl e)
      | (Inr _, Inl e, _) \<Rightarrow> (db, Inl e)
      | (Inr _, Inr _, Inl e) \<Rightarrow> (db, Inl e)
      | (Inr pub, Inr priv, Inr cert) \<Rightarrow>
          (case set_auth_cert en db pub priv cert of (db', r) \<Rightarrow> (db', rbind r (\<lambda>_. Inr ok_result))))"

text \<open>A request that only touches the store.\<close>

definition on_store :: "outbox \<Rightarrow> outbox_store \<times> cmap res \<Rightarrow> outbox \<times> cmap res" where
  "on_store s r = (s\<lparr>dm_store := fst r\<rparr>, snd r)"

definition outbox_handle ::
  "bool \<Rightarrow> cbor_lib \<Rightarrow> answers \<Rightarrow> outbox_config \<Rightarrow> int \<Rightarrow> (nat \<Rightarrow> int) \<Rightarrow> outbox \<Rightarrow> string \<Rightarrow> cmap \<Rightarrow> outbox \<times> cmap res" where
  "outbox_handle en C ans cfg t clk s m p =
     (let db = dm_store s in
      if m = ''outbox.enqueue'' then enqueue en C ans cfg t (clk 0) s p
      else if m = ''outbox.enqueue_broadcast'' then enqueue_broadcast en C ans cfg t clk s p
      else if m = ''outbox.status'' then (s, status db p)
      else if m = ''outbox.broadcast_status'' then (s, broadcast_status db p)
      else if m = ''outbox.cancel'' then on_store s (cancel db p)
      else if m = ''outbox.list_pending'' then (s, Inr (ipc_list_pending db))
      else if m = ''outbox.stats'' then (s, Inr (stats db))
      else if m = ''outbox.add_sibling'' then on_store s (add_sibling en db p)
      else if m = ''outbox.remove_sibling'' then on_store s (ipc_remove_sibling db p)
      else if m = ''outbox.update_auth_cert'' then on_store s (update_auth_cert en db p)
      else (s, Inl (Runtime_Error (''unknown method: '' @ m))))"

end
