(* ===== verification/Client_Store.thy ===== *)
theory Client_Store
  imports Sql
begin

text \<open>
  The client's message database (\<^verbatim>\<open>client/src/store.hpp\<close>, \<^verbatim>\<open>store.cpp\<close>): one list of rows per
  table. The table of messages has a second unique key, the pair of conversation and sequence
  number. \<^verbatim>\<open>known_certs\<close> has a primary key that may be NULL, as SQLite allows it for a table with
  rowids; a fingerprint that is bound as NULL is equal to no other.
\<close>

record conversation =
  cv_id :: string
  cv_type :: string
  cv_display_name :: string
  cv_contact_id :: string
  cv_group_id :: string
  cv_last_read_seq :: int
  cv_created_at :: int

record stored_message =
  sm_id :: string
  sm_conversation_id :: string
  sm_sender_id :: bytes
  sm_seq :: int
  sm_content_type :: string
  sm_text :: string
  sm_ciphertext :: bytes
  sm_sent_at :: int
  sm_received_at :: int
  sm_status :: string
  sm_reply_to_id :: string

record reaction =
  rx_message_id :: string
  rx_contact_id :: string
  rx_emoji :: string
  rx_added_at :: int

record contact =
  ct_id :: string
  ct_display_name :: string
  ct_key_a_pubkey :: bytes
  ct_their_dm_key_b_kem :: bytes
  ct_their_dm_key_b_sig :: bytes
  ct_my_key_b_id :: string
  ct_their_key_c_pubkeys :: bytes
  ct_added_at :: int
  ct_status :: string

record group =
  gr_id :: string
  gr_name :: string
  gr_type :: string
  gr_my_role :: string
  gr_created_at :: int

record group_member =
  gm_group_id :: string
  gm_contact_id :: string
  gm_their_key_b_kem :: bytes
  gm_their_key_b_sig :: bytes
  gm_my_key_b_id :: string
  gm_role :: string
  gm_joined_at :: int

record server_channel =
  sc_id :: string
  sc_server_id :: string
  sc_name :: string
  sc_type :: string
  sc_created_at :: int

record known_cert =
  kn_fingerprint :: bytes
  kn_auth_cert :: bytes
  kn_owner_id :: string
  kn_cached_at :: int

record server_role =
  sr_server_id :: string
  sr_contact_id :: string
  sr_role :: string
  sr_assigned_at :: int

record message_store =
  ms_conversations :: "conversation list"
  ms_messages :: "stored_message list"
  ms_certs :: "known_cert list"
  ms_reactions :: "reaction list"
  ms_contacts :: "contact list"
  ms_groups :: "group list"
  ms_members :: "group_member list"
  ms_channels :: "server_channel list"
  ms_roles :: "server_role list"

text \<open>The tables of a new database; opening an existing one keeps its rows.\<close>

definition init_schema :: message_store where
  "init_schema = \<lparr>ms_conversations = [], ms_messages = [], ms_certs = [], ms_reactions = [], ms_contacts = [],
     ms_groups = [], ms_members = [], ms_channels = [], ms_roles = []\<rparr>"

text \<open>\<^verbatim>\<open>ORDER BY key DESC\<close>; rows with equal keys keep their order.\<close>

definition order_desc :: "('r \<Rightarrow> int) \<Rightarrow> 'r list \<Rightarrow> 'r list" where
  "order_desc key t = sort_key (\<lambda>r. - key r) t"

text \<open>\<^verbatim>\<open>LIMIT n\<close>: a negative number is no limit.\<close>

definition sql_limit :: "int \<Rightarrow> 'r list \<Rightarrow> 'r list" where
  "sql_limit n t = (if n < 0 then t else take (nat n) t)"

subsection \<open>conversations\<close>

definition row_to_conversation :: "conversation \<Rightarrow> conversation" where
  "row_to_conversation c = c\<lparr>cv_id := c_str (cv_id c), cv_type := c_str (cv_type c),
     cv_display_name := c_str (cv_display_name c), cv_contact_id := c_str (cv_contact_id c),
     cv_group_id := c_str (cv_group_id c)\<rparr>"

definition upsert_conversation :: "message_store \<Rightarrow> conversation \<Rightarrow> message_store" where
  "upsert_conversation db c = db\<lparr>ms_conversations := sql_replace cv_id c (ms_conversations db)\<rparr>"

definition get_conversation :: "message_store \<Rightarrow> string \<Rightarrow> conversation option" where
  "get_conversation db i = map_option row_to_conversation (find (\<lambda>c. cv_id c = i) (ms_conversations db))"

definition list_conversations :: "message_store \<Rightarrow> conversation list" where
  "list_conversations db = map row_to_conversation (order_desc cv_created_at (ms_conversations db))"

definition update_last_read :: "message_store \<Rightarrow> string \<Rightarrow> int \<Rightarrow> message_store" where
  "update_last_read db i seq = db\<lparr>ms_conversations :=
     sql_update (\<lambda>c. cv_id c = i) (\<lambda>c. c\<lparr>cv_last_read_seq := seq\<rparr>) (ms_conversations db)\<rparr>"

subsection \<open>messages\<close>

definition row_to_message :: "stored_message \<Rightarrow> stored_message" where
  "row_to_message m = m\<lparr>sm_id := c_str (sm_id m), sm_conversation_id := c_str (sm_conversation_id m),
     sm_content_type := c_str (sm_content_type m), sm_text := c_str (sm_text m), sm_status := c_str (sm_status m),
     sm_reply_to_id := c_str (sm_reply_to_id m)\<rparr>"

definition sm_slot :: "stored_message \<Rightarrow> string \<times> int" where
  "sm_slot m = (sm_conversation_id m, sm_seq m)"

definition insert_message :: "bool \<Rightarrow> message_store \<Rightarrow> stored_message \<Rightarrow> message_store \<times> bool res" where
  "insert_message en db m =
     (if sm_id m \<in> sm_id ` set (ms_messages db) then (db, Inr False)
      else if null_blob en (sm_sender_id m) \<or> null_blob en (sm_ciphertext m) \<or> sm_slot m \<in> sm_slot ` set (ms_messages db)
      then (db, Inl constraint_error)
      else (db\<lparr>ms_messages := ms_messages db @ [m]\<rparr>, Inr True))"

definition get_message :: "message_store \<Rightarrow> string \<Rightarrow> stored_message option" where
  "get_message db i = map_option row_to_message (find (\<lambda>m. sm_id m = i) (ms_messages db))"

definition list_messages :: "message_store \<Rightarrow> string \<Rightarrow> int \<Rightarrow> int \<Rightarrow> stored_message list" where
  "list_messages db conv before_seq limit = map row_to_message (sql_limit limit (order_desc sm_seq
     (filter (\<lambda>m. sm_conversation_id m = conv \<and> (before_seq > 0 \<longrightarrow> sm_seq m < before_seq)) (ms_messages db))))"

definition update_message_status :: "message_store \<Rightarrow> string \<Rightarrow> string \<Rightarrow> message_store" where
  "update_message_status db i st = db\<lparr>ms_messages :=
     sql_update (\<lambda>m. sm_id m = i) (\<lambda>m. m\<lparr>sm_status := st\<rparr>) (ms_messages db)\<rparr>"

definition delete_message :: "message_store \<Rightarrow> string \<Rightarrow> message_store" where
  "delete_message db i = db\<lparr>ms_messages := sql_delete (\<lambda>m. sm_id m = i) (ms_messages db)\<rparr>"

definition update_message_text :: "message_store \<Rightarrow> string \<Rightarrow> string \<Rightarrow> message_store" where
  "update_message_text db i t = db\<lparr>ms_messages :=
     sql_update (\<lambda>m. sm_id m = i) (\<lambda>m. m\<lparr>sm_text := t\<rparr>) (ms_messages db)\<rparr>"

text \<open>
  \<^verbatim>\<open>COALESCE(MAX(seq),0)+1\<close>. A sum beyond 64 bits becomes a floating point number, which
  \<^verbatim>\<open>sqlite3_column_int64\<close> reads as the largest integer.
\<close>

definition next_seq :: "message_store \<Rightarrow> string \<Rightarrow> int" where
  "next_seq db conv =
     (let seqs = map sm_seq (filter (\<lambda>m. sm_conversation_id m = conv) (ms_messages db))
      in min ((if seqs = [] then 0 else Max (set seqs)) + 1) (2 ^ 63 - 1))"

subsection \<open>known\_certs\<close>

definition get_cert :: "bool \<Rightarrow> message_store \<Rightarrow> bytes \<Rightarrow> known_cert option" where
  "get_cert en db fp = (if null_blob en fp then None
     else map_option (\<lambda>c. c\<lparr>kn_owner_id := c_str (kn_owner_id c)\<rparr>) (find (\<lambda>c. kn_fingerprint c = fp) (ms_certs db)))"

definition insert_cert :: "bool \<Rightarrow> message_store \<Rightarrow> known_cert \<Rightarrow> message_store" where
  "insert_cert en db c =
     (if null_blob en (kn_auth_cert c) then db
      else if null_blob en (kn_fingerprint c) then db\<lparr>ms_certs := ms_certs db @ [c]\<rparr>
      else db\<lparr>ms_certs := sql_insert_or_ignore kn_fingerprint c (ms_certs db)\<rparr>)"

subsection \<open>reactions\<close>

definition rx_key :: "reaction \<Rightarrow> string \<times> string \<times> string" where
  "rx_key r = (rx_message_id r, rx_contact_id r, rx_emoji r)"

definition upsert_reaction :: "message_store \<Rightarrow> reaction \<Rightarrow> message_store" where
  "upsert_reaction db r = db\<lparr>ms_reactions := sql_replace rx_key r (ms_reactions db)\<rparr>"

definition delete_reaction :: "message_store \<Rightarrow> string \<Rightarrow> string \<Rightarrow> string \<Rightarrow> message_store" where
  "delete_reaction db msg ct e = db\<lparr>ms_reactions := sql_delete (\<lambda>r. rx_key r = (msg, ct, e)) (ms_reactions db)\<rparr>"

definition get_reactions :: "message_store \<Rightarrow> string \<Rightarrow> reaction list" where
  "get_reactions db msg = map (\<lambda>r. r\<lparr>rx_message_id := c_str (rx_message_id r), rx_contact_id := c_str (rx_contact_id r),
       rx_emoji := c_str (rx_emoji r)\<rparr>)
     (filter (\<lambda>r. rx_message_id r = msg) (ms_reactions db))"

subsection \<open>contacts\<close>

definition row_to_contact :: "contact \<Rightarrow> contact" where
  "row_to_contact c = c\<lparr>ct_id := c_str (ct_id c), ct_display_name := c_str (ct_display_name c),
     ct_my_key_b_id := c_str (ct_my_key_b_id c), ct_status := c_str (ct_status c)\<rparr>"

definition insert_contact :: "bool \<Rightarrow> message_store \<Rightarrow> contact \<Rightarrow> message_store \<times> bool res" where
  "insert_contact en db c =
     (if ct_id c \<in> ct_id ` set (ms_contacts db) then (db, Inr False)
      else if null_blob en (ct_key_a_pubkey c) \<or> null_blob en (ct_their_dm_key_b_kem c)
        \<or> null_blob en (ct_their_dm_key_b_sig c) \<or> null_blob en (ct_their_key_c_pubkeys c)
      then (db, Inl constraint_error)
      else (db\<lparr>ms_contacts := ms_contacts db @ [c]\<rparr>, Inr True))"

definition get_contact :: "message_store \<Rightarrow> string \<Rightarrow> contact option" where
  "get_contact db i = map_option row_to_contact (find (\<lambda>c. ct_id c = i) (ms_contacts db))"

definition list_contacts :: "message_store \<Rightarrow> contact list" where
  "list_contacts db = map row_to_contact (ms_contacts db)"

text \<open>The constraint of a column is checked for the rows the statement changes.\<close>

definition update_contact :: "bool \<Rightarrow> message_store \<Rightarrow> contact \<Rightarrow> message_store res" where
  "update_contact en db c =
     (if ct_id c \<in> ct_id ` set (ms_contacts db) \<and>
         (null_blob en (ct_their_dm_key_b_kem c) \<or> null_blob en (ct_their_dm_key_b_sig c) \<or> null_blob en (ct_their_key_c_pubkeys c))
      then Inl constraint_error
      else Inr (db\<lparr>ms_contacts := sql_update (\<lambda>x. ct_id x = ct_id c)
        (\<lambda>x. x\<lparr>ct_display_name := ct_display_name c, ct_their_dm_key_b_kem := ct_their_dm_key_b_kem c,
               ct_their_dm_key_b_sig := ct_their_dm_key_b_sig c, ct_my_key_b_id := ct_my_key_b_id c,
               ct_their_key_c_pubkeys := ct_their_key_c_pubkeys c, ct_status := ct_status c\<rparr>) (ms_contacts db)\<rparr>))"

definition set_contact_status :: "message_store \<Rightarrow> string \<Rightarrow> string \<Rightarrow> message_store" where
  "set_contact_status db i st = db\<lparr>ms_contacts :=
     sql_update (\<lambda>c. ct_id c = i) (\<lambda>c. c\<lparr>ct_status := st\<rparr>) (ms_contacts db)\<rparr>"

subsection \<open>groups\<close>

definition row_to_group :: "group \<Rightarrow> group" where
  "row_to_group g = g\<lparr>gr_id := c_str (gr_id g), gr_name := c_str (gr_name g), gr_type := c_str (gr_type g),
     gr_my_role := c_str (gr_my_role g)\<rparr>"

definition upsert_group :: "message_store \<Rightarrow> group \<Rightarrow> message_store" where
  "upsert_group db g = db\<lparr>ms_groups := sql_replace gr_id g (ms_groups db)\<rparr>"

definition get_group :: "message_store \<Rightarrow> string \<Rightarrow> group option" where
  "get_group db i = map_option row_to_group (find (\<lambda>g. gr_id g = i) (ms_groups db))"

definition list_groups :: "message_store \<Rightarrow> group list" where
  "list_groups db = map row_to_group (ms_groups db)"

subsection \<open>group\_members\<close>

definition gm_key :: "group_member \<Rightarrow> string \<times> string" where
  "gm_key m = (gm_group_id m, gm_contact_id m)"

definition row_to_member :: "group_member \<Rightarrow> group_member" where
  "row_to_member m = m\<lparr>gm_group_id := c_str (gm_group_id m), gm_contact_id := c_str (gm_contact_id m),
     gm_my_key_b_id := c_str (gm_my_key_b_id m), gm_role := c_str (gm_role m)\<rparr>"

definition upsert_group_member :: "bool \<Rightarrow> message_store \<Rightarrow> group_member \<Rightarrow> message_store res" where
  "upsert_group_member en db m =
     (if null_blob en (gm_their_key_b_kem m) \<or> null_blob en (gm_their_key_b_sig m) then Inl constraint_error
      else Inr (db\<lparr>ms_members := sql_replace gm_key m (ms_members db)\<rparr>))"

definition get_group_member :: "message_store \<Rightarrow> string \<Rightarrow> string \<Rightarrow> group_member option" where
  "get_group_member db g c = map_option row_to_member (find (\<lambda>m. gm_key m = (g, c)) (ms_members db))"

definition list_group_members :: "message_store \<Rightarrow> string \<Rightarrow> group_member list" where
  "list_group_members db g = map row_to_member (filter (\<lambda>m. gm_group_id m = g) (ms_members db))"

definition remove_group_member :: "message_store \<Rightarrow> string \<Rightarrow> string \<Rightarrow> message_store" where
  "remove_group_member db g c = db\<lparr>ms_members := sql_delete (\<lambda>m. gm_key m = (g, c)) (ms_members db)\<rparr>"

subsection \<open>server\_channels and server\_roles\<close>

definition row_to_channel :: "server_channel \<Rightarrow> server_channel" where
  "row_to_channel c = c\<lparr>sc_id := c_str (sc_id c), sc_server_id := c_str (sc_server_id c), sc_name := c_str (sc_name c),
     sc_type := c_str (sc_type c)\<rparr>"

definition upsert_server_channel :: "message_store \<Rightarrow> server_channel \<Rightarrow> message_store" where
  "upsert_server_channel db c = db\<lparr>ms_channels := sql_replace sc_id c (ms_channels db)\<rparr>"

definition get_server_channel :: "message_store \<Rightarrow> string \<Rightarrow> server_channel option" where
  "get_server_channel db i = map_option row_to_channel (find (\<lambda>c. sc_id c = i) (ms_channels db))"

definition list_server_channels :: "message_store \<Rightarrow> string \<Rightarrow> server_channel list" where
  "list_server_channels db sid = map row_to_channel (filter (\<lambda>c. sc_server_id c = sid) (ms_channels db))"

definition set_server_role :: "message_store \<Rightarrow> string \<Rightarrow> string \<Rightarrow> string \<Rightarrow> int \<Rightarrow> message_store" where
  "set_server_role db sid ct role at = db\<lparr>ms_roles := sql_replace (\<lambda>r. (sr_server_id r, sr_contact_id r))
     \<lparr>sr_server_id = sid, sr_contact_id = ct, sr_role = role, sr_assigned_at = at\<rparr> (ms_roles db)\<rparr>"

subsection \<open>The invariant of the tables\<close>

definition messages_ok :: "stored_message list \<Rightarrow> bool" where
  "messages_ok t \<longleftrightarrow> pk sm_id t \<and> pk sm_slot t \<and> list_all (\<lambda>m. int64_range (sm_seq m)) t"

text \<open>
  The keys of all tables. An empty fingerprint may be bound as NULL, which SQLite does not compare in a key: only the
  other fingerprints are unique.
\<close>

definition store_ok :: "message_store \<Rightarrow> bool" where
  "store_ok db \<longleftrightarrow> pk cv_id (ms_conversations db) \<and> messages_ok (ms_messages db) \<and> pk rx_key (ms_reactions db)
     \<and> pk ct_id (ms_contacts db) \<and> pk gr_id (ms_groups db) \<and> pk gm_key (ms_members db) \<and> pk sc_id (ms_channels db)
     \<and> pk (\<lambda>r. (sr_server_id r, sr_contact_id r)) (ms_roles db)
     \<and> pk kn_fingerprint (filter (\<lambda>c. kn_fingerprint c \<noteq> []) (ms_certs db))"

interpretation client_msgs: dedup_table "insert_message en" ms_messages sm_id
  by unfold_locales (auto simp: insert_message_def)

interpretation client_contacts: dedup_table "insert_contact en" ms_contacts ct_id
  by unfold_locales (auto simp: insert_contact_def)

lemma store_ok_new [simp]: "store_ok init_schema"
  by (simp add: store_ok_def init_schema_def messages_ok_def)

lemma messages_ok_update:
  assumes "messages_ok t" "\<And>m. sm_id (f m) = sm_id m" "\<And>m. sm_slot (f m) = sm_slot m"
  shows "messages_ok (sql_update p f t)"
proof -
  have "sm_seq (f m) = sm_seq m" for m
    using assms(3) [of m] by (simp add: sm_slot_def)
  then show ?thesis
    using assms by (auto simp: messages_ok_def list_all_iff intro: pk_update dest: in_set_sql_update)
qed

lemma messages_ok_delete: "messages_ok t \<Longrightarrow> messages_ok (sql_delete p t)"
  by (auto simp: messages_ok_def list_all_iff sql_delete_def pk_def distinct_map intro: inj_on_subset)

lemma store_ok_insert_message:
  assumes "store_ok db" "int64_range (sm_seq m)"
  shows "store_ok (fst (insert_message en db m))"
  using assms client_msgs.ins_pk [of db en m]
  by (auto simp: store_ok_def messages_ok_def insert_message_def pk_def)

lemma store_ok_insert_contact: "store_ok db \<Longrightarrow> store_ok (fst (insert_contact en db c))"
  using client_contacts.ins_pk [of db en c]
  by (auto simp: store_ok_def insert_contact_def pk_def)

lemma pk_insert_cert:
  assumes "pk kn_fingerprint (filter (\<lambda>c. kn_fingerprint c \<noteq> []) (ms_certs db))"
  shows "pk kn_fingerprint (filter (\<lambda>c. kn_fingerprint c \<noteq> []) (ms_certs (insert_cert en db kc)))"
  using assms by (auto simp: insert_cert_def null_blob_def pk_def sql_insert_or_ignore_def)

lemma insert_cert_other [simp]:
  "ms_conversations (insert_cert en db kc) = ms_conversations db" "ms_messages (insert_cert en db kc) = ms_messages db"
  "ms_reactions (insert_cert en db kc) = ms_reactions db" "ms_contacts (insert_cert en db kc) = ms_contacts db"
  "ms_groups (insert_cert en db kc) = ms_groups db" "ms_members (insert_cert en db kc) = ms_members db"
  "ms_channels (insert_cert en db kc) = ms_channels db" "ms_roles (insert_cert en db kc) = ms_roles db"
  by (simp_all add: insert_cert_def)

lemma store_ok_statements [intro]:
  assumes "store_ok db"
  shows "store_ok (upsert_conversation db c)" "store_ok (update_last_read db i seq)"
    "store_ok (update_message_status db i st)" "store_ok (delete_message db i)" "store_ok (update_message_text db i tx)"
    "store_ok (insert_cert en db kc)" "store_ok (upsert_reaction db rx)" "store_ok (delete_reaction db i ci e)"
    "store_ok (set_contact_status db i st)" "store_ok (upsert_group db g)" "store_ok (remove_group_member db gi ci)"
    "store_ok (upsert_server_channel db sc)" "store_ok (set_server_role db si ci role at)"
  using assms
  by (auto simp: store_ok_def upsert_conversation_def update_last_read_def update_message_status_def delete_message_def
      update_message_text_def upsert_reaction_def delete_reaction_def set_contact_status_def
      upsert_group_def remove_group_member_def upsert_server_channel_def set_server_role_def sm_slot_def
      intro!: messages_ok_update messages_ok_delete pk_insert_cert intro: pk_replace pk_update pk_delete)

lemma store_ok_update_contact: "store_ok db \<Longrightarrow> update_contact en db c = Inr db' \<Longrightarrow> store_ok db'"
  by (auto simp: store_ok_def update_contact_def intro!: pk_update split: if_splits)

lemma store_ok_upsert_group_member: "store_ok db \<Longrightarrow> upsert_group_member en db m = Inr db' \<Longrightarrow> store_ok db'"
  by (auto simp: store_ok_def upsert_group_member_def intro: pk_replace split: if_splits)

subsection \<open>Sequence numbers and pages\<close>

text \<open>The messages of a conversation below a sequence number, newest first.\<close>

definition history :: "message_store \<Rightarrow> string \<Rightarrow> int \<Rightarrow> stored_message list" where
  "history db conv b = order_desc sm_seq
     (filter (\<lambda>m. sm_conversation_id m = conv \<and> (b > 0 \<longrightarrow> sm_seq m < b)) (ms_messages db))"

lemma list_messages_history: "list_messages db conv b n = map row_to_message (sql_limit n (history db conv b))"
  by (simp add: list_messages_def history_def)

lemma sm_seq_row [simp]: "sm_seq (row_to_message m) = sm_seq m"
  by (simp add: row_to_message_def)

lemma set_history [simp]:
  "set (history db conv b) = {m \<in> set (ms_messages db). sm_conversation_id m = conv \<and> (b > 0 \<longrightarrow> sm_seq m < b)}"
  by (auto simp: history_def order_desc_def)

lemma history_sorted:
  assumes "messages_ok (ms_messages db)"
  shows "sorted_wrt (\<lambda>a b. sm_seq b < sm_seq a) (history db conv b)"
proof -
  let ?F = "filter (\<lambda>m. sm_conversation_id m = conv \<and> (b > 0 \<longrightarrow> sm_seq m < b)) (ms_messages db)"
  have "distinct (map sm_slot ?F)"
    using assms by (auto simp: messages_ok_def pk_def distinct_map intro: inj_on_subset)
  then have "distinct (map sm_seq ?F)"
    by (auto simp: distinct_map inj_on_def sm_slot_def)
  then have d: "distinct (map (\<lambda>m. - sm_seq m) (history db conv b))"
    by (auto simp: history_def order_desc_def distinct_map inj_on_def)
  have "sorted (map (\<lambda>m. - sm_seq m) (history db conv b))"
    by (simp add: history_def order_desc_def)
  then have "sorted_wrt (<) (map (\<lambda>m. - sm_seq m) (history db conv b))"
    using d by (simp add: strict_sorted_iff)
  then show ?thesis
    by (simp add: sorted_wrt_map)
qed

lemma filter_below_decreasing:
  fixes f :: "'a \<Rightarrow> int"
  assumes "sorted_wrt (\<lambda>a b. f b < f a) xs" "k < length xs"
  shows "filter (\<lambda>x. f x < f (xs ! k)) xs = drop (Suc k) xs"
  using assms
proof (induction xs arbitrary: k)
  case (Cons x xs)
  show ?case
  proof (cases k)
    case 0
    then show ?thesis
      using Cons.prems by (auto simp: filter_id_conv)
  next
    case (Suc j)
    then have j: "j < length xs"
      using Cons.prems by simp
    then have "f (xs ! j) < f x"
      using Cons.prems nth_mem by simp
    then have "\<not> f x < f (xs ! j)"
      by simp
    then show ?thesis
      using Cons.IH [OF _ j] Cons.prems(1) Suc by (simp only: filter.simps nth_Cons_Suc drop_Suc_Cons sorted_wrt.simps if_False)
  qed
qed simp

lemma history_below:
  assumes "messages_ok (ms_messages db)" "k < length (history db conv b)" "sm_seq (history db conv b ! k) > 0"
  shows "history db conv (sm_seq (history db conv b ! k)) = drop (Suc k) (history db conv b)"
proof -
  let ?q = "sm_seq (history db conv b ! k)"
  have "history db conv b ! k \<in> set (history db conv b)"
    using assms(2) by (rule nth_mem)
  then have "b > 0 \<longrightarrow> ?q < b"
    by simp
  then have "history db conv ?q = filter (\<lambda>m. sm_seq m < ?q) (history db conv b)"
    unfolding history_def order_desc_def filter_sort filter_filter
    using assms(3) by (intro arg_cong2 [where f = sort_key] refl filter_cong) (auto simp: history_def order_desc_def)
  also have "\<dots> = drop (Suc k) (history db conv b)"
    using history_sorted [OF assms(1)] assms(2) by (rule filter_below_decreasing)
  finally show ?thesis .
qed

lemma next_seq_above:
  assumes "m \<in> set (ms_messages db)" "sm_conversation_id m = conv" "next_seq db conv < 2 ^ 63 - 1"
  shows "sm_seq m < next_seq db conv"
proof -
  let ?s = "sm_seq ` set (filter (\<lambda>m. sm_conversation_id m = conv) (ms_messages db))"
  have "sm_seq m \<in> ?s"
    using assms(1,2) by auto
  then have "sm_seq m \<le> Max ?s"
    by (auto intro: Max_ge)
  moreover have "filter (\<lambda>m. sm_conversation_id m = conv) (ms_messages db) \<noteq> []"
    using assms(1,2) by (auto simp: filter_empty_conv)
  ultimately show ?thesis
    using assms(3) by (simp add: next_seq_def Let_def min_def split: if_splits)
qed

lemma take_drop_add: "map f (take m xs) @ map f (take n (drop m xs)) = map f (take (m + n) xs)"
  by (simp add: take_add)

text \<open>
  C32. Paging through a conversation: asking for the next \<open>n'\<close> messages before the oldest one
  of a page continues the page exactly, with no message lost or shown twice, and a page is
  ordered from the newest to the oldest with no sequence number twice.
\<close>

theorem list_messages_paging:
  assumes "messages_ok (ms_messages db)" "n > 0" "n' \<ge> 0" "list_messages db conv b n \<noteq> []"
    "sm_seq (last (list_messages db conv b n)) > 0"
  shows "list_messages db conv b n @ list_messages db conv (sm_seq (last (list_messages db conv b n))) n'
      = list_messages db conv b (n + n')
    \<and> sorted_wrt (\<lambda>x y. sm_seq y < sm_seq x) (list_messages db conv b n)
    \<and> length (list_messages db conv b n) \<le> nat n"
proof (intro conjI)
  let ?H = "history db conv b"
  let ?k = "min (nat n) (length ?H) - 1"
  have ne: "?H \<noteq> []" "nat n > 0"
    using assms(2,4) by (auto simp: list_messages_history sql_limit_def)
  then have k: "?k < length ?H" "Suc ?k = min (nat n) (length ?H)"
    by (cases ?H; simp)+
  have "last (take (nat n) ?H) = ?H ! ?k"
    using ne by (simp add: last_conv_nth min_def)
  then have l: "sm_seq (last (list_messages db conv b n)) = sm_seq (?H ! ?k)"
    using assms(2) ne by (simp add: list_messages_history sql_limit_def last_map)
  have "history db conv (sm_seq (?H ! ?k)) = drop (nat n) ?H"
    using history_below [OF assms(1) k(1)] assms(5) k(2) by (simp add: l min_def split: if_splits)
  then show "list_messages db conv b n @ list_messages db conv (sm_seq (last (list_messages db conv b n))) n'
      = list_messages db conv b (n + n')"
    unfolding l using assms(2,3) by (simp add: list_messages_history sql_limit_def take_drop_add nat_add_distrib)
  show "sorted_wrt (\<lambda>x y. sm_seq y < sm_seq x) (list_messages db conv b n)"
    using history_sorted [OF assms(1), of conv b] assms(2)
    by (simp add: list_messages_history sql_limit_def sorted_wrt_map sorted_wrt_take)
  show "length (list_messages db conv b n) \<le> nat n"
    using assms(2) by (simp add: list_messages_history sql_limit_def)
qed

definition sample_message :: "string \<Rightarrow> int \<Rightarrow> stored_message" where
  "sample_message i seq = \<lparr>sm_id = i, sm_conversation_id = ''c'', sm_sender_id = [1], sm_seq = seq, sm_content_type = ''text/plain'',
     sm_text = i, sm_ciphertext = [2], sm_sent_at = 0, sm_received_at = 0, sm_status = ''pending'', sm_reply_to_id = []\<rparr>"

definition sample_history :: message_store where
  "sample_history = init_schema\<lparr>ms_messages := [sample_message ''a'' 1, sample_message ''b'' 3, sample_message ''d'' 2]\<rparr>"

lemmas sample_history_simps = sample_history_def sample_message_def init_schema_def messages_ok_def pk_def sm_slot_def
  list_messages_def order_desc_def sql_limit_def row_to_message_def int64_range_def

theorem list_messages_paging_witness:
  "map sm_id (list_messages sample_history ''c'' 0 2 @ list_messages sample_history ''c'' 2 5) = [''b'', ''d'', ''a'']"
proof -
  have "list_messages sample_history ''c'' 0 2 @ list_messages sample_history ''c'' 2 5 = list_messages sample_history ''c'' 0 (2 + 5)"
    using list_messages_paging [of sample_history 2 5 "''c''" 0]
    by (simp add: sample_history_simps c_str_def)
  then show ?thesis
    by (simp add: sample_history_simps c_str_def)
qed

lemma sort_key_append_min:
  assumes "\<forall>x\<in>set xs. f m < f x"
  shows "sort_key f (xs @ [m]) = m # sort_key f xs"
  using assms by (induction xs) (auto simp: not_le [symmetric])

text \<open>
  A message with a new identifier that takes the conversation's next sequence number is
  always stored, as the newest of its conversation, as long as the numbers are not exhausted:
  the second unique key never refuses it.
\<close>

lemma insert_next_seq:
  assumes "store_ok db" "sm_id m \<notin> sm_id ` set (ms_messages db)" "sm_sender_id m \<noteq> []" "sm_ciphertext m \<noteq> []"
    "sm_seq m = next_seq db (sm_conversation_id m)" "sm_seq m < 2 ^ 63 - 1" "n > 0"
  shows "insert_message en db m = (db\<lparr>ms_messages := ms_messages db @ [m]\<rparr>, Inr True)
    \<and> list_messages (fst (insert_message en db m)) (sm_conversation_id m) 0 n
      = row_to_message m # list_messages db (sm_conversation_id m) 0 (n - 1)"
proof (intro conjI)
  have above: "sm_seq x < sm_seq m" if "x \<in> set (ms_messages db)" "sm_conversation_id x = sm_conversation_id m" for x
    using next_seq_above [OF that] assms(5,6) by simp
  then have "sm_slot m \<notin> sm_slot ` set (ms_messages db)"
    by (fastforce simp: sm_slot_def)
  then show ins: "insert_message en db m = (db\<lparr>ms_messages := ms_messages db @ [m]\<rparr>, Inr True)"
    using assms by (auto simp: insert_message_def null_blob_def)
  let ?t = "filter (\<lambda>x. sm_conversation_id x = sm_conversation_id m) (ms_messages db)"
  have "sort_key (\<lambda>r. - sm_seq r) (?t @ [m]) = m # sort_key (\<lambda>r. - sm_seq r) ?t"
    using above by (intro sort_key_append_min) simp
  then show "list_messages (fst (insert_message en db m)) (sm_conversation_id m) 0 n
      = row_to_message m # list_messages db (sm_conversation_id m) 0 (n - 1)"
    using assms(7) unfolding ins
    by (cases "nat n") (simp_all add: list_messages_def order_desc_def sql_limit_def nat_diff_distrib')
qed

end
