(* ===== verification/Dht_Record.thy ===== *)
theory Dht_Record
  imports Crypto Cbor_Wire
begin

text \<open>
  DHT records (\<^verbatim>\<open>common/include/sw/dht/record.hpp\<close>, \<^verbatim>\<open>common/src/dht/record.cpp\<close>): guard records
  signed by the client (version 1) or by the inbox under a delegation certificate (version 2),
  and prekey records. The current time, the nonce and the coins of a signature are arguments;
  \<open>indet\<close> is the indeterminate value of a member the parser leaves unset.
\<close>

subsection \<open>Key derivation\<close>

definition guard_dht_key :: "crypto_lib \<Rightarrow> bytes \<Rightarrow> u64 \<Rightarrow> bytes" where
  "guard_dht_key K key_b_pub timeslot = sha3_256_parts K [key_b_pub, be64 timeslot]"

definition guard_aead_key :: "crypto_lib \<Rightarrow> bytes \<Rightarrow> u64 \<Rightarrow> bytes" where
  "guard_aead_key K key_b_pub timeslot =
     shake256_32_parts K [key_b_pub, be64 timeslot, as_bytes ''guard_record'']"

definition inbox_aead_key :: "crypto_lib \<Rightarrow> bytes \<Rightarrow> u64 \<Rightarrow> bytes" where
  "inbox_aead_key K key_b_pub timeslot =
     shake256_32_parts K [key_b_pub, be64 timeslot, as_bytes ''inbox_dht_record'']"

definition prekey_dht_key :: "crypto_lib \<Rightarrow> bytes \<Rightarrow> bytes" where
  "prekey_dht_key K key_b_pub = sha3_256_parts K [as_bytes ''prekeys'', key_b_pub]"

subsection \<open>CBOR helpers\<close>

definition load_map :: "cbor_lib \<Rightarrow> bytes \<Rightarrow> (cbor \<times> cbor) list res" where
  "load_map C data =
     (case cbor_load C data of
        None \<Rightarrow> Inl (Runtime_Error ''CBOR parse error'')
      | Some (CMap ps) \<Rightarrow> Inr ps
      | Some _ \<Rightarrow> Inl (Runtime_Error ''Expected top-level map''))"

definition bstr_or_throw :: "cbor option \<Rightarrow> string \<Rightarrow> bytes res" where
  "bstr_or_throw item field =
     (case item of
        Some (CBytes b) \<Rightarrow> Inr b
      | _ \<Rightarrow> Inl (Runtime_Error (''Missing/invalid bstr: '' @ field)))"

definition bstr_of_size :: "(cbor \<times> cbor) list \<Rightarrow> string \<Rightarrow> nat \<Rightarrow> string \<Rightarrow> bytes res" where
  "bstr_of_size m field n err =
     rbind (bstr_or_throw (find_key m field) field) (\<lambda>b.
     rbind (throw_if (length b \<noteq> n) err) (\<lambda>_. Inr b))"

subsection \<open>Guard plaintext\<close>

record guard_plaintext =
  gp_guard_node_id :: bytes
  gp_guard_endpoint :: string
  gp_session_token :: bytes
  gp_prekey_available :: bool
  gp_inbox_auth_key :: bytes
  gp_inbox_auth_expiry :: u64

definition sign_payload_v1 :: "u64 \<Rightarrow> u64 \<Rightarrow> bytes \<Rightarrow> bytes \<Rightarrow> bytes \<Rightarrow> bytes" where
  "sign_payload_v1 timeslot timestamp iv ct tg = be64 timeslot @ be64 timestamp @ iv @ ct @ tg"

definition sign_payload_v2 :: "u64 \<Rightarrow> u64 \<Rightarrow> bytes \<Rightarrow> bytes \<Rightarrow> bytes \<Rightarrow> bytes \<Rightarrow> bytes" where
  "sign_payload_v2 timeslot timestamp key_b_pub iv ct tg =
     be64 timeslot @ be64 timestamp @ key_b_pub @ iv @ ct @ tg"

definition encode_plaintext :: "cbor_lib \<Rightarrow> guard_plaintext \<Rightarrow> bytes" where
  "encode_plaintext C p = serialize_or_empty C (definite_map C 6
     (str_fields [(''guard_node_id'', CBytes (gp_guard_node_id p)),
      (''guard_endpoint'', build_string (gp_guard_endpoint p)),
      (''session_token'', CBytes (gp_session_token p)),
      (''prekey_available'', CBool (gp_prekey_available p)),
      (''inbox_auth_key'', CBytes (gp_inbox_auth_key p)),
      (''inbox_auth_expiry'', build_uint64 (gp_inbox_auth_expiry p))]))"

definition decode_plaintext :: "cbor_lib \<Rightarrow> u64 \<Rightarrow> bytes \<Rightarrow> guard_plaintext res" where
  "decode_plaintext C indet data =
     rbind (load_map C data) (\<lambda>m.
     rbind (bstr_or_throw (find_key m ''guard_node_id'') ''guard_node_id'') (\<lambda>gni.
     rbind (case find_key m ''guard_endpoint'' of
              Some (CText s) \<Rightarrow> Inr s
            | _ \<Rightarrow> Inl (Runtime_Error ''Missing guard_endpoint'')) (\<lambda>gep.
     rbind (bstr_of_size m ''session_token'' 32 ''session_token must be 32 bytes'') (\<lambda>st.
       Inr \<lparr>gp_guard_node_id = gni, gp_guard_endpoint = gep, gp_session_token = st,
            gp_prekey_available = (find_key m ''prekey_available'' = Some (CBool True)),
            gp_inbox_auth_key = (case find_key m ''inbox_auth_key'' of Some (CBytes b) \<Rightarrow> b | _ \<Rightarrow> []),
            gp_inbox_auth_expiry =
              (case find_key m ''inbox_auth_expiry'' of
                 Some v \<Rightarrow> if isa_uint v then get_uint64 C v else indet
               | None \<Rightarrow> indet)\<rparr>))))"

subsection \<open>Delegation certificates\<close>

record delegation_cert =
  dc_key_c_pubkey :: bytes
  dc_owner_key_a_pubkey :: bytes
  dc_issued_at :: u64
  dc_expires_at :: u64

definition delegation_sign_payload :: "bytes \<Rightarrow> bytes \<Rightarrow> u64 \<Rightarrow> u64 \<Rightarrow> bytes" where
  "delegation_sign_payload key_c_pub key_a_pub issued_at expires_at =
     key_c_pub @ key_a_pub @ as_bytes ''inbox'' @ be64 issued_at @ be64 expires_at"

definition build_delegation_cert ::
  "crypto_lib \<Rightarrow> cbor_lib \<Rightarrow> bytes \<Rightarrow> delegation_cert \<Rightarrow> bytes \<Rightarrow> bytes res" where
  "build_delegation_cert K C coins cert key_a_priv =
     rbind (mldsa_sign K coins key_a_priv (delegation_sign_payload (dc_key_c_pubkey cert)
              (dc_owner_key_a_pubkey cert) (dc_issued_at cert) (dc_expires_at cert))) (\<lambda>sig.
       Inr (serialize_or_empty C (definite_map C 6
         (str_fields [(''key_c_pubkey'', CBytes (dc_key_c_pubkey cert)),
          (''owner_key_a_pubkey'', CBytes (dc_owner_key_a_pubkey cert)),
          (''scope'', build_string ''inbox''),
          (''issued_at'', build_uint64 (dc_issued_at cert)),
          (''expires_at'', build_uint64 (dc_expires_at cert)),
          (''signature'', CBytes sig)]))))"

definition verify_delegation_cert ::
  "crypto_lib \<Rightarrow> cbor_lib \<Rightarrow> u64 \<Rightarrow> bytes \<Rightarrow> bytes \<Rightarrow> bytes res" where
  "verify_delegation_cert K C now cert_cbor key_a_pub =
     rbind (load_map C cert_cbor) (\<lambda>m.
     rbind (bstr_of_size m ''key_c_pubkey'' MLDSA65_PUBKEY_BYTES ''Bad key_c_pubkey size'') (\<lambda>key_c_pub.
     rbind (bstr_of_size m ''owner_key_a_pubkey'' MLDSA65_PUBKEY_BYTES ''Bad owner_key_a_pubkey size'') (\<lambda>_.
     rbind (case find_key m ''scope'' of
              Some (CText s) \<Rightarrow> throw_if (s \<noteq> ''inbox'') (''Delegation cert scope must be '' @ [CHR 0x27] @ ''inbox'' @ [CHR 0x27])
            | _ \<Rightarrow> Inl (Runtime_Error ''Missing scope'')) (\<lambda>_.
     rbind (case (find_key m ''issued_at'', find_key m ''expires_at'') of
              (Some ia, Some ea) \<Rightarrow> Inr (get_uint64 C ia, get_uint64 C ea)
            | _ \<Rightarrow> Inl (Runtime_Error ''Missing issued_at/expires_at'')) (\<lambda>(issued_at, expires_at).
     rbind (bstr_of_size m ''signature'' MLDSA65_SIG_BYTES ''Bad delegation cert signature size'') (\<lambda>sig.
     rbind (throw_if (\<not> mldsa_verify K key_a_pub
              (delegation_sign_payload key_c_pub key_a_pub issued_at expires_at) sig)
              ''Delegation cert signature invalid'') (\<lambda>_.
     rbind (throw_if (now > expires_at) ''Delegation cert expired'') (\<lambda>_.
       Inr key_c_pub))))))))"

subsection \<open>Guard records\<close>

text \<open>The sub-map that carries the ciphertext.\<close>

definition ciphertext_map :: "cbor_lib \<Rightarrow> aes_encrypted \<Rightarrow> cbor" where
  "ciphertext_map C ae = definite_map C 3
     (str_fields [(''iv'', CBytes (nonce ae)),
      (''ciphertext'', CBytes (ciphertext ae)),
      (''tag'', CBytes (tag ae))])"

text \<open>Randomness and clock of a construction: nonce, signature coins, current time.\<close>

record record_env =
  re_nonce :: bytes
  re_coins :: bytes
  re_now :: u64

definition build_guard_record_v1 ::
  "crypto_lib \<Rightarrow> cbor_lib \<Rightarrow> record_env \<Rightarrow> bytes \<Rightarrow> u64 \<Rightarrow> guard_plaintext \<Rightarrow> bytes \<Rightarrow> bytes res" where
  "build_guard_record_v1 K C en key_b_pub timeslot p key_a_priv =
     rbind (aes_encrypt K (re_nonce en) (guard_aead_key K key_b_pub timeslot) (encode_plaintext C p) []) (\<lambda>ae.
     rbind (mldsa_sign K (re_coins en) key_a_priv
              (sign_payload_v1 timeslot (re_now en) (nonce ae) (ciphertext ae) (tag ae))) (\<lambda>sig.
       Inr (serialize_or_empty C (definite_map C 5
         (str_fields [(''version'', build_uint64 1),
          (''timeslot'', build_uint64 timeslot),
          (''timestamp'', build_uint64 (re_now en)),
          (''ciphertext'', ciphertext_map C ae),
          (''signature'', CBytes sig)])))))"

definition build_guard_record_v2 ::
  "crypto_lib \<Rightarrow> cbor_lib \<Rightarrow> record_env \<Rightarrow> bytes \<Rightarrow> u64 \<Rightarrow> guard_plaintext \<Rightarrow> bytes \<Rightarrow> bytes \<Rightarrow> bytes res" where
  "build_guard_record_v2 K C en key_b_pub timeslot p key_c_priv dht_delegation_cert =
     rbind (aes_encrypt K (re_nonce en) (inbox_aead_key K key_b_pub timeslot) (encode_plaintext C p) []) (\<lambda>ae.
     rbind (mldsa_sign K (re_coins en) key_c_priv
              (sign_payload_v2 timeslot (re_now en) key_b_pub (nonce ae) (ciphertext ae) (tag ae))) (\<lambda>sig.
       Inr (serialize_or_empty C (definite_map C 7
         (str_fields [(''version'', build_uint64 2),
          (''timeslot'', build_uint64 timeslot),
          (''timestamp'', build_uint64 (re_now en)),
          (''target_key_b_pubkey'', CBytes key_b_pub),
          (''ciphertext'', ciphertext_map C ae),
          (''signature'', CBytes sig),
          (''dht_delegation_cert'', CBytes dht_delegation_cert)])))))"

definition parse_guard_record ::
  "crypto_lib \<Rightarrow> cbor_lib \<Rightarrow> u64 \<Rightarrow> u64 \<Rightarrow> bytes \<Rightarrow> bytes \<Rightarrow> bytes \<Rightarrow> u64 \<Rightarrow> guard_plaintext res" where
  "parse_guard_record K C indet now record_cbor key_b_pub key_a_pub timeslot =
     rbind (load_map C record_cbor) (\<lambda>m.
     rbind (case find_key m ''version'' of
              Some v \<Rightarrow> if isa_uint v then Inr (get_uint64 C v) else Inl (Runtime_Error ''Guard record missing version'')
            | None \<Rightarrow> Inl (Runtime_Error ''Guard record missing version'')) (\<lambda>ver.
     rbind (case find_key m ''timeslot'' of
              Some v \<Rightarrow> throw_if (get_uint64 C v \<noteq> timeslot) ''Guard record timeslot mismatch''
            | None \<Rightarrow> Inl (Runtime_Error ''Missing timeslot'')) (\<lambda>_.
     let timestamp = (case find_key m ''timestamp'' of Some v \<Rightarrow> get_uint64 C v | None \<Rightarrow> 0) in
     rbind (case find_key m ''ciphertext'' of
              Some (CMap ct_m) \<Rightarrow> Inr ct_m
            | _ \<Rightarrow> Inl (Runtime_Error ''Missing ciphertext map'')) (\<lambda>ct_m.
     rbind (bstr_of_size ct_m ''iv'' 12 ''iv must be 12 bytes'') (\<lambda>iv.
     rbind (bstr_or_throw (find_key ct_m ''ciphertext'') ''ciphertext'') (\<lambda>ct.
     rbind (bstr_of_size ct_m ''tag'' 16 ''tag must be 16 bytes'') (\<lambda>tg.
     rbind (bstr_of_size m ''signature'' MLDSA65_SIG_BYTES ''Bad signature length'') (\<lambda>sig.
     rbind (if ver = 2
            then rbind (bstr_or_throw (find_key m ''dht_delegation_cert'') ''dht_delegation_cert'') (\<lambda>dc.
                   verify_delegation_cert K C now dc key_a_pub)
            else Inr key_a_pub) (\<lambda>signing_pub.
     rbind (throw_if (\<not> mldsa_verify K signing_pub
              (if ver = 1 then sign_payload_v1 timeslot timestamp iv ct tg
               else sign_payload_v2 timeslot timestamp key_b_pub iv ct tg) sig)
              ''Guard record signature invalid'') (\<lambda>_.
     rbind (aes_decrypt K (if ver = 1 then guard_aead_key K key_b_pub timeslot
                           else inbox_aead_key K key_b_pub timeslot) iv ct tg []) (\<lambda>pt_cbor.
       decode_plaintext C indet pt_cbor)))))))))))"

subsection \<open>Prekey records\<close>

record prekey_record =
  pr_timestamp :: u64
  pr_prekeys :: "bytes list"

definition prekeys_array :: "cbor_lib \<Rightarrow> bytes list \<Rightarrow> cbor" where
  "prekeys_array C pks = definite_array C (length pks) (map CBytes pks)"

definition build_prekey_record ::
  "crypto_lib \<Rightarrow> cbor_lib \<Rightarrow> bytes \<Rightarrow> prekey_record \<Rightarrow> bytes \<Rightarrow> bytes res" where
  "build_prekey_record K C coins r key_a_priv =
     (let pk_arr = prekeys_array C (pr_prekeys r) in
      rbind (mldsa_sign K coins key_a_priv (be64 (pr_timestamp r) @ serialize_or_empty C pk_arr)) (\<lambda>sig.
        Inr (serialize_or_empty C (definite_map C 3
          (str_fields [(''timestamp'', build_uint64 (pr_timestamp r)),
           (''prekeys'', pk_arr),
           (''signature'', CBytes sig)])))))"

text \<open>The loop over the elements; one of another type or size throws.\<close>

primrec decode_prekeys :: "cbor list \<Rightarrow> bytes list res" where
  "decode_prekeys [] = Inr []"
| "decode_prekeys (x # xs) =
     (case x of
        CBytes b \<Rightarrow>
          if length b \<noteq> MLKEM768_PUBKEY_BYTES then Inl (Runtime_Error ''Invalid prekey size'')
          else rbind (decode_prekeys xs) (\<lambda>pks. Inr (b # pks))
      | _ \<Rightarrow> Inl (Runtime_Error ''Invalid prekey size''))"

definition parse_prekey_record ::
  "crypto_lib \<Rightarrow> cbor_lib \<Rightarrow> bytes \<Rightarrow> bytes \<Rightarrow> prekey_record res" where
  "parse_prekey_record K C record_cbor key_a_pub =
     rbind (load_map C record_cbor) (\<lambda>m.
     rbind (case find_key m ''timestamp'' of
              Some v \<Rightarrow> Inr (get_uint64 C v)
            | None \<Rightarrow> Inl (Runtime_Error ''Missing timestamp'')) (\<lambda>ts.
     rbind (case find_key m ''prekeys'' of
              Some (CArray xs) \<Rightarrow> Inr xs
            | _ \<Rightarrow> Inl (Runtime_Error ''Missing prekeys array'')) (\<lambda>xs.
     rbind (bstr_of_size m ''signature'' MLDSA65_SIG_BYTES ''Bad sig len'') (\<lambda>sig.
     rbind (throw_if (\<not> mldsa_verify K key_a_pub (be64 ts @ serialize_or_empty C (CArray xs)) sig)
              ''Prekey record signature invalid'') (\<lambda>_.
     rbind (decode_prekeys xs) (\<lambda>pks.
       Inr \<lparr>pr_timestamp = ts, pr_prekeys = pks\<rparr>))))))"

subsection \<open>Round trips\<close>

lemma bstr_or_throw_CBytes [simp]: "bstr_or_throw (Some (CBytes b)) field = Inr b"
  by (simp add: bstr_or_throw_def)

lemma load_map_fields:
  assumes "cbor_ok C" "list_all (\<lambda>(k, v). key_lit k) kvs" "list_all (\<lambda>(k, v). plain v 63) kvs"
    "length kvs \<le> cap" "length kvs < 2 ^ 64"
  shows "load_map C (serialize_or_empty C (definite_map C cap (str_fields kvs))) = Inr (str_fields kvs)"
  by (simp add: load_map_def load_fields [OF assms])

text \<open>Field values the serialiser can carry.\<close>

definition gp_ok :: "guard_plaintext \<Rightarrow> bool" where
  "gp_ok p \<longleftrightarrow> length (gp_guard_node_id p) < 2 ^ 32 \<and> length (gp_guard_endpoint p) < 2 ^ 32 \<and>
     no_nul (gp_guard_endpoint p) \<and> ascii (gp_guard_endpoint p) \<and> length (gp_session_token p) = 32 \<and>
     length (gp_inbox_auth_key p) < 2 ^ 32"

lemma plaintext_roundtrip:
  assumes C: "cbor_ok C" and p: "gp_ok p"
  shows "decode_plaintext C indet (encode_plaintext C p) = Inr p"
proof -
  let ?kvs = "[(''guard_node_id'', CBytes (gp_guard_node_id p)),
      (''guard_endpoint'', build_string (gp_guard_endpoint p)),
      (''session_token'', CBytes (gp_session_token p)),
      (''prekey_available'', CBool (gp_prekey_available p)),
      (''inbox_auth_key'', CBytes (gp_inbox_auth_key p)),
      (''inbox_auth_expiry'', build_uint64 (gp_inbox_auth_expiry p))]"
  have keys: "list_all (\<lambda>(k, v). key_lit k) ?kvs"
    by (simp add: key_lit_def)
  have load: "load_map C (encode_plaintext C p) = Inr (str_fields ?kvs)"
    unfolding encode_plaintext_def
    by (rule load_map_fields [OF C keys]) (use p in \<open>simp_all add: gp_ok_def\<close>)
  have "length (gp_session_token p) = 32" "c_str (gp_guard_endpoint p) = gp_guard_endpoint p"
    using p by (simp_all add: gp_ok_def)
  with C show ?thesis
    unfolding decode_plaintext_def load
    by (simp add: find_key_fields [OF keys] bstr_of_size_def) (simp add: build_string_def)
qed

lemma length_encode_plaintext:
  assumes "cbor_ok C" "cbor_compact C" "gp_ok p"
  shows "length (encode_plaintext C p) < 2 ^ 40"
proof -
  have "length (encode_plaintext C p) \<le>
      300 + length (gp_guard_node_id p) + length (gp_guard_endpoint p) + length (gp_inbox_auth_key p)"
    unfolding encode_plaintext_def
    by (rule order.trans [OF length_serialize_le [OF assms(2)]])
       (use assms(3) length_takeWhile_le [of "\<lambda>c. c \<noteq> CHR 0x00" "gp_guard_endpoint p"] in \<open>simp add: definite_map_take [OF assms(1)] str_fields_def build_string_def
          build_uint64_def gp_ok_def c_str_def\<close>)
  with assms(3) show ?thesis
    by (simp add: gp_ok_def)
qed

lemma delegation_roundtrip:
  assumes C: "cbor_ok C" "cbor_compact C" and sp: "sig_pair K (dc_owner_key_a_pubkey d) priv"
    and kc: "length (dc_key_c_pubkey d) = MLDSA65_PUBKEY_BYTES"
  obtains cert where "build_delegation_cert K C coins d priv = Inr cert" "length cert < 2 ^ 40"
    "\<And>now. verify_delegation_cert K C now cert (dc_owner_key_a_pubkey d) =
       (if now > dc_expires_at d then Inl (Runtime_Error ''Delegation cert expired'') else Inr (dc_key_c_pubkey d))"
proof -
  obtain sg where sg: "mldsa_sign K coins priv (delegation_sign_payload (dc_key_c_pubkey d)
        (dc_owner_key_a_pubkey d) (dc_issued_at d) (dc_expires_at d)) = Inr sg"
      "mldsa_verify K (dc_owner_key_a_pubkey d) (delegation_sign_payload (dc_key_c_pubkey d)
        (dc_owner_key_a_pubkey d) (dc_issued_at d) (dc_expires_at d)) sg" "length sg = MLDSA65_SIG_BYTES"
    by (rule sig_pair_sign [OF sp])
  have ka: "length (dc_owner_key_a_pubkey d) = MLDSA65_PUBKEY_BYTES"
    using sp by (simp add: sig_pair_def)
  let ?kvs = "[(''key_c_pubkey'', CBytes (dc_key_c_pubkey d)),
      (''owner_key_a_pubkey'', CBytes (dc_owner_key_a_pubkey d)),
      (''scope'', CText ''inbox''),
      (''issued_at'', build_uint64 (dc_issued_at d)),
      (''expires_at'', build_uint64 (dc_expires_at d)),
      (''signature'', CBytes sg)]"
  let ?cert = "serialize_or_empty C (definite_map C 6 (str_fields ?kvs))"
  have keys: "list_all (\<lambda>(k, v). key_lit k) ?kvs"
    by (simp add: key_lit_def)
  have scope: "build_string ''inbox'' = CText ''inbox''"
    by (simp add: build_string_def c_str_def)
  have load: "load_map C ?cert = Inr (str_fields ?kvs)"
    by (rule load_map_fields [OF C(1) keys])
       (use sg(3) ka kc in \<open>simp_all add: size_defs\<close>)
  have "build_delegation_cert K C coins d priv = Inr ?cert"
    by (simp add: build_delegation_cert_def sg(1) scope)
  moreover have "length ?cert < 2 ^ 40"
    by (rule le_less_trans [OF length_serialize_le [OF C(2)]])
       (use sg(3) ka kc in \<open>simp add: definite_map_take [OF C(1)] str_fields_def build_string_def
          build_uint64_def c_str_def size_defs\<close>)
  moreover have "verify_delegation_cert K C now ?cert (dc_owner_key_a_pubkey d) =
       (if now > dc_expires_at d then Inl (Runtime_Error ''Delegation cert expired'') else Inr (dc_key_c_pubkey d))" for now
    unfolding verify_delegation_cert_def load
    using sg(2,3) ka kc C(1) by (simp add: find_key_fields [OF keys] bstr_of_size_def)
  ultimately show ?thesis
    by (rule that)
qed

text \<open>The parser on a map whose ciphertext part came from \<open>ciphertext_map\<close>.\<close>

definition ct_fields :: "aes_encrypted \<Rightarrow> (string \<times> cbor) list" where
  "ct_fields ae = [(''iv'', CBytes (nonce ae)), (''ciphertext'', CBytes (ciphertext ae)), (''tag'', CBytes (tag ae))]"

lemma ciphertext_map_fields: "cbor_ok C \<Longrightarrow> ciphertext_map C ae = CMap (str_fields (ct_fields ae))"
  by (simp add: ciphertext_map_def definite_map_take str_fields_def ct_fields_def)

lemma ct_fields_keys: "list_all (\<lambda>(k, v). key_lit k) (ct_fields ae)"
  by (simp add: ct_fields_def key_lit_def)

lemma find_ct_fields [simp]:
  "find_key (str_fields (ct_fields ae)) ''iv'' = Some (CBytes (nonce ae))"
  "find_key (str_fields (ct_fields ae)) ''ciphertext'' = Some (CBytes (ciphertext ae))"
  "find_key (str_fields (ct_fields ae)) ''tag'' = Some (CBytes (tag ae))"
  by (simp_all add: find_key_fields [OF ct_fields_keys]) (simp_all add: ct_fields_def)

lemma plain_ct_fields:
  "length (nonce ae) < 2 ^ 64 \<Longrightarrow> length (ciphertext ae) < 2 ^ 64 \<Longrightarrow> length (tag ae) < 2 ^ 64 \<Longrightarrow>
     plain (CMap (str_fields (ct_fields ae))) 63"
  by (simp add: str_fields_def ct_fields_def build_string_def c_str_def)

lemma length_aead_keys [simp]:
  "hash_ok K \<Longrightarrow> length (guard_aead_key K kb ts) = 32" "hash_ok K \<Longrightarrow> length (inbox_aead_key K kb ts) = 32"
  by (simp_all add: guard_aead_key_def inbox_aead_key_def)

definition record_libs_ok :: "crypto_lib \<Rightarrow> cbor_lib \<Rightarrow> bool" where
  "record_libs_ok K C \<longleftrightarrow> cbor_ok C \<and> cbor_compact C \<and> hash_ok K \<and> aead_ok K"

lemma guard_v1_roundtrip:
  assumes L: "record_libs_ok K C" and sp: "sig_pair K ka priv" and p: "gp_ok p" and n: "length (re_nonce en) = 12"
  obtains r where "build_guard_record_v1 K C en kb ts p priv = Inr r"
    "\<And>ts' now indet. parse_guard_record K C indet now r kb ka ts' =
       (if ts' = ts then Inr p else Inl (Runtime_Error ''Guard record timeslot mismatch''))"
proof -
  have C: "cbor_ok C" "cbor_compact C" "hash_ok K" "aead_ok K"
    using L by (simp_all add: record_libs_ok_def)
  obtain ae where ae: "aes_encrypt K (re_nonce en) (guard_aead_key K kb ts) (encode_plaintext C p) [] = Inr ae"
      "nonce ae = re_nonce en" "length (tag ae) = 16" "length (ciphertext ae) = length (encode_plaintext C p)"
      "aes_decrypt K (guard_aead_key K kb ts) (nonce ae) (ciphertext ae) (tag ae) [] = Inr (encode_plaintext C p)"
    by (rule aes_roundtrip [OF C(4) length_aead_keys(1) [OF C(3)] n])
  obtain sg where sg: "mldsa_sign K (re_coins en) priv
        (sign_payload_v1 ts (re_now en) (nonce ae) (ciphertext ae) (tag ae)) = Inr sg"
      "mldsa_verify K ka (sign_payload_v1 ts (re_now en) (nonce ae) (ciphertext ae) (tag ae)) sg"
      "length sg = MLDSA65_SIG_BYTES"
    by (rule sig_pair_sign [OF sp])
  let ?kvs = "[(''version'', build_uint64 1), (''timeslot'', build_uint64 ts),
      (''timestamp'', build_uint64 (re_now en)), (''ciphertext'', CMap (str_fields (ct_fields ae))),
      (''signature'', CBytes sg)]"
  let ?r = "serialize_or_empty C (definite_map C 5 (str_fields ?kvs))"
  have keys: "list_all (\<lambda>(k, v). key_lit k) ?kvs"
    by (simp add: key_lit_def)
  have plain_ct: "plain (CMap (str_fields (ct_fields ae))) 63"
    using ae(2-4) n length_encode_plaintext [OF C(1,2) p] by (intro plain_ct_fields) simp_all
  have load: "load_map C ?r = Inr (str_fields ?kvs)"
    by (rule load_map_fields [OF C(1) keys])
       (use sg(3) plain_ct in \<open>simp_all add: size_defs del: plain.simps(6)\<close>)
  have "build_guard_record_v1 K C en kb ts p priv = Inr ?r"
    by (simp add: build_guard_record_v1_def ae(1) sg(1) ciphertext_map_fields [OF C(1)])
  moreover have "parse_guard_record K C indet now ?r kb ka ts' =
       (if ts' = ts then Inr p else Inl (Runtime_Error ''Guard record timeslot mismatch''))" for indet now ts'
    unfolding parse_guard_record_def load
    using sg(2,3) ae n C(1) plaintext_roundtrip [OF C(1) p]
    by (simp only: rbind_simps bstr_of_size_def find_key_fields [OF keys]) (simp add: Let_def)
  ultimately show ?thesis
    by (rule that)
qed

lemma guard_v2_roundtrip:
  assumes L: "record_libs_ok K C" and sp: "sig_pair K kc priv" and p: "gp_ok p" and n: "length (re_nonce en) = 12"
    and kb: "length kb = MLKEM768_PUBKEY_BYTES" and dc: "length cert < 2 ^ 40"
    and ver: "\<And>now. verify_delegation_cert K C now cert ka = (if now > ex then Inl e else Inr kc)"
  obtains r where "build_guard_record_v2 K C en kb ts p priv cert = Inr r"
    "\<And>ts' now indet. parse_guard_record K C indet now r kb ka ts' =
       (if ts' \<noteq> ts then Inl (Runtime_Error ''Guard record timeslot mismatch'')
        else if now > ex then Inl e else Inr p)"
proof -
  have C: "cbor_ok C" "cbor_compact C" "hash_ok K" "aead_ok K"
    using L by (simp_all add: record_libs_ok_def)
  obtain ae where ae: "aes_encrypt K (re_nonce en) (inbox_aead_key K kb ts) (encode_plaintext C p) [] = Inr ae"
      "nonce ae = re_nonce en" "length (tag ae) = 16" "length (ciphertext ae) = length (encode_plaintext C p)"
      "aes_decrypt K (inbox_aead_key K kb ts) (nonce ae) (ciphertext ae) (tag ae) [] = Inr (encode_plaintext C p)"
    by (rule aes_roundtrip [OF C(4) length_aead_keys(2) [OF C(3)] n])
  obtain sg where sg: "mldsa_sign K (re_coins en) priv
        (sign_payload_v2 ts (re_now en) kb (nonce ae) (ciphertext ae) (tag ae)) = Inr sg"
      "mldsa_verify K kc (sign_payload_v2 ts (re_now en) kb (nonce ae) (ciphertext ae) (tag ae)) sg"
      "length sg = MLDSA65_SIG_BYTES"
    by (rule sig_pair_sign [OF sp])
  let ?kvs = "[(''version'', build_uint64 2), (''timeslot'', build_uint64 ts),
      (''timestamp'', build_uint64 (re_now en)), (''target_key_b_pubkey'', CBytes kb),
      (''ciphertext'', CMap (str_fields (ct_fields ae))), (''signature'', CBytes sg),
      (''dht_delegation_cert'', CBytes cert)]"
  let ?r = "serialize_or_empty C (definite_map C 7 (str_fields ?kvs))"
  have keys: "list_all (\<lambda>(k, v). key_lit k) ?kvs"
    by (simp add: key_lit_def)
  have plain_ct: "plain (CMap (str_fields (ct_fields ae))) 63"
    using ae(2-4) n length_encode_plaintext [OF C(1,2) p] by (intro plain_ct_fields) simp_all
  have load: "load_map C ?r = Inr (str_fields ?kvs)"
    by (rule load_map_fields [OF C(1) keys])
       (use sg(3) plain_ct kb dc in \<open>simp_all add: size_defs del: plain.simps(6)\<close>)
  have "build_guard_record_v2 K C en kb ts p priv cert = Inr ?r"
    by (simp add: build_guard_record_v2_def ae(1) sg(1) ciphertext_map_fields [OF C(1)])
  moreover have "parse_guard_record K C indet now ?r kb ka ts' =
       (if ts' \<noteq> ts then Inl (Runtime_Error ''Guard record timeslot mismatch'')
        else if now > ex then Inl e else Inr p)" for indet now ts'
    unfolding parse_guard_record_def load
    using sg(2,3) ae n C(1) plaintext_roundtrip [OF C(1) p] ver
    by (simp only: rbind_simps bstr_of_size_def find_key_fields [OF keys]) (simp add: Let_def)
  ultimately show ?thesis
    by (rule that)
qed

text \<open>
  A guard record published by the client (version 1) or by the inbox under a delegation
  certificate of the client (version 2) is read back exactly by whoever looks it up with the
  client's keys in the same time slot; in another slot it is refused, and a version 2 record is
  refused once its certificate has expired.
\<close>

theorem guard_record_roundtrip:
  assumes "record_libs_ok K C" "sig_pair K ka ka_priv" "sig_pair K kc kc_priv" "gp_ok p"
    "length (re_nonce en) = 12" "length kb = MLKEM768_PUBKEY_BYTES"
  shows "(\<exists>r. build_guard_record_v1 K C en kb ts p ka_priv = Inr r \<and>
      (\<forall>ts' now. parse_guard_record K C indet now r kb ka ts' =
        (if ts' = ts then Inr p else Inl (Runtime_Error ''Guard record timeslot mismatch'')))) \<and>
    (\<exists>cert r. build_delegation_cert K C coins
        \<lparr>dc_key_c_pubkey = kc, dc_owner_key_a_pubkey = ka, dc_issued_at = ia, dc_expires_at = ex\<rparr> ka_priv = Inr cert \<and>
      build_guard_record_v2 K C en kb ts p kc_priv cert = Inr r \<and>
      (\<forall>ts' now. parse_guard_record K C indet now r kb ka ts' =
        (if ts' \<noteq> ts then Inl (Runtime_Error ''Guard record timeslot mismatch'')
         else if now > ex then Inl (Runtime_Error ''Delegation cert expired'') else Inr p)))"
proof (rule conjI)
  obtain r where "build_guard_record_v1 K C en kb ts p ka_priv = Inr r"
    "\<And>ts' now indet. parse_guard_record K C indet now r kb ka ts' =
       (if ts' = ts then Inr p else Inl (Runtime_Error ''Guard record timeslot mismatch''))"
    by (rule guard_v1_roundtrip [OF assms(1,2,4,5)]) (rule that)
  then show "\<exists>r. build_guard_record_v1 K C en kb ts p ka_priv = Inr r \<and>
      (\<forall>ts' now. parse_guard_record K C indet now r kb ka ts' =
        (if ts' = ts then Inr p else Inl (Runtime_Error ''Guard record timeslot mismatch'')))"
    by blast
  let ?d = "\<lparr>dc_key_c_pubkey = kc, dc_owner_key_a_pubkey = ka, dc_issued_at = ia, dc_expires_at = ex\<rparr>"
  have C: "cbor_ok C" "cbor_compact C"
    using assms(1) by (simp_all add: record_libs_ok_def)
  have d: "sig_pair K (dc_owner_key_a_pubkey ?d) ka_priv" "length (dc_key_c_pubkey ?d) = MLDSA65_PUBKEY_BYTES"
    using assms(2,3) by (simp_all add: sig_pair_def)
  obtain cert where cert: "build_delegation_cert K C coins ?d ka_priv = Inr cert" "length cert < 2 ^ 40"
      "\<And>now. verify_delegation_cert K C now cert (dc_owner_key_a_pubkey ?d) =
         (if now > dc_expires_at ?d then Inl (Runtime_Error ''Delegation cert expired'') else Inr (dc_key_c_pubkey ?d))"
    by (rule delegation_roundtrip [OF C d]) (rule that)
  have "verify_delegation_cert K C now cert ka =
      (if now > ex then Inl (Runtime_Error ''Delegation cert expired'') else Inr kc)" for now
    using cert(3) by simp
  from this obtain r where "build_guard_record_v2 K C en kb ts p kc_priv cert = Inr r"
    "\<And>ts' now indet. parse_guard_record K C indet now r kb ka ts' =
       (if ts' \<noteq> ts then Inl (Runtime_Error ''Guard record timeslot mismatch'')
        else if now > ex then Inl (Runtime_Error ''Delegation cert expired'') else Inr p)"
    by (rule guard_v2_roundtrip [OF assms(1,3-6) cert(2)]) (rule that)
  with cert(1) show "\<exists>cert r. build_delegation_cert K C coins ?d ka_priv = Inr cert \<and>
      build_guard_record_v2 K C en kb ts p kc_priv cert = Inr r \<and>
      (\<forall>ts' now. parse_guard_record K C indet now r kb ka ts' =
        (if ts' \<noteq> ts then Inl (Runtime_Error ''Guard record timeslot mismatch'')
         else if now > ex then Inl (Runtime_Error ''Delegation cert expired'') else Inr p))"
    by blast
qed

definition demo_gp :: guard_plaintext where
  "demo_gp = \<lparr>gp_guard_node_id = [1, 2], gp_guard_endpoint = ''10.0.0.1:9000'', gp_session_token = zeros 32,
     gp_prekey_available = True, gp_inbox_auth_key = [], gp_inbox_auth_expiry = 1700000000\<rparr>"

definition demo_env :: record_env where
  "demo_env = \<lparr>re_nonce = zeros 12, re_coins = [], re_now = 1600000000\<rparr>"

lemma demo_record_libs_ok [simp]: "record_libs_ok demo_crypto wire_cbor"
  by (simp add: record_libs_ok_def)

lemma demo_gp_ok [simp]: "gp_ok demo_gp"
  by (simp add: gp_ok_def demo_gp_def no_nul_def ascii_def)

theorem guard_record_roundtrip_witness:
  "(\<exists>r. build_guard_record_v1 demo_crypto wire_cbor demo_env (zeros 1184) 7 demo_gp (zeros 4032) = Inr r \<and>
     parse_guard_record demo_crypto wire_cbor 0 1600000001 r (zeros 1184) (zeros 1952) 7 = Inr demo_gp) \<and>
   (\<exists>cert r. build_delegation_cert demo_crypto wire_cbor [] \<lparr>dc_key_c_pubkey = zeros 1952,
        dc_owner_key_a_pubkey = zeros 1952, dc_issued_at = 1, dc_expires_at = 1800000000\<rparr> (zeros 4032) = Inr cert \<and>
     build_guard_record_v2 demo_crypto wire_cbor demo_env (zeros 1184) 7 demo_gp (zeros 4032) cert = Inr r \<and>
     parse_guard_record demo_crypto wire_cbor 0 1600000001 r (zeros 1184) (zeros 1952) 7 = Inr demo_gp \<and>
     parse_guard_record demo_crypto wire_cbor 0 1900000000 r (zeros 1184) (zeros 1952) 7 =
       Inl (Runtime_Error ''Delegation cert expired''))"
proof -
  note w = guard_record_roundtrip [of demo_crypto wire_cbor "zeros 1952" "zeros 4032" "zeros 1952" "zeros 4032"
      demo_gp demo_env "zeros 1184" 7 0 "[]" 1 1800000000]
  have "sig_pair demo_crypto (zeros 1952) (zeros 4032)"
    using demo_sig_pair by (simp add: size_defs)
  moreover have "length (re_nonce demo_env) = 12" "length (zeros 1184) = MLKEM768_PUBKEY_BYTES"
    by (simp_all add: demo_env_def size_defs)
  ultimately show ?thesis
    using w by fastforce
qed

subsection \<open>Authenticity\<close>

text \<open>
  C22. Whatever bytes the DHT returns, an accepted guard record carries a valid signature over
  its time slot and ciphertext: of the client's Key A, or of a Key C for which the client's Key
  A signed a delegation that has not expired; only then is the ciphertext opened. A version
  other than 1 and 2 counts as version 2 signed by Key A itself.
\<close>

theorem guard_record_authentic:
  assumes "parse_guard_record K C indet now r kb ka ts = Inr p"
  shows "\<exists>stamp iv ct tg sg pt. decode_plaintext C indet pt = Inr p \<and>
    (mldsa_verify K ka (sign_payload_v1 ts stamp iv ct tg) sg \<and>
       aes_decrypt K (guard_aead_key K kb ts) iv ct tg [] = Inr pt \<or>
     mldsa_verify K ka (sign_payload_v2 ts stamp kb iv ct tg) sg \<and>
       aes_decrypt K (inbox_aead_key K kb ts) iv ct tg [] = Inr pt \<or>
     (\<exists>kc ia ex dsg. mldsa_verify K ka (delegation_sign_payload kc ka ia ex) dsg \<and> now \<le> ex \<and>
       mldsa_verify K kc (sign_payload_v2 ts stamp kb iv ct tg) sg \<and>
       aes_decrypt K (inbox_aead_key K kb ts) iv ct tg [] = Inr pt))"
proof -
  have deleg: "\<exists>ia ex dsg. mldsa_verify K ka (delegation_sign_payload kc ka ia ex) dsg \<and> now \<le> ex"
    if "verify_delegation_cert K C now dc ka = Inr kc" for dc kc
    using that by (auto simp: verify_delegation_cert_def res_simps not_less split: prod.splits)
  obtain ver :: u64 and stamp iv ct tg sg sp pt dcr where parts:
      "(if ver = 2 then rbind dcr (\<lambda>dc. verify_delegation_cert K C now dc ka) else Inr ka) = Inr sp"
      "mldsa_verify K sp (if ver = 1 then sign_payload_v1 ts stamp iv ct tg
         else sign_payload_v2 ts stamp kb iv ct tg) sg"
      "aes_decrypt K (if ver = 1 then guard_aead_key K kb ts else inbox_aead_key K kb ts) iv ct tg [] = Inr pt"
      "decode_plaintext C indet pt = Inr p"
    using assms unfolding parse_guard_record_def Let_def rbind_Inr_iff throw_if_Inr_iff not_not by blast
  show ?thesis
  proof (cases "ver = 2")
    case True
    with parts(1) obtain dc where "verify_delegation_cert K C now dc ka = Inr sp"
      by (auto simp: rbind_Inr_iff)
    then obtain ia ex dsg where "mldsa_verify K ka (delegation_sign_payload sp ka ia ex) dsg" "now \<le> ex"
      using deleg by blast
    moreover have "mldsa_verify K sp (sign_payload_v2 ts stamp kb iv ct tg) sg"
        "aes_decrypt K (inbox_aead_key K kb ts) iv ct tg [] = Inr pt"
      using parts(2,3) True by simp_all
    ultimately show ?thesis
      using parts(4) by blast
  next
    case False
    with parts(1) have "sp = ka"
      by simp
    with parts(2-4) show ?thesis
      by (cases "ver = 1") (simp_all, blast+)
  qed
qed

theorem guard_record_authentic_witness:
  "\<exists>r stamp iv ct tg sg pt. decode_plaintext wire_cbor 0 pt = Inr demo_gp \<and>
    (mldsa_verify demo_crypto (zeros 1952) (sign_payload_v1 7 stamp iv ct tg) sg \<and>
       aes_decrypt demo_crypto (guard_aead_key demo_crypto (zeros 1184) 7) iv ct tg [] = Inr pt \<or>
     mldsa_verify demo_crypto (zeros 1952) (sign_payload_v2 7 stamp (zeros 1184) iv ct tg) sg \<and>
       aes_decrypt demo_crypto (inbox_aead_key demo_crypto (zeros 1184) 7) iv ct tg [] = Inr pt \<or>
     (\<exists>kc ia ex dsg. mldsa_verify demo_crypto (zeros 1952) (delegation_sign_payload kc (zeros 1952) ia ex) dsg \<and>
       5 \<le> ex \<and> mldsa_verify demo_crypto kc (sign_payload_v2 7 stamp (zeros 1184) iv ct tg) sg \<and>
       aes_decrypt demo_crypto (inbox_aead_key demo_crypto (zeros 1184) 7) iv ct tg [] = Inr pt)) \<and>
    parse_guard_record demo_crypto wire_cbor 0 5 r (zeros 1184) (zeros 1952) 7 = Inr demo_gp"
proof -
  have "sig_pair demo_crypto (zeros 1952) (zeros 4032)"
    using demo_sig_pair by (simp add: size_defs)
  moreover have "length (re_nonce demo_env) = 12"
    by (simp add: demo_env_def)
  ultimately obtain r where "parse_guard_record demo_crypto wire_cbor 0 5 r (zeros 1184) (zeros 1952) 7 = Inr demo_gp"
    using guard_v1_roundtrip [of demo_crypto wire_cbor "zeros 1952" "zeros 4032" demo_gp demo_env "zeros 1184" 7]
    by (metis demo_gp_ok demo_record_libs_ok)
  then show ?thesis
    using guard_record_authentic [of demo_crypto wire_cbor 0 5 r "zeros 1184" "zeros 1952" 7 demo_gp] by blast
qed

lemma decode_prekeys_Inr:
  "decode_prekeys xs = Inr pks \<longleftrightarrow> xs = map CBytes pks \<and> list_all (\<lambda>k. length k = MLKEM768_PUBKEY_BYTES) pks"
proof (induction xs arbitrary: pks)
  case (Cons x xs)
  then show ?case
    by (cases x; cases pks) (auto simp: res_simps)
qed auto

text \<open>
  C33. A prekey record is read back as published, and an accepted one is signed by Key A over
  exactly the timestamp and the list of prekeys that are returned, each of the size of an
  ML-KEM-768 key.
\<close>

theorem prekey_record_correct:
  assumes "record_libs_ok K C" "sig_pair K ka ka_priv"
    "list_all (\<lambda>k. length k = MLKEM768_PUBKEY_BYTES) (pr_prekeys rc)" "length (pr_prekeys rc) < 2 ^ 64"
  shows "(\<exists>r. build_prekey_record K C coins rc ka_priv = Inr r \<and> parse_prekey_record K C r ka = Inr rc) \<and>
    (parse_prekey_record K C data ka = Inr rc' \<longrightarrow>
      list_all (\<lambda>k. length k = MLKEM768_PUBKEY_BYTES) (pr_prekeys rc') \<and>
      (\<exists>sg. mldsa_verify K ka (be64 (pr_timestamp rc') @
         serialize_or_empty C (CArray (map CBytes (pr_prekeys rc')))) sg))"
proof (rule conjI)
  have C: "cbor_ok C"
    using assms(1) by (simp add: record_libs_ok_def)
  have arr: "prekeys_array C (pr_prekeys rc) = CArray (map CBytes (pr_prekeys rc))"
    by (simp add: prekeys_array_def definite_array_take [OF C])
  obtain sg where sg: "mldsa_sign K coins ka_priv
        (be64 (pr_timestamp rc) @ serialize_or_empty C (CArray (map CBytes (pr_prekeys rc)))) = Inr sg"
      "mldsa_verify K ka (be64 (pr_timestamp rc) @ serialize_or_empty C (CArray (map CBytes (pr_prekeys rc)))) sg"
      "length sg = MLDSA65_SIG_BYTES"
    by (rule sig_pair_sign [OF assms(2)])
  let ?kvs = "[(''timestamp'', build_uint64 (pr_timestamp rc)),
      (''prekeys'', CArray (map CBytes (pr_prekeys rc))), (''signature'', CBytes sg)]"
  let ?r = "serialize_or_empty C (definite_map C 3 (str_fields ?kvs))"
  have keys: "list_all (\<lambda>(k, v). key_lit k) ?kvs"
    by (simp add: key_lit_def)
  have load: "load_map C ?r = Inr (str_fields ?kvs)"
    by (rule load_map_fields [OF C keys])
       (use sg(3) assms(3,4) in \<open>auto simp: size_defs list_all_iff\<close>)
  have "decode_prekeys (map CBytes (pr_prekeys rc)) = Inr (pr_prekeys rc)"
    using assms(3) by (simp add: decode_prekeys_Inr)
  then have "parse_prekey_record K C ?r ka = Inr rc"
    unfolding parse_prekey_record_def load
    using sg(2,3) C by (simp only: rbind_simps bstr_of_size_def find_key_fields [OF keys]) simp
  moreover have "build_prekey_record K C coins rc ka_priv = Inr ?r"
    by (simp add: build_prekey_record_def arr sg(1) Let_def)
  ultimately show "\<exists>r. build_prekey_record K C coins rc ka_priv = Inr r \<and> parse_prekey_record K C r ka = Inr rc"
    by blast
  show "parse_prekey_record K C data ka = Inr rc' \<longrightarrow>
      list_all (\<lambda>k. length k = MLKEM768_PUBKEY_BYTES) (pr_prekeys rc') \<and>
      (\<exists>sg. mldsa_verify K ka (be64 (pr_timestamp rc') @
         serialize_or_empty C (CArray (map CBytes (pr_prekeys rc')))) sg)"
    by (auto simp: parse_prekey_record_def res_simps decode_prekeys_Inr)
qed

theorem prekey_record_correct_witness:
  "\<exists>r. build_prekey_record demo_crypto wire_cbor [] \<lparr>pr_timestamp = 9, pr_prekeys = [zeros 1184, zeros 1184]\<rparr> (zeros 4032) = Inr r \<and>
     parse_prekey_record demo_crypto wire_cbor r (zeros 1952) = Inr \<lparr>pr_timestamp = 9, pr_prekeys = [zeros 1184, zeros 1184]\<rparr>"
proof -
  have "sig_pair demo_crypto (zeros 1952) (zeros 4032)"
    using demo_sig_pair by (simp add: size_defs)
  then show ?thesis
    using prekey_record_correct [of demo_crypto wire_cbor "zeros 1952" "zeros 4032"
        "\<lparr>pr_timestamp = 9, pr_prekeys = [zeros 1184, zeros 1184]\<rparr>" "[]"]
    by (simp add: size_defs)
qed

end
