(* ===== verification/Client_Cert.thy ===== *)
theory Client_Cert
  imports Dht_Record
begin

text \<open>
  Certificates, contact cards and delivery frames of the client (\<^verbatim>\<open>client/src/cert.cpp\<close>). Three
  of its functions compare the text of a CBOR key with \<^verbatim>\<open>strcmp\<close>, although libcbor does not
  terminate the text: the comparison goes on in the memory behind the key. What stands there up to
  the next zero byte is the argument \<open>behind\<close>, by the index of the pair; \<open>\<lambda>_. []\<close> is a zero byte
  behind every key. libsodium's base64 functions are the record \<open>b64_lib\<close>.
\<close>

record b64_lib =
  bin2base64 :: "bytes \<Rightarrow> string"
  base642bin :: "string \<Rightarrow> bytes option"

type_synonym memory = "nat \<Rightarrow> string"

definition strcmp_eq :: "string \<Rightarrow> string \<Rightarrow> string \<Rightarrow> bool" where
  "strcmp_eq behind t lit \<longleftrightarrow> c_str (t @ behind) = lit"

subsection \<open>Signed maps\<close>

text \<open>\<^verbatim>\<open>cbor_map_without_sig\<close>: the print of the pairs whose key is not \<^verbatim>\<open>signature\<close>.\<close>

definition is_signature :: "cbor_lib \<Rightarrow> memory \<Rightarrow> nat \<times> cbor \<times> cbor \<Rightarrow> bool" where
  "is_signature C behind ikv = (case ikv of (i, k, v) \<Rightarrow> strcmp_eq (behind i) (text_of C k) ''signature'')"

definition cbor_map_without_sig :: "cbor_lib \<Rightarrow> memory \<Rightarrow> (cbor \<times> cbor) list \<Rightarrow> bytes" where
  "cbor_map_without_sig C behind ps = serialize_or_empty C (definite_map C (length ps)
     (map snd (filter (\<lambda>ikv. \<not> is_signature C behind ikv) (enumerate 0 ps))))"

text \<open>The loop that puts the signature into the first slot with that key.\<close>

fun replace_signature :: "cbor_lib \<Rightarrow> bytes \<Rightarrow> memory \<Rightarrow> nat \<Rightarrow> (cbor \<times> cbor) list \<Rightarrow> (cbor \<times> cbor) list" where
  "replace_signature C sig behind i [] = []"
| "replace_signature C sig behind i ((k, v) # ps) =
     (if is_signature C behind (i, k, v) then (k, CBytes sig) # ps
      else (k, v) # replace_signature C sig behind (Suc i) ps)"

definition sign_map :: "crypto_lib \<Rightarrow> cbor_lib \<Rightarrow> memory \<Rightarrow> bytes \<Rightarrow> bytes \<Rightarrow> (cbor \<times> cbor) list \<Rightarrow> bytes res" where
  "sign_map K C behind coins key_a_priv ps =
     rbind (mldsa_sign K coins key_a_priv (cbor_map_without_sig C behind ps)) (\<lambda>sig.
       Inr (serialize_or_empty C (CMap (replace_signature C sig behind 0 ps))))"

definition map_pairs :: "cbor \<Rightarrow> (cbor \<times> cbor) list" where
  "map_pairs m = (case m of CMap ps \<Rightarrow> ps | _ \<Rightarrow> [])"

definition issue_auth_cert ::
  "crypto_lib \<Rightarrow> cbor_lib \<Rightarrow> memory \<Rightarrow> bytes \<Rightarrow> bytes \<Rightarrow> bytes \<Rightarrow> bytes \<Rightarrow> string \<Rightarrow> string \<Rightarrow> int \<Rightarrow> bytes res" where
  "issue_auth_cert K C behind coins key_a_priv key_a_pub key_c_pub device_type device_label now_s =
     sign_map K C behind coins key_a_priv (map_pairs (definite_map C 8 (str_fields
       [(''key_c_pubkey'', CBytes key_c_pub),
        (''owner_key_a_pubkey'', CBytes key_a_pub),
        (''device_type'', build_string device_type),
        (''device_label'', build_string device_label),
        (''device_id'', CBytes (sha3_256 K key_c_pub)),
        (''issued_at'', build_uint64 (u64_of_int64 now_s)),
        (''expires_at'', build_uint64 (u64_of_int64 (now_s + 2592000))),
        (''signature'', CBytes [])])))"

definition issue_delegation_cert ::
  "crypto_lib \<Rightarrow> cbor_lib \<Rightarrow> memory \<Rightarrow> bytes \<Rightarrow> bytes \<Rightarrow> bytes \<Rightarrow> bytes \<Rightarrow> int \<Rightarrow> bytes res" where
  "issue_delegation_cert K C behind coins key_a_priv key_a_pub key_c_pub now_s =
     sign_map K C behind coins key_a_priv (map_pairs (definite_map C 6 (str_fields
       [(''key_c_pubkey'', CBytes key_c_pub),
        (''owner_key_a_pubkey'', CBytes key_a_pub),
        (''scope'', build_string ''inbox''),
        (''issued_at'', build_uint64 (u64_of_int64 now_s)),
        (''expires_at'', build_uint64 (u64_of_int64 (now_s + 2592000))),
        (''signature'', CBytes [])])))"

definition issue_revocation_notice ::
  "crypto_lib \<Rightarrow> cbor_lib \<Rightarrow> bytes \<Rightarrow> bytes \<Rightarrow> bytes \<Rightarrow> bytes \<Rightarrow> int \<Rightarrow> bytes res" where
  "issue_revocation_notice K C coins key_a_priv key_a_pub key_c_pub now_s =
     rbind (mldsa_sign K coins key_a_priv (key_c_pub @ be64 (u64_of_int64 now_s))) (\<lambda>sig.
       Inr (serialize_or_empty C (definite_map C 4 (str_fields
         [(''revoked_key_c_pubkey'', CBytes key_c_pub),
          (''owner_key_a_pubkey'', CBytes key_a_pub),
          (''revoked_at'', build_uint64 (u64_of_int64 now_s)),
          (''signature'', CBytes sig)]))))"

subsection \<open>Contact cards\<close>

record contact_card =
  cc_key_a_pubkey :: bytes
  cc_cr_key_b_kem_pubkey :: bytes
  cc_display_name :: string
  cc_created_at :: int

definition card_prefix :: string where
  "card_prefix = ''scatterweb://contact/''"

definition encode_contact_card ::
  "crypto_lib \<Rightarrow> cbor_lib \<Rightarrow> b64_lib \<Rightarrow> bytes \<Rightarrow> bytes \<Rightarrow> bytes \<Rightarrow> bytes \<Rightarrow> string \<Rightarrow> int \<Rightarrow> string res" where
  "encode_contact_card K C B coins key_a_priv key_a_pub cr_key_b_kem_pub display_name now_s =
     rbind (mldsa_sign K coins key_a_priv
              ([1] @ key_a_pub @ cr_key_b_kem_pub @ as_bytes display_name @ be64 (u64_of_int64 now_s))) (\<lambda>sig.
       Inr (card_prefix @ bin2base64 B (serialize_or_empty C (definite_map C 6 (str_fields
         [(''version'', build_uint64 1),
          (''key_a_pubkey'', CBytes key_a_pub),
          (''cr_key_b_kem_pubkey'', CBytes cr_key_b_kem_pub),
          (''display_name'', build_string display_name),
          (''created_at'', build_uint64 (u64_of_int64 now_s)),
          (''signature'', CBytes sig)])))))"

definition card_field :: "cbor_lib \<Rightarrow> contact_card \<Rightarrow> cbor \<times> cbor \<Rightarrow> contact_card" where
  "card_field C cd kv = (case kv of (k, v) \<Rightarrow>
     let key = text_of C k in
     if key = ''key_a_pubkey'' \<and> isa_bytestring v then
       (if length (bytes_of C v) = MLDSA65_PUBKEY_BYTES then cd\<lparr>cc_key_a_pubkey := bytes_of C v\<rparr> else cd)
     else if key = ''cr_key_b_kem_pubkey'' \<and> isa_bytestring v then
       (if length (bytes_of C v) = MLKEM768_PUBKEY_BYTES then cd\<lparr>cc_cr_key_b_kem_pubkey := bytes_of C v\<rparr> else cd)
     else if key = ''display_name'' \<and> isa_string v then cd\<lparr>cc_display_name := text_of C v\<rparr>
     else if key = ''created_at'' \<and> isa_uint v then cd\<lparr>cc_created_at := int64_of (get_uint64 C v)\<rparr>
     else cd)"

definition decode_contact_card :: "cbor_lib \<Rightarrow> b64_lib \<Rightarrow> string \<Rightarrow> contact_card option" where
  "decode_contact_card C B uri =
     (if take (length card_prefix) uri \<noteq> card_prefix then None
      else case base642bin B (drop (length card_prefix) uri) of
             None \<Rightarrow> None
           | Some bin \<Rightarrow>
               (case cbor_load C bin of
                  Some (CMap ps) \<Rightarrow> Some (foldl (card_field C)
                    \<lparr>cc_key_a_pubkey = zeros MLDSA65_PUBKEY_BYTES, cc_cr_key_b_kem_pubkey = zeros MLKEM768_PUBKEY_BYTES,
                     cc_display_name = [], cc_created_at = 0\<rparr> ps)
                | _ \<Rightarrow> None))"

definition verify_contact_card :: "crypto_lib \<Rightarrow> contact_card \<Rightarrow> bytes \<Rightarrow> bytes \<Rightarrow> bool" where
  "verify_contact_card K cd raw_sig signed_bytes \<longleftrightarrow>
     length raw_sig = MLDSA65_SIG_BYTES \<and> mldsa_verify K (cc_key_a_pubkey cd) signed_bytes raw_sig"

subsection \<open>Delivery frames\<close>

record delivery_frame =
  df_message_id :: bytes
  df_persistence :: string
  df_sender_id :: bytes
  df_cert_fingerprint :: bytes
  df_sender_outbox_cert :: bytes
  df_envelope_type :: string
  df_encrypted_envelope :: bytes

definition frame_fields :: "delivery_frame \<Rightarrow> (string \<times> cbor) list" where
  "frame_fields f =
     [(''version'', build_uint64 1),
      (''message_id'', CBytes (df_message_id f)),
      (''persistence'', build_string (df_persistence f)),
      (''sender_id'', CBytes (df_sender_id f)),
      (''cert_fingerprint'', CBytes (df_cert_fingerprint f))] @
     (if df_sender_outbox_cert f \<noteq> [] then [(''sender_outbox_auth_cert'', CBytes (df_sender_outbox_cert f))] else []) @
     [(''envelope_type'', build_string (df_envelope_type f)),
      (''encrypted_envelope'', CBytes (df_encrypted_envelope f))]"

definition encode_delivery_frame :: "cbor_lib \<Rightarrow> delivery_frame \<Rightarrow> bytes" where
  "encode_delivery_frame C f =
     (let field_count = (if df_sender_outbox_cert f \<noteq> [] then 7 else 6)
      in serialize_or_empty C (definite_map C field_count (str_fields (frame_fields f))))"

definition frame_field :: "cbor_lib \<Rightarrow> memory \<Rightarrow> delivery_frame \<Rightarrow> nat \<times> cbor \<times> cbor \<Rightarrow> delivery_frame" where
  "frame_field C behind f ikv = (case ikv of (i, k, v) \<Rightarrow>
     let key = strcmp_eq (behind i) (text_of C k) in
     if key ''message_id'' \<and> isa_bytestring v then f\<lparr>df_message_id := bytes_of C v\<rparr>
     else if key ''persistence'' \<and> isa_string v then f\<lparr>df_persistence := text_of C v\<rparr>
     else if key ''sender_id'' \<and> isa_bytestring v then f\<lparr>df_sender_id := bytes_of C v\<rparr>
     else if key ''cert_fingerprint'' \<and> isa_bytestring v then f\<lparr>df_cert_fingerprint := bytes_of C v\<rparr>
     else if key ''sender_outbox_auth_cert'' \<and> isa_bytestring v then f\<lparr>df_sender_outbox_cert := bytes_of C v\<rparr>
     else if key ''envelope_type'' \<and> isa_string v then f\<lparr>df_envelope_type := text_of C v\<rparr>
     else if key ''encrypted_envelope'' \<and> isa_bytestring v then f\<lparr>df_encrypted_envelope := bytes_of C v\<rparr>
     else f)"

definition empty_frame :: delivery_frame where
  "empty_frame = \<lparr>df_message_id = [], df_persistence = [], df_sender_id = [], df_cert_fingerprint = [],
     df_sender_outbox_cert = [], df_envelope_type = [], df_encrypted_envelope = []\<rparr>"

definition decode_delivery_frame :: "cbor_lib \<Rightarrow> memory \<Rightarrow> bytes \<Rightarrow> delivery_frame res" where
  "decode_delivery_frame C behind data =
     (case cbor_load C data of
        Some (CMap ps) \<Rightarrow> Inr (foldl (frame_field C behind) empty_frame (enumerate 0 ps))
      | _ \<Rightarrow> Inl (Runtime_Error ''invalid delivery_frame CBOR''))"

subsection \<open>Round trips\<close>

definition frame_ok :: "delivery_frame \<Rightarrow> bool" where
  "frame_ok f \<longleftrightarrow> no_nul (df_persistence f) \<and> ascii (df_persistence f) \<and> no_nul (df_envelope_type f) \<and> ascii (df_envelope_type f) \<and>
     length (df_message_id f) < 2 ^ 64 \<and> length (df_persistence f) < 2 ^ 64 \<and> length (df_sender_id f) < 2 ^ 64 \<and>
     length (df_cert_fingerprint f) < 2 ^ 64 \<and> length (df_sender_outbox_cert f) < 2 ^ 64 \<and> length (df_envelope_type f) < 2 ^ 64"

lemma strcmp_terminated [simp]: "no_nul t \<Longrightarrow> strcmp_eq [] t lit \<longleftrightarrow> t = lit"
  by (simp add: strcmp_eq_def)

lemma definite_map_fields: "cbor_ok C \<Longrightarrow> definite_map C cap (str_fields kvs) = CMap (str_fields (take cap kvs))"
  by (simp add: definite_map_take str_fields_def take_map)

lemma load_some_fields:
  assumes "cbor_ok C" "list_all (\<lambda>(k, v). key_lit k) kvs" "list_all (\<lambda>(k, v). plain v 63) kvs" "length kvs < 2 ^ 64"
  shows "cbor_load C (serialize_or_empty C (CMap (str_fields kvs))) = Some (CMap (str_fields kvs))"
  using load_fields [OF assms(1-3) order_refl assms(4)] by (simp add: definite_map_fields [OF assms(1)])

lemma text_of_key [simp]: "cbor_ok C \<Longrightarrow> key_lit k \<Longrightarrow> text_of C (build_string k) = k"
  by (simp add: key_litD)

lemma enumerate_str_fields: "enumerate i (str_fields kvs) = map (\<lambda>(j, k, v). (j, build_string k, v)) (enumerate i kvs)"
  by (induction kvs arbitrary: i) (auto simp: str_fields_def)

lemma load_encoded_frame:
  assumes "cbor_ok C" "frame_ok f"
  shows "cbor_load C (encode_delivery_frame C f) = Some (CMap (str_fields (butlast (frame_fields f))))"
proof -
  have "encode_delivery_frame C f = serialize_or_empty C (CMap (str_fields (butlast (frame_fields f))))"
    using assms(1) by (simp add: encode_delivery_frame_def definite_map_fields frame_fields_def)
  then show ?thesis
    using assms(2) by (simp only:) (intro load_some_fields [OF assms(1)], simp_all add: frame_fields_def key_lit_def frame_ok_def)
qed

text \<open>
  The encoder's map is one field too small: decoding an encoded delivery frame gives every
  field back except the encrypted envelope, which is lost.
\<close>

theorem delivery_frame_loses_envelope:
  assumes "cbor_ok C" "frame_ok f"
  shows "decode_delivery_frame C (\<lambda>_. []) (encode_delivery_frame C f) = Inr (f\<lparr>df_encrypted_envelope := []\<rparr>)"
proof -
  have "c_str (df_persistence f) = df_persistence f" "c_str (df_envelope_type f) = df_envelope_type f"
    using assms(2) by (simp_all add: frame_ok_def)
  then show ?thesis
    using assms(1) load_encoded_frame [OF assms]
    by (cases f) (simp add: decode_delivery_frame_def frame_fields_def str_fields_def frame_field_def empty_frame_def
        build_string_def strcmp_eq_def c_str_def Let_def)
qed

definition demo_frame :: delivery_frame where
  "demo_frame = \<lparr>df_message_id = [1], df_persistence = ''store'', df_sender_id = [2], df_cert_fingerprint = [3],
     df_sender_outbox_cert = [4], df_envelope_type = ''ratchet'', df_encrypted_envelope = [5]\<rparr>"

theorem delivery_frame_loses_envelope_witness:
  "decode_delivery_frame wire_cbor (\<lambda>_. []) (encode_delivery_frame wire_cbor demo_frame) = Inr (demo_frame\<lparr>df_encrypted_envelope := []\<rparr>)
    \<and> df_encrypted_envelope demo_frame = [5]"
  using delivery_frame_loses_envelope [OF wire_cbor_ok, of demo_frame]
  by (simp add: demo_frame_def frame_ok_def no_nul_def ascii_def)

definition b64_ok :: "b64_lib \<Rightarrow> bool" where
  "b64_ok B \<longleftrightarrow> (\<forall>b. base642bin B (bin2base64 B b) = Some b)"

text \<open>
  A contact card survives its URI: decoding an encoded card gives the two keys, the name
  and the time back.
\<close>

theorem contact_card_roundtrip:
  assumes "cbor_ok C" "b64_ok B" "sig_pair K key_a_pub key_a_priv" "length cr_pub = MLKEM768_PUBKEY_BYTES"
    and "no_nul name" "ascii name" "length name < 2 ^ 64" "int64_range now"
  shows "\<exists>uri. encode_contact_card K C B coins key_a_priv key_a_pub cr_pub name now = Inr uri \<and>
    decode_contact_card C B uri = Some \<lparr>cc_key_a_pubkey = key_a_pub, cc_cr_key_b_kem_pubkey = cr_pub,
      cc_display_name = name, cc_created_at = now\<rparr>"
proof -
  let ?msg = "[1] @ key_a_pub @ cr_pub @ as_bytes name @ be64 (u64_of_int64 now)"
  obtain sg where sg: "mldsa_sign K coins key_a_priv ?msg = Inr sg" "length sg = MLDSA65_SIG_BYTES"
    using sig_pair_sign [OF assms(3)] by metis
  let ?kvs = "[(''version'', build_uint64 1), (''key_a_pubkey'', CBytes key_a_pub), (''cr_key_b_kem_pubkey'', CBytes cr_pub),
      (''display_name'', build_string name), (''created_at'', build_uint64 (u64_of_int64 now)), (''signature'', CBytes sg)]"
  have ka: "length key_a_pub = MLDSA65_PUBKEY_BYTES"
    using assms(3) by (simp add: sig_pair_def)
  have "cbor_load C (serialize_or_empty C (definite_map C 6 (str_fields ?kvs))) = Some (CMap (str_fields ?kvs))"
    using assms(4-7) ka sg(2) by (intro load_fields [OF assms(1)]) (simp_all add: key_lit_def size_defs)
  moreover have "takeWhile (\<lambda>c. c \<noteq> CHR 0x00) name = name"
    using c_str_id [OF assms(5)] by (simp add: c_str_def)
  ultimately have "decode_contact_card C B (card_prefix @ bin2base64 B (serialize_or_empty C (definite_map C 6 (str_fields ?kvs))))
      = Some \<lparr>cc_key_a_pubkey = key_a_pub, cc_cr_key_b_kem_pubkey = cr_pub, cc_display_name = name, cc_created_at = now\<rparr>"
    using assms(1,2,4,8) ka
    by (simp add: decode_contact_card_def b64_ok_def str_fields_def card_field_def int64_roundtrip c_str_def size_defs)
  then show ?thesis
    using sg(1) by (simp add: encode_contact_card_def)
qed

definition demo_b64 :: b64_lib where
  "demo_b64 = \<lparr>bin2base64 = of_bytes, base642bin = (\<lambda>s. Some (as_bytes s))\<rparr>"

lemma as_bytes_of_bytes [simp]: "as_bytes (of_bytes b) = b"
proof (induction b)
  case (Cons x b)
  have "unat x < 256"
    using unsigned_less [of x] by simp
  then have "(of_nat (of_char (char_of (unat x) :: char)) :: u8) = x"
    by (simp only: of_char_of mod_less of_nat_unat ucast_id)
  then have "(of_char (char_of (unat x) :: char) :: u8) = x"
    by (simp only: of_nat_of_char)
  with Cons show ?case
    by (simp add: as_bytes_def of_bytes_def)
qed (simp add: as_bytes_def of_bytes_def)

lemma demo_b64_ok [simp]: "b64_ok demo_b64"
  by (simp add: b64_ok_def demo_b64_def)

lemma demo_sig_pair' [simp]: "sig_pair demo_crypto (zeros 1952) (zeros 4032)"
  using demo_sig_pair by (simp add: size_defs)

theorem contact_card_roundtrip_witness:
  "\<exists>uri. encode_contact_card demo_crypto wire_cbor demo_b64 [] (zeros 4032) (zeros 1952) (zeros 1184) ''Ann'' 5 = Inr uri \<and>
    decode_contact_card wire_cbor demo_b64 uri = Some \<lparr>cc_key_a_pubkey = zeros 1952, cc_cr_key_b_kem_pubkey = zeros 1184,
      cc_display_name = ''Ann'', cc_created_at = 5\<rparr>"
  by (rule contact_card_roundtrip) (simp_all add: size_defs no_nul_def ascii_def int64_range_def)

subsection \<open>Issued certificates\<close>

lemma is_signature_key [simp]:
  "cbor_ok C \<Longrightarrow> key_lit k \<Longrightarrow> is_signature C (\<lambda>_. []) (i, build_string k, v) \<longleftrightarrow> k = ''signature''"
  by (simp add: is_signature_def key_litD)

lemma key_lit_signature [simp]: "key_lit ''signature''"
  by (simp add: key_lit_def)

lemma filter_no_signature:
  assumes "cbor_ok C" "list_all (\<lambda>(k, v). key_lit k \<and> k \<noteq> ''signature'') kvs"
  shows "filter (\<lambda>ikv. \<not> is_signature C (\<lambda>_. []) ikv) (enumerate i (str_fields kvs)) = enumerate i (str_fields kvs)"
  using assms(2) by (induction kvs arbitrary: i) (auto simp: str_fields_def assms(1))

lemma without_sig_last:
  assumes "cbor_ok C" "list_all (\<lambda>(k, v). key_lit k \<and> k \<noteq> ''signature'') kvs"
  shows "cbor_map_without_sig C (\<lambda>_. []) (str_fields (kvs @ [(''signature'', v)])) = serialize_or_empty C (CMap (str_fields kvs))"
proof -
  have "str_fields (kvs @ [(''signature'', v)]) = str_fields kvs @ [(build_string ''signature'', v)]"
    by (simp add: str_fields_def)
  then show ?thesis
    using filter_no_signature [OF assms]
    by (simp add: cbor_map_without_sig_def definite_map_take [OF assms(1)] enumerate_append_eq assms(1))
qed

lemma replace_signature_last:
  assumes "cbor_ok C" "list_all (\<lambda>(k, v). key_lit k \<and> k \<noteq> ''signature'') kvs"
  shows "replace_signature C sig (\<lambda>_. []) i (str_fields (kvs @ [(''signature'', v)])) = str_fields (kvs @ [(''signature'', CBytes sig)])"
  using assms(2) by (induction kvs arbitrary: i) (auto simp: str_fields_def assms(1))

lemma sign_map_last:
  assumes C: "cbor_ok C" and sp: "sig_pair K pub priv"
    and kvs: "list_all (\<lambda>(k, v). key_lit k \<and> k \<noteq> ''signature'') kvs" "list_all (\<lambda>(k, v). plain v 63) kvs" "length kvs < 100"
  obtains cert sg where "sign_map K C (\<lambda>_. []) coins priv (str_fields (kvs @ [(''signature'', CBytes [])])) = Inr cert"
    "cbor_load C cert = Some (CMap (str_fields (kvs @ [(''signature'', CBytes sg)])))" "length sg = MLDSA65_SIG_BYTES"
    "mldsa_sign K coins priv (serialize_or_empty C (CMap (str_fields kvs))) = Inr sg"
    "mldsa_verify K pub (serialize_or_empty C (CMap (str_fields kvs))) sg"
proof -
  obtain sg where sg: "mldsa_sign K coins priv (serialize_or_empty C (CMap (str_fields kvs))) = Inr sg"
    "mldsa_verify K pub (serialize_or_empty C (CMap (str_fields kvs))) sg" "length sg = MLDSA65_SIG_BYTES"
    by (rule sig_pair_sign [OF sp])
  let ?kvs = "kvs @ [(''signature'', CBytes sg)]"
  have "cbor_load C (serialize_or_empty C (CMap (str_fields ?kvs))) = Some (CMap (str_fields ?kvs))"
    using kvs sg(3) by (intro load_some_fields [OF C]) (auto simp: list_all_iff size_defs)
  then show ?thesis
    using sg by (intro that) (simp_all add: sign_map_def without_sig_last [OF C kvs(1)] replace_signature_last [OF C kvs(1)])
qed

text \<open>The fields of the two certificates that are signed.\<close>

definition auth_fields :: "crypto_lib \<Rightarrow> bytes \<Rightarrow> bytes \<Rightarrow> string \<Rightarrow> string \<Rightarrow> int \<Rightarrow> (string \<times> cbor) list" where
  "auth_fields K key_a_pub key_c_pub device_type device_label now_s =
     [(''key_c_pubkey'', CBytes key_c_pub), (''owner_key_a_pubkey'', CBytes key_a_pub), (''device_type'', build_string device_type),
      (''device_label'', build_string device_label), (''device_id'', CBytes (sha3_256 K key_c_pub)),
      (''issued_at'', build_uint64 (u64_of_int64 now_s)), (''expires_at'', build_uint64 (u64_of_int64 (now_s + 2592000)))]"

definition delegation_fields :: "bytes \<Rightarrow> bytes \<Rightarrow> int \<Rightarrow> (string \<times> cbor) list" where
  "delegation_fields key_a_pub key_c_pub now_s =
     [(''key_c_pubkey'', CBytes key_c_pub), (''owner_key_a_pubkey'', CBytes key_a_pub), (''scope'', build_string ''inbox''),
      (''issued_at'', build_uint64 (u64_of_int64 now_s)), (''expires_at'', build_uint64 (u64_of_int64 (now_s + 2592000)))]"

lemma issue_auth_cert_sign_map:
  "cbor_ok C \<Longrightarrow> issue_auth_cert K C behind coins a_priv a_pub c_pub ty lb now =
     sign_map K C behind coins a_priv (str_fields (auth_fields K a_pub c_pub ty lb now @ [(''signature'', CBytes [])]))"
  by (simp add: issue_auth_cert_def definite_map_fields map_pairs_def auth_fields_def)

lemma issue_delegation_cert_sign_map:
  "cbor_ok C \<Longrightarrow> issue_delegation_cert K C behind coins a_priv a_pub c_pub now =
     sign_map K C behind coins a_priv (str_fields (delegation_fields a_pub c_pub now @ [(''signature'', CBytes [])]))"
  by (simp add: issue_delegation_cert_def definite_map_fields map_pairs_def delegation_fields_def)

text \<open>
  An authorisation certificate the client issues parses back to its fields with a signature
  of Key A that is valid for the CBOR map of the other fields, provided a zero byte stands behind
  the keys that are compared.
\<close>

lemma issued_auth_cert_valid:
  assumes "cbor_ok C" "hash_ok K" "sig_pair K key_a_pub key_a_priv" "length key_c_pub = MLDSA65_PUBKEY_BYTES"
    and "ascii device_type" "ascii device_label" "length device_type < 2 ^ 60" "length device_label < 2 ^ 60"
  shows "\<exists>cert sg. issue_auth_cert K C (\<lambda>_. []) coins key_a_priv key_a_pub key_c_pub device_type device_label now_s = Inr cert
    \<and> cbor_load C cert = Some (CMap (str_fields (auth_fields K key_a_pub key_c_pub device_type device_label now_s
        @ [(''signature'', CBytes sg)])))
    \<and> mldsa_verify K key_a_pub (serialize_or_empty C (CMap (str_fields (auth_fields K key_a_pub key_c_pub device_type device_label now_s)))) sg"
proof -
  let ?kvs = "auth_fields K key_a_pub key_c_pub device_type device_label now_s"
  have "length (sha3_256 K key_c_pub) = 32" "length key_a_pub = MLDSA65_PUBKEY_BYTES"
    using assms(2,3) by (simp_all add: hash_ok_def sha3_256_def sig_pair_def)
  moreover have "length (c_str device_type) < 2 ^ 64" "length (c_str device_label) < 2 ^ 64"
    using length_c_str_le [of device_type] length_c_str_le [of device_label] assms(7,8) by simp_all
  ultimately have p: "list_all (\<lambda>(k, v). plain v 63) ?kvs"
    using assms(4-6) by (simp add: auth_fields_def size_defs ascii_c_str)
  have k: "list_all (\<lambda>(k, v). key_lit k \<and> k \<noteq> ''signature'') ?kvs" "length ?kvs < 100"
    by (simp_all add: auth_fields_def key_lit_def)
  obtain cert sg where "sign_map K C (\<lambda>_. []) coins key_a_priv (str_fields (?kvs @ [(''signature'', CBytes [])])) = Inr cert"
    "cbor_load C cert = Some (CMap (str_fields (?kvs @ [(''signature'', CBytes sg)])))"
    "mldsa_verify K key_a_pub (serialize_or_empty C (CMap (str_fields ?kvs))) sg"
    by (rule sign_map_last [OF assms(1,3) k(1) p k(2)])
  then show ?thesis
    unfolding issue_auth_cert_sign_map [OF assms(1)] by blast
qed

text \<open>
  The delegation certificate the client issues signs the CBOR map of its fields, and the
  verifier of the DHT records checks the signature against the concatenation of the raw fields:
  the certificate is accepted only if the signature of the one is also valid for the other.
\<close>

theorem issued_delegation_cert_checked:
  assumes "cbor_ok C" "sig_pair K key_a_pub key_a_priv" "length key_c_pub = MLDSA65_PUBKEY_BYTES"
  shows "\<exists>cert sg. issue_delegation_cert K C (\<lambda>_. []) coins key_a_priv key_a_pub key_c_pub now_s = Inr cert
    \<and> mldsa_sign K coins key_a_priv (serialize_or_empty C (CMap (str_fields (delegation_fields key_a_pub key_c_pub now_s)))) = Inr sg
    \<and> (\<forall>now. verify_delegation_cert K C now cert key_a_pub =
        (if \<not> mldsa_verify K key_a_pub (delegation_sign_payload key_c_pub key_a_pub (u64_of_int64 now_s) (u64_of_int64 (now_s + 2592000))) sg
         then Inl (Runtime_Error ''Delegation cert signature invalid'')
         else if now > u64_of_int64 (now_s + 2592000) then Inl (Runtime_Error ''Delegation cert expired'')
         else Inr key_c_pub))"
proof -
  let ?kvs = "delegation_fields key_a_pub key_c_pub now_s"
  have a: "length key_a_pub = MLDSA65_PUBKEY_BYTES"
    using assms(2) by (simp add: sig_pair_def)
  then have p: "list_all (\<lambda>(k, v). plain v 63) ?kvs"
    using assms(3) by (simp add: delegation_fields_def size_defs ascii_def c_str_def)
  have k: "list_all (\<lambda>(k, v). key_lit k \<and> k \<noteq> ''signature'') ?kvs" "length ?kvs < 100"
    by (simp_all add: delegation_fields_def key_lit_def)
  obtain cert sg where c: "sign_map K C (\<lambda>_. []) coins key_a_priv (str_fields (?kvs @ [(''signature'', CBytes [])])) = Inr cert"
    "cbor_load C cert = Some (CMap (str_fields (?kvs @ [(''signature'', CBytes sg)])))"
    "mldsa_sign K coins key_a_priv (serialize_or_empty C (CMap (str_fields ?kvs))) = Inr sg" "length sg = MLDSA65_SIG_BYTES"
    by (rule sign_map_last [OF assms(1,2) k(1) p k(2)])
  let ?kvs' = "?kvs @ [(''signature'', CBytes sg)]"
  have "list_all (\<lambda>(k, v). key_lit k) ?kvs'"
    by (simp add: delegation_fields_def key_lit_def)
  from find_key_fields [OF this] have f:
    "find_key (str_fields ?kvs') ''key_c_pubkey'' = Some (CBytes key_c_pub)"
    "find_key (str_fields ?kvs') ''owner_key_a_pubkey'' = Some (CBytes key_a_pub)"
    "find_key (str_fields ?kvs') ''scope'' = Some (CText ''inbox'')"
    "find_key (str_fields ?kvs') ''issued_at'' = Some (build_uint64 (u64_of_int64 now_s))"
    "find_key (str_fields ?kvs') ''expires_at'' = Some (build_uint64 (u64_of_int64 (now_s + 2592000)))"
    "find_key (str_fields ?kvs') ''signature'' = Some (CBytes sg)"
    by (simp_all add: delegation_fields_def build_string_def c_str_def)
  have "verify_delegation_cert K C now cert key_a_pub =
        (if \<not> mldsa_verify K key_a_pub (delegation_sign_payload key_c_pub key_a_pub (u64_of_int64 now_s) (u64_of_int64 (now_s + 2592000))) sg
         then Inl (Runtime_Error ''Delegation cert signature invalid'')
         else if now > u64_of_int64 (now_s + 2592000) then Inl (Runtime_Error ''Delegation cert expired'')
         else Inr key_c_pub)" for now
    using a c(4) assms(1,3) by (simp add: verify_delegation_cert_def load_map_def c(2) f bstr_of_size_def)
  with c(1,3) show ?thesis
    unfolding issue_delegation_cert_sign_map [OF assms(1)] by blast
qed

text \<open>A signature scheme that binds the length of the message only: enough to tell the two formats apart.\<close>

definition length_crypto :: crypto_lib where
  "length_crypto = demo_crypto\<lparr>
     sig_sign := (\<lambda>s priv msg. Some (replicate MLDSA65_SIG_BYTES (of_nat (length msg)))),
     sig_verify := (\<lambda>pub msg sg. sg = replicate MLDSA65_SIG_BYTES (of_nat (length msg)))\<rparr>"

lemma length_sig_pair: "sig_pair length_crypto (zeros 1952) (zeros 4032)"
  by (simp add: sig_pair_def length_crypto_def size_defs)

lemma delegation_print_length:
  "length (serialize_or_empty wire_cbor (CMap (str_fields (delegation_fields (zeros 1952) (zeros 1952) 7)))) = 3994"
  by (simp add: serialize_or_empty_def wire_cbor_def str_fields_def delegation_fields_def build_string_def c_str_def
      head_def int_head_def build_uint64_def)

theorem issued_delegation_cert_checked_witness:
  "\<exists>cert. issue_delegation_cert length_crypto wire_cbor (\<lambda>_. []) [] (zeros 4032) (zeros 1952) (zeros 1952) 7 = Inr cert
    \<and> verify_delegation_cert length_crypto wire_cbor 8 cert (zeros 1952) = Inl (Runtime_Error ''Delegation cert signature invalid'')"
proof -
  let ?m = "serialize_or_empty wire_cbor (CMap (str_fields (delegation_fields (zeros 1952) (zeros 1952) 7)))"
  let ?pl = "delegation_sign_payload (zeros 1952) (zeros 1952) (u64_of_int64 7) (u64_of_int64 (7 + 2592000))"
  have "length (zeros 1952) = MLDSA65_PUBKEY_BYTES"
    by (simp add: size_defs)
  from issued_delegation_cert_checked [OF wire_cbor_ok length_sig_pair this, of "[]" 7] obtain cert sg where
    c: "issue_delegation_cert length_crypto wire_cbor (\<lambda>_. []) [] (zeros 4032) (zeros 1952) (zeros 1952) 7 = Inr cert"
    "mldsa_sign length_crypto [] (zeros 4032) ?m = Inr sg"
    "\<not> mldsa_verify length_crypto (zeros 1952) ?pl sg \<longrightarrow>
       verify_delegation_cert length_crypto wire_cbor 8 cert (zeros 1952) = Inl (Runtime_Error ''Delegation cert signature invalid'')"
    by fastforce
  from c(2) have "sg = replicate 3309 (of_nat 3994)"
    by (simp add: mldsa_sign_def length_crypto_def delegation_print_length size_defs)
  moreover have "length ?pl = 3925"
    by (simp add: delegation_sign_payload_def be64_def)
  ultimately have "\<not> mldsa_verify length_crypto (zeros 1952) ?pl sg"
    by (simp add: mldsa_verify_def length_crypto_def size_defs replicate_eq_replicate)
  with c show ?thesis
    by blast
qed

end
