(* ===== verification/Client_Dht.thy ===== *)
theory Client_Dht
  imports Dht_Record
begin

text \<open>
  The records the client publishes itself (\<^verbatim>\<open>client/src/dht_pub.hpp\<close>, \<^verbatim>\<open>dht_pub.cpp\<close>). Both
  functions serialize an inner item and parse it again with a null result pointer, which libcbor
  does not allow and writes through: what such a call does, ending the process or giving some item, is the
  argument \<open>L\<close>, and nothing is assumed of it. The clock and the randomness are the
  \<open>record_env\<close> of \<open>Dht_Record\<close>.
\<close>

record guard_info =
  gi_guard_node_id :: string
  gi_guard_endpoint :: string
  gi_session_token :: bytes
  gi_outbox_key_c_pubkey :: bytes
  gi_outbox_auth_expiry :: int

definition guard_plain_bytes :: "cbor_lib \<Rightarrow> guard_info \<Rightarrow> bytes" where
  "guard_plain_bytes C g = serialize_or_empty C (definite_map C 6 (str_fields
     [(''guard_node_id'', build_string (gi_guard_node_id g)),
      (''guard_endpoint'', build_string (gi_guard_endpoint g)),
      (''session_token'', CBytes (gi_session_token g)),
      (''prekey_available'', CBool (gi_outbox_key_c_pubkey g \<noteq> [])),
      (''inbox_auth_key'', CBytes (gi_outbox_key_c_pubkey g)),
      (''inbox_auth_expiry'', build_uint64 (u64_of_int64 (gi_outbox_auth_expiry g)))]))"

definition build_guard_record ::
  "crypto_lib \<Rightarrow> cbor_lib \<Rightarrow> (bytes \<Rightarrow> cbor outcome) \<Rightarrow> record_env \<Rightarrow> bytes \<Rightarrow> bytes \<Rightarrow> u64 \<Rightarrow> guard_info \<Rightarrow>
     (bytes \<times> bytes) res outcome" where
  "build_guard_record K C L env key_b_kem_pub key_a_priv timeslot g =
     (let dht_key = sha3_256_parts K [key_b_kem_pub, be64 timeslot];
          aead_key = shake256_32_parts K [key_b_kem_pub, be64 timeslot, as_bytes ''guard_record''];
          plain_bytes = guard_plain_bytes C g
      in case aes_encrypt K (re_nonce env) aead_key plain_bytes [] of
           Inl e \<Rightarrow> Returns (Inl e)
         | Inr ae \<Rightarrow>
             (case mldsa_sign K (re_coins env) key_a_priv
                     (be64 timeslot @ be64 (re_now env) @ nonce ae @ ciphertext ae @ tag ae) of
                Inl e \<Rightarrow> Returns (Inl e)
              | Inr sig \<Rightarrow>
                  (case L (serialize_or_empty C (ciphertext_map C ae)) of
                     Terminates \<Rightarrow> Terminates
                   | Returns ct \<Rightarrow>
                       Returns (Inr (dht_key, serialize_or_empty C (definite_map C 4 (str_fields
                         [(''timeslot'', build_uint64 timeslot),
                          (''timestamp'', build_uint64 (re_now env)),
                          (''ciphertext'', ct),
                          (''signature'', CBytes sig)])))))))"

definition build_prekey_record ::
  "crypto_lib \<Rightarrow> cbor_lib \<Rightarrow> (bytes \<Rightarrow> cbor outcome) \<Rightarrow> bytes \<Rightarrow> bytes \<Rightarrow> bytes \<Rightarrow> bytes list \<Rightarrow> int \<Rightarrow>
     (bytes \<times> bytes) res outcome" where
  "build_prekey_record K C L coins key_b_kem_pub key_a_priv prekeys now_s =
     (let dht_key = sha3_256_parts K [as_bytes ''prekeys'', key_b_kem_pub];
          prekeys_cbor = serialize_or_empty C (definite_array C (length prekeys) (map CBytes prekeys))
      in case mldsa_sign K coins key_a_priv (be64 (u64_of_int64 now_s) @ prekeys_cbor) of
           Inl e \<Rightarrow> Returns (Inl e)
         | Inr sig \<Rightarrow>
             (case L prekeys_cbor of
                Terminates \<Rightarrow> Terminates
              | Returns arr \<Rightarrow>
                  Returns (Inr (dht_key, serialize_or_empty C (definite_map C 3 (str_fields
                    [(''timestamp'', build_uint64 (u64_of_int64 now_s)),
                     (''prekeys'', arr),
                     (''signature'', CBytes sig)]))))))"

text \<open>What the call would do with a result pointer: give back what was printed.\<close>

definition reloads :: "cbor_lib \<Rightarrow> (bytes \<Rightarrow> cbor outcome) \<Rightarrow> bool" where
  "reloads C L \<longleftrightarrow> (\<forall>x bs. cbor_load C bs = Some x \<longrightarrow> L bs = Returns x)"

lemma reloads_print:
  assumes "cbor_ok C" "reloads C L" "plain x 64"
  shows "L (serialize_or_empty C x) = Returns x"
proof -
  obtain bs where "cbor_serialize C x = Some bs" "cbor_load C bs = Some x"
    using cbor_ok_print [OF assms(1,3)] by metis
  then show ?thesis
    using assms(2) by (simp add: reloads_def serialize_or_empty_def)
qed

lemma plain_prekeys:
  assumes "cbor_ok C" "length pks < 2 ^ 64" "\<forall>pk\<in>set pks. length pk = MLKEM768_PUBKEY_BYTES"
  shows "plain (definite_array C (length pks) (map CBytes pks)) 64"
  using assms by (simp add: definite_array_take size_defs)

text \<open>
  Were the item parsed with a result pointer, the client's own construction of a prekey record and the one of the
  shared library would be the same function, filed under the same key.
\<close>

lemma client_prekey_record_equiv:
  assumes "cbor_ok C" "reloads C L" "length pks < 2 ^ 64" "\<forall>pk\<in>set pks. length pk = MLKEM768_PUBKEY_BYTES"
  shows "Client_Dht.build_prekey_record K C L coins kb a_priv pks now_s =
    Returns (rbind (Dht_Record.build_prekey_record K C coins \<lparr>pr_timestamp = u64_of_int64 now_s, pr_prekeys = pks\<rparr> a_priv)
      (\<lambda>r. Inr (prekey_dht_key K kb, r)))"
proof -
  have "L (serialize_or_empty C (definite_array C (length pks) (map CBytes pks))) = Returns (definite_array C (length pks) (map CBytes pks))"
    by (rule reloads_print [OF assms(1,2) plain_prekeys [OF assms(1,3,4)]])
  then show ?thesis
    by (cases "mldsa_sign K coins a_priv (be64 (u64_of_int64 now_s) @ serialize_or_empty C (definite_array C (length pks) (map CBytes pks)))")
       (simp_all add: Client_Dht.build_prekey_record_def Dht_Record.build_prekey_record_def prekeys_array_def prekey_dht_key_def Let_def)
qed

definition demo_reload :: "bytes \<Rightarrow> cbor outcome" where
  "demo_reload bs = (case cbor_load wire_cbor bs of Some x \<Rightarrow> Returns x | None \<Rightarrow> Terminates)"

lemma demo_reloads [simp]: "reloads wire_cbor demo_reload"
  by (simp add: reloads_def demo_reload_def)

text \<open>
  Nor would the guard records of the client be of use then: the parser of the DHT records refuses them, they
  carry no version.
\<close>

lemma client_guard_record_refused:
  assumes "cbor_ok C" "reloads C L" "hash_ok K" "aead_ok K" "sig_pair K key_a_pub key_a_priv" "length (re_nonce env) = 12"
    and "length (guard_plain_bytes C g) < 2 ^ 64"
  shows "\<exists>r. build_guard_record K C L env kb key_a_priv timeslot g = Returns (Inr (guard_dht_key K kb timeslot, r)) \<and>
    parse_guard_record K C indet now r kb key_a_pub timeslot = Inl (Runtime_Error ''Guard record missing version'')"
proof -
  let ?pt = "guard_plain_bytes C g"
  have k: "length (shake256_32_parts K [kb, be64 timeslot, as_bytes ''guard_record'']) = 32"
    using assms(3) by simp
  obtain ae where ae: "aes_encrypt K (re_nonce env) (shake256_32_parts K [kb, be64 timeslot, as_bytes ''guard_record'']) ?pt [] = Inr ae"
    "length (nonce ae) = 12" "length (tag ae) = 16" "length (ciphertext ae) < 2 ^ 64"
    using assms(6,7) by (auto intro: aes_roundtrip [OF assms(4) k assms(6), of ?pt "[]"])
  obtain sg where sg: "mldsa_sign K (re_coins env) key_a_priv (be64 timeslot @ be64 (re_now env) @ nonce ae @ ciphertext ae @ tag ae) = Inr sg"
    "length sg = MLDSA65_SIG_BYTES"
    using sig_pair_sign [OF assms(5)] by metis
  have ct: "plain (ciphertext_map C ae) 63"
    using ae assms(1) by (simp add: ciphertext_map_def definite_map_take str_fields_def ascii_def c_str_def)
  then have "plain (ciphertext_map C ae) 64"
    using ae assms(1) by (simp add: ciphertext_map_def definite_map_take str_fields_def ascii_def c_str_def)
  then have L: "L (serialize_or_empty C (ciphertext_map C ae)) = Returns (ciphertext_map C ae)"
    by (rule reloads_print [OF assms(1,2)])
  let ?kvs = "[(''timeslot'', build_uint64 timeslot), (''timestamp'', build_uint64 (re_now env)),
     (''ciphertext'', ciphertext_map C ae), (''signature'', CBytes sg)]"
  have keys: "list_all (\<lambda>(k, v). key_lit k) ?kvs"
    by (simp add: key_lit_def)
  have "load_map C (serialize_or_empty C (definite_map C 4 (str_fields ?kvs))) = Inr (str_fields ?kvs)"
    using sg(2) ct by (intro load_map_fields [OF assms(1) keys]) (simp_all add: size_defs)
  then have "parse_guard_record K C indet now (serialize_or_empty C (definite_map C 4 (str_fields ?kvs))) kb key_a_pub timeslot
      = Inl (Runtime_Error ''Guard record missing version'')"
    by (simp add: parse_guard_record_def find_key_fields [OF keys])
  then show ?thesis
    using ae(1) sg(1) by (simp add: build_guard_record_def guard_dht_key_def L Let_def)
qed

end
