(* ===== verification/Keystore.thy ===== *)
theory Keystore
  imports Sql Crypto
begin

text \<open>
  The client's keystore (\<^verbatim>\<open>client/src/keystore.hpp\<close>, \<^verbatim>\<open>keystore.cpp\<close>): a SQLite database in
  memory whose serialized image is kept on disk under AES-256-GCM, with a key derived from the
  passphrase and a salt file. \<open>ks_file\<close> and \<open>ks_salt\<close> are the contents of the two files,
  \<open>ks_disk\<close> what becomes of the next writes to them, an empty list when all of them succeed. How SQLite
  reads and writes a database image is the argument \<open>Q\<close>; an image it accepts but cannot use as a
  database fails in \<^verbatim>\<open>init_schema\<close>, with the handle open. The statements use the C interface and
  ignore result codes: on a closed or unusable handle they do nothing and find nothing, and a
  constraint that fails leaves the table as it was. Texts are bound up to their first NUL.
\<close>

subsection \<open>Rows\<close>

record key_a =
  ka_pubkey :: bytes
  ka_privkey :: bytes
  ka_created_at :: int

record key_b =
  kb_id :: string
  kb_relationship :: string
  kb_kem_pubkey :: bytes
  kb_kem_privkey :: bytes
  kb_sig_pubkey :: bytes
  kb_sig_privkey :: bytes
  kb_created_at :: int

record key_b_cr =
  kr_kem_pubkey :: bytes
  kr_kem_privkey :: bytes
  kr_created_at :: int

record key_c_issued =
  kc_device_id :: string
  kc_device_type :: string
  kc_device_label :: string
  kc_key_c_pubkey :: bytes
  kc_key_c_privkey :: bytes
  kc_auth_cert :: bytes
  kc_dht_deleg_cert :: bytes
  kc_issued_at :: int
  kc_expires_at :: int
  kc_revoked :: bool

record key_d_prekey =
  kd_id :: string
  kd_key_b_id :: string
  kd_kem_pubkey :: bytes
  kd_kem_privkey :: bytes
  kd_consumed :: bool
  kd_created_at :: int

record sender_key =
  kf_group_id :: string
  kf_contact_id :: string
  kf_sym_key :: bytes
  kf_generation :: u32
  kf_created_at :: int

text \<open>The rows of \<^verbatim>\<open>key_e_ratchet\<close> are identifier, state and time; those of \<^verbatim>\<open>key_f_sender\<close> have the compound identifier first.\<close>

record keydb =
  kt_key_a :: "key_a option"
  kt_key_b :: "key_b list"
  kt_key_b_cr :: "key_b_cr option"
  kt_key_c :: "key_c_issued list"
  kt_prekeys :: "key_d_prekey list"
  kt_ratchet :: "(string \<times> bytes \<times> int) list"
  kt_sender :: "(string \<times> sender_key) list"
  kt_config :: "(string \<times> string) list"

definition keydb_new :: keydb where
  "keydb_new = \<lparr>kt_key_a = None, kt_key_b = [], kt_key_b_cr = None, kt_key_c = [], kt_prekeys = [], kt_ratchet = [],
     kt_sender = [], kt_config = []\<rparr>"

datatype handle = Closed | Unusable bytes | Open keydb

datatype image = Image_Refused | Image_Bad string | Image_Db keydb

record sqlite_lib =
  sq_serialize :: "keydb \<Rightarrow> bytes"
  sq_deserialize :: "bytes \<Rightarrow> image"

text \<open>
  What happens to a file opened for writing: it cannot be opened, only its first bytes are stored (it is
  truncated before and the result of \<^verbatim>\<open>write\<close> is not looked at), or all of them.
\<close>

datatype disk_write = Cannot_Open | Stored nat | Stored_All

record keystore =
  ks_path :: string
  ks_salt_path :: string
  ks_disk :: "disk_write list"
  ks_file :: "bytes option"
  ks_salt :: "bytes option"
  ks_db :: handle
  ks_master_key :: bytes
  ks_have_master_key :: bool

subsection \<open>Encrypted file\<close>

definition NONCE_OFF :: nat where "NONCE_OFF = 0"
definition TAG_OFF :: nat where "TAG_OFF = 12"
definition CT_OFF :: nat where "CT_OFF = 28"

lemmas off_defs [layout_simps] = NONCE_OFF_def TAG_OFF_def CT_OFF_def

definition is_unlocked :: "keystore \<Rightarrow> bool" where
  "is_unlocked s \<longleftrightarrow> ks_db s \<noteq> Closed"

text \<open>A read of \<open>n\<close> bytes into a zeroed buffer; a shorter file fills only its beginning.\<close>

definition read_into :: "nat \<Rightarrow> bytes \<Rightarrow> bytes" where
  "read_into n f = take n (f @ zeros n)"

fun disk_stored :: "disk_write list \<Rightarrow> bytes \<Rightarrow> bytes option" where
  "disk_stored (Cannot_Open # ws) data = None"
| "disk_stored (Stored n # ws) data = Some (take n data)"
| "disk_stored ws data = Some data"

definition derive_key :: "crypto_lib \<Rightarrow> bytes \<Rightarrow> keystore \<Rightarrow> string \<Rightarrow> keystore \<times> bytes res" where
  "derive_key K rnd s passphrase =
     (case ks_salt s of
        Some f \<Rightarrow> (s, argon2id K passphrase (read_into 16 f))
      | None \<Rightarrow>
          (case disk_stored (ks_disk s) rnd of
             None \<Rightarrow> (s\<lparr>ks_disk := tl (ks_disk s)\<rparr>, Inl (Runtime_Error (''cannot write salt: '' @ ks_salt_path s)))
           | Some f \<Rightarrow> (s\<lparr>ks_salt := Some f, ks_disk := tl (ks_disk s)\<rparr>, argon2id K passphrase rnd)))"

text \<open>\<^verbatim>\<open>if (++nonce[i]) break;\<close> from the last byte to the first.\<close>

primrec inc_le :: "bytes \<Rightarrow> bytes" where
  "inc_le [] = []"
| "inc_le (b # bs) = (if b + 1 \<noteq> 0 then (b + 1) # bs else 0 # inc_le bs)"

definition next_nonce :: "bytes option \<Rightarrow> bytes" where
  "next_nonce f = (case f of
     Some b \<Rightarrow> rev (inc_le (rev (read_into 12 b)))
   | None \<Rightarrow> (zeros 12)[11 := 1])"

definition serialize_db :: "sqlite_lib \<Rightarrow> handle \<Rightarrow> bytes" where
  "serialize_db Q h = (case h of Closed \<Rightarrow> [] | Unusable b \<Rightarrow> b | Open d \<Rightarrow> sq_serialize Q d)"

definition write_to_disk :: "crypto_lib \<Rightarrow> sqlite_lib \<Rightarrow> keystore \<Rightarrow> bytes \<Rightarrow> keystore \<times> unit res" where
  "write_to_disk K Q s mk =
     (let n = next_nonce (ks_file s) in
      case aead_encrypt K mk n [] (serialize_db Q (ks_db s)) of
        None \<Rightarrow> (s, Inl (Runtime_Error ''aes_encrypt failed''))
      | Some (c, t) \<Rightarrow>
          (case disk_stored (ks_disk s) (n @ t @ c) of
             None \<Rightarrow> (s\<lparr>ks_disk := tl (ks_disk s)\<rparr>, Inl (Runtime_Error (''cannot write keystore: '' @ ks_path s)))
           | Some f \<Rightarrow> (s\<lparr>ks_file := Some f, ks_disk := tl (ks_disk s)\<rparr>, Inr ())))"

definition load_from_disk :: "crypto_lib \<Rightarrow> sqlite_lib \<Rightarrow> keystore \<Rightarrow> bytes \<Rightarrow> keystore \<times> unit res" where
  "load_from_disk K Q s mk =
     (case ks_file s of
        None \<Rightarrow> write_to_disk K Q (s\<lparr>ks_db := Open keydb_new\<rparr>) mk
      | Some f \<Rightarrow>
          if length f < CT_OFF then (s, Inl (Runtime_Error ''keystore file too small''))
          else case aes_decrypt K mk (slice NONCE_OFF 12 f) (drop CT_OFF f) (slice TAG_OFF 16 f) [] of
                 Inl _ \<Rightarrow> (s, Inl (Runtime_Error ''wrong passphrase or corrupt keystore''))
               | Inr p \<Rightarrow>
                   (case sq_deserialize Q p of
                      Image_Refused \<Rightarrow> (s\<lparr>ks_db := Closed\<rparr>, Inl (Runtime_Error ''sqlite3_deserialize failed''))
                    | Image_Bad e \<Rightarrow> (s\<lparr>ks_db := Unusable p\<rparr>, Inl (Runtime_Error (''keystore schema error: '' @ e)))
                    | Image_Db d \<Rightarrow> (s\<lparr>ks_db := Open d\<rparr>, Inr ())))"

definition unlock :: "crypto_lib \<Rightarrow> sqlite_lib \<Rightarrow> bytes \<Rightarrow> keystore \<Rightarrow> string \<Rightarrow> keystore \<times> unit res" where
  "unlock K Q rnd s passphrase =
     (if is_unlocked s then (s, Inl (Runtime_Error ''already unlocked''))
      else case derive_key K rnd s passphrase of
             (s1, Inl e) \<Rightarrow> (s1, Inl e)
           | (s1, Inr mk) \<Rightarrow>
               (case load_from_disk K Q s1 mk of
                  (s2, Inl e) \<Rightarrow> (s2, Inl e)
                | (s2, Inr _) \<Rightarrow> (s2\<lparr>ks_master_key := mk, ks_have_master_key := True\<rparr>, Inr ())))"

definition save :: "crypto_lib \<Rightarrow> sqlite_lib \<Rightarrow> keystore \<Rightarrow> keystore \<times> unit res" where
  "save K Q s =
     (if \<not> is_unlocked s \<or> \<not> ks_have_master_key s then (s, Inr ()) else write_to_disk K Q s (ks_master_key s))"

definition lock :: "crypto_lib \<Rightarrow> sqlite_lib \<Rightarrow> keystore \<Rightarrow> keystore \<times> unit res" where
  "lock K Q s =
     (if \<not> is_unlocked s then (s, Inr ())
      else case save K Q s of
             (s1, Inl e) \<Rightarrow> (s1, Inl e)
           | (s1, Inr _) \<Rightarrow> (s1\<lparr>ks_db := Closed, ks_master_key := zeros 32, ks_have_master_key := False\<rparr>, Inr ()))"

definition change_passphrase ::
  "crypto_lib \<Rightarrow> sqlite_lib \<Rightarrow> bytes \<Rightarrow> bytes \<Rightarrow> keystore \<Rightarrow> string \<Rightarrow> string \<Rightarrow> keystore \<times> unit res" where
  "change_passphrase K Q rnd rnd' s old_pass new_pass =
     (if \<not> is_unlocked s then (s, Inl (Runtime_Error ''keystore locked''))
      else case derive_key K rnd s old_pass of
             (s1, Inl e) \<Rightarrow> (s1, Inl e)
           | (s1, Inr old_mk) \<Rightarrow>
               if old_mk \<noteq> ks_master_key s1 then (s1, Inl (Runtime_Error ''wrong passphrase''))
               else case derive_key K rnd' (s1\<lparr>ks_salt := None\<rparr>) new_pass of
                      (s2, Inl e) \<Rightarrow> (s2, Inl e)
                    | (s2, Inr new_mk) \<Rightarrow>
                        (case write_to_disk K Q s2 new_mk of
                           (s3, Inl e) \<Rightarrow> (s3, Inl e)
                         | (s3, Inr _) \<Rightarrow> (s3\<lparr>ks_master_key := new_mk\<rparr>, Inr ())))"

subsection \<open>Statements\<close>

text \<open>A statement on an open database, and a query; both do nothing without one.\<close>

definition on_db :: "(keydb \<Rightarrow> keydb) \<Rightarrow> keystore \<Rightarrow> keystore" where
  "on_db f s = (case ks_db s of Open d \<Rightarrow> s\<lparr>ks_db := Open (f d)\<rparr> | _ \<Rightarrow> s)"

definition query_db :: "'a \<Rightarrow> (keydb \<Rightarrow> 'a) \<Rightarrow> keystore \<Rightarrow> 'a" where
  "query_db none f s = (case ks_db s of Open d \<Rightarrow> f d | _ \<Rightarrow> none)"

definition get_key_a :: "keystore \<Rightarrow> key_a option" where
  "get_key_a s = query_db None kt_key_a s"

definition set_key_a :: "keystore \<Rightarrow> key_a \<Rightarrow> keystore" where
  "set_key_a s k = on_db (\<lambda>d. d\<lparr>kt_key_a := Some k\<rparr>) s"

definition get_key_b :: "keystore \<Rightarrow> string \<Rightarrow> key_b option" where
  "get_key_b s i = query_db None (\<lambda>d. find (\<lambda>k. kb_id k = c_str i) (kt_key_b d)) s"

definition list_key_b :: "keystore \<Rightarrow> key_b list" where
  "list_key_b s = query_db [] kt_key_b s"

definition insert_key_b :: "keystore \<Rightarrow> key_b \<Rightarrow> keystore" where
  "insert_key_b s k = on_db (\<lambda>d. d\<lparr>kt_key_b := sql_insert_or_ignore kb_id
     (k\<lparr>kb_id := c_str (kb_id k), kb_relationship := c_str (kb_relationship k)\<rparr>) (kt_key_b d)\<rparr>) s"

definition get_key_b_cr :: "keystore \<Rightarrow> key_b_cr option" where
  "get_key_b_cr s = query_db None kt_key_b_cr s"

definition set_key_b_cr :: "keystore \<Rightarrow> key_b_cr \<Rightarrow> keystore" where
  "set_key_b_cr s k = on_db (\<lambda>d. d\<lparr>kt_key_b_cr := Some k\<rparr>) s"

text \<open>
  \<^verbatim>\<open>OR REPLACE\<close> puts the default \<^verbatim>\<open>''\<close> in the place of a NULL delegation certificate; the
  column of the authorisation certificate has no default.
\<close>

definition insert_key_c :: "bool \<Rightarrow> keystore \<Rightarrow> key_c_issued \<Rightarrow> keystore" where
  "insert_key_c en s k =
     (if null_blob en (kc_auth_cert k) then s
      else on_db (\<lambda>d. d\<lparr>kt_key_c := sql_replace kc_device_id
        (k\<lparr>kc_device_id := c_str (kc_device_id k), kc_device_type := c_str (kc_device_type k),
           kc_device_label := c_str (kc_device_label k)\<rparr>) (kt_key_c d)\<rparr>) s)"

definition get_key_c :: "keystore \<Rightarrow> string \<Rightarrow> key_c_issued option" where
  "get_key_c s i = query_db None (\<lambda>d. find (\<lambda>k. kc_device_id k = c_str i) (kt_key_c d)) s"

definition list_key_c :: "keystore \<Rightarrow> key_c_issued list" where
  "list_key_c s = query_db [] (\<lambda>d. sort_key kc_issued_at (kt_key_c d)) s"

definition revoke_key_c :: "keystore \<Rightarrow> string \<Rightarrow> keystore" where
  "revoke_key_c s i = on_db (\<lambda>d. d\<lparr>kt_key_c :=
     sql_update (\<lambda>k. kc_device_id k = c_str i) (\<lambda>k. k\<lparr>kc_revoked := True\<rparr>) (kt_key_c d)\<rparr>) s"

definition update_key_c_cert :: "bool \<Rightarrow> keystore \<Rightarrow> string \<Rightarrow> bytes \<Rightarrow> int \<Rightarrow> keystore" where
  "update_key_c_cert en s i cert expires =
     (if null_blob en cert then s
      else on_db (\<lambda>d. d\<lparr>kt_key_c := sql_update (\<lambda>k. kc_device_id k = c_str i)
        (\<lambda>k. k\<lparr>kc_auth_cert := cert, kc_expires_at := expires\<rparr>) (kt_key_c d)\<rparr>) s)"

definition insert_prekey :: "keystore \<Rightarrow> key_d_prekey \<Rightarrow> keystore" where
  "insert_prekey s k = on_db (\<lambda>d. d\<lparr>kt_prekeys := sql_insert_or_ignore kd_id
     (k\<lparr>kd_id := c_str (kd_id k), kd_key_b_id := c_str (kd_key_b_id k)\<rparr>) (kt_prekeys d)\<rparr>) s"

definition available :: "string \<Rightarrow> key_d_prekey \<Rightarrow> bool" where
  "available b k \<longleftrightarrow> kd_key_b_id k = c_str b \<and> \<not> kd_consumed k"

definition get_available_prekey :: "keystore \<Rightarrow> string \<Rightarrow> key_d_prekey option" where
  "get_available_prekey s b = query_db None (\<lambda>d. find (available b) (kt_prekeys d)) s"

definition consume_prekey :: "keystore \<Rightarrow> string \<Rightarrow> keystore" where
  "consume_prekey s i = on_db (\<lambda>d. d\<lparr>kt_prekeys :=
     sql_update (\<lambda>k. kd_id k = c_str i) (\<lambda>k. k\<lparr>kd_consumed := True\<rparr>) (kt_prekeys d)\<rparr>) s"

definition list_prekeys :: "keystore \<Rightarrow> string \<Rightarrow> key_d_prekey list" where
  "list_prekeys s b = query_db [] (\<lambda>d. filter (available b) (kt_prekeys d)) s"

definition count_prekeys :: "keystore \<Rightarrow> string \<Rightarrow> nat" where
  "count_prekeys s b = query_db 0 (\<lambda>d. length (filter (available b) (kt_prekeys d))) s"

definition get_ratchet_state :: "keystore \<Rightarrow> string \<Rightarrow> bytes" where
  "get_ratchet_state s i = query_db [] (\<lambda>d. case map_of (kt_ratchet d) (c_str i) of Some (b, _) \<Rightarrow> b | None \<Rightarrow> []) s"

definition set_ratchet_state :: "bool \<Rightarrow> int \<Rightarrow> keystore \<Rightarrow> string \<Rightarrow> bytes \<Rightarrow> keystore" where
  "set_ratchet_state en now s i st =
     (if null_blob en st then s
      else on_db (\<lambda>d. d\<lparr>kt_ratchet := sql_replace fst (c_str i, st, now) (kt_ratchet d)\<rparr>) s)"

definition has_ratchet_state :: "keystore \<Rightarrow> string \<Rightarrow> bool" where
  "has_ratchet_state s i \<longleftrightarrow> query_db False (\<lambda>d. map_of (kt_ratchet d) (c_str i) \<noteq> None) s"

definition compound_id :: "string \<Rightarrow> string \<Rightarrow> string" where
  "compound_id g c = c_str (g @ '':'' @ c)"

definition get_sender_key :: "keystore \<Rightarrow> string \<Rightarrow> string \<Rightarrow> sender_key option" where
  "get_sender_key s g c = query_db None (\<lambda>d. map_of (kt_sender d) (compound_id g c)) s"

definition set_sender_key :: "keystore \<Rightarrow> sender_key \<Rightarrow> keystore" where
  "set_sender_key s k = on_db (\<lambda>d. d\<lparr>kt_sender := sql_replace fst
     (compound_id (kf_group_id k) (kf_contact_id k),
      k\<lparr>kf_group_id := c_str (kf_group_id k), kf_contact_id := c_str (kf_contact_id k)\<rparr>) (kt_sender d)\<rparr>) s"

definition get_config :: "keystore \<Rightarrow> string \<Rightarrow> string" where
  "get_config s k = query_db [] (\<lambda>d. case map_of (kt_config d) (c_str k) of Some v \<Rightarrow> v | None \<Rightarrow> []) s"

definition set_config :: "keystore \<Rightarrow> string \<Rightarrow> string \<Rightarrow> keystore" where
  "set_config s k v = on_db (\<lambda>d. d\<lparr>kt_config := sql_replace fst (c_str k, c_str v) (kt_config d)\<rparr>) s"

subsection \<open>Runs\<close>

datatype statement =
    Set_Key_A key_a
  | Insert_Key_B key_b
  | Set_Key_B_Cr key_b_cr
  | Insert_Key_C key_c_issued
  | Revoke_Key_C string
  | Update_Key_C_Cert string bytes int
  | Insert_Prekey key_d_prekey
  | Consume_Prekey string
  | Set_Ratchet_State int string bytes
  | Set_Sender_Key sender_key
  | Set_Config string string

fun run_statement :: "bool \<Rightarrow> statement \<Rightarrow> keystore \<Rightarrow> keystore" where
  "run_statement en (Set_Key_A k) s = set_key_a s k"
| "run_statement en (Insert_Key_B k) s = insert_key_b s k"
| "run_statement en (Set_Key_B_Cr k) s = set_key_b_cr s k"
| "run_statement en (Insert_Key_C k) s = insert_key_c en s k"
| "run_statement en (Revoke_Key_C i) s = revoke_key_c s i"
| "run_statement en (Update_Key_C_Cert i c e) s = update_key_c_cert en s i c e"
| "run_statement en (Insert_Prekey k) s = insert_prekey s k"
| "run_statement en (Consume_Prekey i) s = consume_prekey s i"
| "run_statement en (Set_Ratchet_State now i st) s = set_ratchet_state en now s i st"
| "run_statement en (Set_Sender_Key k) s = set_sender_key s k"
| "run_statement en (Set_Config k v) s = set_config s k v"

text \<open>The operations of the class; the byte strings of the first and the last but one are the salts they may draw.\<close>

datatype ks_op =
    Op_Unlock bytes string
  | Op_Lock
  | Op_Save
  | Op_Change_Passphrase bytes bytes string string
  | Op_Statement statement

fun ks_step :: "crypto_lib \<Rightarrow> sqlite_lib \<Rightarrow> bool \<Rightarrow> ks_op \<Rightarrow> keystore \<Rightarrow> keystore" where
  "ks_step K Q en (Op_Unlock rnd p) s = fst (unlock K Q rnd s p)"
| "ks_step K Q en Op_Lock s = fst (lock K Q s)"
| "ks_step K Q en Op_Save s = fst (save K Q s)"
| "ks_step K Q en (Op_Change_Passphrase rnd rnd' p p') s = fst (change_passphrase K Q rnd rnd' s p p')"
| "ks_step K Q en (Op_Statement st) s = run_statement en st s"


subsection \<open>Nonces\<close>

primrec le_val :: "bytes \<Rightarrow> nat" where
  "le_val [] = 0"
| "le_val (b # bs) = unat b + 256 * le_val bs"



lemma length_inc_le [simp]: "length (inc_le bs) = length bs"
  by (induction bs) auto

lemma le_val_bound: "le_val bs < 256 ^ length bs"
proof (induction bs)
  case (Cons b bs)
  have "unat b < 256"
    using unsigned_less [of b] by simp
  with Cons show ?case
    by simp
qed simp


lemma length_read_into [simp]: "length (read_into n f) = n"
  by (simp add: read_into_def)

lemma read_into_id [simp]: "length f = n \<Longrightarrow> read_into n f = f"
  by (simp add: read_into_def)

lemma read_into_append [simp]: "length a = n \<Longrightarrow> read_into n (a @ b) = a"
  by (simp add: read_into_def)


lemma length_next_nonce [simp]: "length (next_nonce f) = 12"
  by (simp add: next_nonce_def split: option.split)






lemma on_db_files [simp]:
  "ks_file (on_db f s) = ks_file s" "ks_salt (on_db f s) = ks_salt s" "ks_master_key (on_db f s) = ks_master_key s"
  "ks_have_master_key (on_db f s) = ks_have_master_key s" "ks_disk (on_db f s) = ks_disk s"
  by (simp_all add: on_db_def split: handle.split)











lemma run_statement_file [simp]:
  "ks_file (run_statement en st s) = ks_file s" "ks_salt (run_statement en st s) = ks_salt s"
  "ks_master_key (run_statement en st s) = ks_master_key s" "ks_disk (run_statement en st s) = ks_disk s"
  "ks_have_master_key (run_statement en st s) = ks_have_master_key s"
  by (cases st; simp add: set_key_a_def insert_key_b_def set_key_b_cr_def insert_key_c_def revoke_key_c_def
      update_key_c_cert_def insert_prekey_def consume_prekey_def set_ratchet_state_def set_sender_key_def set_config_def)+




definition demo_sqlite :: "keydb \<Rightarrow> sqlite_lib" where
  "demo_sqlite d = \<lparr>sq_serialize = (\<lambda>_. [1]), sq_deserialize = (\<lambda>_. Image_Db d)\<rparr>"

definition keystore_new :: keystore where
  "keystore_new = \<lparr>ks_path = ''keystore.db'', ks_salt_path = ''keystore.salt'', ks_disk = [],
     ks_file = None, ks_salt = None, ks_db = Closed, ks_master_key = zeros 32, ks_have_master_key = False\<rparr>"


subsection \<open>Locking and unlocking\<close>

definition pwhash_ok :: "crypto_lib \<Rightarrow> bool" where
  "pwhash_ok K \<longleftrightarrow> (\<forall>p salt. \<exists>k. pwhash K p salt = Some k \<and> length k = 32)"

text \<open>The state between an unlock with a passphrase and the next lock.\<close>

definition session :: "crypto_lib \<Rightarrow> keystore \<Rightarrow> string \<Rightarrow> keydb \<Rightarrow> bool" where
  "session K s p d \<longleftrightarrow> ks_db s = Open d \<and> ks_have_master_key s \<and> length (ks_master_key s) = 32 \<and>
     (\<exists>salt. ks_salt s = Some salt \<and> argon2id K p (read_into 16 salt) = Inr (ks_master_key s))"

text \<open>The locked state whose file holds the tables \<open>d\<close> under the passphrase \<open>p\<close>.\<close>

definition sealed :: "crypto_lib \<Rightarrow> sqlite_lib \<Rightarrow> keystore \<Rightarrow> string \<Rightarrow> keydb \<Rightarrow> bool" where
  "sealed K Q s p d \<longleftrightarrow> ks_db s = Closed \<and>
     (\<exists>salt mk n t c. ks_salt s = Some salt \<and> argon2id K p (read_into 16 salt) = Inr mk \<and> length mk = 32 \<and>
        ks_file s = Some (n @ t @ c) \<and> length n = 12 \<and> length t = 16 \<and> aes_decrypt K mk n c t [] = Inr (sq_serialize Q d))"

lemma argon2id_ok:
  assumes "pwhash_ok K" "length salt = 16"
  obtains mk where "argon2id K p salt = Inr mk" "length mk = 32"
proof -
  from assms(1) obtain mk where "pwhash K p salt = Some mk" "length mk = 32"
    unfolding pwhash_ok_def by blast
  with assms(2) show ?thesis
    by (intro that [of mk]) (simp_all add: argon2id_def)
qed

lemma write_to_disk_ok:
  assumes "aead_ok K" "ks_disk s = []" "length mk = 32"
  obtains n c t where "write_to_disk K Q s mk = (s\<lparr>ks_file := Some (n @ t @ c)\<rparr>, Inr ())" "length n = 12" "length t = 16"
    "aes_decrypt K mk n c t [] = Inr (serialize_db Q (ks_db s))"
proof -
  let ?n = "next_nonce (ks_file s)"
  obtain c t where "aead_encrypt K mk ?n [] (serialize_db Q (ks_db s)) = Some (c, t)" "length t = 16"
    "aead_decrypt K mk ?n [] c t = Some (serialize_db Q (ks_db s))" "aes_available K"
    using assms(1,3) unfolding aead_ok_def by (metis length_next_nonce)
  then show ?thesis
    using assms(2) by (intro that [of ?n t c]) (simp_all add: write_to_disk_def Let_def aes_decrypt_def)
qed

lemma lock_seals:
  assumes "aead_ok K" "ks_disk s = []" "session K s p d"
  obtains s' where "lock K Q s = (s', Inr ())" "sealed K Q s' p d" "ks_master_key s' = zeros 32" "\<not> is_unlocked s'"
    "ks_disk s' = []" "\<not> ks_have_master_key s'"
proof -
  have "length (ks_master_key s) = 32"
    using assms(3) by (simp add: session_def)
  then obtain n c t where w: "write_to_disk K Q s (ks_master_key s) = (s\<lparr>ks_file := Some (n @ t @ c)\<rparr>, Inr ())"
    "length n = 12" "length t = 16" "aes_decrypt K (ks_master_key s) n c t [] = Inr (serialize_db Q (ks_db s))"
    using write_to_disk_ok [OF assms(1,2)] by metis
  let ?s = "s\<lparr>ks_file := Some (n @ t @ c), ks_db := Closed, ks_master_key := zeros 32, ks_have_master_key := False\<rparr>"
  have "lock K Q s = (?s, Inr ())"
    using assms(3) w(1) by (simp add: lock_def save_def session_def is_unlocked_def)
  moreover have "sealed K Q ?s p d"
    unfolding sealed_def using assms(3) w
    by (auto simp: session_def serialize_db_def) (rule exI [of _ n], rule exI [of _ t], rule exI [of _ c], simp)
  ultimately show ?thesis
    using assms(2) by (intro that [of ?s]) (simp_all add: is_unlocked_def)
qed

lemma unlock_sealed:
  assumes "sealed K Q s p d" "sq_deserialize Q (sq_serialize Q d) = Image_Db d"
  obtains s' where "unlock K Q rnd s p = (s', Inr ())" "session K s' p d" "ks_file s' = ks_file s"
proof -
  obtain salt mk n t c where a: "ks_salt s = Some salt" "argon2id K p (read_into 16 salt) = Inr mk" "length mk = 32"
    "ks_file s = Some (n @ t @ c)" "length n = 12" "length t = 16" "aes_decrypt K mk n c t [] = Inr (sq_serialize Q d)"
    and l: "ks_db s = Closed"
    using assms(1) unfolding sealed_def by blast
  let ?s = "s\<lparr>ks_db := Open d, ks_master_key := mk, ks_have_master_key := True\<rparr>"
  have "unlock K Q rnd s p = (?s, Inr ())"
    using a l assms(2) by (simp add: unlock_def is_unlocked_def derive_key_def load_from_disk_def off_defs slice_def)
  moreover have "session K ?s p d"
    using a by (simp add: session_def)
  ultimately show ?thesis
    using that by simp
qed

lemma unlock_session:
  assumes "pwhash_ok K" "length rnd = 16" "ks_disk s = []" "unlock K Q rnd s p = (s', Inr ())"
  obtains d where "session K s' p d" "ks_disk s' = []"
proof -
  obtain s1 mk where d: "derive_key K rnd s p = (s1, Inr mk)"
    using assms(4) by (auto simp: unlock_def split: if_splits prod.splits sum.splits)
  then have salt: "\<exists>salt. ks_salt s1 = Some salt \<and> argon2id K p (read_into 16 salt) = Inr mk" "ks_disk s1 = []"
    using assms(2,3) by (auto simp: derive_key_def split: option.splits if_splits)
  then have "length mk = 32"
    using argon2id_ok [OF assms(1)] by (metis length_read_into Inr_inject)
  moreover obtain s2 where l: "load_from_disk K Q s1 mk = (s2, Inr ())" "s' = s2\<lparr>ks_master_key := mk, ks_have_master_key := True\<rparr>"
    using assms(4) d by (auto simp: unlock_def split: if_splits prod.splits sum.splits)
  moreover have "\<exists>d. ks_db s2 = Open d" "ks_salt s2 = ks_salt s1" "ks_disk s2 = []"
    using l(1) salt(2) by (auto simp: load_from_disk_def write_to_disk_def Let_def split: option.splits if_splits sum.splits image.splits)
  ultimately show ?thesis
    using that salt by (auto simp: session_def)
qed

lemma on_db_session: "session K s p d \<Longrightarrow> session K (on_db f s) p (f d)"
  by (auto simp: session_def on_db_def)

lemma run_statement_session: "session K s p d \<Longrightarrow> \<exists>d'. session K (run_statement en st s) p d'"
  by (cases st)
     (auto simp: set_key_a_def insert_key_b_def set_key_b_cr_def insert_key_c_def revoke_key_c_def update_key_c_cert_def
       insert_prekey_def consume_prekey_def set_ratchet_state_def set_sender_key_def set_config_def intro: on_db_session)

lemma run_statements_session:
  "session K s p d \<Longrightarrow> \<exists>d'. session K (fold (run_statement en) sts s) p d'"
proof (induction sts arbitrary: s d)
  case (Cons st sts)
  then show ?case
    using run_statement_session [OF Cons.prems, of en st] by auto
qed auto

lemma run_statements_file [simp]:
  "ks_disk (fold (run_statement en) sts s) = ks_disk s" "ks_file (fold (run_statement en) sts s) = ks_file s"
  "ks_master_key (fold (run_statement en) sts s) = ks_master_key s"
  by (induction sts arbitrary: s) simp_all

text \<open>
  C10. What a session wrote into the keystore is there after the next unlock, as long as the files can be
  written: whatever statements ran after an unlock, locking succeeds, closes the database and zeroes the master
  key, and unlocking with the same passphrase gives the same tables back.
\<close>

theorem lock_unlock_roundtrip:
  assumes "aead_ok K" "pwhash_ok K" "ks_disk s = []" "length rnd = 16"
    and "unlock K Q rnd s p = (s1, Inr ())"
    and "ks_db (fold (run_statement en) sts s1) = Open d" "sq_deserialize Q (sq_serialize Q d) = Image_Db d"
  shows "\<exists>s3 s4. lock K Q (fold (run_statement en) sts s1) = (s3, Inr ()) \<and> \<not> is_unlocked s3 \<and> ks_master_key s3 = zeros 32
    \<and> unlock K Q rnd' s3 p = (s4, Inr ()) \<and> ks_db s4 = Open d"
proof -
  obtain d1 where "session K s1 p d1" and w: "ks_disk s1 = []"
    using unlock_session [OF assms(2,4,3,5)] by metis
  then obtain d2 where "session K (fold (run_statement en) sts s1) p d2"
    using run_statements_session by blast
  then have ses: "session K (fold (run_statement en) sts s1) p d"
    using assms(6) by (simp add: session_def)
  obtain s3 where l: "lock K Q (fold (run_statement en) sts s1) = (s3, Inr ())" "sealed K Q s3 p d" "ks_master_key s3 = zeros 32"
      "\<not> is_unlocked s3"
    by (rule lock_seals [OF assms(1) _ ses, of Q]) (simp_all add: w)
  obtain s4 where "unlock K Q rnd' s3 p = (s4, Inr ())" "session K s4 p d"
    using unlock_sealed [OF l(2) assms(7)] by metis
  then show ?thesis
    using l by (auto simp: session_def)
qed

lemma demo_pwhash_ok [simp]: "pwhash_ok demo_crypto"
  by (simp add: pwhash_ok_def demo_crypto_def)

lemma demo_unlock:
  "\<exists>s1. unlock demo_crypto Q (zeros 16) keystore_new ''pw'' = (s1, Inr ()) \<and> ks_db s1 = Open keydb_new"
  by (simp add: unlock_def derive_key_def load_from_disk_def write_to_disk_def demo_crypto_def argon2id_def keystore_new_def
      is_unlocked_def Let_def)

definition demo_keydb :: keydb where
  "demo_keydb = keydb_new\<lparr>kt_config := [(''user_uuid'', ''u'')]\<rparr>"

theorem lock_unlock_roundtrip_witness:
  "\<exists>s1 s3 s4. unlock demo_crypto (demo_sqlite demo_keydb) (zeros 16) keystore_new ''pw'' = (s1, Inr ())
    \<and> lock demo_crypto (demo_sqlite demo_keydb) (set_config s1 ''user_uuid'' ''u'') = (s3, Inr ())
    \<and> unlock demo_crypto (demo_sqlite demo_keydb) [] s3 ''pw'' = (s4, Inr ()) \<and> get_config s4 ''user_uuid'' = ''u''"
proof -
  let ?Q = "demo_sqlite demo_keydb"
  obtain s1 where u: "unlock demo_crypto ?Q (zeros 16) keystore_new ''pw'' = (s1, Inr ())" "ks_db s1 = Open keydb_new"
    using demo_unlock by blast
  have "ks_db (fold (run_statement True) [Set_Config ''user_uuid'' ''u''] s1) = Open demo_keydb"
    using u(2) by (simp add: set_config_def on_db_def sql_replace_def demo_keydb_def keydb_new_def c_str_def)
  then obtain s3 s4 where "lock demo_crypto ?Q (set_config s1 ''user_uuid'' ''u'') = (s3, Inr ())"
    "unlock demo_crypto ?Q [] s3 ''pw'' = (s4, Inr ())" "ks_db s4 = Open demo_keydb"
    using lock_unlock_roundtrip [OF demo_aead_ok demo_pwhash_ok _ _ u(1), of True "[Set_Config ''user_uuid'' ''u'']" demo_keydb "[]"]
    by (auto simp: keystore_new_def demo_sqlite_def)
  moreover from this have "get_config s4 ''user_uuid'' = ''u''"
    by (simp add: get_config_def query_db_def demo_keydb_def c_str_def)
  ultimately show ?thesis
    using u(1) by blast
qed


text \<open>
  Changing the passphrase: with the right old passphrase the file is rewritten, and after
  locking, the new passphrase opens the same tables; with one that derives another key nothing
  is touched.
\<close>

theorem change_passphrase_roundtrip:
  assumes "aead_ok K" "pwhash_ok K" "ks_disk s = []" "length rnd' = 16"
    and "session K s p d" "sq_deserialize Q (sq_serialize Q d) = Image_Db d"
  shows "(\<exists>s1 s2 s3. change_passphrase K Q rnd rnd' s p p' = (s1, Inr ()) \<and> lock K Q s1 = (s2, Inr ())
      \<and> unlock K Q rnd s2 p' = (s3, Inr ()) \<and> ks_db s3 = Open d)
    \<and> (\<forall>q. snd (derive_key K rnd s q) \<noteq> Inr (ks_master_key s) \<longrightarrow>
        (\<exists>e. change_passphrase K Q rnd rnd' s q p' = (s, Inl e)))"
proof
  obtain salt where salt: "ks_salt s = Some salt" "argon2id K p (read_into 16 salt) = Inr (ks_master_key s)" "ks_db s = Open d"
      "ks_have_master_key s"
    using assms(5) by (auto simp: session_def)
  obtain mk where mk: "argon2id K p' rnd' = Inr mk" "length mk = 32"
    using argon2id_ok [OF assms(2,4)] by metis
  let ?s = "s\<lparr>ks_salt := Some rnd', ks_disk := []\<rparr>"
  have "ks_disk ?s = []"
    using assms(3) by simp
  from write_to_disk_ok [OF assms(1) this mk(2), of Q] obtain n c t where
    w: "write_to_disk K Q ?s mk = (?s\<lparr>ks_file := Some (n @ t @ c)\<rparr>, Inr ())"
    by metis
  let ?s1 = "?s\<lparr>ks_file := Some (n @ t @ c), ks_master_key := mk\<rparr>"
  have c: "change_passphrase K Q rnd rnd' s p p' = (?s1, Inr ())"
    using salt mk w assms(3) by (simp add: change_passphrase_def derive_key_def is_unlocked_def)
  have "session K ?s1 p' d" "ks_disk ?s1 = []"
    using salt mk assms(3,4) by (simp_all add: session_def)
  then obtain s2 where s2: "lock K Q ?s1 = (s2, Inr ())" "sealed K Q s2 p' d"
    using lock_seals [OF assms(1)] by metis
  then obtain s3 where "unlock K Q rnd s2 p' = (s3, Inr ())" "session K s3 p' d"
    using unlock_sealed [OF _ assms(6)] by metis
  then show "\<exists>s1 s2 s3. change_passphrase K Q rnd rnd' s p p' = (s1, Inr ()) \<and> lock K Q s1 = (s2, Inr ())
      \<and> unlock K Q rnd s2 p' = (s3, Inr ()) \<and> ks_db s3 = Open d"
    using c s2(1) by (auto simp: session_def)
  show "\<forall>q. snd (derive_key K rnd s q) \<noteq> Inr (ks_master_key s) \<longrightarrow> (\<exists>e. change_passphrase K Q rnd rnd' s q p' = (s, Inl e))"
    using salt by (auto simp: change_passphrase_def derive_key_def is_unlocked_def split: sum.split)
qed

lemma demo_session:
  "\<exists>s. unlock demo_crypto (demo_sqlite keydb_new) (zeros 16) keystore_new ''pw'' = (s, Inr ())
    \<and> session demo_crypto s ''pw'' keydb_new \<and> ks_disk s = []"
  by (simp add: unlock_def derive_key_def load_from_disk_def write_to_disk_def demo_crypto_def argon2id_def keystore_new_def
      is_unlocked_def Let_def session_def)

theorem change_passphrase_roundtrip_witness:
  "\<exists>s s1 s2 s3. unlock demo_crypto (demo_sqlite keydb_new) (zeros 16) keystore_new ''pw'' = (s, Inr ())
    \<and> change_passphrase demo_crypto (demo_sqlite keydb_new) [] (zeros 16) s ''pw'' ''new'' = (s1, Inr ())
    \<and> lock demo_crypto (demo_sqlite keydb_new) s1 = (s2, Inr ())
    \<and> unlock demo_crypto (demo_sqlite keydb_new) [] s2 ''new'' = (s3, Inr ()) \<and> ks_db s3 = Open keydb_new"
proof -
  obtain s where s: "unlock demo_crypto (demo_sqlite keydb_new) (zeros 16) keystore_new ''pw'' = (s, Inr ())"
    "session demo_crypto s ''pw'' keydb_new" "ks_disk s = []"
    using demo_session by blast
  have "length (zeros 16) = 16" "sq_deserialize (demo_sqlite keydb_new) (sq_serialize (demo_sqlite keydb_new) keydb_new) = Image_Db keydb_new"
    by (simp_all add: demo_sqlite_def)
  from change_passphrase_roundtrip [OF demo_aead_ok demo_pwhash_ok s(3) this(1) s(2) this(2), of "[]" "''new''"] show ?thesis
    using s(1) by blast
qed

subsection \<open>The tables keep their keys\<close>

definition keydb_ok :: "keydb \<Rightarrow> bool" where
  "keydb_ok d \<longleftrightarrow> pk kb_id (kt_key_b d) \<and> pk kc_device_id (kt_key_c d) \<and> pk kd_id (kt_prekeys d) \<and> pk fst (kt_ratchet d)
     \<and> pk fst (kt_sender d) \<and> pk fst (kt_config d)"

definition ks_keys_ok :: "keystore \<Rightarrow> bool" where
  "ks_keys_ok s \<longleftrightarrow> (\<forall>d. ks_db s = Open d \<longrightarrow> keydb_ok d)"

lemma on_db_keys: "(\<And>d. keydb_ok d \<Longrightarrow> keydb_ok (f d)) \<Longrightarrow> ks_keys_ok s \<Longrightarrow> ks_keys_ok (on_db f s)"
  by (auto simp: ks_keys_ok_def on_db_def split: handle.splits)

lemma run_statement_keys: "ks_keys_ok s \<Longrightarrow> ks_keys_ok (run_statement en st s)"
  by (cases st) (auto simp: set_key_a_def insert_key_b_def set_key_b_cr_def insert_key_c_def revoke_key_c_def update_key_c_cert_def
      insert_prekey_def consume_prekey_def set_ratchet_state_def set_sender_key_def set_config_def keydb_ok_def
      intro!: on_db_keys pk_intros)

lemma write_to_disk_db [simp]: "ks_db (fst (write_to_disk K Q s mk)) = ks_db s"
  by (simp add: write_to_disk_def Let_def split: option.split)

lemma ks_db_steps:
  assumes "\<And>b d. sq_deserialize Q b = Image_Db d \<Longrightarrow> keydb_ok d" "ks_keys_ok s"
  shows "ks_keys_ok (fst (load_from_disk K Q s mk))" "ks_keys_ok (fst (save K Q s))" "ks_keys_ok (fst (lock K Q s))"
    "ks_keys_ok (fst (change_passphrase K Q rnd rnd' s p p'))"
proof -
  have w: "ks_db s1 = ks_db s'" if "write_to_disk K Q s' m = (s1, r)" for s' m s1 r
    using that write_to_disk_db [of K Q s' m] by simp
  have k: "ks_db s1 = ks_db s'" if "derive_key K x s' q = (s1, r)" for x s' q s1 r
    using that by (auto simp: derive_key_def split: option.splits)
  have new: "keydb_ok keydb_new"
    by (simp add: keydb_ok_def keydb_new_def)
  show "ks_keys_ok (fst (load_from_disk K Q s mk))"
    using assms new by (auto simp: load_from_disk_def ks_keys_ok_def split: option.splits sum.splits image.splits)
  show "ks_keys_ok (fst (save K Q s))"
    using assms(2) by (simp add: save_def ks_keys_ok_def)
  show "ks_keys_ok (fst (lock K Q s))"
    using assms(2) by (auto simp: lock_def save_def ks_keys_ok_def split: prod.splits sum.splits if_splits dest!: w)
  show "ks_keys_ok (fst (change_passphrase K Q rnd rnd' s p p'))"
    using assms(2) by (auto simp: change_passphrase_def ks_keys_ok_def split: prod.splits sum.splits dest!: w k)
qed

text \<open>
  Whatever operations run, the tables of the keystore keep their primary keys, as long as SQLite gives back databases
  that do.
\<close>

theorem keystore_tables_ok:
  assumes "\<forall>b d. sq_deserialize Q b = Image_Db d \<longrightarrow> keydb_ok d" "ks_keys_ok s"
  shows "ks_keys_ok (fold (ks_step K Q en) ops s)"
  using assms(2)
proof (induction ops arbitrary: s)
  case (Cons op ops)
  have load: "ks_keys_ok s2" if "ks_keys_ok s1" "load_from_disk K Q s1 mk = (s2, r)" for s1 mk s2 r
    using ks_db_steps(1) [OF _ that(1), of Q K mk] that(2) assms(1) by simp
  have "ks_keys_ok (fst (unlock K Q rnd s p))" for rnd p
  proof (cases "derive_key K rnd s p")
    case (Pair s1 r)
    then have "ks_keys_ok s1"
      using Cons.prems by (auto simp: derive_key_def ks_keys_ok_def split: option.splits)
    then show ?thesis
      using Cons.prems load [of s1] by (auto simp: unlock_def Pair split: sum.splits prod.splits) (auto simp: ks_keys_ok_def)
  qed
  then have "ks_keys_ok (ks_step K Q en op s)"
    using Cons.prems ks_db_steps(2-4) [OF _ Cons.prems] assms(1) by (cases op) (simp_all add: run_statement_keys)
  then show ?case
    using Cons.IH by simp
qed simp

subsection \<open>A write cut short before the nonce\<close>

lemma write_to_disk_any:
  assumes "aead_ok K" "length mk = 32"
  obtains c t where "aead_encrypt K mk (next_nonce (ks_file s)) [] (serialize_db Q (ks_db s)) = Some (c, t)"
    "write_to_disk K Q s mk =
      (case disk_stored (ks_disk s) (next_nonce (ks_file s) @ t @ c) of
         None \<Rightarrow> (s\<lparr>ks_disk := tl (ks_disk s)\<rparr>, Inl (Runtime_Error (''cannot write keystore: '' @ ks_path s)))
       | Some f \<Rightarrow> (s\<lparr>ks_file := Some f, ks_disk := tl (ks_disk s)\<rparr>, Inr ()))"
proof -
  obtain c t where "aead_encrypt K mk (next_nonce (ks_file s)) [] (serialize_db Q (ks_db s)) = Some (c, t)"
    using assms unfolding aead_ok_def by (metis length_next_nonce)
  then show ?thesis
    by (intro that [of c t]) (simp_all add: write_to_disk_def Let_def)
qed

lemma save_session: "session K s p d \<Longrightarrow> save K Q s = write_to_disk K Q s (ks_master_key s)"
  by (simp add: save_def session_def is_unlocked_def)

lemma nonce_restarts:
  assumes "k < 12"
  shows "next_nonce (Some (take k (next_nonce (Some (next_nonce None @ b)) @ b'))) = next_nonce None"
proof -
  have "read_into 12 (next_nonce None @ b) = next_nonce None"
    by (rule read_into_append) simp
  then have "next_nonce (Some (next_nonce None @ b)) = rev (inc_le (rev (next_nonce None)))"
    by (simp only: next_nonce_def option.case)
  also have "\<dots> = zeros 11 @ [2]"
    by (simp add: next_nonce_def zeros_def numeral_eq_Suc)
  finally have "next_nonce (Some (next_nonce None @ b)) = zeros 11 @ [2]" .
  moreover have "take k (zeros 11 @ [2] @ b') = zeros k"
    using assms by (simp add: zeros_def min_def)
  moreover have "read_into 12 (zeros k) = zeros 12"
    using assms by (simp add: read_into_def zeros_def flip: replicate_add)
  ultimately show ?thesis
    by (simp add: next_nonce_def) (simp add: zeros_def numeral_eq_Suc)
qed

text \<open>
  C34. A disk that runs full breaks the nonces. In a new keystore, when the file is truncated for the second version
  and fewer than 12 bytes are stored, \<^verbatim>\<open>save\<close> reports success, and the next save encrypts the tables under the key and
  the nonce of the first version.
\<close>

theorem truncated_keystore_reuses_nonce:
  assumes "aead_ok K" "pwhash_ok K" "length rnd = 16" "ks_file s = None" "ks_salt s = None" "ks_db s = Closed"
    and "ks_disk s = [Stored_All, Stored_All, Stored k]" "k < 12"
  shows "\<exists>s1 s2 s3 n mk c1 t1 c3 t3. unlock K Q rnd s p = (s1, Inr ()) \<and> ks_file s1 = Some (n @ t1 @ c1)
    \<and> aead_encrypt K mk n [] (sq_serialize Q keydb_new) = Some (c1, t1)
    \<and> save K Q (fold (run_statement en) sts s1) = (s2, Inr ()) \<and> save K Q s2 = (s3, Inr ())
    \<and> ks_file s3 = Some (n @ t3 @ c3)
    \<and> aead_encrypt K mk n [] (serialize_db Q (ks_db (fold (run_statement en) sts s1))) = Some (c3, t3)"
proof -
  obtain mk where mk: "argon2id K p rnd = Inr mk" "length mk = 32"
    using argon2id_ok [OF assms(2,3)] by metis
  let ?n = "next_nonce None" and ?s0 = "s\<lparr>ks_salt := Some rnd, ks_disk := [Stored_All, Stored k], ks_db := Open keydb_new\<rparr>"
  obtain c1 t1 where w1: "aead_encrypt K mk ?n [] (sq_serialize Q keydb_new) = Some (c1, t1)"
      "write_to_disk K Q ?s0 mk = (?s0\<lparr>ks_file := Some (?n @ t1 @ c1), ks_disk := [Stored k]\<rparr>, Inr ())"
    by (rule write_to_disk_any [OF assms(1) mk(2), of ?s0 Q]) (simp add: assms(4) serialize_db_def)
  define s1 where "s1 = ?s0\<lparr>ks_file := Some (?n @ t1 @ c1), ks_disk := [Stored k], ks_master_key := mk, ks_have_master_key := True\<rparr>"
  have u: "unlock K Q rnd s p = (s1, Inr ())"
    using assms(4-7) mk(1) w1(2) by (simp add: unlock_def is_unlocked_def derive_key_def load_from_disk_def s1_def)
  define r where "r = fold (run_statement en) sts s1"
  have "session K s1 p keydb_new"
    using mk assms(3) by (simp add: session_def s1_def)
  then obtain d where ses: "session K r p d"
    using run_statements_session unfolding r_def by blast
  have r: "ks_file r = Some (?n @ t1 @ c1)" "ks_disk r = [Stored k]" "ks_master_key r = mk"
    by (simp_all add: r_def s1_def)
  obtain c2 t2 where w2: "write_to_disk K Q r mk =
      (r\<lparr>ks_file := Some (take k (next_nonce (Some (?n @ t1 @ c1)) @ t2 @ c2)), ks_disk := []\<rparr>, Inr ())"
    by (rule write_to_disk_any [OF assms(1) mk(2), of r Q]) (simp add: r)
  define s2 where "s2 = r\<lparr>ks_file := Some (take k (next_nonce (Some (?n @ t1 @ c1)) @ t2 @ c2)), ks_disk := []\<rparr>"
  have ses2: "session K s2 p d" and s2: "ks_master_key s2 = mk" "ks_disk s2 = []" "ks_db s2 = ks_db r"
    using ses r by (simp_all add: s2_def session_def)
  have f2: "ks_file s2 = Some (take k (next_nonce (Some (?n @ t1 @ c1)) @ t2 @ c2))"
    by (simp add: s2_def)
  have n2: "next_nonce (ks_file s2) = ?n"
    unfolding f2 by (rule nonce_restarts [OF assms(8)])
  obtain c3 t3 where w3: "aead_encrypt K mk ?n [] (serialize_db Q (ks_db r)) = Some (c3, t3)"
      "write_to_disk K Q s2 mk = (s2\<lparr>ks_file := Some (?n @ t3 @ c3), ks_disk := []\<rparr>, Inr ())"
    by (rule write_to_disk_any [OF assms(1) mk(2), of s2 Q]) (simp add: s2 n2)
  have f: "ks_file s1 = Some (?n @ t1 @ c1)" "ks_file (s2\<lparr>ks_file := Some (?n @ t3 @ c3), ks_disk := []\<rparr>) = Some (?n @ t3 @ c3)"
    by (simp_all add: s1_def)
  have v: "save K Q r = (s2, Inr ())" "save K Q s2 = (s2\<lparr>ks_file := Some (?n @ t3 @ c3), ks_disk := []\<rparr>, Inr ())"
    unfolding save_session [OF ses] save_session [OF ses2] r(3) s2(1) w3(2) by (simp_all only: w2 s2_def [symmetric])
  show ?thesis
    by (intro exI conjI) (rule u, rule f(1), rule w1(1), rule v(1) [unfolded r_def], rule v(2), rule f(2), rule w3(1) [unfolded r_def])
qed

theorem truncated_keystore_reuses_nonce_witness:
  "\<exists>s1 s2 s3 n mk c1 t1 c3 t3. unlock demo_crypto (demo_sqlite demo_keydb) (zeros 16)
        (keystore_new\<lparr>ks_disk := [Stored_All, Stored_All, Stored 0]\<rparr>) ''pw'' = (s1, Inr ())
    \<and> ks_file s1 = Some (n @ t1 @ c1) \<and> aead_encrypt demo_crypto mk n [] [1] = Some (c1, t1)
    \<and> save demo_crypto (demo_sqlite demo_keydb) (set_config s1 ''user_uuid'' ''u'') = (s2, Inr ())
    \<and> save demo_crypto (demo_sqlite demo_keydb) s2 = (s3, Inr ()) \<and> ks_file s3 = Some (n @ t3 @ c3)"
  using truncated_keystore_reuses_nonce [OF demo_aead_ok demo_pwhash_ok, of "zeros 16" "keystore_new\<lparr>ks_disk := [Stored_All, Stored_All, Stored 0]\<rparr>"
      0 "demo_sqlite demo_keydb" "''pw''" True "[Set_Config ''user_uuid'' ''u'']"]
  by (simp add: keystore_new_def demo_sqlite_def) blast

end
