(* ===== verification/Ratchet.thy ===== *)
theory Ratchet
  imports Crypto Tables Cbor_Wire
begin

text \<open>
  The double ratchet over ML-KEM-768 (\<^verbatim>\<open>common/include/sw/ratchet/ratchet.hpp\<close>,
  \<^verbatim>\<open>common/src/ratchet/ratchet.cpp\<close>). An operation that may throw after it changed the state
  returns the state beside its result; counters are 32-bit words and wrap; KEM coins, key seeds
  and nonces are arguments.
\<close>

definition MAX_SKIPPED_KEYS :: nat where
  "MAX_SKIPPED_KEYS = 100"

record ratchet_state =
  root_key :: bytes
  send_chain_key :: bytes
  recv_chain_key :: bytes
  send_epoch :: u32
  recv_epoch :: u32
  send_msg_num :: u32
  recv_msg_num :: u32
  prev_send_count :: u32
  need_kem_step :: bool
  my_ratchet_kem :: key_pair
  peer_ratchet_pub :: bytes
  skipped_keys :: "(u64 \<times> bytes) list"

record ratchet_header =
  rh_epoch :: u32
  rh_msg_num :: u32
  rh_prev_count :: u32
  rh_sender_ratchet_pub :: bytes
  rh_kem_ct :: "bytes option"

record ratchet_message =
  rm_header :: ratchet_header
  rm_nonce :: bytes
  rm_ciphertext :: bytes
  rm_tag :: bytes

definition skip_key :: "u32 \<Rightarrow> u32 \<Rightarrow> u64" where
  "skip_key epoch msg_num = push_bit 32 (ucast epoch) OR ucast msg_num"

definition kdf :: "crypto_lib \<Rightarrow> bytes list \<Rightarrow> bytes" where
  "kdf K parts = shake256_32_parts K parts"

text \<open>Message key and next chain key.\<close>

definition chain_step :: "crypto_lib \<Rightarrow> bytes \<Rightarrow> bytes \<times> bytes" where
  "chain_step K ck = (kdf K [ck, as_bytes ''message_key''], kdf K [ck, as_bytes ''next_chain_key''])"

function advance_recv_chain ::
  "crypto_lib \<Rightarrow> ratchet_state \<Rightarrow> u32 \<Rightarrow> u32 \<Rightarrow> ratchet_state \<times> unit res" where
  "advance_recv_chain K st epoch target =
     (if recv_msg_num st < target then
        (if length (skipped_keys st) \<ge> MAX_SKIPPED_KEYS
         then (st, Inl (Runtime_Error ''Too many skipped messages''))
         else case chain_step K (recv_chain_key st) of
           (mk, ck) \<Rightarrow> advance_recv_chain K
             (st\<lparr>recv_chain_key := ck,
                 skipped_keys := AList.update (skip_key epoch (recv_msg_num st)) mk (skipped_keys st),
                 recv_msg_num := recv_msg_num st + 1\<rparr>) epoch target)
      else (st, Inr ()))"
  by auto
termination
proof (relation "measure (\<lambda>(K, st, e, t). unat t - unat (recv_msg_num st))")
  show "wf (measure (\<lambda>(K, st, e, t). unat t - unat (recv_msg_num st)))"
    by (rule wf_measure)
  fix K :: crypto_lib and st :: ratchet_state and e t :: u32 and p mk ck
  assume less: "recv_msg_num st < t"
  then have "unat (recv_msg_num st) < unat t"
    by (simp add: word_less_nat_alt)
  with unat_inc [OF less] show "((K, st\<lparr>recv_chain_key := ck, skipped_keys := AList.update (skip_key e (recv_msg_num st)) mk (skipped_keys st),
      recv_msg_num := recv_msg_num st + 1\<rparr>, e, t), K, st, e, t) \<in> measure (\<lambda>(K, st, e, t). unat t - unat (recv_msg_num st))"
    by simp
qed

declare advance_recv_chain.simps [simp del]

definition apply_kem_step_recv ::
  "crypto_lib \<Rightarrow> ratchet_state \<Rightarrow> bytes \<Rightarrow> bytes \<Rightarrow> u32 \<Rightarrow> u32 \<Rightarrow> ratchet_state \<times> unit res" where
  "apply_kem_step_recv K st kem_ct sender_pub new_epoch prev_count =
     (case advance_recv_chain K st (recv_epoch st) prev_count of
        (st1, Inl e) \<Rightarrow> (st1, Inl e)
      | (st1, Inr _) \<Rightarrow>
          (case mlkem_decapsulate K (kp_priv (my_ratchet_kem st1)) kem_ct of
             Inl e \<Rightarrow> (st1, Inl e)
           | Inr ss \<Rightarrow>
               let new_root = kdf K [root_key st1, ss, as_bytes ''ratchet_step'']
               in (st1\<lparr>recv_chain_key := kdf K [new_root, as_bytes ''send_chain''],
                      root_key := new_root, recv_epoch := new_epoch, recv_msg_num := 0,
                      peer_ratchet_pub := sender_pub, need_kem_step := True\<rparr>, Inr ())))"

subsection \<open>Initialisation\<close>

record init_result =
  ir_state :: ratchet_state
  ir_prekey_ct :: bytes
  ir_my_ratchet_pub :: bytes

definition init_as_sender ::
  "crypto_lib \<Rightarrow> bytes \<Rightarrow> bytes \<Rightarrow> bytes \<Rightarrow> bytes \<Rightarrow> bytes \<Rightarrow> init_result res" where
  "init_as_sender K kem_seed key_seed peer_prekey_pub my_key_b_pub peer_key_b_pub =
     rbind (mlkem_encapsulate K kem_seed peer_prekey_pub) (\<lambda>(prekey_ct, prekey_ss).
     rbind (mlkem_keygen K key_seed) (\<lambda>kp.
       let rk = kdf K [prekey_ss, my_key_b_pub, peer_key_b_pub, as_bytes ''ratchet_init'']
       in Inr \<lparr>ir_state = \<lparr>root_key = rk,
                 send_chain_key = kdf K [rk, as_bytes ''send_chain''],
                 recv_chain_key = kdf K [rk, as_bytes ''recv_chain''],
                 send_epoch = 0, recv_epoch = 0, send_msg_num = 0, recv_msg_num = 0,
                 prev_send_count = 0, need_kem_step = False, my_ratchet_kem = kp,
                 peer_ratchet_pub = peer_prekey_pub, skipped_keys = []\<rparr>,
               ir_prekey_ct = prekey_ct, ir_my_ratchet_pub = kp_pub kp\<rparr>))"

definition init_as_receiver ::
  "crypto_lib \<Rightarrow> bytes \<Rightarrow> bytes \<Rightarrow> bytes \<Rightarrow> bytes \<Rightarrow> bytes \<Rightarrow> bytes \<Rightarrow> ratchet_state res" where
  "init_as_receiver K key_seed my_prekey_priv prekey_ct sender_key_b_pub my_key_b_pub sender_ratchet_pub =
     rbind (mlkem_decapsulate K my_prekey_priv prekey_ct) (\<lambda>prekey_ss.
     rbind (mlkem_keygen K key_seed) (\<lambda>kp.
       let rk = kdf K [prekey_ss, sender_key_b_pub, my_key_b_pub, as_bytes ''ratchet_init'']
       in Inr \<lparr>root_key = rk,
               send_chain_key = kdf K [rk, as_bytes ''recv_chain''],
               recv_chain_key = kdf K [rk, as_bytes ''send_chain''],
               send_epoch = 0, recv_epoch = 0, send_msg_num = 0, recv_msg_num = 0,
               prev_send_count = 0, need_kem_step = True, my_ratchet_kem = kp,
               peer_ratchet_pub = sender_ratchet_pub, skipped_keys = []\<rparr>))"

subsection \<open>Encryption and decryption\<close>

text \<open>Randomness of an encryption: KEM coins, key seed, nonce.\<close>

record ratchet_rnd =
  rr_kem :: bytes
  rr_key :: bytes
  rr_nonce :: bytes

text \<open>The KEM step before a message, when one is due; the ciphertext for the header.\<close>

definition kem_step_send :: "crypto_lib \<Rightarrow> ratchet_rnd \<Rightarrow> ratchet_state \<Rightarrow> ratchet_state \<times> bytes option res" where
  "kem_step_send K rn st =
     (if need_kem_step st then
        (case mlkem_encapsulate K (rr_kem rn) (peer_ratchet_pub st) of
           Inl e \<Rightarrow> (st, Inl e)
         | Inr (kem_ct, ss) \<Rightarrow>
             let new_root = kdf K [root_key st, ss, as_bytes ''ratchet_step''];
                 st1 = st\<lparr>prev_send_count := send_msg_num st, send_msg_num := 0,
                          send_epoch := send_epoch st + 1,
                          send_chain_key := kdf K [new_root, as_bytes ''send_chain''],
                          root_key := new_root\<rparr>
             in case mlkem_keygen K (rr_key rn) of
                  Inl e \<Rightarrow> (st1, Inl e)
                | Inr kp \<Rightarrow> (st1\<lparr>my_ratchet_kem := kp, need_kem_step := False\<rparr>, Inr (Some kem_ct)))
      else (st, Inr None))"

definition ratchet_encrypt ::
  "crypto_lib \<Rightarrow> ratchet_rnd \<Rightarrow> ratchet_state \<Rightarrow> bytes \<Rightarrow> ratchet_state \<times> ratchet_message res" where
  "ratchet_encrypt K rn st plaintext =
     (case kem_step_send K rn st of
        (st1, Inl e) \<Rightarrow> (st1, Inl e)
      | (st1, Inr ct) \<Rightarrow>
          let hdr = \<lparr>rh_epoch = send_epoch st1, rh_msg_num = send_msg_num st1,
                     rh_prev_count = prev_send_count st1,
                     rh_sender_ratchet_pub = kp_pub (my_ratchet_kem st1), rh_kem_ct = ct\<rparr>
          in case chain_step K (send_chain_key st1) of
               (mk, ck) \<Rightarrow>
                 let st2 = st1\<lparr>send_chain_key := ck, send_msg_num := send_msg_num st1 + 1\<rparr>
                 in (st2, rbind (aes_encrypt K (rr_nonce rn) mk plaintext []) (\<lambda>ae.
                      Inr \<lparr>rm_header = hdr, rm_nonce = nonce ae, rm_ciphertext = ciphertext ae,
                           rm_tag = tag ae\<rparr>)))"

text \<open>The last part of a decryption: the message lies at or beyond the current position of its epoch.\<close>

definition decrypt_current ::
  "crypto_lib \<Rightarrow> ratchet_state \<Rightarrow> ratchet_message \<Rightarrow> ratchet_state \<times> bytes res" where
  "decrypt_current K st msg =
     (let hdr = rm_header msg
      in if rh_epoch hdr < recv_epoch st
         then (st, Inl (Runtime_Error ''Message from past epoch without skipped key''))
         else case advance_recv_chain K st (rh_epoch hdr) (rh_msg_num hdr) of
                (st1, Inl e) \<Rightarrow> (st1, Inl e)
              | (st1, Inr _) \<Rightarrow>
                  (case chain_step K (recv_chain_key st1) of
                     (mk, ck) \<Rightarrow>
                       (st1\<lparr>recv_chain_key := ck, recv_msg_num := recv_msg_num st1 + 1\<rparr>,
                        aes_decrypt K mk (rm_nonce msg) (rm_ciphertext msg) (rm_tag msg) [])))"

definition ratchet_decrypt ::
  "crypto_lib \<Rightarrow> ratchet_state \<Rightarrow> ratchet_message \<Rightarrow> ratchet_state \<times> bytes res" where
  "ratchet_decrypt K st msg =
     (let hdr = rm_header msg; sk = skip_key (rh_epoch hdr) (rh_msg_num hdr)
      in case map_of (skipped_keys st) sk of
           Some mk \<Rightarrow>
             (st\<lparr>skipped_keys := AList.delete sk (skipped_keys st)\<rparr>,
              aes_decrypt K mk (rm_nonce msg) (rm_ciphertext msg) (rm_tag msg) [])
         | None \<Rightarrow>
             if rh_epoch hdr > recv_epoch st then
               (case rh_kem_ct hdr of
                  None \<Rightarrow> (st, Inl (Runtime_Error ''Missing kem_ct for new ratchet epoch''))
                | Some ct \<Rightarrow>
                    (case apply_kem_step_recv K st ct (rh_sender_ratchet_pub hdr) (rh_epoch hdr)
                            (rh_prev_count hdr) of
                       (st1, Inl e) \<Rightarrow> (st1, Inl e)
                     | (st1, Inr _) \<Rightarrow> decrypt_current K st1 msg))
             else decrypt_current K st msg)"

subsection \<open>Serialisation\<close>

definition serialize_fields :: "cbor_lib \<Rightarrow> ratchet_state \<Rightarrow> (cbor \<times> cbor) list" where
  "serialize_fields C st =
     str_fields
     [(''root_key'', CBytes (root_key st)),
      (''send_chain'', CBytes (send_chain_key st)),
      (''recv_chain'', CBytes (recv_chain_key st)),
      (''send_epoch'', build_uint64 (ucast (send_epoch st))),
      (''recv_epoch'', build_uint64 (ucast (recv_epoch st))),
      (''send_msg_num'', build_uint64 (ucast (send_msg_num st))),
      (''recv_msg_num'', build_uint64 (ucast (recv_msg_num st))),
      (''prev_send_count'', build_uint64 (ucast (prev_send_count st))),
      (''need_kem_step'', CBool (need_kem_step st)),
      (''my_ratchet_pub'', CBytes (kp_pub (my_ratchet_kem st))),
      (''my_ratchet_priv'', CBytes (kp_priv (my_ratchet_kem st))),
      (''peer_ratchet_pub'', CBytes (peer_ratchet_pub st)),
      (''skipped_keys'',
        definite_array C (length (skipped_keys st))
          (map (\<lambda>(packed, mk). definite_array C 2 [build_uint64 packed, CBytes mk]) (skipped_keys st)))]"

definition ratchet_serialize :: "cbor_lib \<Rightarrow> ratchet_state \<Rightarrow> bytes" where
  "ratchet_serialize C st = serialize_or_empty C (definite_map C 12 (serialize_fields C st))"

definition get_bstr :: "cbor_lib \<Rightarrow> (cbor \<times> cbor) list \<Rightarrow> string \<Rightarrow> nat \<Rightarrow> bytes res" where
  "get_bstr C ps key expected =
     (case find_key ps key of
        None \<Rightarrow> Inl (Runtime_Error (''missing key: '' @ key))
      | Some (CBytes b) \<Rightarrow>
          if length b \<noteq> expected then Inl (Runtime_Error (''wrong size for '' @ key)) else Inr b
      | Some _ \<Rightarrow> Inl (Runtime_Error (''expected bstr for '' @ key)))"

definition get_u32 :: "cbor_lib \<Rightarrow> (cbor \<times> cbor) list \<Rightarrow> string \<Rightarrow> u32 res" where
  "get_u32 C ps key =
     (case find_key ps key of
        None \<Rightarrow> Inl (Runtime_Error (''missing key: '' @ key))
      | Some v \<Rightarrow> Inr (ucast (get_uint64 C v)))"

definition get_bool :: "cbor_lib \<Rightarrow> (cbor \<times> cbor) list \<Rightarrow> string \<Rightarrow> bool res" where
  "get_bool C ps key =
     (case find_key ps key of
        None \<Rightarrow> Inl (Runtime_Error (''missing key: '' @ key))
      | Some v \<Rightarrow> Inr (true_item v))"

text \<open>One element of the array of skipped keys.\<close>

definition load_skipped :: "cbor_lib \<Rightarrow> (u64 \<times> bytes) list \<Rightarrow> cbor \<Rightarrow> (u64 \<times> bytes) list" where
  "load_skipped C m x =
     (case x of
        CArray f \<Rightarrow>
          if length f < 2 \<or> length (bytes_of C (f ! 1)) \<noteq> 32 then m
          else AList.update (get_uint64 C (f ! 0)) (bytes_of C (f ! 1)) m
      | _ \<Rightarrow> m)"

definition ratchet_deserialize :: "cbor_lib \<Rightarrow> bytes \<Rightarrow> ratchet_state res" where
  "ratchet_deserialize C data =
     (case cbor_load C data of
        None \<Rightarrow> Inl (Runtime_Error ''ratchet::deserialize: CBOR parse error'')
      | Some (CMap ps) \<Rightarrow>
          rbind (get_bstr C ps ''root_key'' 32) (\<lambda>rk.
          rbind (get_bstr C ps ''send_chain'' 32) (\<lambda>sc.
          rbind (get_bstr C ps ''recv_chain'' 32) (\<lambda>rc.
          rbind (get_u32 C ps ''send_epoch'') (\<lambda>se.
          rbind (get_u32 C ps ''recv_epoch'') (\<lambda>re.
          rbind (get_u32 C ps ''send_msg_num'') (\<lambda>sn.
          rbind (get_u32 C ps ''recv_msg_num'') (\<lambda>rn.
          rbind (get_u32 C ps ''prev_send_count'') (\<lambda>pc.
          rbind (get_bool C ps ''need_kem_step'') (\<lambda>nk.
          rbind (get_bstr C ps ''my_ratchet_pub'' MLKEM768_PUBKEY_BYTES) (\<lambda>mpub.
          rbind (get_bstr C ps ''my_ratchet_priv'' MLKEM768_PRIVKEY_BYTES) (\<lambda>mpriv.
          rbind (get_bstr C ps ''peer_ratchet_pub'' MLKEM768_PUBKEY_BYTES) (\<lambda>ppub.
            Inr \<lparr>root_key = rk, send_chain_key = sc, recv_chain_key = rc, send_epoch = se,
                 recv_epoch = re, send_msg_num = sn, recv_msg_num = rn, prev_send_count = pc,
                 need_kem_step = nk, my_ratchet_kem = \<lparr>kp_pub = mpub, kp_priv = mpriv\<rparr>,
                 peer_ratchet_pub = ppub,
                 skipped_keys = (case find_key ps ''skipped_keys'' of
                     Some (CArray items) \<Rightarrow> foldl (load_skipped C) [] items
                   | _ \<Rightarrow> [])\<rparr>))))))))))))
      | Some _ \<Rightarrow> Inl (Runtime_Error ''ratchet::deserialize: expected map''))"

end
