(* ===== verification/Ratchet_Session.thy ===== *)
theory Ratchet_Session
  imports Ratchet
begin

text \<open>
  Correctness of the double ratchet: a conversation in which every message is delivered
  decrypts to what was sent across any number of direction changes; within one epoch messages
  may be delivered in any order; the store of skipped keys is bounded; a replayed message
  disturbs the receiving chain; what serialisation keeps.
\<close>

subsection \<open>Skipped keys\<close>

lemma bit_skip_key: "bit (skip_key e m) n \<longleftrightarrow> (if n < 32 then bit m n else n < 64 \<and> bit e (n - 32))"
  by (auto simp: skip_key_def bit_simps dest: bit_imp_le_length)

lemma skip_key_inj [simp]: "skip_key e m = skip_key e' m' \<longleftrightarrow> e = e' \<and> m = m'"
proof
  assume eq: "skip_key e m = skip_key e' m'"
  have "bit e n = bit e' n" if "n < 32" for n
    using that bit_skip_key [of e m "n + 32"] bit_skip_key [of e' m' "n + 32"] eq by simp
  moreover have "bit m n = bit m' n" if "n < 32" for n
    using that bit_skip_key [of e m n] bit_skip_key [of e' m' n] eq by simp
  ultimately show "e = e' \<and> m = m'"
    by (auto intro!: bit_word_eqI)
qed simp

lemma advance_bounded:
  "length (skipped_keys st) \<le> MAX_SKIPPED_KEYS \<Longrightarrow>
     length (skipped_keys (fst (advance_recv_chain K st e t))) \<le> MAX_SKIPPED_KEYS"
proof (induction K st e t rule: advance_recv_chain.induct)
  case (1 K st e t)
  show ?case
  proof (cases "recv_msg_num st < t \<and> length (skipped_keys st) < MAX_SKIPPED_KEYS")
    case True
    obtain mk ck where step: "chain_step K (recv_chain_key st) = (mk, ck)"
      by (cases "chain_step K (recv_chain_key st)")
    have "length (AList.update (skip_key e (recv_msg_num st)) mk (skipped_keys st)) \<le> MAX_SKIPPED_KEYS"
      using True by (simp add: length_update)
    with 1(1) [of mk ck] True step show ?thesis
      by (subst advance_recv_chain.simps) simp
  next
    case False
    with 1(2) show ?thesis
      by (subst advance_recv_chain.simps) auto
  qed
qed

lemma decrypt_current_bounded:
  "length (skipped_keys st) \<le> MAX_SKIPPED_KEYS \<Longrightarrow>
     length (skipped_keys (fst (decrypt_current K st msg))) \<le> MAX_SKIPPED_KEYS"
  using advance_bounded [of st K "rh_epoch (rm_header msg)" "rh_msg_num (rm_header msg)"]
  by (auto simp: decrypt_current_def Let_def split: prod.splits sum.splits)

lemma kem_step_recv_bounded:
  "apply_kem_step_recv K st ct pub e pc = (st1, r) \<Longrightarrow> length (skipped_keys st) \<le> MAX_SKIPPED_KEYS \<Longrightarrow>
     length (skipped_keys st1) \<le> MAX_SKIPPED_KEYS"
  using advance_bounded [of st K "recv_epoch st" pc]
  by (auto simp: apply_kem_step_recv_def Let_def split: prod.splits sum.splits)

lemma decrypt_bounded:
  assumes "length (skipped_keys st) \<le> MAX_SKIPPED_KEYS"
  shows "length (skipped_keys (fst (ratchet_decrypt K st msg))) \<le> MAX_SKIPPED_KEYS"
  using assms length_delete_le [of "skip_key (rh_epoch (rm_header msg)) (rh_msg_num (rm_header msg))" "skipped_keys st"]
  by (auto simp: ratchet_decrypt_def Let_def split: option.split prod.split sum.split
      intro: decrypt_current_bounded kem_step_recv_bounded)

text \<open>
  C36. Whatever messages arrive, authentic or not, a state never holds more than 100 skipped
  message keys, and every call terminates.
\<close>

theorem skipped_keys_bounded:
  assumes "length (skipped_keys st) \<le> 100"
  shows "length (skipped_keys (foldl (\<lambda>s m. fst (ratchet_decrypt K s m)) st msgs)) \<le> 100"
  using assms
proof (induction msgs arbitrary: st)
  case (Cons msg msgs)
  then show ?case
    using decrypt_bounded [of st K msg] by (simp add: MAX_SKIPPED_KEYS_def)
qed simp

definition demo_state :: ratchet_state where
  "demo_state = \<lparr>root_key = zeros 32, send_chain_key = zeros 32, recv_chain_key = zeros 32,
     send_epoch = 0, recv_epoch = 0, send_msg_num = 0, recv_msg_num = 0, prev_send_count = 0,
     need_kem_step = False, my_ratchet_kem = \<lparr>kp_pub = zeros 1184, kp_priv = zeros 2400\<rparr>,
     peer_ratchet_pub = zeros 1184, skipped_keys = []\<rparr>"

definition demo_msg :: ratchet_message where
  "demo_msg = \<lparr>rm_header = \<lparr>rh_epoch = 0, rh_msg_num = 4000000000, rh_prev_count = 0,
     rh_sender_ratchet_pub = [], rh_kem_ct = None\<rparr>, rm_nonce = zeros 12, rm_ciphertext = [], rm_tag = zeros 16\<rparr>"

theorem skipped_keys_bounded_witness:
  "length (skipped_keys (foldl (\<lambda>s m. fst (ratchet_decrypt demo_crypto s m)) demo_state [demo_msg, demo_msg])) \<le> 100"
  by (rule skipped_keys_bounded) (simp add: demo_state_def)

subsection \<open>A conversation\<close>

text \<open>Party \<open>s\<close> can send to party \<open>r\<close>.\<close>

definition ready :: "crypto_lib \<Rightarrow> ratchet_state \<Rightarrow> ratchet_state \<Rightarrow> bool" where
  "ready K s r \<longleftrightarrow> send_epoch s = recv_epoch r \<and> send_msg_num s = recv_msg_num r \<and>
     (if need_kem_step s then kem_pair K (peer_ratchet_pub s) (kp_priv (my_ratchet_kem r))
      else send_chain_key s = recv_chain_key r)"

definition synced :: "crypto_lib \<Rightarrow> ratchet_state \<Rightarrow> ratchet_state \<Rightarrow> bool" where
  "synced K a b \<longleftrightarrow> root_key a = root_key b \<and> ready K a b \<and> ready K b a \<and>
     skipped_keys a = [] \<and> skipped_keys b = []"

lemma synced_commute: "synced K a b \<longleftrightarrow> synced K b a"
  by (auto simp: synced_def)

definition libs_ok :: "crypto_lib \<Rightarrow> bool" where
  "libs_ok K \<longleftrightarrow> hash_ok K \<and> aead_ok K \<and> kem_ok K"

lemma length_kdf [simp]: "hash_ok K \<Longrightarrow> length (kdf K ps) = 32"
  by (simp add: kdf_def)

lemma advance_idle [simp]: "\<not> recv_msg_num st < t \<Longrightarrow> advance_recv_chain K st e t = (st, Inr ())"
  by (subst advance_recv_chain.simps) simp

text \<open>A message sealed under the key both sides are about to use.\<close>

lemma chain_seal:
  assumes "libs_ok K" "length n = 12"
  obtains ae where "aes_encrypt K n (fst (chain_step K ck)) p [] = Inr ae"
    "aes_decrypt K (fst (chain_step K ck)) (nonce ae) (ciphertext ae) (tag ae) [] = Inr p"
proof -
  have "length (fst (chain_step K ck)) = 32"
    using assms(1) by (simp add: chain_step_def libs_ok_def)
  then show ?thesis
    using aes_roundtrip [of K "fst (chain_step K ck)" n p "[]"] assms that by (auto simp: libs_ok_def)
qed

lemma synced_same_epoch:
  assumes K: "libs_ok K" "length (rr_nonce rn) = 12" and syn: "synced K a b" and "\<not> need_kem_step a"
  obtains a' b' m where "ratchet_encrypt K rn a p = (a', Inr m)" "ratchet_decrypt K b m = (b', Inr p)"
    "synced K a' b'" "send_epoch a' = send_epoch a" "send_epoch b' = send_epoch b"
proof -
  obtain ae where ae: "aes_encrypt K (rr_nonce rn) (fst (chain_step K (send_chain_key a))) p [] = Inr ae"
      "aes_decrypt K (fst (chain_step K (send_chain_key a))) (nonce ae) (ciphertext ae) (tag ae) [] = Inr p"
    by (rule chain_seal [OF K])
  obtain mk ck where step: "chain_step K (send_chain_key a) = (mk, ck)"
    by (cases "chain_step K (send_chain_key a)")
  have r: "send_epoch a = recv_epoch b" "send_msg_num a = recv_msg_num b" "send_chain_key a = recv_chain_key b"
    using syn assms(4) by (simp_all add: synced_def ready_def)
  let ?a = "a\<lparr>send_chain_key := ck, send_msg_num := send_msg_num a + 1\<rparr>"
  let ?b = "b\<lparr>recv_chain_key := ck, recv_msg_num := recv_msg_num b + 1\<rparr>"
  let ?m = "\<lparr>rm_header = \<lparr>rh_epoch = send_epoch a, rh_msg_num = send_msg_num a,
      rh_prev_count = prev_send_count a, rh_sender_ratchet_pub = kp_pub (my_ratchet_kem a), rh_kem_ct = None\<rparr>,
      rm_nonce = nonce ae, rm_ciphertext = ciphertext ae, rm_tag = tag ae\<rparr>"
  have "ratchet_encrypt K rn a p = (?a, Inr ?m)"
    using ae step assms(4) by (simp add: ratchet_encrypt_def kem_step_send_def)
  moreover have "ratchet_decrypt K b ?m = (?b, Inr p)"
    using ae step r syn by (simp add: ratchet_decrypt_def decrypt_current_def synced_def)
  moreover have "synced K ?a ?b"
    using syn assms(4) r by (auto simp: synced_def ready_def)
  ultimately show ?thesis
    by (rule that) simp_all
qed

lemma synced_new_epoch:
  assumes K: "libs_ok K" "length (rr_nonce rn) = 12" and syn: "synced K a b" and need: "need_kem_step a"
    and bound: "unat (send_epoch a) + 1 < 2 ^ 32"
  obtains a' b' m where "ratchet_encrypt K rn a p = (a', Inr m)" "ratchet_decrypt K b m = (b', Inr p)"
    "synced K a' b'" "send_epoch a' = send_epoch a + 1" "send_epoch b' = send_epoch b"
    "\<not> need_kem_step a'" "send_msg_num a' = 1"
proof -
  have r: "send_epoch a = recv_epoch b" "send_msg_num a = recv_msg_num b" "root_key a = root_key b"
      "kem_pair K (peer_ratchet_pub a) (kp_priv (my_ratchet_kem b))" "skipped_keys b = []"
    using syn need by (simp_all add: synced_def ready_def)
  obtain ct ss where kem: "mlkem_encapsulate K (rr_kem rn) (peer_ratchet_pub a) = Inr (ct, ss)"
      "mlkem_decapsulate K (kp_priv (my_ratchet_kem b)) ct = Inr ss"
    using kem_pair_roundtrip [OF r(4), of "rr_kem rn"] by metis
  obtain kp where kp: "mlkem_keygen K (rr_key rn) = Inr kp" "kem_pair K (kp_pub kp) (kp_priv kp)"
    using kem_ok_keygen [of K "rr_key rn"] K(1) by (metis libs_ok_def)
  define root where "root = kdf K [root_key a, ss, as_bytes ''ratchet_step'']"
  define c0 where "c0 = kdf K [root, as_bytes ''send_chain'']"
  obtain mk ck where step: "chain_step K c0 = (mk, ck)"
    by (cases "chain_step K c0")
  obtain ae where ae: "aes_encrypt K (rr_nonce rn) (fst (chain_step K c0)) p [] = Inr ae"
      "aes_decrypt K (fst (chain_step K c0)) (nonce ae) (ciphertext ae) (tag ae) [] = Inr p"
    by (rule chain_seal [OF K])
  let ?a = "a\<lparr>prev_send_count := send_msg_num a, send_msg_num := 1, send_epoch := send_epoch a + 1,
      send_chain_key := ck, root_key := root, my_ratchet_kem := kp, need_kem_step := False\<rparr>"
  let ?b = "b\<lparr>recv_chain_key := ck, root_key := root, recv_epoch := send_epoch a + 1, recv_msg_num := 1,
      peer_ratchet_pub := kp_pub kp, need_kem_step := True\<rparr>"
  let ?m = "\<lparr>rm_header = \<lparr>rh_epoch = send_epoch a + 1, rh_msg_num = 0,
      rh_prev_count = send_msg_num a, rh_sender_ratchet_pub = kp_pub kp, rh_kem_ct = Some ct\<rparr>,
      rm_nonce = nonce ae, rm_ciphertext = ciphertext ae, rm_tag = tag ae\<rparr>"
  have roots: "kdf K [root_key b, ss, as_bytes ''ratchet_step''] = root"
      "kdf K [root, as_bytes ''send_chain''] = c0"
    by (simp_all add: root_def c0_def r(3))
  have less: "recv_epoch b < send_epoch a + 1"
    using bound r(1) by (simp add: word_less_nat_alt unat_plus_if')
  have "ratchet_encrypt K rn a p = (?a, Inr ?m)"
    using need kem kp ae step
    by (simp add: ratchet_encrypt_def kem_step_send_def Let_def root_def [symmetric] c0_def [symmetric])
  moreover have "ratchet_decrypt K b ?m = (?b, Inr p)"
    using ae step r kem less
    by (simp add: ratchet_decrypt_def apply_kem_step_recv_def decrypt_current_def Let_def roots)
  moreover have "synced K ?a ?b"
    using syn kp by (auto simp: synced_def ready_def)
  ultimately show ?thesis
    by (rule that) simp_all
qed

text \<open>A conversation: who sends (\<open>True\<close> for the first party), the randomness, the plaintext.\<close>

type_synonym turn = "bool \<times> ratchet_rnd \<times> bytes"

text \<open>Every message is delivered before the next is sent; the plaintexts the receivers obtain.\<close>

primrec converse ::
  "crypto_lib \<Rightarrow> ratchet_state \<Rightarrow> ratchet_state \<Rightarrow> turn list \<Rightarrow> bytes res list" where
  "converse K a b [] = []"
| "converse K a b (t # ts) =
     (case t of (dir, rn, p) \<Rightarrow>
        let s = (if dir then a else b); r = (if dir then b else a) in
        case ratchet_encrypt K rn s p of
          (s', Inl e) \<Rightarrow> Inl e # (if dir then converse K s' b ts else converse K a s' ts)
        | (s', Inr m) \<Rightarrow>
            (case ratchet_decrypt K r m of
               (r', res) \<Rightarrow> res # (if dir then converse K s' r' ts else converse K r' s' ts)))"

definition turn_ok :: "turn \<Rightarrow> bool" where
  "turn_ok t \<longleftrightarrow> length (rr_nonce (fst (snd t))) = 12"

lemma synced_turn:
  assumes "libs_ok K" "length (rr_nonce rn) = 12" "synced K a b" "unat (send_epoch a) + 1 < 2 ^ 32"
  obtains a' b' m where "ratchet_encrypt K rn a p = (a', Inr m)" "ratchet_decrypt K b m = (b', Inr p)"
    "synced K a' b'" "unat (send_epoch a') \<le> unat (send_epoch a) + 1" "send_epoch b' = send_epoch b"
proof (cases "need_kem_step a")
  case True
  obtain a' b' m where r: "ratchet_encrypt K rn a p = (a', Inr m)" "ratchet_decrypt K b m = (b', Inr p)"
      "synced K a' b'" "send_epoch a' = send_epoch a + 1" "send_epoch b' = send_epoch b"
    by (rule synced_new_epoch [OF assms(1-3) True assms(4)])
  then have "unat (send_epoch a') \<le> unat (send_epoch a) + 1"
    using assms(4) by (simp add: unat_plus_if')
  with r show ?thesis
    using that by blast
next
  case False
  obtain a' b' m where r: "ratchet_encrypt K rn a p = (a', Inr m)" "ratchet_decrypt K b m = (b', Inr p)"
      "synced K a' b'" "send_epoch a' = send_epoch a" "send_epoch b' = send_epoch b"
    by (rule synced_same_epoch [OF assms(1-3) False])
  with that show ?thesis
    by simp
qed

lemma converse_synced:
  assumes "libs_ok K" "list_all turn_ok ts" "synced K a b"
    "unat (send_epoch a) + length ts < 2 ^ 32" "unat (send_epoch b) + length ts < 2 ^ 32"
  shows "converse K a b ts = map (\<lambda>(dir, rn, p). Inr p) ts"
  using assms(2-5)
proof (induction ts arbitrary: a b)
  case (Cons t ts)
  obtain dir rn p where t: "t = (dir, rn, p)"
    by (cases t)
  have n: "length (rr_nonce rn) = 12"
    using Cons.prems(1) t by (simp add: turn_ok_def)
  show ?case
  proof (cases dir)
    case True
    have "unat (send_epoch a) + 1 < 2 ^ 32"
      using Cons.prems(3) by simp
    then obtain a' b' m where r: "ratchet_encrypt K rn a p = (a', Inr m)" "ratchet_decrypt K b m = (b', Inr p)"
        "synced K a' b'" "unat (send_epoch a') \<le> unat (send_epoch a) + 1" "send_epoch b' = send_epoch b"
      by (rule synced_turn [OF assms(1) n Cons.prems(2)])
    have "converse K a' b' ts = map (\<lambda>(dir, rn, p). Inr p) ts"
      using r Cons.prems by (intro Cons.IH) simp_all
    with r True t show ?thesis
      by simp
  next
    case False
    have "unat (send_epoch b) + 1 < 2 ^ 32"
      using Cons.prems(4) by simp
    then obtain b' a' m where r: "ratchet_encrypt K rn b p = (b', Inr m)" "ratchet_decrypt K a m = (a', Inr p)"
        "synced K b' a'" "unat (send_epoch b') \<le> unat (send_epoch b) + 1" "send_epoch a' = send_epoch a"
      by (rule synced_turn [OF assms(1) n iffD1 [OF synced_commute Cons.prems(2)]])
    have "converse K a' b' ts = map (\<lambda>(dir, rn, p). Inr p) ts"
      using r Cons.prems by (intro Cons.IH) (simp_all add: synced_commute)
    with r False t show ?thesis
      by simp
  qed
qed simp

text \<open>
  C1. Two parties that initialise a session from a prekey (the initiator's ciphertext and
  ratchet key reaching the responder) agree on every message of every conversation of fewer
  than \<open>2 ^ 32\<close> messages, whoever speaks when: each plaintext is received exactly as sent,
  across all KEM ratchet steps.
\<close>

theorem conversation_correct:
  assumes "libs_ok K" "kem_pair K prekey_pub prekey_priv" "list_all turn_ok ts" "length ts < 2 ^ 32"
  shows "\<exists>ir b. init_as_sender K s1 s2 prekey_pub keyb_a keyb_b = Inr ir \<and>
    init_as_receiver K s3 prekey_priv (ir_prekey_ct ir) keyb_a keyb_b (ir_my_ratchet_pub ir) = Inr b \<and>
    converse K (ir_state ir) b ts = map (\<lambda>(dir, rn, p). Inr p) ts"
proof -
  have kem: "kem_ok K"
    using assms(1) by (simp add: libs_ok_def)
  obtain ct ss where ct: "mlkem_encapsulate K s1 prekey_pub = Inr (ct, ss)"
      "mlkem_decapsulate K prekey_priv ct = Inr ss"
    using kem_pair_roundtrip [OF assms(2), of s1] by metis
  obtain ka where ka: "mlkem_keygen K s2 = Inr ka" "kem_pair K (kp_pub ka) (kp_priv ka)"
    using kem_ok_keygen [OF kem, of s2] by metis
  obtain kb where kb: "mlkem_keygen K s3 = Inr kb"
    using kem_ok_keygen [OF kem, of s3] by metis
  obtain ir where ir: "init_as_sender K s1 s2 prekey_pub keyb_a keyb_b = Inr ir"
    by (simp add: init_as_sender_def ct ka Let_def)
  obtain b where b: "init_as_receiver K s3 prekey_priv (ir_prekey_ct ir) keyb_a keyb_b (ir_my_ratchet_pub ir) = Inr b"
    using ir by (auto simp: init_as_sender_def init_as_receiver_def ct ka kb Let_def)
  have syn: "synced K (ir_state ir) b" and ep: "send_epoch (ir_state ir) = 0" "send_epoch b = 0"
    using ir b ka by (auto simp: init_as_sender_def init_as_receiver_def ct kb Let_def synced_def ready_def)
  have "converse K (ir_state ir) b ts = map (\<lambda>(dir, rn, p). Inr p) ts"
    using assms(1,3) syn by (rule converse_synced) (use assms(4) ep in simp_all)
  with ir b show ?thesis
    by blast
qed

definition demo_rnd :: ratchet_rnd where
  "demo_rnd = \<lparr>rr_kem = [1], rr_key = [2], rr_nonce = zeros 12\<rparr>"

lemma demo_libs_ok [simp]: "libs_ok demo_crypto"
  by (simp add: libs_ok_def)

theorem conversation_correct_witness:
  "\<exists>ir b. init_as_sender demo_crypto [1] [2] [] [] [] = Inr ir \<and>
    init_as_receiver demo_crypto [3] [] (ir_prekey_ct ir) [] [] (ir_my_ratchet_pub ir) = Inr b \<and>
    converse demo_crypto (ir_state ir) b
      [(True, demo_rnd, [1]), (False, demo_rnd, [2]), (False, demo_rnd, [3]), (True, demo_rnd, [4])] =
      [Inr [1], Inr [2], Inr [3], Inr [4]]"
  using conversation_correct [of demo_crypto "[]" "[]"
      "[(True, demo_rnd, [1]), (False, demo_rnd, [2]), (False, demo_rnd, [3]), (True, demo_rnd, [4])]"
      "[1]" "[2]" "[]" "[]" "[3]"]
  by (simp add: turn_ok_def demo_rnd_def)

subsection \<open>Serialisation\<close>

lemma definite_map_take_fields:
  "cbor_ok C \<Longrightarrow> definite_map C cap (str_fields kvs) = definite_map C cap (str_fields (take cap kvs))"
  by (simp add: definite_map_take str_fields_def take_map)

lemma ucast_u64_u32: "ucast (ucast x :: u64) = (x :: u32)"
  by (rule bit_word_eqI) (simp add: bit_simps)

text \<open>A state with the member sizes of the C++ type.\<close>

definition state_sizes :: "ratchet_state \<Rightarrow> bool" where
  "state_sizes st \<longleftrightarrow> length (root_key st) = 32 \<and> length (send_chain_key st) = 32 \<and>
     length (recv_chain_key st) = 32 \<and> length (kp_pub (my_ratchet_kem st)) = MLKEM768_PUBKEY_BYTES \<and>
     length (kp_priv (my_ratchet_kem st)) = MLKEM768_PRIVKEY_BYTES \<and>
     length (peer_ratchet_pub st) = MLKEM768_PUBKEY_BYTES"

lemma reload_state:
  assumes C: "cbor_ok C" and sz: "state_sizes st"
  shows "ratchet_deserialize C (ratchet_serialize C st) = Inr (st\<lparr>skipped_keys := []\<rparr>)"
proof -
  let ?kvs = "[(''root_key'', CBytes (root_key st)), (''send_chain'', CBytes (send_chain_key st)),
      (''recv_chain'', CBytes (recv_chain_key st)),
      (''send_epoch'', build_uint64 (ucast (send_epoch st))),
      (''recv_epoch'', build_uint64 (ucast (recv_epoch st))),
      (''send_msg_num'', build_uint64 (ucast (send_msg_num st))),
      (''recv_msg_num'', build_uint64 (ucast (recv_msg_num st))),
      (''prev_send_count'', build_uint64 (ucast (prev_send_count st))),
      (''need_kem_step'', CBool (need_kem_step st)),
      (''my_ratchet_pub'', CBytes (kp_pub (my_ratchet_kem st))),
      (''my_ratchet_priv'', CBytes (kp_priv (my_ratchet_kem st))),
      (''peer_ratchet_pub'', CBytes (peer_ratchet_pub st))]"
  have keys: "list_all (\<lambda>(k, v). key_lit k) ?kvs"
    by (simp add: key_lit_def)
  have ser: "ratchet_serialize C st = serialize_or_empty C (definite_map C 12 (str_fields ?kvs))"
    unfolding ratchet_serialize_def serialize_fields_def
    by (subst definite_map_take_fields [OF C]) simp
  have "cbor_load C (ratchet_serialize C st) = Some (CMap (str_fields ?kvs))"
    unfolding ser
    by (rule load_fields [OF C keys]) (use sz in \<open>simp_all add: state_sizes_def size_defs\<close>)
  then show ?thesis
    using C sz
    by (simp only: ratchet_deserialize_def get_bstr_def get_u32_def get_bool_def find_key_fields [OF keys]
        option.case cbor.case)
       (cases st; cases "my_ratchet_kem st"; simp add: state_sizes_def true_item_def ucast_u64_u32)
qed

text \<open>
  Storing a session and loading it again gives the same session without its skipped
  message keys: the map is allocated for twelve pairs and the thirteenth, \<^verbatim>\<open>skipped_keys\<close>, is
  refused.
\<close>

theorem serialize_loses_skipped_keys:
  assumes "cbor_ok C" "state_sizes st"
  shows "ratchet_deserialize C (ratchet_serialize C st) = Inr (st\<lparr>skipped_keys := []\<rparr>)"
  using assms by (rule reload_state)

theorem serialize_loses_skipped_keys_witness:
  "ratchet_deserialize wire_cbor (ratchet_serialize wire_cbor (demo_state\<lparr>skipped_keys := [(1, zeros 32)]\<rparr>)) =
     Inr demo_state"
  using serialize_loses_skipped_keys [of wire_cbor "demo_state\<lparr>skipped_keys := [(1, zeros 32)]\<rparr>"]
  by (simp add: state_sizes_def demo_state_def size_defs)

subsection \<open>Any order within an epoch\<close>

primrec ck_at :: "crypto_lib \<Rightarrow> bytes \<Rightarrow> nat \<Rightarrow> bytes" where
  "ck_at K ck 0 = ck"
| "ck_at K ck (Suc i) = snd (chain_step K (ck_at K ck i))"

definition mk_at :: "crypto_lib \<Rightarrow> bytes \<Rightarrow> nat \<Rightarrow> bytes" where
  "mk_at K ck i = fst (chain_step K (ck_at K ck i))"

lemma chain_step_at: "chain_step K (ck_at K ck i) = (mk_at K ck i, ck_at K ck (Suc i))"
  by (simp add: mk_at_def)

text \<open>
  The receiver has delivered the messages \<open>D\<close> of the \<open>n\<close> messages that start at number \<open>b\<close> of
  epoch \<open>e\<close>, and stands at position \<open>pos\<close>.
\<close>

definition rinv ::
  "crypto_lib \<Rightarrow> nat \<Rightarrow> u32 \<Rightarrow> u32 \<Rightarrow> bytes \<Rightarrow> nat set \<Rightarrow> nat \<Rightarrow> ratchet_state \<Rightarrow> bool" where
  "rinv K n e b ck D pos r \<longleftrightarrow> recv_epoch r = e \<and> recv_msg_num r = b + of_nat pos \<and>
     recv_chain_key r = ck_at K ck pos \<and> length (skipped_keys r) \<le> pos \<and> D \<subseteq> {..<pos} \<and>
     (\<forall>i<n. map_of (skipped_keys r) (skip_key e (b + of_nat i)) =
        (if i < pos \<and> i \<notin> D then Some (mk_at K ck i) else None))"

lemma unat_small: "i < 2 ^ 32 \<Longrightarrow> unat (of_nat i :: u32) = i"
  by (simp add: unat_of_nat)

lemma num_add:
  fixes b :: u32
  assumes "unat b + n < 2 ^ 32" "i \<le> n"
  shows "unat (b + of_nat i) = unat b + i"
proof -
  have i: "unat (of_nat i :: u32) = i"
    using assms by (intro unat_small) linarith
  have "unat b + unat (of_nat i :: u32) < 2 ^ LENGTH(32)"
    unfolding i using assms by simp
  then have "unat (b + of_nat i) = unat b + unat (of_nat i :: u32)"
    by (rule iffD1 [OF unat_add_lem])
  with i show ?thesis
    by simp
qed

lemma num_inj:
  assumes "unat (b :: u32) + n < 2 ^ 32" "i \<le> n" "j \<le> n"
  shows "(of_nat i :: u32) = of_nat j \<longleftrightarrow> i = j"
proof
  assume "(of_nat i :: u32) = of_nat j"
  then have "unat (of_nat i :: u32) = unat (of_nat j :: u32)"
    by simp
  then show "i = j"
    using assms by (subst (asm) unat_small, linarith, subst (asm) unat_small, linarith)
qed simp

lemma advance_rinv:
  assumes b: "unat b + n < 2 ^ 32" and "n \<le> 101" "rinv K n e b ck D pos r" "pos \<le> t" "t < n"
  shows "\<exists>r'. advance_recv_chain K r e (b + of_nat t) = (r', Inr ()) \<and> rinv K n e b ck D t r'"
  using assms(3-4)
proof (induction "t - pos" arbitrary: pos r)
  case 0
  then have "pos = t" "\<not> recv_msg_num r < b + of_nat t"
    by (simp_all add: rinv_def)
  with 0 show ?case
    by auto
next
  case (Suc k)
  then have pos: "pos < t"
    by simp
  let ?r = "r\<lparr>recv_chain_key := ck_at K ck (Suc pos),
      skipped_keys := AList.update (skip_key e (b + of_nat pos)) (mk_at K ck pos) (skipped_keys r),
      recv_msg_num := b + of_nat pos + 1\<rparr>"
  have r: "recv_msg_num r = b + of_nat pos" "recv_chain_key r = ck_at K ck pos" "length (skipped_keys r) \<le> pos"
    using Suc.prems by (simp_all add: rinv_def)
  have less: "recv_msg_num r < b + of_nat t"
    using num_add [OF b, of pos] num_add [OF b, of t] pos assms(5) r(1) by (simp add: word_less_nat_alt)
  have room: "\<not> MAX_SKIPPED_KEYS \<le> length (skipped_keys r)"
    using r(3) pos assms(2,5) by (simp add: MAX_SKIPPED_KEYS_def)
  have inv: "rinv K n e b ck D (Suc pos) ?r"
    using Suc.prems pos assms(5) r(3)
    by (auto simp: rinv_def table_simps length_update less_Suc_eq num_inj [OF b] add.assoc add.commute [of 1])
  have "advance_recv_chain K r e (b + of_nat t) = advance_recv_chain K ?r e (b + of_nat t)"
    using less room r by (subst advance_recv_chain.simps) (simp add: chain_step_at del: ck_at.simps)
  moreover have "k = t - Suc pos"
    using Suc.hyps(2) by simp
  ultimately show ?case
    using Suc.hyps(1) [OF _ inv] pos by simp
qed

text \<open>Message number \<open>i\<close> of the run: its place in the chain, no KEM ciphertext, and a payload that opens to \<open>p\<close>.\<close>

definition run_msg :: "crypto_lib \<Rightarrow> u32 \<Rightarrow> u32 \<Rightarrow> bytes \<Rightarrow> nat \<Rightarrow> bytes \<Rightarrow> ratchet_message \<Rightarrow> bool" where
  "run_msg K e b ck i p m \<longleftrightarrow> rh_epoch (rm_header m) = e \<and> rh_msg_num (rm_header m) = b + of_nat i \<and> rh_kem_ct (rm_header m) = None \<and>
     aes_decrypt K (mk_at K ck i) (rm_nonce m) (rm_ciphertext m) (rm_tag m) [] = Inr p"

lemma deliver_rinv:
  assumes b: "unat b + n < 2 ^ 32" and "n \<le> 101" and inv: "rinv K n e b ck D pos r" and i: "i < n" "i \<notin> D"
    and m: "run_msg K e b ck i p m"
  shows "\<exists>r'. ratchet_decrypt K r m = (r', Inr p) \<and> rinv K n e b ck (insert i D) (max pos (Suc i)) r'"
proof (cases "i < pos")
  case True
  let ?r = "r\<lparr>skipped_keys := AList.delete (skip_key e (b + of_nat i)) (skipped_keys r)\<rparr>"
  have look: "map_of (skipped_keys r) (skip_key e (b + of_nat i)) = Some (mk_at K ck i)"
    using inv i True by (simp add: rinv_def)
  have "ratchet_decrypt K r m = (?r, Inr p)"
    using m look by (simp add: ratchet_decrypt_def run_msg_def Let_def)
  moreover have "rinv K n e b ck (insert i D) pos ?r"
    using inv True i length_delete_le [of "skip_key e (b + of_nat i)" "skipped_keys r"]
    by (auto simp: rinv_def table_simps num_inj [OF b])
  moreover have "max pos (Suc i) = pos"
    using True by simp
  ultimately show ?thesis
    by simp
next
  case False
  have look: "map_of (skipped_keys r) (skip_key e (b + of_nat i)) = None" and ep: "recv_epoch r = e"
    using inv i False by (simp_all add: rinv_def)
  obtain r1 where r1: "advance_recv_chain K r e (b + of_nat i) = (r1, Inr ())" "rinv K n e b ck D i r1"
    using advance_rinv [OF b assms(2) inv, of i] False i by auto
  let ?r = "r1\<lparr>recv_chain_key := ck_at K ck (Suc i), recv_msg_num := recv_msg_num r1 + 1\<rparr>"
  have "recv_chain_key r1 = ck_at K ck i"
    using r1(2) by (simp add: rinv_def)
  then have "ratchet_decrypt K r m = (?r, Inr p)"
    using m look ep r1(1)
    by (simp add: ratchet_decrypt_def decrypt_current_def run_msg_def Let_def chain_step_at del: ck_at.simps)
  moreover have "rinv K n e b ck (insert i D) (Suc i) ?r"
    using r1(2) i False inv by (auto simp: rinv_def less_Suc_eq add.assoc add.commute [of 1])
  ultimately show ?thesis
    using False by (simp add: max_def)
qed

text \<open>The receiver handles messages as they come; a sender sends several in a row.\<close>

primrec recv_all :: "crypto_lib \<Rightarrow> ratchet_state \<Rightarrow> ratchet_message list \<Rightarrow> bytes res list" where
  "recv_all K r [] = []"
| "recv_all K r (m # ms) = (case ratchet_decrypt K r m of (r', res) \<Rightarrow> res # recv_all K r' ms)"

primrec send_all ::
  "crypto_lib \<Rightarrow> ratchet_state \<Rightarrow> (ratchet_rnd \<times> bytes) list \<Rightarrow> ratchet_message res list" where
  "send_all K a [] = []"
| "send_all K a (t # ts) = (case ratchet_encrypt K (fst t) a (snd t) of (a', res) \<Rightarrow> res # send_all K a' ts)"

lemma recv_all_rinv:
  assumes b: "unat b + n < 2 ^ 32" "n \<le> 101" and "rinv K n e b ck D pos r" "distinct is"
    "set is \<subseteq> {..<n} - D" "\<And>i. i < n \<Longrightarrow> run_msg K e b ck i (p i) (m i)"
  shows "recv_all K r (map m is) = map (\<lambda>i. Inr (p i)) is"
  using assms(3-5)
proof (induction "is" arbitrary: D pos r)
  case (Cons i "is")
  have i: "i < n" "i \<notin> D"
    using Cons.prems(3) by auto
  obtain r' where r': "ratchet_decrypt K r (m i) = (r', Inr (p i))"
      "rinv K n e b ck (insert i D) (max pos (Suc i)) r'"
    using deliver_rinv [OF b Cons.prems(1) i assms(6) [OF i(1)]] by auto
  have "recv_all K r' (map m is) = map (\<lambda>i. Inr (p i)) is"
    by (rule Cons.IH [OF r'(2)]) (use Cons.prems in auto)
  with r'(1) show ?case
    by simp
qed simp

lemma send_all_run:
  assumes "libs_ok K" "list_all (\<lambda>t. length (rr_nonce (fst t)) = 12) ts" "\<not> need_kem_step a"
  shows "\<exists>ms. send_all K a ts = map Inr ms \<and> length ms = length ts \<and>
    (\<forall>i<length ts. run_msg K (send_epoch a) (send_msg_num a) (send_chain_key a) i (snd (ts ! i)) (ms ! i))"
  using assms(2,3)
proof (induction ts arbitrary: a)
  case (Cons t ts)
  obtain ae where ae: "aes_encrypt K (rr_nonce (fst t)) (fst (chain_step K (send_chain_key a))) (snd t) [] = Inr ae"
      "aes_decrypt K (fst (chain_step K (send_chain_key a))) (nonce ae) (ciphertext ae) (tag ae) [] = Inr (snd t)"
    by (rule chain_seal [OF assms(1), of "rr_nonce (fst t)" "send_chain_key a" "snd t"]) (use Cons.prems in auto)
  let ?a = "a\<lparr>send_chain_key := snd (chain_step K (send_chain_key a)), send_msg_num := send_msg_num a + 1\<rparr>"
  let ?m = "\<lparr>rm_header = \<lparr>rh_epoch = send_epoch a, rh_msg_num = send_msg_num a, rh_prev_count = prev_send_count a,
      rh_sender_ratchet_pub = kp_pub (my_ratchet_kem a), rh_kem_ct = None\<rparr>,
      rm_nonce = nonce ae, rm_ciphertext = ciphertext ae, rm_tag = tag ae\<rparr>"
  have enc: "ratchet_encrypt K (fst t) a (snd t) = (?a, Inr ?m)"
    using ae(1) Cons.prems(2)
    by (cases "chain_step K (send_chain_key a)") (simp add: ratchet_encrypt_def kem_step_send_def Let_def)
  have shift: "ck_at K (snd (chain_step K ck)) i = ck_at K ck (Suc i)" for ck i
    by (induction i) simp_all
  obtain ms where ms: "send_all K ?a ts = map Inr ms" "length ms = length ts"
      "\<forall>i<length ts. run_msg K (send_epoch a) (send_msg_num a + 1) (snd (chain_step K (send_chain_key a))) i (snd (ts ! i)) (ms ! i)"
    using Cons.IH [of ?a] Cons.prems by auto
  have "run_msg K (send_epoch a) (send_msg_num a) (send_chain_key a) 0 (snd t) ?m"
    using ae(2) by (simp add: run_msg_def mk_at_def)
  moreover have "run_msg K (send_epoch a) (send_msg_num a) (send_chain_key a) (Suc i) p m"
    if "run_msg K (send_epoch a) (send_msg_num a + 1) (snd (chain_step K (send_chain_key a))) i p m" for i p m
    using that by (simp add: run_msg_def mk_at_def shift ac_simps del: ck_at.simps)
  ultimately have "\<forall>i<length (t # ts). run_msg K (send_epoch a) (send_msg_num a) (send_chain_key a) i (snd ((t # ts) ! i)) ((?m # ms) ! i)"
    using ms(3) by (auto simp: less_Suc_eq_0_disj)
  moreover have "send_all K a (t # ts) = map Inr (?m # ms)" "length (?m # ms) = length (t # ts)"
    using enc ms(1,2) by simp_all
  ultimately show ?case
    by blast
qed simp

lemma any_order_opened:
  assumes "libs_ok K" "synced K a b" "\<not> need_kem_step a" "list_all (\<lambda>t. length (rr_nonce (fst t)) = 12) ts"
    "length ts \<le> 101" "unat (send_msg_num a) + length ts < 2 ^ 32"
  obtains ms where "send_all K a ts = map Inr ms" "length ms = length ts"
    "\<forall>i<length ts. rh_kem_ct (rm_header (ms ! i)) = None \<and> rh_epoch (rm_header (ms ! i)) = send_epoch a"
    "\<forall>is. distinct is \<and> set is \<subseteq> {..<length ts} \<longrightarrow> recv_all K b (map ((!) ms) is) = map (\<lambda>i. Inr (snd (ts ! i))) is"
proof -
  obtain ms where ms: "send_all K a ts = map Inr ms" "length ms = length ts"
      "\<forall>i<length ts. run_msg K (send_epoch a) (send_msg_num a) (send_chain_key a) i (snd (ts ! i)) (ms ! i)"
    using send_all_run [OF assms(1,4,3)] by blast
  have "rinv K (length ts) (send_epoch a) (send_msg_num a) (send_chain_key a) {} 0 b"
    using assms(2,3) by (simp add: synced_def ready_def rinv_def)
  then have "recv_all K b (map ((!) ms) is) = map (\<lambda>i. Inr (snd (ts ! i))) is" if "distinct is" "set is \<subseteq> {..<length ts}" for "is"
    using that ms(3) by (intro recv_all_rinv [OF assms(6,5)]) auto
  with ms show ?thesis
    by (intro that) (auto simp: run_msg_def)
qed

text \<open>Messages of an epoch that the receiver has not entered are refused and change nothing, unless they open it.\<close>

abbreviation unopened :: "bytes res" where
  "unopened \<equiv> Inl (Runtime_Error ''Missing kem_ct for new ratchet epoch'')"

lemma recv_all_unopened:
  assumes "skipped_keys b = []" "\<And>m. m \<in> set ms \<Longrightarrow> rh_kem_ct (rm_header m) = None \<and> recv_epoch b < rh_epoch (rm_header m)"
  shows "recv_all K b (ms @ ms') = map (\<lambda>_. unopened) ms @ recv_all K b ms'"
  using assms(2) by (induction ms) (simp_all add: ratchet_decrypt_def assms(1) Let_def)

text \<open>Indices into the tail of a list.\<close>

lemma map_nth_tail: "0 \<notin> set is \<Longrightarrow> map (\<lambda>i. f ((x # xs) ! i)) is = map (\<lambda>i. f (xs ! i)) (map (\<lambda>i. i - 1) is)"
  by (auto simp: nth_Cons')

lemma lower_indices:
  assumes "distinct is" "0 \<notin> set is" "set is \<subseteq> {..<Suc n}"
  shows "distinct (map (\<lambda>i. i - 1) is)" "set (map (\<lambda>i. i - 1) is) \<subseteq> {..<n}"
proof -
  have pos: "i > 0" if "i \<in> set is" for i
    using that assms(2) by (metis gr0I)
  show "distinct (map (\<lambda>i. i - 1) is)"
    using assms(1) pos by (auto simp: distinct_map inj_on_def) (metis Suc_pred)
  show "set (map (\<lambda>i. i - 1) is) \<subseteq> {..<n}"
    using assms(3) pos by force
qed

lemma any_order_new_epoch:
  assumes "libs_ok K" "synced K a b" "need_kem_step a" "list_all (\<lambda>t. length (rr_nonce (fst t)) = 12) ts"
    "length ts \<le> 101" "unat (send_epoch a) + 1 < 2 ^ 32" "distinct is" "set is \<subseteq> {..<length ts}"
  shows "\<exists>ms. send_all K a ts = map Inr ms \<and> recv_all K b (map ((!) ms) is) =
    map (\<lambda>_. unopened) (takeWhile (\<lambda>i. i \<noteq> 0) is) @ map (\<lambda>i. Inr (snd (ts ! i))) (dropWhile (\<lambda>i. i \<noteq> 0) is)"
proof (cases ts)
  case (Cons t us)
  have len: "length (rr_nonce (fst t)) = 12" "list_all (\<lambda>t. length (rr_nonce (fst t)) = 12) us" "length us \<le> 101"
    using assms(4,5) Cons by simp_all
  obtain a' b' m where first: "ratchet_encrypt K (fst t) a (snd t) = (a', Inr m)" "ratchet_decrypt K b m = (b', Inr (snd t))"
      "synced K a' b'" "send_epoch a' = send_epoch a + 1" "\<not> need_kem_step a'" "send_msg_num a' = 1"
    by (rule synced_new_epoch [OF assms(1) len(1) assms(2,3,6)])
  have num: "unat (send_msg_num a') + length us < 2 ^ 32"
    using first(6) len(3) by simp
  obtain ms where ms: "send_all K a' us = map Inr ms" "length ms = length us"
      "\<forall>i<length us. rh_kem_ct (rm_header (ms ! i)) = None \<and> rh_epoch (rm_header (ms ! i)) = send_epoch a'"
      "\<forall>is. distinct is \<and> set is \<subseteq> {..<length us} \<longrightarrow> recv_all K b' (map ((!) ms) is) = map (\<lambda>i. Inr (snd (us ! i))) is"
    by (rule any_order_opened [OF assms(1) first(3,5) len(2,3) num])
  have b: "skipped_keys b = []" "recv_epoch b < send_epoch a'"
    using assms(2,6) first(4) by (simp_all add: synced_def ready_def word_less_nat_alt unat_plus_if')
  let ?early = "takeWhile (\<lambda>i. i \<noteq> 0) is" and ?late = "dropWhile (\<lambda>i. i \<noteq> 0) is" and ?ms = "m # ms"
  have "rh_kem_ct (rm_header (?ms ! i)) = None \<and> recv_epoch b < rh_epoch (rm_header (?ms ! i))" if "i \<in> set ?early" for i
  proof -
    have "i \<noteq> 0" "i < length ts"
      using that set_takeWhileD [OF that] assms(8) by auto
    then show ?thesis
      using ms(3) b(2) Cons by (cases i) auto
  qed
  then have early: "recv_all K b (map ((!) ?ms) (?early @ ?late)) = map (\<lambda>_. unopened) ?early @ recv_all K b (map ((!) ?ms) ?late)"
    unfolding map_append by (subst recv_all_unopened [OF b(1)]) (auto simp: comp_def)
  have late: "recv_all K b (map ((!) ?ms) ?late) = map (\<lambda>i. Inr (snd (ts ! i))) ?late"
  proof (cases ?late)
    case Nil
    then show ?thesis
      by (simp only: list.map recv_all.simps)
  next
    case (Cons i rest)
    then have i: "i = 0"
      using hd_dropWhile [of "\<lambda>i. i \<noteq> 0" "is"] by auto
    have rest: "distinct rest" "0 \<notin> set rest" "set rest \<subseteq> {..<length ts}"
      using Cons i assms(7,8) distinct_dropWhile [OF assms(7), of "\<lambda>i. i \<noteq> 0"] set_dropWhileD [of _ "\<lambda>i. i \<noteq> 0" "is"] by auto
    have "set rest \<subseteq> {..<Suc (length us)}"
      using rest(3) \<open>ts = t # us\<close> by simp
    from lower_indices [OF rest(1,2) this] have
      "recv_all K b' (map ((!) ms) (map (\<lambda>i. i - 1) rest)) = map (\<lambda>i. Inr (snd (us ! i))) (map (\<lambda>i. i - 1) rest)"
      using ms(4) by blast
    then have "recv_all K b' (map ((!) ?ms) rest) = map (\<lambda>i. Inr (snd ((t # us) ! i))) rest"
      unfolding map_nth_tail [OF rest(2), of "\<lambda>x. x"] map_nth_tail [OF rest(2), of "\<lambda>t. Inr (snd t)"] .
    then show ?thesis
      using first(2) Cons i \<open>ts = t # us\<close> by simp
  qed
  have "send_all K a ts = map Inr ?ms"
    using first(1) ms(1) Cons by simp
  moreover have "recv_all K b (map ((!) ?ms) is) = map (\<lambda>_. unopened) ?early @ map (\<lambda>i. Inr (snd (ts ! i))) ?late"
    using early late by (simp only: takeWhile_dropWhile_id)
  ultimately show ?thesis
    by blast
qed (use assms(8) in simp)

text \<open>
  C2. Of up to 101 messages that a party sends in one epoch, any selection may reach the peer in any
  order. When the peer is in the epoch already, every message that arrives decrypts to what was sent.
  When the first message opens the epoch by a KEM step, this holds from its arrival on, also for the
  messages it overtakes; the messages of the epoch that arrive before it are refused for want of the
  KEM ciphertext, and the refusal leaves the peer's state as it is.
\<close>

theorem any_order_within_epoch:
  assumes "libs_ok K" "synced K a b" "list_all (\<lambda>t. length (rr_nonce (fst t)) = 12) ts" "length ts \<le> 101"
    "unat (send_msg_num a) + length ts < 2 ^ 32" "unat (send_epoch a) + 1 < 2 ^ 32" "distinct is" "set is \<subseteq> {..<length ts}"
  shows "\<exists>ms. send_all K a ts = map Inr ms \<and> recv_all K b (map ((!) ms) is) =
    (if need_kem_step a
     then map (\<lambda>_. Inl (Runtime_Error ''Missing kem_ct for new ratchet epoch'')) (takeWhile (\<lambda>i. i \<noteq> 0) is) @
          map (\<lambda>i. Inr (snd (ts ! i))) (dropWhile (\<lambda>i. i \<noteq> 0) is)
     else map (\<lambda>i. Inr (snd (ts ! i))) is)"
proof (cases "need_kem_step a")
  case True
  then show ?thesis
    using any_order_new_epoch [OF assms(1,2) True assms(3,4,6-8)] by simp
next
  case False
  obtain ms where "send_all K a ts = map Inr ms"
      "\<forall>is. distinct is \<and> set is \<subseteq> {..<length ts} \<longrightarrow> recv_all K b (map ((!) ms) is) = map (\<lambda>i. Inr (snd (ts ! i))) is"
    by (rule any_order_opened [OF assms(1,2) False assms(3-5)])
  with False assms(7,8) show ?thesis
    by auto
qed

theorem any_order_within_epoch_witness:
  "\<exists>ms. send_all demo_crypto (demo_state\<lparr>need_kem_step := True\<rparr>) [(demo_rnd, [1]), (demo_rnd, [2]), (demo_rnd, [3])] = map Inr ms \<and>
     recv_all demo_crypto demo_state (map ((!) ms) [2, 0, 1]) =
       [Inl (Runtime_Error ''Missing kem_ct for new ratchet epoch''), Inr [1], Inr [2]]"
proof -
  have "synced demo_crypto (demo_state\<lparr>need_kem_step := True\<rparr>) demo_state" "unat (send_msg_num demo_state) = 0" "unat (send_epoch demo_state) = 0"
    by (simp_all add: synced_def ready_def demo_state_def)
  then show ?thesis
    using any_order_within_epoch [of demo_crypto "demo_state\<lparr>need_kem_step := True\<rparr>" demo_state
        "[(demo_rnd, [1]), (demo_rnd, [2]), (demo_rnd, [3])]" "[2, 0, 1]"]
    by (simp add: demo_rnd_def)
qed

subsection \<open>Stale messages\<close>

text \<open>
  A message of the current epoch whose number has already passed and whose key is not
  kept, a replay for instance, is not refused: whether it authenticates or not, it uses up the
  key of the message that is due, so that message is then tried with the key after its own.
\<close>

theorem stale_message_consumes_key:
  assumes "rh_epoch (rm_header m) = recv_epoch r" "rh_msg_num (rm_header m) \<le> recv_msg_num r"
    "map_of (skipped_keys r) (skip_key (recv_epoch r) (rh_msg_num (rm_header m))) = None"
    "rh_epoch (rm_header m2) = recv_epoch r" "rh_msg_num (rm_header m2) = recv_msg_num r"
    "map_of (skipped_keys r) (skip_key (recv_epoch r) (recv_msg_num r)) = None" "recv_msg_num r < 0xFFFFFFFF"
  shows "fst (ratchet_decrypt K r m) = r\<lparr>recv_chain_key := ck_at K (recv_chain_key r) 1,
      recv_msg_num := recv_msg_num r + 1\<rparr> \<and>
    snd (ratchet_decrypt K (fst (ratchet_decrypt K r m)) m2) =
      aes_decrypt K (mk_at K (recv_chain_key r) 1) (rm_nonce m2) (rm_ciphertext m2) (rm_tag m2) []"
proof -
  let ?r = "r\<lparr>recv_chain_key := ck_at K (recv_chain_key r) 1, recv_msg_num := recv_msg_num r + 1\<rparr>"
  have "chain_step K (recv_chain_key r) = (mk_at K (recv_chain_key r) 0, ck_at K (recv_chain_key r) 1)"
    by (simp add: mk_at_def)
  then have first: "fst (ratchet_decrypt K r m) = ?r"
    using assms(1-3) by (simp add: ratchet_decrypt_def decrypt_current_def Let_def not_less del: ck_at.simps)
  have "\<not> recv_msg_num r + 1 < recv_msg_num r"
    using unat_inc [OF assms(7)] by (simp add: word_less_nat_alt)
  then have "snd (ratchet_decrypt K ?r m2) =
      aes_decrypt K (mk_at K (recv_chain_key r) 1) (rm_nonce m2) (rm_ciphertext m2) (rm_tag m2) []"
    using assms(4-6) by (simp add: ratchet_decrypt_def decrypt_current_def Let_def mk_at_def split: prod.split)
  with first show ?thesis
    by simp
qed

theorem stale_message_consumes_key_witness:
  "fst (ratchet_decrypt demo_crypto demo_state (demo_msg\<lparr>rm_header := (rm_header demo_msg)\<lparr>rh_msg_num := 0\<rparr>\<rparr>)) =
     demo_state\<lparr>recv_chain_key := ck_at demo_crypto (zeros 32) 1, recv_msg_num := 1\<rparr>"
  using stale_message_consumes_key [of "demo_msg\<lparr>rm_header := (rm_header demo_msg)\<lparr>rh_msg_num := 0\<rparr>\<rparr>" demo_state
      "demo_msg\<lparr>rm_header := (rm_header demo_msg)\<lparr>rh_msg_num := 0\<rparr>\<rparr>" demo_crypto]
  by (simp add: demo_state_def demo_msg_def)

end
