(* ===== verification/Ratchet_Manager.thy ===== *)
theory Ratchet_Manager
  imports Keystore Ratchet_Session
begin

text \<open>
  The client's ratchet manager (\<^verbatim>\<open>client/src/ratchet_manager.hpp\<close>, \<^verbatim>\<open>ratchet_manager.cpp\<close>): one
  ratchet state per conversation, held in a cache and written to the keystore after every step.
  A step works on the cached state by reference: when it throws, what it changed stays in the
  cache and is not written.
\<close>

record ratchet_mgr =
  rg_ks :: keystore
  rg_cache :: "(string \<times> ratchet_state) list"

text \<open>What a call brings along: the clock of the keystore row and whether an empty vector has a null pointer.\<close>

definition persist :: "cbor_lib \<Rightarrow> bool \<Rightarrow> int \<Rightarrow> ratchet_mgr \<Rightarrow> string \<Rightarrow> ratchet_state \<Rightarrow> ratchet_mgr" where
  "persist C en now s conv st = s\<lparr>rg_ks := set_ratchet_state en now (rg_ks s) conv (ratchet_serialize C st)\<rparr>"

definition load :: "cbor_lib \<Rightarrow> ratchet_mgr \<Rightarrow> string \<Rightarrow> ratchet_mgr \<times> ratchet_state res" where
  "load C s conv =
     (case map_of (rg_cache s) conv of
        Some st \<Rightarrow> (s, Inr st)
      | None \<Rightarrow>
          let data = get_ratchet_state (rg_ks s) conv in
          if data = [] then (s, Inl (Runtime_Error (''no ratchet state for conversation: '' @ conv)))
          else case ratchet_deserialize C data of
                 Inl e \<Rightarrow> (s, Inl e)
               | Inr st \<Rightarrow> (s\<lparr>rg_cache := AList.update conv st (rg_cache s)\<rparr>, Inr st))"

definition has_state :: "ratchet_mgr \<Rightarrow> string \<Rightarrow> bool" where
  "has_state s conv \<longleftrightarrow> map_of (rg_cache s) conv \<noteq> None \<or> has_ratchet_state (rg_ks s) conv"

text \<open>\<^verbatim>\<open>cache_[conv_id] = st; persist(conv_id, st)\<close>.\<close>

definition put_state :: "cbor_lib \<Rightarrow> bool \<Rightarrow> int \<Rightarrow> ratchet_mgr \<Rightarrow> string \<Rightarrow> ratchet_state \<Rightarrow> ratchet_mgr" where
  "put_state C en now s conv st = persist C en now (s\<lparr>rg_cache := AList.update conv st (rg_cache s)\<rparr>) conv st"

definition mgr_init_as_sender ::
  "crypto_lib \<Rightarrow> cbor_lib \<Rightarrow> bool \<Rightarrow> int \<Rightarrow> ratchet_rnd \<Rightarrow> ratchet_mgr \<Rightarrow> string \<Rightarrow> bytes \<Rightarrow> bytes \<Rightarrow> bytes \<Rightarrow> ratchet_mgr \<times> bytes res" where
  "mgr_init_as_sender K C en now rn s conv peer_prekey_pub my_key_b_pub peer_key_b_pub =
     (case init_as_sender K (rr_kem rn) (rr_key rn) peer_prekey_pub my_key_b_pub peer_key_b_pub of
        Inl e \<Rightarrow> (s, Inl e)
      | Inr r \<Rightarrow> (put_state C en now s conv (ir_state r), Inr (ir_prekey_ct r)))"

definition mgr_init_as_receiver ::
  "crypto_lib \<Rightarrow> cbor_lib \<Rightarrow> bool \<Rightarrow> int \<Rightarrow> ratchet_rnd \<Rightarrow> ratchet_mgr \<Rightarrow> string \<Rightarrow> bytes \<Rightarrow> bytes \<Rightarrow> bytes \<Rightarrow> bytes \<Rightarrow> bytes
     \<Rightarrow> ratchet_mgr \<times> unit res" where
  "mgr_init_as_receiver K C en now rn s conv my_prekey_priv prekey_ct sender_key_b_pub my_key_b_pub sender_ratchet_pub =
     (case init_as_receiver K (rr_key rn) my_prekey_priv prekey_ct sender_key_b_pub my_key_b_pub sender_ratchet_pub of
        Inl e \<Rightarrow> (s, Inl e)
      | Inr st \<Rightarrow> (put_state C en now s conv st, Inr ()))"

text \<open>The common shape of \<^verbatim>\<open>encrypt\<close> and \<^verbatim>\<open>decrypt\<close>: a step on the state the cache holds.\<close>

definition with_state ::
  "cbor_lib \<Rightarrow> bool \<Rightarrow> int \<Rightarrow> ratchet_mgr \<Rightarrow> string \<Rightarrow> (ratchet_state \<Rightarrow> ratchet_state \<times> 'a res) \<Rightarrow> ratchet_mgr \<times> 'a res" where
  "with_state C en now s conv step =
     (case load C s conv of
        (s1, Inl e) \<Rightarrow> (s1, Inl e)
      | (s1, Inr st) \<Rightarrow>
          (case step st of
             (st', Inl e) \<Rightarrow> (s1\<lparr>rg_cache := AList.update conv st' (rg_cache s1)\<rparr>, Inl e)
           | (st', Inr x) \<Rightarrow> (put_state C en now s1 conv st', Inr x)))"

definition mgr_encrypt ::
  "crypto_lib \<Rightarrow> cbor_lib \<Rightarrow> bool \<Rightarrow> int \<Rightarrow> ratchet_rnd \<Rightarrow> ratchet_mgr \<Rightarrow> string \<Rightarrow> bytes \<Rightarrow> ratchet_mgr \<times> ratchet_message res" where
  "mgr_encrypt K C en now rn s conv plaintext = with_state C en now s conv (\<lambda>st. ratchet_encrypt K rn st plaintext)"

definition mgr_decrypt ::
  "crypto_lib \<Rightarrow> cbor_lib \<Rightarrow> bool \<Rightarrow> int \<Rightarrow> ratchet_mgr \<Rightarrow> string \<Rightarrow> ratchet_message \<Rightarrow> ratchet_mgr \<times> bytes res" where
  "mgr_decrypt K C en now s conv msg = with_state C en now s conv (\<lambda>st. ratchet_decrypt K st msg)"

subsection \<open>The keystore as a store of blobs\<close>

locale blob_store =
  fixes ready :: "'s \<Rightarrow> bool" and get :: "'s \<Rightarrow> string \<Rightarrow> bytes" and put :: "int \<Rightarrow> 's \<Rightarrow> string \<Rightarrow> bytes \<Rightarrow> 's"
  assumes put_ready: "ready s \<Longrightarrow> ready (put now s k v)"
    and get_put: "ready s \<Longrightarrow> v \<noteq> [] \<Longrightarrow> get (put now s k v) k' = (if c_str k' = c_str k then v else get s k')"
begin

lemma get_put_same: "ready s \<Longrightarrow> v \<noteq> [] \<Longrightarrow> get (put now s k v) k = v"
  by (simp add: get_put)

lemma get_put_other: "ready s \<Longrightarrow> v \<noteq> [] \<Longrightarrow> no_nul k \<Longrightarrow> no_nul k' \<Longrightarrow> k' \<noteq> k \<Longrightarrow> get (put now s k v) k' = get s k'"
  by (simp add: get_put)

end

definition ks_open :: "keystore \<Rightarrow> bool" where
  "ks_open s \<longleftrightarrow> (case ks_db s of Open d \<Rightarrow> True | _ \<Rightarrow> False)"

lemma map_of_filter_fst: "map_of (filter (\<lambda>r. fst r \<noteq> k) t) k' = (if k' = k then None else map_of t k')"
  by (induction t) auto

lemma map_of_sql_replace: "map_of (sql_replace fst (k, v) t) k' = (if k' = k then Some v else map_of t k')"
  by (auto simp: sql_replace_def map_of_filter_fst map_add_def split: option.split)

interpretation ratchet_blobs: blob_store ks_open get_ratchet_state "set_ratchet_state en"
proof
  fix s :: keystore and now :: int and k k' :: string and v :: bytes
  show "ks_open s \<Longrightarrow> ks_open (set_ratchet_state en now s k v)"
    by (auto simp: ks_open_def set_ratchet_state_def on_db_def split: handle.splits)
  show "ks_open s \<Longrightarrow> v \<noteq> [] \<Longrightarrow>
      get_ratchet_state (set_ratchet_state en now s k v) k' = (if c_str k' = c_str k then v else get_ratchet_state s k')"
    by (auto simp: ks_open_def set_ratchet_state_def get_ratchet_state_def on_db_def query_db_def null_blob_def
        map_of_sql_replace split: handle.splits)
qed

subsection \<open>What the manager promises\<close>

text \<open>The state of a conversation as the next operation finds it.\<close>

definition view :: "cbor_lib \<Rightarrow> ratchet_mgr \<Rightarrow> string \<Rightarrow> ratchet_state option" where
  "view C s conv =
     (case map_of (rg_cache s) conv of
        Some st \<Rightarrow> Some st
      | None \<Rightarrow>
          let data = get_ratchet_state (rg_ks s) conv in
          if data = [] then None else case ratchet_deserialize C data of Inl _ \<Rightarrow> None | Inr st \<Rightarrow> Some st)"

text \<open>The specification: a map from conversations to states, and a step that changes one of them.\<close>

definition spec_step ::
  "(string \<Rightarrow> ratchet_state option) \<Rightarrow> string \<Rightarrow> (ratchet_state \<Rightarrow> ratchet_state \<times> 'a res)
     \<Rightarrow> (string \<Rightarrow> ratchet_state option) \<times> 'a res option" where
  "spec_step m conv step =
     (case m conv of
        None \<Rightarrow> (m, None)
      | Some st \<Rightarrow> (case step st of (st', r) \<Rightarrow> (m(conv \<mapsto> st'), Some r)))"

definition refines :: "cbor_lib \<Rightarrow> ratchet_mgr \<times> 'a res \<Rightarrow> (string \<Rightarrow> ratchet_state option) \<times> 'a res option \<Rightarrow> bool" where
  "refines C sr mr \<longleftrightarrow> (\<forall>c. no_nul c \<longrightarrow> view C (fst sr) c = fst mr c) \<and>
     (case snd mr of Some r \<Rightarrow> snd sr = r | None \<Rightarrow> \<exists>e. snd sr = Inl e)"

lemma get_set_other:
  "c_str k' \<noteq> c_str k \<Longrightarrow> get_ratchet_state (set_ratchet_state en now s k v) k' = get_ratchet_state s k'"
  by (auto simp: set_ratchet_state_def get_ratchet_state_def on_db_def query_db_def map_of_sql_replace split: handle.splits)

lemma view_put_state:
  assumes "no_nul c" "no_nul conv"
  shows "view C (put_state C en now s conv st) c = (if c = conv then Some st else view C s c)"
  using assms by (auto simp: view_def put_state_def persist_def update_conv get_set_other split: option.split)

lemma view_cache_update: "view C (s\<lparr>rg_cache := AList.update conv st (rg_cache s)\<rparr>) c = (if c = conv then Some st else view C s c)"
  by (auto simp: view_def update_conv split: option.split)

lemma load_view:
  "load C s conv = (s1, r) \<Longrightarrow> view C s1 c = view C s c \<and> (case view C s conv of Some st \<Rightarrow> r = Inr st | None \<Rightarrow> \<exists>e. r = Inl e)"
  by (auto simp: load_def view_def Let_def update_conv split: option.splits if_splits sum.splits)

lemma with_state_refines:
  assumes "no_nul conv"
  shows "refines C (with_state C en now s conv step) (spec_step (view C s) conv step)"
proof -
  obtain s1 r where l: "load C s conv = (s1, r)"
    by fastforce
  note v = load_view [OF l]
  show ?thesis
  proof (cases "view C s conv")
    case None
    then obtain e where "r = Inl e"
      using v by auto
    then show ?thesis
      using None l v by (simp add: refines_def with_state_def spec_step_def)
  next
    case (Some st)
    then have "r = Inr st"
      using v by simp
    moreover obtain st' x where "step st = (st', x)"
      by fastforce
    ultimately show ?thesis
      using Some l v assms
      by (cases x) (auto simp: refines_def with_state_def spec_step_def view_put_state view_cache_update)
  qed
qed

text \<open>
  C11. The manager refines a plain map from conversations to ratchet states: encrypting and
  decrypting return what the ratchet returns for the conversation's state, replace that state
  by the ratchet's, also when the ratchet throws, and leave every other conversation alone; a
  conversation without a state is refused. The cache and the rows of the keystore are not
  visible.
\<close>

theorem ratchet_manager_refines:
  assumes "no_nul conv"
  shows "refines C (mgr_encrypt K C en now rn s conv pt) (spec_step (view C s) conv (\<lambda>st. ratchet_encrypt K rn st pt)) \<and>
    refines C (mgr_decrypt K C en now s conv msg) (spec_step (view C s) conv (\<lambda>st. ratchet_decrypt K st msg))"
  unfolding mgr_encrypt_def mgr_decrypt_def by (intro conjI with_state_refines [OF assms])

definition demo_keystore :: keystore where
  "demo_keystore = keystore_new\<lparr>ks_db := Open keydb_new, ks_have_master_key := True\<rparr>"

definition demo_mgr :: ratchet_mgr where
  "demo_mgr = \<lparr>rg_ks = demo_keystore, rg_cache = [(''c1'', demo_state)]\<rparr>"

theorem ratchet_manager_refines_witness:
  "\<exists>st r. spec_step (view wire_cbor demo_mgr) ''c1'' (\<lambda>st. ratchet_encrypt demo_crypto demo_rnd st [1])
      = ((view wire_cbor demo_mgr)(''c1'' \<mapsto> st), Some r)
    \<and> snd (mgr_encrypt demo_crypto wire_cbor True 0 demo_rnd demo_mgr ''c1'' [1]) = r
    \<and> view wire_cbor (fst (mgr_encrypt demo_crypto wire_cbor True 0 demo_rnd demo_mgr ''c1'' [1])) ''c1'' = Some st"
proof -
  obtain st r where "ratchet_encrypt demo_crypto demo_rnd demo_state [1] = (st, r)"
    by fastforce
  then have "spec_step (view wire_cbor demo_mgr) ''c1'' (\<lambda>st. ratchet_encrypt demo_crypto demo_rnd st [1])
      = ((view wire_cbor demo_mgr)(''c1'' \<mapsto> st), Some r)"
    by (simp add: spec_step_def view_def demo_mgr_def)
  moreover from this ratchet_manager_refines [of "''c1''" wire_cbor demo_crypto True 0 demo_rnd demo_mgr "[1]" demo_msg]
  have "snd (mgr_encrypt demo_crypto wire_cbor True 0 demo_rnd demo_mgr ''c1'' [1]) = r"
    "view wire_cbor (fst (mgr_encrypt demo_crypto wire_cbor True 0 demo_rnd demo_mgr ''c1'' [1])) ''c1'' = Some st"
    by (simp_all add: refines_def no_nul_def)
  ultimately show ?thesis
    by blast
qed

subsection \<open>Restarts\<close>

text \<open>A new process starts with an empty cache.\<close>

definition restart :: "ratchet_mgr \<Rightarrow> ratchet_mgr" where
  "restart s = s\<lparr>rg_cache := []\<rparr>"

lemma serialize_nonempty:
  assumes "cbor_ok C" "state_sizes st"
  shows "ratchet_serialize C st \<noteq> []"
proof
  assume "ratchet_serialize C st = []"
  then have "ratchet_deserialize C (ratchet_serialize C st) = Inl (Runtime_Error ''ratchet::deserialize: CBOR parse error'')"
    using cbor_load_Nil [OF assms(1)] by (simp add: ratchet_deserialize_def)
  then show False
    using reload_state [OF assms] by simp
qed

lemma restart_put_state:
  assumes "cbor_ok C" "state_sizes st" "ks_open (rg_ks s)"
  shows "view C (restart (put_state C en now s conv st)) conv = Some (st\<lparr>skipped_keys := []\<rparr>)"
  using serialize_nonempty [OF assms(1,2)] reload_state [OF assms(1,2)] ratchet_blobs.get_put_same [OF assms(3), of "ratchet_serialize C st" en now conv]
  by (simp add: view_def restart_def put_state_def persist_def)

text \<open>
  What a restart forgets: after an encryption that succeeded with the keystore open, a new
  process finds the state the encryption left, without its skipped message keys.
\<close>

theorem encrypt_survives_restart:
  assumes "cbor_ok C" "ks_open (rg_ks s)" "view C s conv = Some st"
    and "ratchet_encrypt K rn st pt = (st', Inr m)" "state_sizes st'"
  shows "\<exists>s'. mgr_encrypt K C en now rn s conv pt = (s', Inr m) \<and> view C (restart s') conv = Some (st'\<lparr>skipped_keys := []\<rparr>)"
proof -
  obtain s1 r where l: "load C s conv = (s1, r)"
    by fastforce
  then have "r = Inr st"
    using load_view [OF l] assms(3) by simp
  moreover have "rg_ks s1 = rg_ks s"
    using l by (auto simp: load_def Let_def split: option.splits if_splits sum.splits)
  ultimately show ?thesis
    using l assms(4) restart_put_state [OF assms(1,5), of s1 en now conv] assms(2)
    by (simp add: mgr_encrypt_def with_state_def)
qed

lemma demo_encrypts: "\<exists>st m. ratchet_encrypt demo_crypto demo_rnd demo_state [1] = (st, Inr m) \<and> state_sizes st"
  by (auto simp: ratchet_encrypt_def kem_step_send_def demo_state_def chain_step_def kdf_def shake256_32_parts_def shake256_parts_def
      aes_encrypt_def demo_crypto_def demo_rnd_def mlkem_encapsulate_def mlkem_keygen_def state_sizes_def size_defs Let_def)

theorem encrypt_survives_restart_witness:
  "\<exists>st s' m. ratchet_encrypt demo_crypto demo_rnd demo_state [1] = (st, Inr m)
    \<and> mgr_encrypt demo_crypto wire_cbor True 0 demo_rnd demo_mgr ''c1'' [1] = (s', Inr m)
    \<and> view wire_cbor (restart s') ''c1'' = Some (st\<lparr>skipped_keys := []\<rparr>)"
proof -
  obtain st m where e: "ratchet_encrypt demo_crypto demo_rnd demo_state [1] = (st, Inr m)" "state_sizes st"
    using demo_encrypts by blast
  have "ks_open (rg_ks demo_mgr)" "view wire_cbor demo_mgr ''c1'' = Some demo_state"
    by (simp_all add: demo_mgr_def demo_keystore_def ks_open_def view_def)
  from encrypt_survives_restart [OF wire_cbor_ok this e] e(1) show ?thesis
    by blast
qed

end
