(* ===== verification/Client_Base.thy ===== *)
theory Client_Base
  imports Daemon Std_String Client_Store Client_Cert Client_Dht Ratchet_Manager
begin

text \<open>
  The state of the client process (\<^verbatim>\<open>client/src/client.hpp\<close>), its configuration
  (\<^verbatim>\<open>client/src/config.cpp\<close>), and the actions its operations are built from. An action is a
  function from a state to a state and a result or an exception; an exception keeps the state
  changes made before it. What comes from outside is the environment of an operation: the
  libraries, the clock, the \<open>n\<close>-th draw of randomness, the answers of the three daemons, the
  contents of memory the program reads without having written it.
\<close>

subsection \<open>Configuration\<close>

record config =
  cf_keystore_path :: string
  cf_keystore_salt :: string
  cf_messages_db_path :: string
  cf_client_sock :: string
  cf_anonrouter_sock :: string
  cf_inbox_sock :: string
  cf_outbox_sock :: string
  cf_key_c_renewal_threshold_days :: int
  cf_prekey_low_threshold :: int
  cf_prekey_batch_size :: int

definition default_config :: config where
  "default_config = \<lparr>cf_keystore_path = ''keystore.dat'', cf_keystore_salt = ''keystore.salt'',
     cf_messages_db_path = ''messages.db'', cf_client_sock = ''/run/scatterweb/client.sock'',
     cf_anonrouter_sock = ''/run/anonrouter/daemon.sock'', cf_inbox_sock = ''/run/scatterweb/inbox.sock'',
     cf_outbox_sock = ''/run/scatterweb/outbox.sock'', cf_key_c_renewal_threshold_days = 7,
     cf_prekey_low_threshold = 5, cf_prekey_batch_size = 20\<rparr>"

definition blank :: "char \<Rightarrow> bool" where
  "blank c \<longleftrightarrow> c \<in> {CHR '' '', CHR 0x09, CHR 0x0D, CHR 0x0A}"

definition trim :: "string \<Rightarrow> string" where
  "trim s = rev (dropWhile blank (rev (dropWhile blank s)))"

definition upto_char :: "char \<Rightarrow> string \<Rightarrow> string" where
  "upto_char c s = takeWhile (\<lambda>x. x \<noteq> c) s"

definition config_line :: "config \<Rightarrow> string \<Rightarrow> config" where
  "config_line cf line =
     (if line = [] \<or> hd line = CHR ''#'' \<or> CHR ''='' \<notin> set line then cf
      else let key = trim (upto_char CHR ''='' line);
               val0 = trim (drop (Suc (length (upto_char CHR ''='' line))) line);
               val = (if CHR ''#'' \<in> set val0 then trim (upto_char CHR ''#'' val0) else val0)
           in if key = ''keystore_path'' then cf\<lparr>cf_keystore_path := val\<rparr>
              else if key = ''keystore_salt'' then cf\<lparr>cf_keystore_salt := val\<rparr>
              else if key = ''messages_db_path'' then cf\<lparr>cf_messages_db_path := val\<rparr>
              else if key = ''client_sock'' then cf\<lparr>cf_client_sock := val\<rparr>
              else if key = ''anonrouter_sock'' then cf\<lparr>cf_anonrouter_sock := val\<rparr>
              else if key = ''inbox_sock'' then cf\<lparr>cf_inbox_sock := val\<rparr>
              else if key = ''outbox_sock'' then cf\<lparr>cf_outbox_sock := val\<rparr>
              else cf)"

text \<open>The lines of the file, or none when it cannot be opened.\<close>

definition load_config :: "string \<Rightarrow> string list option \<Rightarrow> config res" where
  "load_config path f =
     (case f of
        None \<Rightarrow> Inl (Runtime_Error (''cannot open config: '' @ path))
      | Some ls \<Rightarrow> Inr (foldl config_line default_config ls))"

subsection \<open>State and environment\<close>

datatype service = Router_Svc | Inbox_Svc | Outbox_Svc

record client =
  cl_cfg :: config
  cl_mgr :: ratchet_mgr
  cl_store :: message_store
  cl_up :: "service \<Rightarrow> bool"
  cl_running :: bool
  cl_bg_active :: bool
  cl_last_slot :: u64
  cl_calls :: "(service \<times> string \<times> cmap) list"
  cl_pushes :: "(string \<times> cmap) list"
  cl_draws :: nat
  cl_killed :: bool

record cl_env =
  ce_crypto :: crypto_lib
  ce_cbor :: cbor_lib
  ce_b64 :: b64_lib
  ce_sqlite :: sqlite_lib
  ce_reload :: "bytes \<Rightarrow> cbor outcome"
  ce_behind :: memory
  ce_pairs :: "cbor \<Rightarrow> (cbor \<times> cbor) list"
  ce_null_data :: bool
  ce_uninit :: "nat \<Rightarrow> bytes"
  ce_uninit_int :: int
  ce_now_s :: int
  ce_now_ms :: int
  ce_timeslot :: u64
  ce_random :: "nat \<Rightarrow> nat \<Rightarrow> bytes"
  ce_connect :: "service \<Rightarrow> unit res"
  ce_ans :: "service \<Rightarrow> nat \<Rightarrow> string \<Rightarrow> cmap \<Rightarrow> cmap res"

definition keystore :: "client \<Rightarrow> keystore" where
  "keystore s = rg_ks (cl_mgr s)"

subsection \<open>Actions\<close>

type_synonym 'a act = "client \<Rightarrow> client \<times> 'a res"

definition ret :: "'a \<Rightarrow> 'a act" where
  "ret x s = (s, Inr x)"

definition throw :: "string \<Rightarrow> 'a act" where
  "throw m s = (s, Inl (Runtime_Error m))"

definition lift :: "'a res \<Rightarrow> 'a act" where
  "lift r s = (s, r)"

text \<open>A call that may end the process: \<open>cl_killed\<close>, and nothing catches it.\<close>

definition lift_outcome :: "'a res outcome \<Rightarrow> 'a act" where
  "lift_outcome r s = (case r of Returns x \<Rightarrow> (s, x) | Terminates \<Rightarrow> (s\<lparr>cl_killed := True\<rparr>, Inl (Runtime_Error [])))"

definition bnd :: "'a act \<Rightarrow> ('a \<Rightarrow> 'b act) \<Rightarrow> 'b act" where
  "bnd m f s = (case m s of (s', Inl e) \<Rightarrow> (s', Inl e) | (s', Inr x) \<Rightarrow> f x s')"

definition asks :: "(client \<Rightarrow> 'a) \<Rightarrow> 'a act" where
  "asks f s = (s, Inr (f s))"

definition upd :: "(client \<Rightarrow> client) \<Rightarrow> unit act" where
  "upd f s = (f s, Inr ())"

definition cond_act :: "bool \<Rightarrow> unit act \<Rightarrow> unit act" where
  "cond_act b m = (if b then m else ret ())"

text \<open>\<^verbatim>\<open>try { m } catch (...) {}\<close>: the result, or none when \<open>m\<close> threw. The end of the process is not caught.\<close>

definition attempt :: "'a act \<Rightarrow> 'a option act" where
  "attempt m s = (case m s of
     (s', Inl e) \<Rightarrow> if cl_killed s' \<and> \<not> cl_killed s then (s', Inl e) else (s', Inr None)
   | (s', Inr x) \<Rightarrow> (s', Inr (Some x)))"

definition quietly :: "'a act \<Rightarrow> unit act" where
  "quietly m = bnd (attempt m) (\<lambda>_. ret ())"

primrec for_each :: "'a list \<Rightarrow> ('a \<Rightarrow> unit act) \<Rightarrow> unit act" where
  "for_each [] f = ret ()"
| "for_each (x # xs) f = bnd (f x) (\<lambda>_. for_each xs f)"

definition upd_ks :: "(keystore \<Rightarrow> keystore) \<Rightarrow> unit act" where
  "upd_ks f = upd (\<lambda>s. s\<lparr>cl_mgr := (cl_mgr s)\<lparr>rg_ks := f (keystore s)\<rparr>\<rparr>)"

definition with_ks :: "(keystore \<Rightarrow> keystore \<times> 'a res) \<Rightarrow> 'a act" where
  "with_ks f s = (case f (keystore s) of (k, r) \<Rightarrow> (s\<lparr>cl_mgr := (cl_mgr s)\<lparr>rg_ks := k\<rparr>\<rparr>, r))"

definition with_mgr :: "(ratchet_mgr \<Rightarrow> ratchet_mgr \<times> 'a res) \<Rightarrow> 'a act" where
  "with_mgr f s = (case f (cl_mgr s) of (g, r) \<Rightarrow> (s\<lparr>cl_mgr := g\<rparr>, r))"

definition upd_store :: "(message_store \<Rightarrow> message_store) \<Rightarrow> unit act" where
  "upd_store f = upd (\<lambda>s. s\<lparr>cl_store := f (cl_store s)\<rparr>)"

definition with_store :: "(message_store \<Rightarrow> message_store \<times> 'a res) \<Rightarrow> 'a act" where
  "with_store f s = (case f (cl_store s) of (d, r) \<Rightarrow> (s\<lparr>cl_store := d\<rparr>, r))"

text \<open>A statement that may throw, without a result.\<close>

definition try_store :: "(message_store \<Rightarrow> message_store res) \<Rightarrow> unit act" where
  "try_store f s = (case f (cl_store s) of Inl e \<Rightarrow> (s, Inl e) | Inr d \<Rightarrow> (s\<lparr>cl_store := d\<rparr>, Inr ()))"

definition draw :: "cl_env \<Rightarrow> nat \<Rightarrow> bytes act" where
  "draw E n s = (s\<lparr>cl_draws := Suc (cl_draws s)\<rparr>, Inr (ce_random E (cl_draws s) n))"

definition is_up :: "service \<Rightarrow> bool act" where
  "is_up v = asks (\<lambda>s. cl_up s v)"

definition connect :: "cl_env \<Rightarrow> service \<Rightarrow> unit act" where
  "connect E v s = (case ce_connect E v of Inl e \<Rightarrow> (s, Inl e) | Inr _ \<Rightarrow> (s\<lparr>cl_up := (cl_up s)(v := True)\<rparr>, Inr ()))"

definition disconnect_all :: "client \<Rightarrow> client" where
  "disconnect_all s = s\<lparr>cl_up := (\<lambda>_. False)\<rparr>"

definition call :: "cl_env \<Rightarrow> service \<Rightarrow> string \<Rightarrow> cmap \<Rightarrow> cmap act" where
  "call E v m p s =
     (if cl_up s v then (s\<lparr>cl_calls := cl_calls s @ [(v, m, p)]\<rparr>, ce_ans E v (length (cl_calls s)) m p)
      else (s, Inl (Runtime_Error (''IPC client not connected: '' @ m))))"

definition push :: "string \<Rightarrow> (string \<times> cval) list \<Rightarrow> unit act" where
  "push ev kvs = upd (\<lambda>s. s\<lparr>cl_pushes := cl_pushes s @ [(ev, cmap_of kvs)]\<rparr>)"

lemmas act_defs = ret_def throw_def lift_def lift_outcome_def bnd_def asks_def upd_def attempt_def upd_ks_def with_ks_def with_mgr_def
  upd_store_def with_store_def try_store_def draw_def is_up_def connect_def call_def push_def

subsection \<open>Invariants of actions\<close>

text \<open>The states an action leads to, also when it throws.\<close>

definition keeps :: "(client \<Rightarrow> bool) \<Rightarrow> 'a act \<Rightarrow> bool" where
  "keeps P m \<longleftrightarrow> (\<forall>s. P s \<longrightarrow> P (fst (m s)))"

named_theorems keeps_intros \<open>actions keep an invariant\<close>

lemma keepsD: "keeps P m \<Longrightarrow> P s \<Longrightarrow> m s = (s', r) \<Longrightarrow> P s'"
  unfolding keeps_def by (metis fst_conv)

lemma keeps_pure [keeps_intros]: "keeps P (ret x)" "keeps P (throw e)" "keeps P (lift r)" "keeps P (asks f)" "keeps P (is_up v)"
  by (simp_all add: keeps_def act_defs)

lemma keeps_bnd [keeps_intros]:
  assumes "keeps P m" "\<And>x. keeps P (f x)"
  shows "keeps P (bnd m f)"
  unfolding keeps_def
proof (intro allI impI)
  fix s
  assume "P s"
  obtain s' r where m: "m s = (s', r)"
    by fastforce
  then have "P s'"
    using assms(1) \<open>P s\<close> by (auto dest: keepsD)
  then show "P (fst (bnd m f s))"
    using m assms(2) by (cases r) (auto simp: bnd_def keeps_def)
qed

lemma keeps_attempt [keeps_intros]: "keeps P m \<Longrightarrow> keeps P (attempt m)"
  by (auto simp: keeps_def attempt_def split: prod.split sum.split)

lemma keeps_quietly [keeps_intros]: "keeps P m \<Longrightarrow> keeps P (quietly m)"
  by (auto simp: quietly_def intro: keeps_intros)

lemma keeps_if [keeps_intros]: "(b \<Longrightarrow> keeps P m) \<Longrightarrow> (\<not> b \<Longrightarrow> keeps P m') \<Longrightarrow> keeps P (if b then m else m')"
  by simp

lemma keeps_cond_act [keeps_intros]: "(b \<Longrightarrow> keeps P m) \<Longrightarrow> keeps P (cond_act b m)"
  by (auto simp: cond_act_def intro: keeps_intros)

lemma keeps_for_each [keeps_intros]: "(\<And>x. keeps P (f x)) \<Longrightarrow> keeps P (for_each xs f)"
  by (induction xs) (auto intro: keeps_intros)

lemma keeps_option [keeps_intros]: "keeps P m \<Longrightarrow> (\<And>x. keeps P (f x)) \<Longrightarrow> keeps P (case z of None \<Rightarrow> m | Some x \<Rightarrow> f x)"
  by (cases z) simp_all

end
