(* ===== verification/Configs.thy ===== *)
theory Configs
  imports Router_Run Inbox Outbox Client_Base
begin

text \<open>
  The configuration files of the router, the inbox and the outbox (\<^verbatim>\<open>anonrouter/src/config.hpp\<close>,
  \<^verbatim>\<open>inbox/src/config.hpp\<close>, \<^verbatim>\<open>outbox/src/config.hpp\<close>): flat \<^verbatim>\<open>key = value\<close> lines. The client's parser is in
  \<^verbatim>\<open>Client_Base\<close>. A double is its 64-bit pattern, and \<^verbatim>\<open>std::stod\<close> the argument \<open>sd\<close>.
\<close>

subsection \<open>Lines\<close>

definition blank3 :: "char \<Rightarrow> bool" where
  "blank3 c \<longleftrightarrow> c \<in> {CHR '' '', CHR 0x09, CHR 0x0D}"

definition trim3 :: "string \<Rightarrow> string" where
  "trim3 s = rev (dropWhile blank3 (rev (dropWhile blank3 s)))"

text \<open>Key and value of a line, or none when the line is skipped.\<close>

definition key_value :: "string \<Rightarrow> (string \<times> string) option" where
  "key_value line =
     (if line = [] \<or> hd line = CHR ''#'' \<or> hd line = CHR ''['' \<or> CHR ''='' \<notin> set line then None
      else let key = trim3 (upto_char CHR ''='' line);
               val0 = trim3 (drop (Suc (length (upto_char CHR ''='' line))) line);
               val = (if CHR ''#'' \<in> set val0 then trim3 (upto_char CHR ''#'' val0) else val0)
           in Some (key, val))"

text \<open>The loop over the lines; a conversion that throws ends it.\<close>

primrec read_lines :: "('c \<Rightarrow> string \<Rightarrow> string \<Rightarrow> 'c res) \<Rightarrow> 'c \<Rightarrow> string list \<Rightarrow> 'c res" where
  "read_lines assign c [] = Inr c"
| "read_lines assign c (l # ls) =
     (case key_value l of
        None \<Rightarrow> read_lines assign c ls
      | Some (key, val) \<Rightarrow> rbind (assign c key val) (\<lambda>c'. read_lines assign c' ls))"

definition load_file :: "('c \<Rightarrow> string \<Rightarrow> string \<Rightarrow> 'c res) \<Rightarrow> 'c \<Rightarrow> string \<Rightarrow> string list option \<Rightarrow> 'c res" where
  "load_file assign c0 path f =
     (case f of None \<Rightarrow> Inl (Runtime_Error (''Cannot open config: '' @ path)) | Some ls \<Rightarrow> read_lines assign c0 ls)"

subsection \<open>The router\<close>

record router_config =
  rc_listen_addr :: string
  rc_ipc_path :: string
  rc_run_dir :: string
  rc_node_role :: string
  rc_log_level :: string
  rc_bootstrap_nodes :: "string list"
  rc_max_guard_slots :: u64
  rc_max_fwd_bw_frac :: u64
  rc_round_seconds :: u32
  rc_credit_decay_interval_s :: int
  rc_tft :: tft_config
  rc_default_level :: int
  rc_max_recruitment_ttl_s :: int
  rc_max_bytes_per_slot_per_min :: int

definition default_router_config :: router_config where
  "default_router_config = \<lparr>rc_listen_addr = ''0.0.0.0:9000'', rc_ipc_path = ''/run/anonrouter/daemon.sock'',
     rc_run_dir = ''/var/lib/anonrouter'', rc_node_role = ''full'', rc_log_level = ''info'', rc_bootstrap_nodes = [],
     rc_max_guard_slots = 20, rc_max_fwd_bw_frac = 0x3FC999999999999A, rc_round_seconds = 30,
     rc_credit_decay_interval_s = 3600, rc_tft = default_tft_config, rc_default_level = 1,
     rc_max_recruitment_ttl_s = 1800, rc_max_bytes_per_slot_per_min = 5 * 1024 * 1024\<rparr>"

definition router_assign :: "(string \<Rightarrow> u64 res) \<Rightarrow> router_config \<Rightarrow> string \<Rightarrow> string \<Rightarrow> router_config res" where
  "router_assign sd c key val =
     (if key = ''listen_addr'' then Inr (c\<lparr>rc_listen_addr := val\<rparr>)
      else if key = ''ipc_path'' then Inr (c\<lparr>rc_ipc_path := val\<rparr>)
      else if key = ''run_dir'' then Inr (c\<lparr>rc_run_dir := val\<rparr>)
      else if key = ''node_role'' then Inr (c\<lparr>rc_node_role := val\<rparr>)
      else if key = ''log_level'' then Inr (c\<lparr>rc_log_level := val\<rparr>)
      else if key = ''bootstrap'' then Inr (c\<lparr>rc_bootstrap_nodes := rc_bootstrap_nodes c @ [val]\<rparr>)
      else if key = ''max_guard_slots'' then rbind (stoul val) (\<lambda>v. Inr (c\<lparr>rc_max_guard_slots := v\<rparr>))
      else if key = ''max_fwd_bw_frac'' then rbind (sd val) (\<lambda>v. Inr (c\<lparr>rc_max_fwd_bw_frac := v\<rparr>))
      else if key = ''tft_round_seconds'' then rbind (stoul val) (\<lambda>v. Inr (c\<lparr>rc_round_seconds := ucast v\<rparr>))
      else if key = ''max_debt_bytes'' then rbind (stoll val) (\<lambda>v. Inr (c\<lparr>rc_tft := (rc_tft c)\<lparr>max_debt_bytes := v\<rparr>\<rparr>))
      else if key = ''default_anon_level'' then rbind (stoi val) (\<lambda>v. Inr (c\<lparr>rc_default_level := v\<rparr>))
      else Inr c)"

definition router_config_load :: "(string \<Rightarrow> u64 res) \<Rightarrow> string \<Rightarrow> string list option \<Rightarrow> router_config res" where
  "router_config_load sd path f = load_file (router_assign sd) default_router_config path f"

text \<open>The router the constructor builds from its configuration.\<close>

definition router_of_config :: "router_config \<Rightarrow> router" where
  "router_of_config c = router_new (unat (rc_max_guard_slots c)) (rc_tft c)"

subsection \<open>The inbox\<close>

record inbox_file_config = inbox_config +
  if_ipc_path :: string
  if_anonrouter_path :: string
  if_db_path :: string
  if_default_retention_days :: int
  if_replication_timeout_s :: int

definition default_inbox_file_config :: inbox_file_config where
  "default_inbox_file_config = \<lparr>ic_passthrough_timeout_s = 60, ic_cr_guard_rate_limit_hour = 20,
     if_ipc_path = ''/run/scatterweb/inbox.sock'', if_anonrouter_path = ''/run/anonrouter/daemon.sock'',
     if_db_path = ''/var/lib/scatterweb/inbox.db'', if_default_retention_days = 7, if_replication_timeout_s = 30\<rparr>"

definition inbox_assign :: "inbox_file_config \<Rightarrow> string \<Rightarrow> string \<Rightarrow> inbox_file_config res" where
  "inbox_assign c key val =
     (if key = ''ipc_path'' then Inr (c\<lparr>if_ipc_path := val\<rparr>)
      else if key = ''anonrouter_path'' then Inr (c\<lparr>if_anonrouter_path := val\<rparr>)
      else if key = ''db_path'' then Inr (c\<lparr>if_db_path := val\<rparr>)
      else if key = ''default_retention_days'' then rbind (stoi val) (\<lambda>v. Inr (c\<lparr>if_default_retention_days := v\<rparr>))
      else Inr c)"

definition inbox_config_load :: "string \<Rightarrow> string list option \<Rightarrow> inbox_file_config res" where
  "inbox_config_load path f = load_file inbox_assign default_inbox_file_config path f"

subsection \<open>The outbox\<close>

record outbox_file_config = outbox_config +
  of_ipc_path :: string
  of_anonrouter_path :: string
  of_db_path :: string
  of_replication_timeout_s :: int

definition default_outbox_file_config :: outbox_file_config where
  "default_outbox_file_config = \<lparr>oc_default_ttl_days = 7, oc_retry_window_s = 600, oc_max_retries = 3,
     of_ipc_path = ''/run/scatterweb/outbox.sock'', of_anonrouter_path = ''/run/anonrouter/daemon.sock'',
     of_db_path = ''/var/lib/scatterweb/outbox.db'', of_replication_timeout_s = 30\<rparr>"

definition outbox_assign :: "outbox_file_config \<Rightarrow> string \<Rightarrow> string \<Rightarrow> outbox_file_config res" where
  "outbox_assign c key val =
     (if key = ''ipc_path'' then Inr (c\<lparr>of_ipc_path := val\<rparr>)
      else if key = ''anonrouter_path'' then Inr (c\<lparr>of_anonrouter_path := val\<rparr>)
      else if key = ''db_path'' then Inr (c\<lparr>of_db_path := val\<rparr>)
      else if key = ''default_ttl_days'' then rbind (stoi val) (\<lambda>v. Inr (c\<lparr>oc_default_ttl_days := v\<rparr>))
      else if key = ''max_retries'' then rbind (stoi val) (\<lambda>v. Inr (c\<lparr>oc_max_retries := v\<rparr>))
      else Inr c)"

definition outbox_config_load :: "string \<Rightarrow> string list option \<Rightarrow> outbox_file_config res" where
  "outbox_config_load path f = load_file outbox_assign default_outbox_file_config path f"

subsection \<open>Writing and reading back\<close>

text \<open>A value that a line carries unchanged: no comment sign, no blank at either end.\<close>

definition plain_value :: "string \<Rightarrow> bool" where
  "plain_value v \<longleftrightarrow> CHR ''#'' \<notin> set v \<and> trim3 v = v"

definition plain_key :: "string \<Rightarrow> bool" where
  "plain_key k \<longleftrightarrow> k \<noteq> [] \<and> hd k \<noteq> CHR ''#'' \<and> hd k \<noteq> CHR ''['' \<and> CHR ''='' \<notin> set k \<and> trim3 k = k"

definition config_entry :: "string \<Rightarrow> string \<Rightarrow> string" where
  "config_entry k v = k @ '' = '' @ v"

lemma trim3_space_left: "trim3 (CHR '' '' # s) = trim3 s"
  by (simp add: trim3_def blank3_def)

lemma trim3_space_right: "trim3 (s @ '' '') = trim3 s"
proof (cases "dropWhile blank3 s")
  case Nil
  moreover have "blank3 CHR '' ''"
    by (simp add: blank3_def)
  ultimately have "dropWhile blank3 (s @ '' '') = []"
    by simp
  then show ?thesis
    unfolding trim3_def Nil by (simp only:)
next
  case (Cons x xs)
  then have "dropWhile blank3 (s @ '' '') = dropWhile blank3 s @ '' ''"
    by (metis dropWhile_append1 list.set_intros(1) dropWhile_eq_Cons_conv set_dropWhileD)
  then show ?thesis
    by (simp add: trim3_def blank3_def)
qed

lemma key_value_entry: "plain_key k \<Longrightarrow> plain_value v \<Longrightarrow> key_value (config_entry k v) = Some (k, v)"
proof -
  assume k: "plain_key k" and v: "plain_value v"
  have "upto_char CHR ''='' (config_entry k v) = k @ '' ''"
    using k by (auto simp: upto_char_def config_entry_def plain_key_def takeWhile_append)
  moreover have "drop (Suc (length (k @ '' ''))) (config_entry k v) = CHR '' '' # v"
    by (simp add: config_entry_def)
  ultimately show ?thesis
    using k v by (simp add: key_value_def plain_key_def plain_value_def trim3_space_left trim3_space_right Let_def)
      (simp add: config_entry_def)
qed

lemma dropWhile_none: "(\<And>x. x \<in> set xs \<Longrightarrow> \<not> P x) \<Longrightarrow> dropWhile P xs = xs"
  by (cases xs) auto

lemma plain_show_nat: "plain_value (show_nat n)"
proof -
  have "\<not> blank3 c" if "c \<in> set (show_nat n)" for c
    using show_nat_ascii [OF that] by (auto simp: blank3_def)
  then have "trim3 (show_nat n) = show_nat n"
    unfolding trim3_def by (subst dropWhile_none, blast, subst dropWhile_none) auto
  then show ?thesis
    using show_nat_ascii [of "CHR ''#''" n] by (auto simp: plain_value_def)
qed

definition outbox_config_lines :: "outbox_file_config \<Rightarrow> string list" where
  "outbox_config_lines c =
     [config_entry ''ipc_path'' (of_ipc_path c), config_entry ''anonrouter_path'' (of_anonrouter_path c),
      config_entry ''db_path'' (of_db_path c), config_entry ''default_ttl_days'' (show_nat (nat (oc_default_ttl_days c))),
      config_entry ''max_retries'' (show_nat (nat (oc_max_retries c)))]"

lemma config_keys:
  "plain_key ''ipc_path''" "plain_key ''anonrouter_path''" "plain_key ''db_path''" "plain_key ''default_ttl_days''"
  "plain_key ''max_retries''"
  by (simp_all add: plain_key_def trim3_def blank3_def)

text \<open>
  A configuration written as \<^verbatim>\<open>key = value\<close> lines is read back: the outbox that loads the file has the paths
  and numbers that were written, whatever comments, section headers and unknown lines precede them.
\<close>

theorem outbox_config_roundtrip:
  assumes "plain_value (of_ipc_path c)" "plain_value (of_anonrouter_path c)" "plain_value (of_db_path c)"
    and "0 \<le> oc_default_ttl_days c" "oc_default_ttl_days c < 2 ^ 31" "0 \<le> oc_max_retries c" "oc_max_retries c < 2 ^ 31"
    and "oc_retry_window_s c = 600" "of_replication_timeout_s c = 30"
    and "list_all (\<lambda>l. key_value l = None) junk"
  shows "outbox_config_load path (Some (junk @ outbox_config_lines c)) = Inr c"
proof -
  have junk: "read_lines assign c0 (junk @ ls) = read_lines assign c0 ls" for assign and c0 :: outbox_file_config and ls
    using assms(10) by (induction junk) simp_all
  have num: "stoi (show_nat (nat v)) = Inr v" if "0 \<le> v" "v < 2 ^ 31" for v
    using stoi_show_nat [of "nat v" "[]"] that by simp
  show ?thesis
    using assms(1-9)
    by (simp add: outbox_config_load_def load_file_def junk outbox_config_lines_def key_value_entry config_keys
        plain_show_nat outbox_assign_def num default_outbox_file_config_def)
qed

theorem outbox_config_roundtrip_witness:
  "outbox_config_load ''o'' (Some ([''[outbox]'', ''# none'', []] @ outbox_config_lines
     (default_outbox_file_config\<lparr>of_db_path := ''./databases/outbox.db'', oc_max_retries := 12\<rparr>))) =
   Inr (default_outbox_file_config\<lparr>of_db_path := ''./databases/outbox.db'', oc_max_retries := 12\<rparr>)"
  by (rule outbox_config_roundtrip)
    (simp_all add: default_outbox_file_config_def plain_value_def trim3_def blank3_def key_value_def)

text \<open>A number that is none is an exception, so the daemon does not start on its other settings.\<close>

lemma config_bad_number:
  "plain_value v \<Longrightarrow> stoi v = Inl e \<Longrightarrow>
     outbox_config_load path (Some (config_entry ''max_retries'' v # ls)) = Inl e"
  by (simp add: outbox_config_load_def load_file_def key_value_entry config_keys outbox_assign_def)

text \<open>
  A round longer than the decay interval makes the division in \<^verbatim>\<open>tft_loop\<close> zero, and the remainder by it
  ends the process in the first round.
\<close>

lemma router_assign_interval:
  "router_assign sd c k v = Inr c' \<Longrightarrow> rc_credit_decay_interval_s c' = rc_credit_decay_interval_s c"
  by (auto simp: router_assign_def res_simps split: if_splits)

lemma read_lines_interval:
  "read_lines (router_assign sd) c0 ls = Inr c \<Longrightarrow> rc_credit_decay_interval_s c = rc_credit_decay_interval_s c0"
proof (induction ls arbitrary: c0)
  case (Cons l ls)
  then show ?case
    by (cases "key_value l") (auto simp: res_simps, metis router_assign_interval)
qed simp

lemma config_round_too_long:
  assumes "router_config_load sd path f = Inr c" "rc_round_seconds c > 3600"
  shows "tft_tick (nat (rc_credit_decay_interval_s c)) (unat (rc_round_seconds c)) (t, n) = None"
proof -
  have "rc_credit_decay_interval_s c = 3600"
    using assms(1) read_lines_interval [of sd default_router_config]
    by (auto simp: router_config_load_def load_file_def default_router_config_def split: option.splits)
  moreover have "unat (rc_round_seconds c) > 3600"
    using assms(2) by (simp add: word_less_nat_alt)
  ultimately show ?thesis
    by (simp add: tft_tick_def)
qed

end
