(* ===== verification/Udp.thy ===== *)
theory Udp
  imports Std_String Cbor
begin

text \<open>
  The datagram transport of the router (\<^verbatim>\<open>anonrouter/src/udp_transport.cpp\<close>, \<^verbatim>\<open>transport.hpp\<close>). The
  C library's address functions are the argument \<open>L\<close>; the answers of the socket calls are the
  argument \<open>E\<close>, and what \<^verbatim>\<open>recvfrom\<close> returns, one result per turn of the receiving loop, the list
  the loop runs on.
\<close>

record sockaddr_in =
  sin_addr :: u32
  sin_port :: u16

record inet_lib =
  inet_ntop :: "u32 \<Rightarrow> string"
  inet_pton :: "string \<Rightarrow> u32 option"
  getaddrinfo :: "string \<Rightarrow> u32 option"

text \<open>What the code relies on: an address printed by \<^verbatim>\<open>inet_ntop\<close> is read back by \<^verbatim>\<open>inet_pton\<close>.\<close>

definition inet_ok :: "inet_lib \<Rightarrow> bool" where
  "inet_ok L \<longleftrightarrow> (\<forall>a. no_nul (inet_ntop L a) \<and> inet_pton L (inet_ntop L a) = Some a)"

record sock_env =
  e_socket :: "nat option"
  e_bind :: "nat \<Rightarrow> sockaddr_in \<Rightarrow> bool"

subsection \<open>Addresses\<close>

text \<open>
  \<^verbatim>\<open>s.rfind(':')\<close>, then the two sides of the last colon. The port is whatever \<^verbatim>\<open>std::stoi\<close> reads,
  truncated to 16 bits.
\<close>

definition parse_addr :: "string \<Rightarrow> (string \<times> u16) res" where
  "parse_addr s =
     (if CHR '':'' \<notin> set s then Inl (Runtime_Error (''UdpTransport: bad address: '' @ s))
      else let port = rev (takeWhile (\<lambda>c. c \<noteq> CHR '':'') (rev s));
               host = take (length s - length port - 1) s
           in rbind (stoi port) (\<lambda>v. Inr (host, word_of_int v)))"

definition bind_sockaddr :: "inet_lib \<Rightarrow> string \<Rightarrow> u16 \<Rightarrow> sockaddr_in" where
  "bind_sockaddr L host port =
     \<lparr>sin_addr = (if host = ''0.0.0.0'' \<or> host = [] then 0
                  else case inet_pton L (c_str host) of Some a \<Rightarrow> a | None \<Rightarrow> 0),
      sin_port = port\<rparr>"

definition dest_sockaddr :: "inet_lib \<Rightarrow> string \<Rightarrow> u16 \<Rightarrow> sockaddr_in" where
  "dest_sockaddr L host port =
     \<lparr>sin_addr = (case inet_pton L (c_str host) of
                    Some a \<Rightarrow> a
                  | None \<Rightarrow> (case getaddrinfo L (c_str host) of Some a \<Rightarrow> a | None \<Rightarrow> 0)),
      sin_port = port\<rparr>"

text \<open>\<^verbatim>\<open>std::string(ipstr) + ":" + std::to_string(ntohs(src.sin_port))\<close>.\<close>

definition peer_string :: "inet_lib \<Rightarrow> sockaddr_in \<Rightarrow> string" where
  "peer_string L src = inet_ntop L (sin_addr src) @ CHR '':'' # show_nat (unat (sin_port src))"

subsection \<open>The transport\<close>

record udp =
  sock :: "nat option"
  udp_running :: bool
  recv_thread :: thread_state

definition udp_new :: udp where
  "udp_new = \<lparr>sock = None, udp_running = False, recv_thread = No_Thread\<rparr>"

definition udp_start :: "inet_lib \<Rightarrow> sock_env \<Rightarrow> udp \<Rightarrow> string \<Rightarrow> udp \<times> unit res" where
  "udp_start L E u bind_addr =
     (case e_socket E of
        None \<Rightarrow> (u\<lparr>sock := None\<rparr>, Inl (Runtime_Error ''UdpTransport: socket() failed''))
      | Some fd \<Rightarrow>
          (case parse_addr bind_addr of
             Inl e \<Rightarrow> (u\<lparr>sock := Some fd\<rparr>, Inl e)
           | Inr (host, port) \<Rightarrow>
               if \<not> e_bind E fd (bind_sockaddr L host port)
               then (u\<lparr>sock := Some fd\<rparr>, Inl (Runtime_Error (''UdpTransport: bind() failed on '' @ bind_addr)))
               else (u\<lparr>sock := Some fd, udp_running := True, recv_thread := Thread_Running\<rparr>, Inr ())))"

text \<open>The result is the call of \<^verbatim>\<open>sendto\<close>: socket, destination, data. Its own result is ignored.\<close>

definition udp_send :: "inet_lib \<Rightarrow> udp \<Rightarrow> string \<Rightarrow> bytes \<Rightarrow> (nat option \<times> sockaddr_in \<times> bytes) res" where
  "udp_send L u peer_addr data =
     rbind (parse_addr peer_addr) (\<lambda>(host, port). Inr (sock u, dest_sockaddr L host port, data))"

text \<open>\<^verbatim>\<open>stop\<close> returns once the receiving thread has been joined.\<close>

definition udp_stop :: "udp \<Rightarrow> udp" where
  "udp_stop u = (if udp_running u then \<lparr>sock = None, udp_running = False, recv_thread = No_Thread\<rparr> else u)"

text \<open>
  One turn of the receiving loop: \<^verbatim>\<open>running_\<close> as the loop reads it and the result of \<^verbatim>\<open>recvfrom\<close>. The
  callback runs on the state of the router; an exception that leaves it ends the process.
\<close>

datatype recv_result = Recv_Error | Recv_From sockaddr_in bytes

datatype loop_end = Loop_Blocked | Loop_Ended | Loop_Terminates exn

type_synonym ('s, 'e) recv_cb = "'s \<Rightarrow> string \<Rightarrow> bytes \<Rightarrow> 's \<times> 'e list \<times> unit res"

definition RECV_BUF :: nat where
  "RECV_BUF = 65536"

fun recv_loop :: "inet_lib \<Rightarrow> ('s, 'e) recv_cb \<Rightarrow> 's \<Rightarrow> (bool \<times> recv_result) list \<Rightarrow> 's \<times> 'e list \<times> loop_end" where
  "recv_loop L cb s [] = (s, [], Loop_Blocked)"
| "recv_loop L cb s ((running, res) # rs) =
     (if \<not> running then (s, [], Loop_Ended)
      else case res of
             Recv_Error \<Rightarrow> (s, [], Loop_Ended)
           | Recv_From src data \<Rightarrow>
               if data = [] then (s, [], Loop_Ended)
               else case cb s (peer_string L src) (take RECV_BUF data) of
                      (s', es, Inl e) \<Rightarrow> (s', es, Loop_Terminates e)
                    | (s', es, Inr _) \<Rightarrow>
                        (case recv_loop L cb s' rs of (s'', es', end') \<Rightarrow> (s'', es @ es', end')))"

subsection \<open>Peers are answered at the address they sent from\<close>

lemma rev_takeWhile_snoc: "c \<notin> set p \<Longrightarrow> rev (takeWhile (\<lambda>x. x \<noteq> c) (rev (h @ c # p))) = p"
  by (simp add: takeWhile_append)

lemma parse_addr_split:
  assumes "CHR '':'' \<notin> set p"
  shows "parse_addr (h @ CHR '':'' # p) = rbind (stoi p) (\<lambda>v. Inr (h, word_of_int v))"
  unfolding parse_addr_def rev_takeWhile_snoc [OF assms] Let_def by simp

lemma parse_addr_peer_string: "parse_addr (peer_string L src) = Inr (inet_ntop L (sin_addr src), sin_port src)"
proof -
  have "CHR '':'' \<notin> set (show_nat (unat (sin_port src)))"
    using show_nat_ascii [of "CHR '':''"] by auto
  moreover have "unat (sin_port src) < 2 ^ 31"
  proof -
    have "unat (sin_port src) < 2 ^ LENGTH(16)"
      by (rule unsigned_less)
    then show ?thesis
      by simp
  qed
  ultimately show ?thesis
    using stoi_show_nat [of "unat (sin_port src)" "[]"]
    by (simp add: peer_string_def parse_addr_split)
qed

text \<open>
  The peer string of a received datagram is an address to which \<^verbatim>\<open>send\<close> sends back: whatever
  is sent to it goes to exactly the address and port the datagram came from.
\<close>

lemma udp_reply_reaches_sender:
  assumes "inet_ok L"
  shows "udp_send L u (peer_string L src) data = Inr (sock u, src, data)"
proof -
  have "inet_pton L (c_str (inet_ntop L (sin_addr src))) = Some (sin_addr src)"
    using assms by (simp add: inet_ok_def)
  then show ?thesis
    by (simp add: udp_send_def parse_addr_peer_string dest_sockaddr_def)
qed

text \<open>An instance of the address functions: dotted decimal notation, no name resolution.\<close>

fun split_on :: "char \<Rightarrow> string \<Rightarrow> string list" where
  "split_on c [] = [[]]"
| "split_on c (x # xs) =
     (if x = c then [] # split_on c xs
      else case split_on c xs of [] \<Rightarrow> [[x]] | p # ps \<Rightarrow> (x # p) # ps)"

definition octet :: "string \<Rightarrow> u8 option" where
  "octet s = (if s \<noteq> [] \<and> length s \<le> 3 \<and> list_all (is_digit 10) s \<and> digits_value 10 s \<le> 255
     then Some (of_nat (digits_value 10 s)) else None)"

definition quad_pton :: "string \<Rightarrow> u32 option" where
  "quad_pton s = (case map octet (split_on CHR ''.'' s) of
     [Some a, Some b, Some c, Some d] \<Rightarrow> Some (rd32 a b c d) | _ \<Rightarrow> None)"

definition quad_ntop :: "u32 \<Rightarrow> string" where
  "quad_ntop a = show_nat (unat (byte_at 3 a)) @ CHR ''.'' # show_nat (unat (byte_at 2 a)) @ CHR ''.'' #
     show_nat (unat (byte_at 1 a)) @ CHR ''.'' # show_nat (unat (byte_at 0 a))"

definition quad_inet :: inet_lib where
  "quad_inet = \<lparr>inet_ntop = quad_ntop, inet_pton = quad_pton, getaddrinfo = (\<lambda>_. None)\<rparr>"

lemma split_on_plain: "c \<notin> set a \<Longrightarrow> split_on c a = [a]"
  by (induction a) auto

lemma split_on_append: "c \<notin> set a \<Longrightarrow> split_on c (a @ c # b) = a # split_on c b"
  by (induction a) auto

lemma show_nat_plain: "c \<in> {CHR ''.'', CHR 0x00} \<Longrightarrow> c \<notin> set (show_nat n)"
  using show_nat_ascii [of c n] by auto

lemma length_show_byte: "n < 256 \<Longrightarrow> length (show_nat n) \<le> 3"
  by (subst show_nat.simps, subst show_nat.simps, subst show_nat.simps) auto

lemma octet_show_byte: "octet (show_nat (unat b)) = Some b"
proof -
  have "unat b < 2 ^ LENGTH(8)"
    by (rule unsigned_less)
  then have "unat b < 256"
    by simp
  then show ?thesis
    using length_show_byte show_nat_digits
    by (auto simp: octet_def digits_value_show_nat list_all_iff)
qed

lemma quad_inet_ok: "inet_ok quad_inet"
proof -
  have "quad_pton (quad_ntop a) = Some a" for a
    by (simp add: quad_pton_def quad_ntop_def split_on_append split_on_plain show_nat_plain octet_show_byte
        rd32_be32 [unfolded One_nat_def])
  moreover have "no_nul (quad_ntop a)" for a
    by (simp add: no_nul_def quad_ntop_def show_nat_plain)
  ultimately show ?thesis
    by (simp add: inet_ok_def quad_inet_def)
qed

subsection \<open>The receiving loop\<close>

text \<open>Datagrams handled one after the other, up to the first exception.\<close>

fun handle_all :: "inet_lib \<Rightarrow> ('s, 'e) recv_cb \<Rightarrow> 's \<Rightarrow> (sockaddr_in \<times> bytes) list \<Rightarrow> 's \<times> 'e list \<times> unit res" where
  "handle_all L cb s [] = (s, [], Inr ())"
| "handle_all L cb s ((src, data) # ds) =
     (case cb s (peer_string L src) data of
        (s', es, Inl e) \<Rightarrow> (s', es, Inl e)
      | (s', es, Inr _) \<Rightarrow> (case handle_all L cb s' ds of (s'', es', r) \<Rightarrow> (s'', es @ es', r)))"

definition deliver :: "(sockaddr_in \<times> bytes) list \<Rightarrow> (bool \<times> recv_result) list" where
  "deliver ds = map (\<lambda>(src, data). (True, Recv_From src data)) ds"

definition udp_data :: "(sockaddr_in \<times> bytes) list \<Rightarrow> bool" where
  "udp_data ds \<longleftrightarrow> list_all (\<lambda>(src, data). data \<noteq> [] \<and> length data \<le> RECV_BUF) ds"

lemma recv_loop_deliver:
  "udp_data ds \<Longrightarrow> recv_loop L cb s (deliver ds @ rest) =
     (case handle_all L cb s ds of
        (s', es, Inl e) \<Rightarrow> (s', es, Loop_Terminates e)
      | (s', es, Inr _) \<Rightarrow> (case recv_loop L cb s' rest of (s'', es', r) \<Rightarrow> (s'', es @ es', r)))"
proof (induction ds arbitrary: s)
  case Nil
  then show ?case
    by (simp add: deliver_def split: prod.split)
next
  case (Cons d ds)
  obtain src data where d: "d = (src, data)"
    by (cases d)
  from Cons.prems have ds: "udp_data ds" and data: "data \<noteq> []" "take RECV_BUF data = data"
    by (simp_all add: udp_data_def d)
  show ?case
    using Cons.IH [OF ds] data by (auto simp: d deliver_def split: prod.split sum.split)
qed

text \<open>A datagram with no bytes: \<^verbatim>\<open>recvfrom\<close> returns 0.\<close>

lemma recv_loop_empty: "recv_loop L cb s ((True, Recv_From src []) # rest) = (s, [], Loop_Ended)"
  by simp

end
