(* ===== verification/Ipc_Server.thy ===== *)
theory Ipc_Server
  imports Ipc
begin

text \<open>
  The IPC server of a daemon with its threads (\<^verbatim>\<open>common/src/ipc/server.cpp\<close>): \<^verbatim>\<open>start\<close>, the accepting
  thread, one thread per connection, \<^verbatim>\<open>push\<close> from any thread, \<^verbatim>\<open>stop\<close>. What a connection computes
  is \<^verbatim>\<open>Ipc.conn_loop\<close>; here a connection is the sequence of its system calls and of its sections
  under \<^verbatim>\<open>clients_mu_\<close>, and each of them is one step of a transition system. The table of file
  descriptors belongs to the whole process, so other parts of the daemon open and close
  descriptors too.
\<close>

subsection \<open>State\<close>

datatype resource = Conn nat | Foreign nat

text \<open>
  Where a connection's thread is: at the test of \<^verbatim>\<open>while (running_)\<close>, in \<^verbatim>\<open>read_frame\<close>, about to write
  the response, about to close its descriptor, about to remove it from the list, finished.
\<close>

datatype conn_pc = Conn_Test | Conn_Reading | Conn_Responding | Conn_Closing | Conn_Removing | Conn_Done

record conn_thread =
  ct_fd :: nat
  ct_conn :: nat
  ct_pc :: conn_pc

datatype acceptor = Acc_Waiting | Acc_Got nat nat | Acc_Registered nat nat | Acc_Done

datatype stopper = Stop_Idle | Stop_Joining_Accept | Stop_Joining_Conns | Stop_Finished

record ipc_server =
  sv_running :: bool
  listening :: bool
  client_fds :: "nat list"
  accept_thread :: acceptor
  conn_threads :: "conn_thread list"
  stopping :: stopper
  fd_table :: "nat \<Rightarrow> resource option"
  next_conn :: nat
  peer_closed :: "nat set"
  shut_down :: "nat set"
  written :: "(resource \<times> bytes) list"
  killed :: bool

definition server_new :: ipc_server where
  "server_new = \<lparr>sv_running = False, listening = False, client_fds = [], accept_thread = Acc_Done,
     conn_threads = [], stopping = Stop_Idle, fd_table = (\<lambda>_. None), next_conn = 0, peer_closed = {},
     shut_down = {}, written = [], killed = False\<rparr>"

subsection \<open>Starting\<close>

text \<open>
  The answers of \<^verbatim>\<open>socket\<close>, \<^verbatim>\<open>bind\<close> and \<^verbatim>\<open>listen\<close>: none, or the text of \<^verbatim>\<open>errno\<close>. The stale socket file is
  unlinked before the length of the path is tested; the second component says whether it was.
\<close>

record start_env =
  se_socket :: "string option"
  se_bind :: "string option"
  se_listen :: "string option"

definition SUN_PATH :: nat where
  "SUN_PATH = 108"

definition server_start :: "start_env \<Rightarrow> string \<Rightarrow> ipc_server \<Rightarrow> ipc_server \<times> bool \<times> unit res" where
  "server_start E path s =
     (case se_socket E of
        Some err \<Rightarrow> (s, False, Inl (Runtime_Error (''socket() failed: '' @ err)))
      | None \<Rightarrow>
          if SUN_PATH \<le> length path then (s, True, Inl (Runtime_Error ''Socket path too long''))
          else case se_bind E of
                 Some err \<Rightarrow> (s, True, Inl (Runtime_Error (''bind() failed: '' @ err)))
               | None \<Rightarrow>
                   (case se_listen E of
                      Some err \<Rightarrow> (s, True, Inl (Runtime_Error (''listen() failed: '' @ err)))
                    | None \<Rightarrow> (s\<lparr>sv_running := True, listening := True, accept_thread := Acc_Waiting\<rparr>, True, Inr ())))"

subsection \<open>Accepting\<close>

definition accept_conn :: "ipc_server \<Rightarrow> nat \<Rightarrow> ipc_server" where
  "accept_conn s fd = s\<lparr>fd_table := (fd_table s)(fd \<mapsto> Conn (next_conn s)), next_conn := Suc (next_conn s),
     accept_thread := Acc_Got fd (next_conn s)\<rparr>"

definition register_client :: "ipc_server \<Rightarrow> nat \<Rightarrow> nat \<Rightarrow> ipc_server" where
  "register_client s fd c = s\<lparr>client_fds := client_fds s @ [fd], accept_thread := Acc_Registered fd c\<rparr>"

definition spawn_conn :: "ipc_server \<Rightarrow> nat \<Rightarrow> nat \<Rightarrow> ipc_server" where
  "spawn_conn s fd c = s\<lparr>conn_threads := conn_threads s @ [\<lparr>ct_fd = fd, ct_conn = c, ct_pc = Conn_Test\<rparr>],
     accept_thread := Acc_Waiting\<rparr>"

subsection \<open>Writing\<close>

text \<open>
  What the calls of \<^verbatim>\<open>write\<close> put on a descriptor: each takes as many bytes as the schedule says, 0 is an
  error and ends the loop; past the schedule a call takes everything.
\<close>

fun push_write :: "nat list \<Rightarrow> bytes \<Rightarrow> bytes" where
  "push_write [] msg = msg"
| "push_write (w # ws) msg = (if msg = [] \<or> w = 0 then [] else take w msg @ push_write ws (drop w msg))"

text \<open>
  One client of \<^verbatim>\<open>push\<close>: nothing on a closed descriptor; a connection whose peer has closed it raises
  \<^verbatim>\<open>SIGPIPE\<close>, which nothing in the daemons handles.
\<close>

definition push_one :: "nat list \<Rightarrow> bytes \<Rightarrow> ipc_server \<Rightarrow> nat \<Rightarrow> ipc_server" where
  "push_one ws msg s fd =
     (if killed s then s
      else case fd_table s fd of
             None \<Rightarrow> s
           | Some (Conn c) \<Rightarrow> (if c \<in> peer_closed s then s\<lparr>killed := True\<rparr>
                              else s\<lparr>written := written s @ [(Conn c, push_write ws msg)]\<rparr>)
           | Some (Foreign r) \<Rightarrow> s\<lparr>written := written s @ [(Foreign r, push_write ws msg)]\<rparr>)"

definition server_push :: "cbor_lib \<Rightarrow> nat list \<Rightarrow> string \<Rightarrow> cmap \<Rightarrow> ipc_server \<Rightarrow> ipc_server" where
  "server_push C ws event payload s =
     foldl (push_one ws (frame (encode_push C \<lparr>pu_event = event, pu_payload = payload\<rparr>))) s (client_fds s)"

subsection \<open>Connections\<close>

definition set_pc :: "ipc_server \<Rightarrow> nat \<Rightarrow> conn_pc \<Rightarrow> ipc_server" where
  "set_pc s i pc = s\<lparr>conn_threads := (conn_threads s)[i := (conn_threads s ! i)\<lparr>ct_pc := pc\<rparr>]\<rparr>"

definition conn_test :: "ipc_server \<Rightarrow> nat \<Rightarrow> ipc_server" where
  "conn_test s i = set_pc s i (if sv_running s then Conn_Reading else Conn_Closing)"

text \<open>\<^verbatim>\<open>write_frame\<close> of a response: when it throws, the loop ends; a closed descriptor refuses every write.\<close>

definition respond_on :: "ipc_server \<Rightarrow> nat \<Rightarrow> resource \<Rightarrow> int list \<Rightarrow> bytes \<Rightarrow> ipc_server" where
  "respond_on s i r ws resp =
     (case write_frame ws resp of
        (out, Inr _) \<Rightarrow> set_pc (s\<lparr>written := written s @ [(r, out)]\<rparr>) i Conn_Test
      | (out, Inl _) \<Rightarrow> set_pc (s\<lparr>written := written s @ [(r, out)]\<rparr>) i Conn_Closing)"

definition conn_respond :: "ipc_server \<Rightarrow> nat \<Rightarrow> int list \<Rightarrow> bytes \<Rightarrow> ipc_server" where
  "conn_respond s i ws resp =
     (case fd_table s (ct_fd (conn_threads s ! i)) of
        None \<Rightarrow> set_pc s i Conn_Closing
      | Some (Conn c) \<Rightarrow> (if c \<in> peer_closed s then s\<lparr>killed := True\<rparr> else respond_on s i (Conn c) ws resp)
      | Some (Foreign r) \<Rightarrow> respond_on s i (Foreign r) ws resp)"

definition conn_close :: "ipc_server \<Rightarrow> nat \<Rightarrow> ipc_server" where
  "conn_close s i = set_pc (s\<lparr>fd_table := (fd_table s)(ct_fd (conn_threads s ! i) := None)\<rparr>) i Conn_Removing"

definition remove_client :: "ipc_server \<Rightarrow> nat \<Rightarrow> ipc_server" where
  "remove_client s fd = s\<lparr>client_fds := filter (\<lambda>x. x \<noteq> fd) (client_fds s)\<rparr>"

definition conn_remove :: "ipc_server \<Rightarrow> nat \<Rightarrow> ipc_server" where
  "conn_remove s i = set_pc (remove_client s (ct_fd (conn_threads s ! i))) i Conn_Done"

subsection \<open>Stopping\<close>

definition stop_begin :: "ipc_server \<Rightarrow> ipc_server" where
  "stop_begin s = s\<lparr>sv_running := False, listening := False, stopping := Stop_Joining_Accept\<rparr>"

definition shut_conns :: "ipc_server \<Rightarrow> nat list" where
  "shut_conns s = concat (map (\<lambda>fd. case fd_table s fd of Some (Conn c) \<Rightarrow> [c] | _ \<Rightarrow> []) (client_fds s))"

definition stop_clients :: "ipc_server \<Rightarrow> ipc_server" where
  "stop_clients s = s\<lparr>shut_down := shut_down s \<union> set (shut_conns s),
     fd_table := (\<lambda>fd. if fd \<in> set (client_fds s) then None else fd_table s fd),
     client_fds := [], stopping := Stop_Joining_Conns\<rparr>"

definition stop_end :: "ipc_server \<Rightarrow> ipc_server" where
  "stop_end s = s\<lparr>conn_threads := [], stopping := Stop_Finished\<rparr>"

subsection \<open>Interleavings\<close>

text \<open>
  A descriptor number is stale while a thread that has not finished still holds it although it does not
  denote the thread's connection any more. The system may hand out such a number again; with \<open>reuse\<close>
  false the relation leaves those schedules out.
\<close>

definition live :: "conn_thread \<Rightarrow> bool" where
  "live t \<longleftrightarrow> ct_pc t \<noteq> Conn_Done"

definition stale_fds :: "ipc_server \<Rightarrow> nat list" where
  "stale_fds s = map ct_fd (filter (\<lambda>t. live t \<and> fd_table s (ct_fd t) \<noteq> Some (Conn (ct_conn t))) (conn_threads s))"

abbreviation at_pc :: "ipc_server \<Rightarrow> nat \<Rightarrow> conn_pc \<Rightarrow> bool" where
  "at_pc s i pc \<equiv> i < length (conn_threads s) \<and> ct_pc (conn_threads s ! i) = pc"

text \<open>
  A thread in \<^verbatim>\<open>read_frame\<close> gets the end of the stream, an error, a request, or a length out of range: for this
  \<^verbatim>\<open>read_frame\<close> throws outside every handler, and the process ends.
\<close>

inductive server_step :: "cbor_lib \<Rightarrow> bool \<Rightarrow> ipc_server \<Rightarrow> ipc_server \<Rightarrow> bool" for C reuse where
  accept: "\<not> killed s \<Longrightarrow> accept_thread s = Acc_Waiting \<Longrightarrow> listening s \<Longrightarrow> fd_table s fd = None \<Longrightarrow>
    reuse \<or> fd \<notin> set (stale_fds s) \<Longrightarrow> server_step C reuse s (accept_conn s fd)"
| register: "\<not> killed s \<Longrightarrow> accept_thread s = Acc_Got fd c \<Longrightarrow> server_step C reuse s (register_client s fd c)"
| spawn: "\<not> killed s \<Longrightarrow> accept_thread s = Acc_Registered fd c \<Longrightarrow> server_step C reuse s (spawn_conn s fd c)"
| accept_end: "\<not> killed s \<Longrightarrow> accept_thread s = Acc_Waiting \<Longrightarrow> \<not> sv_running s \<Longrightarrow>
    server_step C reuse s (s\<lparr>accept_thread := Acc_Done\<rparr>)"
| test: "\<not> killed s \<Longrightarrow> at_pc s i Conn_Test \<Longrightarrow> server_step C reuse s (conn_test s i)"
| end_of_stream: "\<not> killed s \<Longrightarrow> at_pc s i Conn_Reading \<Longrightarrow>
    ct_conn (conn_threads s ! i) \<in> peer_closed s \<union> shut_down s \<Longrightarrow> server_step C reuse s (set_pc s i Conn_Closing)"
| request: "\<not> killed s \<Longrightarrow> at_pc s i Conn_Reading \<Longrightarrow> ct_conn (conn_threads s ! i) \<notin> shut_down s \<Longrightarrow>
    server_step C reuse s (set_pc s i Conn_Responding)"
| read_error: "\<not> killed s \<Longrightarrow> at_pc s i Conn_Reading \<Longrightarrow> server_step C reuse s (set_pc s i Conn_Closing)"
| bad_length: "\<not> killed s \<Longrightarrow> at_pc s i Conn_Reading \<Longrightarrow> ct_conn (conn_threads s ! i) \<notin> shut_down s \<Longrightarrow>
    server_step C reuse s (s\<lparr>killed := True\<rparr>)"
| respond: "\<not> killed s \<Longrightarrow> at_pc s i Conn_Responding \<Longrightarrow> server_step C reuse s (conn_respond s i ws resp)"
| close: "\<not> killed s \<Longrightarrow> at_pc s i Conn_Closing \<Longrightarrow> server_step C reuse s (conn_close s i)"
| remove: "\<not> killed s \<Longrightarrow> at_pc s i Conn_Removing \<Longrightarrow> server_step C reuse s (conn_remove s i)"
| push: "\<not> killed s \<Longrightarrow> server_step C reuse s (server_push C ws event payload s)"
| peer_close: "\<not> killed s \<Longrightarrow> c < next_conn s \<Longrightarrow> server_step C reuse s (s\<lparr>peer_closed := insert c (peer_closed s)\<rparr>)"
| foreign_open: "\<not> killed s \<Longrightarrow> fd_table s fd = None \<Longrightarrow> reuse \<or> fd \<notin> set (stale_fds s) \<Longrightarrow>
    server_step C reuse s (s\<lparr>fd_table := (fd_table s)(fd \<mapsto> Foreign r)\<rparr>)"
| foreign_close: "\<not> killed s \<Longrightarrow> fd_table s fd = Some (Foreign r) \<Longrightarrow>
    server_step C reuse s (s\<lparr>fd_table := (fd_table s)(fd := None)\<rparr>)"
| stop1: "\<not> killed s \<Longrightarrow> sv_running s \<Longrightarrow> server_step C reuse s (stop_begin s)"
| stop2: "\<not> killed s \<Longrightarrow> stopping s = Stop_Joining_Accept \<Longrightarrow> accept_thread s = Acc_Done \<Longrightarrow>
    server_step C reuse s (stop_clients s)"
| stop3: "\<not> killed s \<Longrightarrow> stopping s = Stop_Joining_Conns \<Longrightarrow> list_all (\<lambda>t. \<not> live t) (conn_threads s) \<Longrightarrow>
    server_step C reuse s (stop_end s)"

inductive server_reach :: "cbor_lib \<Rightarrow> bool \<Rightarrow> ipc_server \<Rightarrow> ipc_server \<Rightarrow> bool" for C reuse s0 where
  start: "server_reach C reuse s0 s0"
| step: "server_reach C reuse s0 s \<Longrightarrow> server_step C reuse s s' \<Longrightarrow> server_reach C reuse s0 s'"

subsection \<open>The invariant\<close>

text \<open>The descriptors a pending \<^verbatim>\<open>accept\<close> holds, and the one of them that is already in the list.\<close>

fun acc_held :: "acceptor \<Rightarrow> (nat \<times> nat) list" where
  "acc_held (Acc_Got fd c) = [(fd, c)]"
| "acc_held (Acc_Registered fd c) = [(fd, c)]"
| "acc_held _ = []"

fun acc_registered :: "acceptor \<Rightarrow> nat list" where
  "acc_registered (Acc_Registered fd c) = [fd]"
| "acc_registered _ = []"

text \<open>Connections with their descriptors: those of the threads that have not finished, then the accepted one.\<close>

definition held :: "ipc_server \<Rightarrow> (nat \<times> nat) list" where
  "held s = map (\<lambda>t. (ct_fd t, ct_conn t)) (filter live (conn_threads s)) @ acc_held (accept_thread s)"

definition serving :: "conn_thread \<Rightarrow> bool" where
  "serving t \<longleftrightarrow> ct_pc t \<in> {Conn_Test, Conn_Reading, Conn_Responding, Conn_Closing}"

definition clients_inv :: "ipc_server \<Rightarrow> bool" where
  "clients_inv s \<longleftrightarrow> client_fds s =
     (if stopping s \<in> {Stop_Idle, Stop_Joining_Accept}
      then map ct_fd (filter live (conn_threads s)) @ acc_registered (accept_thread s) else [])"

definition held_inv :: "ipc_server \<Rightarrow> bool" where
  "held_inv s \<longleftrightarrow> distinct (map fst (held s)) \<and> distinct (map snd (held s)) \<and> list_all (\<lambda>(fd, c). c < next_conn s) (held s)"

definition open_inv :: "ipc_server \<Rightarrow> bool" where
  "open_inv s \<longleftrightarrow>
     (\<forall>t\<in>set (conn_threads s). live t \<longrightarrow> fd_table s (ct_fd t) =
        (if serving t \<and> stopping s \<in> {Stop_Idle, Stop_Joining_Accept} then Some (Conn (ct_conn t)) else None)) \<and>
     (\<forall>fd c. (fd, c) \<in> set (acc_held (accept_thread s)) \<longrightarrow> fd_table s fd = Some (Conn c))"

definition owner_inv :: "ipc_server \<Rightarrow> bool" where
  "owner_inv s \<longleftrightarrow> (\<forall>fd c. fd_table s fd = Some (Conn c) \<longrightarrow> (fd, c) \<in> set (held s))"

definition stop_inv :: "ipc_server \<Rightarrow> bool" where
  "stop_inv s \<longleftrightarrow> (stopping s = Stop_Idle \<longleftrightarrow> sv_running s) \<and> (listening s \<longleftrightarrow> sv_running s) \<and>
     (stopping s \<in> {Stop_Joining_Conns, Stop_Finished} \<longrightarrow> accept_thread s = Acc_Done)"

definition server_inv :: "ipc_server \<Rightarrow> bool" where
  "server_inv s \<longleftrightarrow> clients_inv s \<and> held_inv s \<and> open_inv s \<and> owner_inv s \<and> stop_inv s"

lemmas server_inv_defs = clients_inv_def held_inv_def open_inv_def owner_inv_def stop_inv_def held_def

lemma at_pcE:
  assumes "at_pc s i pc"
  obtains xs t ys where "conn_threads s = xs @ t # ys" "i = length xs" "ct_pc t = pc"
  using assms id_take_nth_drop [of i "conn_threads s"] by (metis length_take min.absorb2 less_imp_le_nat)

lemma set_pc_split:
  "conn_threads s = xs @ t # ys \<Longrightarrow> set_pc s (length xs) pc = s\<lparr>conn_threads := xs @ t\<lparr>ct_pc := pc\<rparr> # ys\<rparr>"
  by (simp add: set_pc_def)

lemma server_inv_accept:
  assumes "server_inv s" "accept_thread s = Acc_Waiting" "listening s" "fd_table s fd = None" "fd \<notin> set (stale_fds s)"
  shows "server_inv (accept_conn s fd)"
proof -
  have st: "stopping s = Stop_Idle"
    using assms(1,3) by (simp add: server_inv_def stop_inv_def)
  have new: "fd \<notin> ct_fd ` {t \<in> set (conn_threads s). live t}"
    using assms(1,4,5) st by (auto simp: server_inv_def open_inv_def stale_fds_def image_iff)
  show ?thesis
    using assms(1-4) st new
    by (auto simp: server_inv_def server_inv_defs accept_conn_def list_all_iff image_iff)
qed

lemma server_inv_pc:
  assumes "server_inv s" "conn_threads s = xs @ t # ys" "live t" "serving t" "serving (t\<lparr>ct_pc := pc\<rparr>)"
  shows "server_inv (s\<lparr>conn_threads := xs @ t\<lparr>ct_pc := pc\<rparr> # ys\<rparr>)"
proof -
  have "live (t\<lparr>ct_pc := pc\<rparr>)"
    using assms(5) by (auto simp: live_def serving_def)
  then show ?thesis
    using assms by (simp add: server_inv_def server_inv_defs)
qed

lemma server_inv_written: "server_inv (s\<lparr>written := w, killed := k\<rparr>) = server_inv s"
  by (simp add: server_inv_def server_inv_defs)

lemma live_serving: "serving t \<Longrightarrow> live t"
  by (auto simp: serving_def live_def)

lemma server_inv_conn:
  assumes "server_inv s"
  shows "accept_thread s = Acc_Got fd c \<Longrightarrow> server_inv (register_client s fd c)"
    and "accept_thread s = Acc_Registered fd c \<Longrightarrow> server_inv (spawn_conn s fd c)"
    and "accept_thread s = Acc_Waiting \<Longrightarrow> server_inv (s\<lparr>accept_thread := Acc_Done\<rparr>)"
    and "server_inv (s\<lparr>peer_closed := P\<rparr>)"
proof -
  show "server_inv (register_client s fd c)" if "accept_thread s = Acc_Got fd c"
    using assms that by (cases "stopping s") (auto simp: server_inv_def server_inv_defs register_client_def)
  show "server_inv (spawn_conn s fd c)" if "accept_thread s = Acc_Registered fd c"
    using assms that by (cases "stopping s") (auto simp: server_inv_def server_inv_defs spawn_conn_def live_def serving_def)
  show "server_inv (s\<lparr>accept_thread := Acc_Done\<rparr>)" if "accept_thread s = Acc_Waiting"
    using assms that by (auto simp: server_inv_def server_inv_defs)
  show "server_inv (s\<lparr>peer_closed := P\<rparr>)"
    using assms by (simp add: server_inv_def server_inv_defs)
qed

lemma other_fds:
  assumes "server_inv s" "conn_threads s = xs @ t # ys" "live t"
  shows "\<And>u. u \<in> set xs \<Longrightarrow> live u \<Longrightarrow> ct_fd u \<noteq> ct_fd t"
    and "\<And>u. u \<in> set ys \<Longrightarrow> live u \<Longrightarrow> ct_fd u \<noteq> ct_fd t"
    and "\<And>c. (ct_fd t, c) \<notin> set (acc_held (accept_thread s))"
proof -
  have d: "distinct (map ct_fd (filter live (xs @ t # ys)) @ map fst (acc_held (accept_thread s)))"
    using assms(1,2) by (simp add: server_inv_def held_inv_def held_def comp_def)
  show "ct_fd u \<noteq> ct_fd t" if "u \<in> set xs" "live u" for u
    using d that assms(3) by (auto simp: image_iff)
  show "ct_fd u \<noteq> ct_fd t" if "u \<in> set ys" "live u" for u
    using d that assms(3) by (auto simp: image_iff)
  show "(ct_fd t, c) \<notin> set (acc_held (accept_thread s))" for c
    using d assms(3) by (force simp: image_iff)
qed

lemma server_inv_close:
  assumes "server_inv s" "conn_threads s = xs @ t # ys" "ct_pc t = Conn_Closing"
  shows "server_inv (s\<lparr>fd_table := (fd_table s)(ct_fd t := None), conn_threads := xs @ t\<lparr>ct_pc := Conn_Removing\<rparr> # ys\<rparr>)"
proof -
  have live: "live t" "serving t" "live (t\<lparr>ct_pc := Conn_Removing\<rparr>)" "\<not> serving (t\<lparr>ct_pc := Conn_Removing\<rparr>)"
    using assms(3) by (simp_all add: live_def serving_def)
  note new = other_fds [OF assms(1,2) live(1)]
  let ?s = "s\<lparr>fd_table := (fd_table s)(ct_fd t := None), conn_threads := xs @ t\<lparr>ct_pc := Conn_Removing\<rparr> # ys\<rparr>"
  have "held ?s = held s"
    using assms(2) live by (simp add: held_def)
  moreover have "clients_inv ?s" "stop_inv ?s"
    using assms(1,2) live by (simp_all add: server_inv_def clients_inv_def stop_inv_def)
  moreover have "open_inv ?s"
    using assms(1,2) live new by (auto simp: server_inv_def open_inv_def list_all_iff)
  ultimately show ?thesis
    using assms(1) by (simp add: server_inv_def held_inv_def owner_inv_def)
qed

lemma filter_neq_absent: "x \<notin> set xs \<Longrightarrow> filter (\<lambda>y. y \<noteq> x) xs = xs"
  by (induction xs) auto

lemma acc_registered_held: "set (acc_registered a) \<subseteq> fst ` set (acc_held a)"
  by (cases a) auto

lemma server_inv_remove:
  assumes "server_inv s" "conn_threads s = xs @ t # ys" "ct_pc t = Conn_Removing"
  shows "server_inv (s\<lparr>client_fds := filter (\<lambda>x. x \<noteq> ct_fd t) (client_fds s), conn_threads := xs @ t\<lparr>ct_pc := Conn_Done\<rparr> # ys\<rparr>)"
proof -
  have live: "live t" "\<not> serving t" "\<not> live (t\<lparr>ct_pc := Conn_Done\<rparr>)"
    using assms(3) by (simp_all add: live_def serving_def)
  note new = other_fds [OF assms(1,2) live(1)]
  have absent: "ct_fd t \<notin> set (acc_registered (accept_thread s))"
    using new(3) acc_registered_held [of "accept_thread s"] by force
  have other: "filter (\<lambda>x. x \<noteq> ct_fd t) (map ct_fd (filter live xs)) = map ct_fd (filter live xs)"
      "filter (\<lambda>x. x \<noteq> ct_fd t) (map ct_fd (filter live ys)) = map ct_fd (filter live ys)"
    using new(1,2) by (auto intro!: filter_neq_absent)
  have closed: "fd_table s (ct_fd t) = None"
    using assms(1,2) live by (simp add: server_inv_def open_inv_def)
  let ?s = "s\<lparr>client_fds := filter (\<lambda>x. x \<noteq> ct_fd t) (client_fds s), conn_threads := xs @ t\<lparr>ct_pc := Conn_Done\<rparr> # ys\<rparr>"
  have "client_fds s = [] \<or> filter (\<lambda>x. x \<noteq> ct_fd t) (client_fds s) =
      map ct_fd (filter live xs) @ map ct_fd (filter live ys) @ acc_registered (accept_thread s)"
    using assms(1,2) live absent other by (auto simp: server_inv_def clients_inv_def filter_neq_absent)
  then have "clients_inv ?s"
    using assms(1,2) live by (auto simp: server_inv_def clients_inv_def)
  moreover have "held_inv ?s" "open_inv ?s" "stop_inv ?s"
    using assms(1,2) live by (auto simp: server_inv_def held_inv_def held_def open_inv_def stop_inv_def)
  moreover have "owner_inv ?s"
    unfolding owner_inv_def
  proof (intro allI impI)
    fix fd c
    assume fd: "fd_table ?s fd = Some (Conn c)"
    then have "fd \<noteq> ct_fd t"
      using closed by auto
    moreover have "(fd, c) \<in> set (held s)"
      using assms(1) fd by (simp add: server_inv_def owner_inv_def)
    ultimately show "(fd, c) \<in> set (held ?s)"
      using assms(2) live by (simp add: held_def)
  qed
  ultimately show ?thesis
    by (simp add: server_inv_def)
qed

lemma push_one_inv: "server_inv s \<Longrightarrow> server_inv (push_one ws msg s fd)"
  by (auto simp: push_one_def server_inv_def server_inv_defs split: option.split resource.split)

lemma server_push_inv: "server_inv s \<Longrightarrow> server_inv (server_push C ws event payload s)"
proof -
  assume "server_inv s"
  then have "server_inv (foldl (push_one ws msg) s fds)" for msg fds
    by (induction fds arbitrary: s) (simp_all add: push_one_inv)
  then show ?thesis
    by (simp add: server_push_def)
qed

lemma stale_live:
  assumes "fd \<notin> set (stale_fds s)" "t \<in> set (conn_threads s)" "live t" "fd_table s fd = None"
  shows "ct_fd t \<noteq> fd"
  using assms by (auto simp: stale_fds_def)

lemma server_inv_foreign:
  assumes "server_inv s"
  shows "fd_table s fd = None \<Longrightarrow> fd \<notin> set (stale_fds s) \<Longrightarrow> server_inv (s\<lparr>fd_table := (fd_table s)(fd \<mapsto> Foreign r)\<rparr>)"
    and "fd_table s fd = Some (Foreign r) \<Longrightarrow> server_inv (s\<lparr>fd_table := (fd_table s)(fd := None)\<rparr>)"
proof -
  show "server_inv (s\<lparr>fd_table := (fd_table s)(fd \<mapsto> Foreign r)\<rparr>)" if "fd_table s fd = None" "fd \<notin> set (stale_fds s)"
  proof -
    let ?s = "s\<lparr>fd_table := (fd_table s)(fd \<mapsto> Foreign r)\<rparr>"
    have "open_inv ?s"
      using assms that(1) stale_live [OF that(2) _ _ that(1)]
      by (auto simp: server_inv_def open_inv_def list_all_iff)
    moreover have "owner_inv ?s"
      using assms by (auto simp: server_inv_def owner_inv_def held_def)
    ultimately show ?thesis
      using assms by (simp add: server_inv_def clients_inv_def held_inv_def held_def stop_inv_def)
  qed
  show "server_inv (s\<lparr>fd_table := (fd_table s)(fd := None)\<rparr>)" if "fd_table s fd = Some (Foreign r)"
  proof -
    let ?s = "s\<lparr>fd_table := (fd_table s)(fd := None)\<rparr>"
    have "open_inv ?s"
      using assms that by (auto simp: server_inv_def open_inv_def list_all_iff split: if_splits)
    moreover have "owner_inv ?s"
      using assms by (auto simp: server_inv_def owner_inv_def held_def)
    ultimately show ?thesis
      using assms by (simp add: server_inv_def clients_inv_def held_inv_def held_def stop_inv_def)
  qed
qed

lemma server_inv_stop:
  assumes "server_inv s"
  shows "sv_running s \<Longrightarrow> server_inv (stop_begin s)"
    and "stopping s = Stop_Joining_Accept \<Longrightarrow> accept_thread s = Acc_Done \<Longrightarrow> server_inv (stop_clients s)"
    and "stopping s = Stop_Joining_Conns \<Longrightarrow> list_all (\<lambda>t. \<not> live t) (conn_threads s) \<Longrightarrow> server_inv (stop_end s)"
proof -
  show "server_inv (stop_begin s)" if "sv_running s"
    using assms that by (auto simp: server_inv_def server_inv_defs stop_begin_def)
  show "server_inv (stop_clients s)" if st: "stopping s = Stop_Joining_Accept" "accept_thread s = Acc_Done"
  proof -
    have fds: "set (client_fds s) = ct_fd ` {t \<in> set (conn_threads s). live t}"
      using assms st by (auto simp: server_inv_def clients_inv_def)
    have "owner_inv (stop_clients s)"
      using assms st fds by (auto simp: server_inv_def owner_inv_def held_def stop_clients_def split: if_splits)
    moreover have "open_inv (stop_clients s)"
      using st fds by (auto simp: open_inv_def stop_clients_def)
    ultimately show ?thesis
      using assms st by (simp add: server_inv_def clients_inv_def held_inv_def held_def stop_inv_def stop_clients_def)
  qed
  show "server_inv (stop_end s)" if "stopping s = Stop_Joining_Conns" "list_all (\<lambda>t. \<not> live t) (conn_threads s)"
  proof -
    have "filter live (conn_threads s) = []"
      using that(2) by (simp add: filter_empty_conv list_all_iff)
    with assms that show ?thesis
      by (auto simp: server_inv_def server_inv_defs stop_end_def)
  qed
qed

lemma conn_respond_inv:
  assumes "server_inv s" "conn_threads s = xs @ t # ys" "ct_pc t = Conn_Responding"
  shows "server_inv (conn_respond s (length xs) ws resp)"
proof -
  have live: "live t" "serving t"
    using assms(3) by (simp_all add: live_def serving_def)
  have inv: "server_inv (s\<lparr>conn_threads := xs @ t\<lparr>ct_pc := pc\<rparr> # ys, written := w\<rparr>)"
    if "pc \<in> {Conn_Test, Conn_Closing}" for pc w
    using server_inv_pc [OF assms(1,2) live, of pc] that
      server_inv_written [of "killed s" w "s\<lparr>conn_threads := xs @ t\<lparr>ct_pc := pc\<rparr> # ys\<rparr>"]
    by (auto simp: serving_def)
  have upd: "(s\<lparr>written := w\<rparr>)\<lparr>conn_threads := l\<rparr> = s\<lparr>conn_threads := l, written := w\<rparr>" for w l
    by simp
  show ?thesis
    using assms(1,2) inv [of Conn_Closing "written s"] inv [of Conn_Closing] inv [of Conn_Test]
      server_inv_written [of True "written s" s]
    by (auto simp: conn_respond_def respond_on_def set_pc_def upd split: option.split resource.split prod.split sum.split)
qed

lemma server_step_inv:
  assumes "server_step C False s s'" "server_inv s"
  shows "server_inv s'"
  using assms
proof (cases rule: server_step.cases)
  case (test i)
  then show ?thesis
    using assms(2) by (elim at_pcE) (auto simp: conn_test_def set_pc_split serving_def live_def intro!: server_inv_pc)
next
  case (end_of_stream i)
  then show ?thesis
    using assms(2) by (elim at_pcE) (auto simp: set_pc_split serving_def live_def intro!: server_inv_pc)
next
  case (request i)
  then show ?thesis
    using assms(2) by (elim at_pcE) (auto simp: set_pc_split serving_def live_def intro!: server_inv_pc)
next
  case (read_error i)
  then show ?thesis
    using assms(2) by (elim at_pcE) (auto simp: set_pc_split serving_def live_def intro!: server_inv_pc)
next
  case (bad_length i)
  then show ?thesis
    using assms(2) server_inv_written [of True "written s" s] by simp
next
  case (respond i ws resp)
  then show ?thesis
    using assms(2) conn_respond_inv by (auto elim!: at_pcE)
next
  case (close i)
  then show ?thesis
    using assms(2) by (elim at_pcE) (auto simp: conn_close_def set_pc_def dest: server_inv_close)
next
  case (remove i)
  then show ?thesis
    using assms(2) by (elim at_pcE) (auto simp: conn_remove_def remove_client_def set_pc_def dest: server_inv_remove)
qed (auto intro: server_inv_accept server_inv_conn server_push_inv server_inv_foreign server_inv_stop)

lemma server_start_inv: "server_start E path server_new = (s, u, Inr ()) \<Longrightarrow> server_inv s"
  by (auto simp: server_start_def server_new_def server_inv_def server_inv_defs split: option.splits if_splits)

lemma server_reach_inv: "server_reach C False s0 s \<Longrightarrow> server_inv s0 \<Longrightarrow> server_inv s"
  by (induction rule: server_reach.induct) (auto intro: server_step_inv)

subsection \<open>Pushing an event\<close>

lemma push_write_full: "0 \<notin> set ws \<Longrightarrow> push_write ws msg = msg"
  by (induction ws msg rule: push_write.induct) auto

definition push_targets :: "ipc_server \<Rightarrow> nat \<Rightarrow> nat list" where
  "push_targets s fd = (case fd_table s fd of Some (Conn c) \<Rightarrow> [c] | _ \<Rightarrow> [])"

lemma foldl_push_one:
  assumes "\<not> killed s"
    and "\<And>fd. fd \<in> set fds \<Longrightarrow> fd_table s fd = None \<or> (\<exists>c. fd_table s fd = Some (Conn c) \<and> c \<notin> peer_closed s)"
  shows "foldl (push_one ws msg) s fds =
    s\<lparr>written := written s @ map (\<lambda>c. (Conn c, push_write ws msg)) (concat (map (push_targets s) fds))\<rparr>"
  using assms
proof (induction fds arbitrary: s)
  case (Cons fd fds)
  let ?s = "push_one ws msg s fd"
  have fd: "?s = s\<lparr>written := written s @ map (\<lambda>c. (Conn c, push_write ws msg)) (push_targets s fd)\<rparr>"
    using Cons.prems(1) Cons.prems(2) [of fd] by (auto simp: push_one_def push_targets_def)
  have "push_targets ?s = push_targets s"
    by (simp add: fd push_targets_def fun_eq_iff)
  moreover have "foldl (push_one ws msg) ?s fds =
      ?s\<lparr>written := written ?s @ map (\<lambda>c. (Conn c, push_write ws msg)) (concat (map (push_targets ?s) fds))\<rparr>"
    using Cons.prems by (intro Cons.IH) (simp_all add: fd)
  ultimately show ?case
    by (simp add: fd)
qed simp

lemma foldl_push_killed: "killed s \<Longrightarrow> killed (foldl (push_one ws msg) s fds)"
  by (induction fds arbitrary: s) (simp_all add: push_one_def)

lemma foldl_push_sigpipe:
  assumes "fd \<in> set fds" "fd_table s fd = Some (Conn c)" "c \<in> peer_closed s"
  shows "killed (foldl (push_one ws msg) s fds)"
  using assms
proof (induction fds arbitrary: s)
  case (Cons x fds)
  have keep: "fd_table (push_one ws msg s x) = fd_table s" "peer_closed (push_one ws msg s x) = peer_closed s"
    by (simp_all add: push_one_def split: option.split resource.split)
  show ?case
  proof (cases "x = fd")
    case True
    then have "killed (push_one ws msg s x)"
      using Cons.prems by (simp add: push_one_def)
    then show ?thesis
      by (simp add: foldl_push_killed)
  next
    case False
    then show ?thesis
      using Cons keep by simp
  qed
qed simp

definition registered_conn :: "acceptor \<Rightarrow> nat list" where
  "registered_conn a = (case a of Acc_Registered fd c \<Rightarrow> [c] | _ \<Rightarrow> [])"

lemma push_targets_clients:
  assumes "server_inv s" "stopping s \<in> {Stop_Idle, Stop_Joining_Accept}"
  shows "concat (map (push_targets s) (client_fds s)) =
    map ct_conn (filter serving (conn_threads s)) @ registered_conn (accept_thread s)"
proof -
  have "\<forall>t\<in>set (conn_threads s). live t \<longrightarrow> push_targets s (ct_fd t) = (if serving t then [ct_conn t] else [])"
    using assms by (auto simp: server_inv_def open_inv_def push_targets_def)
  then have "concat (map (push_targets s) (map ct_fd (filter live ts))) = map ct_conn (filter serving ts)"
    if "set ts \<subseteq> set (conn_threads s)" for ts
    using that by (induction ts) (auto simp: live_serving)
  moreover have "concat (map (push_targets s) (acc_registered (accept_thread s))) = registered_conn (accept_thread s)"
    using assms by (cases "accept_thread s") (auto simp: server_inv_def open_inv_def push_targets_def registered_conn_def)
  ultimately show ?thesis
    using assms by (auto simp: server_inv_def clients_inv_def)
qed

text \<open>
  C16. As long as the system does not hand out the number of a descriptor whose connection is still
  being wound up, the server's bookkeeping is exact in every interleaving of the accepting thread, the
  connections, the rest of the daemon and \<^verbatim>\<open>stop\<close>. In every state so reached in which the process runs,
  \<^verbatim>\<open>stop\<close> has not yet closed the clients and no connection in use has been closed by its peer, an event
  pushed without a failing \<^verbatim>\<open>write\<close> is written, whole and once, to every connection that is being served
  (and to one just registered), in the order they were accepted, and to nothing else.
\<close>

theorem push_reaches_every_client:
  assumes "server_start E path server_new = (s0, u, Inr ())" "server_reach C False s0 s" "\<not> killed s"
    and "stopping s \<in> {Stop_Idle, Stop_Joining_Accept}" "0 \<notin> set ws"
    and "list_all (\<lambda>(fd, c). c \<notin> peer_closed s) (held s)"
  shows "server_push C ws event payload s = s\<lparr>written := written s @
    map (\<lambda>c. (Conn c, frame (encode_push C \<lparr>pu_event = event, pu_payload = payload\<rparr>)))
      (map ct_conn (filter serving (conn_threads s)) @ registered_conn (accept_thread s))\<rparr>"
proof -
  have inv: "server_inv s"
    using server_reach_inv [OF assms(2)] server_start_inv [OF assms(1)] by simp
  have "fd_table s fd = None \<or> (\<exists>c. fd_table s fd = Some (Conn c) \<and> c \<notin> peer_closed s)"
    if "fd \<in> set (client_fds s)" for fd
  proof -
    from that inv assms(4) consider (thread) t where "t \<in> set (conn_threads s)" "live t" "fd = ct_fd t"
      | (accepted) c where "(fd, c) \<in> set (acc_held (accept_thread s))"
      using acc_registered_held [of "accept_thread s"] by (auto simp: server_inv_def clients_inv_def)
    then show ?thesis
    proof cases
      case thread
      then have "(ct_fd t, ct_conn t) \<in> set (held s)"
        by (auto simp: held_def)
      then show ?thesis
        using thread inv assms(4,6) by (auto simp: server_inv_def open_inv_def list_all_iff)
    next
      case accepted
      then have "(fd, c) \<in> set (held s)"
        by (simp add: held_def)
      then show ?thesis
        using accepted inv assms(6) by (auto simp: server_inv_def open_inv_def list_all_iff)
    qed
  qed
  then show ?thesis
    unfolding server_push_def by (simp add: foldl_push_one assms(3) push_write_full assms(5) push_targets_clients [OF inv assms(4)])
qed

text \<open>A server with one client, accepted on descriptor 5 and being served.\<close>

definition demo_up :: ipc_server where
  "demo_up = fst (server_start \<lparr>se_socket = None, se_bind = None, se_listen = None\<rparr> ''s'' server_new)"

definition demo_served :: ipc_server where
  "demo_served = conn_test (spawn_conn (register_client (accept_conn demo_up 5) 5 0) 5 0) 0"

lemmas demo_server_defs = demo_up_def demo_served_def server_start_def server_new_def SUN_PATH_def accept_conn_def
  register_client_def spawn_conn_def conn_test_def set_pc_def conn_close_def conn_remove_def remove_client_def
  stop_begin_def stop_clients_def shut_conns_def

lemma demo_start: "server_start \<lparr>se_socket = None, se_bind = None, se_listen = None\<rparr> ''s'' server_new = (demo_up, True, Inr ())"
  by (simp add: demo_server_defs)

lemma demo_served_reach: "server_reach C reuse demo_up demo_served"
proof -
  have "server_reach C reuse demo_up (accept_conn demo_up 5)"
    by (rule server_reach.step [OF server_reach.start server_step.accept]) (simp_all add: demo_server_defs stale_fds_def)
  then have "server_reach C reuse demo_up (register_client (accept_conn demo_up 5) 5 0)"
    by (rule server_reach.step [OF _ server_step.register]) (simp_all add: demo_server_defs)
  then have "server_reach C reuse demo_up (spawn_conn (register_client (accept_conn demo_up 5) 5 0) 5 0)"
    by (rule server_reach.step [OF _ server_step.spawn]) (simp_all add: demo_server_defs)
  then show ?thesis
    unfolding demo_served_def by (rule server_reach.step [OF _ server_step.test]) (simp_all add: demo_server_defs)
qed

theorem push_reaches_every_client_witness:
  "written (server_push wire_cbor [2, 3] ''e'' [] demo_served) =
     [(Conn 0, frame (encode_push wire_cbor \<lparr>pu_event = ''e'', pu_payload = []\<rparr>))]"
proof -
  have "held demo_served = [(5, 0)]" "\<not> killed demo_served" "stopping demo_served = Stop_Idle" "peer_closed demo_served = {}"
    "written demo_served = []" "accept_thread demo_served = Acc_Waiting" "filter serving (conn_threads demo_served) = [\<lparr>ct_fd = 5, ct_conn = 0, ct_pc = Conn_Reading\<rparr>]"
    by (simp_all add: demo_server_defs held_def live_def serving_def)
  then show ?thesis
    using push_reaches_every_client [OF demo_start demo_served_reach, of "[2, 3]" wire_cbor "''e''" "[]"]
    by (simp add: registered_conn_def)
qed

subsection \<open>A client that hangs up\<close>

text \<open>
  C38. A client that closes its connection can take the daemon with it: from the moment the peer has
  closed until the thread of the connection has closed the descriptor too, an event pushed to the
  clients, or the response to a request of that connection, is written to a socket without a
  reader, and the signal ends the process.
\<close>

theorem client_hangup_kills_server:
  assumes "server_start E path server_new = (s0, u, Inr ())" "server_reach C False s0 s"
    and "stopping s \<in> {Stop_Idle, Stop_Joining_Accept}" "at_pc s i pc" "serving (conn_threads s ! i)"
    and "ct_conn (conn_threads s ! i) \<in> peer_closed s"
  shows "killed (server_push C ws event payload s) \<and> (pc = Conn_Responding \<longrightarrow> killed (conn_respond s i ws' resp))"
proof -
  let ?t = "conn_threads s ! i"
  have inv: "server_inv s"
    using server_reach_inv [OF assms(2)] server_start_inv [OF assms(1)] by simp
  have t: "?t \<in> set (conn_threads s)" "live ?t"
    using assms(4,5) by (simp_all add: live_serving)
  then have fd: "fd_table s (ct_fd ?t) = Some (Conn (ct_conn ?t))"
    using inv assms(3,5) by (simp add: server_inv_def open_inv_def)
  have "ct_fd ?t \<in> set (client_fds s)"
    using inv assms(3) t by (auto simp: server_inv_def clients_inv_def)
  then show ?thesis
    using foldl_push_sigpipe [OF _ fd assms(6)] fd assms(6) by (simp add: server_push_def conn_respond_def)
qed

theorem client_hangup_kills_server_witness:
  "killed (server_push wire_cbor [] ''e'' [] (demo_served\<lparr>peer_closed := {0}\<rparr>))"
proof -
  have "server_reach wire_cbor False demo_up (demo_served\<lparr>peer_closed := insert 0 (peer_closed demo_served)\<rparr>)"
    by (rule server_reach.step [OF demo_served_reach server_step.peer_close]) (simp_all add: demo_server_defs)
  then have "server_reach wire_cbor False demo_up (demo_served\<lparr>peer_closed := {0}\<rparr>)"
    by (simp add: demo_server_defs)
  from client_hangup_kills_server [OF demo_start this, of 0 Conn_Reading]
  show ?thesis
    by (simp add: demo_server_defs serving_def)
qed

subsection \<open>A descriptor number used again\<close>

text \<open>What holds also when numbers are handed out again.\<close>

abbreviation open_phase :: "ipc_server \<Rightarrow> bool" where
  "open_phase s \<equiv> stopping s \<in> {Stop_Idle, Stop_Joining_Accept}"

definition serving_open :: "ipc_server \<Rightarrow> bool" where
  "serving_open s \<longleftrightarrow> (open_phase s \<longrightarrow> shut_down s = {} \<and>
     (\<forall>t\<in>set (conn_threads s). serving t \<longrightarrow> fd_table s (ct_fd t) = Some (Conn (ct_conn t)))) \<and>
     (\<forall>fd c. (fd, c) \<in> set (acc_held (accept_thread s)) \<longrightarrow> fd_table s fd = Some (Conn c))"

definition all_conns :: "ipc_server \<Rightarrow> nat list" where
  "all_conns s = map ct_conn (conn_threads s) @ map snd (acc_held (accept_thread s))"

definition conns_inv :: "ipc_server \<Rightarrow> bool" where
  "conns_inv s \<longleftrightarrow> distinct (all_conns s) \<and> (\<forall>c\<in>set (all_conns s). c < next_conn s)"

definition table_inv :: "ipc_server \<Rightarrow> bool" where
  "table_inv s \<longleftrightarrow> (\<forall>fd c. fd_table s fd = Some (Conn c) \<longrightarrow> c < next_conn s) \<and>
     inj_on (fd_table s) {fd. \<exists>c. fd_table s fd = Some (Conn c)}"

definition reuse_inv :: "ipc_server \<Rightarrow> bool" where
  "reuse_inv s \<longleftrightarrow> serving_open s \<and> conns_inv s \<and> table_inv s \<and> stop_inv s \<and> (stopping s = Stop_Finished \<longrightarrow> conn_threads s = [])"

lemmas reuse_inv_defs = reuse_inv_def serving_open_def conns_inv_def all_conns_def table_inv_def stop_inv_def

lemma reuse_inv_written [simp]:
  "reuse_inv (s\<lparr>written := w\<rparr>) = reuse_inv s" "reuse_inv (s\<lparr>killed := k\<rparr>) = reuse_inv s"
  "reuse_inv (s\<lparr>client_fds := fds\<rparr>) = reuse_inv s" "reuse_inv (s\<lparr>peer_closed := p\<rparr>) = reuse_inv s"
  by (simp_all add: reuse_inv_defs)

lemma reuse_inv_pc:
  assumes "reuse_inv s" "conn_threads s = xs @ t # ys" "serving t \<or> \<not> serving (t\<lparr>ct_pc := pc\<rparr>)"
  shows "reuse_inv (s\<lparr>conn_threads := xs @ t\<lparr>ct_pc := pc\<rparr> # ys\<rparr>)"
proof -
  have "serving_open (s\<lparr>conn_threads := xs @ t\<lparr>ct_pc := pc\<rparr> # ys\<rparr>)"
    using assms by (auto simp: reuse_inv_def serving_open_def)
  then show ?thesis
    using assms(1,2) by (simp add: reuse_inv_def conns_inv_def all_conns_def table_inv_def stop_inv_def)
qed

lemma reuse_inv_push: "reuse_inv s \<Longrightarrow> reuse_inv (server_push C ws event payload s)"
proof -
  assume "reuse_inv s"
  then have "reuse_inv (foldl (push_one ws msg) s fds)" for msg fds
    by (induction fds arbitrary: s) (simp_all add: push_one_def split: option.split resource.split)
  then show ?thesis
    by (simp add: server_push_def)
qed

lemma table_inv_fresh:
  assumes "table_inv s" "fd_table s fd = None" "r = Conn (next_conn s) \<or> (\<exists>x. r = Foreign x)" "next_conn s \<le> n"
    and "r = Conn (next_conn s) \<Longrightarrow> next_conn s < n"
  shows "table_inv (s\<lparr>fd_table := (fd_table s)(fd \<mapsto> r), next_conn := n\<rparr>)"
  using assms unfolding table_inv_def inj_on_def by (auto split: if_splits; fastforce)

lemma table_inv_close: "table_inv s \<Longrightarrow> table_inv (s\<lparr>fd_table := (\<lambda>fd. if P fd then None else fd_table s fd)\<rparr>)"
  unfolding table_inv_def inj_on_def by auto

lemma reuse_inv_accept:
  assumes "reuse_inv s" "accept_thread s = Acc_Waiting" "listening s" "fd_table s fd = None"
  shows "reuse_inv (accept_conn s fd)"
proof -
  have "table_inv (s\<lparr>fd_table := (fd_table s)(fd \<mapsto> Conn (next_conn s)), next_conn := Suc (next_conn s)\<rparr>)"
    using assms by (intro table_inv_fresh) (simp_all add: reuse_inv_def)
  then have "table_inv (accept_conn s fd)"
    by (simp add: accept_conn_def table_inv_def)
  moreover have "serving_open (accept_conn s fd)"
    using assms by (auto simp: reuse_inv_def serving_open_def accept_conn_def)
  moreover have "conns_inv (accept_conn s fd)"
    using assms by (auto simp: reuse_inv_def conns_inv_def all_conns_def accept_conn_def less_Suc_eq)
  ultimately show ?thesis
    using assms by (auto simp: reuse_inv_def stop_inv_def accept_conn_def)
qed

lemma reuse_inv_acceptor:
  assumes "reuse_inv s"
  shows "accept_thread s = Acc_Got fd c \<Longrightarrow> reuse_inv (register_client s fd c)"
    and "accept_thread s = Acc_Registered fd c \<Longrightarrow> reuse_inv (spawn_conn s fd c)"
    and "accept_thread s = Acc_Waiting \<Longrightarrow> reuse_inv (s\<lparr>accept_thread := Acc_Done\<rparr>)"
proof -
  show "reuse_inv (register_client s fd c)" if "accept_thread s = Acc_Got fd c"
    using assms that by (simp add: reuse_inv_defs register_client_def)
  show "reuse_inv (spawn_conn s fd c)" if "accept_thread s = Acc_Registered fd c"
    using assms that by (auto simp: reuse_inv_def serving_open_def conns_inv_def all_conns_def table_inv_def stop_inv_def spawn_conn_def)
  show "reuse_inv (s\<lparr>accept_thread := Acc_Done\<rparr>)" if "accept_thread s = Acc_Waiting"
    using assms that by (simp add: reuse_inv_defs)
qed

lemma reuse_owner:
  assumes "reuse_inv s" "conn_threads s = xs @ t # ys" "serving t" "open_phase s"
  shows "u \<in> set (xs @ ys) \<Longrightarrow> serving u \<Longrightarrow> ct_fd u \<noteq> ct_fd t" and "(ct_fd t, c) \<notin> set (acc_held (accept_thread s))"
proof -
  have fd: "fd_table s (ct_fd u) = Some (Conn (ct_conn u))" if "u \<in> set (conn_threads s)" "serving u" for u
    using assms(1,4) that by (auto simp: reuse_inv_def serving_open_def)
  have d: "distinct (map ct_conn xs @ ct_conn t # map ct_conn ys @ map snd (acc_held (accept_thread s)))"
    using assms(1,2) by (simp add: reuse_inv_def conns_inv_def all_conns_def)
  show "ct_fd u \<noteq> ct_fd t" if u: "u \<in> set (xs @ ys)" "serving u"
  proof
    assume eq: "ct_fd u = ct_fd t"
    have "fd_table s (ct_fd u) = Some (Conn (ct_conn u))" "fd_table s (ct_fd t) = Some (Conn (ct_conn t))"
      using u assms(2,3) by (auto intro!: fd)
    then have "ct_conn u = ct_conn t"
      unfolding eq by simp
    moreover have "ct_conn u \<noteq> ct_conn t"
      using d u(1) by (auto simp: image_iff)
    ultimately show False
      by simp
  qed
  show "(ct_fd t, c) \<notin> set (acc_held (accept_thread s))"
  proof
    assume c: "(ct_fd t, c) \<in> set (acc_held (accept_thread s))"
    then have "fd_table s (ct_fd t) = Some (Conn c)"
      using assms(1) by (simp add: reuse_inv_def serving_open_def)
    then have "c = ct_conn t"
      using fd [of t] assms(2,3) by simp
    moreover have "c \<noteq> ct_conn t"
      using d c by (force simp: image_iff)
    ultimately show False
      by simp
  qed
qed

lemma reuse_inv_close:
  assumes "reuse_inv s" "conn_threads s = xs @ t # ys" "ct_pc t = Conn_Closing"
  shows "reuse_inv (s\<lparr>fd_table := (fd_table s)(ct_fd t := None), conn_threads := xs @ t\<lparr>ct_pc := Conn_Removing\<rparr> # ys\<rparr>)"
proof -
  let ?s = "s\<lparr>fd_table := (fd_table s)(ct_fd t := None), conn_threads := xs @ t\<lparr>ct_pc := Conn_Removing\<rparr> # ys\<rparr>"
  have t: "serving t" "\<not> serving (t\<lparr>ct_pc := Conn_Removing\<rparr>)"
    using assms(3) by (simp_all add: serving_def)
  have acc: "open_phase s" if "(fd, c) \<in> set (acc_held (accept_thread s))" for fd c
    using assms(1) that by (cases "stopping s") (auto simp: reuse_inv_def stop_inv_def)
  have "serving_open ?s"
    using assms(1,2) t reuse_owner [OF assms(1,2) t(1)] acc by (auto simp: reuse_inv_def serving_open_def)
  moreover have "table_inv (s\<lparr>fd_table := (\<lambda>fd. if fd = ct_fd t then None else fd_table s fd)\<rparr>)"
    using assms(1) by (intro table_inv_close) (simp add: reuse_inv_def)
  then have "table_inv ?s"
    by (simp add: table_inv_def fun_upd_def)
  ultimately show ?thesis
    using assms(1,2) by (simp add: reuse_inv_def conns_inv_def all_conns_def stop_inv_def)
qed

lemma reuse_inv_stop:
  assumes "reuse_inv s"
  shows "sv_running s \<Longrightarrow> reuse_inv (stop_begin s)"
    and "stopping s = Stop_Joining_Accept \<Longrightarrow> accept_thread s = Acc_Done \<Longrightarrow> reuse_inv (stop_clients s)"
    and "stopping s = Stop_Joining_Conns \<Longrightarrow> reuse_inv (stop_end s)"
proof -
  show "reuse_inv (stop_begin s)" if "sv_running s"
    using assms that by (simp add: reuse_inv_defs stop_begin_def)
  show "reuse_inv (stop_clients s)" if "stopping s = Stop_Joining_Accept" "accept_thread s = Acc_Done"
  proof -
    have "table_inv (s\<lparr>fd_table := (\<lambda>fd. if fd \<in> set (client_fds s) then None else fd_table s fd)\<rparr>)"
      using assms by (intro table_inv_close) (simp add: reuse_inv_def)
    then show ?thesis
      using assms that by (simp add: reuse_inv_def serving_open_def conns_inv_def all_conns_def table_inv_def stop_inv_def stop_clients_def)
  qed
  show "reuse_inv (stop_end s)" if "stopping s = Stop_Joining_Conns"
    using assms that by (simp add: reuse_inv_defs stop_end_def)
qed

lemma reuse_inv_foreign:
  assumes "reuse_inv s"
  shows "fd_table s fd = None \<Longrightarrow> reuse_inv (s\<lparr>fd_table := (fd_table s)(fd \<mapsto> Foreign r)\<rparr>)"
    and "fd_table s fd = Some (Foreign r) \<Longrightarrow> reuse_inv (s\<lparr>fd_table := (fd_table s)(fd := None)\<rparr>)"
proof -
  show "reuse_inv (s\<lparr>fd_table := (fd_table s)(fd \<mapsto> Foreign r)\<rparr>)" if "fd_table s fd = None"
  proof -
    have "table_inv (s\<lparr>fd_table := (fd_table s)(fd \<mapsto> Foreign r), next_conn := next_conn s\<rparr>)"
      using assms that by (intro table_inv_fresh) (simp_all add: reuse_inv_def)
    then show ?thesis
      using assms that by (auto simp: reuse_inv_def serving_open_def conns_inv_def all_conns_def table_inv_def stop_inv_def)
  qed
  show "reuse_inv (s\<lparr>fd_table := (fd_table s)(fd := None)\<rparr>)" if "fd_table s fd = Some (Foreign r)"
  proof -
    have "table_inv (s\<lparr>fd_table := (\<lambda>x. if x = fd then None else fd_table s x)\<rparr>)"
      using assms by (intro table_inv_close) (simp add: reuse_inv_def)
    then show ?thesis
      using assms that by (auto simp: reuse_inv_def serving_open_def conns_inv_def all_conns_def table_inv_def stop_inv_def fun_upd_def)
  qed
qed

lemma reuse_inv_respond:
  assumes "reuse_inv s" "conn_threads s = xs @ t # ys" "ct_pc t = Conn_Responding"
  shows "reuse_inv (conn_respond s (length xs) ws resp)"
proof -
  have "serving t"
    using assms(3) by (simp add: serving_def)
  then have pc: "reuse_inv (s\<lparr>conn_threads := xs @ t\<lparr>ct_pc := pc\<rparr> # ys\<rparr>)" for pc
    by (intro reuse_inv_pc [OF assms(1,2)]) simp
  have upd: "set_pc (s\<lparr>written := w\<rparr>) (length xs) pc = (s\<lparr>conn_threads := xs @ t\<lparr>ct_pc := pc\<rparr> # ys\<rparr>)\<lparr>written := w\<rparr>" for w pc
    using assms(2) by (simp add: set_pc_def)
  show ?thesis
    using assms(1) pc by (auto simp: conn_respond_def respond_on_def upd set_pc_split [OF assms(2)]
        split: option.split resource.split prod.split sum.split)
qed

lemma reuse_inv_remove:
  assumes "reuse_inv s" "at_pc s i Conn_Removing"
  shows "reuse_inv (conn_remove s i)"
proof -
  obtain xs t ys where split: "conn_threads s = xs @ t # ys" "i = length xs" "ct_pc t = Conn_Removing"
    using assms(2) by (rule at_pcE)
  let ?r = "s\<lparr>client_fds := filter (\<lambda>x. x \<noteq> ct_fd t) (client_fds s)\<rparr>"
  have "conn_remove s i = ?r\<lparr>conn_threads := xs @ t\<lparr>ct_pc := Conn_Done\<rparr> # ys\<rparr>"
    using split by (simp add: conn_remove_def remove_client_def set_pc_def)
  moreover have "reuse_inv (?r\<lparr>conn_threads := xs @ t\<lparr>ct_pc := Conn_Done\<rparr> # ys\<rparr>)"
    using assms(1) split by (intro reuse_inv_pc) (simp_all add: serving_def)
  ultimately show ?thesis
    by metis
qed

lemma server_step_reuse_inv:
  assumes "server_step C reuse s s'" "reuse_inv s"
  shows "reuse_inv s'"
  using assms
proof (cases rule: server_step.cases)
  case (test i)
  then show ?thesis
    using assms(2) by (elim at_pcE) (auto simp: conn_test_def set_pc_split serving_def intro!: reuse_inv_pc)
next
  case (end_of_stream i)
  then show ?thesis
    using assms(2) by (elim at_pcE) (auto simp: set_pc_split serving_def intro!: reuse_inv_pc)
next
  case (request i)
  then show ?thesis
    using assms(2) by (elim at_pcE) (auto simp: set_pc_split serving_def intro!: reuse_inv_pc)
next
  case (read_error i)
  then show ?thesis
    using assms(2) by (elim at_pcE) (auto simp: set_pc_split serving_def intro!: reuse_inv_pc)
next
  case (respond i ws resp)
  then show ?thesis
    using assms(2) reuse_inv_respond by (auto elim!: at_pcE)
next
  case (close i)
  then show ?thesis
    using assms(2) by (elim at_pcE) (auto simp: conn_close_def set_pc_def dest: reuse_inv_close)
next
  case (remove i)
  then show ?thesis
    using assms(2) reuse_inv_remove by simp
qed (auto intro: reuse_inv_accept reuse_inv_acceptor reuse_inv_push reuse_inv_foreign reuse_inv_stop)

lemma server_reach_reuse_inv: "server_reach C reuse s0 s \<Longrightarrow> reuse_inv s0 \<Longrightarrow> reuse_inv s"
  by (induction rule: server_reach.induct) (auto intro: server_step_reuse_inv)

lemma server_start_reuse_inv: "server_start E path server_new = (s, u, Inr ()) \<Longrightarrow> reuse_inv s"
  by (auto simp: server_start_def server_new_def reuse_inv_defs split: option.splits if_splits)

text \<open>Connection \<open>c\<close>, served by thread \<open>j\<close> on descriptor \<open>fd\<close>, is not in the list of clients and never will be.\<close>

definition lost :: "nat \<Rightarrow> nat \<Rightarrow> nat \<Rightarrow> ipc_server \<Rightarrow> bool" where
  "lost j fd c s \<longleftrightarrow> fd_table s fd = Some (Conn c) \<and> fd \<notin> set (client_fds s) \<and> fd \<notin> fst ` set (acc_held (accept_thread s)) \<and>
     c \<notin> shut_down s \<and> (\<forall>k<length (conn_threads s). k \<noteq> j \<and> serving (conn_threads s ! k) \<longrightarrow> ct_fd (conn_threads s ! k) \<noteq> fd)"

definition orphan :: "nat \<Rightarrow> nat \<Rightarrow> nat \<Rightarrow> ipc_server \<Rightarrow> bool" where
  "orphan j fd c s \<longleftrightarrow> stopping s = Stop_Finished \<or> (j < length (conn_threads s) \<and> ct_fd (conn_threads s ! j) = fd \<and>
     ct_conn (conn_threads s ! j) = c \<and> (serving (conn_threads s ! j) \<longrightarrow> lost j fd c s))"

lemma orphan_set_pc:
  assumes "orphan j fd c s" "i < length (conn_threads s)" "serving (conn_threads s ! i)"
  shows "orphan j fd c (set_pc s i pc)"
  using assms by (auto simp: orphan_def lost_def set_pc_def nth_list_update)

lemma orphan_other [simp]:
  "orphan j fd c (s\<lparr>written := w\<rparr>) = orphan j fd c s" "orphan j fd c (s\<lparr>killed := k\<rparr>) = orphan j fd c s"
  "orphan j fd c (s\<lparr>peer_closed := p\<rparr>) = orphan j fd c s"
  by (simp_all add: orphan_def lost_def)

lemma orphan_push: "orphan j fd c s \<Longrightarrow> orphan j fd c (server_push C ws event payload s)"
proof -
  assume "orphan j fd c s"
  then have "orphan j fd c (foldl (push_one ws msg) s fds)" for msg fds
    by (induction fds arbitrary: s) (simp_all add: push_one_def split: option.split resource.split)
  then show ?thesis
    by (simp add: server_push_def)
qed

lemma orphan_respond:
  assumes "orphan j fd c s" "at_pc s i Conn_Responding"
  shows "orphan j fd c (conn_respond s i ws resp)"
proof -
  have "serving (conn_threads s ! i)"
    using assms(2) by (simp add: serving_def)
  then have "orphan j fd c (set_pc (s\<lparr>written := w\<rparr>) i pc)" "orphan j fd c (set_pc s i pc)" for w pc
    using assms orphan_set_pc [of j fd c "s\<lparr>written := w\<rparr>" i pc] orphan_set_pc [of j fd c s i pc] by simp_all
  then show ?thesis
    using assms(1) by (auto simp: conn_respond_def respond_on_def split: option.split resource.split prod.split sum.split)
qed

lemma orphan_close:
  assumes "orphan j fd c s" "at_pc s i Conn_Closing"
  shows "orphan j fd c (conn_close s i)"
proof -
  have "serving (conn_threads s ! i)" "\<not> serving ((conn_threads s ! i)\<lparr>ct_pc := Conn_Removing\<rparr>)"
    using assms(2) by (simp_all add: serving_def)
  with assms show ?thesis
    by (cases "i = j") (auto simp: orphan_def lost_def conn_close_def set_pc_def nth_list_update)
qed

lemma orphan_remove:
  assumes "orphan j fd c s" "at_pc s i Conn_Removing"
  shows "orphan j fd c (conn_remove s i)"
proof -
  have "\<not> serving ((conn_threads s ! i)\<lparr>ct_pc := Conn_Done\<rparr>)"
    by (simp add: serving_def)
  with assms show ?thesis
    by (cases "i = j") (auto simp: orphan_def lost_def conn_remove_def remove_client_def set_pc_def nth_list_update)
qed

lemma orphan_acceptor:
  assumes "orphan j fd c s" "reuse_inv s"
  shows "accept_thread s = Acc_Waiting \<Longrightarrow> listening s \<Longrightarrow> fd_table s x = None \<Longrightarrow> orphan j fd c (accept_conn s x)"
    and "accept_thread s = Acc_Got x y \<Longrightarrow> orphan j fd c (register_client s x y)"
    and "accept_thread s = Acc_Registered x y \<Longrightarrow> orphan j fd c (spawn_conn s x y)"
    and "accept_thread s = Acc_Waiting \<Longrightarrow> orphan j fd c (s\<lparr>accept_thread := Acc_Done\<rparr>)"
proof -
  show "orphan j fd c (accept_conn s x)" if "accept_thread s = Acc_Waiting" "fd_table s x = None"
    using assms(1) that by (auto simp: orphan_def lost_def accept_conn_def)
  show "orphan j fd c (register_client s x y)" if "accept_thread s = Acc_Got x y"
    using assms(1) that by (auto simp: orphan_def lost_def register_client_def)
  show "orphan j fd c (spawn_conn s x y)" if "accept_thread s = Acc_Registered x y"
    using assms that by (auto simp: orphan_def lost_def spawn_conn_def nth_append less_Suc_eq reuse_inv_def stop_inv_def)
  show "orphan j fd c (s\<lparr>accept_thread := Acc_Done\<rparr>)" if "accept_thread s = Acc_Waiting"
    using assms(1) that by (auto simp: orphan_def lost_def)
qed

lemma conn_fd_unique: "reuse_inv s \<Longrightarrow> fd_table s x = Some (Conn c) \<Longrightarrow> fd_table s y = Some (Conn c) \<Longrightarrow> x = y"
  unfolding reuse_inv_def table_inv_def inj_on_def by auto

lemma orphan_stop:
  assumes "orphan j fd c s" "reuse_inv s"
  shows "sv_running s \<Longrightarrow> orphan j fd c (stop_begin s)"
    and "stopping s = Stop_Joining_Accept \<Longrightarrow> orphan j fd c (stop_clients s)"
    and "orphan j fd c (stop_end s)"
proof -
  show "orphan j fd c (stop_begin s)" if "sv_running s"
    using assms that by (auto simp: orphan_def lost_def stop_begin_def reuse_inv_def stop_inv_def)
  have "c \<notin> set (shut_conns s)" if "fd_table s fd = Some (Conn c)" "fd \<notin> set (client_fds s)"
  proof -
    have "x = fd" if "fd_table s x = Some (Conn c)" for x
      by (rule conn_fd_unique [OF assms(2) that \<open>fd_table s fd = Some (Conn c)\<close>])
    then show ?thesis
      using that(2) by (auto simp: shut_conns_def split: option.splits resource.splits)
  qed
  then show "orphan j fd c (stop_clients s)" if "stopping s = Stop_Joining_Accept"
    using assms(1) that by (auto simp: orphan_def lost_def stop_clients_def)
  show "orphan j fd c (stop_end s)"
    by (simp add: orphan_def stop_end_def)
qed

lemma server_step_orphan:
  assumes "server_step C reuse s s'" "orphan j fd c s" "reuse_inv s"
  shows "orphan j fd c s'"
  using assms
proof (cases rule: server_step.cases)
  case (foreign_open x r)
  then show ?thesis
    using assms(2) by (auto simp: orphan_def lost_def)
next
  case (foreign_close x r)
  then show ?thesis
    using assms(2) by (auto simp: orphan_def lost_def)
qed (auto simp: conn_test_def serving_def intro: orphan_set_pc orphan_push orphan_respond orphan_close orphan_remove
    orphan_acceptor orphan_stop)

lemma orphan_removed:
  assumes "at_pc s i Conn_Removing" "j < length (conn_threads s)" "serving (conn_threads s ! j)"
    and "ct_fd (conn_threads s ! j) = fd" "ct_fd (conn_threads s ! i) = fd" "ct_conn (conn_threads s ! j) = c"
    and "fd_table s fd = Some (Conn c)" "c \<notin> shut_down s" "fd \<notin> fst ` set (acc_held (accept_thread s))"
    and own: "\<And>k. k < length (conn_threads s) \<Longrightarrow> k \<noteq> j \<Longrightarrow> serving (conn_threads s ! k) \<Longrightarrow> ct_fd (conn_threads s ! k) \<noteq> fd"
  shows "orphan j fd c (conn_remove s i)"
proof -
  have ij: "i \<noteq> j"
    using assms(1,3) by (auto simp: serving_def)
  have nth: "conn_threads (conn_remove s i) ! k =
      (if k = i then (conn_threads s ! i)\<lparr>ct_pc := Conn_Done\<rparr> else conn_threads s ! k)" for k
    using assms(1) by (simp add: conn_remove_def remove_client_def set_pc_def nth_list_update)
  have rest: "fd_table (conn_remove s i) = fd_table s" "shut_down (conn_remove s i) = shut_down s"
    "accept_thread (conn_remove s i) = accept_thread s" "length (conn_threads (conn_remove s i)) = length (conn_threads s)"
    "fd \<notin> set (client_fds (conn_remove s i))"
    using assms(5) by (simp_all add: conn_remove_def remove_client_def set_pc_def)
  have "lost j fd c (conn_remove s i)"
    unfolding lost_def rest nth using assms(7-9) rest(5) own by (auto simp: serving_def)
  then show ?thesis
    using assms(2,4,6) ij by (simp add: orphan_def rest nth)
qed

lemma nth_remove_elem:
  assumes "zs = xs @ z # ys" "k < length zs" "k \<noteq> length xs"
  shows "zs ! k \<in> set (xs @ ys)"
  using assms by (cases "k < length xs") (auto simp: nth_append nth_Cons')

lemma push_avoids:
  assumes "\<forall>fd\<in>set fds. fd_table s fd \<noteq> Some (Conn c)"
  shows "filter (\<lambda>(r, _). r = Conn c) (written (foldl (push_one ws msg) s fds)) = filter (\<lambda>(r, _). r = Conn c) (written s)"
  using assms
proof (induction fds arbitrary: s)
  case (Cons fd fds)
  have "fd_table (push_one ws msg s fd) = fd_table s"
    "filter (\<lambda>(r, _). r = Conn c) (written (push_one ws msg s fd)) = filter (\<lambda>(r, _). r = Conn c) (written s)"
    using Cons.prems by (auto simp: push_one_def split: option.split resource.split)
  then show ?case
    using Cons by simp
qed simp

text \<open>
  C39. \<^verbatim>\<open>conn_loop\<close> closes the descriptor before \<^verbatim>\<open>remove_client\<close> takes it off the list. Whenever another client has been
  given the same number in between, \<^verbatim>\<open>remove_client\<close> removes both entries. In whatever way the run goes on, as
  long as the other client is being served: no event pushed is written to its connection, \<^verbatim>\<open>stop\<close> never shuts the
  connection down, and \<^verbatim>\<open>stop\<close>, which waits for its thread, does not finish.
\<close>

theorem fd_reuse_loses_client:
  assumes "server_start E path server_new = (s0, u, Inr ())" "server_reach C True s0 s"
    and "stopping s \<in> {Stop_Idle, Stop_Joining_Accept}" "at_pc s i Conn_Removing" "at_pc s j pc" "serving (conn_threads s ! j)"
    and "ct_fd (conn_threads s ! j) = ct_fd (conn_threads s ! i)" "ct_conn (conn_threads s ! j) = c"
    and "server_reach C True (conn_remove s i) s'" "at_pc s' j pc'" "serving (conn_threads s' ! j)"
  shows "ct_conn (conn_threads s' ! j) = c \<and>
    filter (\<lambda>(r, _). r = Conn c) (written (server_push C ws event payload s')) = filter (\<lambda>(r, _). r = Conn c) (written s') \<and>
    c \<notin> shut_down s' \<and> stopping s' \<noteq> Stop_Finished"
proof -
  let ?t = "conn_threads s ! j" and ?s1 = "conn_remove s i"
  have inv: "reuse_inv s"
    using server_reach_reuse_inv [OF assms(2) server_start_reuse_inv [OF assms(1)]] .
  obtain xs ys where split: "conn_threads s = xs @ ?t # ys" "length xs = j"
    using assms(5) id_take_nth_drop [of j "conn_threads s"] by (metis length_take min.absorb2 less_imp_le_nat)
  have fd: "fd_table s (ct_fd ?t) = Some (Conn c)" "c \<notin> shut_down s"
    using inv assms(3,5,6,8) by (auto simp: reuse_inv_def serving_open_def)
  have own: "ct_fd (conn_threads s ! k) \<noteq> ct_fd ?t" if "k < length (conn_threads s)" "k \<noteq> j" "serving (conn_threads s ! k)" for k
  proof (rule reuse_owner(1) [OF inv split(1) assms(6,3) _ that(3)])
    show "conn_threads s ! k \<in> set (xs @ ys)"
      by (rule nth_remove_elem [OF split(1)]) (use that(1,2) split(2) in simp_all)
  qed
  have "ct_fd ?t \<notin> fst ` set (acc_held (accept_thread s))"
    using reuse_owner(2) [OF inv split(1) assms(6,3)] by auto
  then have "orphan j (ct_fd ?t) c ?s1"
    using assms(4-8) fd own by (intro orphan_removed) simp_all
  moreover have "reuse_inv ?s1 \<and> (orphan j (ct_fd ?t) c ?s1 \<longrightarrow> orphan j (ct_fd ?t) c s') \<and> reuse_inv s'"
    using assms(9)
  proof (induction rule: server_reach.induct)
    case start
    show ?case
      using reuse_inv_remove [OF inv assms(4)] by simp
  qed (auto intro: server_step_orphan server_step_reuse_inv)
  ultimately have s': "orphan j (ct_fd ?t) c s'" "reuse_inv s'"
    by simp_all
  then have run: "stopping s' \<noteq> Stop_Finished"
    using assms(10) by (auto simp: reuse_inv_def)
  then have lost: "lost j (ct_fd ?t) c s'" "ct_conn (conn_threads s' ! j) = c"
    using s'(1) assms(10,11) by (simp_all add: orphan_def)
  have "fd_table s' x \<noteq> Some (Conn c)" if "x \<in> set (client_fds s')" for x
    using lost(1) that conn_fd_unique [OF s'(2), of "ct_fd ?t" c x] by (auto simp: lost_def)
  then show ?thesis
    using push_avoids [of "client_fds s'" s' c] lost run by (simp add: server_push_def lost_def)
qed

theorem fd_reuse_loses_client_witness:
  "\<exists>s s'. server_reach wire_cbor True demo_up s \<and> client_fds s = [5, 5] \<and> server_reach wire_cbor True (conn_remove s 0) s' \<and>
     stopping s' = Stop_Joining_Conns \<and> ct_conn (conn_threads s' ! 1) = 1 \<and> 1 \<notin> peer_closed s' \<union> shut_down s' \<and>
     filter (\<lambda>(r, _). r = Conn 1) (written (server_push wire_cbor [] ''e'' [] s')) = []"
proof -
  define s1 where "s1 = conn_close (set_pc (demo_served\<lparr>peer_closed := {0}\<rparr>) 0 Conn_Closing) 0"
  define s2 where "s2 = conn_test (spawn_conn (register_client (accept_conn s1 5) 5 1) 5 1) 1"
  define s3 where "s3 = conn_remove s2 0"
  define s4 where "s4 = stop_clients ((stop_begin s3)\<lparr>accept_thread := Acc_Done\<rparr>)"
  note defs = s1_def s2_def s3_def s4_def demo_server_defs
  have "server_reach wire_cbor True demo_up (demo_served\<lparr>peer_closed := insert 0 (peer_closed demo_served)\<rparr>)"
    by (rule server_reach.step [OF demo_served_reach server_step.peer_close]) (simp_all add: demo_server_defs)
  then have "server_reach wire_cbor True demo_up (demo_served\<lparr>peer_closed := {0}\<rparr>)"
    by (simp add: demo_server_defs)
  then have "server_reach wire_cbor True demo_up (set_pc (demo_served\<lparr>peer_closed := {0}\<rparr>) 0 Conn_Closing)"
    by (rule server_reach.step [OF _ server_step.end_of_stream]) (simp_all add: demo_server_defs)
  then have "server_reach wire_cbor True demo_up s1"
    unfolding s1_def by (rule server_reach.step [OF _ server_step.close]) (simp_all add: demo_server_defs)
  then have "server_reach wire_cbor True demo_up (accept_conn s1 5)"
    by (rule server_reach.step [OF _ server_step.accept]) (simp_all add: s1_def demo_server_defs)
  then have "server_reach wire_cbor True demo_up (register_client (accept_conn s1 5) 5 1)"
    by (rule server_reach.step [OF _ server_step.register]) (simp_all add: s1_def demo_server_defs)
  then have "server_reach wire_cbor True demo_up (spawn_conn (register_client (accept_conn s1 5) 5 1) 5 1)"
    by (rule server_reach.step [OF _ server_step.spawn]) (simp_all add: s1_def demo_server_defs)
  then have reach: "server_reach wire_cbor True demo_up s2"
    unfolding s2_def by (rule server_reach.step [OF _ server_step.test]) (simp_all add: s1_def demo_server_defs)
  have "server_reach wire_cbor True s3 (stop_begin s3)"
    by (rule server_reach.step [OF server_reach.start server_step.stop1]) (simp_all add: s1_def s2_def s3_def demo_server_defs)
  then have "server_reach wire_cbor True s3 ((stop_begin s3)\<lparr>accept_thread := Acc_Done\<rparr>)"
    by (rule server_reach.step [OF _ server_step.accept_end]) (simp_all add: s1_def s2_def s3_def demo_server_defs)
  then have reach': "server_reach wire_cbor True (conn_remove s2 0) s4"
    unfolding s4_def s3_def [symmetric] by (rule server_reach.step [OF _ server_step.stop2]) (simp_all add: s1_def s2_def s3_def demo_server_defs)
  have "stopping s2 = Stop_Idle" "at_pc s2 0 Conn_Removing" "at_pc s2 1 Conn_Reading" "at_pc s4 1 Conn_Reading" "client_fds s2 = [5, 5]"
    "ct_fd (conn_threads s2 ! 1) = ct_fd (conn_threads s2 ! 0)" "ct_conn (conn_threads s2 ! 1) = 1"
    "stopping s4 = Stop_Joining_Conns" "1 \<notin> peer_closed s4" "written s4 = []"
    by (simp_all add: defs)
  with fd_reuse_loses_client [OF demo_start reach _ _ _ _ _ _ reach', of 1 Conn_Reading 1 Conn_Reading "[]" "''e''" "[]"] reach reach'
  show ?thesis
    by (intro exI [of _ s2] exI [of _ s4]) (simp add: serving_def)
qed

end
