(* ===== verification/Ipc_Client.thy ===== *)
theory Ipc_Client
  imports Ipc_Server
begin

text \<open>
  The life of an IPC client (\<^verbatim>\<open>common/src/ipc/client.cpp\<close>): connecting, calls, the receiving thread,
  disconnecting, destruction. \<^verbatim>\<open>Ipc\<close> has the halves of a call and one round of the receiving loop; here
  they get the descriptor, the flag \<^verbatim>\<open>running_\<close> and the thread object. A thread object that still has a
  thread must not be assigned or destroyed: that ends the process.
\<close>

record ipc_conn = ipc_client +
  cn_fd :: "nat option"
  cn_running :: bool
  cn_thread :: thread_state

definition conn_new :: ipc_conn where
  "conn_new = \<lparr>next_id = 1, pending = [], cn_fd = None, cn_running = False, cn_thread = No_Thread\<rparr>"

text \<open>The descriptor \<^verbatim>\<open>socket\<close> gives or its error text, and the error text of \<^verbatim>\<open>connect\<close>.\<close>

record connect_env =
  cv_socket :: "string + nat"
  cv_connect :: "string option"

definition conn_connect :: "connect_env \<Rightarrow> string \<Rightarrow> ipc_conn \<Rightarrow> (ipc_conn \<times> unit res) outcome" where
  "conn_connect E path c =
     (case cv_socket E of
        Inl err \<Rightarrow> Returns (c\<lparr>cn_fd := None\<rparr>, Inl (Runtime_Error (''socket() failed: '' @ err)))
      | Inr fd \<Rightarrow>
          if SUN_PATH \<le> length path then Returns (c\<lparr>cn_fd := Some fd\<rparr>, Inl (Runtime_Error ''Socket path too long''))
          else case cv_connect E of
                 Some err \<Rightarrow> Returns (c\<lparr>cn_fd := None\<rparr>, Inl (Runtime_Error (''connect() failed: '' @ err)))
               | None \<Rightarrow>
                   if cn_thread c \<noteq> No_Thread then Terminates
                   else Returns (c\<lparr>cn_fd := Some fd, cn_running := True, cn_thread := Thread_Running\<rparr>, Inr ()))"

definition disconnected_response :: "u64 \<Rightarrow> response" where
  "disconnected_response i =
     \<lparr>rs_id = i, rs_ok = False, rs_result = [], rs_code = - 1, rs_message = ''disconnected''\<rparr>"

text \<open>The responses are those given to the calls that were waiting.\<close>

definition conn_disconnect :: "ipc_conn \<Rightarrow> ipc_conn \<times> response list" where
  "conn_disconnect c =
     (if \<not> cn_running c then (c, [])
      else (c\<lparr>cn_running := False, cn_fd := None, cn_thread := No_Thread, pending := []\<rparr>,
            map disconnected_response (sort (pending c))))"

definition conn_destroy :: "ipc_conn \<Rightarrow> response list outcome" where
  "conn_destroy c =
     (case conn_disconnect c of (c', rs) \<Rightarrow> if cn_thread c' \<noteq> No_Thread then Terminates else Returns rs)"

definition is_connected :: "ipc_conn \<Rightarrow> bool" where
  "is_connected c = cn_running c"

text \<open>
  \<^verbatim>\<open>call\<close> up to the write of the request, \<open>ws\<close> being the results of the writes: the exception, or the identifier
  of the call and the bytes written. When a write fails, the call stays in the list of those that wait.
\<close>

definition conn_call :: "cbor_lib \<Rightarrow> ipc_conn \<Rightarrow> int list \<Rightarrow> string \<Rightarrow> cmap \<Rightarrow> string \<Rightarrow> ipc_conn \<times> (u64 \<times> bytes) res" where
  "conn_call C c ws method params caller =
     (if \<not> cn_running c then (c, Inl (Runtime_Error (''IPC client not connected: '' @ method)))
      else let i = next_id c
           in (c\<lparr>next_id := i + 1, pending := List.insert i (pending c)\<rparr>,
               case write_frame ws (encode_request C
                 \<lparr>rq_id = i, rq_caller = caller, rq_method = method, rq_params = params\<rparr>) of
                 (_, Inl e) \<Rightarrow> Inl e
               | (out, Inr _) \<Rightarrow> Inr (i, out)))"

text \<open>
  One payload in \<^verbatim>\<open>recv_loop\<close>; \<open>handler\<close> says whether a push handler is registered. A response is decoded
  outside every handler of exceptions.
\<close>

definition conn_recv :: "cbor_lib \<Rightarrow> bool \<Rightarrow> ipc_conn \<Rightarrow> bytes \<Rightarrow> (ipc_conn \<times> client_event) res" where
  "conn_recv C handler c payload =
     (case detect C payload of
        MT_Response \<Rightarrow>
          rbind (decode_response C payload) (\<lambda>resp.
            if rs_id resp \<in> set (pending c)
            then Inr (c\<lparr>pending := removeAll (rs_id resp) (pending c)\<rparr>, Completed (rs_id resp) resp)
            else Inr (c, Ignored))
      | MT_Push \<Rightarrow>
          (if handler then (case decode_push C payload of Inr p \<Rightarrow> Inr (c, Pushed p) | Inl _ \<Rightarrow> Inr (c, Ignored))
           else Inr (c, Ignored))
      | _ \<Rightarrow> Inr (c, Ignored))"

text \<open>The loop on the bytes the peer sends until it closes the connection.\<close>

function conn_recv_loop ::
  "cbor_lib \<Rightarrow> bool \<Rightarrow> nat list \<Rightarrow> ipc_conn \<Rightarrow> bytes \<Rightarrow> client_event list \<Rightarrow> ipc_conn \<times> client_event list \<times> conn_end" where
  "conn_recv_loop C handler sched c st evs =
     (case read_frame sched st of
        (Inl e, _, _) \<Rightarrow> (c, evs, Process_Terminated e)
      | (Inr payload, st', sched') \<Rightarrow>
          if payload = [] then (c\<lparr>cn_running := False, cn_thread := Thread_Ended\<rparr>, evs, Conn_Closed)
          else case conn_recv C handler c payload of
                 Inl e \<Rightarrow> (c, evs, Process_Terminated e)
               | Inr (c', ev) \<Rightarrow> conn_recv_loop C handler sched' c' st' (evs @ [ev]))"
  by auto
termination
  by (relation "measure (\<lambda>(C, handler, sched, c, st, evs). length st)")
     (auto dest!: read_frame_shorter [OF sym])

declare conn_recv_loop.simps [simp del]

subsection \<open>Calls\<close>

text \<open>The round of the loop is the one of \<^verbatim>\<open>Ipc\<close>, and so is the first half of a call.\<close>

lemma conn_recv_client:
  "conn_recv C True c payload = Inr (c', ev) \<Longrightarrow>
     client_recv C (ipc_client.truncate c) payload = Inr (ipc_client.truncate c', ev)"
  by (auto simp: conn_recv_def client_recv_def ipc_client.defs res_simps split: msg_type.splits sum.splits if_splits)

lemma conn_call_begin:
  assumes "cn_running c" "conn_call C c ws method params caller = (c', Inr (i, req))"
  shows "call_begin C (ipc_client.truncate c) method params caller = (ipc_client.truncate c', i, req)"
proof -
  have "write_frame ws p = (frame p, Inr ()) \<or> (\<exists>out e. write_frame ws p = (out, Inl e))" for p
    using write_loop_spec [of ws "frame p"] by (auto simp: write_frame_def)
  from this [of "encode_request C \<lparr>rq_id = next_id c, rq_caller = caller, rq_method = method, rq_params = params\<rparr>"]
  show ?thesis
    using assms by (auto simp: conn_call_def call_begin_def ipc_client.defs Let_def)
qed

text \<open>The calls a sequence of events completes.\<close>

definition completed_ids :: "client_event list \<Rightarrow> u64 list" where
  "completed_ids evs = concat (map (\<lambda>ev. case ev of Completed i _ \<Rightarrow> [i] | _ \<Rightarrow> []) evs)"

lemma completed_ids_simps [simp]:
  "completed_ids [] = []"
  "completed_ids (evs @ evs') = completed_ids evs @ completed_ids evs'"
  "completed_ids [Completed i r] = [i]" "completed_ids [Pushed p] = []" "completed_ids [Ignored] = []"
  by (simp_all add: completed_ids_def)

lemma conn_recv_pending:
  assumes "conn_recv C handler c payload = Inr (c', ev)"
  shows "set (completed_ids [ev]) \<subseteq> set (pending c) \<and> set (pending c') = set (pending c) - set (completed_ids [ev]) \<and>
    cn_running c' = cn_running c \<and> cn_thread c' = cn_thread c"
  using assms by (auto simp: conn_recv_def res_simps split: msg_type.splits sum.splits if_splits)

lemma conn_recv_loop_closed:
  assumes "conn_recv_loop C handler sched c st evs = (c', evs', Conn_Closed)"
  shows "\<not> cn_running c' \<and> cn_thread c' = Thread_Ended \<and>
    (\<exists>new. evs' = evs @ new \<and> set (completed_ids new) \<subseteq> set (pending c) \<and>
       set (pending c') = set (pending c) - set (completed_ids new))"
  using assms
proof (induction C handler sched c st evs rule: conn_recv_loop.induct)
  case (1 C handler sched c st evs)
  obtain r st' sched' where rf: "read_frame sched st = (r, st', sched')"
    by (cases "read_frame sched st")
  show ?case
  proof (cases "r = Inr []")
    case True
    then show ?thesis
      using 1(2) rf by (auto simp: conn_recv_loop.simps [of C handler sched])
  next
    case False
    then obtain payload c1 ev where p: "r = Inr payload" "payload \<noteq> []" "conn_recv C handler c payload = Inr (c1, ev)"
      and loop: "conn_recv_loop C handler sched' c1 st' (evs @ [ev]) = (c', evs', Conn_Closed)"
      using 1(2) rf by (auto simp: conn_recv_loop.simps [of C handler sched] split: sum.splits)
    note step = conn_recv_pending [OF p(3)]
    have "\<not> cn_running c' \<and> cn_thread c' = Thread_Ended \<and>
        (\<exists>new. evs' = (evs @ [ev]) @ new \<and> set (completed_ids new) \<subseteq> set (pending c1) \<and>
           set (pending c') = set (pending c1) - set (completed_ids new))"
      using 1(1) [OF rf [symmetric] p(1) refl p(2) p(3) refl loop] by simp
    then obtain new where "\<not> cn_running c'" "cn_thread c' = Thread_Ended" "evs' = evs @ ev # new"
        "set (completed_ids new) \<subseteq> set (pending c1)" "set (pending c') = set (pending c1) - set (completed_ids new)"
      by auto
    moreover have "completed_ids (ev # new) = completed_ids [ev] @ completed_ids new"
      by (simp add: completed_ids_def)
    ultimately show ?thesis
      using step by (intro conjI exI [of _ "ev # new"]) auto
  qed
qed

text \<open>
  \<^verbatim>\<open>disconnect\<close> on a connected client ends every call that waits, each once and with the error
  \<^verbatim>\<open>disconnected\<close>, joins the receiving thread and leaves a client that can connect again and be destroyed.
\<close>

theorem disconnect_completes_calls:
  assumes "cn_running c" "distinct (pending c)" "conn_disconnect c = (c', rs)"
  shows "set (map rs_id rs) = set (pending c) \<and> distinct (map rs_id rs) \<and>
    list_all (\<lambda>r. call_end r = Inl (Runtime_Error ''IPC error -1: disconnected'')) rs \<and>
    pending c' = [] \<and> conn_destroy c' = Returns [] \<and>
    (length path < SUN_PATH \<longrightarrow>
      conn_connect \<lparr>cv_socket = Inr fd, cv_connect = None\<rparr> path c' =
        Returns (c'\<lparr>cn_fd := Some fd, cn_running := True, cn_thread := Thread_Running\<rparr>, Inr ()))"
proof -
  have c': "c' = c\<lparr>cn_running := False, cn_fd := None, cn_thread := No_Thread, pending := []\<rparr>"
    and rs: "rs = map disconnected_response (sort (pending c))"
    using assms(1,3) by (auto simp: conn_disconnect_def)
  have ids: "map rs_id rs = sort (pending c)"
    by (simp add: rs disconnected_response_def comp_def)
  have code: "show_int (- 1) = ''-1''"
    by code_simp
  have "list_all (\<lambda>r. call_end r = Inl (Runtime_Error ''IPC error -1: disconnected'')) rs"
    by (simp add: rs list_all_iff disconnected_response_def call_end_def code)
  then show ?thesis
    using assms(2) by (simp add: ids c' conn_destroy_def conn_disconnect_def conn_connect_def)
qed

theorem disconnect_completes_calls_witness:
  "set (map rs_id (snd (conn_disconnect (conn_new\<lparr>cn_running := True, pending := [2, 1]\<rparr>)))) = {1, 2}"
proof -
  let ?c = "conn_new\<lparr>cn_running := True, pending := [2, 1]\<rparr>"
  obtain c' rs where d: "conn_disconnect ?c = (c', rs)"
    by (cases "conn_disconnect ?c")
  have "set (map rs_id rs) = set (pending ?c)"
    using disconnect_completes_calls [OF _ _ d, of "''s''" 3] by simp
  then show ?thesis
    using d by auto
qed

text \<open>
  C37. When the peer closes the connection, the calls it has not answered stay pending (they end with their
  timeouts), and the client cannot be wound up any more: \<^verbatim>\<open>disconnect\<close> returns at once without failing
  them or joining the thread, and both connecting again and destroying the client end the process.
\<close>

theorem peer_hangup_strands_client:
  assumes "conn_recv_loop C handler sched c st [] = (c', evs, Conn_Closed)" "length path < SUN_PATH"
  shows "set (pending c') = set (pending c) - set (completed_ids evs) \<and>
    conn_disconnect c' = (c', []) \<and> conn_destroy c' = Terminates \<and>
    conn_connect \<lparr>cv_socket = Inr fd, cv_connect = None\<rparr> path c' = Terminates \<and>
    conn_call C c' ws method params caller = (c', Inl (Runtime_Error (''IPC client not connected: '' @ method)))"
  using conn_recv_loop_closed [OF assms(1)] assms(2)
  by (auto simp: conn_disconnect_def conn_destroy_def conn_connect_def conn_call_def)

theorem peer_hangup_strands_client_witness:
  "conn_destroy (conn_new\<lparr>cn_running := False, cn_thread := Thread_Ended, pending := [1]\<rparr>) = Terminates"
proof -
  have "conn_recv_loop wire_cbor True [] (conn_new\<lparr>cn_running := True, cn_thread := Thread_Running, pending := [1]\<rparr>) [] [] =
      (conn_new\<lparr>cn_running := False, cn_thread := Thread_Ended, pending := [1]\<rparr>, [], Conn_Closed)"
    by (simp add: conn_recv_loop.simps [where st = "[]"] read_frame_def read_exact_eof)
  from peer_hangup_strands_client [OF this, of "''s''"] show ?thesis
    by (simp add: SUN_PATH_def)
qed

end
