(* ===== verification/Lifecycle.thy ===== *)
theory Lifecycle
  imports Configs Udp Ipc_Client
begin

text \<open>
  Starting and stopping the daemons: \<^verbatim>\<open>start\<close>, \<^verbatim>\<open>stop\<close> and the destructors of \<^verbatim>\<open>Router\<close>, \<^verbatim>\<open>Inbox\<close>, \<^verbatim>\<open>Outbox\<close> and
  \<^verbatim>\<open>Client\<close>, the \<^verbatim>\<open>main\<close> functions, and the router behind its transport. The answers of the system calls
  are arguments. A destructor that finds a thread it cannot join ends the process.
\<close>

subsection \<open>The server's \<^verbatim>\<open>stop\<close>\<close>

text \<open>What \<^verbatim>\<open>Server::stop\<close> leaves when it returns (its steps are in \<^verbatim>\<open>Ipc_Server\<close>).\<close>

definition server_stopped :: "ipc_server \<Rightarrow> ipc_server" where
  "server_stopped s =
     (if sv_running s
      then s\<lparr>sv_running := False, listening := False, client_fds := [], conn_threads := [], accept_thread := Acc_Done,
             stopping := Stop_Finished\<rparr>
      else s)"

subsection \<open>The router\<close>

record router_life =
  rl_running :: bool
  rl_udp :: udp
  rl_server :: ipc_server
  rl_threads :: "thread_state list"
  rl_router :: router

definition router_life_new :: "router_config \<Rightarrow> router_life" where
  "router_life_new cfg = \<lparr>rl_running = False, rl_udp = udp_new, rl_server = server_new,
     rl_threads = [No_Thread, No_Thread], rl_router = router_of_config cfg\<rparr>"

text \<open>The datagrams of the bootstrap handshakes; an address that cannot be parsed is reported and skipped.\<close>

definition send_all :: "inet_lib \<Rightarrow> udp \<Rightarrow> effect list \<Rightarrow> (nat option \<times> sockaddr_in \<times> bytes) list" where
  "send_all L u es = concat (map (\<lambda>e. case e of
     Datagram a b \<Rightarrow> (case udp_send L u a b of Inr x \<Rightarrow> [x] | Inl _ \<Rightarrow> []) | Push_Event _ _ \<Rightarrow> []) es)"

text \<open>
  The datagrams of one call of the router: they are sent in order, and the first whose address cannot be parsed
  throws, so that what follows it is not sent.
\<close>

fun transmit :: "inet_lib \<Rightarrow> udp \<Rightarrow> effect list \<Rightarrow> (nat option \<times> sockaddr_in \<times> bytes) list \<times> unit res" where
  "transmit L u [] = ([], Inr ())"
| "transmit L u (Datagram a b # es) =
     (case udp_send L u a b of
        Inl e \<Rightarrow> ([], Inl e)
      | Inr x \<Rightarrow> (case transmit L u es of (xs, r) \<Rightarrow> (x # xs, r)))"
| "transmit L u (Push_Event _ _ # es) = transmit L u es"

record net_env =
  ne_inet :: inet_lib
  ne_sock :: sock_env
  ne_server :: start_env
  ne_crypto :: crypto_lib
  ne_cbor :: cbor_lib
  ne_rnd :: "nat \<Rightarrow> rnd"

definition router_start ::
  "net_env \<Rightarrow> router_config \<Rightarrow> router_life \<Rightarrow> router_life \<times> (nat option \<times> sockaddr_in \<times> bytes) list \<times> unit res" where
  "router_start E cfg l =
     (if rl_running l then (l, [], Inr ())
      else case udp_start (ne_inet E) (ne_sock E) (rl_udp l) (rc_listen_addr cfg) of
             (u, Inl e) \<Rightarrow> (l\<lparr>rl_running := True, rl_udp := u\<rparr>, [], Inl e)
           | (u, Inr _) \<Rightarrow>
               (case server_start (ne_server E) (rc_ipc_path cfg) (rl_server l) of
                  (sv, _, Inl e) \<Rightarrow> (l\<lparr>rl_running := True, rl_udp := u, rl_server := sv\<rparr>, [], Inl e)
                | (sv, _, Inr _) \<Rightarrow>
                    (case initiate_bootstrap_connections (ne_crypto E) (ne_cbor E) (rl_router l)
                            (zip (rc_bootstrap_nodes cfg) (map (ne_rnd E) [0..<length (rc_bootstrap_nodes cfg)])) of
                       (r, es) \<Rightarrow>
                         (l\<lparr>rl_running := True, rl_udp := u, rl_server := sv,
                            rl_threads := [Thread_Running, Thread_Running], rl_router := r\<rparr>,
                          send_all (ne_inet E) u es, Inr ()))))"

definition router_stop :: "router_life \<Rightarrow> router_life" where
  "router_stop l =
     (if \<not> rl_running l then l
      else l\<lparr>rl_running := False, rl_udp := udp_stop (rl_udp l), rl_server := server_stopped (rl_server l),
             rl_threads := map (\<lambda>_. No_Thread) (rl_threads l)\<rparr>)"

definition joinable :: "thread_state \<Rightarrow> bool" where
  "joinable t \<longleftrightarrow> t \<noteq> No_Thread"

definition router_destroy :: "router_life \<Rightarrow> unit outcome" where
  "router_destroy l =
     (let l' = router_stop l
      in if list_ex joinable (rl_threads l') \<or> joinable (recv_thread (udp_stop (rl_udp l'))) then Terminates
         else Returns ())"

text \<open>The receiving thread of the transport with the router's handler as its callback.\<close>

definition router_receive ::
  "inet_lib \<Rightarrow> crypto_lib \<Rightarrow> cbor_lib \<Rightarrow> router \<Rightarrow> (bool \<times> recv_result) list \<Rightarrow> router \<times> effect list \<times> loop_end" where
  "router_receive L K C r turns = recv_loop L (on_datagram K C) r turns"

lemma transmit_peer:
  assumes "inet_ok L"
  shows "transmit L u [Datagram (peer_string L a) data] = ([(sock u, a, data)], Inr ())"
  by (simp add: udp_reply_reaches_sender [OF assms])

text \<open>As long as every address can be parsed, skipping the others makes no difference.\<close>

lemma transmit_send_all: "snd (transmit L u es) = Inr () \<Longrightarrow> fst (transmit L u es) = Lifecycle.send_all L u es"
  by (induction L u es rule: transmit.induct) (auto simp: Lifecycle.send_all_def split: sum.splits prod.splits)

lemma router_receives_cell:
  assumes "length cell = CELL_SIZE" "on_datagram K C r (peer_string L a) cell = (r', es, Inr ())"
  shows "router_receive L K C r (deliver [(a, cell)]) = (r', es, Loop_Blocked)"
proof -
  have "udp_data [(a, cell)]"
    using assms(1) by (auto simp: udp_data_def RECV_BUF_def CELL_SIZE_def)
  from recv_loop_deliver [OF this, of L "on_datagram K C" r "[]"] show ?thesis
    using assms(2) by (simp add: router_receive_def)
qed

subsection \<open>Inbox and outbox\<close>

record 'd app_life =
  al_running :: bool
  al_ar :: ipc_conn
  al_server :: ipc_server
  al_threads :: "thread_state list"
  al_data :: 'd

definition app_new :: "nat \<Rightarrow> 'd \<Rightarrow> 'd app_life" where
  "app_new n d = \<lparr>al_running = False, al_ar = conn_new, al_server = server_new,
     al_threads = replicate n No_Thread, al_data = d\<rparr>"

text \<open>Both daemons: connect to the router, start the server, do the start-up work, start the threads.\<close>

definition app_start ::
  "connect_env \<Rightarrow> start_env \<Rightarrow> string \<Rightarrow> string \<Rightarrow> ('d \<Rightarrow> 'd) \<Rightarrow> 'd app_life \<Rightarrow> ('d app_life \<times> unit res) outcome" where
  "app_start CE SE ar_path ipc_path work l =
     (if al_running l then Returns (l, Inr ())
      else case conn_connect CE ar_path (al_ar l) of
             Terminates \<Rightarrow> Terminates
           | Returns (ar, Inl e) \<Rightarrow> Returns (l\<lparr>al_running := True, al_ar := ar\<rparr>, Inl e)
           | Returns (ar, Inr _) \<Rightarrow>
               (case server_start SE ipc_path (al_server l) of
                  (sv, _, Inl e) \<Rightarrow> Returns (l\<lparr>al_running := True, al_ar := ar, al_server := sv\<rparr>, Inl e)
                | (sv, _, Inr _) \<Rightarrow>
                    Returns (l\<lparr>al_running := True, al_ar := ar, al_server := sv,
                               al_threads := map (\<lambda>_. Thread_Running) (al_threads l), al_data := work (al_data l)\<rparr>, Inr ())))"

definition inbox_life_start ::
  "connect_env \<Rightarrow> start_env \<Rightarrow> cbor_lib \<Rightarrow> answers \<Rightarrow> int \<Rightarrow> bytes \<Rightarrow> inbox_file_config \<Rightarrow> inbox app_life \<Rightarrow>
     (inbox app_life \<times> unit res) outcome" where
  "inbox_life_start CE SE C ans now_s oob cfg l =
     app_start CE SE (if_anonrouter_path cfg) (if_ipc_path cfg) (inbox_start C ans now_s oob) l"

definition outbox_life_start ::
  "connect_env \<Rightarrow> start_env \<Rightarrow> answers \<Rightarrow> outbox_file_config \<Rightarrow> outbox app_life \<Rightarrow> (outbox app_life \<times> unit res) outcome" where
  "outbox_life_start CE SE ans cfg l = app_start CE SE (of_anonrouter_path cfg) (of_ipc_path cfg) (startup_burst ans) l"

definition app_stop :: "'d app_life \<Rightarrow> 'd app_life" where
  "app_stop l =
     (if \<not> al_running l then l
      else l\<lparr>al_running := False, al_ar := fst (conn_disconnect (al_ar l)), al_server := server_stopped (al_server l),
             al_threads := map (\<lambda>_. No_Thread) (al_threads l)\<rparr>)"

definition app_destroy :: "'d app_life \<Rightarrow> unit outcome" where
  "app_destroy l =
     (let l' = app_stop l
      in if list_ex joinable (al_threads l') then Terminates
         else case conn_destroy (al_ar l') of Terminates \<Rightarrow> Terminates | Returns _ \<Rightarrow> Returns ())"

subsection \<open>The client\<close>

text \<open>The three service connections, the two background threads.\<close>

record client_life =
  kl_running :: bool
  kl_conns :: "ipc_conn list"
  kl_server :: ipc_server
  kl_threads :: "thread_state list"

definition client_life_new :: client_life where
  "client_life_new = \<lparr>kl_running = False, kl_conns = [conn_new, conn_new, conn_new], kl_server = server_new,
     kl_threads = [No_Thread, No_Thread]\<rparr>"

definition client_life_start :: "start_env \<Rightarrow> config \<Rightarrow> client_life \<Rightarrow> client_life \<times> unit res" where
  "client_life_start SE cfg l =
     (case server_start SE (cf_client_sock cfg) (kl_server l) of
        (sv, _, res) \<Rightarrow> (l\<lparr>kl_running := True, kl_server := sv\<rparr>, res))"




definition client_life_stop :: "client_life \<Rightarrow> client_life" where
  "client_life_stop l =
     (if \<not> kl_running l then l
      else l\<lparr>kl_running := False, kl_conns := map (\<lambda>c. fst (conn_disconnect c)) (kl_conns l),
             kl_server := server_stopped (kl_server l), kl_threads := map (\<lambda>_. No_Thread) (kl_threads l)\<rparr>)"

definition client_life_destroy :: "client_life \<Rightarrow> unit outcome" where
  "client_life_destroy l =
     (let l' = client_life_stop l
      in if list_ex joinable (kl_threads l') \<or> list_ex (\<lambda>c. conn_destroy c = Terminates) (kl_conns l') then Terminates
         else Returns ())"

subsection \<open>\<^verbatim>\<open>main\<close>\<close>

datatype exit_status = Exit_Success | Exit_Failure | Aborted

text \<open>
  Whether \<^verbatim>\<open>sodium_init\<close> succeeds, and the file system: a path may not exist, may not open, or has lines.
\<close>

record main_env =
  me_sodium :: bool
  me_file :: "string \<Rightarrow> string list option option"
  me_what :: "exn \<Rightarrow> string"

text \<open>The configuration \<^verbatim>\<open>main\<close> uses, with what it prints, or the message of a failure.\<close>

definition main_config ::
  "string \<Rightarrow> (string \<Rightarrow> string list option \<Rightarrow> 'c res) \<Rightarrow> 'c \<Rightarrow> main_env \<Rightarrow> string \<Rightarrow> string + (string list \<times> 'c)" where
  "main_config name ld c0 E path =
     (case me_file E path of
        None \<Rightarrow> Inr ([''['' @ name @ ''] config not found at '' @ path @ '', using defaults''], c0)
      | Some f \<Rightarrow>
          (case ld path f of
             Inl e \<Rightarrow> Inl (''['' @ name @ ''] config error: '' @ what (me_what E) e)
           | Inr c \<Rightarrow> Inr ([], c)))"

text \<open>
  The rest, the same in the four daemons: construct (an exception there is not caught), start, wait, destroy.
  \<open>life\<close> is what happens to the daemon until \<^verbatim>\<open>wait\<close> returns. The result is the error output and how the
  process ends.
\<close>

definition daemon_main ::
  "string \<Rightarrow> string \<Rightarrow> (string \<Rightarrow> string list option \<Rightarrow> 'c res) \<Rightarrow> 'c \<Rightarrow> ('c \<Rightarrow> 's outcome) \<Rightarrow>
     ('c \<Rightarrow> 's \<Rightarrow> ('s \<times> unit res) outcome) \<Rightarrow> ('s \<Rightarrow> 's) \<Rightarrow> ('s \<Rightarrow> unit outcome) \<Rightarrow> main_env \<Rightarrow> string list \<Rightarrow>
     string list \<times> exit_status" where
  "daemon_main name default_path ld c0 construct start life destroy E argv =
     (if \<not> me_sodium E then ([''['' @ name @ ''] fatal: libsodium init failed''], Exit_Failure)
      else case main_config name ld c0 E (if 2 \<le> length argv then argv ! 1 else default_path) of
             Inl msg \<Rightarrow> ([msg], Exit_Failure)
           | Inr (msgs, cfg) \<Rightarrow>
               (case construct cfg of
                  Terminates \<Rightarrow> (msgs, Aborted)
                | Returns s \<Rightarrow>
                    (case start cfg s of
                       Terminates \<Rightarrow> (msgs, Aborted)
                     | Returns (s', Inl e) \<Rightarrow>
                         (msgs @ [''['' @ name @ ''] fatal: '' @ what (me_what E) e],
                          case destroy s' of Terminates \<Rightarrow> Aborted | Returns _ \<Rightarrow> Exit_Failure)
                     | Returns (s', Inr _) \<Rightarrow>
                         (msgs, case destroy (life s') of Terminates \<Rightarrow> Aborted | Returns _ \<Rightarrow> Exit_Success))))"

text \<open>The stores are opened in the constructors.\<close>

definition open_store :: "(string \<Rightarrow> 'd res) \<Rightarrow> string \<Rightarrow> ('d \<Rightarrow> 's) \<Rightarrow> 's outcome" where
  "open_store opn path f = (case opn path of Inl _ \<Rightarrow> Terminates | Inr d \<Rightarrow> Returns (f d))"

definition router_main :: "net_env \<Rightarrow> (string \<Rightarrow> u64 res) \<Rightarrow> (router_life \<Rightarrow> router_life) \<Rightarrow> main_env \<Rightarrow> string list \<Rightarrow> string list \<times> exit_status" where
  "router_main NE sd life = daemon_main ''anonrouter'' ''/etc/anonrouter/anonrouter.conf'' (router_config_load sd)
     default_router_config (\<lambda>cfg. Returns (router_life_new cfg))
     (\<lambda>cfg l. case router_start NE cfg l of (l', _, r) \<Rightarrow> Returns (l', r)) life router_destroy"

definition inbox_main ::
  "(string \<Rightarrow> inbox res) \<Rightarrow> connect_env \<Rightarrow> start_env \<Rightarrow> cbor_lib \<Rightarrow> answers \<Rightarrow> int \<Rightarrow> bytes \<Rightarrow>
     (inbox app_life \<Rightarrow> inbox app_life) \<Rightarrow> main_env \<Rightarrow> string list \<Rightarrow> string list \<times> exit_status" where
  "inbox_main opn CE SE C ans now_s oob life = daemon_main ''inbox'' ''/etc/scatterweb/inbox.conf'' inbox_config_load
     default_inbox_file_config (\<lambda>cfg. open_store opn (if_db_path cfg) (app_new 1))
     (inbox_life_start CE SE C ans now_s oob) life app_destroy"

definition outbox_main ::
  "(string \<Rightarrow> outbox res) \<Rightarrow> connect_env \<Rightarrow> start_env \<Rightarrow> answers \<Rightarrow>
     (outbox app_life \<Rightarrow> outbox app_life) \<Rightarrow> main_env \<Rightarrow> string list \<Rightarrow> string list \<times> exit_status" where
  "outbox_main opn CE SE ans life = daemon_main ''outbox'' ''/etc/scatterweb/outbox.conf'' outbox_config_load
     default_outbox_file_config (\<lambda>cfg. open_store opn (of_db_path cfg) (app_new 2))
     (outbox_life_start CE SE ans) life app_destroy"

definition client_main ::
  "(string \<Rightarrow> unit res) \<Rightarrow> start_env \<Rightarrow> (client_life \<Rightarrow> client_life) \<Rightarrow> main_env \<Rightarrow> string list \<Rightarrow> string list \<times> exit_status" where
  "client_main opn SE life = daemon_main ''client'' ''/etc/scatterweb/client.conf'' load_config default_config
     (\<lambda>cfg. open_store opn (cf_messages_db_path cfg) (\<lambda>_. client_life_new))
     (\<lambda>cfg l. Returns (client_life_start SE cfg l)) life client_life_destroy"

subsection \<open>Reception\<close>

text \<open>
  C19. The router handles the datagrams it receives in order and goes on waiting, until one of two datagrams
  that anybody can send: one without a single byte ends reception for good, the sender does not even have to
  be a peer; one whose handling throws ends the process.
\<close>

theorem empty_datagram_silences_router:
  assumes "udp_data ds" "handle_all L (on_datagram K C) r ds = (r', es, Inr ())"
  shows "router_receive L K C r (deliver ds) = (r', es, Loop_Blocked) \<and>
    router_receive L K C r (deliver ds @ (True, Recv_From src []) # later) = (r', es, Loop_Ended) \<and>
    (on_datagram K C r' (peer_string L src) d = (r'', es', Inl e) \<and> udp_data [(src, d)] \<longrightarrow>
      router_receive L K C r (deliver ds @ (True, Recv_From src d) # later) = (r'', es @ es', Loop_Terminates e))"
proof (intro conjI impI)
  note run = recv_loop_deliver [OF assms(1), of L "on_datagram K C" r]
  show "router_receive L K C r (deliver ds) = (r', es, Loop_Blocked)"
    using run [of "[]"] assms(2) by (simp add: router_receive_def)
  show "router_receive L K C r (deliver ds @ (True, Recv_From src []) # later) = (r', es, Loop_Ended)"
    unfolding router_receive_def run assms(2) by simp
  assume "on_datagram K C r' (peer_string L src) d = (r'', es', Inl e) \<and> udp_data [(src, d)]"
  then show "router_receive L K C r (deliver ds @ (True, Recv_From src d) # later) = (r'', es @ es', Loop_Terminates e)"
    unfolding router_receive_def run assms(2) by (simp add: udp_data_def)
qed

theorem empty_datagram_silences_router_witness:
  "router_receive quad_inet demo_crypto wire_cbor demo_router
     (deliver [(\<lparr>sin_addr = 1, sin_port = 2\<rparr>, [7])] @ (True, Recv_From \<lparr>sin_addr = 3, sin_port = 4\<rparr> []) #
      deliver [(\<lparr>sin_addr = 1, sin_port = 2\<rparr>, zeros 557)]) = (demo_router, [], Loop_Ended)"
proof -
  have "udp_data [(\<lparr>sin_addr = 1, sin_port = 2\<rparr>, [7])]"
    by (simp add: udp_data_def RECV_BUF_def)
  moreover have "handle_all quad_inet (on_datagram demo_crypto wire_cbor) demo_router [(\<lparr>sin_addr = 1, sin_port = 2\<rparr>, [7])] =
      (demo_router, [], Inr ())"
    by (simp add: on_datagram_def CELL_SIZE_def)
  ultimately show ?thesis
    using empty_datagram_silences_router by blast
qed

text \<open>
  A host that is no address in dotted notation does not fail: the socket is bound to every interface.
\<close>

lemma udp_start_bad_host:
  assumes "inet_pton L (c_str host) = None" "CHR '':'' \<notin> set port" "stoi port = Inr v" "e_socket E = Some fd"
    and "e_bind E fd \<lparr>sin_addr = 0, sin_port = word_of_int v\<rparr>"
  shows "snd (udp_start L E u (host @ CHR '':'' # port)) = Inr ()"
  using assms by (simp add: udp_start_def parse_addr_split bind_sockaddr_def)

subsection \<open>Exit\<close>

lemma app_start_ok:
  assumes "app_start CE SE ar_path ipc_path work (app_new n d) = Returns (l, Inr ())"
  shows "al_running l \<and> cn_running (al_ar l)"
  using assms
  by (auto simp: app_start_def app_new_def conn_connect_def conn_new_def split: sum.splits option.splits if_splits prod.splits)

lemma no_thread_joinable [simp]: "\<not> list_ex joinable (map (\<lambda>_. No_Thread) ts)"
  by (simp add: list_ex_iff joinable_def)

lemma app_destroy_connected: "al_running l \<Longrightarrow> cn_running (al_ar l) \<Longrightarrow> app_destroy l = Returns ()"
  by (simp add: app_destroy_def app_stop_def conn_disconnect_def conn_destroy_def Let_def)

lemma app_destroy_hangup:
  "\<not> cn_running (al_ar l) \<Longrightarrow> cn_thread (al_ar l) = Thread_Ended \<Longrightarrow> app_destroy l = Terminates"
  by (simp add: app_destroy_def app_stop_def conn_disconnect_def conn_destroy_def Let_def)

lemma app_destroy_stop [simp]: "app_destroy (app_stop l) = app_destroy l"
  by (simp add: app_destroy_def app_stop_def Let_def)

lemma app_start_failed:
  assumes "app_start CE SE ar_path ipc_path work (app_new n d) = Returns (l, Inl e)"
  shows "app_destroy l = Returns ()"
proof -
  have "al_threads l = replicate n No_Thread" "cn_thread (al_ar l) = No_Thread \<or> cn_running (al_ar l)" "al_running l"
    using assms
    by (auto simp: app_start_def app_new_def conn_connect_def conn_new_def split: sum.splits option.splits if_splits prod.splits)
  then show ?thesis
    by (auto simp: app_destroy_def app_stop_def conn_disconnect_def conn_destroy_def Let_def list_ex_iff joinable_def)
qed

text \<open>
  C21. How the inbox ends. A failure of \<^verbatim>\<open>start\<close> is reported and becomes the exit status. After a start that
  succeeds, stopping it is a successful exit as long as the router is there; when the router has closed
  the connection before, the destructors end the process; and a database that cannot be opened does so too,
  without a message.
\<close>

theorem inbox_exit:
  assumes "me_sodium E" "main_config ''inbox'' inbox_config_load default_inbox_file_config E path = Inr (msgs, cfg)"
    and "inbox_life_start CE SE C ans now_s oob cfg (app_new 1 d) = Returns (l, Inr ())" "opn (if_db_path cfg) = Inr d"
    and "conn_recv_loop C True sched (al_ar l) st [] = (ar, evs, Conn_Closed)" "opn' (if_db_path cfg) = Inl e"
    and "inbox_life_start CE' SE C ans now_s oob cfg (app_new 1 d) = Returns (l', Inl e')"
  shows "inbox_main opn CE SE C ans now_s oob app_stop E [prog, path] = (msgs, Exit_Success) \<and>
    inbox_main opn CE SE C ans now_s oob (\<lambda>l. app_stop (l\<lparr>al_ar := ar\<rparr>)) E [prog, path] = (msgs, Aborted) \<and>
    inbox_main opn' CE SE C ans now_s oob life E [prog, path] = (msgs, Aborted) \<and>
    inbox_main opn CE' SE C ans now_s oob life E [prog, path] =
      (msgs @ [''[inbox] fatal: '' @ what (me_what E) e'], Exit_Failure)"
proof -
  have up: "al_running l" "cn_running (al_ar l)"
    using app_start_ok [OF assms(3) [unfolded inbox_life_start_def]] by simp_all
  have down: "\<not> cn_running ar" "cn_thread ar = Thread_Ended"
    using conn_recv_loop_closed [OF assms(5)] by simp_all
  have failed: "app_destroy l' = Returns ()"
    using app_start_failed [OF assms(7) [unfolded inbox_life_start_def]] .
  show ?thesis
    using assms(1-4,6,7) up down failed
    by (simp add: inbox_main_def daemon_main_def open_store_def app_destroy_connected app_destroy_hangup)
qed

definition idle_inbox :: inbox where
  "idle_inbox = \<lparr>dm_store = inbox_store_new, dm_calls = [], dm_pushes = []\<rparr>"

theorem inbox_exit_witness:
  "\<exists>ar. inbox_main (\<lambda>_. Inr idle_inbox) \<lparr>cv_socket = Inr 3, cv_connect = None\<rparr> \<lparr>se_socket = None, se_bind = None, se_listen = None\<rparr>
      wire_cbor (\<lambda>_ _ _. Inr []) 0 [] (\<lambda>l. app_stop (l\<lparr>al_ar := ar\<rparr>))
      \<lparr>me_sodium = True, me_file = (\<lambda>_. Some (Some [])), me_what = (\<lambda>_. [])\<rparr> [''inbox'', ''i.conf''] = ([], Aborted)"
proof -
  let ?E = "\<lparr>me_sodium = True, me_file = (\<lambda>_. Some (Some [])), me_what = (\<lambda>_. [])\<rparr> :: main_env"
  let ?SE = "\<lparr>se_socket = None, se_bind = None, se_listen = None\<rparr> :: start_env"
  let ?cfg = default_inbox_file_config
  have cfg: "main_config ''inbox'' inbox_config_load ?cfg ?E ''i.conf'' = Inr ([], ?cfg)"
    by (simp add: main_config_def inbox_config_load_def load_file_def)
  obtain l where l: "inbox_life_start \<lparr>cv_socket = Inr 3, cv_connect = None\<rparr> ?SE wire_cbor (\<lambda>_ _ _. Inr []) 0 [] ?cfg
      (app_new 1 idle_inbox) = Returns (l, Inr ())"
    by (simp add: inbox_life_start_def app_start_def app_new_def conn_connect_def conn_new_def server_start_def
        SUN_PATH_def default_inbox_file_config_def)
  have ar: "conn_recv_loop wire_cbor True [] (al_ar l) [] [] =
      ((al_ar l)\<lparr>cn_running := False, cn_thread := Thread_Ended\<rparr>, [], Conn_Closed)"
    by (simp add: conn_recv_loop.simps [where st = "[]"] read_frame_def read_exact_eof)
  obtain l' where l': "inbox_life_start \<lparr>cv_socket = Inl [], cv_connect = None\<rparr> ?SE wire_cbor (\<lambda>_ _ _. Inr []) 0 [] ?cfg
      (app_new 1 idle_inbox) = Returns (l', Inl (Runtime_Error ''socket() failed: ''))"
    by (simp add: inbox_life_start_def app_start_def app_new_def conn_connect_def)
  show ?thesis
    using inbox_exit [OF _ cfg l _ ar _ l', of "\<lambda>_. Inr idle_inbox" "\<lambda>_. Inl Out_Of_Range" Out_Of_Range "''inbox''"] by auto
qed

subsection \<open>Locking and unlocking the client\<close>











end
