(* ===== verification/Database.thy ===== *)
theory Database
  imports Inbox_Store
begin

text \<open>
  The wrapper around SQLite (\<^verbatim>\<open>common/include/sw/store/db.hpp\<close>, \<^verbatim>\<open>common/src/store/db.cpp\<close>): rows, prepared
  statements, the connection and its transaction guard. SQLite itself is an argument: what
  \<^verbatim>\<open>sqlite3_step\<close>, \<^verbatim>\<open>sqlite3_reset\<close> and the bindings do to a statement of type \<open>'h\<close>, and what
  \<^verbatim>\<open>sqlite3_exec\<close> does to a connection of type \<open>'d\<close>. The tables of the stores (\<^verbatim>\<open>Sql\<close>) are what a
  connection holds.
\<close>

subsection \<open>Rows\<close>

datatype sql_value = SQL_Null | SQL_Int int | SQL_Text string | SQL_Blob bytes

type_synonym row = "sql_value list"

text \<open>SQLite's conversions when a column is read as another type than its own; a text may fail to be allocated.\<close>

record column_lib =
  column_int64 :: "sql_value \<Rightarrow> int"
  column_text :: "sql_value \<Rightarrow> string option"
  column_blob :: "sql_value \<Rightarrow> bytes"

definition column_ok :: "column_lib \<Rightarrow> bool" where
  "column_ok L \<longleftrightarrow> (\<forall>i. column_int64 L (SQL_Int i) = i) \<and> (\<forall>s. column_text L (SQL_Text s) = Some s) \<and>
     (\<forall>b. column_blob L (SQL_Blob b) = b)"

text \<open>A column outside the row reads as NULL.\<close>

definition column :: "row \<Rightarrow> nat \<Rightarrow> sql_value" where
  "column r col = (if col < length r then r ! col else SQL_Null)"

definition row_is_null :: "row \<Rightarrow> nat \<Rightarrow> bool" where
  "row_is_null r col \<longleftrightarrow> column r col = SQL_Null"

definition row_get_int :: "column_lib \<Rightarrow> row \<Rightarrow> nat \<Rightarrow> int option" where
  "row_get_int L r col = (if row_is_null r col then None else Some (column_int64 L (column r col)))"

definition row_get_text :: "column_lib \<Rightarrow> row \<Rightarrow> nat \<Rightarrow> string option" where
  "row_get_text L r col =
     (if row_is_null r col then None
      else case column_text L (column r col) of Some s \<Rightarrow> Some (c_str s) | None \<Rightarrow> Some [])"

definition row_get_blob :: "column_lib \<Rightarrow> row \<Rightarrow> nat \<Rightarrow> bytes option" where
  "row_get_blob L r col = (if row_is_null r col then None else Some (column_blob L (column r col)))"

definition require_col :: "string \<Rightarrow> nat \<Rightarrow> 'a option \<Rightarrow> 'a res" where
  "require_col ty col v =
     (case v of None \<Rightarrow> Inl (Db_Error (''NULL where '' @ ty @ '' required (col '' @ show_nat col @ '')'')) | Some x \<Rightarrow> Inr x)"

definition row_require_int :: "column_lib \<Rightarrow> row \<Rightarrow> nat \<Rightarrow> int res" where
  "row_require_int L r col = require_col ''int'' col (row_get_int L r col)"

definition row_require_text :: "column_lib \<Rightarrow> row \<Rightarrow> nat \<Rightarrow> string res" where
  "row_require_text L r col = require_col ''text'' col (row_get_text L r col)"

definition row_require_blob :: "column_lib \<Rightarrow> row \<Rightarrow> nat \<Rightarrow> bytes res" where
  "row_require_blob L r col = require_col ''blob'' col (row_get_blob L r col)"

subsection \<open>Statements\<close>

definition SQLITE_OK :: int where "SQLITE_OK = 0"
definition SQLITE_ROW :: int where "SQLITE_ROW = 100"
definition SQLITE_DONE :: int where "SQLITE_DONE = 101"

record 'h sqlite_lib =
  sq_step :: "'h \<Rightarrow> int \<times> 'h"
  sq_row :: "'h \<Rightarrow> row"
  sq_reset :: "'h \<Rightarrow> 'h"
  sq_clear :: "'h \<Rightarrow> 'h"
  sq_bind :: "'h \<Rightarrow> nat \<Rightarrow> sql_value \<Rightarrow> 'h"

definition check :: "int \<Rightarrow> string \<Rightarrow> string \<Rightarrow> unit res" where
  "check rc context errmsg =
     (if rc \<noteq> SQLITE_OK \<and> rc \<noteq> SQLITE_ROW \<and> rc \<noteq> SQLITE_DONE then Inl (Db_Error (context @ '': '' @ errmsg)) else Inr ())"

text \<open>\<^verbatim>\<open>sqlite3_prepare_v2\<close> returns a code and a statement; \<open>errmsg\<close> is the connection's error text.\<close>

definition stmt_prepare :: "(string \<Rightarrow> int \<times> 'h) \<Rightarrow> string \<Rightarrow> string \<Rightarrow> 'h res" where
  "stmt_prepare prep errmsg sql =
     (case prep sql of (rc, h) \<Rightarrow> rbind (check rc ''sqlite3_prepare_v2'' errmsg) (\<lambda>_. Inr h))"

definition bind_int :: "'h sqlite_lib \<Rightarrow> 'h \<Rightarrow> nat \<Rightarrow> int \<Rightarrow> 'h" where
  "bind_int L h idx v = sq_bind L h idx (SQL_Int v)"

definition bind_text :: "'h sqlite_lib \<Rightarrow> 'h \<Rightarrow> nat \<Rightarrow> string \<Rightarrow> 'h" where
  "bind_text L h idx v = sq_bind L h idx (SQL_Text v)"

text \<open>A null data pointer binds NULL; \<open>en\<close> says whether an empty span has one.\<close>

definition bind_blob :: "bool \<Rightarrow> 'h sqlite_lib \<Rightarrow> 'h \<Rightarrow> nat \<Rightarrow> bytes \<Rightarrow> 'h" where
  "bind_blob en L h idx v = sq_bind L h idx (if null_blob en v then SQL_Null else SQL_Blob v)"

definition bind_null :: "'h sqlite_lib \<Rightarrow> 'h \<Rightarrow> nat \<Rightarrow> 'h" where
  "bind_null L h idx = sq_bind L h idx SQL_Null"

definition stmt_reset :: "'h sqlite_lib \<Rightarrow> 'h \<Rightarrow> 'h" where
  "stmt_reset L h = sq_clear L (sq_reset L h)"

definition step_failed :: "int \<Rightarrow> exn" where
  "step_failed rc = Db_Error (''sqlite3_step failed: '' @ show_int rc)"

definition stmt_exec :: "'h sqlite_lib \<Rightarrow> 'h \<Rightarrow> 'h \<times> unit res" where
  "stmt_exec L h =
     (case sq_step L h of (rc, h1) \<Rightarrow>
        (stmt_reset L h1, if rc \<noteq> SQLITE_DONE \<and> rc \<noteq> SQLITE_ROW then Inl (step_failed rc) else Inr ()))"

text \<open>
  The loop of \<^verbatim>\<open>query\<close>; a callback runs on the caller's state and may throw. \<open>None\<close> is a loop that does
  not end.
\<close>

type_synonym 's row_cb = "'s \<Rightarrow> row \<Rightarrow> 's \<times> unit res"

partial_function (option) query_loop ::
  "'h sqlite_lib \<Rightarrow> 's row_cb \<Rightarrow> 'h \<Rightarrow> 's \<Rightarrow> ('h \<times> 's \<times> unit res) option" where
  "query_loop L cb h s =
     (case sq_step L h of (rc, h1) \<Rightarrow>
        if rc = SQLITE_DONE then Some (stmt_reset L h1, s, Inr ())
        else if rc \<noteq> SQLITE_ROW then Some (sq_reset L h1, s, Inl (step_failed rc))
        else case cb s (sq_row L h1) of
               (s', Inl e) \<Rightarrow> Some (h1, s', Inl e)
             | (s', Inr _) \<Rightarrow> query_loop L cb h1 s')"

definition stmt_query :: "'h sqlite_lib \<Rightarrow> 's row_cb \<Rightarrow> 'h \<Rightarrow> 's \<Rightarrow> ('h \<times> 's \<times> unit res) option" where
  "stmt_query L cb h s = query_loop L cb h s"

text \<open>\<^verbatim>\<open>while (sqlite3_step(stmt_) == SQLITE_ROW) {}\<close>.\<close>

partial_function (option) drain :: "'h sqlite_lib \<Rightarrow> 'h \<Rightarrow> 'h option" where
  "drain L h = (case sq_step L h of (rc, h1) \<Rightarrow> if rc = SQLITE_ROW then drain L h1 else Some h1)"

definition stmt_query_one :: "'h sqlite_lib \<Rightarrow> 's row_cb \<Rightarrow> 'h \<Rightarrow> 's \<Rightarrow> ('h \<times> 's \<times> bool res) option" where
  "stmt_query_one L cb h s =
     (case sq_step L h of (rc, h1) \<Rightarrow>
        if rc = SQLITE_DONE then Some (stmt_reset L h1, s, Inr False)
        else if rc \<noteq> SQLITE_ROW then Some (sq_reset L h1, s, Inl (step_failed rc))
        else case cb s (sq_row L h1) of
               (s', Inl e) \<Rightarrow> Some (h1, s', Inl e)
             | (s', Inr _) \<Rightarrow> map_option (\<lambda>h2. (stmt_reset L h2, s', Inr True)) (drain L h1))"

text \<open>What a parameter is bound to, read back from a column.\<close>

lemma bound_value_read_back:
  assumes "column_ok L"
  shows "row_require_int L [SQL_Int i] 0 = Inr i"
    and "row_require_text L [SQL_Text s] 0 = Inr (c_str s)"
    and "row_require_blob L [if null_blob en b then SQL_Null else SQL_Blob b] 0 =
      (if null_blob en b then Inl (Db_Error ''NULL where blob required (col 0)'') else Inr b)"
proof -
  have z: "show_nat 0 = ''0''"
    by code_simp
  show "row_require_int L [SQL_Int i] 0 = Inr i" "row_require_text L [SQL_Text s] 0 = Inr (c_str s)"
    "row_require_blob L [if null_blob en b then SQL_Null else SQL_Blob b] 0 =
      (if null_blob en b then Inl (Db_Error ''NULL where blob required (col 0)'') else Inr b)"
    using assms z
    by (simp_all add: column_ok_def row_require_int_def row_require_text_def row_require_blob_def require_col_def
        row_get_int_def row_get_text_def row_get_blob_def row_is_null_def column_def)
qed

subsection \<open>Queries return\<close>

text \<open>The rows a statement still yields and the code that ends them.\<close>

inductive yields :: "'h sqlite_lib \<Rightarrow> 'h \<Rightarrow> row list \<Rightarrow> int \<Rightarrow> bool" for L where
  last: "sq_step L h = (rc, h1) \<Longrightarrow> rc \<noteq> SQLITE_ROW \<Longrightarrow> yields L h [] rc"
| more: "sq_step L h = (SQLITE_ROW, h1) \<Longrightarrow> yields L h1 rs rc \<Longrightarrow> yields L h (sq_row L h1 # rs) rc"

text \<open>The callback on each row in turn, up to its first exception.\<close>

fun each_row :: "'s row_cb \<Rightarrow> 's \<Rightarrow> row list \<Rightarrow> 's \<times> unit res" where
  "each_row cb s [] = (s, Inr ())"
| "each_row cb s (r # rs) = (case cb s r of (s', Inl e) \<Rightarrow> (s', Inl e) | (s', Inr _) \<Rightarrow> each_row cb s' rs)"

lemma query_loop_yields:
  assumes "yields L h rows rc"
  shows "\<exists>h'. query_loop L cb h s = Some (h',
    case each_row cb s rows of
      (s', Inl e) \<Rightarrow> (s', Inl e)
    | (s', Inr _) \<Rightarrow> (s', if rc = SQLITE_DONE then Inr () else Inl (step_failed rc)))"
  using assms
proof (induction arbitrary: s)
  case (last h rc h1)
  then show ?case
    by (subst query_loop.simps) simp
next
  case (more h h1 rs rc)
  show ?case
    using more.hyps(1) more.IH [of "fst (cb s (sq_row L h1))"]
    by (subst query_loop.simps) (auto simp: SQLITE_ROW_def SQLITE_DONE_def split: prod.split sum.split)
qed

lemma drain_yields: "yields L h rows rc \<Longrightarrow> \<exists>h'. drain L h = Some h'"
proof (induction rule: yields.induct)
  case (last h rc h1)
  then show ?case
    by (subst drain.simps) simp
next
  case (more h h1 rs rc)
  then show ?case
    by (subst drain.simps) simp
qed

lemma yields_query_loop:
  assumes ret: "query_loop L cb h s = Some r" and "\<And>s row. snd (cb s row) = Inr ()"
  shows "\<exists>rows rc. yields L h rows rc"
proof -
  have "(\<forall>s row. snd (cb s row) = Inr ()) \<longrightarrow> (\<exists>rows rc. yields L h rows rc)"
  proof (rule query_loop.raw_induct [where P = "\<lambda>L cb h s r.
      (\<forall>s row. snd (cb s row) = Inr ()) \<longrightarrow> (\<exists>rows rc. yields L h rows rc)", OF _ ret], intro impI)
    fix f L cb h s r
    assume IH: "\<And>L cb h s r. f L cb h s = Some r \<Longrightarrow>
        (\<forall>s row. snd (cb s row) = Inr ()) \<longrightarrow> (\<exists>rows rc. yields L h rows rc)"
      and eq: "(case sq_step L h of (rc, h1) \<Rightarrow>
        if rc = SQLITE_DONE then Some (stmt_reset L h1, s, Inr ())
        else if rc \<noteq> SQLITE_ROW then Some (sq_reset L h1, s, Inl (step_failed rc))
        else case cb s (sq_row L h1) of
               (s', Inl e) \<Rightarrow> Some (h1, s', Inl e)
             | (s', Inr _) \<Rightarrow> f L cb h1 s') = Some r"
      and cb: "\<forall>s row. snd (cb s row) = Inr ()"
    obtain rc h1 where step: "sq_step L h = (rc, h1)"
      by (cases "sq_step L h")
    show "\<exists>rows rc. yields L h rows rc"
    proof (cases "rc = SQLITE_ROW")
      case True
      obtain s' where "cb s (sq_row L h1) = (s', Inr ())"
        using cb by (metis prod.collapse)
      with eq step True have "f L cb h1 s' = Some r"
        by (simp add: SQLITE_ROW_def SQLITE_DONE_def)
      from IH [OF this] cb obtain rows rc' where "yields L h1 rows rc'"
        by blast
      with step True show ?thesis
        by (blast intro: yields.more)
    qed (use step in \<open>blast intro: yields.last\<close>)
  qed
  with assms(2) show ?thesis
    by blast
qed

text \<open>
  C17. \<^verbatim>\<open>query\<close> with a callback that does not throw returns exactly when the statement's result set is
  finite, and then it has run the callback on every row in order and reports the code that ended
  the rows unless it is \<^verbatim>\<open>SQLITE_DONE\<close>; \<^verbatim>\<open>query_one\<close> has run it on the first row only.
\<close>

theorem query_returns_iff_finite:
  assumes "\<And>s row. snd (cb s row) = Inr ()"
  shows "(stmt_query L cb h s \<noteq> None) = (\<exists>rows rc. yields L h rows rc) \<and>
    (yields L h rows rc \<longrightarrow>
      (\<exists>h'. stmt_query L cb h s = Some (h', foldl (\<lambda>s r. fst (cb s r)) s rows,
              if rc = SQLITE_DONE then Inr () else Inl (step_failed rc))) \<and>
      (\<exists>h'. stmt_query_one L cb h s = Some (h',
              case rows of
                [] \<Rightarrow> (s, if rc = SQLITE_DONE then Inr False else Inl (step_failed rc))
              | r # _ \<Rightarrow> (fst (cb s r), Inr True))))"
proof (intro conjI impI)
  have each: "each_row cb s rows = (foldl (\<lambda>s r. fst (cb s r)) s rows, Inr ())" for s rows
    using assms by (induction rows arbitrary: s) (auto split: prod.split sum.split, metis sum.simps(4) snd_conv)
  show "(stmt_query L cb h s \<noteq> None) = (\<exists>rows rc. yields L h rows rc)"
  proof
    assume "stmt_query L cb h s \<noteq> None"
    then obtain r where "query_loop L cb h s = Some r"
      by (auto simp: stmt_query_def)
    then show "\<exists>rows rc. yields L h rows rc"
      by (rule yields_query_loop [OF _ assms])
  next
    assume "\<exists>rows rc. yields L h rows rc"
    then obtain rows' rc' where "yields L h rows' rc'"
      by blast
    from query_loop_yields [OF this, of cb s] show "stmt_query L cb h s \<noteq> None"
      unfolding stmt_query_def by auto
  qed
  assume y: "yields L h rows rc"
  show "\<exists>h'. stmt_query L cb h s = Some (h', foldl (\<lambda>s r. fst (cb s r)) s rows,
      if rc = SQLITE_DONE then Inr () else Inl (step_failed rc))"
    using query_loop_yields [OF y, of cb s] by (simp add: stmt_query_def each)
  from y show "\<exists>h'. stmt_query_one L cb h s = Some (h', case rows of
      [] \<Rightarrow> (s, if rc = SQLITE_DONE then Inr False else Inl (step_failed rc)) | r # _ \<Rightarrow> (fst (cb s r), Inr True))"
  proof cases
    case (more h1 rs)
    obtain h2 where "drain L h1 = Some h2"
      using drain_yields [OF more(3)] by blast
    moreover obtain s' where "cb s (sq_row L h1) = (s', Inr ())"
      using assms [of s "sq_row L h1"] by (metis prod.collapse)
    ultimately show ?thesis
      using more by (simp add: stmt_query_one_def SQLITE_ROW_def SQLITE_DONE_def)
  qed (simp add: stmt_query_one_def)
qed

text \<open>A statement over a result set that has been computed: the rows to come and the bindings.\<close>

record cursor =
  cu_all :: "row list"
  cu_todo :: "row list"
  cu_row :: row
  cu_binds :: "nat \<Rightarrow> sql_value"

definition cursor_lib :: "cursor sqlite_lib" where
  "cursor_lib = \<lparr>
     sq_step = (\<lambda>h. case cu_todo h of [] \<Rightarrow> (SQLITE_DONE, h) | r # rs \<Rightarrow> (SQLITE_ROW, h\<lparr>cu_todo := rs, cu_row := r\<rparr>)),
     sq_row = cu_row,
     sq_reset = (\<lambda>h. h\<lparr>cu_todo := cu_all h\<rparr>),
     sq_clear = (\<lambda>h. h\<lparr>cu_binds := (\<lambda>_. SQL_Null)\<rparr>),
     sq_bind = (\<lambda>h i v. h\<lparr>cu_binds := (cu_binds h)(i := v)\<rparr>)\<rparr>"

lemma cursor_yields: "yields cursor_lib h (cu_todo h) SQLITE_DONE"
proof (induction "cu_todo h" arbitrary: h)
  case Nil
  then show ?case
    by (auto simp: cursor_lib_def SQLITE_ROW_def SQLITE_DONE_def intro!: yields.last)
next
  case (Cons r rs)
  let ?h = "h\<lparr>cu_todo := rs, cu_row := r\<rparr>"
  have "sq_step cursor_lib h = (SQLITE_ROW, ?h)" "sq_row cursor_lib ?h = r"
    using Cons.hyps(2) by (auto simp: cursor_lib_def split: list.split)
  then show ?case
    using Cons.hyps(1) [of ?h] yields.more [of cursor_lib h ?h rs SQLITE_DONE] Cons.hyps(2) by simp
qed

theorem query_returns_iff_finite_witness:
  "\<exists>h'. stmt_query cursor_lib (\<lambda>n row. (n + length row, Inr ()))
      \<lparr>cu_all = [[SQL_Int 1], []], cu_todo = [[SQL_Int 1], []], cu_row = [], cu_binds = (\<lambda>_. SQL_Null)\<rparr> 0 =
    Some (h', 1, Inr ())"
  using query_returns_iff_finite [of "\<lambda>n row. (n + length row, Inr ())" cursor_lib
      "\<lparr>cu_all = [[SQL_Int 1], []], cu_todo = [[SQL_Int 1], []], cu_row = [], cu_binds = (\<lambda>_. SQL_Null)\<rparr>" 0
      "[[SQL_Int 1], []]" SQLITE_DONE]
    cursor_yields [of "\<lparr>cu_all = [[SQL_Int 1], []], cu_todo = [[SQL_Int 1], []], cu_row = [], cu_binds = (\<lambda>_. SQL_Null)\<rparr>"]
  by simp

subsection \<open>The connection\<close>

text \<open>
  \<^verbatim>\<open>sqlite3_exec\<close>: the connection after it, and none for \<^verbatim>\<open>SQLITE_OK\<close> or else the error text, which may
  itself be missing.
\<close>

type_synonym 'd sqlite_exec = "'d \<Rightarrow> string \<Rightarrow> 'd \<times> string option option"

definition db_exec :: "'d sqlite_exec \<Rightarrow> 'd \<Rightarrow> string \<Rightarrow> 'd \<times> unit res" where
  "db_exec X d sql =
     (case X d sql of
        (d', None) \<Rightarrow> (d', Inr ())
      | (d', Some err) \<Rightarrow> (d', Inl (Db_Error (case err of Some msg \<Rightarrow> msg | None \<Rightarrow> ''sqlite3_exec failed''))))"

definition exec_seq :: "'d sqlite_exec \<Rightarrow> 'd \<Rightarrow> string list \<Rightarrow> 'd \<times> unit res" where
  "exec_seq X d sqls = foldl (\<lambda>(d, r) sql. case r of Inl e \<Rightarrow> (d, Inl e) | Inr _ \<Rightarrow> db_exec X d sql) (d, Inr ()) sqls"

text \<open>
  The constructor: \<^verbatim>\<open>sqlite3_open\<close> gives a connection or an error (none when there is not even a handle).
  The result says whether a connection that is open is left without an owner: the destructor
  does not run when the constructor throws.
\<close>

definition db_open :: "'d sqlite_exec \<Rightarrow> string option + 'd \<Rightarrow> string \<Rightarrow> bool \<times> 'd res" where
  "db_open X opened path =
     (case opened of
        Inl err \<Rightarrow> (False, Inl (Db_Error (''open('' @ path @ ''): '' @
                     (case err of Some msg \<Rightarrow> msg | None \<Rightarrow> ''sqlite3_open failed''))))
      | Inr d \<Rightarrow>
          (case exec_seq X d [''PRAGMA journal_mode=WAL'', ''PRAGMA foreign_keys=ON'', ''PRAGMA synchronous=NORMAL''] of
             (d', Inl e) \<Rightarrow> (True, Inl e)
           | (d', Inr _) \<Rightarrow> (False, Inr d')))"

definition db_begin :: "'d sqlite_exec \<Rightarrow> 'd \<Rightarrow> 'd \<times> unit res" where
  "db_begin X d = db_exec X d ''BEGIN''"

definition db_commit :: "'d sqlite_exec \<Rightarrow> 'd \<Rightarrow> 'd \<times> unit res" where
  "db_commit X d = db_exec X d ''COMMIT''"

definition db_rollback :: "'d sqlite_exec \<Rightarrow> 'd \<Rightarrow> 'd \<times> unit res" where
  "db_rollback X d = db_exec X d ''ROLLBACK''"

text \<open>The destructor of \<^verbatim>\<open>Txn\<close>, which must not throw: an exception of \<^verbatim>\<open>rollback\<close> ends the process.\<close>

definition txn_destroy :: "'d sqlite_exec \<Rightarrow> 'd \<Rightarrow> exn \<Rightarrow> ('d \<times> 'a res) outcome" where
  "txn_destroy X d e = (case db_rollback X d of (d', Inr _) \<Rightarrow> Returns (d', Inl e) | (d', Inl _) \<Rightarrow> Terminates)"

text \<open>\<^verbatim>\<open>auto tx = db_.transaction(); body; tx.commit();\<close>\<close>

definition with_txn :: "'d sqlite_exec \<Rightarrow> 'd \<Rightarrow> ('d \<Rightarrow> 'd \<times> 'a res) \<Rightarrow> ('d \<times> 'a res) outcome" where
  "with_txn X d body =
     (case db_begin X d of
        (d1, Inl e) \<Rightarrow> Returns (d1, Inl e)
      | (d1, Inr _) \<Rightarrow>
          (case body d1 of
             (d2, Inl e) \<Rightarrow> txn_destroy X d2 e
           | (d2, Inr x) \<Rightarrow>
               (case db_commit X d2 of
                  (d3, Inr _) \<Rightarrow> Returns (d3, Inr x)
                | (d3, Inl e) \<Rightarrow> txn_destroy X d3 e)))"

subsection \<open>Transactions are atomic\<close>

text \<open>
  What SQLite promises of a connection with contents \<open>view\<close>: \<open>base\<close> is what a rollback restores, none
  outside a transaction. A \<^verbatim>\<open>BEGIN\<close> that fails opens no transaction; a commit that fails leaves the transaction
  open or has rolled it back.
\<close>

locale transactional =
  fixes X :: "'d sqlite_exec" and view :: "'d \<Rightarrow> 't" and base :: "'d \<Rightarrow> 't option"
  assumes begin_law: "base d = None \<Longrightarrow> X d ''BEGIN'' = (d', r) \<Longrightarrow>
      view d' = view d \<and> base d' = (if r = None then Some (view d) else None)"
    and commit_law: "base d = Some t \<Longrightarrow> X d ''COMMIT'' = (d', r) \<Longrightarrow>
      (r = None \<longrightarrow> view d' = view d \<and> base d' = None) \<and>
      (r \<noteq> None \<longrightarrow> base d' = Some t \<or> (base d' = None \<and> view d' = t))"
    and rollback_law: "base d = Some t \<Longrightarrow> \<exists>d'. X d ''ROLLBACK'' = (d', None) \<and> view d' = t \<and> base d' = None"
    and rollback_none: "base d = None \<Longrightarrow> \<exists>err. X d ''ROLLBACK'' = (d, Some err)"
begin

lemma destroy_open: "base d = Some t \<Longrightarrow> \<exists>d'. txn_destroy X d e = Returns (d', Inl e) \<and> view d' = t \<and> base d' = None"
  using rollback_law [of d t] by (auto simp: txn_destroy_def db_rollback_def db_exec_def)

lemma destroy_end:
  assumes "base d = Some t \<or> base d = None"
  shows "case txn_destroy X d e of
      Terminates \<Rightarrow> True | Returns (d', Inl _) \<Rightarrow> view d' = t \<and> base d' = None | Returns (d', Inr _) \<Rightarrow> Q d'"
  using assms rollback_law [of d t] rollback_none [of d] by (auto simp: txn_destroy_def db_rollback_def db_exec_def)

text \<open>A body that throws, with the transaction still open, has no effect.\<close>

lemma body_throws:
  assumes "X d ''BEGIN'' = (d1, None)" "body d1 = (d2, Inl e)" "base d2 = Some t"
  shows "\<exists>d'. with_txn X d body = Returns (d', Inl e)"
  using destroy_open [OF assms(3), of e] assms(1,2) by (auto simp: with_txn_def db_begin_def db_exec_def)

text \<open>
  A body that returns is committed or undone, one that throws is undone, or the process ends, whatever
  statement fails: nothing is applied in part.
\<close>

lemma body_atomic:
  assumes "base d = None"
    and "\<And>d1 d2 r. base d1 = Some (view d) \<Longrightarrow> view d1 = view d \<Longrightarrow> body d1 = (d2, r) \<Longrightarrow>
      (case r of Inr x \<Rightarrow> base d2 = Some (view d) \<and> Q (view d2)
       | Inl e \<Rightarrow> base d2 = Some (view d) \<or> base d2 = None \<and> view d2 = view d)"
  shows "case with_txn X d body of
      Terminates \<Rightarrow> True
    | Returns (d', Inl e) \<Rightarrow> view d' = view d \<and> base d' = None
    | Returns (d', Inr x) \<Rightarrow> Q (view d') \<and> base d' = None"
proof -
  obtain d1 r1 where d1: "X d ''BEGIN'' = (d1, r1)"
    by (cases "X d ''BEGIN''")
  obtain d2 r2 where d2: "body d1 = (d2, r2)"
    by (cases "body d1")
  obtain d3 r3 where d3: "X d2 ''COMMIT'' = (d3, r3)"
    by (cases "X d2 ''COMMIT''")
  have undone: "case with_txn X d body of
      Terminates \<Rightarrow> True
    | Returns (d', Inl e) \<Rightarrow> view d' = view d \<and> base d' = None
    | Returns (d', Inr x) \<Rightarrow> Q (view d') \<and> base d' = None"
    if "base d' = Some (view d) \<or> base d' = None" "with_txn X d body = txn_destroy X d' e" for d' e
    unfolding that(2) by (rule destroy_end [OF that(1)])
  show ?thesis
  proof (cases r1)
    case (Some err)
    then show ?thesis
      using begin_law [OF assms(1) d1] d1 by (simp add: with_txn_def db_begin_def db_exec_def)
  next
    case None
    note b = begin_law [OF assms(1) d1, unfolded None, simplified]
    show ?thesis
    proof (cases r2)
      case (Inl e)
      have "with_txn X d body = txn_destroy X d2 e"
        using d1 d2 None Inl by (simp add: with_txn_def db_begin_def db_exec_def)
      moreover have "base d2 = Some (view d) \<or> base d2 = None"
        using assms(2) [OF _ _ d2] b Inl by auto
      ultimately show ?thesis
        using undone by blast
    next
      case (Inr x)
      have d2_open: "base d2 = Some (view d)" "Q (view d2)"
        using assms(2) [OF _ _ d2] b Inr by simp_all
      note c = commit_law [OF d2_open(1) d3]
      show ?thesis
      proof (cases r3)
        case None
        then show ?thesis
          using c d2_open d1 d2 d3 \<open>r1 = None\<close> Inr by (simp add: with_txn_def db_begin_def db_commit_def db_exec_def)
      next
        case (Some err)
        then obtain e where "with_txn X d body = txn_destroy X d3 e"
          using d1 d2 d3 \<open>r1 = None\<close> Inr by (simp add: with_txn_def db_begin_def db_commit_def db_exec_def)
        moreover have "base d3 = Some (view d) \<or> base d3 = None"
          using c Some by auto
        ultimately show ?thesis
          using undone by blast
      qed
    qed
  qed
qed

lemma body_commits:
  assumes "X d ''BEGIN'' = (d1, None)" "body d1 = (d2, Inr x)" "X d2 ''COMMIT'' = (d3, None)"
  shows "with_txn X d body = Returns (d3, Inr x)"
  using assms by (simp add: with_txn_def db_begin_def db_commit_def db_exec_def)

end

text \<open>
  A connection as its contents, the contents at \<^verbatim>\<open>BEGIN\<close>, and how the coming statements end when nothing is wrong
  with the data: a statement succeeds, it fails (a busy database, a statement that cannot be prepared), or it
  fails and SQLite has rolled the transaction back (a full disk, an I/O error). A rollback inside a
  transaction succeeds.
\<close>

datatype stmt_end = Stmt_Ok | Stmt_Fails string | Stmt_Undone string

record 't journal =
  jr_cur :: 't
  jr_base :: "'t option"
  jr_ends :: "stmt_end list"

definition next_end :: "'t journal \<Rightarrow> stmt_end \<times> 't journal" where
  "next_end j = (case jr_ends j of [] \<Rightarrow> Stmt_Ok | e # _ \<Rightarrow> e, j\<lparr>jr_ends := tl (jr_ends j)\<rparr>)"

definition undo :: "'t journal \<Rightarrow> 't journal" where
  "undo j = (case jr_base j of None \<Rightarrow> j | Some t \<Rightarrow> j\<lparr>jr_cur := t, jr_base := None\<rparr>)"

definition journal_exec :: "'t journal sqlite_exec" where
  "journal_exec j sql =
     (if sql = ''BEGIN'' then
        (if jr_base j \<noteq> None then (j, Some (Some ''cannot start a transaction within a transaction''))
         else case next_end j of
                (Stmt_Ok, j') \<Rightarrow> (j'\<lparr>jr_base := Some (jr_cur j)\<rparr>, None)
              | (Stmt_Fails msg, j') \<Rightarrow> (j', Some (Some msg))
              | (Stmt_Undone msg, j') \<Rightarrow> (j', Some (Some msg)))
      else if sql = ''COMMIT'' then
        (if jr_base j = None then (j, Some (Some ''cannot commit - no transaction is active''))
         else case next_end j of
                (Stmt_Ok, j') \<Rightarrow> (j'\<lparr>jr_base := None\<rparr>, None)
              | (Stmt_Fails msg, j') \<Rightarrow> (j', Some (Some msg))
              | (Stmt_Undone msg, j') \<Rightarrow> (undo j', Some (Some msg)))
      else if sql = ''ROLLBACK'' then
        (if jr_base j = None then (j, Some (Some ''cannot rollback - no transaction is active'')) else (undo j, None))
      else (j, None))"

text \<open>A statement that computes the new contents with \<open>f\<close>.\<close>

definition journal_stmt :: "('t \<Rightarrow> 't res) \<Rightarrow> 't journal \<Rightarrow> 't journal \<times> unit res" where
  "journal_stmt f j =
     (case next_end j of
        (Stmt_Ok, j') \<Rightarrow> (case f (jr_cur j) of Inl e \<Rightarrow> (j', Inl e) | Inr t \<Rightarrow> (j'\<lparr>jr_cur := t\<rparr>, Inr ()))
      | (Stmt_Fails msg, j') \<Rightarrow> (j', Inl (Db_Error msg))
      | (Stmt_Undone msg, j') \<Rightarrow> (undo j', Inl (Db_Error msg)))"

interpretation journal: transactional journal_exec jr_cur jr_base
proof unfold_locales
  show "jr_cur j' = jr_cur j \<and> jr_base j' = (if r = None then Some (jr_cur j) else None)"
    if "jr_base j = None" "journal_exec j ''BEGIN'' = (j', r)" for j j' :: "'t journal" and r
    using that by (auto simp: journal_exec_def next_end_def split: stmt_end.splits)
  show "(r = None \<longrightarrow> jr_cur j' = jr_cur j \<and> jr_base j' = None) \<and>
      (r \<noteq> None \<longrightarrow> jr_base j' = Some t \<or> (jr_base j' = None \<and> jr_cur j' = t))"
    if "jr_base j = Some t" "journal_exec j ''COMMIT'' = (j', r)" for j t and j' :: "'t journal" and r
    using that by (auto simp: journal_exec_def next_end_def undo_def split: stmt_end.splits)
qed (auto simp: journal_exec_def undo_def)

text \<open>
  The statements of the inbox store's two transactions: the table is emptied, then one row after the other is
  inserted; an exception leaves the rows inserted so far.
\<close>

primrec insert_rows ::
  "('s \<Rightarrow> 'r list) \<Rightarrow> ('r list \<Rightarrow> 's \<Rightarrow> 's) \<Rightarrow> ('r \<Rightarrow> 'k) \<Rightarrow> ('r \<Rightarrow> bool) \<Rightarrow> 'r list \<Rightarrow> 's journal \<Rightarrow> 's journal \<times> unit res" where
  "insert_rows get put key bad [] j = (j, Inr ())"
| "insert_rows get put key bad (r # rs) j =
     (case journal_stmt (\<lambda>db. rbind (if bad r then Inl constraint_error else sql_insert key r (get db)) (\<lambda>t. Inr (put t db))) j of
        (j', Inl e) \<Rightarrow> (j', Inl e)
      | (j', Inr _) \<Rightarrow> insert_rows get put key bad rs j')"

definition replace_rows ::
  "('s \<Rightarrow> 'r list) \<Rightarrow> ('r list \<Rightarrow> 's \<Rightarrow> 's) \<Rightarrow> ('r \<Rightarrow> 'k) \<Rightarrow> ('r \<Rightarrow> bool) \<Rightarrow> 'r list \<Rightarrow> 's journal \<Rightarrow> 's journal \<times> unit res" where
  "replace_rows get put key bad rs j =
     (case journal_stmt (\<lambda>db. Inr (put [] db)) j of
        (j', Inl e) \<Rightarrow> (j', Inl e)
      | (j', Inr _) \<Rightarrow> insert_rows get put key bad rs j')"

definition replace_known_outboxes_txn ::
  "bool \<Rightarrow> inbox_store journal \<Rightarrow> known_outbox list \<Rightarrow> (inbox_store journal \<times> unit res) outcome" where
  "replace_known_outboxes_txn en j obs = with_txn journal_exec j
     (replace_rows is_outboxes (\<lambda>t db. db\<lparr>is_outboxes := t\<rparr>) ko_key_c_pubkey
        (\<lambda>ob. null_blob en (ko_key_c_pubkey ob) \<or> null_blob en (ko_auth_cert ob)) obs)"

definition replace_allowed_senders_txn ::
  "inbox_store journal \<Rightarrow> string list \<Rightarrow> (inbox_store journal \<times> unit res) outcome" where
  "replace_allowed_senders_txn j ids = with_txn journal_exec j
     (replace_rows is_senders (\<lambda>t db. db\<lparr>is_senders := t\<rparr>) (\<lambda>s. s) (\<lambda>_. False) ids)"

text \<open>What a body may do to the transaction it runs in: keep it open, or fail with it undone.\<close>

definition body_end :: "'t \<Rightarrow> 't res \<Rightarrow> 't journal \<times> unit res \<Rightarrow> bool" where
  "body_end old new out \<longleftrightarrow>
     (case out of
        (j, Inr _) \<Rightarrow> jr_base j = Some old \<and> new = Inr (jr_cur j)
      | (j, Inl e) \<Rightarrow> jr_base j = Some old \<or> jr_base j = None \<and> jr_cur j = old)"

lemma journal_stmt_end: "jr_base j = Some old \<Longrightarrow> body_end old (f (jr_cur j)) (journal_stmt f j)"
  by (simp add: journal_stmt_def next_end_def undo_def body_end_def split: list.split stmt_end.split sum.split)

lemma insert_rows_end:
  assumes "\<And>t db. get (put t db) = t" "\<And>t t' db. put t' (put t db) = put t' db"
    and "jr_base j = Some old" "put (get (jr_cur j)) (jr_cur j) = jr_cur j"
  shows "body_end old (rbind (sql_insert_all key bad rs (get (jr_cur j))) (\<lambda>t. Inr (put t (jr_cur j))))
    (insert_rows get put key bad rs j)"
  using assms(3,4)
proof (induction rs arbitrary: j)
  case Nil
  then show ?case
    by (simp add: body_end_def)
next
  case (Cons r rs)
  let ?f = "\<lambda>db. rbind (if bad r then Inl constraint_error else sql_insert key r (get db)) (\<lambda>t. Inr (put t db))"
  obtain j' q where st: "journal_stmt ?f j = (j', q)"
    by (cases "journal_stmt ?f j")
  note e = journal_stmt_end [OF Cons.prems(1), of ?f, unfolded st]
  show ?case
  proof (cases q)
    case (Inl x)
    then show ?thesis
      using e st by (simp add: body_end_def)
  next
    case (Inr u)
    with e obtain t where t: "jr_base j' = Some old" "\<not> bad r" "sql_insert key r (get (jr_cur j)) = Inr t" "jr_cur j' = put t (jr_cur j)"
      by (auto simp: body_end_def rbind_Inr_iff split: if_splits)
    with Cons.IH [of j'] show ?thesis
      using Inr st by (simp add: assms(1,2))
  qed
qed

lemma replace_rows_end:
  assumes "\<And>t db. get (put t db) = t" "\<And>t t' db. put t' (put t db) = put t' db" "jr_base j = Some old"
  shows "body_end old (rbind (sql_insert_all key bad rs []) (\<lambda>t. Inr (put t (jr_cur j)))) (replace_rows get put key bad rs j)"
proof -
  obtain j' q where st: "journal_stmt (\<lambda>db. Inr (put [] db)) j = (j', q)"
    by (cases "journal_stmt (\<lambda>db. Inr (put [] db)) j")
  note e = journal_stmt_end [OF assms(3), of "\<lambda>db. Inr (put [] db)", unfolded st]
  show ?thesis
  proof (cases q)
    case (Inl x)
    then show ?thesis
      using e st by (simp add: body_end_def replace_rows_def)
  next
    case (Inr u)
    with e have "jr_base j' = Some old" "jr_cur j' = put [] (jr_cur j)"
      by (simp_all add: body_end_def)
    with insert_rows_end [of get put j' old key bad rs] show ?thesis
      using Inr st assms(1,2) by (simp add: replace_rows_def)
  qed
qed

text \<open>The next \<open>n\<close> statements fail for no reason of their own: what they do is what the data says.\<close>

definition untroubled :: "nat \<Rightarrow> 't journal \<Rightarrow> bool" where
  "untroubled n j \<longleftrightarrow> list_all (\<lambda>e. e = Stmt_Ok) (take n (jr_ends j))"

lemma untroubled_next:
  assumes "untroubled (Suc n) j"
  shows "next_end j = (Stmt_Ok, j\<lparr>jr_ends := tl (jr_ends j)\<rparr>)" "untroubled n (j\<lparr>jr_ends := tl (jr_ends j)\<rparr>)"
  using assms by (cases "jr_ends j"; simp add: untroubled_def next_end_def)+

lemma untroubled_ends: "jr_ends j' = jr_ends j \<Longrightarrow> untroubled n j' = untroubled n j"
  by (simp add: untroubled_def)

lemma insert_rows_untroubled:
  assumes "\<And>t db. get (put t db) = t" "\<And>t t' db. put t' (put t db) = put t' db" "untroubled (length rs + n) j"
  shows "\<exists>j'. insert_rows get put key bad rs j = (j', rbind (sql_insert_all key bad rs (get (jr_cur j))) (\<lambda>_. Inr ())) \<and>
    jr_base j' = jr_base j \<and> (\<forall>t. sql_insert_all key bad rs (get (jr_cur j)) = Inr t \<longrightarrow> untroubled n j')"
  using assms(3)
proof (induction rs arbitrary: j)
  case (Cons r rs)
  note ok = untroubled_next [of "length rs + n" j]
  let ?new = "if bad r then Inl constraint_error else sql_insert key r (get (jr_cur j))"
  show ?case
  proof (cases ?new)
    case (Inl e)
    then show ?thesis
      using ok Cons.prems by (auto simp: journal_stmt_def split: if_splits)
  next
    case (Inr t)
    let ?j = "j\<lparr>jr_ends := tl (jr_ends j), jr_cur := put t (jr_cur j)\<rparr>"
    have "untroubled (length rs + n) ?j"
      using ok(2) Cons.prems untroubled_ends [of ?j "j\<lparr>jr_ends := tl (jr_ends j)\<rparr>"] by simp
    from Cons.IH [OF this] show ?thesis
      using Inr ok(1) Cons.prems by (auto simp: journal_stmt_def assms(1,2) split: if_splits)
  qed
qed simp

lemma replace_rows_untroubled:
  assumes "\<And>t db. get (put t db) = t" "\<And>t t' db. put t' (put t db) = put t' db" "untroubled (Suc (length rs + n)) j"
  shows "\<exists>j'. replace_rows get put key bad rs j = (j', rbind (sql_insert_all key bad rs []) (\<lambda>_. Inr ())) \<and>
    jr_base j' = jr_base j \<and> (\<forall>t. sql_insert_all key bad rs [] = Inr t \<longrightarrow> untroubled n j')"
proof -
  let ?j = "j\<lparr>jr_ends := tl (jr_ends j), jr_cur := put [] (jr_cur j)\<rparr>"
  note ok = untroubled_next [OF assms(3)]
  have "untroubled (length rs + n) ?j"
    using ok(2) untroubled_ends [of ?j "j\<lparr>jr_ends := tl (jr_ends j)\<rparr>"] by simp
  from insert_rows_untroubled [of get put, OF assms(1,2) this] show ?thesis
    using ok(1) by (auto simp: replace_rows_def journal_stmt_def assms(1))
qed

text \<open>
  How a transaction of \<open>n\<close> insertions may end that computes \<open>new\<close> from the contents. It runs \<open>n + 3\<close> statements:
  \<^verbatim>\<open>BEGIN\<close>, \<^verbatim>\<open>DELETE\<close>, the insertions and \<^verbatim>\<open>COMMIT\<close>.
\<close>

definition atomic_end :: "nat \<Rightarrow> 's journal \<Rightarrow> 's res \<Rightarrow> ('s journal \<times> unit res) outcome \<Rightarrow> bool" where
  "atomic_end n j new out \<longleftrightarrow>
     (case out of
        Terminates \<Rightarrow> True
      | Returns (j', Inl e) \<Rightarrow> jr_cur j' = jr_cur j \<and> jr_base j' = None
      | Returns (j', Inr _) \<Rightarrow> new = Inr (jr_cur j') \<and> jr_base j' = None) \<and>
     (case new of
        Inl e \<Rightarrow> untroubled (n + 2) j \<longrightarrow> (\<exists>j'. out = Returns (j', Inl e))
      | Inr _ \<Rightarrow> untroubled (n + 3) j \<longrightarrow> (\<exists>j'. out = Returns (j', Inr ())))"

lemma replace_rows_atomic:
  fixes put :: "'r list \<Rightarrow> 's \<Rightarrow> 's"
  assumes "\<And>t db. get (put t db) = t" "\<And>t t' db. put t' (put t db) = put t' db" "jr_base j = None"
  shows "atomic_end (length rs) j (rbind (sql_insert_all key bad rs []) (\<lambda>t. Inr (put t (jr_cur j))))
    (with_txn journal_exec j (replace_rows get put key bad rs))"
proof -
  let ?new = "rbind (sql_insert_all key bad rs []) (\<lambda>t. Inr (put t (jr_cur j)))"
  let ?body = "replace_rows get put key bad rs" and ?j1 = "j\<lparr>jr_ends := tl (jr_ends j), jr_base := Some (jr_cur j)\<rparr>"
  have safe: "case with_txn journal_exec j ?body of
      Terminates \<Rightarrow> True
    | Returns (j', Inl e) \<Rightarrow> jr_cur j' = jr_cur j \<and> jr_base j' = None
    | Returns (j', Inr _) \<Rightarrow> ?new = Inr (jr_cur j') \<and> jr_base j' = None"
  proof (rule journal.body_atomic [OF assms(3), of ?body "\<lambda>t. ?new = Inr t"])
    fix d1 d2 r assume d: "jr_base d1 = Some (jr_cur j)" "jr_cur d1 = jr_cur j" "?body d1 = (d2, r)"
    from replace_rows_end [of get put d1 "jr_cur j" key bad rs, OF assms(1,2) d(1)] d(2,3)
    show "case r of Inr x \<Rightarrow> jr_base d2 = Some (jr_cur j) \<and> ?new = Inr (jr_cur d2)
       | Inl e \<Rightarrow> jr_base d2 = Some (jr_cur j) \<or> jr_base d2 = None \<and> jr_cur d2 = jr_cur j"
      by (simp add: body_end_def split: sum.splits)
  qed
  have run: "journal_exec j ''BEGIN'' = (?j1, None)"
    "\<exists>j2. ?body ?j1 = (j2, rbind (sql_insert_all key bad rs []) (\<lambda>_. Inr ())) \<and> jr_base j2 = Some (jr_cur j) \<and>
       (\<forall>t. sql_insert_all key bad rs [] = Inr t \<longrightarrow> untroubled n j2)"
    if "untroubled (Suc (Suc (length rs + n))) j" for n
  proof -
    note ok = untroubled_next [OF that]
    show "journal_exec j ''BEGIN'' = (?j1, None)"
      using ok(1) assms(3) by (simp add: journal_exec_def)
    have "untroubled (Suc (length rs + n)) ?j1"
      using ok(2) untroubled_ends [of ?j1 "j\<lparr>jr_ends := tl (jr_ends j)\<rparr>"] by simp
    from replace_rows_untroubled [of get put, OF assms(1,2) this]
    show "\<exists>j2. ?body ?j1 = (j2, rbind (sql_insert_all key bad rs []) (\<lambda>_. Inr ())) \<and> jr_base j2 = Some (jr_cur j) \<and>
       (\<forall>t. sql_insert_all key bad rs [] = Inr t \<longrightarrow> untroubled n j2)"
      by simp
  qed
  have "case ?new of
        Inl e \<Rightarrow> untroubled (length rs + 2) j \<longrightarrow> (\<exists>j'. with_txn journal_exec j ?body = Returns (j', Inl e))
      | Inr _ \<Rightarrow> untroubled (length rs + 3) j \<longrightarrow> (\<exists>j'. with_txn journal_exec j ?body = Returns (j', Inr ()))"
  proof (cases "sql_insert_all key bad rs []")
    case (Inl e)
    have "\<exists>j'. with_txn journal_exec j ?body = Returns (j', Inl e)" if "untroubled (length rs + 2) j"
      using run [of 0] that Inl by (auto dest: journal.body_throws)
    then show ?thesis
      using Inl by simp
  next
    case (Inr t)
    have "\<exists>j'. with_txn journal_exec j ?body = Returns (j', Inr ())" if "untroubled (length rs + 3) j"
    proof -
      from that have "untroubled (Suc (Suc (length rs + 1))) j"
        by (simp add: eval_nat_numeral)
      from run [OF this] obtain j2 where j2: "?body ?j1 = (j2, Inr ())" "jr_base j2 = Some (jr_cur j)" "untroubled 1 j2"
        using Inr by auto
      have "journal_exec j2 ''COMMIT'' = (j2\<lparr>jr_ends := tl (jr_ends j2), jr_base := None\<rparr>, None)"
        using untroubled_next [of 0 j2] j2(2,3) by (simp add: journal_exec_def)
      from journal.body_commits [where body = ?body, OF run(1) [OF \<open>untroubled (Suc (Suc (length rs + 1))) j\<close>] j2(1) this] show ?thesis
        by blast
    qed
    then show ?thesis
      using Inr by simp
  qed
  with safe show ?thesis
    by (simp add: atomic_end_def)
qed

text \<open>
  C18. The two transactions of the inbox store implement the store's operations: run statement by statement
  under the transaction guard, they end with the whole new table, or with an exception and the
  table as it was, or the process ends, whichever statement fails (\<^verbatim>\<open>BEGIN\<close> and \<^verbatim>\<open>COMMIT\<close> included) and whether or not
  SQLite rolls back by itself. A row that cannot be inserted always leaves the old table and gives its own exception
  when no other statement failed before it, and when no statement fails the new table is there.
\<close>

theorem inbox_transactions_atomic:
  assumes "jr_base j = None"
  shows "atomic_end (length obs) j (replace_known_outboxes en (jr_cur j) obs) (replace_known_outboxes_txn en j obs) \<and>
    atomic_end (length ids) j (replace_allowed_senders (jr_cur j) ids) (replace_allowed_senders_txn j ids)"
  using replace_rows_atomic [of is_outboxes "\<lambda>t db. db\<lparr>is_outboxes := t\<rparr>" j obs ko_key_c_pubkey
      "\<lambda>ob. null_blob en (ko_key_c_pubkey ob) \<or> null_blob en (ko_auth_cert ob)"]
    replace_rows_atomic [of is_senders "\<lambda>t db. db\<lparr>is_senders := t\<rparr>" j ids "\<lambda>s. s" "\<lambda>_. False"] assms
  by (simp add: replace_known_outboxes_def replace_allowed_senders_def replace_known_outboxes_txn_def
      replace_allowed_senders_txn_def)

theorem inbox_transactions_atomic_witness:
  "atomic_end 3 \<lparr>jr_cur = inbox_store_new, jr_base = None, jr_ends = [Stmt_Ok, Stmt_Ok, Stmt_Undone ''disk full'']\<rparr> (Inl constraint_error)
     (replace_allowed_senders_txn \<lparr>jr_cur = inbox_store_new, jr_base = None, jr_ends = [Stmt_Ok, Stmt_Ok, Stmt_Undone ''disk full'']\<rparr>
       [''a'', ''b'', ''a''])"
  using inbox_transactions_atomic [of "\<lparr>jr_cur = inbox_store_new, jr_base = None, jr_ends = [Stmt_Ok, Stmt_Ok, Stmt_Undone ''disk full'']\<rparr>"
      "[]" True "[''a'', ''b'', ''a'']"]
  by (simp add: replace_allowed_senders_def sql_insert_def eval_nat_numeral)

end
