(* ===== verification/Keystore_Rows.thy ===== *)
theory Keystore_Rows
  imports Keystore Database
begin

text \<open>
  How the keystore reads its keys from the rows of SQLite (\<^verbatim>\<open>row_to_key_b\<close> and \<^verbatim>\<open>row_to_key_c\<close> of
  \<^verbatim>\<open>client/src/keystore.cpp\<close> and the loops of \<^verbatim>\<open>list_key_b\<close> and \<^verbatim>\<open>list_key_c\<close>), against the tables of \<^verbatim>\<open>Keystore\<close>.
  Keys are copied out of a blob without a look at its length: \<open>oob\<close> is the memory behind the blob. \<open>None\<close> is a
  null pointer that is read.
\<close>

subsection \<open>Columns\<close>

definition text_ptr :: "column_lib \<Rightarrow> row \<Rightarrow> nat \<Rightarrow> string option" where
  "text_ptr L r col = (if row_is_null r col then None else map_option c_str (column_text L (column r col)))"

text \<open>\<^verbatim>\<open>sqlite3_column_blob\<close> is a null pointer for NULL and for a blob of length 0.\<close>

definition blob_ptr :: "column_lib \<Rightarrow> row \<Rightarrow> nat \<Rightarrow> bytes option" where
  "blob_ptr L r col =
     (if row_is_null r col \<or> column_blob L (column r col) = [] then None else Some (column_blob L (column r col)))"

definition copy_blob :: "column_lib \<Rightarrow> bytes \<Rightarrow> row \<Rightarrow> nat \<Rightarrow> nat \<Rightarrow> bytes option" where
  "copy_blob L oob r col n = map_option (\<lambda>b. take n (b @ oob)) (blob_ptr L r col)"

text \<open>\<^verbatim>\<open>assign(p, p + len)\<close> of a blob, where \<^verbatim>\<open>len\<close> is 0 for a null pointer.\<close>

definition assign_blob :: "column_lib \<Rightarrow> row \<Rightarrow> nat \<Rightarrow> bytes" where
  "assign_blob L r col = (case blob_ptr L r col of Some b \<Rightarrow> b | None \<Rightarrow> [])"

definition row_to_key_b :: "column_lib \<Rightarrow> bytes \<Rightarrow> row \<Rightarrow> key_b option" where
  "row_to_key_b L oob r =
     (case (text_ptr L r 0, text_ptr L r 1, copy_blob L oob r 2 MLKEM768_PUBKEY_BYTES, copy_blob L oob r 3 MLKEM768_PRIVKEY_BYTES,
            copy_blob L oob r 4 MLDSA65_PUBKEY_BYTES, copy_blob L oob r 5 MLDSA65_PRIVKEY_BYTES) of
        (Some i, Some rel, Some kp, Some kpr, Some sp, Some spr) \<Rightarrow>
          Some \<lparr>kb_id = i, kb_relationship = rel, kb_kem_pubkey = kp, kb_kem_privkey = kpr, kb_sig_pubkey = sp,
                kb_sig_privkey = spr, kb_created_at = column_int64 L (column r 6)\<rparr>
      | _ \<Rightarrow> None)"

text \<open>
  Here a missing public key is left as it was and a private key is taken only when it has its length; the arrays of a
  new \<^verbatim>\<open>KeyCIssued\<close> are not initialised: \<open>un n\<close> is what \<open>n\<close> bytes of such memory hold. The flag is read by
  \<^verbatim>\<open>sqlite3_column_int\<close>, the lower 32 bits of the integer.
\<close>

definition row_to_key_c :: "column_lib \<Rightarrow> (nat \<Rightarrow> bytes) \<Rightarrow> bytes \<Rightarrow> row \<Rightarrow> key_c_issued option" where
  "row_to_key_c L un oob r =
     (case (text_ptr L r 0, text_ptr L r 1, text_ptr L r 2) of
        (Some d, Some ty, Some la) \<Rightarrow>
          Some \<lparr>kc_device_id = d, kc_device_type = ty, kc_device_label = la,
                kc_key_c_pubkey = (case copy_blob L oob r 3 MLDSA65_PUBKEY_BYTES of Some p \<Rightarrow> p | None \<Rightarrow> un MLDSA65_PUBKEY_BYTES),
                kc_key_c_privkey = (case blob_ptr L r 4 of
                   Some b \<Rightarrow> (if length b = MLDSA65_PRIVKEY_BYTES then b else un MLDSA65_PRIVKEY_BYTES)
                 | None \<Rightarrow> un MLDSA65_PRIVKEY_BYTES),
                kc_auth_cert = assign_blob L r 5, kc_dht_deleg_cert = assign_blob L r 6,
                kc_issued_at = column_int64 L (column r 7), kc_expires_at = column_int64 L (column r 8),
                kc_revoked = (column_int64 L (column r 9) mod 2 ^ 32 \<noteq> 0)\<rparr>
      | _ \<Rightarrow> None)"

text \<open>
  \<^verbatim>\<open>while (sqlite3_step(stmt) == SQLITE_ROW) out.push_back(...)\<close>: any other code ends the list, an error too.
  The outer option is a loop that does not end.
\<close>

partial_function (option) read_all ::
  "'h sqlite_lib \<Rightarrow> (row \<Rightarrow> 'k option) \<Rightarrow> 'h \<Rightarrow> 'k list \<Rightarrow> 'k list option option" where
  "read_all L f h out =
     (case sq_step L h of (rc, h1) \<Rightarrow>
        if rc \<noteq> SQLITE_ROW then Some (Some out)
        else case f (sq_row L h1) of None \<Rightarrow> Some None | Some k \<Rightarrow> read_all L f h1 (out @ [k]))"

subsection \<open>What is bound is what is read\<close>

definition key_b_row :: "key_b \<Rightarrow> row" where
  "key_b_row k = [SQL_Text (c_str (kb_id k)), SQL_Text (c_str (kb_relationship k)), SQL_Blob (kb_kem_pubkey k),
     SQL_Blob (kb_kem_privkey k), SQL_Blob (kb_sig_pubkey k), SQL_Blob (kb_sig_privkey k), SQL_Int (kb_created_at k)]"

text \<open>\<open>en\<close>: the data pointer of an empty vector is null, and NULL is bound.\<close>

definition vector_value :: "bool \<Rightarrow> bytes \<Rightarrow> sql_value" where
  "vector_value en b = (if null_blob en b then SQL_Null else SQL_Blob b)"

definition key_c_row :: "bool \<Rightarrow> key_c_issued \<Rightarrow> row" where
  "key_c_row en k = [SQL_Text (c_str (kc_device_id k)), SQL_Text (c_str (kc_device_type k)), SQL_Text (c_str (kc_device_label k)),
     SQL_Blob (kc_key_c_pubkey k), SQL_Blob (kc_key_c_privkey k), vector_value en (kc_auth_cert k),
     vector_value en (kc_dht_deleg_cert k), SQL_Int (kc_issued_at k), SQL_Int (kc_expires_at k), SQL_Int (if kc_revoked k then 1 else 0)]"

definition sized_key_b :: "key_b \<Rightarrow> bool" where
  "sized_key_b k \<longleftrightarrow> no_nul (kb_id k) \<and> no_nul (kb_relationship k) \<and>
     length (kb_kem_pubkey k) = MLKEM768_PUBKEY_BYTES \<and> length (kb_kem_privkey k) = MLKEM768_PRIVKEY_BYTES \<and>
     length (kb_sig_pubkey k) = MLDSA65_PUBKEY_BYTES \<and> length (kb_sig_privkey k) = MLDSA65_PRIVKEY_BYTES"

definition sized_key_c :: "key_c_issued \<Rightarrow> bool" where
  "sized_key_c k \<longleftrightarrow> no_nul (kc_device_id k) \<and> no_nul (kc_device_type k) \<and> no_nul (kc_device_label k) \<and>
     length (kc_key_c_pubkey k) = MLDSA65_PUBKEY_BYTES \<and> length (kc_key_c_privkey k) = MLDSA65_PRIVKEY_BYTES"

lemmas row_read_defs = text_ptr_def blob_ptr_def copy_blob_def assign_blob_def row_is_null_def column_def

lemma row_key_b:
  assumes "column_ok L" "sized_key_b k"
  shows "row_to_key_b L oob (key_b_row k) = Some k"
proof -
  have "kb_kem_pubkey k \<noteq> []" "kb_kem_privkey k \<noteq> []" "kb_sig_pubkey k \<noteq> []" "kb_sig_privkey k \<noteq> []"
    using assms(2) by (auto simp: sized_key_b_def MLKEM768_PUBKEY_BYTES_def MLKEM768_PRIVKEY_BYTES_def
        MLDSA65_PUBKEY_BYTES_def MLDSA65_PRIVKEY_BYTES_def)
  then show ?thesis
    using assms by (simp add: row_to_key_b_def key_b_row_def row_read_defs column_ok_def sized_key_b_def)
qed

lemma row_key_c:
  assumes "column_ok L" "sized_key_c k"
  shows "row_to_key_c L un oob (key_c_row en k) = Some k"
proof -
  have "kc_key_c_pubkey k \<noteq> []" "kc_key_c_privkey k \<noteq> []"
    using assms(2) by (auto simp: sized_key_c_def MLDSA65_PUBKEY_BYTES_def MLDSA65_PRIVKEY_BYTES_def)
  then show ?thesis
    using assms by (simp add: row_to_key_c_def key_c_row_def row_read_defs column_ok_def sized_key_c_def vector_value_def null_blob_def)
qed

lemma read_all_yields:
  assumes "yields L h rows rc" "\<And>r. r \<in> set rows \<Longrightarrow> f r = Some (g r)"
  shows "read_all L f h out = Some (Some (out @ map g rows))"
  using assms
proof (induction arbitrary: out)
  case (last h rc h1)
  then show ?case
    by (subst read_all.simps) simp
next
  case (more h h1 rs rc)
  then show ?case
    by (subst read_all.simps) simp
qed

lemma read_all_rows:
  assumes "yields L h (map enc ks) rc" "\<And>k. k \<in> set ks \<Longrightarrow> f (enc k) = Some k"
  shows "read_all L f h [] = Some (Some ks)"
proof -
  have "f r = Some (the (f r))" if "r \<in> set (map enc ks)" for r
    using that assms(2) by auto
  from read_all_yields [OF assms(1) this] have "read_all L f h [] = Some (Some (map (\<lambda>k. the (f (enc k))) ks))"
    by (simp add: comp_def)
  moreover have "map (\<lambda>k. the (f (enc k))) ks = ks"
    using assms(2) by (intro map_idI) simp
  ultimately show ?thesis
    by simp
qed

text \<open>
  The keystore's lists of keys, read row by row through SQLite, end and are the lists of the tables, also when
  the last step reports an error instead of the end: such an error is taken for the end of the list.
\<close>

theorem keystore_lists_read:
  assumes "column_ok L" "query_db True (\<lambda>d. list_all sized_key_b (kt_key_b d) \<and> list_all sized_key_c (kt_key_c d)) s"
    and "yields Q h (map key_b_row (list_key_b s)) rc" "yields Q h' (map (key_c_row en) (list_key_c s)) rc'"
  shows "read_all Q (row_to_key_b L oob) h [] = Some (Some (list_key_b s)) \<and>
    read_all Q (row_to_key_c L un oob) h' [] = Some (Some (list_key_c s))"
proof
  have b: "k \<in> set (list_key_b s) \<Longrightarrow> row_to_key_b L oob (key_b_row k) = Some k" for k
    using assms(2) by (intro row_key_b [OF assms(1)]) (cases "ks_db s"; auto simp: list_key_b_def query_db_def list_all_iff)
  have c: "k \<in> set (list_key_c s) \<Longrightarrow> row_to_key_c L un oob (key_c_row en k) = Some k" for k
    using assms(2) by (intro row_key_c [OF assms(1)]) (cases "ks_db s"; auto simp: list_key_c_def query_db_def list_all_iff)
  show "read_all Q (row_to_key_b L oob) h [] = Some (Some (list_key_b s))"
    using assms(3) b by (rule read_all_rows)
  show "read_all Q (row_to_key_c L un oob) h' [] = Some (Some (list_key_c s))"
    using assms(4) c by (rule read_all_rows)
qed

end
