(* ===== verification/Inbox_Run.thy ===== *)
theory Inbox_Run
  imports Inbox
begin

text \<open>
  What the inbox guarantees: delivery from the network to the client, the fate of frames that
  are not authenticated, and the invariant of its database over all runs.
\<close>

subsection \<open>Helpers\<close>

lemma header_fields_hex:
  "no_nul (fh_message_id h) \<and> no_nul (fh_sender_id h) \<Longrightarrow>
     no_nul (fh_message_id (foldl header_field h ps)) \<and> no_nul (fh_sender_id (foldl header_field h ps))"
proof (induction ps arbitrary: h)
  case (Cons kv ps)
  have "no_nul (fh_message_id (header_field h kv)) \<and> no_nul (fh_sender_id (header_field h kv))"
    using Cons.prems by (cases kv) (auto simp: header_field_def split: cbor.split)
  then show ?case
    using Cons.IH by simp
qed simp

text \<open>The identifier of a parsed frame is the hexadecimal form of sixteen bytes.\<close>

lemma header_fields_id:
  "fh_message_id h = [] \<or> (\<exists>b. length b = 16 \<and> fh_message_id h = to_hex b) \<Longrightarrow>
     fh_message_id (foldl header_field h ps) = [] \<or> (\<exists>b. length b = 16 \<and> fh_message_id (foldl header_field h ps) = to_hex b)"
proof (induction ps arbitrary: h)
  case (Cons kv ps)
  have "fh_message_id (header_field h kv) = [] \<or> (\<exists>b. length b = 16 \<and> fh_message_id (header_field h kv) = to_hex b)"
    using Cons.prems by (cases kv) (auto simp: header_field_def split: cbor.split)
  then show ?case
    using Cons.IH by simp
qed simp

lemma parsed_id:
  assumes "parse_frame_header C fr = Some hdr"
  obtains b where "length b = 16" "fh_message_id hdr = to_hex b"
  using assms header_fields_id [of "\<lparr>fh_message_id = [], fh_sender_id = [], fh_persistence = []\<rparr>"]
  by (auto simp: parse_frame_header_def Let_def split: option.splits cbor.splits if_splits)

lemma parsed_ids:
  assumes "parse_frame_header C fr = Some hdr"
  shows "c_str (fh_message_id hdr) = fh_message_id hdr" "c_str (fh_sender_id hdr) = fh_sender_id hdr"
  using assms header_fields_hex [of "\<lparr>fh_message_id = [], fh_sender_id = [], fh_persistence = []\<rparr>"]
  by (auto simp: parse_frame_header_def no_nul_def Let_def split: option.splits cbor.splits if_splits)

lemma send_ack_simps [simp]:
  "dm_store (send_ack C ans s ch i) = dm_store s" "dm_pushes (send_ack C ans s ch i) = dm_pushes s"
  by (auto simp: send_ack_def split: option.split)

lemma push_available_simps [simp]:
  "dm_store (push_available s i x) = dm_store s" "dm_calls (push_available s i x) = dm_calls s"
  "dm_pushes (push_available s i x) = dm_pushes s @ [(''inbox.message_available'',
     cmap_of [(''message_id'', VString i), (''sender_id'', VString x)])]"
  by (simp_all add: push_available_def)

text \<open>In the receive thread replication fails at its first call.\<close>

lemma replicate_one_timeout:
  "replicate_one C recv_thread_ans i fr s sib = s\<lparr>dm_calls := dm_calls s @ [(''channel.list'', [])]\<rparr>"
  by (simp add: replicate_one_def ensure_channel_def ar_call_def recv_thread_ans_def)

lemma replicate_timeout [simp]:
  "dm_store (replicate_to_siblings C recv_thread_ans s i) = dm_store s"
  "dm_pushes (replicate_to_siblings C recv_thread_ans s i) = dm_pushes s"
proof -
  have "dm_store (foldl (replicate_one C recv_thread_ans i fr) s sibs) = dm_store s \<and>
      dm_pushes (foldl (replicate_one C recv_thread_ans i fr) s sibs) = dm_pushes s" for fr sibs and s :: inbox
    by (induction sibs arbitrary: s) (simp_all add: replicate_one_timeout)
  then show "dm_store (replicate_to_siblings C recv_thread_ans s i) = dm_store s"
      "dm_pushes (replicate_to_siblings C recv_thread_ans s i) = dm_pushes s"
    by (simp_all add: replicate_to_siblings_def split: option.split)
qed

subsection \<open>Delivery\<close>

definition plain_type :: "string \<Rightarrow> bool" where
  "plain_type ty \<longleftrightarrow> ty \<notin> {''inbox_replication_frame'', ''outbox_poll'', ''inbox_replicate_ack'',
     ''outbox_poll_ack'', ''outbox_poll_response''}"

text \<open>A delivery frame and the push event that brings it.\<close>

definition is_delivery :: "cbor_lib \<Rightarrow> bytes \<Rightarrow> frame_header \<Rightarrow> bool" where
  "is_delivery C body hdr \<longleftrightarrow> (\<exists>ps. cbor_load C body = Some (CMap ps) \<and> plain_type (frame_type_of ps)) \<and>
     parse_frame_header C body = Some hdr"

definition recv_event :: "string \<Rightarrow> bytes \<Rightarrow> cmap" where
  "recv_event ch body = cmap_of [(''channel_id'', VString ch), (''payload'', VBytes body)]"

lemma recv_event_fields:
  "map_of (recv_event ch body) ''channel_id'' = Some (VString ch)"
  "map_of (recv_event ch body) ''payload'' = Some (VBytes body)"
  by (simp_all add: recv_event_def cmap_of_def)

lemma on_push_delivery:
  assumes "is_delivery C body hdr"
  shows "on_ar_push en C cfg ns nm s ''frame.recv'' (recv_event ch body) =
    fst (deliver_frame en C recv_thread_ans cfg ns nm s ch body)"
  using assms
  by (auto simp: on_ar_push_def recv_event_fields process_delivery_frame_def is_delivery_def plain_type_def
      map_items_def Let_def)

text \<open>The row a fresh frame becomes.\<close>

definition new_row :: "inbox_config \<Rightarrow> int \<Rightarrow> int \<Rightarrow> frame_header \<Rightarrow> bytes \<Rightarrow> stored_message" where
  "new_row cfg ns nm hdr body =
     (let pe = (if fh_persistence hdr = [] then ''store'' else fh_persistence hdr)
      in \<lparr>sm_message_id = fh_message_id hdr, sm_sender_id = fh_sender_id hdr, sm_delivery_frame = body,
          sm_persistence = pe, sm_delivered = False, sm_replicated = False, sm_received_at_ms = nm,
          sm_expires_at = (if pe = ''pass_through'' then ns + ic_passthrough_timeout_s cfg else 0)\<rparr>)"

lemma insert_fresh:
  assumes "\<not> message_exists db (sm_message_id m)" "sm_delivery_frame m \<noteq> []"
  shows "insert_message en db m = (db\<lparr>is_messages := is_messages db @ [m]\<rparr>, Inr True)"
  using assms by (simp add: insert_message_def null_blob_def sql_insert_def message_exists_def)

lemma deliver_fresh:
  assumes "parse_frame_header C body = Some hdr" "is_allowed_sender (dm_store s) (fh_sender_id hdr)"
    "\<not> message_exists (dm_store s) (fh_message_id hdr)" "body \<noteq> []"
  shows "dm_store (fst (deliver_frame en C recv_thread_ans cfg ns nm s ch body)) =
      (dm_store s)\<lparr>is_messages := is_messages (dm_store s) @ [new_row cfg ns nm hdr body]\<rparr>"
    "dm_pushes (fst (deliver_frame en C recv_thread_ans cfg ns nm s ch body)) = dm_pushes s @
      [(''inbox.message_available'', cmap_of [(''message_id'', VString (fh_message_id hdr)), (''sender_id'', VString (fh_sender_id hdr))])]"
  using assms by (simp_all add: deliver_frame_def insert_fresh new_row_def Let_def)

lemma deliver_again:
  assumes "parse_frame_header C body = Some hdr"
    "\<not> is_allowed_sender (dm_store s) (fh_sender_id hdr) \<or> message_exists (dm_store s) (fh_message_id hdr)"
  shows "dm_store (fst (deliver_frame en C ans cfg ns nm s ch body)) = dm_store s"
    "dm_pushes (fst (deliver_frame en C ans cfg ns nm s ch body)) = dm_pushes s"
  using assms by (auto simp: deliver_frame_def Let_def)

text \<open>Every frame of an allowed sender is acknowledged on its channel, a repeated one too.\<close>

lemma delivery_acked:
  assumes "is_delivery C body hdr" "is_allowed_sender (dm_store s) (fh_sender_id hdr)" "body \<noteq> []"
    "get_dht_credentials (dm_store s) = Some creds"
    "cbor_serialize C (definite_map C 3 (str_fields
        [(''type'', build_string ''delivery_ack''), (''message_id'', build_string (fh_message_id hdr)),
         (''inbox_key_c_pubkey'', CBytes (cr_key_c_pubkey creds))])) = Some pl"
  shows "(''frame.send'', frame_send_params ch pl) \<in> set (dm_calls (on_ar_push en C cfg ns nm s ''frame.recv'' (recv_event ch body)))"
proof -
  have hdr: "parse_frame_header C body = Some hdr"
    using assms(1) by (simp add: is_delivery_def)
  have ack: "dm_calls (send_ack C ans s' ch (fh_message_id hdr)) = dm_calls s' @ [(''frame.send'', frame_send_params ch pl)]"
    if "get_dht_credentials (dm_store s') = Some creds" for s' :: inbox and ans
    using that assms(5) by (simp add: send_ack_def)
  have grow: "set (dm_calls s') \<subseteq> set (dm_calls (replicate_to_siblings C recv_thread_ans s' i))" for i and s' :: inbox
  proof -
    have "set (dm_calls s') \<subseteq> set (dm_calls (foldl (replicate_one C recv_thread_ans i fr) s' sibs))" for fr sibs and s' :: inbox
      by (induction sibs arbitrary: s') (simp, force simp: replicate_one_timeout)
    then show ?thesis
      by (simp add: replicate_to_siblings_def split: option.split)
  qed
  show ?thesis
  proof (cases "message_exists (dm_store s) (fh_message_id hdr)")
    case True
    then show ?thesis
      using on_push_delivery [OF assms(1)] hdr assms(2,4) by (simp add: deliver_frame_def ack Let_def)
  next
    case False
    let ?db = "\<lambda>row. (dm_store s)\<lparr>is_messages := is_messages (dm_store s) @ [row]\<rparr>"
    have "get_dht_credentials (?db row) = Some creds" for row
      using assms(4) by (simp add: get_dht_credentials_def)
    then show ?thesis
      using on_push_delivery [OF assms(1)] hdr assms(2,3) False insert_fresh
      by (auto simp: deliver_frame_def ack Let_def intro!: subsetD [OF grow])
  qed
qed

text \<open>The row is found while the key is unique; an acknowledgement removes it or marks it.\<close>

lemma marked_delivered: "x \<in> set (is_messages (mark_delivered db i e)) \<Longrightarrow> sm_message_id x = i \<Longrightarrow> sm_delivered x"
proof -
  assume x: "x \<in> set (is_messages (mark_delivered db i e))" "sm_message_id x = i"
  then obtain r where "x = (if sm_message_id r = i then r\<lparr>sm_delivered := True, sm_expires_at := e\<rparr> else r)"
    using in_set_sql_update [of x _ _ "is_messages db"] by (force simp: mark_delivered_def)
  with x(2) show ?thesis
    by (cases "sm_message_id r = i") simp_all
qed

lemma deleted_gone: "x \<in> set (is_messages (delete_message db i)) \<Longrightarrow> sm_message_id x \<noteq> i"
  by (simp add: delete_message_def sql_delete_def)

lemma ack_not_pending:
  assumes "get_message db i = Some m"
  shows "\<forall>x\<in>set (is_messages (fst (ack now db [(''message_id'', VString i)]))). sm_message_id x = i \<longrightarrow> sm_delivered x"
proof -
  have "fst (ack now db [(''message_id'', VString i)]) =
      (if sm_persistence m = ''pass_through'' then delete_message db i
       else mark_delivered db i (now + get_retention_days db * 86400))"
    using assms by (simp add: ack_def req_string_def)
  then show ?thesis
    using marked_delivered deleted_gone by metis
qed

text \<open>
  C12. A frame of an allowed sender that was not seen before is stored and announced to the
  client once, the client fetches exactly the frame, and after the client's acknowledgement the
  message is pending no more. Another frame under the same message identifier changes neither
  the database nor the announcements; a frame of a sender who is not on the allowlist changes
  nothing. A frame that arrives is never replicated on arrival: the calls of the receive thread
  time out.
\<close>

theorem inbox_delivery:
  assumes "is_delivery C body hdr" "is_allowed_sender (dm_store s) (fh_sender_id hdr)"
    "\<not> message_exists (dm_store s) (fh_message_id hdr)" "body \<noteq> []"
    "is_delivery C body' hdr'" "fh_message_id hdr' = fh_message_id hdr \<or> \<not> is_allowed_sender (dm_store s) (fh_sender_id hdr')"
    "s1 = on_ar_push en C cfg ns nm s ''frame.recv'' (recv_event ch body)"
    "p = [(''message_id'', VString (fh_message_id hdr))]"
  shows "dm_pushes s1 = dm_pushes s @ [(''inbox.message_available'',
      cmap_of [(''message_id'', VString (fh_message_id hdr)), (''sender_id'', VString (fh_sender_id hdr))])] \<and>
    is_messages (dm_store s1) = is_messages (dm_store s) @ [new_row cfg ns nm hdr body] \<and>
    is_replication (dm_store s1) = is_replication (dm_store s) \<and>
    inbox_handle en ans now s1 ''inbox.get'' p = (s1, Inr (cmap_of
      [(''message_id'', VString (fh_message_id hdr)), (''sender_id'', VString (fh_sender_id hdr)),
       (''delivery_frame'', VBytes body), (''persistence'', VString (c_str (sm_persistence (new_row cfg ns nm hdr body))))])) \<and>
    dm_store (on_ar_push en C cfg ns' nm' s1 ''frame.recv'' (recv_event ch' body')) = dm_store s1 \<and>
    dm_pushes (on_ar_push en C cfg ns' nm' s1 ''frame.recv'' (recv_event ch' body')) = dm_pushes s1 \<and>
    (\<forall>x\<in>set (is_messages (dm_store (fst (inbox_handle en ans now s1 ''inbox.ack'' p)))).
       sm_message_id x = fh_message_id hdr \<longrightarrow> sm_delivered x)"
proof -
  let ?id = "fh_message_id hdr" and ?row = "new_row cfg ns nm hdr body"
  have hdr: "parse_frame_header C body = Some hdr" "parse_frame_header C body' = Some hdr'"
    using assms(1,5) by (simp_all add: is_delivery_def)
  have store: "dm_store s1 = (dm_store s)\<lparr>is_messages := is_messages (dm_store s) @ [?row]\<rparr>"
    and pushes: "dm_pushes s1 = dm_pushes s @ [(''inbox.message_available'',
      cmap_of [(''message_id'', VString ?id), (''sender_id'', VString (fh_sender_id hdr))])]"
    using deliver_fresh [OF hdr(1) assms(2-4)] assms(7) on_push_delivery [OF assms(1)] by simp_all
  have row: "sm_message_id ?row = ?id" "sm_sender_id ?row = fh_sender_id hdr" "sm_delivery_frame ?row = body"
    by (simp_all add: new_row_def Let_def)
  have get: "get_message (dm_store s1) ?id = Some (row_message ?row)"
    using find_append_new [of ?id sm_message_id "is_messages (dm_store s)" ?row] assms(3) row(1)
    by (simp add: get_message_def store message_exists_def)
  have "inbox_handle en ans now s1 ''inbox.get'' p = (s1, Inr (cmap_of
      [(''message_id'', VString ?id), (''sender_id'', VString (fh_sender_id hdr)),
       (''delivery_frame'', VBytes body), (''persistence'', VString (c_str (sm_persistence ?row)))]))"
    using get row parsed_ids [OF hdr(1)] assms(8)
    by (simp add: inbox_handle_def ipc_get_message_def req_string_def row_message_def Let_def)
  moreover have "\<not> is_allowed_sender (dm_store s1) (fh_sender_id hdr') \<or> message_exists (dm_store s1) (fh_message_id hdr')"
    using assms(6) row(1) by (auto simp: store is_allowed_sender_def message_exists_def)
  then have "dm_store (on_ar_push en C cfg ns' nm' s1 ''frame.recv'' (recv_event ch' body')) = dm_store s1"
      "dm_pushes (on_ar_push en C cfg ns' nm' s1 ''frame.recv'' (recv_event ch' body')) = dm_pushes s1"
    using deliver_again [OF hdr(2)] on_push_delivery [OF assms(5)] by simp_all
  moreover have "\<forall>x\<in>set (is_messages (dm_store (fst (inbox_handle en ans now s1 ''inbox.ack'' p)))).
      sm_message_id x = ?id \<longrightarrow> sm_delivered x"
    using ack_not_pending [OF get, of now] assms(8) by (simp add: inbox_handle_def on_store_def Let_def)
  ultimately show ?thesis
    using store pushes by simp
qed

definition demo_body :: bytes where
  "demo_body = Cbor_Wire.enc (CMap [(CText ''message_id'', CBytes (zeros 16)), (CText ''sender_id'', CBytes (zeros 32))])"

definition demo_hdr :: frame_header where
  "demo_hdr = \<lparr>fh_message_id = to_hex (zeros 16), fh_sender_id = to_hex (zeros 32), fh_persistence = []\<rparr>"

definition demo_inbox :: inbox where
  "demo_inbox = \<lparr>dm_store = inbox_store_new\<lparr>is_senders := [to_hex (zeros 32)]\<rparr>, dm_calls = [], dm_pushes = []\<rparr>"

lemma demo_body_load:
  "cbor_load wire_cbor demo_body = Some (CMap [(CText ''message_id'', CBytes (zeros 16)), (CText ''sender_id'', CBytes (zeros 32))])"
proof -
  have "plain (CMap [(CText ''message_id'', CBytes (zeros 16)), (CText ''sender_id'', CBytes (zeros 32))]) 64"
    by simp
  from wire_load_enc [OF this] show ?thesis
    by (simp add: demo_body_def wire_cbor_def)
qed

lemma demo_delivery: "is_delivery wire_cbor demo_body demo_hdr"
proof -
  have "length (to_hex (zeros 16)) \<noteq> 0" "length (to_hex (zeros 32)) \<noteq> 0"
    by simp_all
  then have "to_hex (zeros 16) \<noteq> []" "to_hex (zeros 32) \<noteq> []"
    by (metis list.size(3))+
  then show ?thesis
    by (simp add: is_delivery_def demo_body_load plain_type_def parse_frame_header_def header_field_def demo_hdr_def)
qed

theorem inbox_delivery_witness:
  "is_messages (dm_store (on_ar_push True wire_cbor default_inbox_config 5 5000 demo_inbox ''frame.recv'' (recv_event [] demo_body))) =
     [new_row default_inbox_config 5 5000 demo_hdr demo_body]"
proof -
  have a: "is_allowed_sender (dm_store demo_inbox) (fh_sender_id demo_hdr)" "\<not> message_exists (dm_store demo_inbox) (fh_message_id demo_hdr)"
    by (simp_all add: is_allowed_sender_def message_exists_def demo_inbox_def demo_hdr_def inbox_store_new_def)
  have ne: "demo_body \<noteq> []"
    using length_enc_pos by (auto simp: demo_body_def simp del: enc.simps)
  have "is_messages (dm_store (on_ar_push True wire_cbor default_inbox_config 5 5000 demo_inbox ''frame.recv'' (recv_event [] demo_body))) =
      is_messages (dm_store demo_inbox) @ [new_row default_inbox_config 5 5000 demo_hdr demo_body]"
    by (rule inbox_delivery [OF demo_delivery a ne demo_delivery disjI1 [OF refl] refl refl, THEN conjunct2, THEN conjunct1])
  then show ?thesis
    by (simp add: demo_inbox_def inbox_store_new_def)
qed

subsection \<open>Frames that nobody authenticates\<close>

text \<open>
  A replication frame is stored and announced whoever sent it, without a look at the
  allowlist or at the list of siblings, and a poll of an outbox is answered on the channel it
  came from with every undelivered message of the inbox.
\<close>

theorem unauthenticated_frames:
  assumes "cbor_load C body = Some (CMap ps)" "frame_type_of ps = ''inbox_replication_frame''"
    "last_bytes ps ''delivery_frame'' = inner" "inner \<noteq> []" "\<not> message_exists (dm_store s) (last_text ps ''message_id'')"
    "parse_frame_header C inner = Some hdr" "\<not> message_exists (dm_store s) (fh_message_id hdr)"
    "cbor_load C poll = Some (CMap qs)" "frame_type_of qs = ''outbox_poll''"
    "cbor_serialize C (poll_response C (map (\<lambda>m. (sm_message_id m, sm_delivery_frame m)) (get_pending (dm_store s) True))) = Some resp"
  shows "(\<exists>m. is_messages (dm_store (on_ar_push en C cfg ns nm s ''frame.recv'' (recv_event ch body))) = is_messages (dm_store s) @ [m] \<and>
      sm_delivery_frame m = inner \<and> sm_sender_id m = fh_sender_id hdr \<and> sm_replicated m) \<and>
    length (dm_pushes (on_ar_push en C cfg ns nm s ''frame.recv'' (recv_event ch body))) = Suc (length (dm_pushes s)) \<and>
    dm_calls (on_ar_push en C cfg ns nm s ''frame.recv'' (recv_event ch poll)) =
      dm_calls s @ [(''frame.send'', frame_send_params ch resp)]"
proof -
  have "on_ar_push en C cfg ns nm s ''frame.recv'' (recv_event ch body) =
      fst (handle_replication_frame en C nm s body)"
    using assms(1,2) by (simp add: on_ar_push_def recv_event_fields process_delivery_frame_def map_items_def Let_def)
  moreover have "on_ar_push en C cfg ns nm s ''frame.recv'' (recv_event ch poll) =
      handle_outbox_poll C recv_thread_ans s ch"
    using assms(8,9) by (simp add: on_ar_push_def recv_event_fields process_delivery_frame_def map_items_def Let_def)
  ultimately show ?thesis
    using assms by (simp add: handle_replication_frame_def handle_outbox_poll_def map_items_def insert_fresh Let_def)
qed

definition demo_rep :: bytes where
  "demo_rep = Cbor_Wire.enc (CMap [(CText ''type'', CText ''inbox_replication_frame''), (CText ''delivery_frame'', CBytes demo_body)])"

definition demo_poll :: bytes where
  "demo_poll = Cbor_Wire.enc (CMap [(CText ''type'', CText ''outbox_poll'')])"

theorem unauthenticated_frames_witness:
  "\<exists>m. is_messages (dm_store (on_ar_push True wire_cbor default_inbox_config 5 5000
      \<lparr>dm_store = inbox_store_new, dm_calls = [], dm_pushes = []\<rparr> ''frame.recv'' (recv_event [] demo_rep))) = [m] \<and>
    sm_delivery_frame m = demo_body"
proof -
  have len: "length demo_body < 2 ^ 64"
    using length_enc_le [of "CMap [(CText ''message_id'', CBytes (zeros 16)), (CText ''sender_id'', CBytes (zeros 32))]"]
    unfolding demo_body_def by (rule le_less_trans) simp
  have rep: "cbor_load wire_cbor demo_rep =
      Some (CMap [(CText ''type'', CText ''inbox_replication_frame''), (CText ''delivery_frame'', CBytes demo_body)])"
    and poll: "cbor_load wire_cbor demo_poll = Some (CMap [(CText ''type'', CText ''outbox_poll'')])"
    using wire_load_enc [of "CMap [(CText ''type'', CText ''inbox_replication_frame''), (CText ''delivery_frame'', CBytes demo_body)]" 64]
      wire_load_enc [of "CMap [(CText ''type'', CText ''outbox_poll'')]" 64] len
    by (simp_all add: demo_rep_def demo_poll_def wire_cbor_def)
  have ne: "demo_body \<noteq> []"
    using length_enc_pos by (auto simp: demo_body_def simp del: enc.simps)
  have hdr: "parse_frame_header wire_cbor demo_body = Some demo_hdr"
    using demo_delivery by (simp add: is_delivery_def)
  have "\<exists>resp. cbor_serialize wire_cbor (poll_response wire_cbor []) = Some resp"
    by (simp add: wire_cbor_def)
  then show ?thesis
    using unauthenticated_frames [OF rep _ _ ne _ hdr _ poll, of "\<lparr>dm_store = inbox_store_new, dm_calls = [], dm_pushes = []\<rparr>"
        _ True default_inbox_config 5 5000 "[]"]
    by (auto simp: last_bytes_def last_text_def message_exists_def inbox_store_new_def get_pending_def)
qed

subsection \<open>Runs\<close>

text \<open>What happens to the daemon: an event of the router, a request, start-up, maintenance.\<close>

datatype inbox_event =
    Ev_Push int int string cmap
  | Ev_Request answers int string cmap
  | Ev_Start answers int bytes
  | Ev_Tick answers int

fun inbox_step :: "bool \<Rightarrow> cbor_lib \<Rightarrow> inbox_config \<Rightarrow> inbox \<Rightarrow> inbox_event \<Rightarrow> inbox" where
  "inbox_step en C cfg s (Ev_Push ns nm ev pl) = on_ar_push en C cfg ns nm s ev pl"
| "inbox_step en C cfg s (Ev_Request ans now m p) = fst (inbox_handle en ans now s m p)"
| "inbox_step en C cfg s (Ev_Start ans now oob) = inbox_start C ans now oob s"
| "inbox_step en C cfg s (Ev_Tick ans now) = inbox_maintenance C ans now s"

definition inbox_run :: "bool \<Rightarrow> cbor_lib \<Rightarrow> inbox_config \<Rightarrow> inbox_event list \<Rightarrow> inbox" where
  "inbox_run en C cfg evs =
     foldl (inbox_step en C cfg) \<lparr>dm_store = inbox_store_new, dm_calls = [], dm_pushes = []\<rparr> evs"

definition inbox_inv :: "inbox_store \<Rightarrow> bool" where
  "inbox_inv db \<longleftrightarrow> pk sm_message_id (is_messages db) \<and> pk sb_device_id (is_siblings db) \<and>
     pk (\<lambda>r. r) (is_replication db) \<and> pk ko_key_c_pubkey (is_outboxes db) \<and> distinct (is_senders db) \<and>
     1 \<le> is_retention_days db \<and> is_retention_days db \<le> 365"

text \<open>A message that is stored for good and waits for the client.\<close>

definition awaiting :: "inbox_store \<Rightarrow> stored_message \<Rightarrow> bool" where
  "awaiting db m \<longleftrightarrow> m \<in> set (is_messages db) \<and> \<not> sm_delivered m \<and> sm_expires_at m = 0"

definition acks :: "inbox_event \<Rightarrow> string \<Rightarrow> bool" where
  "acks ev i = (case ev of Ev_Request ans now m p \<Rightarrow> m = ''inbox.ack'' \<and> map_of p ''message_id'' = Some (VString i) | _ \<Rightarrow> False)"

text \<open>A store that is kept: the invariant and the waiting messages, one identifier excepted.\<close>

definition kept :: "(string \<Rightarrow> bool) \<Rightarrow> inbox_store \<Rightarrow> inbox_store \<Rightarrow> bool" where
  "kept ex db db' \<longleftrightarrow> (inbox_inv db \<longrightarrow> inbox_inv db') \<and> (\<forall>m. awaiting db m \<and> \<not> ex (sm_message_id m) \<longrightarrow> awaiting db' m)"

named_theorems kept_intros \<open>operations keep the store\<close>

lemma kept_refl [simp, kept_intros]: "kept ex db db"
  by (simp add: kept_def)

lemma kept_trans: "kept ex a b \<Longrightarrow> kept ex b c \<Longrightarrow> kept ex a c"
  by (simp add: kept_def)

lemma kept_foldl: "(\<And>s x. kept ex (dm_store s) (dm_store (f s x))) \<Longrightarrow> kept ex (dm_store s) (dm_store (foldl f s xs))"
proof (induction xs arbitrary: s)
  case (Cons x xs)
  then show ?case
    using kept_trans [of ex "dm_store s" "dm_store (f s x)"] by simp
qed simp

lemma kept_insert [kept_intros]: "kept ex db (fst (insert_message en db m))"
proof -
  have "is_siblings (fst (insert_message en db m)) = is_siblings db"
      "is_replication (fst (insert_message en db m)) = is_replication db"
      "is_outboxes (fst (insert_message en db m)) = is_outboxes db" "is_senders (fst (insert_message en db m)) = is_senders db"
      "is_retention_days (fst (insert_message en db m)) = is_retention_days db"
    by (auto simp: insert_message_def split: sum.split)
  then show ?thesis
    using inbox_msgs.ins_pk [of db en m] inbox_msgs.row_stays [of _ db en m]
    by (auto simp: kept_def inbox_inv_def awaiting_def)
qed

lemma kept_replicated [kept_intros]: "kept ex db (set_sibling_replicated db i d)"
  using pk_replace [of "\<lambda>r. r" "is_replication db" "(i, d)"]
  by (auto simp: kept_def inbox_inv_def awaiting_def set_sibling_replicated_def)

lemma kept_expired [kept_intros]: "kept ex db (delete_expired db now)"
proof -
  have "awaiting (delete_expired db now) m" if "awaiting db m" for m
    using that by (simp add: awaiting_def delete_expired_def sql_delete_def)
  then show ?thesis
    by (auto simp: kept_def inbox_inv_def delete_expired_def intro: pk_delete)
qed

lemma kept_ack: "kept (\<lambda>i. acks (Ev_Request ans now ''inbox.ack'' p) i) db (fst (ack now db p))"
proof (cases "map_of p ''message_id''")
  case (Some v)
  then show ?thesis
    using pk_delete [of sm_message_id "is_messages db"] pk_update [of sm_message_id "is_messages db"]
    by (cases v) (auto simp: kept_def inbox_inv_def awaiting_def ack_def req_string_def acks_def delete_message_def
        mark_delivered_def sql_delete_def sql_update_def image_iff split: option.split)
qed (simp add: ack_def req_string_def)

lemma kept_siblings:
  "pk sb_device_id (is_siblings db) \<longrightarrow> pk sb_device_id t \<Longrightarrow> kept ex db (db\<lparr>is_siblings := t\<rparr>)"
  by (auto simp: kept_def inbox_inv_def awaiting_def)

lemma kept_stored: "(\<And>db'. r = Inr db' \<Longrightarrow> kept ex db db') \<Longrightarrow> kept ex db (fst (stored db r))"
  by (cases r) (simp_all add: stored_def)

lemma insert_all_pk: "sql_insert_all key bad rs t = Inr t' \<Longrightarrow> pk key t \<Longrightarrow> pk key t'"
proof (induction rs arbitrary: t)
  case (Cons r rs)
  from Cons.prems(1) obtain t1 where t1: "sql_insert key r t = Inr t1" "sql_insert_all key bad rs t1 = Inr t'"
    by (cases "sql_insert key r t") (simp_all split: if_splits)
  show ?case
    by (rule Cons.IH [OF t1(2) pk_insert [OF Cons.prems(2) t1(1)]])
qed simp

lemma kept_replicate_one: "kept ex (dm_store s) (dm_store (replicate_one C ans i fr s sib))"
proof -
  have e: "dm_store (fst (ensure_channel ans s k)) = dm_store s" for k
    by (auto simp: ensure_channel_def open_channel_def ar_call_def split: sum.split option.split cval.split list.split)
  show ?thesis
    using e [of "to_hex (sb_key_c_pubkey sib)"] kept_replicated [of ex "dm_store s" i "sb_device_id sib"]
    by (auto simp: replicate_one_def ar_call_def split: prod.split sum.split option.split)
qed

lemma kept_replicate [kept_intros]: "kept ex (dm_store s) (dm_store (replicate_to_siblings C ans s i))"
  by (auto simp: replicate_to_siblings_def split: option.split intro!: kept_foldl kept_replicate_one)

text \<open>The requests that change the store.\<close>

lemma kept_requests:
  "kept ex db (fst (update_dht_delegation en db p))" "kept ex db (fst (update_contact_outboxes en db p))"
  "kept ex db (fst (update_sender_allowlist db p))" "kept ex db (fst (add_sibling en db p))"
  "kept ex db (fst (ipc_remove_sibling db p))" "kept ex db (fst (ipc_set_retention_days db p))"
proof -
  show "kept ex db (fst (update_dht_delegation en db p))"
    unfolding update_dht_delegation_def
    by (rule kept_stored) (auto simp: rbind_Inr_iff set_dht_credentials_def kept_def inbox_inv_def awaiting_def split: if_splits)
  have o: "kept ex db db'" if "replace_known_outboxes en db obs = Inr db'" for obs db'
    using that by (auto simp: replace_known_outboxes_def rbind_Inr_iff kept_def inbox_inv_def awaiting_def dest: insert_all_pk)
  show "kept ex db (fst (update_contact_outboxes en db p))"
    unfolding update_contact_outboxes_def
    by (rule kept_stored) (auto split: option.splits cval.splits dest: o)
  have a: "kept ex db db'" if "replace_allowed_senders db ids = Inr db'" for ids db'
    using that by (auto simp: replace_allowed_senders_def rbind_Inr_iff kept_def inbox_inv_def awaiting_def insert_all_Inr
        split: if_splits)
  show "kept ex db (fst (update_sender_allowlist db p))"
    unfolding update_sender_allowlist_def
    by (rule kept_stored) (auto split: option.splits cval.splits dest: a)
  show "kept ex db (fst (add_sibling en db p))"
    unfolding add_sibling_def
    by (rule kept_stored) (auto simp: rbind_Inr_iff upsert_sibling_def split: if_splits intro!: kept_siblings pk_replace)
  show "kept ex db (fst (ipc_remove_sibling db p))"
    unfolding ipc_remove_sibling_def
    by (rule kept_stored) (auto simp: rbind_Inr_iff remove_sibling_def intro!: kept_siblings pk_delete)
  show "kept ex db (fst (ipc_set_retention_days db p))"
    unfolding ipc_set_retention_days_def
    by (rule kept_stored) (auto simp: set_retention_days_def kept_def inbox_inv_def awaiting_def Let_def
        split: option.splits cval.splits if_splits)
qed

lemma kept_handle: "kept (acks (Ev_Request ans now m p)) (dm_store s) (dm_store (fst (inbox_handle en ans now s m p)))"
proof (cases "m = ''inbox.ack''")
  case True
  then show ?thesis
    using kept_ack by (simp add: inbox_handle_def on_store_def Let_def)
next
  case False
  have "dm_store (fst (inbox_guard_info ans s)) = dm_store s"
    by (auto simp: inbox_guard_info_def ar_call_def split: sum.split)
  then show ?thesis
    using False by (simp add: inbox_handle_def on_store_def Let_def kept_requests split_beta)
qed

lemma kept_push: "kept ex (dm_store s) (dm_store (on_ar_push en C cfg ns nm s ev pl))"
proof -
  have rep: "kept ex (dm_store s) (dm_store (fst (handle_replication_frame en C nm s body)))" for body
    using kept_insert [of ex "dm_store s" en]
    by (auto simp: handle_replication_frame_def Let_def split: option.split sum.split prod.split) (metis fst_conv)+
  have poll: "dm_store (handle_outbox_poll C recv_thread_ans s ch) = dm_store s" for ch
    by (auto simp: handle_outbox_poll_def split: option.split)
  have del: "kept ex (dm_store s) (dm_store (fst (deliver_frame en C recv_thread_ans cfg ns nm s ch body)))" for ch body
    using kept_insert [of ex "dm_store s" en]
    by (auto simp: deliver_frame_def Let_def split: option.split sum.split prod.split bool.split) (metis fst_conv)+
  show ?thesis
    by (auto simp: on_ar_push_def process_delivery_frame_def Let_def poll split: option.split cval.split intro: rep del)
qed

lemma kept_start: "kept ex (dm_store s) (dm_store (inbox_start C ans now oob s))"
proof -
  have e: "dm_store (fst (ensure_channel ans s k)) = dm_store s" for k and s :: inbox
    by (auto simp: ensure_channel_def open_channel_def ar_call_def split: sum.split option.split cval.split list.split)
  have "kept ex (dm_store s) (dm_store (poll_one C ans now oob creds s ob))" for creds ob and s :: inbox
    using e [of s "to_hex (ko_key_c_pubkey ob)"] by (auto simp: poll_one_def split: prod.split sum.split option.split)
  then have "kept ex (dm_store s) (dm_store (poll_known_outboxes C ans now oob s))"
    by (auto simp: poll_known_outboxes_def split: option.split intro: kept_foldl)
  moreover have "kept ex (dm_store s') (dm_store (foldl (\<lambda>s m. push_available s (sm_message_id m) (sm_sender_id m)) s' ms))" for s' ms
    by (rule kept_foldl) simp
  ultimately show ?thesis
    unfolding inbox_start_def Let_def by (rule kept_trans)
qed

lemma kept_tick: "kept ex (dm_store s) (dm_store (inbox_maintenance C ans now s))"
proof -
  let ?s = "s\<lparr>dm_store := delete_expired (dm_store s) now\<rparr>"
  let ?f = "\<lambda>s m. if sm_replicated m then s else replicate_to_siblings C ans s (sm_message_id m)"
  have "kept ex (dm_store ?s) (dm_store (foldl ?f ?s ms))" for ms
    by (rule kept_foldl) (simp add: kept_replicate)
  moreover have "kept ex (dm_store s) (dm_store ?s)"
    by (simp add: kept_expired)
  ultimately show ?thesis
    unfolding inbox_maintenance_def Let_def by (rule kept_trans [rotated])
qed

lemma kept_step: "kept (acks ev) (dm_store s) (dm_store (inbox_step en C cfg s ev))"
  by (cases ev) (simp_all add: kept_handle kept_push kept_start kept_tick)

text \<open>
  C7. In every run of the inbox, whatever frames arrive, whatever is requested and whatever the
  router answers, the keys of the tables stay unique and the retention period stays between one
  day and a year; and a message that is stored for good and not acknowledged is never lost: it
  is unchanged after the run goes on, as long as no request acknowledges its identifier.
\<close>

theorem inbox_keeps_messages:
  "inbox_inv (dm_store (inbox_run en C cfg evs)) \<and>
   (awaiting (dm_store (inbox_run en C cfg evs)) m \<longrightarrow> (\<forall>ev\<in>set later. \<not> acks ev (sm_message_id m)) \<longrightarrow>
     awaiting (dm_store (inbox_run en C cfg (evs @ later))) m)"
proof -
  have inv: "inbox_inv (dm_store s) \<Longrightarrow> inbox_inv (dm_store (foldl (inbox_step en C cfg) s es))" for s es
    using kept_step [of _ _ en C cfg] by (induction es arbitrary: s) (simp_all add: kept_def)
  have keep: "awaiting (dm_store s) m \<Longrightarrow> \<forall>ev\<in>set es. \<not> acks ev (sm_message_id m) \<Longrightarrow>
      awaiting (dm_store (foldl (inbox_step en C cfg) s es)) m" for s es
    using kept_step [of _ _ en C cfg] by (induction es arbitrary: s) (simp_all add: kept_def)
  have "inbox_inv inbox_store_new"
    by (simp add: inbox_inv_def inbox_store_new_def)
  then show ?thesis
    using inv keep by (simp add: inbox_run_def)
qed

definition demo_run :: "inbox_event list" where
  "demo_run = [Ev_Request recv_thread_ans 5 ''inbox.update_sender_allowlist'' [(''sender_ids'', VArray [VString (to_hex (zeros 32))])],
     Ev_Push 5 5000 ''frame.recv'' (recv_event [] demo_body)]"

theorem inbox_keeps_messages_witness:
  "awaiting (dm_store (inbox_run True wire_cbor default_inbox_config (demo_run @ [Ev_Tick recv_thread_ans 9])))
     (new_row default_inbox_config 5 5000 demo_hdr demo_body)"
proof -
  let ?m = "new_row default_inbox_config 5 5000 demo_hdr demo_body"
  have ne: "demo_body \<noteq> []"
    using length_enc_pos by (auto simp: demo_body_def simp del: enc.simps)
  have "dm_store (inbox_run True wire_cbor default_inbox_config demo_run) =
      inbox_store_new\<lparr>is_senders := [to_hex (zeros 32)], is_messages := [?m]\<rparr>"
    using on_push_delivery [OF demo_delivery] deliver_fresh(1) [OF demo_delivery [unfolded is_delivery_def, THEN conjunct2] _ _ ne]
    by (simp add: inbox_run_def demo_run_def inbox_handle_def Let_def on_store_def update_sender_allowlist_def stored_def
        replace_allowed_senders_def sql_insert_def map_filter_simps inbox_store_new_def is_allowed_sender_def
        message_exists_def demo_hdr_def)
  then have "awaiting (dm_store (inbox_run True wire_cbor default_inbox_config demo_run)) ?m"
    by (simp add: awaiting_def new_row_def demo_hdr_def Let_def)
  with inbox_keeps_messages [of True wire_cbor default_inbox_config demo_run ?m "[Ev_Tick recv_thread_ans 9]"] show ?thesis
    by (simp add: acks_def)
qed

end
