(* ===== verification/Outbox_Run.thy ===== *)
theory Outbox_Run
  imports Outbox
begin

text \<open>
  What the outbox guarantees over all runs: the life of a queued message, the bound on retries,
  acknowledgements and broadcasts.
\<close>

subsection \<open>Calls to the router leave the store alone\<close>

lemma ensure_channel_store [simp]: "dm_store (fst (ensure_channel ans s k)) = dm_store s"
  by (auto simp: ensure_channel_def open_channel_def ar_call_def split: sum.split option.split cval.split)

lemma ensure_channelD: "ensure_channel ans s k = (s', r) \<Longrightarrow> dm_store s' = dm_store s"
  using ensure_channel_store [of ans s k] by simp

lemma attempt_deliveryD: "attempt_delivery ans s msg ri = (s', ok) \<Longrightarrow> dm_store s' = dm_store s"
  by (auto simp: attempt_delivery_def ar_call_def dest: ensure_channelD split: prod.splits sum.splits)

lemma attempt_any_store [simp]: "dm_store (fst (attempt_any ans msg ris s)) = dm_store s"
proof (induction ris arbitrary: s)
  case (Cons ri ris)
  then show ?case
    by (auto dest: attempt_deliveryD split: prod.split bool.split)
qed simp

lemma attempt_anyD: "attempt_any ans msg ris s = (s', ok) \<Longrightarrow> dm_store s' = dm_store s"
  using attempt_any_store [of ans msg ris s] by simp

lemma replicate_store [simp]: "dm_store (replicate_to_siblings C ans s i) = dm_store s"
proof -
  have one: "dm_store (replicate_one C ans i msg ris s sib) = dm_store s" for msg ris sib and s :: outbox
    by (auto simp: replicate_one_def dest: ensure_channelD split: prod.split sum.split option.split)
  have "dm_store (foldl (replicate_one C ans i msg ris) s sibs) = dm_store s" for msg ris sibs and s :: outbox
    by (induction sibs arbitrary: s) (simp_all add: one)
  then show ?thesis
    by (simp add: replicate_to_siblings_def split: option.split)
qed

lemma burst_store [simp]: "dm_store (startup_burst ans s) = dm_store s"
proof -
  have "dm_store (foldl (\<lambda>s msg. fst (attempt_any ans msg (get_recipient_inboxes (dm_store s) (qm_message_id msg)) s)) s ms) = dm_store s"
    for ms and s :: outbox
    by (induction ms arbitrary: s) simp_all
  then show ?thesis
    by (simp add: startup_burst_def)
qed

subsection \<open>Invariant and evolution\<close>

text \<open>The most failed attempts a message can count.\<close>

definition retry_cap :: "outbox_config \<Rightarrow> int" where
  "retry_cap cfg = max 1 (oc_max_retries cfg)"

definition retry_ok :: "outbox_config \<Rightarrow> int \<Rightarrow> int \<Rightarrow> bool" where
  "retry_ok cfg count next_at \<longleftrightarrow> 0 \<le> count \<and> count \<le> retry_cap cfg \<and> (next_at > 0 \<longrightarrow> count < retry_cap cfg)"

definition outbox_inv :: "outbox_config \<Rightarrow> outbox_store \<Rightarrow> bool" where
  "outbox_inv cfg db \<longleftrightarrow> pk qm_message_id (os_messages db) \<and> pk ri_key (os_recipients db) \<and>
     pk so_device_id (os_siblings db) \<and>
     (\<forall>m\<in>set (os_messages db). retry_ok cfg (qm_attempt_count m) (qm_next_attempt_at m))"

text \<open>What a row keeps: all but status, count and next attempt; it never becomes pending again.\<close>

definition row_evolves :: "queued_message \<Rightarrow> queued_message \<Rightarrow> bool" where
  "row_evolves m m' \<longleftrightarrow>
     m' = m\<lparr>qm_status := qm_status m', qm_attempt_count := qm_attempt_count m', qm_next_attempt_at := qm_next_attempt_at m'\<rparr> \<and>
     (qm_status m \<noteq> MS_PENDING \<longrightarrow> qm_status m' \<noteq> MS_PENDING)"

definition evolves :: "queued_message list \<Rightarrow> queued_message list \<Rightarrow> bool" where
  "evolves t t' \<longleftrightarrow> length t \<le> length t' \<and> (\<forall>n<length t. row_evolves (t ! n) (t' ! n))"

lemma row_evolves_trans: "row_evolves a b \<Longrightarrow> row_evolves b c \<Longrightarrow> row_evolves a c"
  by (cases a; cases b; cases c) (auto simp: row_evolves_def)

lemma evolves_refl [simp]: "evolves t t"
  by (simp add: evolves_def row_evolves_def)

lemma evolves_trans: "evolves a b \<Longrightarrow> evolves b c \<Longrightarrow> evolves a c"
  unfolding evolves_def using row_evolves_trans by (meson le_trans less_le_trans)

lemma evolves_append [simp]: "evolves t (t @ new)"
  by (simp add: evolves_def nth_append row_evolves_def)

lemma evolves_update: "(\<And>r. row_evolves r (f r)) \<Longrightarrow> evolves t (sql_update p f t)"
  by (simp add: evolves_def sql_update_def) (simp add: row_evolves_def)

definition held :: "outbox_config \<Rightarrow> outbox_store \<Rightarrow> outbox_store \<Rightarrow> bool" where
  "held cfg db db' \<longleftrightarrow> (outbox_inv cfg db \<longrightarrow> outbox_inv cfg db') \<and> evolves (os_messages db) (os_messages db')"

lemma held_refl [simp]: "held cfg db db"
  by (simp add: held_def)

lemma held_trans: "held cfg a b \<Longrightarrow> held cfg b c \<Longrightarrow> held cfg a c"
  using evolves_trans by (auto simp: held_def)

lemma held_update:
  assumes "\<And>r. row_evolves r (f r)" "\<And>r. retry_ok cfg (qm_attempt_count r) (qm_next_attempt_at r) \<Longrightarrow>
      retry_ok cfg (qm_attempt_count (f r)) (qm_next_attempt_at (f r))"
  shows "held cfg db (db\<lparr>os_messages := sql_update p f (os_messages db)\<rparr>)"
proof -
  have "qm_message_id (f r) = qm_message_id r" for r
    using assms(1) [of r] by (cases "f r"; cases r) (simp add: row_evolves_def)
  then have "pk qm_message_id (os_messages db) \<Longrightarrow> pk qm_message_id (sql_update p f (os_messages db))"
    by (intro pk_update)
  then show ?thesis
    using assms evolves_update [OF assms(1)] by (auto simp: held_def outbox_inv_def dest!: in_set_sql_update)
qed

lemma held_set_status: "st \<noteq> MS_PENDING \<Longrightarrow> held cfg db (set_status db i st)"
  unfolding set_status_def by (rule held_update) (simp_all add: row_evolves_def)

lemma held_expire: "held cfg db (expire_messages db now)"
  unfolding expire_messages_def by (rule held_update) (simp_all add: row_evolves_def)

lemma held_attempt: "retry_ok cfg count next_at \<Longrightarrow> held cfg db (update_attempt db i count next_at)"
  unfolding update_attempt_def by (rule held_update) (simp_all add: row_evolves_def)

lemma held_recipient: "held cfg db (add_recipient_inbox en db r)"
  by (auto simp: held_def outbox_inv_def add_recipient_inbox_def intro: pk_insert_or_ignore)

lemma held_recipients: "held cfg db (foldl (add_recipient_inbox en) db rs)"
proof (induction rs arbitrary: db)
  case (Cons r rs)
  then show ?case
    using held_recipient held_trans by (metis foldl_Cons)
qed simp

lemma recipients_messages [simp]: "os_messages (foldl (add_recipient_inbox en) db rs) = os_messages db"
  by (induction rs arbitrary: db) (simp_all add: add_recipient_inbox_def)

lemma held_siblings: "pk so_device_id (os_siblings db) \<longrightarrow> pk so_device_id t \<Longrightarrow> held cfg db (db\<lparr>os_siblings := t\<rparr>)"
  by (auto simp: held_def outbox_inv_def)

lemma insert_cases:
  "insert_message en db m = (db, Inr False) \<or> (\<exists>e. insert_message en db m = (db, Inl e)) \<or>
   (\<not> message_exists db (qm_message_id m) \<and> insert_message en db m = (db\<lparr>os_messages := os_messages db @ [m]\<rparr>, Inr True))"
  by (simp add: insert_message_def message_exists_def sql_insert_def)

lemma held_insert:
  assumes "\<not> message_exists db (qm_message_id m)" "retry_ok cfg (qm_attempt_count m) (qm_next_attempt_at m)"
  shows "held cfg db (db\<lparr>os_messages := os_messages db @ [m]\<rparr>)"
  using assms by (auto simp: held_def outbox_inv_def pk_def message_exists_def)

subsection \<open>Attempts\<close>

lemma queued_simps [simp]:
  "qm_message_id (queued i kb fr t e) = i" "qm_attempt_count (queued i kb fr t e) = 0"
  "qm_next_attempt_at (queued i kb fr t e) = t" "qm_delivery_frame (queued i kb fr t e) = fr"
  "qm_status (queued i kb fr t e) = MS_PENDING" "qm_enqueued_at_ms (queued i kb fr t e) = t"
  by (simp_all add: queued_def default_queued_message_def)

lemma row_to_msg_simps [simp]:
  "qm_attempt_count (row_to_msg m) = qm_attempt_count m" "qm_next_attempt_at (row_to_msg m) = qm_next_attempt_at m"
  "qm_status (row_to_msg m) = qm_status m" "qm_delivery_frame (row_to_msg m) = qm_delivery_frame m"
  "qm_enqueued_at_ms (row_to_msg m) = qm_enqueued_at_ms m" "qm_message_id (row_to_msg m) = c_str (qm_message_id m)"
  by (simp_all add: row_to_msg_def)

lemma held_immediate:
  assumes "\<And>m. get_message (dm_store s) i = Some m \<Longrightarrow> qm_attempt_count m = 0"
  shows "held cfg (dm_store s) (dm_store (immediate_attempt C ans cfg t s i))"
proof (cases "get_message (dm_store s) i")
  case (Some m)
  have ok: "retry_ok cfg 1 (if b \<or> 1 \<ge> oc_max_retries cfg then 0 else n)" for b n
    by (auto simp: retry_ok_def retry_cap_def)
  obtain s1 r where a: "attempt_any ans m (get_recipient_inboxes (dm_store s) i) s = (s1, r)"
    by fastforce
  show ?thesis
    using held_attempt [OF ok] by (simp add: immediate_attempt_def Some assms [OF Some] a attempt_anyD [OF a] Let_def)
qed (simp add: immediate_attempt_def)

lemma held_retry_one:
  assumes "retry_ok cfg (qm_attempt_count m) (qm_next_attempt_at m)" "qm_next_attempt_at m > 0"
  shows "held cfg (dm_store s) (dm_store (retry_one ans cfg clk s m))"
proof -
  have ok: "retry_ok cfg (qm_attempt_count m + 1) (if b \<or> qm_attempt_count m + 1 \<ge> oc_max_retries cfg then 0 else n)" for b n
    using assms by (auto simp: retry_ok_def retry_cap_def)
  obtain s1 r where a: "attempt_any ans m (get_recipient_inboxes (dm_store s) (qm_message_id m)) s = (s1, r)"
    by fastforce
  show ?thesis
    using held_attempt [OF ok] by (simp add: retry_one_def a attempt_anyD [OF a] Let_def)
qed

lemma held_retry_pass: 
  assumes "outbox_inv cfg (dm_store s)"
  shows "held cfg (dm_store s) (dm_store (retry_pass ans cfg now clk s))"
proof -
  have due: "retry_ok cfg (qm_attempt_count m) (qm_next_attempt_at m) \<and> qm_next_attempt_at m > 0"
    if "m \<in> set (list_due (dm_store s) now)" for m
    using that assms by (auto simp: list_due_def is_due_def outbox_inv_def)
  have loop: "\<forall>m\<in>set (map snd es). retry_ok cfg (qm_attempt_count m) (qm_next_attempt_at m) \<and> qm_next_attempt_at m > 0 \<Longrightarrow>
      held cfg (dm_store s) (dm_store (foldl (\<lambda>s (n, msg). retry_one ans cfg (clk n) s msg) s es))" for es and s :: outbox
  proof (induction es arbitrary: s)
    case (Cons x es)
    then show ?case
      using held_trans [OF held_retry_one [of cfg "snd x" s ans "clk (fst x)"]] by (auto simp: split_beta)
  qed simp
  show ?thesis
    unfolding retry_pass_def by (rule loop) (simp only: map_snd_enumerate, simp add: due)
qed

subsection \<open>Frames and requests\<close>

lemma held_foldl:
  "(\<And>s x. held cfg (dm_store s) (dm_store (f s x))) \<Longrightarrow> held cfg (dm_store s) (dm_store (foldl f s xs))"
proof (induction xs arbitrary: s)
  case (Cons x xs)
  then show ?case
    using held_trans [of cfg "dm_store s" "dm_store (f s x)"] by simp
qed simp

lemma held_push_delivered: "held cfg (dm_store s) (dm_store (push_delivered s i))"
  by (simp add: push_delivered_def held_set_status)

lemma handle_poll_store [simp]: "dm_store (handle_poll en C ans s ch body) = dm_store s"
  by (simp add: handle_poll_def Let_def split: option.split)

lemma held_push: "held cfg (dm_store s) (dm_store (on_ar_push en C s ev pl))"
  by (auto simp: on_ar_push_def on_frame_def handle_delivery_ack_def handle_poll_ack_def Let_def
      intro: held_push_delivered held_foldl split: option.split cval.split)

text \<open>A new message, its recipients and the immediate attempt.\<close>

lemma held_enqueued:
  assumes "insert_message en (dm_store s) (queued i kb fr t e) = (db, Inr True)" "os_messages db' = os_messages db" "held cfg db db'"
  shows "held cfg (dm_store s) (dm_store (immediate_attempt C ans cfg t' (s\<lparr>dm_store := db'\<rparr>) i))"
proof -
  let ?m = "queued i kb fr t e"
  have new: "\<not> message_exists (dm_store s) i" "db = (dm_store s)\<lparr>os_messages := os_messages (dm_store s) @ [?m]\<rparr>"
    using insert_cases [of en "dm_store s" ?m] assms(1) by auto
  have "retry_ok cfg 0 t"
    by (auto simp: retry_ok_def retry_cap_def max_def)
  then have "held cfg (dm_store s) db"
    using held_insert [of "dm_store s" ?m cfg] new by simp
  moreover have "get_message db' i = Some (row_to_msg ?m)"
    using find_append_new [of i qm_message_id "os_messages (dm_store s)" ?m] new assms(2)
    by (simp add: get_message_def message_exists_def)
  then have "held cfg db' (dm_store (immediate_attempt C ans cfg t' (s\<lparr>dm_store := db'\<rparr>) i))"
    using held_immediate [of "s\<lparr>dm_store := db'\<rparr>" i cfg C ans t'] by simp
  ultimately show ?thesis
    using assms(3) held_trans by blast
qed

lemma held_enqueue: "held cfg (dm_store s) (dm_store (fst (enqueue en C ans cfg t t' s p)))"
proof -
  have ins: "held cfg (dm_store s) (dm_store (fst (case insert_message en (dm_store s) (queued i kb fr t e) of
          (db, Inl x) \<Rightarrow> (s\<lparr>dm_store := db\<rparr>, Inl x)
        | (db, Inr False) \<Rightarrow> (s\<lparr>dm_store := db\<rparr>, Inl (Runtime_Error ''DUPLICATE_MESSAGE_ID''))
        | (db, Inr True) \<Rightarrow> (immediate_attempt C ans cfg t' (s\<lparr>dm_store := foldl (add_recipient_inbox en) db rs\<rparr>) i, res))))"
    for i kb fr e rs res
    using insert_cases [of en "dm_store s" "queued i kb fr t e"]
      held_enqueued [of en s i kb fr t e _ "foldl (add_recipient_inbox en) _ rs" cfg C ans t', OF _ recipients_messages held_recipients]
    by auto
  show ?thesis
  proof (cases "req_bytes p ''delivery_frame''")
    case (Inr fr)
    then show ?thesis
      by (cases "parse_delivery_frame C fr") (simp_all add: enqueue_def Let_def ins)
  qed (simp add: enqueue_def)
qed

lemma held_broadcast: "held cfg (dm_store s) (dm_store (fst (broadcast_loop en C ans cfg t clk fr base vs s ids)))"
proof (induction vs arbitrary: s ids)
  case (Cons v vs)
  show ?case
  proof (cases "\<exists>m kb. v = VMap m \<and> map_of m ''recipient_key_b_kem_pubkey_hex'' = Some (VString kb)")
    case True
    then obtain m kb where v: "v = VMap m" "map_of m ''recipient_key_b_kem_pubkey_hex'' = Some (VString kb)"
      by blast
    let ?i = "base @ ''_'' @ take 8 kb"
    let ?db = "\<lambda>db. case recipient_entry ?i v of Some ri \<Rightarrow> add_recipient_inbox en db ri | None \<Rightarrow> db"
    have db: "os_messages (?db db) = os_messages db" "held cfg db (?db db)" for db
      using held_recipient by (auto simp: add_recipient_inbox_def split: option.split)
    let ?s = "\<lambda>db. immediate_attempt C ans cfg (clk (length vs)) (s\<lparr>dm_store := ?db db\<rparr>) ?i"
    have "held cfg (dm_store s) (dm_store (?s db))"
        if "insert_message en (dm_store s) (queued ?i kb fr t (t + week_ms)) = (db, Inr True)" for db
      using held_enqueued [OF that db] by simp
    then have "held cfg (dm_store s) (dm_store (fst (broadcast_loop en C ans cfg t clk fr base vs (?s db) is)))"
        if "insert_message en (dm_store s) (queued ?i kb fr t (t + week_ms)) = (db, Inr True)" for db "is"
      using that Cons.IH held_trans by blast
    then show ?thesis
      using insert_cases [of en "dm_store s" "queued ?i kb fr t (t + week_ms)"] Cons.IH [of s] v by (auto simp: Let_def)
  next
    case False
    then show ?thesis
      using Cons.IH by (auto simp: Let_def split: cval.split option.split)
  qed
qed simp

lemma held_handle: "held cfg (dm_store s) (dm_store (fst (outbox_handle en C ans cfg t clk s m p)))"
proof -
  have b: "held cfg (dm_store s) (dm_store (fst (enqueue_broadcast en C ans cfg t clk s p)))"
    using held_broadcast [of cfg s en C ans t clk]
    by (auto simp: enqueue_broadcast_def split_beta split: sum.split option.split cval.split)
  have st: "held cfg db (fst (stored db r))" if "\<And>db'. r = Inr db' \<Longrightarrow> held cfg db db'" for db r
    using that by (cases r) (simp_all add: stored_def)
  have "held cfg (dm_store s) (fst (cancel (dm_store s) p))"
    by (simp add: cancel_def held_set_status split: sum.split)
  moreover have "held cfg (dm_store s) (fst (add_sibling en (dm_store s) p))"
    unfolding add_sibling_def
    by (rule st) (auto simp: rbind_Inr_iff upsert_sibling_def split: if_splits intro!: held_siblings pk_replace)
  moreover have "held cfg (dm_store s) (fst (ipc_remove_sibling (dm_store s) p))"
    unfolding ipc_remove_sibling_def
    by (rule st) (auto simp: rbind_Inr_iff remove_sibling_def intro!: held_siblings pk_delete)
  moreover have "held cfg (dm_store s) (fst (update_auth_cert en (dm_store s) p))"
    by (auto simp: update_auth_cert_def set_auth_cert_def set_config_def held_def outbox_inv_def split: sum.split)
  ultimately show ?thesis
    using b held_enqueue by (simp add: outbox_handle_def on_store_def Let_def)
qed

subsection \<open>Runs\<close>

text \<open>
  What happens to the daemon: an event of the router, a request, start-up, a pass of the retry
  loop, maintenance.
\<close>

datatype outbox_event =
    Ox_Push string cmap
  | Ox_Request answers int "nat \<Rightarrow> int" string cmap
  | Ox_Start answers
  | Ox_Retry answers int "nat \<Rightarrow> int \<times> int"
  | Ox_Tick int

fun outbox_step :: "bool \<Rightarrow> cbor_lib \<Rightarrow> outbox_config \<Rightarrow> outbox \<Rightarrow> outbox_event \<Rightarrow> outbox" where
  "outbox_step en C cfg s (Ox_Push ev pl) = on_ar_push en C s ev pl"
| "outbox_step en C cfg s (Ox_Request ans t clk m p) = fst (outbox_handle en C ans cfg t clk s m p)"
| "outbox_step en C cfg s (Ox_Start ans) = startup_burst ans s"
| "outbox_step en C cfg s (Ox_Retry ans now clk) = retry_pass ans cfg now clk s"
| "outbox_step en C cfg s (Ox_Tick t) = outbox_maintenance t s"

definition outbox_run :: "bool \<Rightarrow> cbor_lib \<Rightarrow> outbox_config \<Rightarrow> outbox_event list \<Rightarrow> outbox" where
  "outbox_run en C cfg evs =
     foldl (outbox_step en C cfg) \<lparr>dm_store = outbox_store_new, dm_calls = [], dm_pushes = []\<rparr> evs"

lemma held_step: "outbox_inv cfg (dm_store s) \<Longrightarrow> held cfg (dm_store s) (dm_store (outbox_step en C cfg s ev))"
  by (cases ev) (simp_all add: held_push held_handle held_retry_pass outbox_maintenance_def held_expire)

lemma held_steps:
  "outbox_inv cfg (dm_store s) \<Longrightarrow> outbox_inv cfg (dm_store (foldl (outbox_step en C cfg) s es)) \<and>
     evolves (os_messages (dm_store s)) (os_messages (dm_store (foldl (outbox_step en C cfg) s es)))"
proof (induction es arbitrary: s)
  case (Cons e es)
  then show ?case
    using held_step [of cfg s en C e] evolves_trans by (auto simp: held_def)
qed simp

lemma outbox_new_inv: "outbox_inv cfg outbox_store_new"
  by (simp add: outbox_inv_def outbox_store_new_def)

text \<open>
  C8. In every run of the outbox the keys of its tables stay unique, no message counts more
  than \<open>max 1 max_retries\<close> failed attempts and one that reached this number is scheduled no
  more. As a run goes on every queued message stays where it is with its identifier, frame,
  recipient and times, and one that is delivered, expired or cancelled is never pending again.
\<close>

theorem outbox_queue_safe:
  "outbox_inv cfg (dm_store (outbox_run en C cfg evs)) \<and>
   evolves (os_messages (dm_store (outbox_run en C cfg evs))) (os_messages (dm_store (outbox_run en C cfg (evs @ later))))"
  using held_steps [of cfg _ en C later] held_steps [of cfg "\<lparr>dm_store = outbox_store_new, dm_calls = [], dm_pushes = []\<rparr>" en C evs]
  by (simp add: outbox_run_def outbox_new_inv)

subsection \<open>Enqueueing\<close>

text \<open>A router that opens a channel to anyone, and one that fails.\<close>

definition router_accepts :: "answers \<Rightarrow> string \<Rightarrow> bool" where
  "router_accepts ans c \<longleftrightarrow> (\<forall>n p. ans n ''channel.list'' p = Inr [] \<and>
     ans n ''channel.open'' p = Inr [(''channel_id'', VString c)] \<and> \<not> isl (ans n ''frame.send'' p))"

definition router_fails :: "answers \<Rightarrow> bool" where
  "router_fails ans \<longleftrightarrow> (\<forall>n m p. isl (ans n m p))"

lemma attempt_accepted:
  "router_accepts ans c \<Longrightarrow> attempt_delivery ans s m ri =
     (s\<lparr>dm_calls := dm_calls s @ [(''channel.list'', []), (''channel.open'', open_params (to_hex (ri_key_c_pubkey ri))),
        (''frame.send'', frame_send_params c (qm_delivery_frame m))]\<rparr>, True)"
  by (auto simp: router_accepts_def attempt_delivery_def ensure_channel_def open_channel_def ar_call_def)

lemma attempt_any_fails: "router_fails ans \<Longrightarrow> \<not> snd (attempt_any ans m ris s)"
proof (induction ris arbitrary: s)
  case (Cons ri ris)
  obtain e where "ans (length (dm_calls s)) ''channel.list'' [] = Inl e"
    using Cons.prems unfolding router_fails_def isl_def by meson
  then have "\<not> snd (attempt_delivery ans s m ri)"
    by (simp add: attempt_delivery_def ensure_channel_def ar_call_def)
  then show ?case
    using Cons by (auto split: prod.split bool.split)
qed simp

lemma calls_grow_replicate: "set (dm_calls s) \<subseteq> set (dm_calls (replicate_to_siblings C ans s i))"
proof -
  have e: "set (dm_calls s) \<subseteq> set (dm_calls s')" if "ensure_channel ans s k = (s', r)" for k s' r and s :: outbox
    using that by (auto simp: ensure_channel_def open_channel_def ar_call_def split: sum.splits option.splits cval.splits)
  have one: "set (dm_calls s) \<subseteq> set (dm_calls (replicate_one C ans i msg ris s sib))" for msg ris sib and s :: outbox
  proof (cases "ensure_channel ans s (to_hex (so_key_c_pubkey sib))")
    case (Pair s' r)
    from e [OF Pair] show ?thesis
      by (cases r) (auto simp: replicate_one_def Pair split: option.split)
  qed
  have "set (dm_calls s) \<subseteq> set (dm_calls (foldl (replicate_one C ans i msg ris) s sibs))" for msg ris sibs and s :: outbox
  proof (induction sibs arbitrary: s)
    case (Cons sib sibs)
    show ?case
      using order_trans [OF one [of s msg ris sib] Cons.IH] by simp
  qed simp
  then show ?thesis
    by (simp add: replicate_to_siblings_def split: option.split)
qed

text \<open>The row a new message becomes, and its recipients.\<close>

definition enq_row :: "delivery_frame_header \<Rightarrow> bytes \<Rightarrow> cmap \<Rightarrow> int \<Rightarrow> queued_message" where
  "enq_row hdr fr p t = queued (dh_message_id hdr) (dh_recipient_key_b_kem_pubkey_hex hdr) fr t
     (int64_of (u64_of_int64 (t + (case map_of p ''ttl_ms'' of Some (VUint u) \<Rightarrow> int64_of u | _ \<Rightarrow> week_ms))))"

definition enq_recipients :: "delivery_frame_header \<Rightarrow> cmap \<Rightarrow> recipient_inbox list" where
  "enq_recipients hdr p = (case map_of p ''recipient_inboxes'' of
     Some (VArray arr) \<Rightarrow> List.map_filter (recipient_entry (dh_message_id hdr)) arr | _ \<Rightarrow> [])"

definition enq_store :: "bool \<Rightarrow> outbox_store \<Rightarrow> delivery_frame_header \<Rightarrow> bytes \<Rightarrow> cmap \<Rightarrow> int \<Rightarrow> outbox_store" where
  "enq_store en db hdr fr p t =
     foldl (add_recipient_inbox en) (db\<lparr>os_messages := os_messages db @ [enq_row hdr fr p t]\<rparr>) (enq_recipients hdr p)"

lemma enqueue_new:
  assumes "map_of p ''delivery_frame'' = Some (VBytes fr)" "parse_delivery_frame C fr = Some hdr"
    "\<not> message_exists (dm_store s) (dh_message_id hdr)" "fr \<noteq> []"
  shows "enqueue en C ans cfg t t' s p =
    (immediate_attempt C ans cfg t' (s\<lparr>dm_store := enq_store en (dm_store s) hdr fr p t\<rparr>) (dh_message_id hdr),
     Inr (cmap_of [(''message_id'', VString (dh_message_id hdr)), (''ok'', VBool True)]))"
proof -
  have "insert_message en (dm_store s) (enq_row hdr fr p t) =
      ((dm_store s)\<lparr>os_messages := os_messages (dm_store s) @ [enq_row hdr fr p t]\<rparr>, Inr True)"
    using assms(3,4) by (simp add: insert_message_def sql_insert_def message_exists_def null_blob_def enq_row_def)
  then show ?thesis
    using assms(1,2) by (simp add: enqueue_def req_bytes_def Let_def enq_store_def enq_recipients_def flip: enq_row_def)
qed

lemma enq_get:
  assumes "\<not> message_exists db (dh_message_id hdr)"
  shows "get_message (enq_store en db hdr fr p t) (dh_message_id hdr) = Some (row_to_msg (enq_row hdr fr p t))"
proof -
  have "qm_message_id (enq_row hdr fr p t) = dh_message_id hdr"
    by (simp add: enq_row_def)
  with find_append_new [of "dh_message_id hdr" qm_message_id "os_messages db" "enq_row hdr fr p t"] assms show ?thesis
    by (simp add: get_message_def enq_store_def message_exists_def)
qed

lemma update_new:
  assumes "\<not> message_exists db i" "qm_message_id m = i"
  shows "sql_update (\<lambda>x. qm_message_id x = i) f (os_messages db @ [m]) = os_messages db @ [f m]"
  using assms by (auto simp: sql_update_def message_exists_def image_iff intro!: map_idI)

lemma enq_fields [simp]:
  "qm_attempt_count (enq_row hdr fr p t) = 0" "qm_status (enq_row hdr fr p t) = MS_PENDING"
  "qm_enqueued_at_ms (enq_row hdr fr p t) = t" "qm_delivery_frame (enq_row hdr fr p t) = fr"
  "qm_message_id (enq_row hdr fr p t) = dh_message_id hdr" "qm_next_attempt_at (enq_row hdr fr p t) = t"
  by (simp_all add: enq_row_def)

lemma backoff_first: "backoff_ms 1 = 60000"
  by (simp add: backoff_ms_def)

lemma enqueue_fails:
  assumes new: "\<not> message_exists (dm_store s) (dh_message_id hdr)" and fails: "router_fails ans"
    and time: "t' - t + 60000 \<le> oc_retry_window_s cfg * 1000" "1 < oc_max_retries cfg"
  shows "os_messages (dm_store (immediate_attempt C ans cfg t' (s\<lparr>dm_store := enq_store en (dm_store s) hdr fr p t\<rparr>) (dh_message_id hdr))) =
    os_messages (dm_store s) @ [(enq_row hdr fr p t)\<lparr>qm_attempt_count := 1, qm_next_attempt_at := t' + 60000\<rparr>]"
proof -
  let ?s = "s\<lparr>dm_store := enq_store en (dm_store s) hdr fr p t\<rparr>" and ?m = "row_to_msg (enq_row hdr fr p t)"
  let ?r = "get_recipient_inboxes (dm_store ?s) (dh_message_id hdr)"
  obtain s1 where a: "attempt_any ans ?m ?r ?s = (s1, False)"
    using attempt_any_fails [OF fails, of ?m ?r ?s] by (cases "attempt_any ans ?m ?r ?s") simp
  have "dm_store s1 = enq_store en (dm_store s) hdr fr p t"
    using attempt_anyD [OF a] by simp
  then have "os_messages (update_attempt (dm_store s1) (dh_message_id hdr) 1 (t' + 60000)) =
      os_messages (dm_store s) @ [(enq_row hdr fr p t)\<lparr>qm_attempt_count := 1, qm_next_attempt_at := t' + 60000\<rparr>]"
    using update_new [OF new] by (simp add: update_attempt_def enq_store_def)
  then show ?thesis
    using a time enq_get [OF new] by (simp add: immediate_attempt_def Let_def backoff_first)
qed

lemma enqueue_accepted:
  assumes new: "\<not> message_exists (dm_store s) (dh_message_id hdr)" and acc: "router_accepts ans c"
    and ri: "get_recipient_inboxes (enq_store en (dm_store s) hdr fr p t) (dh_message_id hdr) = ri # ris"
    and s': "s' = immediate_attempt C ans cfg t' (s\<lparr>dm_store := enq_store en (dm_store s) hdr fr p t\<rparr>) (dh_message_id hdr)"
  shows "dm_store s' = enq_store en (dm_store s) hdr fr p t"
    "(''frame.send'', frame_send_params c fr) \<in> set (dm_calls s')"
    "(''channel.open'', open_params (to_hex (ri_key_c_pubkey ri))) \<in> set (dm_calls s')"
proof -
  let ?s = "s\<lparr>dm_store := enq_store en (dm_store s) hdr fr p t\<rparr>"
  let ?s1 = "?s\<lparr>dm_calls := dm_calls s @ [(''channel.list'', []), (''channel.open'', open_params (to_hex (ri_key_c_pubkey ri))),
        (''frame.send'', frame_send_params c fr)]\<rparr>"
  have s1: "s' = replicate_to_siblings C ans ?s1 (dh_message_id hdr)"
    by (simp add: s' immediate_attempt_def enq_get [OF new] ri attempt_accepted [OF acc] Let_def)
  show "dm_store s' = enq_store en (dm_store s) hdr fr p t"
    using s1 by simp
  show "(''frame.send'', frame_send_params c fr) \<in> set (dm_calls s')"
    "(''channel.open'', open_params (to_hex (ri_key_c_pubkey ri))) \<in> set (dm_calls s')"
    using calls_grow_replicate [of ?s1 C ans "dh_message_id hdr"] s1 by auto
qed

text \<open>
  C13. A frame with a fresh identifier is queued as a pending message. When the router opens
  channels and takes frames, exactly the given frame is sent over a channel opened to one of
  the recipients, and the message stays due (it is sent again until it is acknowledged). When
  the router fails, the message counts one failed attempt and is due again a minute later. A
  frame whose identifier is known is refused with \<^verbatim>\<open>DUPLICATE_MESSAGE_ID\<close> and changes nothing.
\<close>

theorem enqueue_sends:
  assumes p: "map_of p ''delivery_frame'' = Some (VBytes fr)" "parse_delivery_frame C fr = Some hdr" "fr \<noteq> []"
    and new: "\<not> message_exists (dm_store s) (dh_message_id hdr)"
    and acc: "router_accepts ans c" and fails: "router_fails bad"
    and ri: "get_recipient_inboxes (enq_store en (dm_store s) hdr fr p t) (dh_message_id hdr) = ri # ris"
    and time: "0 < t" "t' - t + 60000 \<le> oc_retry_window_s cfg * 1000" "1 < oc_max_retries cfg" "clk 0 = t'"
    and dup: "message_exists (dm_store s2) (dh_message_id hdr)"
    and s1: "s1 = fst (outbox_handle en C ans cfg t clk s ''outbox.enqueue'' p)"
  shows "os_messages (dm_store s1) = os_messages (dm_store s) @ [enq_row hdr fr p t] \<and> qm_status (enq_row hdr fr p t) = MS_PENDING \<and>
    (''channel.open'', open_params (to_hex (ri_key_c_pubkey ri))) \<in> set (dm_calls s1) \<and>
    (''frame.send'', frame_send_params c fr) \<in> set (dm_calls s1) \<and>
    (t \<le> now \<longrightarrow> row_to_msg (enq_row hdr fr p t) \<in> set (list_due (dm_store s1) now)) \<and>
    os_messages (dm_store (fst (outbox_handle en C bad cfg t clk s ''outbox.enqueue'' p))) =
      os_messages (dm_store s) @ [(enq_row hdr fr p t)\<lparr>qm_attempt_count := 1, qm_next_attempt_at := t' + 60000\<rparr>] \<and>
    outbox_handle en C ans cfg t clk s2 ''outbox.enqueue'' p = (s2, Inl (Runtime_Error ''DUPLICATE_MESSAGE_ID''))"
proof -
  let ?i = "dh_message_id hdr"
  have s1': "s1 = immediate_attempt C ans cfg (clk 0) (s\<lparr>dm_store := enq_store en (dm_store s) hdr fr p t\<rparr>) ?i"
    using enqueue_new [OF p(1,2) new p(3)] by (simp add: s1 outbox_handle_def)
  note sent = enqueue_accepted [OF new acc ri s1']
  have msgs: "os_messages (dm_store s1) = os_messages (dm_store s) @ [enq_row hdr fr p t]"
    using sent(1) by (simp add: enq_store_def)
  then have "t \<le> now \<longrightarrow> row_to_msg (enq_row hdr fr p t) \<in> set (list_due (dm_store s1) now)"
    using time(1) by (simp add: list_due_def is_due_def)
  moreover have "os_messages (dm_store (fst (outbox_handle en C bad cfg t clk s ''outbox.enqueue'' p))) =
      os_messages (dm_store s) @ [(enq_row hdr fr p t)\<lparr>qm_attempt_count := 1, qm_next_attempt_at := t' + 60000\<rparr>]"
    using enqueue_new [OF p(1,2) new p(3)] enqueue_fails [OF new fails time(2,3)] time(4) by (simp add: outbox_handle_def)
  moreover have "outbox_handle en C ans cfg t clk s2 ''outbox.enqueue'' p = (s2, Inl (Runtime_Error ''DUPLICATE_MESSAGE_ID''))"
    using p(1,2) dup by (simp add: outbox_handle_def enqueue_def req_bytes_def Let_def insert_message_def)
  ultimately show ?thesis
    using msgs sent(2,3) by simp
qed

definition demo_out_frame :: bytes where
  "demo_out_frame = Cbor_Wire.enc (CMap [(CText ''message_id'', CBytes (zeros 16))])"

definition demo_out_hdr :: delivery_frame_header where
  "demo_out_hdr = \<lparr>dh_message_id = to_hex (zeros 16), dh_recipient_key_b_kem_pubkey_hex = [], dh_sender_outbox_key_c_pubkey_hex = []\<rparr>"

definition demo_enqueue :: cmap where
  "demo_enqueue = [(''delivery_frame'', VBytes demo_out_frame),
     (''recipient_inboxes'', VArray [VMap [(''auth_cert'', VBytes [2]), (''key_c_pubkey'', VBytes [1])]])]"

definition demo_answers :: answers where
  "demo_answers n m p = Inr (if m = ''channel.open'' then [(''channel_id'', VString ''c'')] else [])"

definition demo_outbox :: outbox where
  "demo_outbox = \<lparr>dm_store = outbox_store_new, dm_calls = [], dm_pushes = []\<rparr>"

lemma demo_out_parse: "parse_delivery_frame wire_cbor demo_out_frame = Some demo_out_hdr" "demo_out_frame \<noteq> []"
proof -
  have "Cbor_Wire.enc (CMap [(CText ''message_id'', CBytes (zeros 16))]) \<noteq> []"
    using length_enc_pos by (metis list.size(3) less_irrefl)
  then show "demo_out_frame \<noteq> []"
    by (simp add: demo_out_frame_def)
  have "plain (CMap [(CText ''message_id'', CBytes (zeros 16))]) 64"
    by simp
  from wire_load_enc [OF this] have "cbor_load wire_cbor demo_out_frame = Some (CMap [(CText ''message_id'', CBytes (zeros 16))])"
    by (simp add: demo_out_frame_def wire_cbor_def)
  moreover have "length (to_hex (zeros 16)) \<noteq> 0"
    by simp
  then have "to_hex (zeros 16) \<noteq> []"
    by (metis list.size(3))
  ultimately show "parse_delivery_frame wire_cbor demo_out_frame = Some demo_out_hdr"
    by (simp add: parse_delivery_frame_def delivery_field_def demo_out_hdr_def)
qed

theorem enqueue_sends_witness:
  "(''frame.send'', frame_send_params ''c'' demo_out_frame) \<in>
     set (dm_calls (fst (outbox_handle True wire_cbor demo_answers default_outbox_config 5 (\<lambda>_. 5) demo_outbox ''outbox.enqueue'' demo_enqueue)))"
proof -
  let ?ri = "\<lparr>ri_message_id = to_hex (zeros 16), ri_key_c_pubkey = [1], ri_auth_cert = [2]\<rparr>"
  have p: "map_of demo_enqueue ''delivery_frame'' = Some (VBytes demo_out_frame)"
    by (simp add: demo_enqueue_def)
  have new: "\<not> message_exists (dm_store demo_outbox) (dh_message_id demo_out_hdr)"
    by (simp add: message_exists_def demo_outbox_def outbox_store_new_def)
  have acc: "router_accepts demo_answers ''c''" and fails: "router_fails recv_thread_ans"
    by (simp_all add: router_accepts_def demo_answers_def router_fails_def recv_thread_ans_def)
  have "enq_recipients demo_out_hdr demo_enqueue = [?ri]"
    by (simp add: enq_recipients_def demo_enqueue_def map_filter_simps recipient_entry_def demo_out_hdr_def)
  then have ri: "get_recipient_inboxes (enq_store True (dm_store demo_outbox) demo_out_hdr demo_out_frame demo_enqueue 5)
      (dh_message_id demo_out_hdr) = ?ri\<lparr>ri_message_id := c_str (to_hex (zeros 16))\<rparr> # []"
    by (simp add: enq_store_def get_recipient_inboxes_def add_recipient_inbox_def null_blob_def sql_insert_or_ignore_def
        demo_outbox_def outbox_store_new_def demo_out_hdr_def)
  have dup: "message_exists (dm_store (demo_outbox\<lparr>dm_store := outbox_store_new\<lparr>os_messages := [enq_row demo_out_hdr [] [] 5]\<rparr>\<rparr>))
      (dh_message_id demo_out_hdr)"
    by (simp add: message_exists_def)
  have time: "0 < (5::int)" "5 - 5 + 60000 \<le> oc_retry_window_s default_outbox_config * 1000" "1 < oc_max_retries default_outbox_config"
    by (simp_all add: default_outbox_config_def)
  show ?thesis
    by (rule enqueue_sends [OF p demo_out_parse new acc fails ri time refl dup refl, THEN conjunct2, THEN conjunct2,
          THEN conjunct2, THEN conjunct1])
qed

subsection \<open>Acknowledgements and broadcasts\<close>

lemma set_status_get:
  assumes "get_message db i = Some m"
  shows "\<exists>m'. get_message (set_status db i st) i = Some m' \<and> qm_status m' = st \<and> qm_delivery_frame m' = qm_delivery_frame m"
proof -
  have "find (\<lambda>m. qm_message_id m = i) t = Some r \<Longrightarrow>
      find (\<lambda>m. qm_message_id m = i) (sql_update (\<lambda>m. qm_message_id m = i) (\<lambda>m. m\<lparr>qm_status := st\<rparr>) t) = Some (r\<lparr>qm_status := st\<rparr>)"
    for t and r :: queued_message
    by (induction t) (auto simp: sql_update_def split: if_splits)
  moreover obtain r where "find (\<lambda>m. qm_message_id m = i) (os_messages db) = Some r" "m = row_to_msg r"
    using assms by (auto simp: get_message_def)
  ultimately have "get_message (set_status db i st) i = Some (row_to_msg (r\<lparr>qm_status := st\<rparr>)) \<and> m = row_to_msg r"
    by (simp add: get_message_def set_status_def)
  then show ?thesis
    by simp
qed

text \<open>An acknowledgement with a listed key marks the message, one with another key does nothing.\<close>

lemma ack_frame:
  assumes "cbor_load C pl = Some (CMap ps)" "frame_type_of ps = ''delivery_ack''" "last_text ps ''message_id'' = i"
    "last_bytes ps ''inbox_key_c_pubkey'' = k" "i \<noteq> []" "k \<noteq> []"
  shows "on_frame en C ans s ch pl = (if is_valid_recipient_inbox en (dm_store s) i k then push_delivered s i else s)"
  using assms by (simp add: on_frame_def handle_delivery_ack_def map_items_def)

text \<open>
  \<^verbatim>\<open>broadcast_status\<close> counts delivered messages among the pending ones: it always reports none.
\<close>

lemma broadcast_status_zero: "broadcast_status db p = Inr r \<Longrightarrow> map_of r ''delivered'' = Some (VUint 0)"
proof -
  have "filter (\<lambda>m. qm_status m = MS_DELIVERED) (filter q (list_pending db)) = []" for q
    by (auto simp: list_pending_def filter_empty_conv)
  then show "broadcast_status db p = Inr r \<Longrightarrow> map_of r ''delivered'' = Some (VUint 0)"
    by (auto simp: broadcast_status_def rbind_Inr_iff Let_def cmap_of_def)
qed

text \<open>\<^verbatim>\<open>outbox_poll_ack\<close> marks the messages it names whoever sends it.\<close>

lemma poll_ack_marks:
  assumes "cbor_load C body = Some (CMap [(CText ''type'', CText ''outbox_poll_ack''), (CText ''message_ids'', CArray [CText i])])"
  shows "dm_store (on_frame en C ans s ch body) = set_status (dm_store s) i MS_DELIVERED"
  using assms by (simp add: on_frame_def handle_poll_ack_def poll_ack_ids_def map_items_def map_filter_simps push_delivered_def Let_def)

end
