(* ===== verification/Ratchet_Types.thy ===== *)
theory Ratchet_Types
  imports Ratchet_Session
begin













end
