(* ===== verification/Client.thy ===== *)
theory Client
  imports Client_Base
begin

text \<open>
  The operations of the client (\<^verbatim>\<open>client/src/client.cpp\<close>), in the order in which they use each
  other: the helpers, the receive flow, the envelopes, sending, the session with its startup
  sequence. The operations the user interface calls are in \<open>Client_Ops\<close>.
\<close>

subsection \<open>Helpers\<close>

definition from_hex :: "string \<Rightarrow> bytes res" where
  "from_hex s = hex_bytes (length s div 2) s"

definition rand_hex_id :: "cl_env \<Rightarrow> string act" where
  "rand_hex_id E = bnd (draw E 16) (\<lambda>b. ret (to_hex b))"

text \<open>The pairs of an item the code takes for a map without a test.\<close>

definition item_pairs :: "cl_env \<Rightarrow> cbor \<Rightarrow> (cbor \<times> cbor) list" where
  "item_pairs E x = (case x of CMap ps \<Rightarrow> ps | _ \<Rightarrow> ce_pairs E x)"

definition cbor_key_eq :: "cbor_lib \<Rightarrow> cbor \<Rightarrow> string \<Rightarrow> bool" where
  "cbor_key_eq C k expected \<longleftrightarrow> text_of C k = expected"

definition cbor_get_field_bytes :: "cbor_lib \<Rightarrow> (cbor \<times> cbor) list \<Rightarrow> string \<Rightarrow> bytes" where
  "cbor_get_field_bytes C ps key =
     (case find (\<lambda>(k, v). cbor_key_eq C k key \<and> isa_bytestring v) ps of Some (k, v) \<Rightarrow> bytes_of C v | None \<Rightarrow> [])"

definition cbor_get_field_str :: "cbor_lib \<Rightarrow> (cbor \<times> cbor) list \<Rightarrow> string \<Rightarrow> string" where
  "cbor_get_field_str C ps key =
     (case find (\<lambda>(k, v). cbor_key_eq C k key \<and> isa_string v) ps of Some (k, v) \<Rightarrow> text_of C v | None \<Rightarrow> [])"

definition cbor_get_field_uint :: "cbor_lib \<Rightarrow> (cbor \<times> cbor) list \<Rightarrow> string \<Rightarrow> u64" where
  "cbor_get_field_uint C ps key =
     (case find (\<lambda>(k, v). cbor_key_eq C k key \<and> isa_uint v) ps of Some (k, v) \<Rightarrow> get_uint64 C v | None \<Rightarrow> 0)"

definition sender_id_of :: "cl_env \<Rightarrow> bytes \<Rightarrow> bytes" where
  "sender_id_of E pub = sha3_256 (ce_crypto E) pub"

text \<open>The identifier of a direct conversation: the digest of both parties' identifiers in order.\<close>

definition dm_conv_id :: "cl_env \<Rightarrow> string \<Rightarrow> string \<Rightarrow> string" where
  "dm_conv_id E a b =
     (let (x, y) = (if b < a then (b, a) else (a, b))
      in to_hex (sha3_256_parts (ce_crypto E) [as_bytes ''dm:'', as_bytes x, as_bytes '':'', as_bytes y]))"

definition require_key_a :: "key_a act" where
  "require_key_a = bnd (asks (\<lambda>s. get_key_a (keystore s))) (\<lambda>ka.
     case ka of None \<Rightarrow> throw ''SESSION_LOCKED'' | Some k \<Rightarrow> ret k)"

definition save_keystore :: "cl_env \<Rightarrow> unit act" where
  "save_keystore E = with_ks (save (ce_crypto E) (ce_sqlite E))"

text \<open>The first outbox certificate that is not revoked.\<close>

definition outbox_device :: "key_c_issued list \<Rightarrow> key_c_issued option" where
  "outbox_device ks = find (\<lambda>k. kc_device_type k = ''outbox'' \<and> \<not> kc_revoked k) ks"

definition get_guard_info :: "cl_env \<Rightarrow> guard_info act" where
  "get_guard_info E =
     (let g = \<lparr>gi_guard_node_id = [], gi_guard_endpoint = [], gi_session_token = [], gi_outbox_key_c_pubkey = [],
               gi_outbox_auth_expiry = ce_uninit_int E\<rparr>
      in bnd (is_up Inbox_Svc) (\<lambda>up.
           if \<not> up then ret g
           else bnd (attempt (call E Inbox_Svc ''inbox.guard_info'' [])) (\<lambda>res.
             case res of
               None \<Rightarrow> ret g
             | Some r \<Rightarrow> bnd (asks (\<lambda>s. list_key_c (keystore s))) (\<lambda>kcs.
                 let g1 = g\<lparr>gi_guard_node_id := (case map_of r ''guard_node_id'' of Some (VString v) \<Rightarrow> v | _ \<Rightarrow> []),
                            gi_guard_endpoint := (case map_of r ''guard_endpoint'' of Some (VString v) \<Rightarrow> v | _ \<Rightarrow> []),
                            gi_session_token := (case map_of r ''session_token'' of Some (VBytes v) \<Rightarrow> v | _ \<Rightarrow> [])\<rparr>
                 in ret (case outbox_device kcs of
                           None \<Rightarrow> g1
                         | Some kc \<Rightarrow> g1\<lparr>gi_outbox_key_c_pubkey := kc_key_c_pubkey kc,
                                          gi_outbox_auth_expiry := kc_expires_at kc\<rparr>)))))"

definition my_sender_id_hex :: "cl_env \<Rightarrow> client \<Rightarrow> string" where
  "my_sender_id_hex E s =
     (case get_key_a (keystore s) of None \<Rightarrow> [] | Some ka \<Rightarrow> to_hex (sender_id_of E (ka_pubkey ka)))"

definition get_display_name :: "client \<Rightarrow> string" where
  "get_display_name s =
     (if \<not> is_unlocked (keystore s) then []
      else let name = get_config (keystore s) ''display_name'' in if name = [] then ''ScatterWeb User'' else name)"

subsection \<open>Envelopes\<close>

definition draw_ratchet_rnd :: "cl_env \<Rightarrow> ratchet_rnd act" where
  "draw_ratchet_rnd E = bnd (draw E 32) (\<lambda>a. bnd (draw E 64) (\<lambda>b. bnd (draw E 12) (\<lambda>c.
     ret \<lparr>rr_kem = a, rr_key = b, rr_nonce = c\<rparr>)))"

definition ratchet_envelope_fields :: "ratchet_message \<Rightarrow> (string \<times> cbor) list" where
  "ratchet_envelope_fields msg =
     [(''version'', build_uint64 1),
      (''envelope_type'', build_string ''ratchet''),
      (''epoch'', build_uint64 (ucast (rh_epoch (rm_header msg)))),
      (''msg_num'', build_uint64 (ucast (rh_msg_num (rm_header msg)))),
      (''sender_ratchet_pub'', CBytes (rh_sender_ratchet_pub (rm_header msg)))] @
     (case rh_kem_ct (rm_header msg) of Some ct \<Rightarrow> [(''kem_ct'', CBytes ct)] | None \<Rightarrow> []) @
     [(''iv'', CBytes (rm_nonce msg)),
      (''ciphertext'', CBytes (rm_ciphertext msg)),
      (''tag'', CBytes (rm_tag msg))]"

definition ratchet_envelope :: "cbor_lib \<Rightarrow> ratchet_message \<Rightarrow> bytes" where
  "ratchet_envelope C msg = serialize_or_empty C (definite_map C 7 (str_fields (ratchet_envelope_fields msg)))"

definition encrypt_ratchet_envelope :: "cl_env \<Rightarrow> string \<Rightarrow> bytes \<Rightarrow> bytes act" where
  "encrypt_ratchet_envelope E conv app_frame =
     bnd (draw_ratchet_rnd E) (\<lambda>rn.
     bnd (with_mgr (\<lambda>g. mgr_encrypt (ce_crypto E) (ce_cbor E) (ce_null_data E) (ce_now_s E) rn g conv app_frame)) (\<lambda>msg.
       ret (ratchet_envelope (ce_cbor E) msg)))"

definition sender_key_envelope :: "cbor_lib \<Rightarrow> string \<Rightarrow> bytes \<Rightarrow> u32 \<Rightarrow> aes_encrypted \<Rightarrow> bytes" where
  "sender_key_envelope C gid my_id gen ae = serialize_or_empty C (definite_map C 7 (str_fields
     [(''version'', build_uint64 1),
      (''envelope_type'', build_string ''sender_key''),
      (''group_id'', build_string gid),
      (''sender_id'', CBytes my_id),
      (''sender_key_generation'', build_uint64 (ucast gen)),
      (''iv'', CBytes (nonce ae)),
      (''ciphertext'', CBytes (ciphertext ae)),
      (''tag'', CBytes (tag ae))]))"

definition encrypt_sender_key_envelope :: "cl_env \<Rightarrow> string \<Rightarrow> bytes \<Rightarrow> bytes act" where
  "encrypt_sender_key_envelope E gid app_frame =
     bnd (asks (\<lambda>s. get_key_a (keystore s))) (\<lambda>o_ka.
     case o_ka of
       None \<Rightarrow> throw ''keystore locked''
     | Some ka \<Rightarrow>
         let my_id = sender_id_of E (ka_pubkey ka) in
         bnd (asks (\<lambda>s. get_sender_key (keystore s) gid (to_hex my_id))) (\<lambda>o_sk.
         case o_sk of
           None \<Rightarrow> throw (''no sender key for group '' @ gid)
         | Some sk \<Rightarrow>
             bnd (draw E 12) (\<lambda>n.
             bnd (lift (aes_encrypt (ce_crypto E) n (kf_sym_key sk) app_frame [])) (\<lambda>ae.
               ret (sender_key_envelope (ce_cbor E) gid my_id (kf_generation sk) ae)))))"

definition parse_ratchet_envelope :: "cl_env \<Rightarrow> (cbor \<times> cbor) list \<Rightarrow> ratchet_message" where
  "parse_ratchet_envelope E ps =
     (let C = ce_cbor E;
          pub = cbor_get_field_bytes C ps ''sender_ratchet_pub'';
          kct = cbor_get_field_bytes C ps ''kem_ct'';
          iv = cbor_get_field_bytes C ps ''iv'';
          tg = cbor_get_field_bytes C ps ''tag''
      in \<lparr>rm_header = \<lparr>rh_epoch = ucast (cbor_get_field_uint C ps ''epoch''),
                      rh_msg_num = ucast (cbor_get_field_uint C ps ''msg_num''),
                      rh_prev_count = 0,
                      rh_sender_ratchet_pub = (if length pub = MLKEM768_PUBKEY_BYTES then pub else ce_uninit E MLKEM768_PUBKEY_BYTES),
                      rh_kem_ct = (if length kct = MLKEM768_CT_BYTES then Some kct else None)\<rparr>,
          rm_nonce = (if length iv = 12 then iv else ce_uninit E 12),
          rm_ciphertext = cbor_get_field_bytes C ps ''ciphertext'',
          rm_tag = (if length tg = 16 then tg else ce_uninit E 16)\<rparr>)"

definition decrypt_ratchet_envelope :: "cl_env \<Rightarrow> string \<Rightarrow> bytes \<Rightarrow> bytes act" where
  "decrypt_ratchet_envelope E conv env =
     (case cbor_load (ce_cbor E) env of
        None \<Rightarrow> throw ''invalid ratchet envelope''
      | Some root \<Rightarrow>
          with_mgr (\<lambda>g. mgr_decrypt (ce_crypto E) (ce_cbor E) (ce_null_data E) (ce_now_s E) g conv
            (parse_ratchet_envelope E (item_pairs E root))))"

definition decrypt_sender_key_envelope :: "cl_env \<Rightarrow> string \<Rightarrow> string \<Rightarrow> bytes \<Rightarrow> bytes act" where
  "decrypt_sender_key_envelope E gid sender_hex env =
     (case cbor_load (ce_cbor E) env of
        None \<Rightarrow> throw ''invalid sender_key envelope''
      | Some root \<Rightarrow>
          let C = ce_cbor E; ps = item_pairs E root;
              gen = (ucast (cbor_get_field_uint C ps ''sender_key_generation'') :: u32);
              iv = cbor_get_field_bytes C ps ''iv'';
              ct = cbor_get_field_bytes C ps ''ciphertext'';
              tg = cbor_get_field_bytes C ps ''tag''
          in bnd (asks (\<lambda>s. get_sender_key (keystore s) gid sender_hex)) (\<lambda>o_sk.
             case o_sk of
               None \<Rightarrow> throw ''no sender key''
             | Some sk \<Rightarrow>
                 if kf_generation sk \<noteq> gen then throw ''sender key generation mismatch''
                 else lift (aes_decrypt (ce_crypto E) (kf_sym_key sk) (if length iv = 12 then iv else zeros 12) ct
                              (if length tg = 16 then tg else zeros 16) [])))"

subsection \<open>Receive flow\<close>

definition dispatched_types :: "string list" where
  "dispatched_types = [''message'', ''reaction'', ''contact_request'', ''contact_accept'', ''group_invite'', ''group_accept'',
     ''group_leave'', ''group_sender_key_update'', ''call_invite'', ''key_c_cert'']"

definition store_received :: "cl_env \<Rightarrow> string \<Rightarrow> string \<Rightarrow> (cbor \<times> cbor) list \<Rightarrow> bytes \<Rightarrow> unit act" where
  "store_received E conv ftype af raw =
     (let C = ce_cbor E; msg_id = cbor_get_field_str C af ''id'' in
      if msg_id = [] then ret ()
      else bnd (asks (\<lambda>s. next_seq (cl_store s) conv)) (\<lambda>seq.
        let ct = cbor_get_field_str C af ''content_type'';
            sent_at = int64_of (cbor_get_field_uint C af ''sent_at'');
            m = \<lparr>sm_id = msg_id, sm_conversation_id = conv, sm_sender_id = zeros 32, sm_seq = seq,
                 sm_content_type = (if ct = [] then ftype else ct), sm_text = cbor_get_field_str C af ''text'',
                 sm_ciphertext = raw, sm_sent_at = sent_at, sm_received_at = ce_now_ms E, sm_status = ''delivered'',
                 sm_reply_to_id = []\<rparr>
        in bnd (with_store (\<lambda>d. insert_message (ce_null_data E) d m)) (\<lambda>_.
             push ''message.received'' [(''conversation_id'', VString conv), (''message_id'', VString msg_id),
               (''sent_at'', VUint (u64_of_int64 sent_at))])))"

definition dispatch_app_frame :: "cl_env \<Rightarrow> string \<Rightarrow> string \<Rightarrow> bytes \<Rightarrow> bytes \<Rightarrow> unit act" where
  "dispatch_app_frame E conv ftype af_bytes raw =
     (case cbor_load (ce_cbor E) af_bytes of
        None \<Rightarrow> ret ()
      | Some root \<Rightarrow>
          let C = ce_cbor E; af = item_pairs E root in
          if ftype = ''delete'' then
            (let target = cbor_get_field_str C af ''target_message_id'' in
             cond_act (target \<noteq> []) (bnd (upd_store (\<lambda>d. delete_message d target)) (\<lambda>_.
               push ''message.deleted'' [(''conversation_id'', VString conv), (''message_id'', VString target)])))
          else if ftype = ''edit'' then
            (let target = cbor_get_field_str C af ''target_message_id''; new_text = cbor_get_field_str C af ''new_text'' in
             cond_act (target \<noteq> [] \<and> new_text \<noteq> []) (bnd (upd_store (\<lambda>d. update_message_text d target new_text)) (\<lambda>_.
               push ''message.edited'' [(''conversation_id'', VString conv), (''message_id'', VString target),
                 (''new_text'', VString new_text)])))
          else if ftype \<in> set dispatched_types then store_received E conv ftype af raw
          else if ftype = ''typing'' then push ''typing.start'' [(''conversation_id'', VString conv)]
          else if ftype = ''read_receipt'' then
            (let up_to = cbor_get_field_str C af ''up_to_message_id'' in
             cond_act (up_to \<noteq> []) (bnd (upd_store (\<lambda>d. update_message_status d up_to ''read'')) (\<lambda>_.
               push ''message.read'' [(''message_id'', VString up_to)])))
          else ret ())"

text \<open>
  Steps 4b and 5. The inline certificate is cached without verification. No result stands for a
  frame that is dropped.
\<close>

definition resolve_cert :: "cl_env \<Rightarrow> delivery_frame \<Rightarrow> bool act" where
  "resolve_cert E f =
     bnd (asks (\<lambda>s. get_cert (ce_null_data E) (cl_store s) (df_cert_fingerprint f))) (\<lambda>cached.
     case cached of
       Some _ \<Rightarrow> ret True
     | None \<Rightarrow>
         if df_sender_outbox_cert f = [] then ret False
         else bnd (upd_store (\<lambda>d. insert_cert (ce_null_data E) d
                \<lparr>kn_fingerprint = df_cert_fingerprint f, kn_auth_cert = df_sender_outbox_cert f,
                 kn_owner_id = to_hex (df_sender_id f), kn_cached_at = ce_now_s E\<rparr>)) (\<lambda>_. ret True))"

definition open_envelope :: "cl_env \<Rightarrow> delivery_frame \<Rightarrow> (string \<times> bytes) option act" where
  "open_envelope E f =
     (if df_envelope_type f = ''ratchet'' then
        bnd (asks (\<lambda>s. get_key_a (keystore s))) (\<lambda>o_ka.
        case o_ka of
          None \<Rightarrow> ret None
        | Some ka \<Rightarrow>
            let conv = dm_conv_id E (to_hex (sender_id_of E (ka_pubkey ka))) (to_hex (df_sender_id f)) in
            bnd (attempt (decrypt_ratchet_envelope E conv (df_encrypted_envelope f))) (\<lambda>r.
              ret (map_option (Pair conv) r)))
      else if df_envelope_type f = ''sender_key'' then
        (case cbor_load (ce_cbor E) (df_encrypted_envelope f) of
           None \<Rightarrow> ret None
         | Some env \<Rightarrow>
             let conv = cbor_get_field_str (ce_cbor E) (item_pairs E env) ''group_id'' in
             bnd (attempt (decrypt_sender_key_envelope E conv (to_hex (df_sender_id f)) (df_encrypted_envelope f))) (\<lambda>r.
               ret (map_option (Pair conv) r)))
      else ret None)"

definition process_delivery_frame :: "cl_env \<Rightarrow> string \<Rightarrow> bytes \<Rightarrow> unit act" where
  "process_delivery_frame E message_id frame_bytes =
     (case decode_delivery_frame (ce_cbor E) (ce_behind E) frame_bytes of
        Inl _ \<Rightarrow> ret ()
      | Inr f \<Rightarrow>
          bnd (asks (\<lambda>s. get_contact (cl_store s) (to_hex (df_sender_id f)))) (\<lambda>contact.
          case contact of
            None \<Rightarrow> ret ()
          | Some _ \<Rightarrow>
              bnd (resolve_cert E f) (\<lambda>known.
              if \<not> known then ret ()
              else bnd (open_envelope E f) (\<lambda>opened.
                case opened of
                  None \<Rightarrow> ret ()
                | Some (conv, af_bytes) \<Rightarrow>
                    (case cbor_load (ce_cbor E) af_bytes of
                       None \<Rightarrow> ret ()
                     | Some af \<Rightarrow>
                         bnd (dispatch_app_frame E conv (cbor_get_field_str (ce_cbor E) (item_pairs E af) ''type'') af_bytes frame_bytes)
                           (\<lambda>_. quietly (call E Inbox_Svc ''inbox.ack'' (cmap_of [(''message_id'', VString message_id)]))))))))"

definition on_inbox_message :: "cl_env \<Rightarrow> string \<Rightarrow> unit act" where
  "on_inbox_message E message_id =
     bnd (is_up Inbox_Svc) (\<lambda>up.
     cond_act up (quietly (
       bnd (call E Inbox_Svc ''inbox.get'' (cmap_of [(''message_id'', VString message_id)])) (\<lambda>r.
       case map_of r ''delivery_frame'' of
         Some (VBytes fr) \<Rightarrow> process_delivery_frame E message_id fr
       | _ \<Rightarrow> ret ()))))"

definition fetch_pending_messages :: "cl_env \<Rightarrow> unit act" where
  "fetch_pending_messages E =
     bnd (is_up Inbox_Svc) (\<lambda>up.
     cond_act up (quietly (
       bnd (call E Inbox_Svc ''inbox.get_pending'' []) (\<lambda>r.
       case map_of r ''messages'' of
         Some (VArray ms) \<Rightarrow> for_each ms (\<lambda>m. case m of
             VMap mm \<Rightarrow> (case map_of mm ''message_id'' of Some (VString i) \<Rightarrow> on_inbox_message E i | _ \<Rightarrow> ret ())
           | _ \<Rightarrow> ret ())
       | _ \<Rightarrow> ret ()))))"

definition on_outbox_status :: "string \<Rightarrow> string \<Rightarrow> int \<Rightarrow> unit act" where
  "on_outbox_status message_id status updated_at =
     (let msg_status = (if status = ''delivered'' then ''delivered''
                        else if status = ''expired'' \<or> status = ''failed'' then ''failed'' else ''pending'')
      in bnd (upd_store (\<lambda>d. update_message_status d message_id msg_status)) (\<lambda>_.
           push ''delivery.status_update'' [(''message_id'', VString message_id), (''status'', VString msg_status),
             (''updated_at'', VUint (u64_of_int64 updated_at))]))"

text \<open>The push handlers \<^verbatim>\<open>connect_services\<close> installs.\<close>

definition inbox_push :: "cl_env \<Rightarrow> string \<Rightarrow> cmap \<Rightarrow> unit act" where
  "inbox_push E ev pl =
     (if ev = ''inbox.message_available'' then
        (case map_of pl ''message_id'' of Some (VString i) \<Rightarrow> on_inbox_message E i | _ \<Rightarrow> ret ())
      else ret ())"

definition outbox_push :: "string \<Rightarrow> cmap \<Rightarrow> unit act" where
  "outbox_push ev pl =
     (if ev = ''outbox.status_update'' then
        (case (map_of pl ''message_id'', map_of pl ''status'') of
           (Some (VString i), Some (VString st)) \<Rightarrow>
             on_outbox_status i st (case map_of pl ''updated_at'' of Some (VUint u) \<Rightarrow> int64_of u | _ \<Rightarrow> 0)
         | _ \<Rightarrow> ret ())
      else ret ())"

subsection \<open>Send flow\<close>

definition enqueue_dm :: "cl_env \<Rightarrow> string \<Rightarrow> bytes \<Rightarrow> string \<Rightarrow> string \<Rightarrow> unit act" where
  "enqueue_dm E conv_id af persistence message_id =
     bnd (asks (\<lambda>s. get_conversation (cl_store s) conv_id)) (\<lambda>o_conv.
     case o_conv of
       None \<Rightarrow> throw ''unknown conversation''
     | Some conv \<Rightarrow>
         bnd (asks (\<lambda>s. get_contact (cl_store s) (cv_contact_id conv))) (\<lambda>o_ct.
         case o_ct of
           None \<Rightarrow> throw ''contact not found''
         | Some ct \<Rightarrow>
             bnd require_key_a (\<lambda>ka.
             bnd (asks (\<lambda>s. outbox_device (list_key_c (keystore s)))) (\<lambda>dev.
             bnd (encrypt_ratchet_envelope E conv_id af) (\<lambda>env.
             bnd (lift (from_hex message_id)) (\<lambda>mid.
               let fr = encode_delivery_frame (ce_cbor E)
                     \<lparr>df_message_id = mid, df_persistence = persistence, df_sender_id = sender_id_of E (ka_pubkey ka),
                      df_cert_fingerprint = (case dev of Some k \<Rightarrow> sha3_256 (ce_crypto E) (kc_auth_cert k) | None \<Rightarrow> zeros 32),
                      df_sender_outbox_cert = (case dev of Some k \<Rightarrow> kc_auth_cert k | None \<Rightarrow> []),
                      df_envelope_type = ''ratchet'', df_encrypted_envelope = env\<rparr>
               in quietly (call E Outbox_Svc ''outbox.enqueue'' (cmap_of
                    [(''message_id'', VString message_id),
                     (''recipient_key_b_kem_pubkey'', VBytes (ct_their_dm_key_b_kem ct)),
                     (''delivery_frame'', VBytes fr),
                     (''priority'', VString ''normal''),
                     (''ttl_seconds'', VUint 604800)]))))))))"

definition enqueue_for_conv :: "cl_env \<Rightarrow> string \<Rightarrow> bytes \<Rightarrow> string \<Rightarrow> string \<Rightarrow> unit act" where
  "enqueue_for_conv E conv_id af persistence frame_id =
     bnd (asks (\<lambda>s. get_conversation (cl_store s) conv_id)) (\<lambda>o_conv.
     case o_conv of
       None \<Rightarrow> throw ''unknown conversation''
     | Some conv \<Rightarrow>
         if cv_type conv = ''dm'' then enqueue_dm E conv_id af persistence frame_id
         else bnd require_key_a (\<lambda>ka.
           let my_id = sender_id_of E (ka_pubkey ka) in
           bnd (encrypt_sender_key_envelope E conv_id af) (\<lambda>env.
           bnd (lift (from_hex frame_id)) (\<lambda>mid.
           let fr = encode_delivery_frame (ce_cbor E)
                 \<lparr>df_message_id = mid, df_persistence = persistence, df_sender_id = my_id, df_cert_fingerprint = [],
                  df_sender_outbox_cert = [], df_envelope_type = ''sender_key'', df_encrypted_envelope = env\<rparr>
           in bnd (asks (\<lambda>s. list_group_members (cl_store s) conv_id)) (\<lambda>members.
              quietly (call E Outbox_Svc ''outbox.enqueue_broadcast'' (cmap_of
                [(''message_id'', VString frame_id),
                 (''recipients'', VArray (map (\<lambda>m. VMap (cmap_of [(''key_b_kem_pubkey'', VBytes (gm_their_key_b_kem m))]))
                    (filter (\<lambda>m. to_hex my_id \<noteq> gm_contact_id m) members))),
                 (''delivery_frame'', VBytes fr),
                 (''priority'', VString ''normal''),
                 (''ttl_seconds'', VUint 604800)])))))))"

subsection \<open>Devices and records\<close>

definition push_sender_allowlist :: "cl_env \<Rightarrow> unit act" where
  "push_sender_allowlist E =
     bnd (asks (\<lambda>s. list_contacts (cl_store s))) (\<lambda>contacts.
       quietly (call E Inbox_Svc ''inbox.update_sender_allowlist'' (cmap_of
         [(''allowed_senders'', VArray (map (\<lambda>c. VMap (cmap_of [(''sender_id'', VBytes (sha3_256 (ce_crypto E) (ct_key_a_pubkey c)))]))
            (filter (\<lambda>c. ct_status c = ''active'') contacts)))])))"

definition dht_publish :: "cl_env \<Rightarrow> bytes \<times> bytes \<Rightarrow> u64 \<Rightarrow> unit act" where
  "dht_publish E kv ttl = quietly (call E Router_Svc ''dht.publish'' (cmap_of
     [(''key'', VString (to_hex (fst kv))), (''value'', VBytes (snd kv)), (''ttl_seconds'', VUint ttl)]))"

definition publish_prekeys :: "cl_env \<Rightarrow> key_a \<Rightarrow> key_b \<Rightarrow> unit act" where
  "publish_prekeys E ka kb =
     bnd (asks (\<lambda>s. list_prekeys (keystore s) (kb_id kb))) (\<lambda>raw.
     bnd (draw E 32) (\<lambda>coins.
     bnd (lift_outcome (Client_Dht.build_prekey_record (ce_crypto E) (ce_cbor E) (ce_reload E) coins (kb_kem_pubkey kb) (ka_privkey ka)
                  (map kd_kem_pubkey raw) (ce_now_s E))) (\<lambda>kv.
       dht_publish E kv 604800)))"

definition publish_dht_records :: "cl_env \<Rightarrow> u64 \<Rightarrow> unit act" where
  "publish_dht_records E timeslot =
     bnd (is_up Router_Svc) (\<lambda>up.
     cond_act up (
       bnd (get_guard_info E) (\<lambda>g.
       bnd (asks (\<lambda>s. get_key_a (keystore s))) (\<lambda>o_ka.
       case o_ka of
         None \<Rightarrow> ret ()
       | Some ka \<Rightarrow>
           bnd (asks (\<lambda>s. list_key_b (keystore s))) (\<lambda>kbs.
           for_each kbs (\<lambda>kb.
             bnd (draw E 12) (\<lambda>n.
             bnd (draw E 32) (\<lambda>coins.
             bnd (lift_outcome (build_guard_record (ce_crypto E) (ce_cbor E) (ce_reload E)
                          \<lparr>re_nonce = n, re_coins = coins, re_now = u64_of_int64 (ce_now_s E)\<rparr>
                          (kb_kem_pubkey kb) (ka_privkey ka) timeslot g)) (\<lambda>kv.
             bnd (dht_publish E kv 3600) (\<lambda>_.
             bnd (asks (\<lambda>s. count_prekeys (keystore s) (kb_id kb))) (\<lambda>pk_count.
               cond_act (pk_count > 0) (publish_prekeys E ka kb))))))))))))"

definition key_c_params :: "key_pair \<Rightarrow> bytes \<Rightarrow> (string \<times> cval) list" where
  "key_c_params kp cert =
     [(''key_c_pubkey'', VBytes (kp_pub kp)), (''key_c_privkey'', VBytes (kp_priv kp)), (''auth_cert'', VBytes cert)]"

definition gen_key_c :: "cl_env \<Rightarrow> key_pair act" where
  "gen_key_c E = bnd (draw E 64) (\<lambda>sd. lift (mldsa_keygen (ce_crypto E) sd))"

definition new_auth_cert :: "cl_env \<Rightarrow> key_a \<Rightarrow> key_pair \<Rightarrow> string \<Rightarrow> string \<Rightarrow> bytes act" where
  "new_auth_cert E ka kp ty lb = bnd (draw E 32) (\<lambda>coins.
     lift (issue_auth_cert (ce_crypto E) (ce_cbor E) (ce_behind E) coins (ka_privkey ka) (ka_pubkey ka) (kp_pub kp) ty lb (ce_now_s E)))"

definition new_delegation_cert :: "cl_env \<Rightarrow> key_a \<Rightarrow> key_pair \<Rightarrow> bytes act" where
  "new_delegation_cert E ka kp = bnd (draw E 32) (\<lambda>coins.
     lift (issue_delegation_cert (ce_crypto E) (ce_cbor E) (ce_behind E) coins (ka_privkey ka) (ka_pubkey ka) (kp_pub kp) (ce_now_s E)))"

definition device_row :: "cl_env \<Rightarrow> string \<Rightarrow> string \<Rightarrow> key_pair \<Rightarrow> bytes \<Rightarrow> bytes \<Rightarrow> key_c_issued" where
  "device_row E ty lb kp cert deleg =
     \<lparr>kc_device_id = to_hex (sha3_256 (ce_crypto E) (kp_pub kp)), kc_device_type = ty, kc_device_label = lb,
      kc_key_c_pubkey = kp_pub kp, kc_key_c_privkey = kp_priv kp, kc_auth_cert = cert, kc_dht_deleg_cert = deleg,
      kc_issued_at = ce_now_s E, kc_expires_at = ce_now_s E + 2592000, kc_revoked = False\<rparr>"

definition provision_inbox :: "cl_env \<Rightarrow> key_a \<Rightarrow> unit act" where
  "provision_inbox E ka =
     bnd (gen_key_c E) (\<lambda>kp.
     bnd (new_auth_cert E ka kp ''inbox'' ''inbox'') (\<lambda>cert.
     bnd (new_delegation_cert E ka kp) (\<lambda>deleg.
       quietly (
         bnd (call E Inbox_Svc ''inbox.update_dht_delegation'' (cmap_of (key_c_params kp cert @ [(''delegation_cert'', VBytes deleg)]))) (\<lambda>_.
           upd_ks (\<lambda>k. insert_key_c (ce_null_data E) k (device_row E ''inbox'' ''inbox'' kp cert deleg)))))))"

definition provision_outbox :: "cl_env \<Rightarrow> key_a \<Rightarrow> unit act" where
  "provision_outbox E ka =
     bnd (gen_key_c E) (\<lambda>kp.
     bnd (new_auth_cert E ka kp ''outbox'' ''outbox'') (\<lambda>cert.
       quietly (
         bnd (call E Outbox_Svc ''outbox.update_auth_cert'' (cmap_of (key_c_params kp cert))) (\<lambda>_.
           upd_ks (\<lambda>k. insert_key_c (ce_null_data E) k (device_row E ''outbox'' ''outbox'' kp cert []))))))"

definition has_device :: "string \<Rightarrow> key_c_issued list \<Rightarrow> bool" where
  "has_device ty ks \<longleftrightarrow> list_ex (\<lambda>k. \<not> kc_revoked k \<and> kc_device_type k = ty) ks"

definition provision_devices :: "cl_env \<Rightarrow> unit act" where
  "provision_devices E =
     bnd (asks (\<lambda>s. get_key_a (keystore s))) (\<lambda>o_ka.
     case o_ka of
       None \<Rightarrow> ret ()
     | Some ka \<Rightarrow>
         bnd (asks (\<lambda>s. list_key_c (keystore s))) (\<lambda>kcs.
         bnd (is_up Inbox_Svc) (\<lambda>iup.
         bnd (cond_act (\<not> has_device ''inbox'' kcs \<and> iup) (provision_inbox E ka)) (\<lambda>_.
         bnd (is_up Outbox_Svc) (\<lambda>oup.
         bnd (cond_act (\<not> has_device ''outbox'' kcs \<and> oup) (provision_outbox E ka)) (\<lambda>_.
           save_keystore E))))))"

definition renew_device :: "cl_env \<Rightarrow> key_a \<Rightarrow> key_c_issued \<Rightarrow> unit act" where
  "renew_device E ka kc =
     bnd (gen_key_c E) (\<lambda>kp.
     bnd (new_auth_cert E ka kp (kc_device_type kc) (kc_device_label kc)) (\<lambda>cert.
     bnd (if kc_device_type kc = ''inbox'' then
            bnd (new_delegation_cert E ka kp) (\<lambda>deleg.
            bnd (quietly (call E Inbox_Svc ''inbox.update_dht_delegation''
                   (cmap_of (key_c_params kp cert @ [(''delegation_cert'', VBytes deleg)])))) (\<lambda>_. ret deleg))
          else bnd (quietly (call E Outbox_Svc ''outbox.update_auth_cert'' (cmap_of (key_c_params kp cert))))
                 (\<lambda>_. ret (kc_dht_deleg_cert kc))) (\<lambda>deleg.
       upd_ks (\<lambda>k. insert_key_c (ce_null_data E) (revoke_key_c k (kc_device_id kc))
         (device_row E (kc_device_type kc) (kc_device_label kc) kp cert deleg)))))"

definition renewal_threshold :: "cl_env \<Rightarrow> client \<Rightarrow> int" where
  "renewal_threshold E s = ce_now_s E + cf_key_c_renewal_threshold_days (cl_cfg s) * 86400"

definition check_renew_key_c :: "cl_env \<Rightarrow> unit act" where
  "check_renew_key_c E =
     bnd (asks (\<lambda>s. get_key_a (keystore s))) (\<lambda>o_ka.
     case o_ka of
       None \<Rightarrow> ret ()
     | Some ka \<Rightarrow>
         bnd (asks (\<lambda>s. (renewal_threshold E s, list_key_c (keystore s)))) (\<lambda>(threshold, kcs).
           for_each kcs (\<lambda>kc. cond_act (\<not> kc_revoked kc \<and> \<not> kc_expires_at kc > threshold) (renew_device E ka kc))))"

definition gen_prekey :: "cl_env \<Rightarrow> string \<Rightarrow> unit act" where
  "gen_prekey E key_b =
     bnd (draw E 64) (\<lambda>sd.
     bnd (lift (mlkem_keygen (ce_crypto E) sd)) (\<lambda>kp.
       upd_ks (\<lambda>k. insert_prekey k \<lparr>kd_id = to_hex (sha3_256 (ce_crypto E) (kp_pub kp)), kd_key_b_id = key_b,
         kd_kem_pubkey = kp_pub kp, kd_kem_privkey = kp_priv kp, kd_consumed = False, kd_created_at = ce_now_s E\<rparr>)))"

definition replenish_key_b :: "cl_env \<Rightarrow> key_b \<Rightarrow> unit act" where
  "replenish_key_b E kb =
     bnd (asks (\<lambda>s. (int (count_prekeys (keystore s) (kb_id kb)), cl_cfg s))) (\<lambda>(count, cfg).
     cond_act (\<not> count \<ge> cf_prekey_low_threshold cfg) (
       bnd (for_each [0..<nat (cf_prekey_batch_size cfg)] (\<lambda>_. gen_prekey E (kb_id kb))) (\<lambda>_.
       bnd (asks (\<lambda>s. get_key_a (keystore s))) (\<lambda>o_ka.
       bnd (case o_ka of None \<Rightarrow> ret () | Some ka \<Rightarrow> publish_prekeys E ka kb) (\<lambda>_.
       bnd (save_keystore E) (\<lambda>_.
         cond_act (count < cf_prekey_low_threshold cfg) (push ''inbox.prekeys_low'' [(''key_b_count'', VUint 1)])))))))"

definition replenish_prekeys :: "cl_env \<Rightarrow> unit act" where
  "replenish_prekeys E = bnd (asks (\<lambda>s. list_key_b (keystore s))) (\<lambda>kbs. for_each kbs (replenish_key_b E))"

subsection \<open>Session\<close>

definition connect_services :: "cl_env \<Rightarrow> unit act" where
  "connect_services E =
     bnd (quietly (connect E Router_Svc)) (\<lambda>_.
     bnd (quietly (bnd (connect E Inbox_Svc) (\<lambda>_. push_sender_allowlist E))) (\<lambda>_.
     bnd (quietly (connect E Outbox_Svc)) (\<lambda>_.
     bnd (provision_devices E) (\<lambda>_.
     bnd (check_renew_key_c E) (\<lambda>_.
     bnd (replenish_prekeys E) (\<lambda>_.
     bnd (publish_dht_records E (ce_timeslot E)) (\<lambda>_.
     bnd (publish_dht_records E (ce_timeslot E + 1)) (\<lambda>_.
       fetch_pending_messages E))))))))"

definition create_identity :: "cl_env \<Rightarrow> unit act" where
  "create_identity E =
     bnd (draw E 64) (\<lambda>sd.
     bnd (lift (mldsa_keygen (ce_crypto E) sd)) (\<lambda>kp.
     bnd (upd_ks (\<lambda>k. set_key_a k \<lparr>ka_pubkey = kp_pub kp, ka_privkey = kp_priv kp, ka_created_at = ce_now_s E\<rparr>)) (\<lambda>_.
     bnd (draw E 64) (\<lambda>sd'.
     bnd (lift (mlkem_keygen (ce_crypto E) sd')) (\<lambda>cr.
     bnd (upd_ks (\<lambda>k. set_key_b_cr k \<lparr>kr_kem_pubkey = kp_pub cr, kr_kem_privkey = kp_priv cr, kr_created_at = ce_now_s E\<rparr>)) (\<lambda>_.
     bnd (upd_ks (\<lambda>k. if get_config k ''display_name'' = [] then set_config k ''display_name'' ''ScatterWeb User'' else k)) (\<lambda>_.
       save_keystore E)))))))"

definition client_unlock :: "cl_env \<Rightarrow> string \<Rightarrow> unit act" where
  "client_unlock E passphrase =
     bnd (draw E 16) (\<lambda>salt.
     bnd (with_ks (\<lambda>k. unlock (ce_crypto E) (ce_sqlite E) salt k passphrase)) (\<lambda>_.
     bnd (asks (\<lambda>s. get_key_a (keystore s))) (\<lambda>ka.
     bnd (cond_act (ka = None) (create_identity E)) (\<lambda>_.
     bnd (connect_services E) (\<lambda>_.
       upd (\<lambda>s. s\<lparr>cl_bg_active := True, cl_last_slot := ce_timeslot E\<rparr>))))))"

definition client_lock :: "cl_env \<Rightarrow> unit act" where
  "client_lock E =
     bnd (upd (\<lambda>s. s\<lparr>cl_bg_active := False\<rparr>)) (\<lambda>_.
     bnd (with_ks (lock (ce_crypto E) (ce_sqlite E))) (\<lambda>_.
       upd disconnect_all))"

definition client_change_passphrase :: "cl_env \<Rightarrow> string \<Rightarrow> string \<Rightarrow> unit act" where
  "client_change_passphrase E old_p new_p =
     bnd (draw E 16) (\<lambda>r. bnd (draw E 16) (\<lambda>r'.
       with_ks (\<lambda>k. change_passphrase (ce_crypto E) (ce_sqlite E) r r' k old_p new_p)))"

definition client_start :: "unit act" where
  "client_start = upd (\<lambda>s. s\<lparr>cl_running := True\<rparr>)"

definition client_stop :: "cl_env \<Rightarrow> unit act" where
  "client_stop E =
     bnd (asks cl_running) (\<lambda>r.
     cond_act r (
       bnd (upd (\<lambda>s. disconnect_all (s\<lparr>cl_running := False, cl_bg_active := False\<rparr>))) (\<lambda>_.
       bnd (asks (\<lambda>s. is_unlocked (keystore s))) (\<lambda>u.
         cond_act u (save_keystore E)))))"

text \<open>One round of each background thread, after its wait.\<close>

definition dht_loop_round :: "cl_env \<Rightarrow> unit act" where
  "dht_loop_round E =
     bnd (asks (\<lambda>s. cl_bg_active s \<and> ce_timeslot E \<noteq> cl_last_slot s)) (\<lambda>go.
     cond_act go (
       bnd (publish_dht_records E (ce_timeslot E)) (\<lambda>_.
       bnd (publish_dht_records E (ce_timeslot E + 1)) (\<lambda>_.
         upd (\<lambda>s. s\<lparr>cl_last_slot := ce_timeslot E\<rparr>)))))"

definition cert_renew_loop_round :: "cl_env \<Rightarrow> unit act" where
  "cert_renew_loop_round E =
     bnd (asks cl_bg_active) (\<lambda>go.
     cond_act go (bnd (check_renew_key_c E) (\<lambda>_. replenish_prekeys E)))"

end
