(* ===== verification/Client_Ops.thy ===== *)
theory Client_Ops
  imports Client
begin

text \<open>
  The operations of the client the user interface calls (\<^verbatim>\<open>client/src/client.cpp\<close>, the parts on
  identity, contacts, messages, groups, servers, devices and status).
\<close>

subsection \<open>Identity and contacts\<close>

definition get_contact_card_uri :: "cl_env \<Rightarrow> string act" where
  "get_contact_card_uri E =
     bnd (asks (\<lambda>s. (get_key_a (keystore s), get_key_b_cr (keystore s), get_display_name s))) (\<lambda>(o_ka, o_cr, name).
     case (o_ka, o_cr) of
       (Some ka, Some cr) \<Rightarrow>
         bnd (draw E 32) (\<lambda>coins.
           lift (encode_contact_card (ce_crypto E) (ce_cbor E) (ce_b64 E) coins (ka_privkey ka) (ka_pubkey ka)
             (kr_kem_pubkey cr) name (ce_now_s E)))
     | _ \<Rightarrow> ret [])"

definition set_display_name :: "cl_env \<Rightarrow> string \<Rightarrow> unit act" where
  "set_display_name E name = bnd (upd_ks (\<lambda>k. set_config k ''display_name'' name)) (\<lambda>_. save_keystore E)"

definition new_key_b :: "cl_env \<Rightarrow> string \<Rightarrow> string \<Rightarrow> key_b act" where
  "new_key_b E i relationship =
     bnd (draw E 64) (\<lambda>sd. bnd (lift (mlkem_keygen (ce_crypto E) sd)) (\<lambda>kem.
     bnd (draw E 64) (\<lambda>sd'. bnd (lift (mldsa_keygen (ce_crypto E) sd')) (\<lambda>sig.
       ret \<lparr>kb_id = i, kb_relationship = relationship, kb_kem_pubkey = kp_pub kem, kb_kem_privkey = kp_priv kem,
            kb_sig_pubkey = kp_pub sig, kb_sig_privkey = kp_priv sig, kb_created_at = ce_now_s E\<rparr>))))"

definition contact_request_frame :: "cl_env \<Rightarrow> string \<Rightarrow> key_a \<Rightarrow> string \<Rightarrow> key_b \<Rightarrow> bytes list \<Rightarrow> bytes" where
  "contact_request_frame E msg_id ka name kb prekeys =
     (let C = ce_cbor E in serialize_or_empty C (definite_map C 9 (str_fields
       [(''type'', build_string ''contact_request''),
        (''id'', CBytes (as_bytes msg_id)),
        (''sent_at'', build_uint64 (u64_of_int64 (ce_now_s E * 1000))),
        (''from_key_a_pubkey'', CBytes (ka_pubkey ka)),
        (''from_display_name'', build_string name),
        (''from_dm_key_b_kem_pubkey'', CBytes (kb_kem_pubkey kb)),
        (''from_dm_key_b_sig_pubkey'', CBytes (kb_sig_pubkey kb)),
        (''prekey_bundle'', definite_array C (length prekeys) (map CBytes prekeys))])))"

definition send_contact_request :: "cl_env \<Rightarrow> string \<Rightarrow> unit act" where
  "send_contact_request E uri =
     (case decode_contact_card (ce_cbor E) (ce_b64 E) uri of
        None \<Rightarrow> throw ''INVALID_CONTACT_CARD''
      | Some cd \<Rightarrow>
          let their_id = sender_id_of E (cc_key_a_pubkey cd); their_hex = to_hex their_id in
          bnd (asks (\<lambda>s. get_contact (cl_store s) their_hex)) (\<lambda>known.
          if known \<noteq> None then throw ''ALREADY_CONTACT''
          else bnd require_key_a (\<lambda>ka.
            let my_id = sender_id_of E (ka_pubkey ka) in
            if their_id = my_id then throw ''SELF_CONTACT''
            else
              let rel_id = dm_conv_id E (to_hex my_id) their_hex in
              bnd (new_key_b E rel_id (''dm:'' @ rel_id)) (\<lambda>kb.
              bnd (upd_ks (\<lambda>k. insert_key_b k kb)) (\<lambda>_.
              bnd (replenish_prekeys E) (\<lambda>_.
              bnd (save_keystore E) (\<lambda>_.
              bnd (with_store (\<lambda>d. insert_contact (ce_null_data E) d
                     \<lparr>ct_id = their_hex, ct_display_name = cc_display_name cd, ct_key_a_pubkey = cc_key_a_pubkey cd,
                      ct_their_dm_key_b_kem = cc_cr_key_b_kem_pubkey cd, ct_their_dm_key_b_sig = [], ct_my_key_b_id = rel_id,
                      ct_their_key_c_pubkeys = [], ct_added_at = ce_now_s E, ct_status = ''pending''\<rparr>)) (\<lambda>_.
              bnd (upd_store (\<lambda>d. upsert_conversation d
                     \<lparr>cv_id = rel_id, cv_type = ''dm'', cv_display_name = cc_display_name cd, cv_contact_id = their_hex,
                      cv_group_id = [], cv_last_read_seq = 0, cv_created_at = ce_now_s E\<rparr>)) (\<lambda>_.
              bnd (draw_ratchet_rnd E) (\<lambda>rn.
              bnd (with_mgr (\<lambda>g. mgr_init_as_sender (ce_crypto E) (ce_cbor E) (ce_null_data E) (ce_now_s E) rn g rel_id
                     (cc_cr_key_b_kem_pubkey cd) (kb_kem_pubkey kb) (cc_cr_key_b_kem_pubkey cd))) (\<lambda>_.
              bnd (rand_hex_id E) (\<lambda>msg_id.
              bnd (asks (\<lambda>s. (get_display_name s, map kd_kem_pubkey (list_prekeys (keystore s) rel_id)))) (\<lambda>(name, pks).
                enqueue_dm E rel_id (contact_request_frame E msg_id ka name kb pks) ''store'' msg_id))))))))))))) "

definition accept_contact_request :: "cl_env \<Rightarrow> string \<Rightarrow> unit act" where
  "accept_contact_request E i =
     bnd (asks (\<lambda>s. get_contact (cl_store s) i)) (\<lambda>o_ct.
     case o_ct of
       None \<Rightarrow> throw ''CONTACT_NOT_FOUND''
     | Some ct \<Rightarrow>
         if ct_status ct \<noteq> ''pending'' then throw ''CONTACT_NOT_FOUND''
         else bnd (upd_store (\<lambda>d. set_contact_status d i ''active'')) (\<lambda>_.
              bnd (push_sender_allowlist E) (\<lambda>_.
                push ''contact.added'' [(''contact_id'', VString i), (''display_name'', VString (ct_display_name ct))])))"

definition decline_contact_request :: "string \<Rightarrow> unit act" where
  "decline_contact_request i = upd_store (\<lambda>d. set_contact_status d i ''blocked'')"

definition block_contact :: "string \<Rightarrow> unit act" where
  "block_contact i = upd_store (\<lambda>d. set_contact_status d i ''blocked'')"

subsection \<open>Messages\<close>

text \<open>An application frame: a map of the given size, and the fields added to it.\<close>

definition app_frame :: "cl_env \<Rightarrow> nat \<Rightarrow> (string \<times> cbor) list \<Rightarrow> bytes" where
  "app_frame E cap kvs = serialize_or_empty (ce_cbor E) (definite_map (ce_cbor E) cap (str_fields kvs))"

definition frame_head :: "cl_env \<Rightarrow> string \<Rightarrow> string \<Rightarrow> string \<Rightarrow> (string \<times> cbor) list" where
  "frame_head E ty i conv =
     [(''type'', build_string ty), (''id'', CBytes (as_bytes i)), (''conversation_id'', build_string conv),
      (''sent_at'', build_uint64 (u64_of_int64 (ce_now_ms E)))]"

definition message_frame :: "cl_env \<Rightarrow> string \<Rightarrow> string \<Rightarrow> string \<Rightarrow> string \<Rightarrow> bytes" where
  "message_frame E msg_id conv_id tx reply_to = app_frame E 7 (frame_head E ''message'' msg_id conv_id @
     [(''content_type'', build_string ''text''), (''text'', build_string tx)] @
     (if reply_to \<noteq> [] then [(''reply_to'', build_string reply_to)] else []))"

definition send_message :: "cl_env \<Rightarrow> string \<Rightarrow> string \<Rightarrow> string \<Rightarrow> string act" where
  "send_message E conv_id tx reply_to =
     bnd (rand_hex_id E) (\<lambda>msg_id.
     let af = message_frame E msg_id conv_id tx reply_to in
     bnd require_key_a (\<lambda>ka.
     bnd (asks (\<lambda>s. next_seq (cl_store s) conv_id)) (\<lambda>seq.
     bnd (with_store (\<lambda>d. insert_message (ce_null_data E) d
            \<lparr>sm_id = msg_id, sm_conversation_id = conv_id, sm_sender_id = sender_id_of E (ka_pubkey ka), sm_seq = seq,
             sm_content_type = ''text'', sm_text = tx, sm_ciphertext = af, sm_sent_at = ce_now_ms E, sm_received_at = 0,
             sm_status = ''pending'', sm_reply_to_id = reply_to\<rparr>)) (\<lambda>_.
     bnd (enqueue_for_conv E conv_id af ''store'' msg_id) (\<lambda>_.
       ret msg_id)))))"

text \<open>The common shape of the operations on a stored message: build a frame and enqueue it for the conversation.\<close>

definition send_about :: "cl_env \<Rightarrow> string \<Rightarrow> (string \<Rightarrow> stored_message \<Rightarrow> bytes) \<Rightarrow> unit act \<Rightarrow> unit act" where
  "send_about E msg_id frame after =
     bnd (asks (\<lambda>s. get_message (cl_store s) msg_id)) (\<lambda>o_m.
     case o_m of
       None \<Rightarrow> ret ()
     | Some m \<Rightarrow>
         bnd (rand_hex_id E) (\<lambda>fid.
         bnd (enqueue_for_conv E (sm_conversation_id m) (frame fid m) ''store'' fid) (\<lambda>_. after)))"

definition reaction_frame :: "cl_env \<Rightarrow> nat \<Rightarrow> string \<Rightarrow> string \<Rightarrow> string \<Rightarrow> string \<Rightarrow> stored_message \<Rightarrow> bytes" where
  "reaction_frame E cap msg_id emoji action fid m = app_frame E cap (frame_head E ''reaction'' fid (sm_conversation_id m) @
     [(''target_message_id'', build_string msg_id), (''emoji'', build_string emoji), (''action'', build_string action)])"

definition send_reaction :: "cl_env \<Rightarrow> string \<Rightarrow> string \<Rightarrow> unit act" where
  "send_reaction E msg_id emoji = send_about E msg_id (reaction_frame E 5 msg_id emoji ''add'') (ret ())"

definition send_unreact :: "cl_env \<Rightarrow> string \<Rightarrow> string \<Rightarrow> unit act" where
  "send_unreact E msg_id emoji = send_about E msg_id (reaction_frame E 6 msg_id emoji ''remove'') (ret ())"

definition send_edit :: "cl_env \<Rightarrow> string \<Rightarrow> string \<Rightarrow> unit act" where
  "send_edit E msg_id new_text = send_about E msg_id (\<lambda>fid m. app_frame E 6 (frame_head E ''edit'' fid (sm_conversation_id m) @
     [(''target_message_id'', build_string msg_id), (''new_text'', build_string new_text)])) (ret ())"

definition send_delete :: "cl_env \<Rightarrow> string \<Rightarrow> unit act" where
  "send_delete E msg_id = send_about E msg_id (\<lambda>fid m. app_frame E 5 (frame_head E ''delete'' fid (sm_conversation_id m) @
     [(''target_message_id'', build_string msg_id)])) (upd_store (\<lambda>d. delete_message d msg_id))"

definition send_typing :: "cl_env \<Rightarrow> string \<Rightarrow> string \<Rightarrow> unit act" where
  "send_typing E conv_id action =
     bnd (rand_hex_id E) (\<lambda>fid.
       enqueue_dm E conv_id (app_frame E 4 (frame_head E ''typing'' fid conv_id @ [(''action'', build_string action)]))
         ''pass_through'' fid)"

definition mark_read :: "cl_env \<Rightarrow> string \<Rightarrow> string \<Rightarrow> unit act" where
  "mark_read E conv_id up_to =
     bnd (asks (\<lambda>s. get_message (cl_store s) up_to)) (\<lambda>o_m.
     case o_m of
       None \<Rightarrow> ret ()
     | Some m \<Rightarrow>
         bnd (upd_store (\<lambda>d. update_last_read d conv_id (sm_seq m))) (\<lambda>_.
         bnd (rand_hex_id E) (\<lambda>fid.
           enqueue_dm E conv_id (app_frame E 5 (frame_head E ''read_receipt'' fid conv_id @
             [(''up_to_message_id'', build_string up_to)])) ''pass_through'' fid)))"

subsection \<open>Groups\<close>

definition new_sender_key :: "cl_env \<Rightarrow> string \<Rightarrow> string \<Rightarrow> u32 \<Rightarrow> unit act" where
  "new_sender_key E gid my_hex gen =
     bnd (draw E 32) (\<lambda>sym.
     bnd (upd_ks (\<lambda>k. set_sender_key k \<lparr>kf_group_id = gid, kf_contact_id = my_hex, kf_sym_key = sym, kf_generation = gen,
                        kf_created_at = ce_now_s E\<rparr>)) (\<lambda>_.
       save_keystore E))"

definition create_group :: "cl_env \<Rightarrow> string \<Rightarrow> string \<Rightarrow> string act" where
  "create_group E name ty =
     bnd require_key_a (\<lambda>ka.
     bnd (draw E 16) (\<lambda>nonce.
     let gid = to_hex (sha3_256_parts (ce_crypto E) [ka_pubkey ka, be64 (u64_of_int64 (ce_now_s E)), nonce]) in
     bnd (new_key_b E gid ((if ty = ''server'' then ''server_channel:'' else ''group:'') @ gid)) (\<lambda>kb.
     bnd (upd_ks (\<lambda>k. insert_key_b k kb)) (\<lambda>_.
     bnd (new_sender_key E gid (to_hex (sender_id_of E (ka_pubkey ka))) 0) (\<lambda>_.
     bnd (upd_store (\<lambda>d. upsert_conversation
            (upsert_group d \<lparr>gr_id = gid, gr_name = name, gr_type = ty, gr_my_role = ''owner'', gr_created_at = ce_now_s E\<rparr>)
            \<lparr>cv_id = gid, cv_type = (if ty = ''server'' then ''server_channel'' else ''group''), cv_display_name = name,
             cv_contact_id = [], cv_group_id = gid, cv_last_read_seq = 0, cv_created_at = ce_now_s E\<rparr>)) (\<lambda>_.
       ret gid))))))"

definition require_admin :: "string \<Rightarrow> group act" where
  "require_admin gid =
     bnd (asks (\<lambda>s. get_group (cl_store s) gid)) (\<lambda>o_g.
     case o_g of
       None \<Rightarrow> throw ''group not found''
     | Some g \<Rightarrow> if gr_my_role g \<noteq> ''owner'' \<and> gr_my_role g \<noteq> ''admin'' then throw ''NOT_ADMIN'' else ret g)"

definition member_item :: "cl_env \<Rightarrow> message_store \<Rightarrow> group_member \<Rightarrow> cbor" where
  "member_item E d m = definite_map (ce_cbor E) 3 (str_fields
     ((case get_contact d (gm_contact_id m) of Some mc \<Rightarrow> [(''key_a_pubkey'', CBytes (ct_key_a_pubkey mc))] | None \<Rightarrow> []) @
      [(''key_b_kem_pubkey'', CBytes (gm_their_key_b_kem m))]))"

definition invite_to_group :: "cl_env \<Rightarrow> string \<Rightarrow> string \<Rightarrow> unit act" where
  "invite_to_group E gid ct_id' =
     bnd (require_admin gid) (\<lambda>g.
     bnd (asks (\<lambda>s. get_contact (cl_store s) ct_id')) (\<lambda>o_ct.
     case o_ct of
       None \<Rightarrow> throw ''CONTACT_NOT_FOUND''
     | Some ct \<Rightarrow>
         bnd (rand_hex_id E) (\<lambda>fid.
         bnd (asks (\<lambda>s. list_group_members (cl_store s) gid)) (\<lambda>members.
         bnd require_key_a (\<lambda>ka.
         bnd (asks (\<lambda>s. (get_key_b (keystore s) gid, cl_store s))) (\<lambda>(o_kb, d).
         case o_kb of
           None \<Rightarrow> throw ''no key_b for group''
         | Some kb \<Rightarrow>
             enqueue_dm E (dm_conv_id E (to_hex (sender_id_of E (ka_pubkey ka))) ct_id')
               (app_frame E 9 (frame_head E ''group_invite'' fid (ct_my_key_b_id ct) @
                 [(''group_id'', build_string gid),
                  (''group_name'', build_string (gr_name g)),
                  (''server_type'', build_string (gr_type g)),
                  (''my_key_b_kem_pk'', CBytes (kb_kem_pubkey kb)),
                  (''existing_members'', definite_array (ce_cbor E) (length members) (map (member_item E d) members))]))
               ''store'' fid))))))"

definition kick_from_group :: "cl_env \<Rightarrow> string \<Rightarrow> string \<Rightarrow> unit act" where
  "kick_from_group E gid ct =
     bnd (require_admin gid) (\<lambda>_.
     bnd (upd_store (\<lambda>d. remove_group_member d gid ct)) (\<lambda>_.
     bnd require_key_a (\<lambda>ka.
     let my_hex = to_hex (sender_id_of E (ka_pubkey ka)) in
     bnd (asks (\<lambda>s. get_sender_key (keystore s) gid my_hex)) (\<lambda>old.
       new_sender_key E gid my_hex (case old of Some sk \<Rightarrow> kf_generation sk + 1 | None \<Rightarrow> 1)))))"

definition leave_group :: "cl_env \<Rightarrow> string \<Rightarrow> unit act" where
  "leave_group E gid =
     bnd require_key_a (\<lambda>ka. upd_store (\<lambda>d. remove_group_member d gid (to_hex (sender_id_of E (ka_pubkey ka)))))"

definition create_server_channel :: "cl_env \<Rightarrow> string \<Rightarrow> string \<Rightarrow> string \<Rightarrow> string act" where
  "create_server_channel E server_id name channel_type =
     bnd (asks (\<lambda>s. get_group (cl_store s) server_id)) (\<lambda>o_g.
     case o_g of
       None \<Rightarrow> throw ''server not found''
     | Some g \<Rightarrow>
         if gr_type g \<noteq> ''server'' then throw ''server not found''
         else bnd require_key_a (\<lambda>ka.
           bnd (draw E 16) (\<lambda>nonce.
           let cid = to_hex (sha3_256_parts (ce_crypto E)
                 [ka_pubkey ka, as_bytes server_id, be64 (u64_of_int64 (ce_now_s E)), nonce]) in
           bnd (new_sender_key E cid (to_hex (sender_id_of E (ka_pubkey ka))) 0) (\<lambda>_.
           bnd (upd_store (\<lambda>d. upsert_conversation
                  (upsert_server_channel d \<lparr>sc_id = cid, sc_server_id = server_id, sc_name = name, sc_type = channel_type,
                     sc_created_at = ce_now_s E\<rparr>)
                  \<lparr>cv_id = cid, cv_type = ''server_channel'', cv_display_name = name, cv_contact_id = [], cv_group_id = cid,
                   cv_last_read_seq = 0, cv_created_at = ce_now_s E\<rparr>)) (\<lambda>_.
           bnd (asks (\<lambda>s. list_group_members (cl_store s) server_id)) (\<lambda>members.
           bnd (for_each members (\<lambda>m. try_store (\<lambda>d. upsert_group_member (ce_null_data E) d (m\<lparr>gm_group_id := cid\<rparr>)))) (\<lambda>_.
             ret cid)))))))"

definition set_server_member_role :: "cl_env \<Rightarrow> string \<Rightarrow> string \<Rightarrow> string \<Rightarrow> unit act" where
  "set_server_member_role E server_id ct role =
     bnd (asks (\<lambda>s. get_group (cl_store s) server_id)) (\<lambda>o_g.
     case o_g of
       None \<Rightarrow> throw ''server not found''
     | Some _ \<Rightarrow>
         bnd (upd_store (\<lambda>d. set_server_role d server_id ct role (ce_now_s E))) (\<lambda>_.
         bnd (asks (\<lambda>s. get_group_member (cl_store s) server_id ct)) (\<lambda>o_m.
         case o_m of
           None \<Rightarrow> ret ()
         | Some m \<Rightarrow> try_store (\<lambda>d. upsert_group_member (ce_null_data E) d (m\<lparr>gm_role := role\<rparr>)))))"

subsection \<open>Devices and status\<close>

definition revoke_device :: "cl_env \<Rightarrow> string \<Rightarrow> unit act" where
  "revoke_device E i = bnd (upd_ks (\<lambda>k. revoke_key_c k i)) (\<lambda>_. save_keystore E)"

text \<open>\<^verbatim>\<open>if (it != r.end() && it->second.is_uint()) result[k] = it->second\<close>.\<close>

definition take_uint :: "cmap \<Rightarrow> string \<Rightarrow> string \<Rightarrow> cmap \<Rightarrow> cmap" where
  "take_uint r from k m = (case map_of r from of Some (VUint u) \<Rightarrow> map_put k (VUint u) m | _ \<Rightarrow> m)"

text \<open>The status of a daemon that is connected and answers; otherwise the defaults.\<close>

definition ask_status :: "cl_env \<Rightarrow> service \<Rightarrow> string \<Rightarrow> cmap \<Rightarrow> (cmap \<Rightarrow> cmap \<Rightarrow> cmap) \<Rightarrow> cmap act" where
  "ask_status E v m defaults f =
     bnd (is_up v) (\<lambda>up.
     if \<not> up then ret defaults
     else bnd (attempt (call E v m [])) (\<lambda>r. ret (case r of None \<Rightarrow> defaults | Some a \<Rightarrow> f a defaults)))"

definition get_network_status :: "cl_env \<Rightarrow> cmap act" where
  "get_network_status E =
     bnd (is_up Router_Svc) (\<lambda>up.
       ask_status E Router_Svc ''tft.status'' (cmap_of
         [(''anonrouter_connected'', VBool up), (''relay_count'', VUint 0), (''known_peers'', VUint 0), (''unchoked_peers'', VUint 0),
          (''net_credit_bytes'', VInt 0), (''dht_peers'', VUint 0)])
         (\<lambda>r m. take_uint r ''unchoked_count'' ''unchoked_peers'' (take_uint r ''known_peers'' ''known_peers'' m)))"

definition get_inbox_status :: "cl_env \<Rightarrow> cmap act" where
  "get_inbox_status E =
     bnd (ask_status E Inbox_Svc ''inbox.status'' (cmap_of
            [(''stored_undelivered'', VUint 0), (''sibling_count'', VUint 0), (''prekeys_low'', VBool False)])
            (\<lambda>r m. take_uint r ''sibling_count'' ''sibling_count'' (take_uint r ''stored_count'' ''stored_undelivered'' m))) (\<lambda>m.
     bnd (asks (\<lambda>s. list_ex (\<lambda>kb. int (count_prekeys (keystore s) (kb_id kb)) < cf_prekey_low_threshold (cl_cfg s))
                      (list_key_b (keystore s)))) (\<lambda>low.
       ret (map_put ''prekeys_low'' (VBool low) m)))"

definition get_outbox_status :: "cl_env \<Rightarrow> cmap act" where
  "get_outbox_status E = ask_status E Outbox_Svc ''outbox.stats'' (cmap_of [(''pending'', VUint 0), (''delivering'', VUint 0)])
     (\<lambda>r m. take_uint r ''pending'' ''pending'' m)"

end
