(* ===== verification/Client_Ipc.thy ===== *)
theory Client_Ipc
  imports Client_Ops
begin

text \<open>
  The client's IPC interface (\<^verbatim>\<open>client/src/ipc_handler.hpp\<close>, \<^verbatim>\<open>ipc_handler.cpp\<close>): one handler
  per operation name, and the dispatcher.
\<close>

text \<open>A text parameter that has to be there, with the message of the exception otherwise.\<close>

definition text_param :: "cmap \<Rightarrow> string \<Rightarrow> string \<Rightarrow> string act" where
  "text_param p k err = (case map_of p k of Some (VString v) \<Rightarrow> ret v | _ \<Rightarrow> throw err)"

definition two_params :: "cmap \<Rightarrow> string \<Rightarrow> string \<Rightarrow> string \<Rightarrow> (string \<times> string) act" where
  "two_params p a b err = bnd (text_param p a err) (\<lambda>x. bnd (text_param p b err) (\<lambda>y. ret (x, y)))"

definition done_with :: "unit act \<Rightarrow> cmap act" where
  "done_with m = bnd m (\<lambda>_. ret ok_result)"

subsection \<open>Session and identity\<close>

definition session_unlock :: "cl_env \<Rightarrow> cmap \<Rightarrow> cmap act" where
  "session_unlock E p =
     bnd (text_param p ''passphrase'' ''missing passphrase'') (\<lambda>pw.
     bnd (client_unlock E pw) (\<lambda>_.
       asks (\<lambda>s. cmap_of [(''ok'', VBool True), (''display_name'', VString (get_display_name s)),
         (''key_a_pubkey_fingerprint'', VString (my_sender_id_hex E s))])))"

definition session_lock :: "cl_env \<Rightarrow> cmap \<Rightarrow> cmap act" where
  "session_lock E p = done_with (client_lock E)"

definition session_is_unlocked :: "cmap \<Rightarrow> cmap act" where
  "session_is_unlocked p = asks (\<lambda>s. cmap_of [(''unlocked'', VBool (is_unlocked (keystore s)))])"

definition session_change_passphrase :: "cl_env \<Rightarrow> cmap \<Rightarrow> cmap act" where
  "session_change_passphrase E p =
     bnd (two_params p ''current_passphrase'' ''new_passphrase'' ''missing passphrase fields'') (\<lambda>(old_p, new_p).
       done_with (client_change_passphrase E old_p new_p))"

definition identity_get_profile :: "cl_env \<Rightarrow> cmap \<Rightarrow> cmap act" where
  "identity_get_profile E p =
     bnd (asks get_display_name) (\<lambda>name.
     bnd (get_contact_card_uri E) (\<lambda>uri.
       asks (\<lambda>s. cmap_of [(''display_name'', VString name), (''contact_card_uri'', VString uri),
         (''key_a_fingerprint'', VString (my_sender_id_hex E s))])))"

definition identity_set_display_name :: "cl_env \<Rightarrow> cmap \<Rightarrow> cmap act" where
  "identity_set_display_name E p =
     bnd (text_param p ''display_name'' ''missing display_name'') (\<lambda>name. done_with (set_display_name E name))"

subsection \<open>Contacts and conversations\<close>

definition contact_map :: "contact \<Rightarrow> cval" where
  "contact_map c = VMap (cmap_of [(''id'', VString (ct_id c)), (''display_name'', VString (ct_display_name c)),
     (''status'', VString (ct_status c))])"

definition contacts_list :: "cmap \<Rightarrow> cmap act" where
  "contacts_list p = asks (\<lambda>s. cmap_of [(''contacts'', VArray (map contact_map (list_contacts (cl_store s))))])"

definition contacts_get :: "cmap \<Rightarrow> cmap act" where
  "contacts_get p =
     bnd (text_param p ''contact_id'' ''missing contact_id'') (\<lambda>i.
     bnd (asks (\<lambda>s. get_contact (cl_store s) i)) (\<lambda>o_c.
     case o_c of
       None \<Rightarrow> throw ''CONTACT_NOT_FOUND''
     | Some c \<Rightarrow> ret (cmap_of [(''id'', VString (ct_id c)), (''display_name'', VString (ct_display_name c)),
         (''status'', VString (ct_status c)), (''added_at'', VUint (u64_of_int64 (ct_added_at c)))])))"

definition contacts_send_request :: "cl_env \<Rightarrow> cmap \<Rightarrow> cmap act" where
  "contacts_send_request E p =
     bnd (text_param p ''contact_card_uri'' ''missing contact_card_uri'') (\<lambda>uri. done_with (send_contact_request E uri))"

definition contacts_accept_request :: "cl_env \<Rightarrow> cmap \<Rightarrow> cmap act" where
  "contacts_accept_request E p =
     bnd (text_param p ''contact_id'' ''missing contact_id'') (\<lambda>i. done_with (accept_contact_request E i))"

definition contacts_decline_request :: "cmap \<Rightarrow> cmap act" where
  "contacts_decline_request p =
     bnd (text_param p ''contact_id'' ''missing contact_id'') (\<lambda>i. done_with (decline_contact_request i))"

definition contacts_block :: "cmap \<Rightarrow> cmap act" where
  "contacts_block p = bnd (text_param p ''contact_id'' ''missing contact_id'') (\<lambda>i. done_with (block_contact i))"

text \<open>\<^verbatim>\<open>msgs.back()\<close> of a list of at most one message.\<close>

definition conversation_map :: "message_store \<Rightarrow> conversation \<Rightarrow> cval" where
  "conversation_map d c =
     (let m = cmap_of [(''id'', VString (cv_id c)), (''type'', VString (cv_type c)), (''display_name'', VString (cv_display_name c)),
                       (''unread_count'', VUint 0)];
          msgs = list_messages d (cv_id c) 0 1
      in VMap (if msgs = [] then m
               else map_put ''last_message'' (VMap (cmap_of [(''text_preview'', VString (sm_text (last msgs))),
                      (''sent_at'', VUint (u64_of_int64 (sm_sent_at (last msgs))))])) m))"

definition conversations_list :: "cmap \<Rightarrow> cmap act" where
  "conversations_list p = asks (\<lambda>s. cmap_of
     [(''conversations'', VArray (map (conversation_map (cl_store s)) (list_conversations (cl_store s))))])"

definition conversations_get :: "cmap \<Rightarrow> cmap act" where
  "conversations_get p =
     bnd (text_param p ''conversation_id'' ''missing conversation_id'') (\<lambda>i.
     bnd (asks (\<lambda>s. get_conversation (cl_store s) i)) (\<lambda>o_c.
     case o_c of
       None \<Rightarrow> throw ''UNKNOWN_CONVERSATION''
     | Some c \<Rightarrow> ret (cmap_of [(''id'', VString (cv_id c)), (''type'', VString (cv_type c)),
         (''display_name'', VString (cv_display_name c)), (''created_at'', VUint (u64_of_int64 (cv_created_at c)))])))"

subsection \<open>Messages\<close>

text \<open>\<^verbatim>\<open>static_cast<int>(as_uint())\<close> keeps the low 32 bits, read as a signed number.\<close>

definition page_limit :: "cmap \<Rightarrow> int" where
  "page_limit p =
     (let l = (case map_of p ''limit'' of Some (VUint u) \<Rightarrow> sint (ucast u :: 32 word) | _ \<Rightarrow> 50)
      in if l > 100 then 100 else l)"

definition message_map :: "stored_message \<Rightarrow> cval" where
  "message_map m = VMap (cmap_of
     [(''id'', VString (sm_id m)), (''conversation_id'', VString (sm_conversation_id m)), (''seq'', VUint (u64_of_int64 (sm_seq m))),
      (''content_type'', VString (sm_content_type m)), (''text'', VString (sm_text m)), (''sender_id'', VString (to_hex (sm_sender_id m))),
      (''sent_at'', VUint (u64_of_int64 (sm_sent_at m))), (''status'', VString (sm_status m))])"

definition messages_get :: "cmap \<Rightarrow> cmap act" where
  "messages_get p =
     bnd (text_param p ''conversation_id'' ''missing conversation_id'') (\<lambda>i.
       let before_seq = (case map_of p ''before_id'' of Some (VUint u) \<Rightarrow> int64_of u | _ \<Rightarrow> 0)
       in asks (\<lambda>s. cmap_of [(''messages'', VArray (map message_map (list_messages (cl_store s) i before_seq (page_limit p))))]))"

definition messages_send :: "cl_env \<Rightarrow> cmap \<Rightarrow> cmap act" where
  "messages_send E p =
     bnd (text_param p ''conversation_id'' ''missing conversation_id'') (\<lambda>i.
     bnd (send_message E i (opt_string p ''text'') (opt_string p ''reply_to_id'')) (\<lambda>msg_id.
       ret (cmap_of [(''message_id'', VString msg_id), (''ok'', VBool True)])))"

definition messages_edit :: "cl_env \<Rightarrow> cmap \<Rightarrow> cmap act" where
  "messages_edit E p =
     bnd (two_params p ''message_id'' ''new_text'' ''missing fields'') (\<lambda>(i, tx). done_with (send_edit E i tx))"

definition messages_delete :: "cl_env \<Rightarrow> cmap \<Rightarrow> cmap act" where
  "messages_delete E p = bnd (text_param p ''message_id'' ''missing message_id'') (\<lambda>i. done_with (send_delete E i))"

definition messages_react :: "cl_env \<Rightarrow> cmap \<Rightarrow> cmap act" where
  "messages_react E p =
     bnd (two_params p ''message_id'' ''emoji'' ''missing fields'') (\<lambda>(i, e). done_with (send_reaction E i e))"

definition messages_unreact :: "cl_env \<Rightarrow> cmap \<Rightarrow> cmap act" where
  "messages_unreact E p =
     bnd (two_params p ''message_id'' ''emoji'' ''missing fields'') (\<lambda>(i, e). done_with (send_unreact E i e))"

definition messages_mark_read :: "cl_env \<Rightarrow> cmap \<Rightarrow> cmap act" where
  "messages_mark_read E p =
     bnd (two_params p ''conversation_id'' ''up_to_message_id'' ''missing fields'') (\<lambda>(i, u). done_with (mark_read E i u))"

definition messages_send_typing :: "cl_env \<Rightarrow> cmap \<Rightarrow> cmap act" where
  "messages_send_typing E p =
     bnd (two_params p ''conversation_id'' ''action'' ''missing fields'') (\<lambda>(i, a). done_with (send_typing E i a))"

subsection \<open>Groups and servers\<close>

definition groups_create :: "cl_env \<Rightarrow> cmap \<Rightarrow> cmap act" where
  "groups_create E p =
     bnd (two_params p ''name'' ''type'' ''missing fields'') (\<lambda>(n, ty).
     bnd (create_group E n ty) (\<lambda>gid. ret (cmap_of [(''group_id'', VString gid), (''conversation_id'', VString gid)])))"

definition groups_invite :: "cl_env \<Rightarrow> cmap \<Rightarrow> cmap act" where
  "groups_invite E p =
     bnd (two_params p ''group_id'' ''contact_id'' ''missing fields'') (\<lambda>(g, c). done_with (invite_to_group E g c))"

definition groups_kick :: "cl_env \<Rightarrow> cmap \<Rightarrow> cmap act" where
  "groups_kick E p =
     bnd (two_params p ''group_id'' ''contact_id'' ''missing fields'') (\<lambda>(g, c). done_with (kick_from_group E g c))"

definition groups_leave :: "cl_env \<Rightarrow> cmap \<Rightarrow> cmap act" where
  "groups_leave E p = bnd (text_param p ''group_id'' ''missing group_id'') (\<lambda>g. done_with (leave_group E g))"

definition servers_create_channel :: "cl_env \<Rightarrow> cmap \<Rightarrow> cmap act" where
  "servers_create_channel E p =
     bnd (two_params p ''server_id'' ''name'' ''missing fields'') (\<lambda>(sid, n).
     bnd (text_param p ''type'' ''missing fields'') (\<lambda>ty.
     bnd (create_server_channel E sid n ty) (\<lambda>cid.
       ret (cmap_of [(''channel_id'', VString cid), (''conversation_id'', VString cid)]))))"

definition servers_set_member_role :: "cl_env \<Rightarrow> cmap \<Rightarrow> cmap act" where
  "servers_set_member_role E p =
     bnd (two_params p ''server_id'' ''contact_id'' ''missing fields'') (\<lambda>(sid, c).
     bnd (text_param p ''role'' ''missing fields'') (\<lambda>r. done_with (set_server_member_role E sid c r)))"

subsection \<open>Devices\<close>

definition device_map :: "key_c_issued \<Rightarrow> cval" where
  "device_map d = VMap (cmap_of
     [(''device_id'', VString (kc_device_id d)), (''type'', VString (kc_device_type d)), (''label'', VString (kc_device_label d)),
      (''issued_at'', VUint (u64_of_int64 (kc_issued_at d))), (''expires_at'', VUint (u64_of_int64 (kc_expires_at d))),
      (''revoked'', VBool (kc_revoked d))])"

definition devices_list :: "cmap \<Rightarrow> cmap act" where
  "devices_list p = asks (\<lambda>s. cmap_of [(''devices'', VArray (map device_map (list_key_c (keystore s))))])"

definition devices_revoke :: "cl_env \<Rightarrow> cmap \<Rightarrow> cmap act" where
  "devices_revoke E p = bnd (text_param p ''device_id'' ''missing device_id'') (\<lambda>i. done_with (revoke_device E i))"

subsection \<open>Dispatch\<close>

definition handlers :: "cl_env \<Rightarrow> (string \<times> (cmap \<Rightarrow> cmap act)) list" where
  "handlers E =
     [(''session.unlock'', session_unlock E),
      (''session.lock'', session_lock E),
      (''session.is_unlocked'', session_is_unlocked),
      (''session.change_passphrase'', session_change_passphrase E),
      (''identity.get_profile'', identity_get_profile E),
      (''identity.set_display_name'', identity_set_display_name E),
      (''contacts.list'', contacts_list),
      (''contacts.get'', contacts_get),
      (''contacts.send_request'', contacts_send_request E),
      (''contacts.accept_request'', contacts_accept_request E),
      (''contacts.decline_request'', contacts_decline_request),
      (''contacts.block'', contacts_block),
      (''conversations.list'', conversations_list),
      (''conversations.get'', conversations_get),
      (''messages.get'', messages_get),
      (''messages.send'', messages_send E),
      (''messages.edit'', messages_edit E),
      (''messages.delete'', messages_delete E),
      (''messages.react'', messages_react E),
      (''messages.unreact'', messages_unreact E),
      (''messages.mark_read'', messages_mark_read E),
      (''messages.send_typing'', messages_send_typing E),
      (''groups.create'', groups_create E),
      (''groups.invite'', groups_invite E),
      (''groups.kick'', groups_kick E),
      (''groups.leave'', groups_leave E),
      (''servers.create_channel'', servers_create_channel E),
      (''servers.set_member_role'', servers_set_member_role E),
      (''devices.list'', devices_list),
      (''devices.revoke'', devices_revoke E),
      (''devices.get_inbox_status'', (\<lambda>p. get_inbox_status E)),
      (''devices.get_outbox_status'', (\<lambda>p. get_outbox_status E)),
      (''network.get_status'', (\<lambda>p. get_network_status E))]"

definition handle :: "cl_env \<Rightarrow> string \<Rightarrow> cmap \<Rightarrow> cmap act" where
  "handle E name p =
     (case map_of (handlers E) name of
        Some h \<Rightarrow> h p
      | None \<Rightarrow> throw (''unknown method: '' @ name))"

end
