(* ===== verification/Client_Run.thy ===== *)
theory Client_Run
  imports Client_Ipc
begin

text \<open>
  Runs of the client: requests of the user interface, events pushed by the two daemons, rounds of
  the background threads and lost connections, in any order, each with an environment of its
  own. A push handler runs in the receive thread of its connection, so its calls on that
  connection time out.
\<close>

datatype cl_event =
    Ev_Request string cmap
  | Ev_Inbox_Push string cmap
  | Ev_Outbox_Push string cmap
  | Ev_Dht_Round
  | Ev_Cert_Round
  | Ev_Lost service
  | Ev_Start
  | Ev_Stop

definition in_recv_thread :: "service \<Rightarrow> cl_env \<Rightarrow> cl_env" where
  "in_recv_thread v E = E\<lparr>ce_ans := (\<lambda>w n m p. if w = v then recv_thread_ans n m p else ce_ans E w n m p)\<rparr>"

fun cl_step :: "cl_env \<Rightarrow> cl_event \<Rightarrow> client \<Rightarrow> client" where
  "cl_step E (Ev_Request name p) s = fst (handle E name p s)"
| "cl_step E (Ev_Inbox_Push ev pl) s = fst (inbox_push (in_recv_thread Inbox_Svc E) ev pl s)"
| "cl_step E (Ev_Outbox_Push ev pl) s = fst (outbox_push ev pl s)"
| "cl_step E Ev_Dht_Round s = fst (dht_loop_round E s)"
| "cl_step E Ev_Cert_Round s = fst (cert_renew_loop_round E s)"
| "cl_step E (Ev_Lost v) s = s\<lparr>cl_up := (cl_up s)(v := False)\<rparr>"
| "cl_step E Ev_Start s = fst (client_start s)"
| "cl_step E Ev_Stop s = fst (client_stop E s)"

text \<open>The states a run leads to when all its environments satisfy \<open>A\<close>, until the process ends.\<close>

inductive cl_reach :: "(cl_env \<Rightarrow> bool) \<Rightarrow> client \<Rightarrow> client \<Rightarrow> bool" for A where
  refl: "cl_reach A s s"
| step: "cl_reach A s t \<Longrightarrow> A E \<Longrightarrow> \<not> cl_killed t \<Longrightarrow> cl_reach A s (cl_step E ev t)"

inductive_cases cl_reach_cases: "cl_reach A s t"

definition client_new :: "config \<Rightarrow> keystore \<Rightarrow> message_store \<Rightarrow> client" where
  "client_new cfg ks db = \<lparr>cl_cfg = cfg, cl_mgr = \<lparr>rg_ks = ks, rg_cache = []\<rparr>, cl_store = db, cl_up = (\<lambda>_. False),
     cl_running = False, cl_bg_active = False, cl_last_slot = 0, cl_calls = [], cl_pushes = [], cl_draws = 0, cl_killed = False\<rparr>"

subsection \<open>Invariants of the database\<close>

definition on_store :: "(message_store \<Rightarrow> bool) \<Rightarrow> client \<Rightarrow> bool" where
  "on_store Q s \<longleftrightarrow> Q (cl_store s)"

text \<open>What a property of the tables has to satisfy so that every operation of the client keeps it.\<close>

locale store_invariant =
  fixes en :: bool and Q :: "message_store \<Rightarrow> bool"
  assumes upsert_conversation: "Q d \<Longrightarrow> Q (upsert_conversation d c)"
    and update_last_read: "Q d \<Longrightarrow> Q (update_last_read d i seq)"
    and update_message_status: "Q d \<Longrightarrow> Q (update_message_status d i st)"
    and delete_message: "Q d \<Longrightarrow> Q (delete_message d i)"
    and update_message_text: "Q d \<Longrightarrow> Q (update_message_text d i tx)"
    and insert_cert: "Q d \<Longrightarrow> Q (insert_cert en d kc)"
    and set_contact_status: "Q d \<Longrightarrow> Q (set_contact_status d i st)"
    and upsert_group: "Q d \<Longrightarrow> Q (upsert_group d g)"
    and remove_group_member: "Q d \<Longrightarrow> Q (remove_group_member d gi ci)"
    and upsert_server_channel: "Q d \<Longrightarrow> Q (upsert_server_channel d sc)"
    and set_server_role: "Q d \<Longrightarrow> Q (set_server_role d si ci role at)"
    and insert_message: "Q d \<Longrightarrow> sm_seq m = next_seq d (sm_conversation_id m) \<Longrightarrow> Q (fst (insert_message en d m))"
    and insert_contact: "Q d \<Longrightarrow> ct_their_dm_key_b_sig ct = [] \<Longrightarrow> Q (fst (insert_contact en d ct))"
    and members: "(\<forall>d m d'. Q d \<longrightarrow> upsert_group_member en d m = Inr d' \<longrightarrow> Q d') \<or> (\<forall>d. Q d \<longrightarrow> ms_members d = [])"
begin

lemma keeps_base:
  "keeps (on_store Q) (draw E n)" "keeps (on_store Q) (connect E v)" "keeps (on_store Q) (call E v m p)" "keeps (on_store Q) (push ev kvs)"
  "keeps (on_store Q) (upd_ks f)" "keeps (on_store Q) (with_ks g)" "keeps (on_store Q) (with_mgr h)" "keeps (on_store Q) (lift_outcome r)"
  "(\<And>s. cl_store (u s) = cl_store s) \<Longrightarrow> keeps (on_store Q) (upd u)"
  by (auto simp: keeps_def on_store_def act_defs split: sum.split prod.split outcome.split)

lemma keeps_upd_store: "(\<And>d. Q d \<Longrightarrow> Q (f d)) \<Longrightarrow> keeps (on_store Q) (upd_store f)"
  by (simp add: keeps_def on_store_def act_defs)

lemma keeps_asks_bnd: "(\<And>s. on_store Q s \<Longrightarrow> on_store Q (fst (g (f s) s))) \<Longrightarrow> keeps (on_store Q) (bnd (asks f) g)"
  by (simp add: keeps_def act_defs)

lemmas stmts = upsert_conversation update_last_read update_message_status delete_message update_message_text insert_cert
  set_contact_status upsert_group remove_group_member upsert_server_channel set_server_role

lemmas rules = keeps_base keeps_upd_store keeps_intros stmts

lemma keeps_helpers:
  "keeps (on_store Q) require_key_a" "keeps (on_store Q) (save_keystore E)" "keeps (on_store Q) (rand_hex_id E)" "keeps (on_store Q) (draw_ratchet_rnd E)"
  "keeps (on_store Q) (get_guard_info E)"
  by (auto simp: require_key_a_def save_keystore_def rand_hex_id_def draw_ratchet_rnd_def get_guard_info_def Let_def intro!: rules)

lemma keeps_envelopes:
  "keeps (on_store Q) (encrypt_ratchet_envelope E c af)" "keeps (on_store Q) (encrypt_sender_key_envelope E g af)"
  "keeps (on_store Q) (decrypt_ratchet_envelope E c env)" "keeps (on_store Q) (decrypt_sender_key_envelope E g h env)"
  by (auto simp: encrypt_ratchet_envelope_def encrypt_sender_key_envelope_def decrypt_ratchet_envelope_def
      decrypt_sender_key_envelope_def Let_def intro!: rules keeps_helpers)

text \<open>A message inserted under the conversation's next number.\<close>

lemma keeps_insert_next:
  assumes "\<And>n. sm_seq (m n) = n" "\<And>n. sm_conversation_id (m n) = c" "\<And>n x. keeps (on_store Q) (k n x)"
  shows "keeps (on_store Q) (bnd (asks (\<lambda>s. next_seq (cl_store s) c)) (\<lambda>n. bnd (with_store (\<lambda>d. insert_message en d (m n))) (k n)))"
proof (rule keeps_asks_bnd)
  fix s :: client
  let ?n = "next_seq (cl_store s) c"
  assume "on_store Q s"
  then have Q: "Q (fst (insert_message en (cl_store s) (m ?n)))"
    by (intro insert_message) (simp_all add: on_store_def assms)
  obtain d r where ins: "insert_message en (cl_store s) (m ?n) = (d, r)"
    by fastforce
  then have "on_store Q (s\<lparr>cl_store := d\<rparr>)"
    using Q by (simp add: on_store_def)
  then show "on_store Q (fst (bnd (with_store (\<lambda>d. insert_message en d (m ?n))) (k ?n) s))"
    using ins assms(3) [of ?n] by (cases r) (auto simp: act_defs keeps_def)
qed

lemma keeps_receive:
  assumes "ce_null_data E = en"
  shows "keeps (on_store Q) (store_received E c ty af raw)" "keeps (on_store Q) (resolve_cert E f)" "keeps (on_store Q) (open_envelope E f)"
proof -
  show "keeps (on_store Q) (store_received E c ty af raw)"
    unfolding store_received_def Let_def assms by (intro keeps_if keeps_insert_next rules) simp_all
  show "keeps (on_store Q) (resolve_cert E f)" "keeps (on_store Q) (open_envelope E f)"
    unfolding resolve_cert_def open_envelope_def Let_def assms by (intro rules keeps_envelopes; assumption)+
qed

lemma keeps_dispatch: "ce_null_data E = en \<Longrightarrow> keeps (on_store Q) (dispatch_app_frame E c ty af raw)"
  by (auto simp: dispatch_app_frame_def Let_def intro!: rules keeps_receive)

lemma keeps_process: "ce_null_data E = en \<Longrightarrow> keeps (on_store Q) (process_delivery_frame E i fr)"
  by (auto simp: process_delivery_frame_def Let_def intro!: rules keeps_receive keeps_dispatch split: sum.split prod.split)

lemma keeps_inbox:
  assumes "ce_null_data E = en"
  shows "keeps (on_store Q) (on_inbox_message E i)" "keeps (on_store Q) (fetch_pending_messages E)" "keeps (on_store Q) (inbox_push E ev pl)"
    "keeps (on_store Q) (outbox_push ev pl)"
proof -
  show i: "keeps (on_store Q) (on_inbox_message E i)" for i
    by (auto simp: on_inbox_message_def intro!: rules keeps_process [OF assms] split: cval.split)
  show "keeps (on_store Q) (fetch_pending_messages E)"
    by (auto simp: fetch_pending_messages_def intro!: rules i split: cval.split)
  show "keeps (on_store Q) (inbox_push E ev pl)"
    by (auto simp: inbox_push_def intro!: rules i split: cval.split)
  show "keeps (on_store Q) (outbox_push ev pl)"
    by (auto simp: outbox_push_def on_outbox_status_def Let_def intro!: rules split: cval.split)
qed

lemma keeps_enqueue: "keeps (on_store Q) (enqueue_dm E c af ps i)" "keeps (on_store Q) (enqueue_for_conv E c af ps i)"
proof -
  show d: "keeps (on_store Q) (enqueue_dm E c af ps i)"
    unfolding enqueue_dm_def Let_def by (intro rules keeps_helpers keeps_envelopes)
  show "keeps (on_store Q) (enqueue_for_conv E c af ps i)"
    unfolding enqueue_for_conv_def Let_def by (intro rules keeps_helpers keeps_envelopes d)
qed

lemma keeps_devices:
  "keeps (on_store Q) (push_sender_allowlist E)" "keeps (on_store Q) (dht_publish E kv ttl)" "keeps (on_store Q) (publish_prekeys E ka kb)"
  "keeps (on_store Q) (gen_key_c E)" "keeps (on_store Q) (new_auth_cert E ka kp ty lb)" "keeps (on_store Q) (new_delegation_cert E ka kp)"
  "keeps (on_store Q) (gen_prekey E b)"
  by (auto simp: push_sender_allowlist_def dht_publish_def publish_prekeys_def gen_key_c_def new_auth_cert_def new_delegation_cert_def
      gen_prekey_def intro!: rules)

lemma keeps_provision: "keeps (on_store Q) (provision_devices E)"
  unfolding provision_devices_def provision_inbox_def provision_outbox_def by (intro rules keeps_devices keeps_helpers)

lemma keeps_renew: "keeps (on_store Q) (check_renew_key_c E)"
  unfolding check_renew_key_c_def renew_device_def prod.case_distrib
  by (auto intro!: rules keeps_devices keeps_helpers)

lemma keeps_replenish: "keeps (on_store Q) (replenish_prekeys E)"
  unfolding replenish_prekeys_def replenish_key_b_def
  by (auto intro!: rules keeps_devices keeps_helpers)

lemma keeps_publish: "keeps (on_store Q) (publish_dht_records E ts)"
  unfolding publish_dht_records_def by (intro rules keeps_devices keeps_helpers)

lemma keeps_session:
  assumes "ce_null_data E = en"
  shows "keeps (on_store Q) (client_unlock E pw)" "keeps (on_store Q) (client_lock E)" "keeps (on_store Q) (client_change_passphrase E a b)"
    "keeps (on_store Q) client_start" "keeps (on_store Q) (client_stop E)" "keeps (on_store Q) (dht_loop_round E)"
    "keeps (on_store Q) (cert_renew_loop_round E)"
proof -
  have "keeps (on_store Q) (connect_services E)"
    unfolding connect_services_def
    by (intro rules keeps_devices keeps_provision keeps_renew keeps_replenish keeps_publish keeps_inbox [OF assms])
  then show "keeps (on_store Q) (client_unlock E pw)"
    by (auto simp: client_unlock_def create_identity_def intro!: rules keeps_helpers)
  show "keeps (on_store Q) (client_lock E)" "keeps (on_store Q) (client_change_passphrase E a b)"
    "keeps (on_store Q) client_start" "keeps (on_store Q) (client_stop E)" "keeps (on_store Q) (dht_loop_round E)"
    "keeps (on_store Q) (cert_renew_loop_round E)"
    by (auto simp: client_lock_def client_change_passphrase_def client_start_def client_stop_def disconnect_all_def dht_loop_round_def
        cert_renew_loop_round_def intro!: rules keeps_helpers keeps_publish keeps_renew keeps_replenish)
qed

lemma keeps_contacts:
  assumes "ce_null_data E = en"
  shows "keeps (on_store Q) (send_contact_request E uri)" "keeps (on_store Q) (accept_contact_request E i)"
proof -
  have "keeps (on_store Q) (with_store (\<lambda>d. insert_contact en d ct))" if "ct_their_dm_key_b_sig ct = []" for ct
    using insert_contact [OF _ that] by (auto simp: keeps_def on_store_def with_store_def split: prod.split) (metis fst_conv)
  then show "keeps (on_store Q) (send_contact_request E uri)"
    unfolding send_contact_request_def new_key_b_def Let_def assms
    by (auto intro!: rules keeps_helpers keeps_replenish keeps_enqueue)
  show "keeps (on_store Q) (accept_contact_request E i)"
    unfolding accept_contact_request_def by (intro rules keeps_devices; assumption)
qed

lemma keeps_messages:
  assumes "ce_null_data E = en"
  shows "keeps (on_store Q) (send_message E c tx rp)" "keeps (on_store Q) (send_typing E c a)" "keeps (on_store Q) (mark_read E c u)"
    "keeps (on_store Q) (send_reaction E i e)" "keeps (on_store Q) (send_unreact E i e)" "keeps (on_store Q) (send_edit E i tx)"
    "keeps (on_store Q) (send_delete E i)"
proof -
  show "keeps (on_store Q) (send_message E c tx rp)"
    unfolding send_message_def Let_def assms
    by (intro keeps_insert_next rules keeps_helpers keeps_enqueue) simp_all
  have a: "keeps (on_store Q) after \<Longrightarrow> keeps (on_store Q) (send_about E i f after)" for f after
    unfolding send_about_def by (intro rules keeps_helpers keeps_enqueue)
  show "keeps (on_store Q) (send_reaction E i e)" "keeps (on_store Q) (send_unreact E i e)" "keeps (on_store Q) (send_edit E i tx)"
    "keeps (on_store Q) (send_delete E i)"
    unfolding send_reaction_def send_unreact_def send_edit_def send_delete_def by (intro a rules; assumption)+
  show "keeps (on_store Q) (send_typing E c a)" "keeps (on_store Q) (mark_read E c u)"
    unfolding send_typing_def mark_read_def by (intro rules keeps_helpers keeps_enqueue; assumption)+
qed

text \<open>Rows of \<^verbatim>\<open>group_members\<close> are only made from rows that are there.\<close>

lemma keeps_upsert_member:
  "(\<forall>d m d'. Q d \<longrightarrow> upsert_group_member en d m = Inr d' \<longrightarrow> Q d') \<Longrightarrow> keeps (on_store Q) (try_store (\<lambda>d. upsert_group_member en d m))"
  by (auto simp: keeps_def on_store_def try_store_def split: sum.split)

lemma keeps_copy_members:
  assumes "keeps (on_store Q) k"
  shows "keeps (on_store Q) (bnd (asks (\<lambda>s. list_group_members (cl_store s) g)) (\<lambda>ms.
    bnd (for_each ms (\<lambda>m. try_store (\<lambda>d. upsert_group_member en d (f m)))) (\<lambda>_. k)))"
  using members
proof
  assume "\<forall>d m d'. Q d \<longrightarrow> upsert_group_member en d m = Inr d' \<longrightarrow> Q d'"
  then show ?thesis
    by (intro rules keeps_upsert_member assms)
next
  assume "\<forall>d. Q d \<longrightarrow> ms_members d = []"
  then show ?thesis
    using assms by (intro keeps_asks_bnd) (auto simp: on_store_def list_group_members_def act_defs keeps_def)
qed

lemma keeps_change_member:
  "keeps (on_store Q) (bnd (asks (\<lambda>s. get_group_member (cl_store s) g c)) (\<lambda>o_m.
     case o_m of None \<Rightarrow> ret () | Some m \<Rightarrow> try_store (\<lambda>d. upsert_group_member en d (f m))))"
  using members
proof
  assume "\<forall>d m d'. Q d \<longrightarrow> upsert_group_member en d m = Inr d' \<longrightarrow> Q d'"
  then show ?thesis
    by (intro rules keeps_upsert_member)
next
  assume "\<forall>d. Q d \<longrightarrow> ms_members d = []"
  then show ?thesis
    by (intro keeps_asks_bnd) (auto simp: on_store_def get_group_member_def act_defs)
qed

lemma keeps_groups:
  assumes "ce_null_data E = en"
  shows "keeps (on_store Q) (create_group E n ty)" "keeps (on_store Q) (invite_to_group E g c)" "keeps (on_store Q) (kick_from_group E g c)"
    "keeps (on_store Q) (leave_group E g)" "keeps (on_store Q) (create_server_channel E g n ty)"
    "keeps (on_store Q) (set_server_member_role E g c role)"
proof -
  have k: "keeps (on_store Q) (new_sender_key E g h gen)" "keeps (on_store Q) (require_admin g)" for g h gen
    unfolding new_sender_key_def require_admin_def by (intro rules keeps_helpers)+
  show "keeps (on_store Q) (create_group E n ty)" "keeps (on_store Q) (leave_group E g)" "keeps (on_store Q) (kick_from_group E g c)"
    unfolding create_group_def leave_group_def kick_from_group_def new_key_b_def Let_def by (intro rules keeps_helpers k; assumption)+
  show "keeps (on_store Q) (invite_to_group E g c)"
    unfolding invite_to_group_def by (auto intro!: rules keeps_helpers k keeps_enqueue)
  show "keeps (on_store Q) (create_server_channel E g n ty)"
    unfolding create_server_channel_def Let_def assms by (intro keeps_copy_members rules keeps_helpers k; assumption?)
  show "keeps (on_store Q) (set_server_member_role E g c role)"
    unfolding set_server_member_role_def assms by (intro keeps_change_member rules; assumption?)
qed

lemma keeps_handle:
  assumes "ce_null_data E = en"
  shows "keeps (on_store Q) (handle E name p)"
proof -
  have t: "keeps (on_store Q) (text_param p k err)" "keeps (on_store Q) (two_params p a b err)"
    "keeps (on_store Q) m \<Longrightarrow> keeps (on_store Q) (done_with m)" for k err a b m
    unfolding text_param_def two_params_def done_with_def by (auto intro!: rules split: cval.split)
  have st: "keeps (on_store Q) (ask_status E v m df f)" for v m df f
    unfolding ask_status_def by (intro rules)
  have "keeps (on_store Q) (h p)" if "(name, h) \<in> set (handlers E)" for h
    using that unfolding handlers_def
    by (auto simp: session_unlock_def session_lock_def session_is_unlocked_def session_change_passphrase_def identity_get_profile_def
        get_contact_card_uri_def identity_set_display_name_def set_display_name_def contacts_list_def contacts_get_def
        contacts_send_request_def contacts_accept_request_def contacts_decline_request_def decline_contact_request_def contacts_block_def
        block_contact_def conversations_list_def conversations_get_def messages_get_def messages_send_def messages_edit_def
        messages_delete_def messages_react_def messages_unreact_def messages_mark_read_def messages_send_typing_def groups_create_def
        groups_invite_def groups_kick_def groups_leave_def servers_create_channel_def servers_set_member_role_def devices_list_def
        devices_revoke_def revoke_device_def get_inbox_status_def get_outbox_status_def get_network_status_def Let_def
        intro!: t st rules keeps_helpers keeps_session [OF assms] keeps_contacts [OF assms] keeps_messages [OF assms] keeps_groups [OF assms]
        split: option.split)
  then show ?thesis
    by (auto simp: handle_def intro!: rules dest: map_of_SomeD split: option.split)
qed

lemma keeps_step: "ce_null_data E = en \<Longrightarrow> on_store Q s \<Longrightarrow> on_store Q (cl_step E ev s)"
  using keeps_handle [of E] keeps_inbox(3) [of "in_recv_thread Inbox_Svc E"] keeps_inbox(4) [of E] keeps_session [of E]
  by (cases ev) (auto simp: keeps_def on_store_def in_recv_thread_def)

text \<open>Whatever runs, in whatever order, the property of the tables holds.\<close>

lemma reach_keeps:
  assumes "cl_reach A s t" "\<And>E. A E \<Longrightarrow> ce_null_data E = en" "Q (cl_store s)"
  shows "Q (cl_store t)"
  using assms(1,3)
proof (induction rule: cl_reach.induct)
  case (step s t E ev)
  then show ?case
    using keeps_step [OF assms(2)] by (simp add: on_store_def)
qed

end

subsection \<open>The tables stay consistent\<close>

lemma next_seq_range:
  assumes "messages_ok (ms_messages d)"
  shows "int64_range (next_seq d c)"
proof -
  let ?s = "map sm_seq (filter (\<lambda>m. sm_conversation_id m = c) (ms_messages d))"
  have "Max (set ?s) \<in> set ?s" if "?s \<noteq> []"
    using that by (intro Max_in) (auto simp: filter_empty_conv)
  then have "int64_range (Max (set ?s))" if "?s \<noteq> []"
    using assms that by (auto simp: messages_ok_def list_all_iff)
  then show ?thesis
    by (auto simp: next_seq_def int64_range_def Let_def min_def)
qed

interpretation tables: store_invariant en store_ok
proof
  fix d and m :: stored_message
  assume "store_ok d" "sm_seq m = next_seq d (sm_conversation_id m)"
  then show "store_ok (fst (insert_message en d m))"
    by (intro store_ok_insert_message) (simp_all add: next_seq_range store_ok_def)
next
  show "(\<forall>d m d'. store_ok d \<longrightarrow> upsert_group_member en d m = Inr d' \<longrightarrow> store_ok d') \<or> (\<forall>d. store_ok d \<longrightarrow> ms_members d = [])"
    using store_ok_upsert_group_member by blast
qed (auto intro: store_ok_insert_contact)

text \<open>
  C6. In every run of the client (requests, pushed events, background rounds and lost
  connections in any order, with any answers) the tables of the message store keep their primary keys, those of
  \<^verbatim>\<open>known_certs\<close> among the rows with a fingerprint that is not empty (an empty one is bound as NULL, which a
  primary key does not compare), and no two messages of a conversation share a sequence number.
\<close>

theorem client_tables_ok:
  assumes "cl_reach (\<lambda>E. ce_null_data E = en) s t" "store_ok (cl_store s)"
  shows "store_ok (cl_store t)"
  using tables.reach_keeps [OF assms(1) _ assms(2)] by simp

definition demo_cl_env :: cl_env where
  "demo_cl_env = \<lparr>ce_crypto = demo_crypto, ce_cbor = wire_cbor, ce_b64 = demo_b64, ce_sqlite = demo_sqlite keydb_new,
     ce_reload = demo_reload, ce_behind = (\<lambda>_. []), ce_pairs = (\<lambda>_. []), ce_null_data = True, ce_uninit = zeros, ce_uninit_int = 0,
     ce_now_s = 1700000000, ce_now_ms = 1700000000000, ce_timeslot = 1, ce_random = (\<lambda>i n. replicate n (of_nat i)),
     ce_connect = (\<lambda>_. Inl (Runtime_Error ''connect() failed'')), ce_ans = (\<lambda>v n m p. Inr [])\<rparr>"

definition demo_client :: client where
  "demo_client = client_new default_config keystore_new init_schema"

text \<open>A user with one contact, who blocks it and creates a group.\<close>

definition demo_bob :: contact where
  "demo_bob = \<lparr>ct_id = ''bob'', ct_display_name = ''Bob'', ct_key_a_pubkey = [1], ct_their_dm_key_b_kem = [2],
     ct_their_dm_key_b_sig = [3], ct_my_key_b_id = ''kb'', ct_their_key_c_pubkeys = [4], ct_added_at = 0, ct_status = ''active''\<rparr>"

definition demo_owner :: client where
  "demo_owner = client_new default_config
     (keystore_new\<lparr>ks_db := Open (keydb_new\<lparr>kt_key_a := Some \<lparr>ka_pubkey = [1], ka_privkey = [2], ka_created_at = 0\<rparr>\<rparr>)\<rparr>)
     (init_schema\<lparr>ms_contacts := [demo_bob]\<rparr>)"

definition demo_create :: cl_event where
  "demo_create = Ev_Request ''groups.create'' [(''name'', VString ''g''), (''type'', VString ''group'')]"

definition demo_block :: cl_event where
  "demo_block = Ev_Request ''contacts.block'' [(''contact_id'', VString ''bob'')]"

lemma demo_handle:
  "handle E ''groups.create'' = groups_create E" "handle E ''contacts.block'' = contacts_block"
  by (simp_all add: fun_eq_iff handle_def handlers_def)

lemma demo_blocked:
  "cl_step demo_cl_env demo_block demo_owner = demo_owner\<lparr>cl_store := init_schema\<lparr>ms_contacts := [demo_bob\<lparr>ct_status := ''blocked''\<rparr>]\<rparr>\<rparr>"
  by (simp add: demo_block_def demo_handle contacts_block_def text_param_def done_with_def block_contact_def act_defs demo_owner_def
      client_new_def Client_Store.set_contact_status_def sql_update_def demo_bob_def init_schema_def c_str_def)

lemma demo_created:
  "let d = cl_store (cl_step demo_cl_env demo_create (cl_step demo_cl_env demo_block demo_owner)) in
    map ct_status (ms_contacts d) = [''blocked''] \<and> map gr_name (ms_groups d) = [''g''] \<and> map cv_display_name (ms_conversations d) = [''g'']"
  unfolding demo_blocked
  by (simp add: demo_create_def demo_handle groups_create_def two_params_def text_param_def create_group_def require_key_a_def new_key_b_def
      new_sender_key_def save_keystore_def act_defs demo_owner_def client_new_def keystore_def get_key_a_def query_db_def Let_def
      mlkem_keygen_def mldsa_keygen_def demo_cl_env_def demo_crypto_def insert_key_b_def set_sender_key_def on_db_def save_def keystore_new_def
      Client_Store.upsert_group_def Client_Store.upsert_conversation_def init_schema_def sql_replace_def)

theorem client_tables_ok_witness:
  "let d = cl_store (cl_step demo_cl_env demo_create (cl_step demo_cl_env demo_block demo_owner)) in
    store_ok d \<and> map ct_status (ms_contacts d) = [''blocked''] \<and> map gr_name (ms_groups d) = [''g''] \<and>
    map cv_display_name (ms_conversations d) = [''g'']"
proof -
  have "cl_reach (\<lambda>E. ce_null_data E = True) demo_owner (cl_step demo_cl_env demo_create (cl_step demo_cl_env demo_block demo_owner))"
    by (intro cl_reach.intros) (simp_all add: demo_blocked, simp_all add: demo_cl_env_def demo_owner_def client_new_def)
  moreover have "store_ok (cl_store demo_owner)"
    by (simp add: demo_owner_def client_new_def init_schema_def store_ok_def messages_ok_def pk_def)
  ultimately show ?thesis
    using client_tables_ok demo_created unfolding Let_def by blast
qed

subsection \<open>No contact is ever stored\<close>

definition alone :: "message_store \<Rightarrow> bool" where
  "alone d \<longleftrightarrow> ms_contacts d = [] \<and> ms_members d = []"

lemmas statement_defs = Client_Store.upsert_conversation_def Client_Store.update_last_read_def Client_Store.update_message_status_def
  Client_Store.delete_message_def Client_Store.update_message_text_def Client_Store.insert_cert_def Client_Store.set_contact_status_def
  Client_Store.upsert_group_def Client_Store.remove_group_member_def Client_Store.upsert_server_channel_def Client_Store.set_server_role_def
  Client_Store.insert_message_def Client_Store.insert_contact_def

interpretation lonely: store_invariant True alone
  by unfold_locales (auto simp: alone_def statement_defs null_blob_def sql_update_def sql_delete_def)

text \<open>Actions that throw in every state with an invariant.\<close>

definition fails :: "(client \<Rightarrow> bool) \<Rightarrow> 'a act \<Rightarrow> bool" where
  "fails P m \<longleftrightarrow> (\<forall>s. P s \<longrightarrow> (\<exists>e. snd (m s) = Inl e))"

lemma fails_throw: "fails P (throw e)"
  by (simp add: fails_def throw_def)

lemma fails_bnd_left: "fails P m \<Longrightarrow> fails P (bnd m f)"
  by (fastforce simp: fails_def bnd_def split: prod.split sum.split)

lemma fails_bnd_right:
  assumes "keeps P m" "\<And>x. fails P (f x)"
  shows "fails P (bnd m f)"
  unfolding fails_def
proof (intro allI impI)
  fix s
  assume "P s"
  obtain s' r where m: "m s = (s', r)"
    by fastforce
  then have "P s'"
    using assms(1) \<open>P s\<close> by (auto dest: keepsD)
  then show "\<exists>e. snd (bnd m f s) = Inl e"
    using m assms(2) by (cases r) (auto simp: bnd_def fails_def)
qed

lemma send_contact_request_fails:
  assumes "ce_null_data E"
  shows "fails (on_store alone) (send_contact_request E uri)"
proof -
  have f: "fails (on_store alone) (with_store (\<lambda>d. insert_contact True d ct))" if "ct_their_dm_key_b_sig ct = []" for ct
    using that by (auto simp: fails_def on_store_def alone_def with_store_def Client_Store.insert_contact_def null_blob_def)
  note k = lonely.rules lonely.keeps_helpers lonely.keeps_replenish
  show ?thesis
  proof (cases "decode_contact_card (ce_cbor E) (ce_b64 E) uri")
    case None
    then show ?thesis
      by (simp add: send_contact_request_def fails_throw)
  next
    case (Some cd)
    show ?thesis
      unfolding send_contact_request_def Some option.case Let_def new_key_b_def
      using assms by (auto intro!: fails_bnd_right fails_throw fails_bnd_left [OF f] k)
  qed
qed

text \<open>
  C26. Where an empty vector has a null data pointer, as in the common standard libraries, the
  client never has a contact: in every state a run from an empty database reaches, the tables of
  contacts and of group members are empty, every contact request ends in an exception, and every
  delivery frame is dropped without a trace. The row of a new contact binds the empty signature
  key and the empty list of device keys, which SQLite takes as NULL and refuses.
\<close>

theorem client_never_has_contacts:
  assumes "cl_reach ce_null_data (client_new cfg ks init_schema) t"
  shows "ms_contacts (cl_store t) = [] \<and> ms_members (cl_store t) = []
    \<and> (\<forall>E uri. ce_null_data E \<longrightarrow> (\<exists>e. snd (send_contact_request E uri t) = Inl e))
    \<and> (\<forall>E i fr. process_delivery_frame E i fr t = (t, Inr ()))"
proof -
  have "alone (cl_store t)"
    by (rule lonely.reach_keeps [OF assms]) (simp_all add: client_new_def alone_def init_schema_def)
  then have c: "ms_contacts (cl_store t) = []" "ms_members (cl_store t) = []" "on_store alone t"
    by (simp_all add: alone_def on_store_def)
  have "process_delivery_frame E i fr t = (t, Inr ())" for E i fr
    by (simp add: process_delivery_frame_def act_defs get_contact_def c(1) split: sum.split)
  then show ?thesis
    using c send_contact_request_fails unfolding fails_def by blast
qed

theorem client_never_has_contacts_witness:
  "ms_contacts (cl_store (cl_step demo_cl_env Ev_Start demo_client)) = []
    \<and> (\<exists>e. snd (send_contact_request demo_cl_env ''scatterweb://contact/x'' (cl_step demo_cl_env Ev_Start demo_client)) = Inl e)"
proof -
  have "cl_reach ce_null_data (client_new default_config keystore_new init_schema) (cl_step demo_cl_env Ev_Start demo_client)"
    unfolding demo_client_def by (intro cl_reach.intros) (simp_all add: demo_cl_env_def client_new_def)
  from client_never_has_contacts [OF this] show ?thesis
    by (simp add: demo_cl_env_def)
qed

subsection \<open>Envelopes\<close>

lemma load_envelope_fields:
  assumes "cbor_ok C" "list_all (\<lambda>(k, v). key_lit k) (take n kvs)" "list_all (\<lambda>(k, v). plain v 63) (take n kvs)" "n < 2 ^ 64"
  shows "cbor_load C (serialize_or_empty C (definite_map C n (str_fields kvs))) = Some (CMap (str_fields (take n kvs)))"
  unfolding definite_map_fields [OF assms(1)] using assms by (intro load_some_fields) simp_all

definition message_sizes :: "ratchet_message \<Rightarrow> bool" where
  "message_sizes m \<longleftrightarrow> length (rh_sender_ratchet_pub (rm_header m)) = MLKEM768_PUBKEY_BYTES \<and>
     (\<forall>ct. rh_kem_ct (rm_header m) = Some ct \<longrightarrow> length ct = MLKEM768_CT_BYTES) \<and> length (rm_nonce m) = 12 \<and>
     length (rm_ciphertext m) < 2 ^ 64 \<and> length (rm_tag m) = 16"

lemma ucast_u32_u64: "(ucast (ucast (x :: u32) :: u64) :: u32) = x"
  by (rule bit_word_eqI) (simp add: bit_simps)

text \<open>
  The envelopes are allocated with seven fields: what the receiver parses out of the
  envelope of a ratchet message has no tag, and no ciphertext either when the message opens a new
  epoch; the count of the previous chain is not sent at all.
\<close>

theorem ratchet_envelope_loses_tag:
  assumes "cbor_ok (ce_cbor E)" "message_sizes m"
  shows "\<exists>root. cbor_load (ce_cbor E) (ratchet_envelope (ce_cbor E) m) = Some root \<and>
    parse_ratchet_envelope E (item_pairs E root) = m\<lparr>rm_header := (rm_header m)\<lparr>rh_prev_count := 0\<rparr>,
      rm_ciphertext := (if rh_kem_ct (rm_header m) = None then rm_ciphertext m else []), rm_tag := ce_uninit E 16\<rparr>"
proof -
  let ?kvs = "take 7 (ratchet_envelope_fields m)"
  have k: "list_all (\<lambda>(k, v). key_lit k) ?kvs" "list_all (\<lambda>(k, v). plain v 63) ?kvs"
    using assms(2) by (cases "rh_kem_ct (rm_header m)";
        simp add: ratchet_envelope_fields_def key_lit_def message_sizes_def size_defs ascii_def c_str_def)+
  have "cbor_load (ce_cbor E) (ratchet_envelope (ce_cbor E) m) = Some (CMap (str_fields ?kvs))"
    unfolding ratchet_envelope_def by (rule load_envelope_fields [OF assms(1) k]) simp
  moreover have "parse_ratchet_envelope E (str_fields ?kvs) = m\<lparr>rm_header := (rm_header m)\<lparr>rh_prev_count := 0\<rparr>,
      rm_ciphertext := (if rh_kem_ct (rm_header m) = None then rm_ciphertext m else []), rm_tag := ce_uninit E 16\<rparr>"
    using assms
    by (cases m; cases "rm_header m"; cases "rh_kem_ct (rm_header m)")
       (simp_all add: parse_ratchet_envelope_def ratchet_envelope_fields_def str_fields_def cbor_get_field_bytes_def
         cbor_get_field_uint_def cbor_key_eq_def message_sizes_def c_str_def size_defs ucast_u32_u64)
  ultimately show ?thesis
    by (intro exI [of _ "CMap (str_fields ?kvs)"]) (simp add: item_pairs_def)
qed

definition demo_ratchet_msg :: ratchet_message where
  "demo_ratchet_msg = \<lparr>rm_header = \<lparr>rh_epoch = 1, rh_msg_num = 0, rh_prev_count = 3, rh_sender_ratchet_pub = zeros 1184,
     rh_kem_ct = Some (zeros 1088)\<rparr>, rm_nonce = zeros 12, rm_ciphertext = [9], rm_tag = replicate 16 7\<rparr>"

theorem ratchet_envelope_loses_tag_witness:
  "\<exists>root. cbor_load wire_cbor (ratchet_envelope wire_cbor demo_ratchet_msg) = Some root \<and>
    rm_ciphertext (parse_ratchet_envelope demo_cl_env (item_pairs demo_cl_env root)) = [] \<and>
    rm_tag (parse_ratchet_envelope demo_cl_env (item_pairs demo_cl_env root)) = zeros 16"
  using ratchet_envelope_loses_tag [of demo_cl_env demo_ratchet_msg]
  by (auto simp: demo_cl_env_def demo_ratchet_msg_def message_sizes_def size_defs)

end
