(* ===== verification/Client_Effects.thy ===== *)
theory Client_Effects
  imports Client_Run
begin

text \<open>What single operations of the client do: pages, sending, the locked session, renewal of device keys, groups.\<close>

subsection \<open>Pages\<close>

lemma page_limit_le: "page_limit p \<le> 100"
  by (simp add: page_limit_def Let_def)

lemma length_list_messages_all:
  "length (list_messages d c 0 (- 1)) = length (filter (\<lambda>m. sm_conversation_id m = c) (ms_messages d))"
  by (simp add: list_messages_def sql_limit_def order_desc_def)

lemma length_list_messages_le: "n \<ge> 0 \<Longrightarrow> length (list_messages d c b n) \<le> nat n"
  by (simp add: list_messages_def sql_limit_def)

text \<open>
  The limit of a page of messages: a limit that is not negative as a 32-bit number bounds
  the answer by a hundred messages, and the limit \<open>2 ^ 32 - 1\<close> lifts the bound: the answer is the
  whole conversation.
\<close>

theorem messages_get_bound:
  assumes "map_of p ''conversation_id'' = Some (VString c)" "map_of p ''before_id'' = None"
  shows "\<exists>ms. messages_get p s = (s, Inr [(''messages'', VArray ms)])
    \<and> (page_limit p \<ge> 0 \<longrightarrow> length ms \<le> 100)
    \<and> (map_of p ''limit'' = Some (VUint 0xFFFFFFFF) \<longrightarrow>
        length ms = length (filter (\<lambda>m. sm_conversation_id m = c) (ms_messages (cl_store s))))"
proof -
  have "page_limit p = - 1" if "map_of p ''limit'' = Some (VUint 0xFFFFFFFF)"
    using that by (simp add: page_limit_def)
  moreover have "length (list_messages (cl_store s) c 0 (page_limit p)) \<le> 100" if "page_limit p \<ge> 0"
    using length_list_messages_le [OF that, of "cl_store s" c 0] page_limit_le [of p] by linarith
  ultimately show ?thesis
    using assms by (auto simp: messages_get_def text_param_def act_defs cmap_of_def length_list_messages_all)
qed

definition demo_page_client :: client where
  "demo_page_client = demo_client\<lparr>cl_store := sample_history\<rparr>"

theorem messages_get_bound_witness:
  "\<exists>ms. messages_get [(''conversation_id'', VString ''c''), (''limit'', VUint 0xFFFFFFFF)] demo_page_client
      = (demo_page_client, Inr [(''messages'', VArray ms)]) \<and> length ms = 3"
proof -
  have "length (filter (\<lambda>m. sm_conversation_id m = ''c'') (ms_messages (cl_store demo_page_client))) = 3"
    by (simp add: demo_page_client_def sample_history_def sample_message_def)
  then show ?thesis
    using messages_get_bound [of "[(''conversation_id'', VString ''c''), (''limit'', VUint 0xFFFFFFFF)]" "''c''" demo_page_client]
    by auto
qed

subsection \<open>The locked session\<close>

lemma locked_no_key_a: "\<not> is_unlocked k \<Longrightarrow> get_key_a k = None"
  by (simp add: is_unlocked_def get_key_a_def query_db_def)

text \<open>
  While the keystore is locked, sending a message, creating a group and leaving one are
  refused with \<^verbatim>\<open>SESSION_LOCKED\<close>: no call goes out, nothing is pushed, and neither the database
  nor the keystore changes.
\<close>

theorem locked_session_refuses:
  assumes "\<not> is_unlocked (keystore s)"
    and "name = ''messages.send'' \<and> (\<exists>c. map_of p ''conversation_id'' = Some (VString c)) \<or>
      name = ''groups.create'' \<and> (\<exists>n ty. map_of p ''name'' = Some (VString n) \<and> map_of p ''type'' = Some (VString ty)) \<or>
      name = ''groups.leave'' \<and> (\<exists>g. map_of p ''group_id'' = Some (VString g))"
  shows "\<exists>n. handle E name p s = (s\<lparr>cl_draws := n\<rparr>, Inl (Runtime_Error ''SESSION_LOCKED''))"
proof -
  have k: "get_key_a (keystore s) = None" "get_key_a (keystore (s\<lparr>cl_draws := n\<rparr>)) = None" for n
    using locked_no_key_a [OF assms(1)] by (simp_all add: keystore_def)
  from assms(2) show ?thesis
  proof (elim disjE)
    assume "name = ''messages.send'' \<and> (\<exists>c. map_of p ''conversation_id'' = Some (VString c))"
    then show ?thesis
      using k by (auto simp: handle_def handlers_def messages_send_def send_message_def text_param_def rand_hex_id_def require_key_a_def
          act_defs Let_def)
  next
    assume "name = ''groups.create'' \<and> (\<exists>n ty. map_of p ''name'' = Some (VString n) \<and> map_of p ''type'' = Some (VString ty))"
    then show ?thesis
      using k by (auto simp: handle_def handlers_def groups_create_def create_group_def two_params_def text_param_def require_key_a_def
          act_defs Let_def intro: exI [of _ "cl_draws s"])
  next
    assume "name = ''groups.leave'' \<and> (\<exists>g. map_of p ''group_id'' = Some (VString g))"
    then show ?thesis
      using k by (auto simp: handle_def handlers_def groups_leave_def leave_group_def done_with_def text_param_def require_key_a_def
          act_defs Let_def intro: exI [of _ "cl_draws s"])
  qed
qed

theorem locked_session_refuses_witness:
  "\<exists>n. handle demo_cl_env ''groups.leave'' [(''group_id'', VString ''g'')] demo_client
    = (demo_client\<lparr>cl_draws := n\<rparr>, Inl (Runtime_Error ''SESSION_LOCKED''))"
  by (rule locked_session_refuses) (simp_all add: demo_client_def client_new_def keystore_def keystore_new_def is_unlocked_def)

subsection \<open>Sending a message\<close>

lemma client_from_hex_to_hex [simp]: "from_hex (to_hex b) = Inr b"
  using hex_bytes_to_hex [of b "[]"] by (simp add: from_hex_def)

text \<open>The frame a direct message travels in, and the parameters of the call that hands it to the outbox.\<close>

definition dm_delivery :: "cl_env \<Rightarrow> client \<Rightarrow> key_a \<Rightarrow> string \<Rightarrow> bytes \<Rightarrow> ratchet_message \<Rightarrow> delivery_frame" where
  "dm_delivery E s ka ps mid m =
     (let dev = outbox_device (list_key_c (keystore s)) in
        \<lparr>df_message_id = mid, df_persistence = ps, df_sender_id = sender_id_of E (ka_pubkey ka),
         df_cert_fingerprint = (case dev of Some k \<Rightarrow> sha3_256 (ce_crypto E) (kc_auth_cert k) | None \<Rightarrow> zeros 32),
         df_sender_outbox_cert = (case dev of Some k \<Rightarrow> kc_auth_cert k | None \<Rightarrow> []),
         df_envelope_type = ''ratchet'', df_encrypted_envelope = ratchet_envelope (ce_cbor E) m\<rparr>)"

definition dm_frame :: "cl_env \<Rightarrow> client \<Rightarrow> key_a \<Rightarrow> string \<Rightarrow> bytes \<Rightarrow> ratchet_message \<Rightarrow> bytes" where
  "dm_frame E s ka ps mid m = encode_delivery_frame (ce_cbor E) (dm_delivery E s ka ps mid m)"

definition enqueue_params :: "string \<Rightarrow> contact \<Rightarrow> bytes \<Rightarrow> cmap" where
  "enqueue_params i ct fr = cmap_of
     [(''message_id'', VString i), (''recipient_key_b_kem_pubkey'', VBytes (ct_their_dm_key_b_kem ct)), (''delivery_frame'', VBytes fr),
      (''priority'', VString ''normal''), (''ttl_seconds'', VUint 604800)]"

definition drawn_rnd :: "cl_env \<Rightarrow> nat \<Rightarrow> ratchet_rnd" where
  "drawn_rnd E n = \<lparr>rr_kem = ce_random E n 32, rr_key = ce_random E (Suc n) 64, rr_nonce = ce_random E (Suc (Suc n)) 12\<rparr>"

lemma mgr_encrypt_ok:
  assumes "no_nul c" "view C g c = Some st" "ratchet_encrypt K rn st pt = (st', Inr m)"
  obtains g' where "mgr_encrypt K C en now rn g c pt = (g', Inr m)" "view C g' c = Some st'"
proof -
  have "refines C (mgr_encrypt K C en now rn g c pt) ((view C g)(c \<mapsto> st'), Some (Inr m))"
    using with_state_refines [OF assms(1), of C en now g "\<lambda>st. ratchet_encrypt K rn st pt"] assms(2,3)
    by (simp add: mgr_encrypt_def spec_step_def)
  then show ?thesis
    using that assms(1) by (cases "mgr_encrypt K C en now rn g c pt") (simp add: refines_def)
qed

text \<open>A state in which a direct message can be sent.\<close>

definition can_send :: "cl_env \<Rightarrow> client \<Rightarrow> string \<Rightarrow> key_a \<Rightarrow> conversation \<Rightarrow> contact \<Rightarrow> bool" where
  "can_send E s c ka conv ct \<longleftrightarrow> no_nul c \<and> get_key_a (keystore s) = Some ka \<and> get_conversation (cl_store s) c = Some conv \<and>
     cv_type conv = ''dm'' \<and> get_contact (cl_store s) (cv_contact_id conv) = Some ct \<and> cl_up s Outbox_Svc"

lemma quietly_call:
  "cl_up s v \<Longrightarrow> quietly (call E v n p) s = (s\<lparr>cl_calls := cl_calls s @ [(v, n, p)]\<rparr>, Inr ())"
  by (cases "ce_ans E v (length (cl_calls s)) n p") (simp_all add: quietly_def bnd_def attempt_def call_def ret_def)

lemma encrypt_ratchet_envelope_ok:
  assumes "mgr_encrypt (ce_crypto E) (ce_cbor E) (ce_null_data E) (ce_now_s E) (drawn_rnd E (cl_draws s)) (cl_mgr s) c af = (g', Inr m)"
  shows "encrypt_ratchet_envelope E c af s = (s\<lparr>cl_mgr := g', cl_draws := cl_draws s + 3\<rparr>, Inr (ratchet_envelope (ce_cbor E) m))"
  using assms
  by (simp add: encrypt_ratchet_envelope_def draw_ratchet_rnd_def drawn_rnd_def bnd_def draw_def ret_def with_mgr_def numeral_3_eq_3)

lemma enqueue_dm_ok:
  assumes "can_send E s c ka conv ct" "view (ce_cbor E) (cl_mgr s) c = Some st"
    and "ratchet_encrypt (ce_crypto E) (drawn_rnd E (cl_draws s)) st af = (st', Inr m)"
  obtains g' where "enqueue_dm E c af ps (to_hex mid) s = (s\<lparr>cl_mgr := g', cl_draws := cl_draws s + 3,
      cl_calls := cl_calls s @ [(Outbox_Svc, ''outbox.enqueue'', enqueue_params (to_hex mid) ct (dm_frame E s ka ps mid m))]\<rparr>, Inr ())"
    "view (ce_cbor E) g' c = Some st'"
proof -
  have "no_nul c"
    using assms(1) by (simp add: can_send_def)
  from mgr_encrypt_ok [OF this assms(2,3)] obtain g' where
    g': "mgr_encrypt (ce_crypto E) (ce_cbor E) (ce_null_data E) (ce_now_s E) (drawn_rnd E (cl_draws s)) (cl_mgr s) c af = (g', Inr m)"
    "view (ce_cbor E) g' c = Some st'"
    by blast
  have "enqueue_dm E c af ps (to_hex mid) s = (s\<lparr>cl_mgr := g', cl_draws := cl_draws s + 3,
      cl_calls := cl_calls s @ [(Outbox_Svc, ''outbox.enqueue'', enqueue_params (to_hex mid) ct (dm_frame E s ka ps mid m))]\<rparr>, Inr ())"
    using assms(1) encrypt_ratchet_envelope_ok [OF g'(1)]
    by (simp add: enqueue_dm_def can_send_def require_key_a_def bnd_def asks_def lift_def ret_def quietly_call enqueue_params_def
        dm_frame_def dm_delivery_def Let_def)
  then show ?thesis
    using that g'(2) by blast
qed

lemma app_frame_nonempty:
  assumes "cbor_ok (ce_cbor E)" "list_all (\<lambda>(k, v). key_lit k) kvs" "list_all (\<lambda>(k, v). plain v 63) kvs" "length kvs \<le> cap" "length kvs < 2 ^ 64"
  shows "app_frame E cap kvs \<noteq> []"
proof -
  obtain pl where "cbor_serialize (ce_cbor E) (definite_map (ce_cbor E) cap (str_fields kvs)) = Some pl"
    "cbor_load (ce_cbor E) pl = Some (CMap (str_fields kvs))"
    by (rule print_fields [OF assms])
  then show ?thesis
    using cbor_load_Nil [OF assms(1)] by (auto simp: app_frame_def serialize_or_empty_def)
qed

text \<open>A string that travels as CBOR text.\<close>

definition cbor_text :: "string \<Rightarrow> bool" where
  "cbor_text x \<longleftrightarrow> no_nul x \<and> ascii x \<and> length x < 2 ^ 64"

lemma message_frame_nonempty:
  assumes "cbor_ok (ce_cbor E)" "cbor_text c" "cbor_text tx" "cbor_text rp" "length i < 2 ^ 64"
  shows "message_frame E i c tx rp \<noteq> []"
proof -
  have "cbor_text ''message''" "cbor_text ''text''"
    by (simp_all add: cbor_text_def no_nul_def ascii_def)
  then show ?thesis
    unfolding message_frame_def
    using assms by (intro app_frame_nonempty) (auto simp: frame_head_def cbor_text_def key_lit_def list_all_iff as_bytes_def)
qed

text \<open>The row a sent message is stored as.\<close>

definition sent_row :: "cl_env \<Rightarrow> client \<Rightarrow> key_a \<Rightarrow> string \<Rightarrow> string \<Rightarrow> string \<Rightarrow> string \<Rightarrow> stored_message" where
  "sent_row E s ka i c tx rp =
     \<lparr>sm_id = i, sm_conversation_id = c, sm_sender_id = sender_id_of E (ka_pubkey ka), sm_seq = next_seq (cl_store s) c,
      sm_content_type = ''text'', sm_text = tx, sm_ciphertext = message_frame E i c tx rp, sm_sent_at = ce_now_ms E, sm_received_at = 0,
      sm_status = ''pending'', sm_reply_to_id = rp\<rparr>"

lemma send_message_to_enqueue:
  assumes "get_key_a (keystore s) = Some ka" "i = to_hex (ce_random E (cl_draws s) 16)"
    and "insert_message (ce_null_data E) (cl_store s) (sent_row E s ka i c tx rp) = (d, Inr b)"
  shows "send_message E c tx rp s = bnd (enqueue_for_conv E c (message_frame E i c tx rp) ''store'' i) (\<lambda>_. ret i)
      (s\<lparr>cl_draws := Suc (cl_draws s), cl_store := d\<rparr>)"
proof -
  let ?s = "s\<lparr>cl_draws := Suc (cl_draws s)\<rparr>"
  have r: "rand_hex_id E s = (?s, Inr i)"
    using assms(2) by (simp add: rand_hex_id_def bnd_def draw_def ret_def)
  have k: "require_key_a ?s = (?s, Inr ka)"
    using assms(1) by (simp add: require_key_a_def bnd_def asks_def ret_def keystore_def)
  show ?thesis
    using assms(3) by (simp add: send_message_def Let_def bnd_def [of "rand_hex_id E"] r bnd_def [of require_key_a] k
        bnd_def [of "asks _"] bnd_def [of "with_store _"] asks_def with_store_def sent_row_def)
qed

text \<open>
  C5. Sending a text message in a direct conversation whose ratchet encrypts: the message gets
  the conversation's next sequence number and is stored as pending, at the end of the table; the
  ratchet of the conversation moves to the state after the encryption; one call goes to the
  outbox, with the frame of the encrypted message, and whatever the outbox answers, the caller
  gets the new message's identifier.
\<close>

theorem send_message_dm:
  assumes "can_send E s c ka conv ct" "store_ok (cl_store s)" "cbor_ok (ce_cbor E)" "hash_ok (ce_crypto E)"
    and "cbor_text c" "cbor_text tx" "cbor_text rp" "mid = ce_random E (cl_draws s) 16" "length mid = 16"
    and "to_hex mid \<notin> sm_id ` set (ms_messages (cl_store s))" "next_seq (cl_store s) c < 2 ^ 63 - 1"
    and "view (ce_cbor E) (cl_mgr s) c = Some st"
    and "ratchet_encrypt (ce_crypto E) (drawn_rnd E (Suc (cl_draws s))) st (message_frame E (to_hex mid) c tx rp) = (st', Inr m)"
  shows "\<exists>g'. view (ce_cbor E) g' c = Some st'
    \<and> send_message E c tx rp s = (s\<lparr>cl_mgr := g', cl_draws := cl_draws s + 4,
        cl_store := (cl_store s)\<lparr>ms_messages := ms_messages (cl_store s) @ [sent_row E s ka (to_hex mid) c tx rp]\<rparr>,
        cl_calls := cl_calls s @
          [(Outbox_Svc, ''outbox.enqueue'', enqueue_params (to_hex mid) ct (dm_frame E s ka ''store'' mid m))]\<rparr>, Inr (to_hex mid))"
proof -
  let ?row = "sent_row E s ka (to_hex mid) c tx rp"
  let ?d = "(cl_store s)\<lparr>ms_messages := ms_messages (cl_store s) @ [?row]\<rparr>"
  let ?s = "s\<lparr>cl_draws := Suc (cl_draws s), cl_store := ?d\<rparr>"
  have "length (to_hex mid) < 2 ^ 64"
    using assms(9) by simp
  then have "message_frame E (to_hex mid) c tx rp \<noteq> []"
    by (rule message_frame_nonempty [OF assms(3,5-7)])
  moreover have "length (sender_id_of E (ka_pubkey ka)) = 32"
    using assms(4) by (simp add: sender_id_of_def hash_ok_def sha3_256_def)
  then have "sender_id_of E (ka_pubkey ka) \<noteq> []"
    by force
  ultimately have "insert_message (ce_null_data E) (cl_store s) ?row = (?d, Inr True)"
    using insert_next_seq [OF assms(2), of ?row 1] assms(10,11) by (simp add: sent_row_def)
  then have snd: "send_message E c tx rp s = bnd (enqueue_for_conv E c (message_frame E (to_hex mid) c tx rp) ''store'' (to_hex mid))
      (\<lambda>_. ret (to_hex mid)) ?s"
    using assms(1,8) by (intro send_message_to_enqueue [where b = True]) (simp_all add: can_send_def)
  have cs: "can_send E ?s c ka conv ct" "view (ce_cbor E) (cl_mgr ?s) c = Some st"
    using assms(1,12) by (simp_all add: can_send_def keystore_def get_conversation_def get_contact_def)
  obtain g' where g': "enqueue_dm E c (message_frame E (to_hex mid) c tx rp) ''store'' (to_hex mid) ?s
      = (?s\<lparr>cl_mgr := g', cl_draws := cl_draws ?s + 3, cl_calls := cl_calls ?s @
          [(Outbox_Svc, ''outbox.enqueue'', enqueue_params (to_hex mid) ct (dm_frame E ?s ka ''store'' mid m))]\<rparr>, Inr ())"
    "view (ce_cbor E) g' c = Some st'"
    by (rule enqueue_dm_ok [OF cs, of "message_frame E (to_hex mid) c tx rp" st' m]) (use assms(13) in simp_all)
  have "get_conversation (cl_store ?s) c = Some conv" "cv_type conv = ''dm''"
    using cs(1) by (simp_all add: can_send_def)
  then have "enqueue_for_conv E c f ''store'' j ?s = enqueue_dm E c f ''store'' j ?s" for f j
    by (simp add: enqueue_for_conv_def bnd_def [of "asks _"] asks_def)
  then have "send_message E c tx rp s = (s\<lparr>cl_mgr := g', cl_draws := cl_draws s + 4, cl_store := ?d, cl_calls := cl_calls s @
      [(Outbox_Svc, ''outbox.enqueue'', enqueue_params (to_hex mid) ct (dm_frame E s ka ''store'' mid m))]\<rparr>, Inr (to_hex mid))"
    using g'(1) unfolding snd by (simp add: bnd_def ret_def dm_frame_def dm_delivery_def keystore_def)
  with g'(2) show ?thesis
    by blast
qed

lemma demo_encrypts_any: "\<exists>st m. ratchet_encrypt demo_crypto rn demo_state pt = (st, Inr m)"
  by (auto simp: ratchet_encrypt_def kem_step_send_def demo_state_def chain_step_def kdf_def shake256_32_parts_def shake256_parts_def
      aes_encrypt_def demo_crypto_def size_defs Let_def)

definition demo_key_a :: key_a where
  "demo_key_a = \<lparr>ka_pubkey = zeros 1952, ka_privkey = zeros 4032, ka_created_at = 0\<rparr>"

definition demo_conversation :: conversation where
  "demo_conversation = \<lparr>cv_id = ''c1'', cv_type = ''dm'', cv_display_name = ''Bob'', cv_contact_id = ''bob'', cv_group_id = [], cv_last_read_seq = 0,
     cv_created_at = 0\<rparr>"

definition demo_contact :: contact where
  "demo_contact = \<lparr>ct_id = ''bob'', ct_display_name = ''Bob'', ct_key_a_pubkey = zeros 1952, ct_their_dm_key_b_kem = zeros 1184,
     ct_their_dm_key_b_sig = zeros 1952, ct_my_key_b_id = ''kb'', ct_their_key_c_pubkeys = [1], ct_added_at = 0, ct_status = ''active''\<rparr>"

definition demo_texter :: client where
  "demo_texter = (client_new default_config keystore_new (init_schema\<lparr>ms_conversations := [demo_conversation], ms_contacts := [demo_contact]\<rparr>))
     \<lparr>cl_mgr := \<lparr>rg_ks = keystore_new\<lparr>ks_db := Open (keydb_new\<lparr>kt_key_a := Some demo_key_a\<rparr>), ks_have_master_key := True\<rparr>,
        rg_cache = [(''c1'', demo_state)]\<rparr>, cl_up := (\<lambda>_. True)\<rparr>"

lemma demo_can_send: "can_send demo_cl_env demo_texter ''c1'' demo_key_a demo_conversation demo_contact"
  by (simp add: can_send_def demo_texter_def client_new_def keystore_def get_key_a_def query_db_def get_conversation_def get_contact_def
      row_to_conversation_def row_to_contact_def demo_conversation_def demo_contact_def no_nul_def init_schema_def)

theorem send_message_dm_witness:
  "\<exists>s'. send_message demo_cl_env ''c1'' ''hi'' [] demo_texter = (s', Inr (to_hex (zeros 16)))
    \<and> map sm_status (ms_messages (cl_store s')) = [''pending''] \<and> length (cl_calls s') = 1"
proof -
  have "cbor_text ''c1''" "cbor_text ''hi''" "cbor_text []"
    by (simp_all add: cbor_text_def no_nul_def ascii_def)
  moreover have "ms_messages (cl_store demo_texter) = []" "cl_draws demo_texter = 0" "cl_calls demo_texter = []" "store_ok (cl_store demo_texter)"
    "view (ce_cbor demo_cl_env) (cl_mgr demo_texter) ''c1'' = Some demo_state" "next_seq (cl_store demo_texter) ''c1'' = 1"
    by (simp_all add: demo_texter_def client_new_def init_schema_def store_ok_def messages_ok_def pk_def view_def next_seq_def)
  moreover have "ce_cbor demo_cl_env = wire_cbor" "ce_crypto demo_cl_env = demo_crypto" "ce_random demo_cl_env 0 16 = zeros 16"
    by (simp_all add: demo_cl_env_def zeros_def)
  moreover obtain st m where "ratchet_encrypt demo_crypto (drawn_rnd demo_cl_env 1) demo_state
      (message_frame demo_cl_env (to_hex (zeros 16)) ''c1'' ''hi'' []) = (st, Inr m)"
    using demo_encrypts_any by blast
  ultimately show ?thesis
    using send_message_dm [OF demo_can_send, of "''hi''" "[]" "zeros 16" demo_state st m]
    by (auto simp: sent_row_def wire_cbor_ok)
qed

end
