(* ===== verification/Client_Services.thy ===== *)
theory Client_Services
  imports Client_Effects Inbox_Run Outbox_Run
begin

text \<open>The client's calls as the inbox and the outbox see them: lemmas for the properties that span the three programs.\<close>

subsection \<open>Frames the client hands to the outbox\<close>

lemma parse_client_frame:
  assumes "cbor_ok C" "frame_ok f" "length (df_message_id f) = 16"
  shows "parse_delivery_frame C (encode_delivery_frame C f) = Some
    \<lparr>dh_message_id = to_hex (df_message_id f), dh_recipient_key_b_kem_pubkey_hex = [], dh_sender_outbox_key_c_pubkey_hex = []\<rparr>"
proof -
  have "to_hex (df_message_id f) \<noteq> []"
    using assms(3) length_to_hex [of "df_message_id f"] by fastforce
  then show ?thesis
    using load_encoded_frame [OF assms(1,2)] assms(3)
    by (simp add: parse_delivery_frame_def frame_fields_def str_fields_def delivery_field_def build_string_def build_uint64_def c_str_def Let_def)
qed

lemma encode_nonempty: "cbor_ok C \<Longrightarrow> frame_ok f \<Longrightarrow> encode_delivery_frame C f \<noteq> []"
  using load_encoded_frame cbor_load_Nil by fastforce

lemma enqueue_params_fields [simp]:
  "map_of (enqueue_params i ct fr) ''delivery_frame'' = Some (VBytes fr)"
  "map_of (enqueue_params i ct fr) ''recipient_inboxes'' = None"
  "map_of (enqueue_params i ct fr) ''ttl_ms'' = None"
  by (simp_all add: enqueue_params_def cmap_of_def)

text \<open>A message without recipients: the first attempt fails without a call, and its row stays pending.\<close>

lemma enqueue_no_recipient:
  assumes new: "\<not> message_exists (dm_store s) (dh_message_id hdr)"
    and none: "enq_recipients hdr p = []" "\<forall>r\<in>set (os_recipients (dm_store s)). ri_message_id r \<noteq> dh_message_id hdr"
    and s': "s' = immediate_attempt C ans cfg t' (s\<lparr>dm_store := enq_store en (dm_store s) hdr fr p t\<rparr>) (dh_message_id hdr)"
  shows "\<exists>n. os_messages (dm_store s') = os_messages (dm_store s) @ [(enq_row hdr fr p t)\<lparr>qm_attempt_count := 1, qm_next_attempt_at := n\<rparr>]"
    and "os_recipients (dm_store s') = os_recipients (dm_store s)"
proof -
  have "get_recipient_inboxes (enq_store en (dm_store s) hdr fr p t) (dh_message_id hdr) = []"
    using none by (auto simp: get_recipient_inboxes_def enq_store_def filter_empty_conv)
  then obtain n where d: "dm_store s' = update_attempt (enq_store en (dm_store s) hdr fr p t) (dh_message_id hdr) 1 n"
    unfolding s' by (simp add: immediate_attempt_def enq_get [OF new] Let_def)
  show "os_recipients (dm_store s') = os_recipients (dm_store s)"
    using none(1) by (simp add: d update_attempt_def enq_store_def)
  show "\<exists>n. os_messages (dm_store s') = os_messages (dm_store s) @ [(enq_row hdr fr p t)\<lparr>qm_attempt_count := 1, qm_next_attempt_at := n\<rparr>]"
    using none(1) update_new [OF new] by (auto simp: d update_attempt_def enq_store_def)
qed

lemma allowlist_call:
  assumes "cl_up s Inbox_Svc"
  obtains p where "push_sender_allowlist E s = (s\<lparr>cl_calls := cl_calls s @ [(Inbox_Svc, ''inbox.update_sender_allowlist'', p)]\<rparr>, Inr ())"
    "map_of p ''sender_ids'' = None"
proof -
  obtain ls where "push_sender_allowlist E s = quietly (call E Inbox_Svc ''inbox.update_sender_allowlist''
      (cmap_of [(''allowed_senders'', VArray ls)])) s"
    by (simp add: push_sender_allowlist_def bnd_def asks_def)
  moreover have "map_of (cmap_of [(''allowed_senders'', VArray ls)]) ''sender_ids'' = None"
    by (simp add: cmap_of_def)
  ultimately show ?thesis
    using that quietly_call [OF assms] by simp
qed

subsection \<open>Provisioning\<close>

text \<open>The material of a new inbox device: the key pair and the two certificates, from the draws of the client.\<close>

definition issued :: "cl_env \<Rightarrow> nat \<Rightarrow> key_a \<Rightarrow> key_pair \<Rightarrow> bytes \<Rightarrow> bytes \<Rightarrow> bool" where
  "issued E n ka kp cert deleg \<longleftrightarrow> mldsa_keygen (ce_crypto E) (ce_random E n 64) = Inr kp \<and>
     issue_auth_cert (ce_crypto E) (ce_cbor E) (ce_behind E) (ce_random E (Suc n) 32) (ka_privkey ka) (ka_pubkey ka) (kp_pub kp)
       ''inbox'' ''inbox'' (ce_now_s E) = Inr cert \<and>
     issue_delegation_cert (ce_crypto E) (ce_cbor E) (ce_behind E) (ce_random E (Suc (Suc n)) 32) (ka_privkey ka) (ka_pubkey ka) (kp_pub kp)
       (ce_now_s E) = Inr deleg"

lemma sign_map_succeeds:
  assumes "sig_pair K pub priv"
  shows "\<exists>x. sign_map K C behind coins priv ps = Inr x"
proof -
  obtain sg where "mldsa_sign K coins priv (cbor_map_without_sig C behind ps) = Inr sg"
    by (rule sig_pair_sign [OF assms])
  then show ?thesis
    by (simp add: sign_map_def)
qed

lemma issued_exists:
  assumes "cbor_ok (ce_cbor E)" "hash_ok (ce_crypto E)" "sig_pair (ce_crypto E) (ka_pubkey ka) (ka_privkey ka)" "ce_behind E = (\<lambda>_. [])"
    and "mldsa_keygen (ce_crypto E) (ce_random E n 64) = Inr kp" "length (kp_pub kp) = MLDSA65_PUBKEY_BYTES"
  obtains cert deleg where "issued E n ka kp cert deleg" "cert \<noteq> []"
proof -
  obtain cert kvs where c: "issue_auth_cert (ce_crypto E) (ce_cbor E) (ce_behind E) (ce_random E (Suc n) 32) (ka_privkey ka) (ka_pubkey ka) (kp_pub kp)
       ''inbox'' ''inbox'' (ce_now_s E) = Inr cert" "cbor_load (ce_cbor E) cert = Some (CMap kvs)"
    using issued_auth_cert_valid [OF assms(1-3,6), of "''inbox''" "''inbox''" "ce_random E (Suc n) 32" "ce_now_s E"]
    unfolding assms(4) by (auto simp: ascii_def)
  obtain deleg where "issue_delegation_cert (ce_crypto E) (ce_cbor E) (ce_behind E) (ce_random E (Suc (Suc n)) 32) (ka_privkey ka) (ka_pubkey ka)
       (kp_pub kp) (ce_now_s E) = Inr deleg"
    using sign_map_succeeds [OF assms(3)] unfolding issue_delegation_cert_def by blast
  with c assms(5) cbor_load_Nil [OF assms(1)] show ?thesis
    by (intro that) (auto simp: issued_def)
qed

definition delegation_params :: "key_pair \<Rightarrow> bytes \<Rightarrow> bytes \<Rightarrow> cmap" where
  "delegation_params kp cert deleg = cmap_of (key_c_params kp cert @ [(''delegation_cert'', VBytes deleg)])"

lemma inbox_accepts_delegation:
  assumes "kp_pub kp \<noteq> []" "kp_priv kp \<noteq> []" "cert \<noteq> []"
  shows "inbox_handle en ans t ib ''inbox.update_dht_delegation'' (delegation_params kp cert deleg) =
    (ib\<lparr>dm_store := (dm_store ib)\<lparr>is_credentials := Some \<lparr>cr_key_c_pubkey = kp_pub kp, cr_key_c_privkey = kp_priv kp,
       cr_auth_cert = cert, cr_delegation_cert = deleg\<rparr>\<rparr>\<rparr>, Inr ok_result)"
  using assms by (simp add: inbox_handle_def Inbox.on_store_def update_dht_delegation_def Inbox.stored_def delegation_params_def key_c_params_def
      cmap_of_def req_bytes_def set_dht_credentials_def null_blob_def Let_def)

lemma provision_inbox_ok:
  assumes "issued E (cl_draws s) ka kp cert deleg" "cl_up s Inbox_Svc" "cert \<noteq> []"
    and "ce_ans E Inbox_Svc (length (cl_calls s)) ''inbox.update_dht_delegation'' (delegation_params kp cert deleg) = Inr r"
  shows "\<exists>s'. provision_inbox E ka s = (s', Inr ())
    \<and> cl_calls s' = cl_calls s @ [(Inbox_Svc, ''inbox.update_dht_delegation'', delegation_params kp cert deleg)]
    \<and> keystore s' = insert_key_c (ce_null_data E) (keystore s) (device_row E ''inbox'' ''inbox'' kp cert deleg)"
proof -
  let ?s1 = "s\<lparr>cl_draws := Suc (cl_draws s)\<rparr>" and ?s3 = "s\<lparr>cl_draws := Suc (Suc (Suc (cl_draws s)))\<rparr>"
  let ?s2 = "s\<lparr>cl_draws := Suc (Suc (cl_draws s))\<rparr>"
  have g: "gen_key_c E s = (?s1, Inr kp)" "new_auth_cert E ka kp ''inbox'' ''inbox'' ?s1 = (?s2, Inr cert)"
    "new_delegation_cert E ka kp ?s2 = (?s3, Inr deleg)"
    using assms(1) by (simp_all add: issued_def gen_key_c_def new_auth_cert_def new_delegation_cert_def bnd_def draw_def lift_def)
  show ?thesis
    using assms(2,4)
    by (simp add: provision_inbox_def bnd_def g quietly_def attempt_def call_def upd_ks_def upd_def ret_def keystore_def
        flip: delegation_params_def)
qed

lemma list_insert_key_c:
  assumes "ks_db k = Open d" "\<not> null_blob en (kc_auth_cert row)" "c_str (kc_device_id row) = kc_device_id row"
    "c_str (kc_device_type row) = kc_device_type row" "c_str (kc_device_label row) = kc_device_label row"
  shows "row \<in> set (list_key_c (insert_key_c en k row))"
  using assms by (simp add: list_key_c_def insert_key_c_def query_db_def on_db_def sql_replace_def)

end
