(* ===== verification/Cli.thy ===== *)
theory Cli
  imports Client_Ipc
begin

text \<open>
  The command line (\<^verbatim>\<open>cli/src/main.cpp\<close>): every command is a sequence of calls to the client and of
  output. A command is a function on the process's streams and calls; it goes on, leaves through
  \<^verbatim>\<open>std::exit\<close>, or ends the process with an exception nobody catches. The client's answers, the
  files, the environment variable and the local time are arguments. The lines the push handlers
  print while \<^verbatim>\<open>msg\<close> and \<^verbatim>\<open>shell\<close> wait for input are \<open>msg_push\<close> and \<open>shell_push\<close>.
\<close>

record cli_env =
  ca_socket :: "string option"
  ca_connect :: "string \<Rightarrow> unit res"
  ca_answer :: "nat \<Rightarrow> string \<Rightarrow> cmap \<Rightarrow> cmap res"
  ca_file :: "string \<Rightarrow> bytes option"
  ca_strftime :: "u64 \<Rightarrow> string"
  ca_what :: "exn \<Rightarrow> string"

record cli =
  co_in :: "string list"
  co_out :: string
  co_err :: string
  co_calls :: "(string \<times> cmap) list"

datatype 'a flow = Next 'a | Exited int | Terminated exn

type_synonym 'a cmd = "cli \<Rightarrow> cli \<times> 'a flow"

definition nextc :: "'a \<Rightarrow> 'a cmd" where
  "nextc x s = (s, Next x)"

definition thenc :: "'a cmd \<Rightarrow> ('a \<Rightarrow> 'b cmd) \<Rightarrow> 'b cmd" where
  "thenc m f s = (case m s of (s', Next x) \<Rightarrow> f x s' | (s', Exited n) \<Rightarrow> (s', Exited n) | (s', Terminated e) \<Rightarrow> (s', Terminated e))"

definition out :: "string \<Rightarrow> unit cmd" where
  "out t s = (s\<lparr>co_out := co_out s @ t\<rparr>, Next ())"

definition errc :: "string \<Rightarrow> unit cmd" where
  "errc t s = (s\<lparr>co_err := co_err s @ t\<rparr>, Next ())"

definition exitc :: "int \<Rightarrow> 'a cmd" where
  "exitc n s = (s, Exited n)"

definition liftc :: "'a res \<Rightarrow> 'a cmd" where
  "liftc r s = (case r of Inl e \<Rightarrow> (s, Terminated e) | Inr x \<Rightarrow> (s, Next x))"

primrec eachc :: "'a list \<Rightarrow> ('a \<Rightarrow> unit cmd) \<Rightarrow> unit cmd" where
  "eachc [] f = nextc ()"
| "eachc (x # xs) f = thenc (f x) (\<lambda>_. eachc xs f)"

lemmas cmd_defs = nextc_def thenc_def out_def errc_def exitc_def liftc_def

subsection \<open>Text\<close>

definition nl :: string where
  "nl = [CHR 0x0A]"

definition ellipsis :: string where
  "ellipsis = [CHR 0xE2, CHR 0x80, CHR 0xA6]"

definition em_dash :: string where
  "em_dash = [CHR 0xE2, CHR 0x80, CHR 0x94]"

definition quote :: string where
  "quote = [CHR 0x27]"

text \<open>\<^verbatim>\<open>std::left << std::setw(n)\<close>.\<close>

definition setw :: "nat \<Rightarrow> string \<Rightarrow> string" where
  "setw n t = t @ replicate (n - length t) CHR '' ''"

definition show_u64 :: "u64 \<Rightarrow> string" where
  "show_u64 u = show_nat (unat u)"

definition socket_path :: "cli_env \<Rightarrow> string" where
  "socket_path A = (case ca_socket A of Some p \<Rightarrow> p | None \<Rightarrow> ''/run/scatterweb/client.sock'')"

definition format_time_ms :: "cli_env \<Rightarrow> u64 \<Rightarrow> string" where
  "format_time_ms A ms = ca_strftime A (ms div 1000)"

definition read_passphrase :: "string \<Rightarrow> string cmd" where
  "read_passphrase prompt s =
     (case co_in s of
        [] \<Rightarrow> (s\<lparr>co_err := co_err s @ prompt @ nl\<rparr>, Next [])
      | l # ls \<Rightarrow> (s\<lparr>co_err := co_err s @ prompt @ nl, co_in := ls\<rparr>, Next l))"

subsection \<open>Fields of an answer\<close>

definition get_str :: "cmap \<Rightarrow> string \<Rightarrow> string" where
  "get_str m k = (case map_of m k of Some (VString v) \<Rightarrow> v | _ \<Rightarrow> [])"

definition get_uint :: "cmap \<Rightarrow> string \<Rightarrow> u64" where
  "get_uint m k = (case map_of m k of Some (VUint u) \<Rightarrow> u | _ \<Rightarrow> 0)"

definition get_int :: "cmap \<Rightarrow> string \<Rightarrow> int" where
  "get_int m k = (case map_of m k of Some (VInt i) \<Rightarrow> i | Some (VUint u) \<Rightarrow> int64_of u | _ \<Rightarrow> 0)"

definition get_bool :: "cmap \<Rightarrow> string \<Rightarrow> bool" where
  "get_bool m k = (case map_of m k of Some (VBool b) \<Rightarrow> b | _ \<Rightarrow> False)"

definition xcall :: "cli_env \<Rightarrow> string \<Rightarrow> (string \<times> cval) list \<Rightarrow> cmap cmd" where
  "xcall A name kvs s =
     (let p = cmap_of kvs; s' = s\<lparr>co_calls := co_calls s @ [(name, p)]\<rparr> in
      case ca_answer A (length (co_calls s)) name p of
        Inr r \<Rightarrow> (s', Next r)
      | Inl e \<Rightarrow> (s'\<lparr>co_err := co_err s @ ''Error: '' @ what (ca_what A) e @ nl\<rparr>, Exited 1))"

text \<open>A call whose answer is only reported by a fixed text.\<close>

definition simple_call :: "cli_env \<Rightarrow> string \<Rightarrow> (string \<times> cval) list \<Rightarrow> string \<Rightarrow> unit cmd" where
  "simple_call A name kvs t = thenc (xcall A name kvs) (\<lambda>_. out (t @ nl))"

text \<open>The entries of a list in the answer, each a map, or the text for an answer without the list.\<close>

definition list_call :: "cli_env \<Rightarrow> string \<Rightarrow> string \<Rightarrow> string \<Rightarrow> (cmap \<Rightarrow> string) \<Rightarrow> unit cmd" where
  "list_call A name key none line =
     thenc (xcall A name []) (\<lambda>r.
     case map_of r key of
       Some (VArray vs) \<Rightarrow> eachc vs (\<lambda>v. thenc (liftc (as_map v)) (\<lambda>m. out (line m @ nl)))
     | _ \<Rightarrow> out (none @ nl))"

subsection \<open>Session, identity, contacts\<close>

definition cmd_unlock :: "cli_env \<Rightarrow> unit cmd" where
  "cmd_unlock A =
     thenc (read_passphrase ''Passphrase: '') (\<lambda>pass.
     thenc (xcall A ''session.unlock'' [(''passphrase'', VString pass)]) (\<lambda>r.
       out (''Unlocked'' @ nl @ ''  Name:        '' @ get_str r ''display_name'' @ nl @
            ''  Fingerprint: '' @ get_str r ''key_a_pubkey_fingerprint'' @ nl)))"

definition cmd_lock :: "cli_env \<Rightarrow> unit cmd" where
  "cmd_lock A = simple_call A ''session.lock'' [] ''Locked''"

definition cmd_id :: "cli_env \<Rightarrow> unit cmd" where
  "cmd_id A = thenc (xcall A ''identity.get_profile'' []) (\<lambda>r.
     out (''Name:         '' @ get_str r ''display_name'' @ nl @ ''Fingerprint:  '' @ get_str r ''key_a_fingerprint'' @ nl @
          ''Contact card: '' @ get_str r ''contact_card_uri'' @ nl))"

definition cmd_id_set_name :: "cli_env \<Rightarrow> string \<Rightarrow> unit cmd" where
  "cmd_id_set_name A name = simple_call A ''identity.set_display_name'' [(''display_name'', VString name)] ''Name updated''"

definition cmd_id_qr :: "cli_env \<Rightarrow> unit cmd" where
  "cmd_id_qr A = thenc (xcall A ''identity.get_profile'' []) (\<lambda>r.
     out (''Contact card URI:'' @ nl @ get_str r ''contact_card_uri'' @ nl @
          ''(QR PNG rendering not available in CLI reference implementation)'' @ nl))"

definition contact_line :: "cmap \<Rightarrow> string" where
  "contact_line m = get_str m ''id'' @ ''  '' @ setw 24 (get_str m ''display_name'') @ ''  '' @ get_str m ''status''"

definition cmd_contacts_list :: "cli_env \<Rightarrow> unit cmd" where
  "cmd_contacts_list A = list_call A ''contacts.list'' ''contacts'' ''No contacts'' contact_line"

definition cmd_contacts_add :: "cli_env \<Rightarrow> string \<Rightarrow> unit cmd" where
  "cmd_contacts_add A uri = thenc (xcall A ''contacts.send_request'' [(''contact_card_uri'', VString uri)]) (\<lambda>r.
     out (''Request sent'' @ nl @ ''  ID:   '' @ get_str r ''contact_id'' @ nl @ ''  Name: '' @ get_str r ''display_name'' @ nl))"

definition cmd_contacts_simple :: "cli_env \<Rightarrow> string \<Rightarrow> string \<Rightarrow> unit cmd" where
  "cmd_contacts_simple A name i = simple_call A name [(''contact_id'', VString i)] ''Done''"

subsection \<open>Conversations and messages\<close>

definition conv_line :: "cmap \<Rightarrow> string" where
  "conv_line m =
     (let tp = (case map_of m ''last_message'' of Some (VMap lm) \<Rightarrow> get_str lm ''text_preview'' | _ \<Rightarrow> []);
          preview = (if tp \<noteq> [] then take 40 tp else ''(empty)'')
      in get_str m ''id'' @ ''  '' @ setw 20 (get_str m ''display_name'') @ ''  '' @ setw 14 (get_str m ''type'') @ ''  unread:'' @
         setw 4 (show_u64 (get_uint m ''unread_count'')) @ ''  '' @ preview)"

definition cmd_convs_list :: "cli_env \<Rightarrow> unit cmd" where
  "cmd_convs_list A = list_call A ''conversations.list'' ''conversations'' ''No conversations'' conv_line"

definition message_line :: "cli_env \<Rightarrow> cmap \<Rightarrow> string" where
  "message_line A msg =
     (let name = get_str msg ''sender_name''; i = get_str msg ''sender_id'';
          sender = (if name \<noteq> [] then name else if length i > 8 then take 8 i @ ellipsis else i);
          tx = get_str msg ''text''; st = get_str msg ''status''
      in ''['' @ format_time_ms A (get_uint msg ''sent_at'') @ ''] '' @ setw 16 sender @
         (if tx \<noteq> [] then tx else ''(attachment)'') @
         (if st \<noteq> [] \<and> st \<noteq> ''delivered'' then ''  ['' @ st @ '']'' else []) @ nl)"

definition cmd_history :: "cli_env \<Rightarrow> string \<Rightarrow> u32 \<Rightarrow> unit cmd" where
  "cmd_history A conv limit =
     thenc (xcall A ''messages.get'' [(''conversation_id'', VString conv), (''before_id'', VNull), (''limit'', VUint (ucast limit))]) (\<lambda>r.
     case map_of r ''messages'' of
       Some (VArray vs) \<Rightarrow> eachc (rev vs) (\<lambda>v. thenc (liftc (as_map v)) (\<lambda>m. out (message_line A m)))
     | _ \<Rightarrow> out (''No messages'' @ nl))"

definition send_params :: "string \<Rightarrow> cval \<Rightarrow> cval list \<Rightarrow> (string \<times> cval) list" where
  "send_params conv tx atts = [(''conversation_id'', VString conv), (''text'', tx), (''attachments'', VArray atts),
     (''reply_to_id'', VNull), (''mentions'', VArray [])]"

text \<open>The loop over the lines of the standard input that are left.\<close>

primrec msg_loop :: "cli_env \<Rightarrow> string \<Rightarrow> string list \<Rightarrow> unit cmd" where
  "msg_loop A conv [] = out ''> ''"
| "msg_loop A conv (l # ls) =
     thenc (out ''> '') (\<lambda>_.
     if l = ''/quit'' then nextc ()
     else if l = [] then msg_loop A conv ls
     else thenc (xcall A ''messages.send'' (send_params conv (VString l) [])) (\<lambda>_. msg_loop A conv ls))"

definition cmd_msg_interactive :: "cli_env \<Rightarrow> string \<Rightarrow> unit cmd" where
  "cmd_msg_interactive A conv =
     thenc (out (''=== '' @ conv @ '' '' @ em_dash @ '' /quit to exit ==='' @ nl)) (\<lambda>_.
     thenc (cmd_history A conv 20) (\<lambda>_ s. msg_loop A conv (co_in s) s))"

definition msg_push :: "string \<Rightarrow> string \<Rightarrow> cmap \<Rightarrow> string" where
  "msg_push conv ev payload =
     (if ev \<noteq> ''message.received'' \<or> get_str payload ''conversation_id'' \<noteq> conv then []
      else [CHR 0x0D] @ ''['' @ get_str payload ''sender_name'' @ ''] '' @ get_str payload ''text_preview'' @ nl @ ''> '')"

definition sent_line :: "cmap \<Rightarrow> string" where
  "sent_line r = ''Sent: '' @ get_str r ''message_id'' @ nl"

definition cmd_send :: "cli_env \<Rightarrow> string \<Rightarrow> string \<Rightarrow> unit cmd" where
  "cmd_send A conv tx = thenc (xcall A ''messages.send'' (send_params conv (VString tx) [])) (\<lambda>r. out (sent_line r))"

text \<open>\<^verbatim>\<open>filepath.substr(filepath.rfind('/') + 1)\<close>, or the whole path without a slash.\<close>

definition file_name :: "string \<Rightarrow> string" where
  "file_name path = rev (takeWhile (\<lambda>c. c \<noteq> CHR ''/'') (rev path))"

definition attachment :: "string \<Rightarrow> bytes \<Rightarrow> cval" where
  "attachment path data = VMap (cmap_of [(''filename'', VString (file_name path)),
     (''mime_type'', VString ''application/octet-stream''), (''data'', VBytes data)])"

definition cmd_send_file :: "cli_env \<Rightarrow> string \<Rightarrow> string \<Rightarrow> unit cmd" where
  "cmd_send_file A conv path =
     (case ca_file A path of
        None \<Rightarrow> thenc (errc (''Cannot open: '' @ path @ nl)) (\<lambda>_. exitc 1)
      | Some data \<Rightarrow> thenc (xcall A ''messages.send'' (send_params conv VNull [attachment path data])) (\<lambda>r. out (sent_line r)))"

definition cmd_react :: "cli_env \<Rightarrow> string \<Rightarrow> string \<Rightarrow> unit cmd" where
  "cmd_react A i emoji = simple_call A ''messages.react'' [(''message_id'', VString i), (''emoji'', VString emoji)] ''Reacted''"

definition cmd_delete :: "cli_env \<Rightarrow> string \<Rightarrow> unit cmd" where
  "cmd_delete A i = simple_call A ''messages.delete'' [(''message_id'', VString i)] ''Deleted''"

subsection \<open>Groups, servers, calls\<close>

definition cmd_group_create :: "cli_env \<Rightarrow> string \<Rightarrow> string \<Rightarrow> unit cmd" where
  "cmd_group_create A name ty = thenc (xcall A ''groups.create'' [(''name'', VString name), (''type'', VString ty)]) (\<lambda>r.
     out ((if ty = ''server'' then ''Server'' else ''Group'') @ '' created'' @ nl @ ''  group_id: '' @ get_str r ''group_id'' @ nl @
          ''  conv_id:  '' @ get_str r ''conversation_id'' @ nl))"

definition cmd_group_invite :: "cli_env \<Rightarrow> string \<Rightarrow> string \<Rightarrow> unit cmd" where
  "cmd_group_invite A g c = simple_call A ''groups.invite'' [(''group_id'', VString g), (''contact_id'', VString c)] ''Invited''"

definition cmd_group_kick :: "cli_env \<Rightarrow> string \<Rightarrow> string \<Rightarrow> unit cmd" where
  "cmd_group_kick A g c = simple_call A ''groups.kick'' [(''group_id'', VString g), (''contact_id'', VString c)] ''Kicked''"

definition cmd_group_leave :: "cli_env \<Rightarrow> string \<Rightarrow> unit cmd" where
  "cmd_group_leave A g = simple_call A ''groups.leave'' [(''group_id'', VString g)] ''Left''"

definition cmd_server_add_channel :: "cli_env \<Rightarrow> string \<Rightarrow> string \<Rightarrow> string \<Rightarrow> unit cmd" where
  "cmd_server_add_channel A sid name ty =
     thenc (xcall A ''servers.create_channel'' [(''server_id'', VString sid), (''name'', VString name), (''type'', VString ty)]) (\<lambda>r.
     out (''Channel created'' @ nl @ ''  channel_id: '' @ get_str r ''channel_id'' @ nl @
          ''  conv_id:    '' @ get_str r ''conversation_id'' @ nl))"

definition cmd_server_set_role :: "cli_env \<Rightarrow> string \<Rightarrow> string \<Rightarrow> string \<Rightarrow> unit cmd" where
  "cmd_server_set_role A sid c r = simple_call A ''servers.set_member_role''
     [(''server_id'', VString sid), (''contact_id'', VString c), (''role'', VString r)] ''Role updated''"

definition cmd_call_start :: "cli_env \<Rightarrow> string \<Rightarrow> bool \<Rightarrow> unit cmd" where
  "cmd_call_start A conv video =
     thenc (xcall A ''calls.start'' [(''conversation_id'', VString conv), (''anon_level'', VUint 1),
       (''media_config'', VMap (cmap_of [(''audio'', VMap (cmap_of [(''enabled'', VBool True)])),
          (''video'', VMap (cmap_of [(''enabled'', VBool video), (''resolution'', VString ''480p'')]))]))]) (\<lambda>r.
     out (''Call started: '' @ get_str r ''call_id'' @ nl))"

definition cmd_call_accept :: "cli_env \<Rightarrow> string \<Rightarrow> unit cmd" where
  "cmd_call_accept A i = simple_call A ''calls.accept'' [(''call_id'', VString i)] ''Call accepted''"

definition cmd_call_end :: "cli_env \<Rightarrow> string \<Rightarrow> unit cmd" where
  "cmd_call_end A i = simple_call A ''calls.end'' [(''call_id'', VString i)] ''Call ended''"

subsection \<open>Devices, status, shell\<close>

definition device_line :: "cmap \<Rightarrow> string" where
  "device_line m = get_str m ''device_id'' @ ''  '' @ setw 8 (get_str m ''type'') @ ''  '' @ get_str m ''label'' @
     (if get_bool m ''revoked'' then ''  [revoked]'' else [])"

definition cmd_devices_list :: "cli_env \<Rightarrow> unit cmd" where
  "cmd_devices_list A = list_call A ''devices.list'' ''devices'' ''No devices'' device_line"

definition cmd_devices_revoke :: "cli_env \<Rightarrow> string \<Rightarrow> unit cmd" where
  "cmd_devices_revoke A i = simple_call A ''devices.revoke'' [(''device_id'', VString i)] ''Revoked''"

definition cmd_status :: "cli_env \<Rightarrow> unit cmd" where
  "cmd_status A =
     thenc (xcall A ''network.get_status'' []) (\<lambda>n.
     thenc (xcall A ''devices.get_inbox_status'' []) (\<lambda>i.
     thenc (xcall A ''devices.get_outbox_status'' []) (\<lambda>b.
       out (''Network:'' @ nl @
         ''  AnonRouter: '' @ (if get_bool n ''anonrouter_connected'' then ''connected'' else ''disconnected'') @ nl @
         ''  Known peers:'' @ show_u64 (get_uint n ''known_peers'') @ nl @
         ''  Unchoked:   '' @ show_u64 (get_uint n ''unchoked_peers'') @ nl @
         ''  TFT credit: '' @ show_int (get_int n ''net_credit_bytes'') @ '' bytes'' @ nl @
         ''Inbox:'' @ nl @
         ''  Stored:     '' @ show_u64 (get_uint i ''stored_undelivered'') @ nl @
         ''  Prekeys low:'' @ (if get_bool i ''prekeys_low'' then '' YES'' else '' no'') @ nl @
         ''Outbox:'' @ nl @
         ''  Pending:    '' @ show_u64 (get_uint b ''pending'') @ nl @
         ''  Delivering: '' @ show_u64 (get_uint b ''delivering'') @ nl))))"

definition push_value :: "cval \<Rightarrow> string" where
  "push_value v = (case v of VString t \<Rightarrow> t | VUint u \<Rightarrow> show_u64 u | VInt i \<Rightarrow> show_int i
     | VBool b \<Rightarrow> (if b then ''true'' else ''false'') | _ \<Rightarrow> ellipsis)"

definition shell_push :: "string \<Rightarrow> cmap \<Rightarrow> string" where
  "shell_push ev payload = ''['' @ ev @ '']'' @ concat (map (\<lambda>(k, v). '' '' @ k @ ''='' @ push_value v) payload) @ nl @ ''> ''"

primrec shell_loop :: "string list \<Rightarrow> unit cmd" where
  "shell_loop [] = out ''> ''"
| "shell_loop (l # ls) =
     thenc (out ''> '') (\<lambda>_.
     if l = ''quit'' \<or> l = ''exit'' then nextc ()
     else thenc (if l = [] then nextc ()
                 else out (''(use '' @ quote @ ''sw <command>'' @ quote @ '' from a separate terminal; this shell only shows push events)'' @ nl))
            (\<lambda>_. shell_loop ls))"

definition cmd_shell :: "unit cmd" where
  "cmd_shell = thenc (out (''=== ScatterWeb shell '' @ em_dash @ '' Ctrl+C or '' @ quote @ ''quit'' @ quote @ '' to exit ==='' @ nl)) (\<lambda>_ s. shell_loop (co_in s) s)"

subsection \<open>Main\<close>

definition usage_text :: string where
  "usage_text = concat (map (\<lambda>l. l @ nl) [
     ''Usage: sw <command> [args]'',
     '''',
     ''Session:'',
     ''  sw unlock'',
     ''  sw lock'',
     '''',
     ''Identity:'',
     ''  sw id'',
     ''  sw id set-name <name>'',
     ''  sw id qr'',
     '''',
     ''Contacts:'',
     ''  sw contacts list'',
     ''  sw contacts add <contact_card_uri>'',
     ''  sw contacts accept <contact_id>'',
     ''  sw contacts decline <contact_id>'',
     ''  sw contacts block <contact_id>'',
     '''',
     ''Conversations & Messages:'',
     ''  sw convs list'',
     ''  sw msg <conversation_id>                  interactive mode'',
     ''  sw send <conversation_id> <text>'',
     ''  sw send <conversation_id> --file <path>'',
     ''  sw history <conversation_id> [--limit N]'',
     ''  sw react <message_id> <emoji>'',
     ''  sw delete <message_id>'',
     '''',
     ''Groups & Servers:'',
     ''  sw group create <name>'',
     ''  sw group invite <group_id> <contact_id>'',
     ''  sw group kick <group_id> <contact_id>'',
     ''  sw group leave <group_id>'',
     ''  sw server create <name>'',
     ''  sw server add-channel <server_id> <name> <text|voice|video>'',
     ''  sw server set-role <server_id> <contact_id> <admin|member>'',
     '''',
     ''Calls:'',
     ''  sw call <conversation_id> [--video]'',
     ''  sw call accept <call_id>'',
     ''  sw call end <call_id>'',
     '''',
     ''Devices & Status:'',
     ''  sw devices list'',
     ''  sw devices revoke <device_id>'',
     ''  sw status'',
     '''',
     ''Interactive:'',
     ''  sw shell                                  REPL with live push events'',
     '''',
     ''Environment:'',
     ''  SW_SOCKET_PATH  Override socket path (default: /run/scatterweb/client.sock)''])"

definition usage :: "int \<Rightarrow> int cmd" where
  "usage n = thenc (out usage_text) (\<lambda>_. nextc n)"

text \<open>A command that runs, and the exit code 0.\<close>

definition run :: "unit cmd \<Rightarrow> int cmd" where
  "run m = thenc m (\<lambda>_. nextc 0)"

text \<open>\<^verbatim>\<open>std::stoul\<close>: a minus sign negates in the unsigned type.\<close>

definition stoul :: "string \<Rightarrow> u64 res" where
  "stoul t =
     (case strip_sign (dropWhile is_space t) of (neg, t1) \<Rightarrow>
        let ds = takeWhile (is_digit 10) t1; n = digits_value 10 ds in
        if ds = [] then Inl Invalid_Argument
        else if n \<ge> 2 ^ 64 then Inl Out_Of_Range
        else Inr (if neg then - of_nat n else of_nat n))"

fun history_limit :: "string list \<Rightarrow> u32 \<Rightarrow> u32 res" where
  "history_limit (a # b # as) l =
     (if a = ''--limit'' then rbind (stoul b) (\<lambda>v. history_limit (b # as) (ucast v)) else history_limit (b # as) l)"
| "history_limit as l = Inr l"

text \<open>The words of a message, joined by blanks.\<close>

definition join_words :: "string \<Rightarrow> string list \<Rightarrow> string" where
  "join_words w ws = foldl (\<lambda>t a. t @ '' '' @ a) w ws"

text \<open>The commands of two words; \<open>rest\<close> are the arguments behind them.\<close>

definition cli_id :: "cli_env \<Rightarrow> string list \<Rightarrow> int cmd" where
  "cli_id A rest =
     (case rest of
        [] \<Rightarrow> run (cmd_id A)
      | sub # as \<Rightarrow>
          if as \<noteq> [] \<and> sub = ''set-name'' then run (cmd_id_set_name A (hd as))
          else if sub = ''qr'' then run (cmd_id_qr A) else usage 1)"

definition cli_contacts :: "cli_env \<Rightarrow> string list \<Rightarrow> int cmd" where
  "cli_contacts A rest =
     (case rest of
        [] \<Rightarrow> usage 1
      | sub # as \<Rightarrow>
          if sub = ''list'' then run (cmd_contacts_list A)
          else if sub = ''add'' \<and> as \<noteq> [] then run (cmd_contacts_add A (hd as))
          else if sub = ''accept'' \<and> as \<noteq> [] then run (cmd_contacts_simple A ''contacts.accept_request'' (hd as))
          else if sub = ''decline'' \<and> as \<noteq> [] then run (cmd_contacts_simple A ''contacts.decline_request'' (hd as))
          else if sub = ''block'' \<and> as \<noteq> [] then run (cmd_contacts_simple A ''contacts.block'' (hd as))
          else usage 1)"

definition cli_send :: "cli_env \<Rightarrow> string list \<Rightarrow> int cmd" where
  "cli_send A rest =
     (case rest of
        conv # w # ws \<Rightarrow>
          if w = ''--file'' \<and> ws \<noteq> [] then run (cmd_send_file A conv (hd ws))
          else run (cmd_send A conv (join_words w ws))
      | _ \<Rightarrow> usage 1)"

definition cli_history :: "cli_env \<Rightarrow> string list \<Rightarrow> int cmd" where
  "cli_history A rest =
     (case rest of
        [] \<Rightarrow> usage 1
      | conv # as \<Rightarrow> thenc (liftc (history_limit as 20)) (\<lambda>l. run (cmd_history A conv l)))"

definition cli_group :: "cli_env \<Rightarrow> string list \<Rightarrow> int cmd" where
  "cli_group A rest =
     (case rest of
        [] \<Rightarrow> usage 1
      | sub # as \<Rightarrow>
          if sub = ''create'' \<and> as \<noteq> [] then run (cmd_group_create A (hd as) ''group'')
          else if sub = ''invite'' \<and> length as \<ge> 2 then run (cmd_group_invite A (hd as) (as ! 1))
          else if sub = ''kick'' \<and> length as \<ge> 2 then run (cmd_group_kick A (hd as) (as ! 1))
          else if sub = ''leave'' \<and> as \<noteq> [] then run (cmd_group_leave A (hd as))
          else usage 1)"

definition cli_server :: "cli_env \<Rightarrow> string list \<Rightarrow> int cmd" where
  "cli_server A rest =
     (case rest of
        [] \<Rightarrow> usage 1
      | sub # as \<Rightarrow>
          if sub = ''create'' \<and> as \<noteq> [] then run (cmd_group_create A (hd as) ''server'')
          else if sub = ''add-channel'' \<and> length as \<ge> 3 then run (cmd_server_add_channel A (hd as) (as ! 1) (as ! 2))
          else if sub = ''set-role'' \<and> length as \<ge> 3 then run (cmd_server_set_role A (hd as) (as ! 1) (as ! 2))
          else usage 1)"

definition cli_call :: "cli_env \<Rightarrow> string list \<Rightarrow> int cmd" where
  "cli_call A rest =
     (case rest of
        [] \<Rightarrow> usage 1
      | sub # as \<Rightarrow>
          if sub = ''accept'' \<and> as \<noteq> [] then run (cmd_call_accept A (hd as))
          else if sub = ''end'' \<and> as \<noteq> [] then run (cmd_call_end A (hd as))
          else run (cmd_call_start A sub (''--video'' \<in> set as)))"

definition cli_devices :: "cli_env \<Rightarrow> string list \<Rightarrow> int cmd" where
  "cli_devices A rest =
     (case rest of
        [] \<Rightarrow> usage 1
      | sub # as \<Rightarrow>
          if sub = ''list'' then run (cmd_devices_list A)
          else if sub = ''revoke'' \<and> as \<noteq> [] then run (cmd_devices_revoke A (hd as))
          else usage 1)"

definition dispatch_cmd :: "cli_env \<Rightarrow> string \<Rightarrow> string list \<Rightarrow> int cmd" where
  "dispatch_cmd A c rest =
     (if c = ''unlock'' then run (cmd_unlock A)
      else if c = ''lock'' then run (cmd_lock A)
      else if c = ''id'' then cli_id A rest
      else if c = ''contacts'' then cli_contacts A rest
      else if c = ''convs'' then (if rest \<noteq> [] \<and> hd rest = ''list'' then run (cmd_convs_list A) else usage 1)
      else if c = ''msg'' then (if rest = [] then usage 1 else run (cmd_msg_interactive A (hd rest)))
      else if c = ''send'' then cli_send A rest
      else if c = ''history'' then cli_history A rest
      else if c = ''react'' then (if length rest < 2 then usage 1 else run (cmd_react A (hd rest) (rest ! 1)))
      else if c = ''delete'' then (if rest = [] then usage 1 else run (cmd_delete A (hd rest)))
      else if c = ''group'' then cli_group A rest
      else if c = ''server'' then cli_server A rest
      else if c = ''call'' then cli_call A rest
      else if c = ''devices'' then cli_devices A rest
      else if c = ''status'' then run (cmd_status A)
      else if c = ''shell'' then run cmd_shell
      else thenc (errc (''Unknown command: '' @ c @ nl)) (\<lambda>_. usage 1))"

text \<open>\<^verbatim>\<open>main\<close>, on the arguments behind the program's name.\<close>

definition sw_main :: "cli_env \<Rightarrow> string list \<Rightarrow> int cmd" where
  "sw_main A args =
     (case args of
        [] \<Rightarrow> usage 1
      | c # rest \<Rightarrow>
          if c = ''--help'' \<or> c = ''-h'' \<or> c = ''help'' then usage 0
          else (case ca_connect A (socket_path A) of
                  Inl e \<Rightarrow> thenc (errc (''Cannot connect to '' @ socket_path A @ '': '' @ what (ca_what A) e @ nl @
                             ''Is sw-client running?'' @ nl)) (\<lambda>_. nextc 1)
                | Inr _ \<Rightarrow> dispatch_cmd A c rest))"

subsection \<open>Requests the client serves\<close>

text \<open>The answer of a handler as the caller gets it: \<^verbatim>\<open>Server\<close> reports an exception as error 500.\<close>

definition over_ipc :: "(exn \<Rightarrow> string) \<Rightarrow> cmap res \<Rightarrow> cmap res" where
  "over_ipc W r = (case r of Inr m \<Rightarrow> Inr m | Inl e \<Rightarrow> Inl (Runtime_Error (''IPC error 500: '' @ what W e)))"

definition served_by :: "cli_env \<Rightarrow> cl_env \<Rightarrow> client \<Rightarrow> nat \<Rightarrow> bool" where
  "served_by A E s n \<longleftrightarrow> ca_connect A (socket_path A) = Inr () \<and>
     (\<forall>name p. ca_answer A n name p = over_ipc (ca_what A) (snd (handle E name p s)))"

definition text_of_val :: "cval \<Rightarrow> string" where
  "text_of_val v = (case v of VString t \<Rightarrow> t | _ \<Rightarrow> [])"

lemma handle_send:
  "handle E ''messages.send'' (cmap_of (send_params c tx atts)) s =
     bnd (send_message E c (text_of_val tx) []) (\<lambda>i. ret (cmap_of [(''message_id'', VString i), (''ok'', VBool True)])) s"
  by (cases tx) (simp_all add: handle_def handlers_def messages_send_def text_param_def send_params_def cmap_of_def opt_string_def
      text_of_val_def bnd_def [of "ret _"] ret_def)

text \<open>What \<^verbatim>\<open>sw send\<close> leaves behind, by the result of the client.\<close>

definition reported :: "cli_env \<Rightarrow> cli \<Rightarrow> string \<times> cmap \<Rightarrow> string res \<Rightarrow> cli \<times> int flow" where
  "reported A u cl r =
     (let u' = u\<lparr>co_calls := co_calls u @ [cl]\<rparr> in
      case r of
        Inr i \<Rightarrow> (u'\<lparr>co_out := co_out u @ ''Sent: '' @ i @ nl\<rparr>, Next 0)
      | Inl e \<Rightarrow> (u'\<lparr>co_err := co_err u @ ''Error: IPC error 500: '' @ what (ca_what A) e @ nl\<rparr>, Exited 1))"

lemma run_send:
  assumes "served_by A E s (length (co_calls u))"
  shows "run (thenc (xcall A ''messages.send'' (send_params c tx atts)) (\<lambda>r. out (sent_line r))) u =
    reported A u (''messages.send'', cmap_of (send_params c tx atts)) (snd (send_message E c (text_of_val tx) [] s))"
proof (cases "send_message E c (text_of_val tx) [] s")
  case (Pair s' r)
  then show ?thesis
    using assms handle_send [of E c tx atts s]
    by (cases r) (simp_all add: served_by_def run_def thenc_def xcall_def Let_def over_ipc_def bnd_def ret_def reported_def out_def nextc_def
        sent_line_def get_str_def cmap_of_def what_def)
qed

lemma no_calls_served:
  "map_of (handlers E) ''calls.accept'' = None" "map_of (handlers E) ''calls.end'' = None" "map_of (handlers E) ''calls.start'' = None"
  by (simp_all add: handlers_def)

lemma cli_call_unserved: "\<exists>name kvs f. cli_call A (x # xs) = run (thenc (xcall A name kvs) f) \<and> map_of (handlers E) name = None"
proof -
  consider "x = ''accept'' \<and> xs \<noteq> []" | "\<not> (x = ''accept'' \<and> xs \<noteq> [])" "x = ''end'' \<and> xs \<noteq> []"
    | "\<not> (x = ''accept'' \<and> xs \<noteq> [])" "\<not> (x = ''end'' \<and> xs \<noteq> [])"
    by blast
  then show ?thesis
  proof cases
    case 1
    then have "cli_call A (x # xs) = run (cmd_call_accept A (hd xs))"
      by (simp add: cli_call_def)
    then show ?thesis
      unfolding cmd_call_accept_def simple_call_def using no_calls_served(1) by blast
  next
    case 2
    then have "cli_call A (x # xs) = run (cmd_call_end A (hd xs))"
      by (simp add: cli_call_def)
    then show ?thesis
      unfolding cmd_call_end_def simple_call_def using no_calls_served(2) by blast
  next
    case 3
    then have "cli_call A (x # xs) = run (cmd_call_start A x (''--video'' \<in> set xs))"
      by (auto simp: cli_call_def)
    then show ?thesis
      unfolding cmd_call_start_def using no_calls_served(3) by blast
  qed
qed

lemma run_unknown:
  assumes "served_by A E s (length (co_calls u))" "map_of (handlers E) name = None"
  shows "run (thenc (xcall A name kvs) f) u = (u\<lparr>co_calls := co_calls u @ [(name, cmap_of kvs)],
    co_err := co_err u @ ''Error: IPC error 500: unknown method: '' @ name @ nl\<rparr>, Exited 1)"
  using assms by (simp add: served_by_def run_def thenc_def xcall_def Let_def over_ipc_def handle_def throw_def what_def)

end
