(* ===== verification/Spec2Isabelle.thy ===== *)
theory Spec2Isabelle
  imports Lifecycle Keystore_Rows Router_Run Ratchet_Session Dht_Record Inbox_Run Outbox_Run Ratchet_Types Client_Services Cli
begin

text \<open>
  A verification library for ScatterWeb, an anonymous messaging system of four C++ daemons and
  a command line (\<^verbatim>\<open>src/\<close>).

  \<^bold>\<open>The program and its parts.\<close> The AnonRouter (\<^verbatim>\<open>anonrouter/\<close>) exchanges fixed-size cells over UDP:
  it keeps a guard routing table, tunnels, channels and a tit-for-tat ledger, and offers channels
  and frames to local daemons over IPC. The Outbox (\<^verbatim>\<open>outbox/\<close>) queues the frames of a sender and
  attempts them over the router until a recipient acknowledges; the Inbox (\<^verbatim>\<open>inbox/\<close>) stores the
  frames that arrive for a recipient, acknowledges them and hands them to the Client
  (\<^verbatim>\<open>client/\<close>), which holds keys, contacts and ratchet sessions. \<^verbatim>\<open>common/\<close> has what they share:
  cryptography, the CBOR codec and transport of the IPC, the double ratchet, DHT records and the
  database wrapper.

  \<^bold>\<open>Theories and sources.\<close>
  \<^item> \<^verbatim>\<open>Prelude\<close>: machine integers, byte strings, exceptions as the left values of a sum, shared
    lemmas (\<^verbatim>\<open>common/include/sw/types.hpp\<close>). \<^verbatim>\<open>Std_String\<close>: \<^verbatim>\<open>std::stoi\<close> and its relatives, and
    hexadecimal parsing.
  \<^item> \<^verbatim>\<open>Crypto\<close>: the wrappers of \<^verbatim>\<open>common/src/crypto\<close>. OpenSSL, libsodium and liboqs are the
    fields of the record \<open>crypto_lib\<close>, an argument of every definition that uses them; the laws
    the properties rely on are \<open>hash_ok\<close>, \<open>aead_ok\<close>, \<open>kem_ok\<close> and \<open>sig_pair\<close>, and \<open>demo_crypto\<close> is an
    instance.
  \<^item> \<^verbatim>\<open>Cbor\<close>: libcbor as the record \<open>cbor_lib\<close> with its documented laws \<open>cbor_ok\<close>; \<^verbatim>\<open>Cbor_Wire\<close>:
    RFC 8949 as an instance.
  \<^item> \<^verbatim>\<open>Cell\<close> (\<^verbatim>\<open>cell.cpp\<close>), \<^verbatim>\<open>Garlic\<close> (\<^verbatim>\<open>garlic.cpp\<close>), \<^verbatim>\<open>Tables\<close> (\<^verbatim>\<open>std::unordered_map\<close> and its laws),
    \<^verbatim>\<open>Guard\<close> (\<^verbatim>\<open>guard.cpp\<close>), \<^verbatim>\<open>Tft\<close> (\<^verbatim>\<open>tft.cpp\<close>), \<^verbatim>\<open>Dht\<close> (\<^verbatim>\<open>dht.cpp\<close>), \<^verbatim>\<open>Tunnel\<close> (\<^verbatim>\<open>tunnel.cpp\<close>), \<^verbatim>\<open>Channel\<close>
    (\<^verbatim>\<open>channel.cpp\<close>), \<^verbatim>\<open>Router\<close> (\<^verbatim>\<open>router.cpp\<close>, \<^verbatim>\<open>ipc_handler.cpp\<close>): the AnonRouter. Its state is the
    record \<open>router\<close>; a handler returns the new state, the datagrams and push events it sends, and
    whether an exception leaves it. \<^verbatim>\<open>Handshake\<close> composes two routers, \<^verbatim>\<open>Router_Run\<close> is the
    transition system of one, \<^verbatim>\<open>Udp\<close> (\<^verbatim>\<open>udp_transport.cpp\<close>) its datagram transport. The C
    library's address functions are the record \<open>inet_lib\<close> (law \<open>inet_ok\<close>, instance \<open>quad_inet\<close>).
  \<^item> \<^verbatim>\<open>Ipc_Codec\<close> (\<^verbatim>\<open>common/src/ipc/codec.cpp\<close>), \<^verbatim>\<open>Ipc\<close> (framing, server loop, client calls),
    \<^verbatim>\<open>Ipc_Server\<close> (\<^verbatim>\<open>server.cpp\<close>: start, stop, push and the threads of several clients as a transition
    system) and \<^verbatim>\<open>Ipc_Client\<close> (\<^verbatim>\<open>client.cpp\<close>: connecting, disconnecting, the pending calls).
  \<^item> \<^verbatim>\<open>Database\<close> (\<^verbatim>\<open>common/src/store/db.cpp\<close>, \<^verbatim>\<open>db.hpp\<close>): rows, statements, queries and the guard of a
    transaction; SQLite's columns and statements are the records \<open>column_lib\<close> and \<open>sqlite_lib\<close>.
  \<^item> \<^verbatim>\<open>Configs\<close> (the \<^verbatim>\<open>config.hpp\<close> files of router, inbox and outbox) and \<^verbatim>\<open>Lifecycle\<close> (\<^verbatim>\<open>start\<close>, \<^verbatim>\<open>stop\<close>, the
    destructors and the \<^verbatim>\<open>main.cpp\<close> of the four daemons, down to the exit status).
  \<^item> \<^verbatim>\<open>Ratchet\<close> (\<^verbatim>\<open>common/src/ratchet/ratchet.cpp\<close>) and \<^verbatim>\<open>Ratchet_Session\<close>, its correctness;
    \<^verbatim>\<open>Ratchet_Types\<close>: the sizes of its keys.
  \<^item> \<^verbatim>\<open>Dht_Record\<close> (\<^verbatim>\<open>common/src/dht/record.cpp\<close>): guard, delegation and prekey records.
  \<^item> \<^verbatim>\<open>Sql\<close> (the statements of the SQLite databases on lists of rows), \<^verbatim>\<open>Daemon\<close> (calls, push events
    and frames of both mail daemons), \<^verbatim>\<open>Inbox_Store\<close>, \<^verbatim>\<open>Inbox\<close>, \<^verbatim>\<open>Inbox_Run\<close> (\<^verbatim>\<open>inbox/src\<close>),
    \<^verbatim>\<open>Outbox_Store\<close>, \<^verbatim>\<open>Outbox\<close>, \<^verbatim>\<open>Outbox_Run\<close> (\<^verbatim>\<open>outbox/src\<close>).
  \<^item> The client (\<^verbatim>\<open>client/src\<close>): \<^verbatim>\<open>Client_Store\<close> (\<^verbatim>\<open>store.cpp\<close>), \<^verbatim>\<open>Keystore\<close> (\<^verbatim>\<open>keystore.cpp\<close>: the
    encrypted file with its nonce and salt, and the tables of keys; SQLite's image of a database is
    an argument, and how much of each write reaches the disk is part of the state), \<^verbatim>\<open>Keystore_Rows\<close> (the same keys as rows of SQLite), \<^verbatim>\<open>Client_Cert\<close> (\<^verbatim>\<open>cert.cpp\<close>), \<^verbatim>\<open>Client_Dht\<close> (\<^verbatim>\<open>dht_pub.cpp\<close>),
    \<^verbatim>\<open>Ratchet_Manager\<close> (\<^verbatim>\<open>ratchet_manager.cpp\<close>), \<^verbatim>\<open>Client_Base\<close> (\<^verbatim>\<open>config.cpp\<close>, the state and the
    actions), \<^verbatim>\<open>Client\<close> and \<^verbatim>\<open>Client_Ops\<close> (\<^verbatim>\<open>client.cpp\<close>), \<^verbatim>\<open>Client_Ipc\<close> (\<^verbatim>\<open>ipc_handler.cpp\<close>). An
    operation is an action: a function of the record \<open>client\<close> to a new record and a result or an
    exception, composed by \<open>bnd\<close>, \<open>attempt\<close> (a \<^verbatim>\<open>try\<close> block) and \<open>for_each\<close>; the record logs the
    calls to the daemons and the events pushed to the user interface, and says whether the process has
    ended: \<^verbatim>\<open>dht_pub.cpp\<close> calls \<^verbatim>\<open>cbor_load\<close> without a place for its result, so that this call of libcbor is
    an argument of its own, which may end the process. The record \<open>cl_env\<close> holds
    what the client does not decide: libraries, clocks, random draws, the daemons' answers, and
    what C++ leaves open (the null data pointer of an empty vector, uninitialised arrays, the
    memory behind an unterminated text). \<^verbatim>\<open>Client_Run\<close> is its transition system, \<^verbatim>\<open>Client_Effects\<close>
    the effect of single operations, \<^verbatim>\<open>Client_Services\<close> its calls as the mail daemons see them.
  \<^item> \<^verbatim>\<open>Cli\<close> (\<^verbatim>\<open>cli/src/main.cpp\<close>): the command line, each command as its calls, its output and its exit
    code; it composes with the client's handlers through the answers of the calls.

  \<^bold>\<open>Interfaces.\<close> Contracts are locales, interpreted on the model's definitions: fields of a
  fixed-size buffer (\<open>buffer_field\<close> in \<^verbatim>\<open>Cell\<close>), keyed tables that may refuse an entry or never do
  (\<open>token_store\<close> and \<open>total_store\<close> in \<^verbatim>\<open>Tables\<close>; guards, tunnels, channels, DHT), message codecs
  (\<open>message_codec\<close> in \<^verbatim>\<open>Ipc_Codec\<close>; requests, responses, push events), message tables that refuse
  duplicates (\<open>dedup_table\<close> in \<^verbatim>\<open>Sql\<close>; inbox, outbox, messages and contacts of the client), blobs
  filed under a name (\<open>blob_store\<close> in \<^verbatim>\<open>Ratchet_Manager\<close>; the ratchet states of the keystore) and
  properties of the tables that every statement keeps (\<open>store_invariant\<close> in \<^verbatim>\<open>Client_Run\<close>, which
  carries them through every operation of the client; interpreted for unique keys and for the
  absence of contacts), and databases with transactions (\<open>transactional\<close> in \<^verbatim>\<open>Database\<close>, with the
  journal of a SQLite connection as its interpretation).

  \<^bold>\<open>What is shown.\<close> Ratchet conversations decrypt to what was sent (C1); within an epoch the order
  does not matter, save that an epoch opened by a KEM step needs its first message first (C2); storage is
  bounded and keys have the right sizes (C35, C36); two routers open a channel
  over UDP and carry a frame, and the acknowledgement of an inbox reaches its mark in the outbox
  (C3, C4). Of the client: what sending a message does (C5), that the tables of its message store keep their
  keys in every run (C6), that no two versions of the keystore file share a nonce as long as no write of the
  file is cut off inside its nonce, and what such a write does (C9, C34), that what a session
  stored is there after the next (C10), that the cache of ratchet states is a map (C11), pages
  of a conversation (C32), prekey records (C33). The inbox stores, announces and never loses a
  message (C7, C12); the outbox queues, retries within bounds and settles on an acknowledgement
  (C8, C13). Client and mail daemons: provisioning an inbox leaves both sides with the same keys
  (C23), while messages are queued without a recipient inbox and the allow list and the pending
  messages are lost between them (C24, C25), and the client never has a contact (C26). The command
  line sends the words of a message through the client, loses the contents of a file, and its calls
  are refused (C40). Direct channels deliver what fits a cell, seal cells of both directions under one key and
  nonce, and open only after agreement (C14, C28, C29); the router never relays (C27); accepted guard records are authentic
  (C22); cells and IPC frames round-trip (C30, C31); a remote call is a local call (C15). A push
  reaches every connected client of an IPC server in every reachable state, as long as no descriptor is reused,
  no peer has closed, no write fails and the server is not being stopped (C16); a client
  that hangs up may end the process (C38), a client accepted under a descriptor that is closed but still listed
  is lost (C39), and a
  peer that hangs up leaves an IPC client that cannot be wound up (C37). A query returns exactly
  when its statement yields finitely many rows (C17), and a transaction of the inbox is applied as a
  whole or not at all, whichever statement fails (C18). Of the processes: datagrams are handled in order until an empty one
  ends reception (C19), a client unlocked a second time connects to every daemon
  that can be reached, or ends when one had hung up (C20), and how an inbox ends (C21). Some
  properties state a defect of the code as it is (C19--C21, C24--C28, C34, C37--C40). Further theorems,
  without a number, cover garlic blobs and contact cards, forged cells, the guard table's capacity,
  relaying and the selection of a round, eviction and accounting, the optimistic slot and decay,
  recruit answers, IPC envelopes and the server loop, disconnecting, stale messages of a ratchet,
  restarts, passphrase changes, the locked session, envelopes, certificates and guard records of the
  client and its page limit, configuration files and the rows of the keystore.

  \<^bold>\<open>Bounds and fuel.\<close> No definition uses fuel. Loops are structural recursions or come with a
  termination proof: the receiving chain of the ratchet ends because the message number grows to
  its target, the connection loop because every frame consumes bytes of the stream. The loops over
  the rows of a statement end only if SQLite does; they are partial functions whose value \<^verbatim>\<open>None\<close>
  is a loop that does not end, and C17 says when they do. Word widths are those of the source;
  \<^verbatim>\<open>int64_t\<close> values that come from a clock are integers. Clocks, random draws, the order in which a
  read is fragmented, the results of system calls and the router's answers to a daemon are
  arguments, so the properties hold for every choice.

  \<^bold>\<open>Concurrency.\<close> Handlers run under the locks of their component; a run is a sequence of whole
  handlers in any order. Calls made by a push handler run in the receive thread of the IPC
  client and end in its timeout, which the models of both mail daemons and of the client have.
  The threads of the IPC server interleave at the granularity of system calls (\<^verbatim>\<open>Ipc_Server\<close>).
  The clock of the client stands still within one operation.

  \<^bold>\<open>Not modelled.\<close> Every part of the program has its model; what is outside it is a parameter:
  OpenSSL, libsodium, liboqs, libcbor, SQLite and the system calls. Left out inside the parts are
  the transfer of a handle when an object is moved, the log lines of the daemons other than those of
  \<^verbatim>\<open>main\<close>, the terminal and the local time of the command line. A datagram that a handler sends to an
  address that cannot be parsed is an exception in the code; the handlers of \<^verbatim>\<open>Router\<close> list it among their
  datagrams, \<^verbatim>\<open>Udp\<close> has the exception, and \<open>transmit\<close> in \<^verbatim>\<open>Lifecycle\<close> stops at it.
\<close>

section \<open>Properties that span components\<close>

text \<open>
  The exchange of two routers on the level of their handlers: \<^verbatim>\<open>channel.open\<close>, \<^verbatim>\<open>channel.accept\<close> and \<^verbatim>\<open>frame.send\<close> emit
  one cell each, which the other router handles.
\<close>

lemma channel_exchange:
  assumes L: "net_libs_ok K C" and fresh: "fresh_in (rt_chans ra) (r_id n1)" "fresh_in (rt_chans rb) (r_id n1)"
    and p: "open_direct p addrB" "addrA \<noteq> []" "addrB \<noteq> []"
    and r1: "length (r_hs n1) = 12" "length (r_id n1) = 16"
    and r2: "length (r_hs n2) = 12" "length (r_key n2) = 32"
    and r3: "length (r_n1 n3 0) = 12" "length (r_n2 n3 0) = 12"
    and q: "map_of q ''channel_id'' = Some (VString (to_hex (r_id n1)))" "map_of q ''payload'' = Some (VBytes payload)"
    and payload: "payload \<noteq> []" "length payload \<le> 380"
    and guard: "guard_lookup (rt_guards rb) (r_id n1 @ zeros 16) = None"
  shows "\<exists>ra1 ra2 ra3 rb1 rb2 c1 c2 c3 res ci.
    dispatch_ipc K C ra n1 ''channel.open'' p wa = (ra1, [Datagram addrB c1], Inr res) \<and>
    on_datagram K C rb addrA c1 = (rb1, [push_channel_incoming ci], Inr ()) \<and>
    ci_channel_id ci = r_id n1 \<and> ci_peer_addr ci = addrA \<and>
    dispatch_ipc K C rb1 n2 ''channel.accept'' [(''channel_id'', VString (to_hex (r_id n1)))] wb =
      (rb2, [Datagram addrA c2], Inr (id_ok (r_id n1) ''ok'' True)) \<and>
    on_datagram K C ra1 addrB c2 = (ra2, [], Inr ()) \<and>
    dispatch_ipc K C ra2 n3 ''frame.send'' q wa = (ra3, [Datagram addrB c3], Inr (id_ok (r_id n1) ''sent'' True)) \<and>
    on_datagram K C rb2 addrA c3 = (rb2, [push_frame_recv (r_id n1) payload], Inr ()) \<and>
    list_all (\<lambda>c. length c = CELL_SIZE) [c1, c2, c3]"
proof -
  let ?id = "r_id n1" and ?key = "r_key n2"
  let ?ca = "opened ?id (r_key n1) p addrB" and ?cb = "incoming ?id p addrA"
  let ?ra1 = "ra\<lparr>rt_chans := rt_chans ra @ [(to_hex ?id, ?ca)]\<rparr>" and ?rb1 = "rb\<lparr>rt_chans := rt_chans rb @ [(to_hex ?id, ?cb)]\<rparr>"
  let ?ca' = "?ca\<lparr>ci_channel_key := ?key, ci_state := CS_OPEN\<rparr>" and ?cb' = "?cb\<lparr>ci_channel_key := ?key, ci_state := CS_OPEN\<rparr>"
  let ?ra2 = "ra\<lparr>rt_chans := rt_chans ra @ [(to_hex ?id, ?ca')]\<rparr>" and ?rb2 = "rb\<lparr>rt_chans := rt_chans rb @ [(to_hex ?id, ?cb')]\<rparr>"
  obtain c1 where c1: "dispatch_ipc K C ra n1 ''channel.open'' p wa = (?ra1, [Datagram addrB c1],
        Inr (cmap_of [(''channel_id'', VString (to_hex ?id)), (''ok'', VBool True)]))"
      "on_datagram K C rb addrA c1 = (?rb1, [push_channel_incoming ?cb], Inr ())" "length c1 = CELL_SIZE"
    by (rule open_arrives [OF L r1 fresh p(1)])
  have cb: "ci_channel_id ?cb = ?id" "ci_peer_addr ?cb = addrA"
    by (simp_all add: incoming_def)
  have acc: "map_of [(''channel_id'', VString (to_hex ?id))] ''channel_id'' = Some (VString (to_hex ?id))"
    by simp
  obtain c2 where c2: "dispatch_ipc K C ?rb1 n2 ''channel.accept'' [(''channel_id'', VString (to_hex ?id))] wb =
        (?rb1\<lparr>rt_chans := rt_chans rb @ [(to_hex ?id, ?cb')]\<rparr>, [Datagram addrA c2], Inr (id_ok ?id ''ok'' True))"
      "on_datagram K C ?ra1 addrB c2 = (?ra1\<lparr>rt_chans := rt_chans ra @ [(to_hex ?id, ?ca')]\<rparr>, [], Inr ())" "length c2 = CELL_SIZE"
    by (rule accept_arrives [OF L r2(1) r1(2) r2(2) fresh _ _ acc cb(2) p(2), of ?ra1 ?ca ?rb1]) simp_all
  have ends: "direct_end (rt_chans ?ra2) ?id ?key ?ca'" "direct_end (rt_chans ?rb2) ?id ?key ?cb'"
    using fresh r1(2) r2(2) p(2,3)
    by (simp_all add: direct_end_snoc opened_def incoming_def default_channel_info_def)
  obtain ra3 c3 where "dispatch_ipc K C ?ra2 n3 ''frame.send'' q wa =
        (ra3, [Datagram (ci_peer_addr ?ca') c3], Inr (id_ok ?id ''sent'' True))"
      "on_datagram K C ?rb2 addrA c3 = (?rb2, [push_frame_recv ?id payload], Inr ())" "length c3 = CELL_SIZE"
    by (rule frame_arrives [OF L ends r3 q payload, of wa addrA]) (use guard in simp_all)
  moreover have "ci_peer_addr ?ca' = addrB"
    by (simp add: opened_def)
  ultimately show ?thesis
    using c1 c2 cb by auto
qed

text \<open>
  C3. Two routers that do not know the channel identifier yet open a direct channel over their UDP
  transports and use it. \<^verbatim>\<open>channel.open\<close> at the first sends one cell to the socket address of the
  second; received there, it announces \<^verbatim>\<open>channel.incoming\<close> with the address it came from;
  \<^verbatim>\<open>channel.accept\<close> answers with one cell to that address, which opens the channel at the first; and a
  payload of at most 380 bytes given to \<^verbatim>\<open>frame.send\<close> comes out of the second router as the payload
  of \<^verbatim>\<open>frame.recv\<close>. Both receiving loops go on waiting.
\<close>

theorem channel_end_to_end:
  assumes L: "net_libs_ok K C" "inet_ok N" and fresh: "fresh_in (rt_chans ra) (r_id n1)" "fresh_in (rt_chans rb) (r_id n1)"
    and p: "open_direct p (peer_string N b)"
    and r1: "length (r_hs n1) = 12" "length (r_id n1) = 16"
    and r2: "length (r_hs n2) = 12" "length (r_key n2) = 32"
    and r3: "length (r_n1 n3 0) = 12" "length (r_n2 n3 0) = 12"
    and q: "map_of q ''channel_id'' = Some (VString (to_hex (r_id n1)))" "map_of q ''payload'' = Some (VBytes payload)"
    and payload: "payload \<noteq> []" "length payload \<le> 380"
    and guard: "guard_lookup (rt_guards rb) (r_id n1 @ zeros 16) = None"
  shows "\<exists>ra1 ra2 ra3 rb1 rb2 e1 e2 e3 c1 c2 c3 res ci.
    dispatch_ipc K C ra n1 ''channel.open'' p wa = (ra1, e1, Inr res) \<and> transmit N ua e1 = ([(sock ua, b, c1)], Inr ()) \<and>
    router_receive N K C rb (deliver [(a, c1)]) = (rb1, [push_channel_incoming ci], Loop_Blocked) \<and>
    ci_channel_id ci = r_id n1 \<and> ci_peer_addr ci = peer_string N a \<and>
    dispatch_ipc K C rb1 n2 ''channel.accept'' [(''channel_id'', VString (to_hex (r_id n1)))] wb =
      (rb2, e2, Inr (id_ok (r_id n1) ''ok'' True)) \<and> transmit N ub e2 = ([(sock ub, a, c2)], Inr ()) \<and>
    router_receive N K C ra1 (deliver [(b, c2)]) = (ra2, [], Loop_Blocked) \<and>
    dispatch_ipc K C ra2 n3 ''frame.send'' q wa = (ra3, e3, Inr (id_ok (r_id n1) ''sent'' True)) \<and>
    transmit N ua e3 = ([(sock ua, b, c3)], Inr ()) \<and>
    router_receive N K C rb2 (deliver [(a, c3)]) = (rb2, [push_frame_recv (r_id n1) payload], Loop_Blocked)"
proof -
  let ?A = "peer_string N a" and ?B = "peer_string N b"
  have ne: "?A \<noteq> []" "?B \<noteq> []"
    by (simp_all add: peer_string_def)
  obtain ra1 ra2 ra3 rb1 rb2 c1 c2 c3 res ci where x:
    "dispatch_ipc K C ra n1 ''channel.open'' p wa = (ra1, [Datagram ?B c1], Inr res)"
    "on_datagram K C rb ?A c1 = (rb1, [push_channel_incoming ci], Inr ())" "ci_channel_id ci = r_id n1" "ci_peer_addr ci = ?A"
    "dispatch_ipc K C rb1 n2 ''channel.accept'' [(''channel_id'', VString (to_hex (r_id n1)))] wb =
      (rb2, [Datagram ?A c2], Inr (id_ok (r_id n1) ''ok'' True))" "on_datagram K C ra1 ?B c2 = (ra2, [], Inr ())"
    "dispatch_ipc K C ra2 n3 ''frame.send'' q wa = (ra3, [Datagram ?B c3], Inr (id_ok (r_id n1) ''sent'' True))"
    "on_datagram K C rb2 ?A c3 = (rb2, [push_frame_recv (r_id n1) payload], Inr ())"
    "length c1 = CELL_SIZE" "length c2 = CELL_SIZE" "length c3 = CELL_SIZE"
    using channel_exchange [OF L(1) fresh p ne r1 r2 r3 q payload guard, of wa wb] by auto
  note transmit_peer [OF L(2), of ua b c1] transmit_peer [OF L(2), of ub a c2] transmit_peer [OF L(2), of ua b c3]
    router_receives_cell [OF x(9,2)] router_receives_cell [OF x(10,6)] router_receives_cell [OF x(11,8)]
  with x(1,3-5,7) show ?thesis
    by blast
qed

definition demo_draw :: rnd where
  "demo_draw = \<lparr>r_id = zeros 16, r_key = zeros 32, r_n1 = (\<lambda>_. zeros 12), r_n2 = (\<lambda>_. zeros 12), r_hs = zeros 12\<rparr>"

definition demo_peer :: "u16 \<Rightarrow> sockaddr_in" where
  "demo_peer port = \<lparr>sin_addr = 0x7F000001, sin_port = port\<rparr>"

definition demo_open :: cmap where
  "demo_open = [(''anon_level'', VUint 0), (''peer_addr'', VString (peer_string quad_inet (demo_peer 2))), (''remote_pubkey'', VString [])]"

definition demo_frame :: cmap where
  "demo_frame = [(''channel_id'', VString (to_hex (zeros 16))), (''payload'', VBytes [1, 2, 3])]"

theorem channel_end_to_end_witness:
  "\<exists>ra1 ra2 ra3 rb1 rb2 e1 e2 e3 c1 c2 c3 res ci.
    dispatch_ipc demo_crypto wire_cbor (router_new 5 default_tft_config) demo_draw ''channel.open'' demo_open [] = (ra1, e1, Inr res) \<and>
    transmit quad_inet udp_new e1 = ([(None, demo_peer 2, c1)], Inr ()) \<and>
    router_receive quad_inet demo_crypto wire_cbor (router_new 5 default_tft_config) (deliver [(demo_peer 1, c1)]) =
      (rb1, [push_channel_incoming ci], Loop_Blocked) \<and>
    ci_channel_id ci = zeros 16 \<and> ci_peer_addr ci = peer_string quad_inet (demo_peer 1) \<and>
    dispatch_ipc demo_crypto wire_cbor rb1 demo_draw ''channel.accept'' [(''channel_id'', VString (to_hex (zeros 16)))] [] =
      (rb2, e2, Inr (id_ok (zeros 16) ''ok'' True)) \<and> transmit quad_inet udp_new e2 = ([(None, demo_peer 1, c2)], Inr ()) \<and>
    router_receive quad_inet demo_crypto wire_cbor ra1 (deliver [(demo_peer 2, c2)]) = (ra2, [], Loop_Blocked) \<and>
    dispatch_ipc demo_crypto wire_cbor ra2 demo_draw ''frame.send'' demo_frame [] = (ra3, e3, Inr (id_ok (zeros 16) ''sent'' True)) \<and>
    transmit quad_inet udp_new e3 = ([(None, demo_peer 2, c3)], Inr ()) \<and>
    router_receive quad_inet demo_crypto wire_cbor rb2 (deliver [(demo_peer 1, c3)]) =
      (rb2, [push_frame_recv (zeros 16) [1, 2, 3]], Loop_Blocked)"
proof -
  let ?r = "router_new 5 default_tft_config"
  have d: "r_id demo_draw = zeros 16" "r_key demo_draw = zeros 32" "r_hs demo_draw = zeros 12"
      "r_n1 demo_draw 0 = zeros 12" "r_n2 demo_draw 0 = zeros 12" "sock udp_new = None"
    by (simp_all add: demo_draw_def udp_new_def)
  have "net_libs_ok demo_crypto wire_cbor" "fresh_in (rt_chans ?r) (zeros 16)"
      "open_direct demo_open (peer_string quad_inet (demo_peer 2))"
      "guard_lookup (rt_guards ?r) (zeros 16 @ zeros 16) = None"
      "map_of demo_frame ''channel_id'' = Some (VString (to_hex (zeros 16)))"
      "map_of demo_frame ''payload'' = Some (VBytes [1, 2, 3])"
    by (simp_all add: net_libs_ok_def fresh_in_def open_direct_def router_new_def demo_open_def demo_frame_def
        guard_lookup_def guard_new_def)
  then show ?thesis
    using channel_end_to_end [of demo_crypto wire_cbor quad_inet ?r demo_draw ?r demo_open "demo_peer 2" demo_draw
        demo_draw demo_frame "[1, 2, 3]" "[]" udp_new "demo_peer 1" "[]" udp_new, unfolded d] quad_inet_ok
    by simp
qed

text \<open>
  C4. Delivery between an outbox and an inbox. When the inbox receives a frame of an allowed
  sender, for the first time or again, it sends an acknowledgement with its key on the channel
  of the frame. When this acknowledgement reaches an outbox that has the frame queued and lists
  the key among the recipients, the message is marked delivered with its frame unchanged, one
  \<^verbatim>\<open>outbox.status_update\<close> is pushed, and the message is not due again at any time; an outbox that
  does not list the key is left as it is.
\<close>

theorem ack_end_to_end:
  assumes C: "cbor_ok C" and frame: "is_delivery C body hdr" "body \<noteq> []" "is_allowed_sender (dm_store si) (fh_sender_id hdr)"
    and creds: "get_dht_credentials (dm_store si) = Some creds" "cr_key_c_pubkey creds = k" "k \<noteq> []" "length k < 2 ^ 64"
    and so: "Outbox_Store.get_message (dm_store so) (fh_message_id hdr) = Some m"
      "is_valid_recipient_inbox eo (dm_store so) (fh_message_id hdr) k"
    and other: "\<not> is_valid_recipient_inbox eo (dm_store so') (fh_message_id hdr) k"
  shows "\<exists>pl so1 m1. (''frame.send'', frame_send_params ch pl) \<in>
      set (dm_calls (Inbox.on_ar_push ei C cfg ns nm si ''frame.recv'' (recv_event ch body))) \<and>
    Outbox.on_ar_push eo C so ''frame.recv'' (recv_event ch' pl) = so1 \<and>
    Outbox_Store.get_message (dm_store so1) (fh_message_id hdr) = Some m1 \<and>
    qm_status m1 = MS_DELIVERED \<and> qm_delivery_frame m1 = qm_delivery_frame m \<and>
    dm_pushes so1 = dm_pushes so @ [(''outbox.status_update'',
      cmap_of [(''message_id'', VString (fh_message_id hdr)), (''status'', VString ''delivered'')])] \<and>
    filter (\<lambda>r. qm_message_id r = fh_message_id hdr \<and> is_due now r) (os_messages (dm_store so1)) = [] \<and>
    Outbox.on_ar_push eo C so' ''frame.recv'' (recv_event ch' pl) = so'"
proof -
  let ?i = "fh_message_id hdr"
  obtain b where b: "length b = 16" "?i = to_hex b"
    by (rule parsed_id) (use frame(1) in \<open>auto simp: is_delivery_def\<close>)
  let ?kvs = "[(''type'', build_string ''delivery_ack''), (''message_id'', build_string ?i), (''inbox_key_c_pubkey'', CBytes k)]"
  have ok: "list_all (\<lambda>(k, v). key_lit k) ?kvs" "list_all (\<lambda>(k, v). plain v 63) ?kvs" "length ?kvs \<le> 3" "length ?kvs < 2 ^ 64"
  proof -
    have "plain (build_string ?i) 63"
      using plain_hex [of b 63] b by simp
    then show "list_all (\<lambda>(k, v). plain v 63) ?kvs"
      using creds(4) by (simp add: ascii_def c_str_def)
  qed (simp_all add: key_lit_def)
  obtain pl where pl: "cbor_serialize C (definite_map C 3 (str_fields ?kvs)) = Some pl" "cbor_load C pl = Some (CMap (str_fields ?kvs))"
    by (rule print_fields [OF C ok])
  have "to_hex b \<noteq> []"
    using b(1) by (cases b) (simp_all add: hex_byte_def)
  then have i: "?i \<noteq> []" "c_str ?i = ?i"
    by (simp_all add: b(2))
  have ps: "frame_type_of (str_fields ?kvs) = ''delivery_ack''" "last_text (str_fields ?kvs) ''message_id'' = ?i"
      "last_bytes (str_fields ?kvs) ''inbox_key_c_pubkey'' = k"
    using i(2) by (simp_all add: str_fields_def build_string_def c_str_def last_text_def last_bytes_def)
  have push: "Outbox.on_ar_push eo C s ''frame.recv'' (recv_event ch' pl) =
      (if is_valid_recipient_inbox eo (dm_store s) ?i k then push_delivered s ?i else s)" for s
    using ack_frame [OF pl(2) ps i(1) creds(3), of eo recv_thread_ans s ch']
    by (simp add: Outbox.on_ar_push_def recv_event_fields)
  obtain m1 where "Outbox_Store.get_message (dm_store (push_delivered so ?i)) ?i = Some m1" "qm_status m1 = MS_DELIVERED"
      "qm_delivery_frame m1 = qm_delivery_frame m"
    using set_status_get [OF so(1), of MS_DELIVERED] by (auto simp: push_delivered_def)
  moreover have "filter (\<lambda>r. qm_message_id r = ?i \<and> is_due now r) (os_messages (dm_store (push_delivered so ?i))) = []"
    by (auto simp: push_delivered_def set_status_def sql_update_def is_due_def filter_empty_conv)
  moreover have "dm_pushes (push_delivered so ?i) = dm_pushes so @ [(''outbox.status_update'',
      cmap_of [(''message_id'', VString ?i), (''status'', VString ''delivered'')])]"
    by (simp add: push_delivered_def)
  moreover have "(''frame.send'', frame_send_params ch pl) \<in>
      set (dm_calls (Inbox.on_ar_push ei C cfg ns nm si ''frame.recv'' (recv_event ch body)))"
    using delivery_acked [OF frame(1,3,2) creds(1)] pl(1) creds(2) by simp
  ultimately show ?thesis
    using push [of so] push [of so'] so(2) other
    by (intro exI [of _ pl] exI [of _ "push_delivered so ?i"] exI [of _ m1]) simp
qed

definition demo_creds :: dht_credentials where
  "demo_creds = \<lparr>cr_key_c_pubkey = [1], cr_key_c_privkey = [2], cr_auth_cert = [3], cr_delegation_cert = []\<rparr>"

definition demo_receiver :: inbox where
  "demo_receiver = demo_inbox\<lparr>dm_store := (dm_store demo_inbox)\<lparr>is_credentials := Some demo_creds\<rparr>\<rparr>"

definition demo_sender :: outbox where
  "demo_sender = demo_outbox\<lparr>dm_store := outbox_store_new\<lparr>os_messages := [queued (to_hex (zeros 16)) [] demo_body 5 9000],
     os_recipients := [\<lparr>ri_message_id = to_hex (zeros 16), ri_key_c_pubkey = [1], ri_auth_cert = [4]\<rparr>]\<rparr>\<rparr>"

theorem ack_end_to_end_witness:
  "\<exists>pl m1. Outbox_Store.get_message (dm_store (Outbox.on_ar_push True wire_cbor demo_sender ''frame.recv'' (recv_event ''d'' pl)))
       (to_hex (zeros 16)) = Some m1 \<and> qm_status m1 = MS_DELIVERED"
proof -
  have hdr: "fh_message_id demo_hdr = to_hex (zeros 16)" "fh_sender_id demo_hdr = to_hex (zeros 32)"
    by (simp_all add: demo_hdr_def)
  have ne: "demo_body \<noteq> []"
    using length_enc_pos by (auto simp: demo_body_def simp del: enc.simps)
  have allowed: "is_allowed_sender (dm_store demo_receiver) (fh_sender_id demo_hdr)"
    and creds: "get_dht_credentials (dm_store demo_receiver) = Some demo_creds" "cr_key_c_pubkey demo_creds = [1]"
      "[1::u8] \<noteq> []" "length [1::u8] < 2 ^ 64"
    by (simp_all add: demo_receiver_def demo_inbox_def is_allowed_sender_def hdr get_dht_credentials_def demo_creds_def)
  have so: "Outbox_Store.get_message (dm_store demo_sender) (fh_message_id demo_hdr) =
        Some (row_to_msg (queued (to_hex (zeros 16)) [] demo_body 5 9000))"
      "is_valid_recipient_inbox True (dm_store demo_sender) (fh_message_id demo_hdr) [1]"
      "\<not> is_valid_recipient_inbox True (dm_store demo_outbox) (fh_message_id demo_hdr) [1]"
    by (simp_all add: demo_sender_def demo_outbox_def outbox_store_new_def Outbox_Store.get_message_def
        is_valid_recipient_inbox_def null_blob_def ri_key_def hdr)
  from ack_end_to_end [OF wire_cbor_ok demo_delivery ne allowed creds so, of "''c''" True default_inbox_config 5 5000 "''d''" 7]
  show ?thesis
    unfolding hdr(1) by blast
qed

text \<open>
  C24. A direct message from the client to the outbox. The call with which the client hands over
  an encrypted message is accepted by an outbox that does not know the message: it is queued under
  the identifier the client has for it, pending, after one attempt. But neither the call nor the
  frame names an inbox of the recipient: the message has no recipient inbox, so that no
  acknowledgement is ever accepted for it.
\<close>

theorem client_message_queued:
  assumes "can_send E s c ka conv ct" "view (ce_cbor E) (cl_mgr s) c = Some st"
    and "ratchet_encrypt (ce_crypto E) (drawn_rnd E (cl_draws s)) st af = (st', Inr m)"
    and "cbor_ok (ce_cbor E)" "length mid = 16" "frame_ok (dm_delivery E s ka ps mid m)"
    and "\<not> message_exists (dm_store ob) (to_hex mid)" "\<forall>r\<in>set (os_recipients (dm_store ob)). ri_message_id r \<noteq> to_hex mid"
  shows "\<exists>s' p ob' row. enqueue_dm E c af ps (to_hex mid) s = (s', Inr ())
    \<and> cl_calls s' = cl_calls s @ [(Outbox_Svc, ''outbox.enqueue'', p)]
    \<and> outbox_handle en (ce_cbor E) ans cfg t clk ob ''outbox.enqueue'' p =
        (ob', Inr (cmap_of [(''message_id'', VString (to_hex mid)), (''ok'', VBool True)]))
    \<and> os_messages (dm_store ob') = os_messages (dm_store ob) @ [row] \<and> qm_message_id row = to_hex mid
    \<and> qm_status row = MS_PENDING \<and> qm_attempt_count row = 1
    \<and> (\<forall>k. \<not> is_valid_recipient_inbox en (dm_store ob') (to_hex mid) k)"
proof -
  let ?fr = "dm_frame E s ka ps mid m" and ?p = "enqueue_params (to_hex mid) ct (dm_frame E s ka ps mid m)"
  let ?hdr = "\<lparr>dh_message_id = to_hex mid, dh_recipient_key_b_kem_pubkey_hex = [], dh_sender_outbox_key_c_pubkey_hex = []\<rparr>"
  obtain g' where g': "enqueue_dm E c af ps (to_hex mid) s = (s\<lparr>cl_mgr := g', cl_draws := cl_draws s + 3,
      cl_calls := cl_calls s @ [(Outbox_Svc, ''outbox.enqueue'', ?p)]\<rparr>, Inr ())"
    by (rule enqueue_dm_ok [OF assms(1-3)])
  have "df_message_id (dm_delivery E s ka ps mid m) = mid"
    by (simp add: dm_delivery_def Let_def)
  then have fr: "parse_delivery_frame (ce_cbor E) ?fr = Some ?hdr" "?fr \<noteq> []"
    using parse_client_frame [OF assms(4,6)] encode_nonempty [OF assms(4,6)] assms(5) by (simp_all add: dm_frame_def)
  define ob' where "ob' = immediate_attempt (ce_cbor E) ans cfg (clk 0)
    (ob\<lparr>dm_store := enq_store en (dm_store ob) ?hdr ?fr ?p t\<rparr>) (dh_message_id ?hdr)"
  have h: "outbox_handle en (ce_cbor E) ans cfg t clk ob ''outbox.enqueue'' ?p =
      (ob', Inr (cmap_of [(''message_id'', VString (to_hex mid)), (''ok'', VBool True)]))"
    using enqueue_new [OF enqueue_params_fields(1) fr(1) _ fr(2)] assms(7) by (simp add: outbox_handle_def ob'_def)
  have none: "\<not> message_exists (dm_store ob) (dh_message_id ?hdr)" "enq_recipients ?hdr ?p = []"
    "\<forall>r\<in>set (os_recipients (dm_store ob)). ri_message_id r \<noteq> dh_message_id ?hdr"
    using assms(7,8) by (simp_all add: enq_recipients_def)
  from enqueue_no_recipient [OF none ob'_def] obtain n where
    rows: "os_messages (dm_store ob') = os_messages (dm_store ob) @ [(enq_row ?hdr ?fr ?p t)\<lparr>qm_attempt_count := 1, qm_next_attempt_at := n\<rparr>]"
    "os_recipients (dm_store ob') = os_recipients (dm_store ob)"
    by blast
  have "\<not> is_valid_recipient_inbox en (dm_store ob') (to_hex mid) k" for k
    using assms(8) rows(2) by (auto simp: is_valid_recipient_inbox_def ri_key_def)
  then show ?thesis
    using g' h rows(1)
    by (intro exI [of _ "fst (enqueue_dm E c af ps (to_hex mid) s)"] exI [of _ ?p] exI [of _ ob']
        exI [of _ "(enq_row ?hdr ?fr ?p t)\<lparr>qm_attempt_count := 1, qm_next_attempt_at := n\<rparr>"]) simp
qed

theorem client_message_queued_witness:
  "\<exists>s' p ob' row. enqueue_dm demo_cl_env ''c1'' [7] ''store'' (to_hex (zeros 16)) demo_texter = (s', Inr ())
    \<and> cl_calls s' = [(Outbox_Svc, ''outbox.enqueue'', p)]
    \<and> outbox_handle True wire_cbor demo_answers default_outbox_config 5 (\<lambda>_. 6) demo_outbox ''outbox.enqueue'' p =
        (ob', Inr (cmap_of [(''message_id'', VString (to_hex (zeros 16))), (''ok'', VBool True)]))
    \<and> os_messages (dm_store ob') = [row] \<and> qm_status row = MS_PENDING"
proof -
  have env: "ce_cbor demo_cl_env = wire_cbor" "ce_crypto demo_cl_env = demo_crypto"
    by (simp_all add: demo_cl_env_def)
  obtain st m where enc: "ratchet_encrypt (ce_crypto demo_cl_env) (drawn_rnd demo_cl_env (cl_draws demo_texter)) demo_state [7] = (st, Inr m)"
    using demo_encrypts_any unfolding env by blast
  have "view (ce_cbor demo_cl_env) (cl_mgr demo_texter) ''c1'' = Some demo_state" "cl_calls demo_texter = []"
    "outbox_device (list_key_c (keystore demo_texter)) = None"
    by (simp_all add: demo_texter_def client_new_def view_def keystore_def list_key_c_def query_db_def keydb_new_def outbox_device_def)
  moreover have "length (sender_id_of demo_cl_env x) = 32" for x
    by (simp add: sender_id_of_def sha3_256_def demo_cl_env_def demo_crypto_def)
  then have "frame_ok (dm_delivery demo_cl_env demo_texter demo_key_a ''store'' (zeros 16) m)"
    using calculation(3) by (simp add: frame_ok_def dm_delivery_def no_nul_def ascii_def)
  moreover have "\<not> message_exists (dm_store demo_outbox) (to_hex (zeros 16))"
    "\<forall>r\<in>set (os_recipients (dm_store demo_outbox)). ri_message_id r \<noteq> to_hex (zeros 16)" "os_messages (dm_store demo_outbox) = []"
    by (simp_all add: demo_outbox_def outbox_store_new_def message_exists_def)
  ultimately show ?thesis
    using client_message_queued [OF demo_can_send _ enc, of "zeros 16" "''store''" demo_outbox True demo_answers default_outbox_config 5 "\<lambda>_. 6"]
    by (auto simp: env wire_cbor_ok)
qed

text \<open>
  C25. The inbox and the client on messages and senders. The client's allow list is refused by
  every inbox, which keeps its own list; and when the inbox answers the call for the pending
  messages, the client fetches none of them: nothing changes but the log of its calls.
\<close>

theorem inbox_client_mismatch:
  assumes "cl_up s Inbox_Svc" "ce_ans E Inbox_Svc (length (cl_calls s)) ''inbox.get_pending'' [] = snd (inbox_handle en ans t ib ''inbox.get_pending'' [])"
  shows "(\<exists>p. push_sender_allowlist E s = (s\<lparr>cl_calls := cl_calls s @ [(Inbox_Svc, ''inbox.update_sender_allowlist'', p)]\<rparr>, Inr ())
      \<and> (\<forall>en' ans' t' ib'. inbox_handle en' ans' t' ib' ''inbox.update_sender_allowlist'' p =
            (ib', Inl (Runtime_Error ''sender_ids must be an array''))))
    \<and> fetch_pending_messages E s = (s\<lparr>cl_calls := cl_calls s @ [(Inbox_Svc, ''inbox.get_pending'', [])]\<rparr>, Inr ())"
proof (intro conjI)
  show "\<exists>p. push_sender_allowlist E s = (s\<lparr>cl_calls := cl_calls s @ [(Inbox_Svc, ''inbox.update_sender_allowlist'', p)]\<rparr>, Inr ())
      \<and> (\<forall>en' ans' t' ib'. inbox_handle en' ans' t' ib' ''inbox.update_sender_allowlist'' p =
            (ib', Inl (Runtime_Error ''sender_ids must be an array'')))"
    by (rule allowlist_call [OF assms(1)], intro exI conjI allI, assumption)
      (simp add: inbox_handle_def Inbox.on_store_def update_sender_allowlist_def Inbox.stored_def Let_def)
  show "fetch_pending_messages E s = (s\<lparr>cl_calls := cl_calls s @ [(Inbox_Svc, ''inbox.get_pending'', [])]\<rparr>, Inr ())"
    using assms by (simp add: fetch_pending_messages_def is_up_def bnd_def asks_def cond_act_def quietly_def attempt_def call_def
        inbox_handle_def ipc_get_pending_def cmap_of_def ret_def)
qed

definition demo_linked_env :: cl_env where
  "demo_linked_env = demo_cl_env\<lparr>ce_ans := (\<lambda>v n m p. snd (inbox_handle True demo_answers 5 demo_inbox m p))\<rparr>"

theorem inbox_client_mismatch_witness:
  "fetch_pending_messages demo_linked_env demo_texter = (demo_texter\<lparr>cl_calls := [(Inbox_Svc, ''inbox.get_pending'', [])]\<rparr>, Inr ())"
proof -
  have "cl_up demo_texter Inbox_Svc" "cl_calls demo_texter = []"
    by (simp_all add: demo_texter_def client_new_def)
  moreover have "ce_ans demo_linked_env Inbox_Svc (length (cl_calls demo_texter)) ''inbox.get_pending'' [] =
      snd (inbox_handle True demo_answers 5 demo_inbox ''inbox.get_pending'' [])"
    by (simp add: demo_linked_env_def)
  ultimately show ?thesis
    using inbox_client_mismatch [of demo_texter demo_linked_env True demo_answers 5 demo_inbox] by simp
qed

text \<open>
  C23. Provisioning an inbox. When the client issues the key of an inbox and the inbox answers
  its call, both sides end with the same material: the inbox holds the key pair and the two
  certificates as its credentials, and the client's keystore lists the device with them, not
  revoked.
\<close>

theorem provision_inbox_agrees:
  assumes "issued E (cl_draws s) ka kp cert deleg" "cl_up s Inbox_Svc" "ks_db (keystore s) = Open d"
    and "kp_pub kp \<noteq> []" "kp_priv kp \<noteq> []" "cert \<noteq> []"
    and "inbox_handle en ans t ib ''inbox.update_dht_delegation'' (delegation_params kp cert deleg) = (ib', r)"
    and "ce_ans E Inbox_Svc (length (cl_calls s)) ''inbox.update_dht_delegation'' (delegation_params kp cert deleg) = r"
  shows "\<exists>s' k. provision_inbox E ka s = (s', Inr ()) \<and> k \<in> set (list_key_c (keystore s'))
    \<and> cl_calls s' = cl_calls s @ [(Inbox_Svc, ''inbox.update_dht_delegation'', delegation_params kp cert deleg)]
    \<and> get_dht_credentials (dm_store ib') = Some \<lparr>cr_key_c_pubkey = kc_key_c_pubkey k, cr_key_c_privkey = kc_key_c_privkey k,
        cr_auth_cert = kc_auth_cert k, cr_delegation_cert = kc_dht_deleg_cert k\<rparr>
    \<and> kc_device_type k = ''inbox'' \<and> \<not> kc_revoked k \<and> kc_key_c_pubkey k = kp_pub kp"
proof -
  let ?k = "device_row E ''inbox'' ''inbox'' kp cert deleg"
  have r: "r = Inr ok_result" "get_dht_credentials (dm_store ib') = Some \<lparr>cr_key_c_pubkey = kp_pub kp, cr_key_c_privkey = kp_priv kp,
       cr_auth_cert = cert, cr_delegation_cert = deleg\<rparr>"
    using inbox_accepts_delegation [OF assms(4-6), of en ans t ib deleg] assms(7) by (auto simp: get_dht_credentials_def)
  obtain s' where s': "provision_inbox E ka s = (s', Inr ())"
    "cl_calls s' = cl_calls s @ [(Inbox_Svc, ''inbox.update_dht_delegation'', delegation_params kp cert deleg)]"
    "keystore s' = insert_key_c (ce_null_data E) (keystore s) ?k"
    using provision_inbox_ok [OF assms(1,2,6)] assms(8) r(1) by blast
  have "c_str ''inbox'' = ''inbox''"
    by (simp add: c_str_def)
  then have "?k \<in> set (list_key_c (keystore s'))"
    unfolding s'(3) using assms(3,6) by (intro list_insert_key_c) (simp_all add: device_row_def null_blob_def)
  then show ?thesis
    using s'(1,2) r(2) by (intro exI [of _ s'] exI [of _ ?k]) (simp add: device_row_def)
qed

theorem provision_inbox_agrees_witness:
  "\<exists>s' k. provision_inbox demo_linked_env demo_key_a demo_texter = (s', Inr ()) \<and> k \<in> set (list_key_c (keystore s'))
    \<and> kc_device_type k = ''inbox'' \<and> \<not> kc_revoked k"
proof -
  have env: "ce_cbor demo_linked_env = wire_cbor" "ce_crypto demo_linked_env = demo_crypto" "ce_behind demo_linked_env = (\<lambda>_. [])"
    by (simp_all add: demo_linked_env_def demo_cl_env_def)
  obtain kp where kp: "mldsa_keygen (ce_crypto demo_linked_env) (ce_random demo_linked_env 0 64) = Inr kp"
    "length (kp_pub kp) = MLDSA65_PUBKEY_BYTES" "length (kp_priv kp) = MLDSA65_PRIVKEY_BYTES"
    by (simp add: env mldsa_keygen_def demo_crypto_def)
  have "sig_pair (ce_crypto demo_linked_env) (ka_pubkey demo_key_a) (ka_privkey demo_key_a)"
    by (simp add: env demo_key_a_def)
  then obtain cert deleg where c: "issued demo_linked_env 0 demo_key_a kp cert deleg" "cert \<noteq> []"
    by (rule issued_exists [rotated 2]) (use kp in \<open>simp_all add: env wire_cbor_ok\<close>)
  have "cl_draws demo_texter = 0" "cl_up demo_texter Inbox_Svc" "ks_db (keystore demo_texter) = Open (keydb_new\<lparr>kt_key_a := Some demo_key_a\<rparr>)"
    by (simp_all add: demo_texter_def client_new_def keystore_def)
  moreover have "kp_pub kp \<noteq> []" "kp_priv kp \<noteq> []"
    using kp(2,3) by (auto simp: size_defs)
  moreover obtain ib r where "inbox_handle True demo_answers 5 demo_inbox ''inbox.update_dht_delegation'' (delegation_params kp cert deleg) = (ib, r)"
    by fastforce
  ultimately show ?thesis
    using provision_inbox_agrees [of demo_linked_env demo_texter demo_key_a kp cert deleg _ True demo_answers 5 demo_inbox ib r] c
    by (auto simp: demo_linked_env_def)
qed

text \<open>
  C40. The command line and the client. \<^verbatim>\<open>sw send\<close> makes one call, which the client serves by
  sending the words, joined by blanks, in the conversation, and prints the new identifier or the
  error. \<^verbatim>\<open>sw send --file\<close> makes the client send an empty text whatever the file holds: the
  attachment is ignored. Every \<^verbatim>\<open>sw call\<close> is refused, since the client serves no such request.
\<close>

theorem sw_send_end_to_end:
  assumes "served_by A E s (length (co_calls u))"
  shows "(w \<noteq> ''--file'' \<or> ws = [] \<longrightarrow> (\<exists>p. sw_main A (''send'' # c # w # ws) u =
      reported A u (''messages.send'', p) (snd (send_message E c (join_words w ws) [] s))))
    \<and> (ca_file A path = Some data \<longrightarrow> (\<exists>p. sw_main A [''send'', c, ''--file'', path] u =
      reported A u (''messages.send'', p) (snd (send_message E c [] [] s))))
    \<and> (\<exists>name p. sw_main A (''call'' # x # xs) u = (u\<lparr>co_calls := co_calls u @ [(name, p)],
      co_err := co_err u @ ''Error: IPC error 500: unknown method: '' @ name @ nl\<rparr>, Exited 1))"
proof (intro conjI impI)
  have m: "sw_main A (k # r) u = dispatch_cmd A k r u" if "k = ''send'' \<or> k = ''call''" for k r
    using assms that by (auto simp: sw_main_def served_by_def)
  show "\<exists>p. sw_main A (''send'' # c # w # ws) u = reported A u (''messages.send'', p) (snd (send_message E c (join_words w ws) [] s))"
    if "w \<noteq> ''--file'' \<or> ws = []"
    using that run_send [OF assms, of c "VString (join_words w ws)" "[]"]
    by (auto simp: m dispatch_cmd_def cli_send_def cmd_send_def text_of_val_def)
  show "\<exists>p. sw_main A [''send'', c, ''--file'', path] u = reported A u (''messages.send'', p) (snd (send_message E c [] [] s))"
    if "ca_file A path = Some data"
    using that run_send [OF assms, of c VNull "[attachment path data]"]
    by (auto simp: m dispatch_cmd_def cli_send_def cmd_send_file_def text_of_val_def)
  obtain name kvs f where "cli_call A (x # xs) = run (thenc (xcall A name kvs) f)" "map_of (handlers E) name = None"
    using cli_call_unserved by blast
  then have "sw_main A (''call'' # x # xs) u = (u\<lparr>co_calls := co_calls u @ [(name, cmap_of kvs)],
      co_err := co_err u @ ''Error: IPC error 500: unknown method: '' @ name @ nl\<rparr>, Exited 1)"
    using run_unknown [OF assms] by (simp add: m dispatch_cmd_def)
  then show "\<exists>name p. sw_main A (''call'' # x # xs) u = (u\<lparr>co_calls := co_calls u @ [(name, p)],
      co_err := co_err u @ ''Error: IPC error 500: unknown method: '' @ name @ nl\<rparr>, Exited 1)"
    by blast
qed

definition demo_cli_env :: cli_env where
  "demo_cli_env = \<lparr>ca_socket = None, ca_connect = (\<lambda>_. Inr ()),
     ca_answer = (\<lambda>n m p. over_ipc (\<lambda>_. []) (snd (handle demo_cl_env m p demo_client))), ca_file = (\<lambda>_. Some [1]),
     ca_strftime = (\<lambda>_. []), ca_what = (\<lambda>_. [])\<rparr>"

definition demo_shell :: cli where
  "demo_shell = \<lparr>co_in = [], co_out = [], co_err = [], co_calls = []\<rparr>"

theorem sw_send_end_to_end_witness:
  "\<exists>p. sw_main demo_cli_env [''send'', ''c'', ''hello'', ''world''] demo_shell =
    reported demo_cli_env demo_shell (''messages.send'', p) (snd (send_message demo_cl_env ''c'' ''hello world'' [] demo_client))"
proof -
  have "served_by demo_cli_env demo_cl_env demo_client (length (co_calls demo_shell))"
    by (simp add: served_by_def demo_cli_env_def)
  from sw_send_end_to_end [OF this, of "''hello''" "[''world'']" "''c''"] show ?thesis
    by (simp add: join_words_def)
qed

end
